(* ===== verification/OC_Prelude.thy ===== *)
theory OC_Prelude
  imports Complex_Main "HOL-Library.Sublist"
begin

text \<open>
  Shared vocabulary of the development.

  Python values: \<open>str\<close> is \<^typ>\<open>string\<close> (ASCII text), \<open>int\<close> is \<^typ>\<open>int\<close>, \<open>float\<close> is \<^typ>\<open>rat\<close>
  (every float the modelled code computes with is a ratio of small counts, a decimal setting or a
  parsed decimal), an aware \<open>datetime\<close> is its number of microseconds since the epoch and a
  \<open>timedelta\<close> a number of microseconds. A log line or a human-readable message that no code reads
  back is an \<open>fstring\<close>, the list of the f-string's pieces.

  The string helpers are the \<open>str\<close> methods the sources call. The locale \<open>first_match\<close> is the
  contract of every "first rule that applies wins" scan, and \<open>str_enum\<close> the contract of every
  \<open>class X(str, Enum)\<close>.
\<close>

named_theorems oc_defs \<open>definitions of the model that proofs unfold together\<close>

type_synonym datetime = int
type_synonym timedelta = int

definition td_seconds :: "int \<Rightarrow> timedelta" where
  "td_seconds n = n * 1000000"

definition td_hours :: "int \<Rightarrow> timedelta" where
  "td_hours n = td_seconds (n * 3600)"

definition td_days :: "int \<Rightarrow> timedelta" where
  "td_days n = td_hours (n * 24)"

lemmas td_defs [oc_defs] = td_seconds_def td_hours_def td_days_def

datatype fpiece = FLit string | FStr string | FRepr string | FReprs "string list" | FInt int | FFloat rat | FTime datetime

type_synonym fstring = "fpiece list"

section \<open>The str methods\<close>

definition to_lower :: "char \<Rightarrow> char" where
  "to_lower c = (let n = (of_char c :: nat) in if 65 \<le> n \<and> n \<le> 90 then char_of (n + 32) else c)"

definition to_upper :: "char \<Rightarrow> char" where
  "to_upper c = (let n = (of_char c :: nat) in if 97 \<le> n \<and> n \<le> 122 then char_of (n - 32) else c)"

definition py_lower :: "string \<Rightarrow> string" where
  "py_lower s = map to_lower s"

definition py_upper :: "string \<Rightarrow> string" where
  "py_upper s = map to_upper s"

definition is_space :: "char \<Rightarrow> bool" where
  "is_space c = (let n = (of_char c :: nat) in (9 \<le> n \<and> n \<le> 13) \<or> (28 \<le> n \<and> n \<le> 32))"

definition is_digit :: "char \<Rightarrow> bool" where
  "is_digit c = (let n = (of_char c :: nat) in 48 \<le> n \<and> n \<le> 57)"

definition digit_val :: "char \<Rightarrow> int" where
  "digit_val c = of_char c - 48"

definition py_strip :: "string \<Rightarrow> string" where
  "py_strip s = rev (dropWhile is_space (rev (dropWhile is_space s)))"

fun py_join :: "string \<Rightarrow> string list \<Rightarrow> string" where
  "py_join sep [] = []"
| "py_join sep [x] = x"
| "py_join sep (x # xs) = x @ sep @ py_join sep xs"

text \<open>\<open>hay.find(needle)\<close>, with \<^const>\<open>None\<close> for -1, and \<open>needle in hay\<close>.\<close>

fun str_find :: "string \<Rightarrow> string \<Rightarrow> nat option" where
  "str_find needle [] = (if needle = [] then Some 0 else None)"
| "str_find needle (c # cs) =
     (if prefix needle (c # cs) then Some 0 else map_option Suc (str_find needle cs))"

definition str_contains :: "string \<Rightarrow> string \<Rightarrow> bool" where
  "str_contains needle hay = (str_find needle hay \<noteq> None)"

definition str_endswith :: "string \<Rightarrow> string \<Rightarrow> bool" where
  "str_endswith s suf = suffix suf s"

text \<open>\<open>s.replace(old, new)\<close> for a non-empty \<open>old\<close>: left to right, without overlaps.\<close>

function py_replace :: "string \<Rightarrow> string \<Rightarrow> string \<Rightarrow> string" where
  "py_replace old new [] = []"
| "py_replace old new (c # cs) =
     (if old \<noteq> [] \<and> prefix old (c # cs) then new @ py_replace old new (drop (length old) (c # cs))
      else c # py_replace old new cs)"
  by pat_completeness auto

termination by (relation "measure (\<lambda>(_, _, s). length s)") auto

text \<open>\<open>s.split()\<close>: the maximal runs of non-space characters; \<open>acc\<close> is the reversed current run.\<close>

fun split_acc :: "string \<Rightarrow> string \<Rightarrow> string list" where
  "split_acc acc [] = (if acc = [] then [] else [rev acc])"
| "split_acc acc (c # cs) =
     (if is_space c then (if acc = [] then split_acc [] cs else rev acc # split_acc [] cs)
      else split_acc (c # acc) cs)"

definition py_split :: "string \<Rightarrow> string list" where
  "py_split s = split_acc [] s"

fun digits_val :: "int \<Rightarrow> string \<Rightarrow> int" where
  "digits_val acc [] = acc"
| "digits_val acc (c # cs) = digits_val (10 * acc + digit_val c) cs"

text \<open>
  \<open>int(s)\<close> on a string of digits with an optional leading minus, and \<open>float(s)\<close> on a string of
  digits and dots: the only inputs the modelled code passes. \<^const>\<open>None\<close> is \<open>ValueError\<close>.
\<close>

definition py_int :: "string \<Rightarrow> int option" where
  "py_int s = (case s of
      [] \<Rightarrow> None
    | c # ds \<Rightarrow>
        if c = CHR ''-'' then (if ds \<noteq> [] \<and> list_all is_digit ds then Some (- digits_val 0 ds) else None)
        else if list_all is_digit s then Some (digits_val 0 s) else None)"

definition py_float :: "string \<Rightarrow> rat option" where
  "py_float s =
     (let ip = takeWhile is_digit s; rest = dropWhile is_digit s
      in case rest of
           [] \<Rightarrow> (if ip = [] then None else Some (of_int (digits_val 0 ip)))
         | c # fp \<Rightarrow>
             if c = CHR ''.'' \<and> list_all is_digit fp \<and> (ip \<noteq> [] \<or> fp \<noteq> [])
             then Some (of_int (digits_val 0 ip) + of_int (digits_val 0 fp) / 10 ^ length fp)
             else None)"

text \<open>\<open>round(x, n)\<close>: nearest, ties to the even digit.\<close>

definition py_round :: "nat \<Rightarrow> rat \<Rightarrow> rat" where
  "py_round n x =
     (let y = x * 10 ^ n; f = \<lfloor>y\<rfloor>; d = y - of_int f
      in of_int (if d < 1/2 then f else if 1/2 < d then f + 1 else if even f then f else f + 1) / 10 ^ n)"

text \<open>\<open>str(n)\<close> for an integer, and \<open>repr\<close> of a string without quotes or escapes in it.\<close>

fun show_nat :: "nat \<Rightarrow> string" where
  "show_nat n = (if n < 10 then [char_of (48 + n)] else show_nat (n div 10) @ [char_of (48 + n mod 10)])"

declare show_nat.simps [simp del]

definition show_int :: "int \<Rightarrow> string" where
  "show_int i = (if i < 0 then CHR ''-'' # show_nat (nat (- i)) else show_nat (nat i))"

definition py_repr :: "string \<Rightarrow> string" where
  "py_repr s = [CHR 39] @ s @ [CHR 39]"

text \<open>\<open>a or b\<close> for strings, and the truth value of an optional string.\<close>

definition or_empty :: "string option \<Rightarrow> string" where
  "or_empty x = (case x of None \<Rightarrow> [] | Some s \<Rightarrow> s)"

definition truthy_str :: "string option \<Rightarrow> bool" where
  "truthy_str x = (case x of None \<Rightarrow> False | Some s \<Rightarrow> s \<noteq> [])"

text \<open>\<open>xs[-n:]\<close> for a positive \<open>n\<close>.\<close>

definition last_n :: "nat \<Rightarrow> 'a list \<Rightarrow> 'a list" where
  "last_n n xs = drop (length xs - n) xs"

section \<open>Generic lemmas\<close>

lemma str_find_bound: "str_find needle hay = Some i \<Longrightarrow> i + length needle \<le> length hay"
proof (induction hay arbitrary: i)
  case Nil
  then show ?case by (auto split: if_splits)
next
  case (Cons c cs)
  then show ?case
    by (auto split: if_splits dest: prefix_length_le)
qed

lemma str_find_drop: "str_find needle hay = Some i \<Longrightarrow> prefix needle (drop i hay)"
  by (induction hay arbitrary: i) (auto split: if_splits)

lemma str_find_prefix: "prefix needle hay \<Longrightarrow> str_find needle hay = Some 0"
  by (cases hay) auto

lemma str_contains_append: "str_contains needle (a @ needle @ b)"
  by (induction a) (auto simp: str_contains_def str_find_prefix)

lemma length_last_n [simp]: "length (last_n n xs) = min n (length xs)"
  by (simp add: last_n_def)

lemma set_last_n: "set (last_n n xs) \<subseteq> set xs"
  by (simp add: last_n_def set_drop_subset)

lemma last_n_id [simp]: "length xs \<le> n \<Longrightarrow> last_n n xs = xs"
  by (simp add: last_n_def)

lemma last_n_snoc: "0 < n \<Longrightarrow> last_n n (xs @ [x]) = last_n (n - 1) xs @ [x]"
  by (cases n) (simp_all add: last_n_def Suc_diff_le)

lemma last_n_snoc_last: "0 < n \<Longrightarrow> last (last_n n (xs @ [x])) = x"
  by (simp add: last_n_snoc)

lemma length_filter_mono: "(\<And>x. x \<in> set xs \<Longrightarrow> P x \<Longrightarrow> Q x) \<Longrightarrow> length (filter P xs) \<le> length (filter Q xs)"
  by (induction xs) (auto simp: le_SucI)

lemma filter_sub_length: "length (filter P (filter Q xs)) \<le> length (filter P xs)"
  by (induction xs) auto

section \<open>First match wins\<close>

text \<open>
  A scan over an ordered rule list: \<open>select\<close> returns the first rule that applies to the query. The
  two laws are the unfolding of the Python \<open>for\<close> loop with its early \<open>return\<close>.
\<close>

locale first_match =
  fixes applies :: "'q \<Rightarrow> 'r \<Rightarrow> bool"
    and select :: "'r list \<Rightarrow> 'q \<Rightarrow> 'r option"
  assumes select_Nil: "select [] q = None"
    and select_Cons: "select (r # rs) q = (if applies q r then Some r else select rs q)"
begin

lemma select_is_find: "select rs q = List.find (applies q) rs"
  by (induction rs) (simp_all add: select_Nil select_Cons)

lemma select_None_iff: "select rs q = None \<longleftrightarrow> (\<forall>r \<in> set rs. \<not> applies q r)"
  by (induction rs) (auto simp: select_Nil select_Cons)

lemma select_Some_iff:
  "select rs q = Some r \<longleftrightarrow>
     (\<exists>pre post. rs = pre @ r # post \<and> applies q r \<and> (\<forall>x \<in> set pre. \<not> applies q x))"
proof (induction rs)
  case Nil
  then show ?case by (simp add: select_Nil)
next
  case (Cons a rs)
  show ?case
  proof (cases "applies q a")
    case True
    then show ?thesis
      by (auto simp: select_Cons Cons_eq_append_conv intro: exI [of _ "[]"])
  next
    case False
    then have "select (a # rs) q = Some r \<longleftrightarrow> select rs q = Some r"
      by (simp add: select_Cons)
    moreover have "(\<exists>pre post. rs = pre @ r # post \<and> applies q r \<and> (\<forall>x \<in> set pre. \<not> applies q x)) \<longleftrightarrow>
        (\<exists>pre post. a # rs = pre @ r # post \<and> applies q r \<and> (\<forall>x \<in> set pre. \<not> applies q x))"
      (is "?L \<longleftrightarrow> ?R")
    proof
      assume ?L
      then obtain pre post where "rs = pre @ r # post" "applies q r" "\<forall>x \<in> set pre. \<not> applies q x"
        by blast
      with False have "a # rs = (a # pre) @ r # post \<and> applies q r \<and> (\<forall>x \<in> set (a # pre). \<not> applies q x)"
        by simp
      then show ?R by blast
    next
      assume ?R
      with False show ?L by (auto simp: Cons_eq_append_conv)
    qed
    ultimately show ?thesis using Cons.IH by simp
  qed
qed

lemma select_append: "select (rs @ ss) q = (case select rs q of None \<Rightarrow> select ss q | Some r \<Rightarrow> Some r)"
  by (induction rs) (simp_all add: select_Nil select_Cons)

lemma select_mem: "select rs q = Some r \<Longrightarrow> r \<in> set rs \<and> applies q r"
  by (auto simp: select_Some_iff)

end

section \<open>String enumerations\<close>

text \<open>
  A \<open>class X(str, Enum)\<close>: \<open>val\<close> is the member's \<open>.value\<close>, \<open>parse\<close> is the call \<open>X(s)\<close>, with
  \<^const>\<open>None\<close> for the \<open>ValueError\<close> of an unknown value.
\<close>

locale str_enum =
  fixes val :: "'e \<Rightarrow> string"
    and parse :: "string \<Rightarrow> 'e option"
  assumes parse_val: "parse (val e) = Some e"
    and val_parse: "parse s = Some e \<Longrightarrow> val e = s"
begin

lemma val_inj: "val a = val b \<longleftrightarrow> a = b"
  by (metis option.inject parse_val)

lemma parse_Some_iff: "parse s = Some e \<longleftrightarrow> val e = s"
  using parse_val val_parse by auto

lemma parse_None_iff: "parse s = None \<longleftrightarrow> s \<notin> range val"
  by (auto simp: parse_val) (metis not_None_eq rangeI val_parse)

end

end
