(* ===== verification/Contracts.thy ===== *)
theory Contracts
  imports OC_Prelude
begin

text \<open>
  The contract layer (\<open>contracts/enums.py\<close>, \<open>common.py\<close>, \<open>proposal.py\<close>, \<open>routing.py\<close>,
  \<open>execution.py\<close>): the string enumerations with their \<open>.value\<close>, and the frozen models that planning,
  routing and execution exchange. A field keeps its source name behind a prefix for its class. Fields
  no modelled code reads (creation timestamps, free telemetry, artifacts, the continuous-improvement
  spec, lifecycle payloads) are left out of the records.
\<close>

section \<open>Enumerations\<close>

datatype task_type =
  LINT_FIX | BUG_FIX | SIMPLE_EDIT | TEST_WRITE | DOCUMENTATION | REFACTOR | FEATURE
  | DEPENDENCY_UPDATE | TT_UNKNOWN

fun task_type_value :: "task_type \<Rightarrow> string" where
  "task_type_value LINT_FIX = ''lint_fix''"
| "task_type_value BUG_FIX = ''bug_fix''"
| "task_type_value SIMPLE_EDIT = ''simple_edit''"
| "task_type_value TEST_WRITE = ''test_write''"
| "task_type_value DOCUMENTATION = ''documentation''"
| "task_type_value REFACTOR = ''refactor''"
| "task_type_value FEATURE = ''feature''"
| "task_type_value DEPENDENCY_UPDATE = ''dependency_update''"
| "task_type_value TT_UNKNOWN = ''unknown''"

datatype lane_name = CLAUDE_CLI | CODEX_CLI | LANE_AIDER_LOCAL

fun lane_value :: "lane_name \<Rightarrow> string" where
  "lane_value CLAUDE_CLI = ''claude_cli''"
| "lane_value CODEX_CLI = ''codex_cli''"
| "lane_value LANE_AIDER_LOCAL = ''aider_local''"

datatype backend_name =
  DIRECT_LOCAL | AIDER_LOCAL | TEAM_EXECUTOR | DAG_EXECUTOR | CRITIQUE_EXECUTOR | OPENCLAW | DEMO_STUB

fun backend_value :: "backend_name \<Rightarrow> string" where
  "backend_value DIRECT_LOCAL = ''direct_local''"
| "backend_value AIDER_LOCAL = ''aider_local''"
| "backend_value TEAM_EXECUTOR = ''team_executor''"
| "backend_value DAG_EXECUTOR = ''dag_executor''"
| "backend_value CRITIQUE_EXECUTOR = ''critique_executor''"
| "backend_value OPENCLAW = ''openclaw''"
| "backend_value DEMO_STUB = ''demo_stub''"

datatype execution_status =
  PENDING | RUNNING | SUCCEEDED | FAILED | SKIPPED | TIMED_OUT | CANCELLED

fun status_value :: "execution_status \<Rightarrow> string" where
  "status_value PENDING = ''pending''"
| "status_value RUNNING = ''running''"
| "status_value SUCCEEDED = ''succeeded''"
| "status_value FAILED = ''failed''"
| "status_value SKIPPED = ''skipped''"
| "status_value TIMED_OUT = ''timed_out''"
| "status_value CANCELLED = ''cancelled''"

datatype validation_status = V_PASSED | V_FAILED | V_SKIPPED | V_ERROR

datatype risk_level = LOW | MEDIUM | HIGH

fun risk_value :: "risk_level \<Rightarrow> string" where
  "risk_value LOW = ''low''"
| "risk_value MEDIUM = ''medium''"
| "risk_value HIGH = ''high''"

datatype failure_reason_category =
  VALIDATION_FAILED | BACKEND_ERROR | UNSUPPORTED_REQUEST | FC_TIMEOUT | NO_CHANGES | CONFLICT
  | POLICY_BLOCKED | BUDGET_EXHAUSTED | ROUTING_ERROR | SCOPE_TOO_WIDE | FC_UNKNOWN

fun category_value :: "failure_reason_category \<Rightarrow> string" where
  "category_value VALIDATION_FAILED = ''validation_failed''"
| "category_value BACKEND_ERROR = ''backend_error''"
| "category_value UNSUPPORTED_REQUEST = ''unsupported_request''"
| "category_value FC_TIMEOUT = ''timeout''"
| "category_value NO_CHANGES = ''no_changes''"
| "category_value CONFLICT = ''conflict''"
| "category_value POLICY_BLOCKED = ''policy_blocked''"
| "category_value BUDGET_EXHAUSTED = ''budget_exhausted''"
| "category_value ROUTING_ERROR = ''routing_error''"
| "category_value SCOPE_TOO_WIDE = ''scope_too_wide''"
| "category_value FC_UNKNOWN = ''unknown''"

text \<open>\<open>X(s)\<close> for each enumeration: the member whose value is \<open>s\<close>.\<close>

definition task_types :: "task_type list" where
  "task_types = [LINT_FIX, BUG_FIX, SIMPLE_EDIT, TEST_WRITE, DOCUMENTATION, REFACTOR, FEATURE,
     DEPENDENCY_UPDATE, TT_UNKNOWN]"

definition lane_names :: "lane_name list" where
  "lane_names = [CLAUDE_CLI, CODEX_CLI, LANE_AIDER_LOCAL]"

definition backend_names :: "backend_name list" where
  "backend_names = [DIRECT_LOCAL, AIDER_LOCAL, TEAM_EXECUTOR, DAG_EXECUTOR, CRITIQUE_EXECUTOR, OPENCLAW,
     DEMO_STUB]"

definition risk_levels :: "risk_level list" where
  "risk_levels = [LOW, MEDIUM, HIGH]"

definition parse_by :: "('e \<Rightarrow> string) \<Rightarrow> 'e list \<Rightarrow> string \<Rightarrow> 'e option" where
  "parse_by v es s = List.find (\<lambda>e. v e = s) es"

section \<open>Shared value objects\<close>

record task_target =
  tt_repo_key :: string
  tt_clone_url :: string
  tt_base_branch :: string
  tt_allowed_paths :: "string list"

record execution_constraints =
  ec_max_changed_files :: "int option"
  ec_timeout_seconds :: "int option"
  ec_allowed_paths :: "string list"
  ec_require_clean_validation :: "bool option"
  ec_skip_baseline_validation :: bool

record validation_profile =
  vp_profile_name :: string
  vp_commands :: "string list"
  vp_timeout_seconds :: int
  vp_fail_fast :: bool

record branch_policy =
  bp_branch_prefix :: string
  bp_push_on_success :: bool
  bp_open_pr :: bool
  bp_allowed_base_branches :: "string list"

section \<open>Proposal and routing decision\<close>

record oc_planning_proposal =
  pp_proposal_id :: string
  pp_task_id :: string
  pp_project_id :: string
  pp_task_type :: task_type
  pp_goal_text :: string
  pp_constraints_text :: "string option"
  pp_target :: task_target
  pp_risk_level :: risk_level
  pp_constraints :: execution_constraints
  pp_validation_profile :: validation_profile
  pp_branch_policy :: branch_policy
  pp_labels :: "string list"

record oc_routing_decision =
  rd_decision_id :: string
  rd_proposal_id :: string
  rd_selected_lane :: lane_name
  rd_selected_backend :: backend_name

section \<open>Execution request and result\<close>

text \<open>
  \<open>RuntimeBinding\<close> is CxRP's class: its fields as the code reads them. The validity of a combination
  is CxRP's own and enters the model where the code constructs one.
\<close>

record runtime_binding =
  rb_kind :: string
  rb_selection_mode :: string
  rb_model :: "string option"
  rb_provider :: "string option"
  rb_endpoint :: "string option"
  rb_config_ref :: "string option"

record backend_provenance =
  prov_source :: string
  prov_repo :: "string option"
  prov_ref :: "string option"
  prov_patches :: "string list"

record bound_target =
  bt_lane :: string
  bt_backend :: string
  bt_executor :: "string option"
  bt_runtime_binding :: "runtime_binding option"
  bt_provenance :: "backend_provenance option"

record oc_execution_request =
  er_run_id :: string
  er_proposal_id :: string
  er_decision_id :: string
  er_goal_text :: string
  er_constraints_text :: "string option"
  er_repo_key :: string
  er_clone_url :: string
  er_base_branch :: string
  er_task_branch :: string
  er_workspace_path :: string
  er_goal_file_path :: "string option"
  er_allowed_paths :: "string list"
  er_max_changed_files :: "int option"
  er_timeout_seconds :: "int option"
  er_require_clean_validation :: "bool option"
  er_validation_commands :: "string list"
  er_idempotent :: bool
  er_runtime_binding :: "runtime_binding option"
  er_bound_target :: "bound_target option"

record recovery_action_summary =
  ras_attempt :: int
  ras_failure_kind :: string
  ras_decision :: string
  ras_reason :: fstring
  ras_handler_name :: "string option"
  ras_modified_fields :: "string list"
  ras_delay_seconds :: "rat option"
  ras_executor_exit_code :: "int option"
  ras_executor_signal :: "string option"
  ras_retry_strategy_used :: "string option"
  ras_retry_strategy_changed :: "bool option"
  ras_remediation_attempt_number :: "int option"
  ras_remediation_lineage_id :: "string option"
  ras_prior_failure_signature :: "string option"

record recovery_metadata_summary =
  rms_attempts :: int
  rms_actions :: "recovery_action_summary list"
  rms_final_decision :: string
  rms_retry_refused_reason :: "string option"

record oc_execution_result =
  xr_run_id :: string
  xr_proposal_id :: string
  xr_decision_id :: string
  xr_status :: execution_status
  xr_success :: bool
  xr_validation_status :: validation_status
  xr_failure_category :: "failure_reason_category option"
  xr_failure_reason :: "string option"
  xr_recovery :: "recovery_metadata_summary option"

section \<open>Concrete instances\<close>

text \<open>A small proposal and routing decision, at which later theories evaluate their properties.\<close>

definition sample_proposal :: "string list \<Rightarrow> string list \<Rightarrow> task_type \<Rightarrow> risk_level \<Rightarrow> oc_planning_proposal" where
  "sample_proposal paths labels tt risk =
     \<lparr>pp_proposal_id = ''p1'', pp_task_id = ''t1'', pp_project_id = ''proj'', pp_task_type = tt,
      pp_goal_text = ''fix it'', pp_constraints_text = None,
      pp_target = \<lparr>tt_repo_key = ''api'', tt_clone_url = ''git@host:api'', tt_base_branch = ''main'',
                   tt_allowed_paths = paths\<rparr>,
      pp_risk_level = risk,
      pp_constraints = \<lparr>ec_max_changed_files = None, ec_timeout_seconds = None, ec_allowed_paths = [],
                        ec_require_clean_validation = None, ec_skip_baseline_validation = False\<rparr>,
      pp_validation_profile = \<lparr>vp_profile_name = ''default'', vp_commands = [''pytest''],
                               vp_timeout_seconds = 300, vp_fail_fast = False\<rparr>,
      pp_branch_policy = \<lparr>bp_branch_prefix = ''auto/'', bp_push_on_success = True, bp_open_pr = False,
                          bp_allowed_base_branches = []\<rparr>,
      pp_labels = labels\<rparr>"

definition sample_decision :: "lane_name \<Rightarrow> backend_name \<Rightarrow> oc_routing_decision" where
  "sample_decision lane backend =
     \<lparr>rd_decision_id = ''d1'', rd_proposal_id = ''p1'', rd_selected_lane = lane, rd_selected_backend = backend\<rparr>"

definition sample_request :: "bool \<Rightarrow> oc_execution_request" where
  "sample_request idempotent =
     \<lparr>er_run_id = ''r1'', er_proposal_id = ''p1'', er_decision_id = ''d1'', er_goal_text = ''fix it'',
      er_constraints_text = None, er_repo_key = ''api'', er_clone_url = ''git@host:api'',
      er_base_branch = ''main'', er_task_branch = ''auto/t1'', er_workspace_path = ''/w'',
      er_goal_file_path = None, er_allowed_paths = [''src/a.py''], er_max_changed_files = None,
      er_timeout_seconds = None, er_require_clean_validation = None, er_validation_commands = [''pytest''],
      er_idempotent = idempotent, er_runtime_binding = None, er_bound_target = None\<rparr>"

definition sample_result ::
  "execution_status \<Rightarrow> failure_reason_category option \<Rightarrow> string option \<Rightarrow> oc_execution_result" where
  "sample_result st cat reason =
     \<lparr>xr_run_id = ''r1'', xr_proposal_id = ''p1'', xr_decision_id = ''d1'', xr_status = st,
      xr_success = (st = SUCCEEDED), xr_validation_status = V_SKIPPED, xr_failure_category = cat,
      xr_failure_reason = reason, xr_recovery = None\<rparr>"

section \<open>The enumerations are string codecs\<close>

lemma parse_by_Some: "parse_by v es s = Some e \<Longrightarrow> v e = s"
  by (auto simp: parse_by_def find_Some_iff)

lemma parse_by_None: "parse_by v es s = None \<Longrightarrow> e \<in> set es \<Longrightarrow> v e \<noteq> s"
  by (auto simp: parse_by_def find_None_iff)

lemma parse_by_codec:
  assumes inj: "\<And>a b. v a = v b \<longleftrightarrow> a = b" and all: "\<And>e. e \<in> set es"
  shows "str_enum v (parse_by v es)"
proof
  fix e
  show "parse_by v es (v e) = Some e"
  proof (cases "parse_by v es (v e)")
    case None
    then show ?thesis using parse_by_None [OF None all [of e]] by simp
  next
    case (Some x)
    then show ?thesis using parse_by_Some [OF Some] by (simp add: inj)
  qed
qed (rule parse_by_Some)

lemma task_type_value_inj: "task_type_value a = task_type_value b \<longleftrightarrow> a = b"
  by (cases a; cases b) simp_all

lemma lane_value_inj: "lane_value a = lane_value b \<longleftrightarrow> a = b"
  by (cases a; cases b) simp_all

lemma backend_value_inj: "backend_value a = backend_value b \<longleftrightarrow> a = b"
  by (cases a; cases b) simp_all

lemma risk_value_inj: "risk_value a = risk_value b \<longleftrightarrow> a = b"
  by (cases a; cases b) simp_all

lemma task_types_all: "t \<in> set task_types"
  by (cases t) (simp_all add: task_types_def)

lemma lane_names_all: "l \<in> set lane_names"
  by (cases l) (simp_all add: lane_names_def)

lemma backend_names_all: "b \<in> set backend_names"
  by (cases b) (simp_all add: backend_names_def)

lemma risk_levels_all: "r \<in> set risk_levels"
  by (cases r) (simp_all add: risk_levels_def)

interpretation task_type_enum: str_enum task_type_value "parse_by task_type_value task_types"
  by (rule parse_by_codec) (simp_all add: task_type_value_inj task_types_all)

interpretation lane_enum: str_enum lane_value "parse_by lane_value lane_names"
  by (rule parse_by_codec) (simp_all add: lane_value_inj lane_names_all)

interpretation backend_enum: str_enum backend_value "parse_by backend_value backend_names"
  by (rule parse_by_codec) (simp_all add: backend_value_inj backend_names_all)

interpretation risk_enum: str_enum risk_value "parse_by risk_value risk_levels"
  by (rule parse_by_codec) (simp_all add: risk_value_inj risk_levels_all)

end
