(* ===== verification/Fnmatch.thy ===== *)
theory Fnmatch
  imports OC_Prelude
begin

text \<open>
  The standard library's \<open>fnmatch.fnmatch\<close> on POSIX (where \<open>normcase\<close> is the identity), which the
  policy engine matches paths with: a pattern is read into tokens (\<open>*\<close>, \<open>?\<close>, a bracket set with its
  ranges and negation, a literal) and the tokens are matched against the whole name. \<open>*\<close> crosses
  directory separators and an unclosed \<open>[\<close> is a literal, as in \<open>fnmatch.translate\<close>.
  \<open>fn_lang\<close> is the declarative reading of a token list; \<open>fn_match_iff_lang\<close> shows that the
  backtracking matcher decides it.
\<close>

datatype fn_tok = FnStar | FnAny | FnSet bool "(char \<times> char) list" | FnLit char

section \<open>Reading a pattern\<close>

text \<open>The items of a bracket: \<open>a-b\<close> is a range, dropped when empty; any other character stands for itself.\<close>

fun fn_items :: "string \<Rightarrow> (char \<times> char) list" where
  "fn_items [] = []"
| "fn_items [a] = [(a, a)]"
| "fn_items [a, b] = [(a, a), (b, b)]"
| "fn_items (a # d # b # r) =
     (if d = CHR ''-''
      then (if (of_char a :: nat) \<le> of_char b then [(a, b)] else []) @ fn_items r
      else (a, a) # fn_items (d # b # r))"

definition take_char :: "char \<Rightarrow> string \<Rightarrow> string \<times> string" where
  "take_char c s = (case s of [] \<Rightarrow> ([], []) | x # xs \<Rightarrow> if x = c then ([x], xs) else ([], s))"

text \<open>The text between \<open>[\<close> and its \<open>]\<close>, and what follows; \<^const>\<open>None\<close> when it is not closed.\<close>

definition split_bracket :: "string \<Rightarrow> (string \<times> string) option" where
  "split_bracket r =
     (let (neg, r1) = take_char CHR ''!'' r;
          (cl, r2) = take_char CHR '']'' r1;
          body = takeWhile (\<lambda>c. c \<noteq> CHR '']'') r2
      in case dropWhile (\<lambda>c. c \<noteq> CHR '']'') r2 of
           [] \<Rightarrow> None
         | _ # rest \<Rightarrow> Some (neg @ cl @ body, rest))"

definition bracket_tok :: "string \<Rightarrow> fn_tok" where
  "bracket_tok body = (case body of
      c # cs \<Rightarrow> if c = CHR ''!'' then FnSet True (fn_items cs) else FnSet False (fn_items body)
    | [] \<Rightarrow> FnSet False [])"

lemma split_bracket_length: "split_bracket r = Some (body, rest) \<Longrightarrow> length rest < length r"
proof -
  assume a: "split_bracket r = Some (body, rest)"
  obtain neg r1 where 1: "take_char CHR ''!'' r = (neg, r1)" by fastforce
  obtain cl r2 where 2: "take_char CHR '']'' r1 = (cl, r2)" by fastforce
  have "length r2 \<le> length r1" "length r1 \<le> length r"
    using 1 2 by (auto simp: take_char_def split: list.splits if_splits)
  moreover obtain c where "dropWhile (\<lambda>c. c \<noteq> CHR '']'') r2 = c # rest"
    using a by (auto simp: split_bracket_def 1 2 split: list.splits)
  then have "length rest < length r2"
    using length_dropWhile_le [of "\<lambda>c. c \<noteq> CHR '']''" r2] by simp
  ultimately show ?thesis by simp
qed

function fn_translate :: "string \<Rightarrow> fn_tok list" where
  "fn_translate [] = []"
| "fn_translate (c # cs) =
     (if c = CHR ''*'' then FnStar # fn_translate cs
      else if c = CHR ''?'' then FnAny # fn_translate cs
      else if c = CHR ''['' then
        (case split_bracket cs of
           None \<Rightarrow> FnLit c # fn_translate cs
         | Some (body, rest) \<Rightarrow> bracket_tok body # fn_translate rest)
      else FnLit c # fn_translate cs)"
  by pat_completeness auto
termination
  by (relation "measure length") (auto dest: split_bracket_length)

section \<open>Matching\<close>

fun tok_accepts :: "fn_tok \<Rightarrow> char \<Rightarrow> bool" where
  "tok_accepts FnStar c = False"
| "tok_accepts FnAny c = True"
| "tok_accepts (FnLit a) c = (a = c)"
| "tok_accepts (FnSet neg items) c =
     (list_ex (\<lambda>(lo, hi). (of_char lo :: nat) \<le> of_char c \<and> (of_char c :: nat) \<le> of_char hi) items \<noteq> neg)"

fun fn_match :: "fn_tok list \<Rightarrow> string \<Rightarrow> bool" where
  "fn_match [] s = (s = [])"
| "fn_match (FnStar # p) [] = fn_match p []"
| "fn_match (FnStar # p) (c # s) = (fn_match p (c # s) \<or> fn_match (FnStar # p) s)"
| "fn_match (t # p) [] = False"
| "fn_match (t # p) (c # s) = (tok_accepts t c \<and> fn_match p s)"

definition fnmatch :: "string \<Rightarrow> string \<Rightarrow> bool" where
  "fnmatch name pat = fn_match (fn_translate pat) name"

section \<open>What a pattern means\<close>

inductive fn_lang :: "fn_tok list \<Rightarrow> string \<Rightarrow> bool" where
  lang_end: "fn_lang [] []"
| lang_star: "fn_lang p s \<Longrightarrow> fn_lang (FnStar # p) (u @ s)"
| lang_tok: "tok_accepts t c \<Longrightarrow> fn_lang p s \<Longrightarrow> fn_lang (t # p) (c # s)"

inductive_cases fn_lang_NilE [elim!]: "fn_lang [] s"
inductive_cases fn_lang_StarE: "fn_lang (FnStar # p) s"
inductive_cases fn_lang_ConsE: "fn_lang (t # p) s"

lemma fn_match_star_append: "fn_match p s \<Longrightarrow> fn_match (FnStar # p) (u @ s)"
  by (induction u) (cases s; simp)+

lemma fn_lang_match: "fn_lang p s \<Longrightarrow> fn_match p s"
proof (induction rule: fn_lang.induct)
  case lang_end
  then show ?case by simp
next
  case (lang_star p s u)
  show ?case by (rule fn_match_star_append [OF lang_star.IH])
next
  case (lang_tok t c p s)
  then show ?case by (cases t) simp_all
qed

lemma fn_match_lang: "fn_match p s \<Longrightarrow> fn_lang p s"
proof (induction p s rule: fn_match.induct)
  case (2 p)
  then have "fn_lang (FnStar # p) ([] @ [])" by (intro lang_star) simp
  then show ?case by simp
next
  case (3 p c s)
  from 3 consider "fn_lang p (c # s)" | "fn_lang (FnStar # p) s" by auto
  then show ?case
  proof cases
    case 1
    from lang_star [OF 1, of "[]"] show ?thesis by simp
  next
    case 2
    then obtain u s' where "s = u @ s'" "fn_lang p s'" by (auto elim: fn_lang_StarE)
    with lang_star [of p s' "c # u"] show ?thesis by simp
  qed
qed (auto intro: fn_lang.intros)

text \<open>The matcher decides the declarative reading.\<close>

lemma fn_match_iff_lang: "fn_match p s \<longleftrightarrow> fn_lang p s"
  using fn_lang_match fn_match_lang by blast

lemma fn_match_star_iff: "fn_match (FnStar # p) s \<longleftrightarrow> (\<exists>u v. s = u @ v \<and> fn_match p v)"
  by (auto simp: fn_match_iff_lang elim!: fn_lang_StarE intro: lang_star)

lemma fn_match_lits_iff: "fn_match (map FnLit l @ p) s \<longleftrightarrow> (\<exists>v. s = l @ v \<and> fn_match p v)"
proof (induction l arbitrary: s)
  case Nil
  then show ?case by simp
next
  case (Cons c l)
  then show ?case by (cases s) auto
qed

section \<open>Literal segments\<close>

definition plain_char :: "char \<Rightarrow> bool" where
  "plain_char c = (c \<noteq> CHR ''*'' \<and> c \<noteq> CHR ''?'' \<and> c \<noteq> CHR ''['')"

lemma fn_translate_plain: "list_all plain_char l \<Longrightarrow> fn_translate (l @ p) = map FnLit l @ fn_translate p"
  by (induction l) (simp_all add: plain_char_def)

lemma fn_translate_stars [simp]: "fn_translate (CHR ''*'' # cs) = FnStar # fn_translate cs"
  by simp

lemma fn_match_star_star: "fn_match (FnStar # FnStar # p) s \<longleftrightarrow> fn_match (FnStar # p) s"
  unfolding fn_match_star_iff by (metis append_assoc append_Nil)

lemma fn_match_star_only [simp]: "fn_match [FnStar] s"
  by (auto simp: fn_match_star_iff)

text \<open>A \<open>**\<close>segment\<open>**\<close> pattern asks for the segment anywhere in the name.\<close>

lemma fnmatch_infix:
  assumes "list_all plain_char l"
  shows "fnmatch s (''**'' @ l @ ''**'') \<longleftrightarrow> (\<exists>a b. s = a @ l @ b)"
proof -
  have "fn_translate (''**'' @ l @ ''**'') = FnStar # FnStar # map FnLit l @ [FnStar, FnStar]"
    using fn_translate_plain [OF assms, of "''**''"] by simp
  then show ?thesis
    by (auto simp: fnmatch_def fn_match_star_star fn_match_star_iff [of "map FnLit l @ _"] fn_match_lits_iff)
qed

lemma fnmatch_exact: "list_all plain_char l \<Longrightarrow> fnmatch s l \<longleftrightarrow> s = l"
  using fn_translate_plain [of l "[]"] fn_match_lits_iff [of l "[]" s] by (simp add: fnmatch_def)

lemma fnmatch_prefix:
  "list_all plain_char l \<Longrightarrow> fnmatch s (l @ ''**'') \<longleftrightarrow> (\<exists>b. s = l @ b)"
  using fn_translate_plain [of l "''**''"] fn_match_lits_iff [of l "[FnStar, FnStar]" s]
  by (simp add: fnmatch_def fn_match_star_star)

end
