(* ===== verification/Policy_Models.thy ===== *)
theory Policy_Models
  imports Contracts Fnmatch
begin

text \<open>
  \<open>policy/models.py\<close> and \<open>policy/defaults.py\<close>: the guardrail configuration, the decision models the
  engine produces, and the bundled default policy. \<open>PolicyStatus\<close> is ordered by severity, so that the
  aggregation of findings can be read as a maximum.
\<close>

section \<open>Status\<close>

datatype policy_status = ALLOW | ALLOW_WITH_WARNINGS | REQUIRE_REVIEW | BLOCK

fun severity :: "policy_status \<Rightarrow> nat" where
  "severity ALLOW = 0"
| "severity ALLOW_WITH_WARNINGS = 1"
| "severity REQUIRE_REVIEW = 2"
| "severity BLOCK = 3"

lemma severity_inj: "severity a = severity b \<longleftrightarrow> a = b"
  by (cases a; cases b) simp_all

instantiation policy_status :: linorder
begin

definition less_eq_policy_status :: "policy_status \<Rightarrow> policy_status \<Rightarrow> bool" where
  "less_eq_policy_status a b = (severity a \<le> severity b)"

definition less_policy_status :: "policy_status \<Rightarrow> policy_status \<Rightarrow> bool" where
  "less_policy_status a b = (severity a < severity b)"

instance
  by standard (auto simp: less_eq_policy_status_def less_policy_status_def severity_inj)

end

lemmas policy_status_order = less_eq_policy_status_def less_policy_status_def

section \<open>Guardrail configuration\<close>

record path_scope_rule =
  psr_path_pattern :: string
  psr_access_mode :: string
  psr_notes :: string
  psr_applies_to_task_types :: "string list"

record path_policy =
  pth_rules :: "path_scope_rule list"
  pth_default_mode :: string

record branch_guardrail =
  bg_allow_direct_commit :: bool
  bg_require_branch :: bool
  bg_branch_name_pattern :: string
  bg_require_pr :: bool
  bg_allowed_base_branches :: "string list"
  bg_notes :: string

record tool_guardrail =
  tg_network_mode :: string
  tg_blocked_tool_classes :: "string list"
  tg_allow_destructive_actions :: bool
  tg_notes :: string

record validation_requirement =
  vr_applies_to_risk_levels :: "string list"
  vr_applies_to_task_types :: "string list"
  vr_required_profile :: string
  vr_must_pass :: bool
  vr_block_if_unavailable :: bool

record review_requirement =
  rr_autonomous_allowed :: bool
  rr_require_review_for_risk_levels :: "string list"
  rr_require_review_for_task_types :: "string list"
  rr_blocked_without_human :: bool
  rr_notes :: string

record repo_policy =
  rp_repo_key :: string
  rp_enabled :: bool
  rp_risk_profile :: string
  rp_path_policy :: path_policy
  rp_branch_guardrail :: branch_guardrail
  rp_tool_guardrail :: tool_guardrail
  rp_validation_requirements :: "validation_requirement list"
  rp_review_requirement :: review_requirement
  rp_allowed_task_types :: "string list"
  rp_blocked_task_types :: "string list"

record policy_config =
  pc_repo_policies :: "repo_policy list"
  pc_default_policy :: "repo_policy option"

section \<open>Decision models\<close>

record policy_violation =
  pv_rule_id :: string
  pv_category :: string
  pv_message :: fstring
  pv_blocking :: bool
  pv_related_path :: "string option"
  pv_related_repo :: "string option"

record policy_warning =
  pw_rule_id :: string
  pw_category :: string
  pw_message :: fstring
  pw_related_path :: "string option"

record policy_decision =
  pd_status :: policy_status
  pd_violations :: "policy_violation list"
  pd_warnings :: "policy_warning list"
  pd_effective_validation_profile :: string
  pd_effective_review_requirement :: string
  pd_effective_scope :: "string list"
  pd_notes :: string

definition is_allowed :: "policy_decision \<Rightarrow> bool" where
  "is_allowed d = (pd_status d \<in> {ALLOW, ALLOW_WITH_WARNINGS})"

definition is_blocked :: "policy_decision \<Rightarrow> bool" where
  "is_blocked d = (pd_status d = BLOCK)"

definition requires_review :: "policy_decision \<Rightarrow> bool" where
  "requires_review d = (pd_status d = REQUIRE_REVIEW)"

section \<open>The default policy\<close>

definition scope_rule :: "string \<Rightarrow> string \<Rightarrow> string \<Rightarrow> path_scope_rule" where
  "scope_rule pat mode notes =
     \<lparr>psr_path_pattern = pat, psr_access_mode = mode, psr_notes = notes, psr_applies_to_task_types = []\<rparr>"

definition SENSITIVE_PATHS :: "path_scope_rule list" where
  "SENSITIVE_PATHS =
     [scope_rule ''*.env'' ''review_required'' ''Environment files may contain credentials or infra config'',
      scope_rule ''.env*'' ''review_required'' ''Environment files may contain credentials or infra config'',
      scope_rule ''config/secrets*'' ''review_required'' ''Secrets configuration'',
      scope_rule ''**/secrets/**'' ''review_required'' ''Secrets directory'',
      scope_rule ''docker-compose.yml'' ''review_required'' ''Infrastructure definition'',
      scope_rule ''docker-compose*.yml'' ''review_required'' ''Infrastructure definition'',
      scope_rule ''**/docker-compose*.yml'' ''review_required'' ''Infrastructure definition (nested)'',
      scope_rule ''.github/workflows/**'' ''review_required'' ''CI/CD pipeline definitions'',
      scope_rule ''.forgejo/workflows/**'' ''review_required'' ''CI/CD pipeline definitions (Forgejo Actions)'',
      scope_rule ''Dockerfile*'' ''review_required'' ''Container build definitions'',
      scope_rule ''**/migrations/**'' ''review_required'' ''Database migrations -- irreversible changes'']"

definition BLOCKED_PATHS :: "path_scope_rule list" where
  "BLOCKED_PATHS =
     [scope_rule ''**/.ssh/**'' ''block'' ''SSH keys must never be written by automation'',
      scope_rule ''**/.gnupg/**'' ''block'' ''GPG keys must never be written by automation'']"

definition sensitive_path_patterns :: "string list" where
  "sensitive_path_patterns = map psr_path_pattern (SENSITIVE_PATHS @ BLOCKED_PATHS)"

definition DEFAULT_REPO_POLICY :: repo_policy where
  "DEFAULT_REPO_POLICY =
     \<lparr>rp_repo_key = ''*'', rp_enabled = True, rp_risk_profile = ''standard'',
      rp_path_policy = \<lparr>pth_rules = BLOCKED_PATHS @ SENSITIVE_PATHS, pth_default_mode = ''allow''\<rparr>,
      rp_branch_guardrail =
        \<lparr>bg_allow_direct_commit = False, bg_require_branch = True, bg_branch_name_pattern = ''auto/*'',
         bg_require_pr = False, bg_allowed_base_branches = [], bg_notes = []\<rparr>,
      rp_tool_guardrail =
        \<lparr>tg_network_mode = ''allowed'', tg_blocked_tool_classes = [], tg_allow_destructive_actions = False,
         tg_notes = []\<rparr>,
      rp_validation_requirements =
        [\<lparr>vr_applies_to_risk_levels = [''high''], vr_applies_to_task_types = [],
          vr_required_profile = ''strict'', vr_must_pass = True, vr_block_if_unavailable = True\<rparr>,
         \<lparr>vr_applies_to_risk_levels = [''medium''], vr_applies_to_task_types = [],
          vr_required_profile = ''standard'', vr_must_pass = True, vr_block_if_unavailable = False\<rparr>,
         \<lparr>vr_applies_to_risk_levels = [''low''], vr_applies_to_task_types = [],
          vr_required_profile = ''standard'', vr_must_pass = False, vr_block_if_unavailable = False\<rparr>],
      rp_review_requirement =
        \<lparr>rr_autonomous_allowed = True, rr_require_review_for_risk_levels = [''high''],
         rr_require_review_for_task_types = [''feature'', ''refactor''], rr_blocked_without_human = False,
         rr_notes = []\<rparr>,
      rp_allowed_task_types = [], rp_blocked_task_types = []\<rparr>"

definition DEFAULT_POLICY_CONFIG :: policy_config where
  "DEFAULT_POLICY_CONFIG =
     \<lparr>pc_repo_policies = [DEFAULT_REPO_POLICY], pc_default_policy = Some DEFAULT_REPO_POLICY\<rparr>"

section \<open>Policy lookup\<close>

fun find_repo_policy :: "repo_policy list \<Rightarrow> string \<Rightarrow> repo_policy option" where
  "find_repo_policy [] key = None"
| "find_repo_policy (p # ps) key = (if rp_repo_key p = key then Some p else find_repo_policy ps key)"

definition get_repo_policy :: "policy_config \<Rightarrow> string \<Rightarrow> repo_policy" where
  "get_repo_policy cfg repo_key =
     (case find_repo_policy (pc_repo_policies cfg) repo_key of
        Some p \<Rightarrow> p
      | None \<Rightarrow>
          (case find_repo_policy (pc_repo_policies cfg) ''*'' of
             Some p \<Rightarrow> p
           | None \<Rightarrow>
               (case pc_default_policy cfg of Some p \<Rightarrow> p | None \<Rightarrow> DEFAULT_REPO_POLICY)))"

interpretation repo_lookup: first_match "\<lambda>key p. rp_repo_key p = key" find_repo_policy
  by unfold_locales simp_all

lemma get_repo_policy_specific:
  "find_repo_policy (pc_repo_policies cfg) key = Some p \<Longrightarrow> get_repo_policy cfg key = p"
  by (simp add: get_repo_policy_def)

lemma get_repo_policy_cases:
  "get_repo_policy cfg key \<in> set (pc_repo_policies cfg) \<union> set_option (pc_default_policy cfg) \<union> {DEFAULT_REPO_POLICY}"
  by (auto simp: get_repo_policy_def split: option.splits dest: repo_lookup.select_mem)

lemma get_repo_policy_key:
  assumes "get_repo_policy cfg key = p" and "\<exists>q \<in> set (pc_repo_policies cfg). rp_repo_key q = key"
  shows "rp_repo_key p = key"
proof -
  from assms(2) have "find_repo_policy (pc_repo_policies cfg) key \<noteq> None"
    by (simp add: repo_lookup.select_None_iff)
  then obtain q where "find_repo_policy (pc_repo_policies cfg) key = Some q" by auto
  with assms(1) show ?thesis
    by (auto simp: get_repo_policy_def dest: repo_lookup.select_mem)
qed

lemma get_default_config [simp]: "get_repo_policy DEFAULT_POLICY_CONFIG key = DEFAULT_REPO_POLICY"
  by (simp add: get_repo_policy_def DEFAULT_POLICY_CONFIG_def DEFAULT_REPO_POLICY_def)

end
