(* ===== verification/Policy_Engine.thy ===== *)
theory Policy_Engine
  imports Policy_Models
begin

text \<open>
  \<open>policy/engine.py\<close>: the eight guardrail checks, in the order \<open>PolicyEngine.evaluate\<close> runs them, and
  the decision builder. The two lists the checks append to are one \<open>findings\<close> value that each check
  takes and returns. The locale \<open>guardrail_check\<close> is the contract all checks share: they only append,
  and what they append does not depend on what is already there. \<open>policy_spec_status\<close> is the
  abstract reading of the guardrails (which conditions block, which ask for review, which only warn).
\<close>

type_synonym findings = "policy_violation list \<times> policy_warning list"

section \<open>Appending findings\<close>

definition violation :: "string \<Rightarrow> string \<Rightarrow> fstring \<Rightarrow> bool \<Rightarrow> string option \<Rightarrow> string option \<Rightarrow> policy_violation" where
  "violation rid cat msg blocking path repo =
     \<lparr>pv_rule_id = rid, pv_category = cat, pv_message = msg, pv_blocking = blocking,
      pv_related_path = path, pv_related_repo = repo\<rparr>"

definition warning :: "string \<Rightarrow> string \<Rightarrow> fstring \<Rightarrow> policy_warning" where
  "warning rid cat msg = \<lparr>pw_rule_id = rid, pw_category = cat, pw_message = msg, pw_related_path = None\<rparr>"

definition add_violation :: "policy_violation \<Rightarrow> findings \<Rightarrow> findings" where
  "add_violation v f = (fst f @ [v], snd f)"

definition add_warning :: "policy_warning \<Rightarrow> findings \<Rightarrow> findings" where
  "add_warning w f = (fst f, snd f @ [w])"

section \<open>The checks\<close>

definition LOCAL_LANES :: "string list" where
  "LOCAL_LANES = [''aider_local'']"

definition LOCAL_ONLY_LABELS :: "string list" where
  "LOCAL_ONLY_LABELS = [''local_only'', ''no_remote'']"

definition check_repo_enabled :: "repo_policy \<Rightarrow> findings \<Rightarrow> findings" where
  "check_repo_enabled policy f =
     (if \<not> rp_enabled policy then
        add_violation (violation ''repo.disabled'' ''repo''
          [FLit ''Repo '', FRepr (rp_repo_key policy), FLit '' is disabled in policy configuration'']
          True None None) f
      else f)"

definition check_task_type :: "oc_planning_proposal \<Rightarrow> repo_policy \<Rightarrow> findings \<Rightarrow> findings" where
  "check_task_type proposal policy f =
     (let tt = task_type_value (pp_task_type proposal);
          f1 = (if rp_blocked_task_types policy \<noteq> [] \<and> tt \<in> set (rp_blocked_task_types policy) then
                  add_violation (violation ''task_type.blocked'' ''repo''
                    [FLit ''Task type '', FRepr tt, FLit '' is blocked for repo '', FRepr (rp_repo_key policy)]
                    True None (Some (tt_repo_key (pp_target proposal)))) f
                else f)
      in if rp_allowed_task_types policy \<noteq> [] \<and> tt \<notin> set (rp_allowed_task_types policy) then
           add_violation (violation ''task_type.not_in_allowlist'' ''repo''
             [FLit ''Task type '', FRepr tt, FLit '' is not in the allowed task type list for repo '',
              FRepr (rp_repo_key policy)]
             True None (Some (tt_repo_key (pp_target proposal)))) f1
         else f1)"

definition check_routing_constraints :: "oc_planning_proposal \<Rightarrow> oc_routing_decision \<Rightarrow> findings \<Rightarrow> findings" where
  "check_routing_constraints proposal decision f =
     (let triggering = filter (\<lambda>l. l \<in> set (pp_labels proposal)) LOCAL_ONLY_LABELS
      in if triggering = [] then f
         else let lane = lane_value (rd_selected_lane decision)
              in if lane \<notin> set LOCAL_LANES then
                   add_violation (violation ''routing.local_only_violated'' ''routing''
                     [FLit ''Proposal labels '', FReprs triggering,
                      FLit '' require local execution, but routing selected remote lane '', FRepr lane]
                     True None None) f
                 else f)"

fun match_path_rule :: "path_scope_rule list \<Rightarrow> string \<times> string \<Rightarrow> path_scope_rule option" where
  "match_path_rule [] (path, tt) = None"
| "match_path_rule (rule # rules) (path, tt) =
     (if psr_applies_to_task_types rule \<noteq> [] \<and> tt \<notin> set (psr_applies_to_task_types rule)
      then match_path_rule rules (path, tt)
      else if fnmatch path (psr_path_pattern rule) then Some rule
      else match_path_rule rules (path, tt))"

definition candidate_paths :: "oc_planning_proposal \<Rightarrow> oc_execution_request option \<Rightarrow> string list" where
  "candidate_paths proposal request =
     (case request of
        Some r \<Rightarrow> if er_allowed_paths r \<noteq> [] then er_allowed_paths r else tt_allowed_paths (pp_target proposal)
      | None \<Rightarrow> tt_allowed_paths (pp_target proposal))"

definition check_one_path :: "path_policy \<Rightarrow> string \<Rightarrow> string \<Rightarrow> findings \<Rightarrow> findings" where
  "check_one_path pp tt path f =
     (case match_path_rule (pth_rules pp) (path, tt) of
        None \<Rightarrow>
          if pth_default_mode pp = ''block'' then
            add_violation (violation ''path.default_blocked'' ''path''
              [FLit ''Path '', FRepr path, FLit '' is not covered by any allow rule and default mode is '', FRepr ''block'']
              True (Some path) None) f
          else if pth_default_mode pp = ''review_required'' then
            add_violation (violation ''path.default_review_required'' ''path''
              [FLit ''Path '', FRepr path, FLit '' requires review (default path mode)'']
              False (Some path) None) f
          else f
      | Some rule \<Rightarrow>
          if psr_access_mode rule = ''block'' then
            add_violation (violation ''path.blocked'' ''path''
              [FLit ''Path '', FRepr path, FLit '' is blocked by policy rule (pattern: '',
               FRepr (psr_path_pattern rule), FLit '')'']
              True (Some path) None) f
          else if psr_access_mode rule \<in> {''read_only'', ''review_required''} then
            add_violation (violation ''path.review_required'' ''path''
              [FLit ''Path '', FRepr path, FLit '' requires human review (pattern: '',
               FRepr (psr_path_pattern rule), FLit ''; mode: '', FRepr (psr_access_mode rule), FLit '')'']
              False (Some path) None) f
          else f)"

definition check_path_restrictions ::
  "oc_planning_proposal \<Rightarrow> repo_policy \<Rightarrow> oc_execution_request option \<Rightarrow> findings \<Rightarrow> findings" where
  "check_path_restrictions proposal policy request f =
     (let paths = candidate_paths proposal request; pp = rp_path_policy policy
      in if paths = [] then
           (if pth_default_mode pp = ''block'' then
              add_violation (violation ''path.unrestricted_writes_blocked'' ''path''
                [FLit ''No path restriction declared on this task, but default path mode is '', FRepr ''block'',
                 FLit ''. Explicit allowed_paths must be set.'']
                True None None) f
            else if pth_default_mode pp = ''review_required'' then
              add_warning (warning ''path.unrestricted_writes_review'' ''path''
                [FLit ''No path restriction declared on this task, but default path mode is '', FRepr ''review_required'',
                 FLit ''. This task needs human review.'']) f
            else f)
         else fold (check_one_path pp (task_type_value (pp_task_type proposal))) paths f)"

definition check_branch_guardrail :: "oc_planning_proposal \<Rightarrow> repo_policy \<Rightarrow> findings \<Rightarrow> findings" where
  "check_branch_guardrail proposal policy f =
     (let bg = rp_branch_guardrail policy; branch = pp_branch_policy proposal;
          f1 = (if \<not> bg_allow_direct_commit bg \<and> bp_branch_prefix branch = [] then
                  add_warning (warning ''branch.no_prefix_set'' ''branch''
                    [FLit ''branch_prefix is empty; ensure a task branch is used rather than direct commit'']) f
                else f);
          f2 = (if bg_allowed_base_branches bg \<noteq> []
                  \<and> tt_base_branch (pp_target proposal) \<notin> set (bg_allowed_base_branches bg) then
                  add_violation (violation ''branch.base_branch_not_allowed'' ''branch''
                    [FLit ''Base branch '', FRepr (tt_base_branch (pp_target proposal)),
                     FLit '' is not in the allowed base branches list: '', FReprs (bg_allowed_base_branches bg)]
                    True None None) f1
                else f1)
      in if bg_require_pr bg \<and> \<not> bp_open_pr branch then
           add_violation (violation ''branch.pr_required'' ''branch''
             [FLit ''Policy requires a PR, but proposal branch_policy.open_pr is False'']
             False None None) f2
         else f2)"

definition DESTRUCTIVE_INDICATORS :: "string list" where
  "DESTRUCTIVE_INDICATORS = [''drop_table'', ''rm_rf'', ''force_push'', ''destructive'']"

definition check_tool_guardrail ::
  "oc_planning_proposal \<Rightarrow> oc_routing_decision \<Rightarrow> repo_policy \<Rightarrow> findings \<Rightarrow> findings" where
  "check_tool_guardrail proposal decision policy f =
     (let tg = rp_tool_guardrail policy; lane = lane_value (rd_selected_lane decision);
          f1 = (if tg_network_mode tg = ''local_only'' then
                  (if lane \<notin> set LOCAL_LANES then
                     add_violation (violation ''tool.network_local_only'' ''tool''
                       [FLit ''Tool policy requires local-only execution, but routing selected remote lane '', FRepr lane]
                       True None None) f
                   else f)
                else if tg_network_mode tg = ''blocked'' then
                  add_violation (violation ''tool.network_blocked'' ''tool''
                    [FLit ''All network execution is blocked by tool policy for this repo''] True None None) f
                else f)
      in if \<not> tg_allow_destructive_actions tg
            \<and> list_ex (\<lambda>l. py_lower l \<in> set DESTRUCTIVE_INDICATORS) (pp_labels proposal) then
           add_violation (violation ''tool.destructive_blocked'' ''tool''
             [FLit ''Destructive actions are blocked by policy, but proposal labels indicate a potentially destructive operation'']
             True None None) f1
         else f1)"

definition validation_req_applies :: "string \<times> string \<Rightarrow> validation_requirement \<Rightarrow> bool" where
  "validation_req_applies q vr =
     ((vr_applies_to_risk_levels vr = [] \<or> fst q \<in> set (vr_applies_to_risk_levels vr))
      \<and> (vr_applies_to_task_types vr = [] \<or> snd q \<in> set (vr_applies_to_task_types vr)))"

fun first_requirement :: "validation_requirement list \<Rightarrow> string \<times> string \<Rightarrow> validation_requirement option" where
  "first_requirement [] q = None"
| "first_requirement (vr # vrs) q =
     (if \<not> validation_req_applies q vr then first_requirement vrs q else Some vr)"

definition validation_available :: "oc_planning_proposal \<Rightarrow> oc_execution_request option \<Rightarrow> bool" where
  "validation_available proposal request =
     ((case request of Some r \<Rightarrow> er_validation_commands r \<noteq> [] | None \<Rightarrow> False)
      \<or> vp_commands (pp_validation_profile proposal) \<noteq> [])"

definition check_validation_requirements ::
  "oc_planning_proposal \<Rightarrow> repo_policy \<Rightarrow> oc_execution_request option \<Rightarrow> findings \<Rightarrow> findings" where
  "check_validation_requirements proposal policy request f =
     (let risk = risk_value (pp_risk_level proposal); tt = task_type_value (pp_task_type proposal);
          avail = validation_available proposal request
      in case first_requirement (rp_validation_requirements policy) (risk, tt) of
           None \<Rightarrow> f
         | Some vr \<Rightarrow>
             if \<not> avail \<and> vr_block_if_unavailable vr then
               add_violation (violation ''validation.required_unavailable'' ''validation''
                 [FLit ''Validation profile '', FRepr (vr_required_profile vr), FLit '' is required for risk='',
                  FRepr risk, FLit '' but no validation commands are configured'']
                 True None None) f
             else if \<not> avail then
               add_warning (warning ''validation.recommended_unavailable'' ''validation''
                 [FLit ''Validation profile '', FRepr (vr_required_profile vr), FLit '' is recommended for risk='',
                  FRepr risk, FLit '' but no validation commands are configured'']) f
             else f)"

definition TRUSTED_SOURCE_LABELS :: "string list" where
  "TRUSTED_SOURCE_LABELS = [''source: autonomy'', ''source: spec-campaign'', ''source: board_worker'']"

definition check_review_requirements :: "oc_planning_proposal \<Rightarrow> repo_policy \<Rightarrow> findings \<Rightarrow> findings" where
  "check_review_requirements proposal policy f =
     (let rr = rp_review_requirement policy; risk = risk_value (pp_risk_level proposal);
          tt = task_type_value (pp_task_type proposal); labels = pp_labels proposal
      in if rr_blocked_without_human rr then
           add_violation (violation ''review.blocked_without_human'' ''review''
             [FLit ''Policy requires explicit human approval for this repo; autonomous execution is blocked'']
             True None None) f
         else let trusted = list_ex (\<lambda>l. l \<in> set labels) TRUSTED_SOURCE_LABELS;
                  needs_review = (\<not> rr_autonomous_allowed rr \<or> ''review_required'' \<in> set labels
                    \<or> (\<not> trusted \<and> (risk \<in> set (rr_require_review_for_risk_levels rr)
                                   \<or> tt \<in> set (rr_require_review_for_task_types rr))))
              in if needs_review then
                   add_violation (violation ''review.required'' ''review''
                     [FLit ''Human review required: risk='', FRepr risk, FLit '', task_type='', FRepr tt]
                     False None None) f
                 else f)"

section \<open>Building the decision\<close>

definition determine_status :: "findings \<Rightarrow> policy_status" where
  "determine_status f =
     (if list_ex pv_blocking (fst f) then BLOCK
      else if list_ex (\<lambda>v. \<not> pv_blocking v) (fst f) then REQUIRE_REVIEW
      else if snd f \<noteq> [] then ALLOW_WITH_WARNINGS
      else ALLOW)"

definition effective_validation_profile :: "oc_planning_proposal \<Rightarrow> repo_policy \<Rightarrow> string" where
  "effective_validation_profile proposal policy =
     (case first_requirement (rp_validation_requirements policy)
             (risk_value (pp_risk_level proposal), task_type_value (pp_task_type proposal)) of
        Some vr \<Rightarrow> vr_required_profile vr
      | None \<Rightarrow> ''standard'')"

definition effective_review_requirement :: "repo_policy \<Rightarrow> policy_violation list \<Rightarrow> string" where
  "effective_review_requirement policy vs =
     (if list_ex (\<lambda>v. pv_category v = ''review'' \<and> \<not> pv_blocking v) vs then ''required''
      else if \<not> rr_autonomous_allowed (rp_review_requirement policy) then ''required''
      else ''autonomous'')"

definition effective_scope :: "oc_planning_proposal \<Rightarrow> oc_execution_request option \<Rightarrow> string list" where
  "effective_scope proposal request =
     (case request of
        Some r \<Rightarrow> if er_allowed_paths r \<noteq> [] then er_allowed_paths r else tt_allowed_paths (pp_target proposal)
      | None \<Rightarrow> tt_allowed_paths (pp_target proposal))"

definition build_notes :: "findings \<Rightarrow> string" where
  "build_notes f =
     (let p1 = (if fst f \<noteq> [] then [''violations: '' @ py_join '', '' (map pv_rule_id (fst f))] else []);
          p2 = (if snd f \<noteq> [] then [''warnings: '' @ py_join '', '' (map pw_rule_id (snd f))] else [])
      in py_join ''; '' (p1 @ p2))"

definition build_decision ::
  "findings \<Rightarrow> repo_policy \<Rightarrow> oc_planning_proposal \<Rightarrow> oc_execution_request option \<Rightarrow> policy_decision" where
  "build_decision f policy proposal request =
     \<lparr>pd_status = determine_status f,
      pd_violations = fst f,
      pd_warnings = snd f,
      pd_effective_validation_profile = effective_validation_profile proposal policy,
      pd_effective_review_requirement = effective_review_requirement policy (fst f),
      pd_effective_scope = effective_scope proposal request,
      pd_notes = build_notes f\<rparr>"

definition evaluate ::
  "policy_config \<Rightarrow> oc_planning_proposal \<Rightarrow> oc_routing_decision \<Rightarrow> oc_execution_request option \<Rightarrow> policy_decision" where
  "evaluate cfg proposal decision request =
     (let policy = get_repo_policy cfg (tt_repo_key (pp_target proposal));
          f1 = check_repo_enabled policy ([], [])
      in if list_ex pv_blocking (fst f1) then build_decision f1 policy proposal request
         else let f2 = check_task_type proposal policy f1;
                  f3 = check_routing_constraints proposal decision f2;
                  f4 = check_path_restrictions proposal policy request f3;
                  f5 = check_branch_guardrail proposal policy f4;
                  f6 = check_tool_guardrail proposal decision policy f5;
                  f7 = check_validation_requirements proposal policy request f6;
                  f8 = check_review_requirements proposal policy f7
              in build_decision f8 policy proposal request)"

section \<open>First-match scans\<close>

definition path_rule_applies :: "string \<times> string \<Rightarrow> path_scope_rule \<Rightarrow> bool" where
  "path_rule_applies q rule =
     ((psr_applies_to_task_types rule = [] \<or> snd q \<in> set (psr_applies_to_task_types rule))
      \<and> fnmatch (fst q) (psr_path_pattern rule))"

interpretation path_rules: first_match path_rule_applies match_path_rule
proof
  show "match_path_rule [] q = None" for q
    by (cases q) simp
  show "match_path_rule (r # rs) q = (if path_rule_applies q r then Some r else match_path_rule rs q)" for r rs q
    by (cases q) (simp add: path_rule_applies_def)
qed

interpretation requirements: first_match validation_req_applies first_requirement
  by unfold_locales simp_all

section \<open>Checks only append\<close>

lemma determine_status_append:
  "determine_status (vs @ vs', ws @ ws') = max (determine_status (vs, ws)) (determine_status (vs', ws'))"
  by (auto simp: determine_status_def max_def policy_status_order)

lemma determine_status_empty [simp]: "determine_status ([], []) = ALLOW"
  by (simp add: determine_status_def)

lemma ALLOW_least [simp]: "ALLOW \<le> s" "max ALLOW s = s" "max s ALLOW = s"
  by (cases s; simp add: policy_status_order max_def)+

lemma BLOCK_greatest [simp]: "s \<le> BLOCK" "BLOCK \<le> s \<longleftrightarrow> s = BLOCK" "max BLOCK s = BLOCK" "max s BLOCK = BLOCK"
  by (cases s; simp add: policy_status_order max_def)+

locale guardrail_check =
  fixes check :: "findings \<Rightarrow> findings"
  assumes appends: "check f = (fst f @ fst (check ([], [])), snd f @ snd (check ([], [])))"
begin

lemma keeps_violations: "v \<in> set (fst f) \<Longrightarrow> v \<in> set (fst (check f))"
  by (subst appends) simp

lemma keeps_warnings: "w \<in> set (snd f) \<Longrightarrow> w \<in> set (snd (check f))"
  by (subst appends) simp

lemma status_check: "determine_status (check f) = max (determine_status f) (determine_status (check ([], [])))"
  by (subst appends) (simp add: determine_status_append)

lemma status_grows: "determine_status f \<le> determine_status (check f)"
  using status_check [of f] by simp

end

lemma guardrail_checkI:
  assumes "\<And>f. check f = (fst f @ dv, snd f @ dw)"
  shows "guardrail_check check"
proof
  fix f
  show "check f = (fst f @ fst (check ([], [])), snd f @ snd (check ([], [])))"
    unfolding assms [of f] assms [of "([], [])"] by simp
qed

lemma guardrail_check_comp:
  assumes "guardrail_check a" "guardrail_check b"
  shows "guardrail_check (\<lambda>f. b (a f))"
proof (rule guardrail_checkI)
  fix f
  show "b (a f) = (fst f @ (fst (a ([], [])) @ fst (b ([], []))), snd f @ (snd (a ([], [])) @ snd (b ([], []))))"
    using guardrail_check.appends [OF assms(1), of f] guardrail_check.appends [OF assms(2), of "a f"] by simp
qed

lemma guardrail_check_id: "guardrail_check (\<lambda>f. f)"
  by (rule guardrail_checkI [of _ "[]" "[]"]) simp

lemma guardrail_check_fold:
  assumes "\<And>x. guardrail_check (c x)"
  shows "guardrail_check (fold c xs)"
proof (induction xs)
  case Nil
  then show ?case using guardrail_check_id by (simp add: id_def)
next
  case (Cons x xs)
  then show ?case using guardrail_check_comp [OF assms [of x] Cons.IH] by (simp add: comp_def)
qed

lemma guardrail_check_if: "guardrail_check a \<Longrightarrow> guardrail_check b \<Longrightarrow> guardrail_check (\<lambda>f. if c then a f else b f)"
  by (cases c) simp_all

lemma guardrail_check_violation: "guardrail_check (add_violation v)"
  by (rule guardrail_checkI [of _ "[v]" "[]"]) (simp add: add_violation_def)

lemma guardrail_check_warning: "guardrail_check (add_warning w)"
  by (rule guardrail_checkI [of _ "[]" "[w]"]) (simp add: add_warning_def)

lemmas add_defs = add_violation_def add_warning_def

lemma guardrail_check_one_path: "guardrail_check (check_one_path pp tt path)"
  by unfold_locales (simp add: check_one_path_def add_defs split: option.split)

interpretation chk_repo: guardrail_check "check_repo_enabled policy" for policy
  by unfold_locales (simp add: check_repo_enabled_def add_defs)

interpretation chk_task: guardrail_check "check_task_type proposal policy" for proposal policy
  by unfold_locales (simp add: check_task_type_def add_defs Let_def)

interpretation chk_routing: guardrail_check "check_routing_constraints proposal decision" for proposal decision
  by unfold_locales (simp add: check_routing_constraints_def add_defs Let_def)

interpretation chk_one_path: guardrail_check "check_one_path pp tt path" for pp tt path
  by (rule guardrail_check_one_path)

interpretation chk_path: guardrail_check "check_path_restrictions proposal policy request"
  for proposal policy request
  unfolding check_path_restrictions_def Let_def
  by (intro guardrail_check_if guardrail_check_id guardrail_check_violation guardrail_check_warning
      guardrail_check_fold guardrail_check_one_path)

interpretation chk_branch: guardrail_check "check_branch_guardrail proposal policy" for proposal policy
  by unfold_locales (simp add: check_branch_guardrail_def add_defs Let_def)

interpretation chk_tool: guardrail_check "check_tool_guardrail proposal decision policy"
  for proposal decision policy
  by unfold_locales (simp add: check_tool_guardrail_def add_defs Let_def)

interpretation chk_validation: guardrail_check "check_validation_requirements proposal policy request"
  for proposal policy request
  by unfold_locales (simp add: check_validation_requirements_def add_defs Let_def split: option.split)

interpretation chk_review: guardrail_check "check_review_requirements proposal policy" for proposal policy
  unfolding check_review_requirements_def Let_def
  by (intro guardrail_check_if guardrail_check_id guardrail_check_violation)

end
