(* ===== verification/Policy_Spec.thy ===== *)
theory Policy_Spec
  imports Policy_Engine
begin

text \<open>
  What the policy gate promises, and that \<open>PolicyEngine.evaluate\<close> keeps it. \<open>spec_status\<close> says, guardrail
  by guardrail, which status a proposal earns; the gate's status is the worst of them. The refinement
  \<open>evaluate_refines_spec\<close> rests on the append-only contract of the checks. The other properties read the
  default policy: which paths it stops, and where its globs leave a gap.
\<close>

section \<open>The worst of several statuses\<close>

definition worst :: "policy_status list \<Rightarrow> policy_status" where
  "worst xs = foldr max xs ALLOW"

lemma worst_simps [simp]: "worst [] = ALLOW" "worst (x # xs) = max x (worst xs)"
  by (simp_all add: worst_def)

lemma worst_append [simp]: "worst (xs @ ys) = max (worst xs) (worst ys)"
  by (induction xs) (simp_all add: max.assoc)

lemma le_ALLOW [simp]: "s \<le> ALLOW \<longleftrightarrow> s = ALLOW"
  by (cases s) (simp_all add: policy_status_order)

lemma le_worst_iff: "s \<le> worst xs \<longleftrightarrow> s = ALLOW \<or> (\<exists>x \<in> set xs. s \<le> x)"
  by (induction xs) (auto simp: le_max_iff_disj)

lemma worst_upper: "x \<in> set xs \<Longrightarrow> x \<le> worst xs"
  by (auto simp: le_worst_iff)

lemma worst_seven: "max (max (max (max (max (max a b) c) d) e) f) g = worst [a, b, c, d, e, f, g]"
  by (simp add: max.assoc)

lemma worst_eq_BLOCK: "worst xs = BLOCK \<longleftrightarrow> BLOCK \<in> set xs"
  using le_worst_iff [of BLOCK xs] by simp

section \<open>The abstract gate\<close>

definition spec_task_type :: "repo_policy \<Rightarrow> string \<Rightarrow> policy_status" where
  "spec_task_type policy tt =
     (if tt \<in> set (rp_blocked_task_types policy)
         \<or> (rp_allowed_task_types policy \<noteq> [] \<and> tt \<notin> set (rp_allowed_task_types policy))
      then BLOCK else ALLOW)"

definition spec_local_only :: "string list \<Rightarrow> lane_name \<Rightarrow> policy_status" where
  "spec_local_only labels lane =
     (if (''local_only'' \<in> set labels \<or> ''no_remote'' \<in> set labels) \<and> lane \<noteq> LANE_AIDER_LOCAL
      then BLOCK else ALLOW)"

definition spec_one_path :: "path_policy \<Rightarrow> string \<Rightarrow> string \<Rightarrow> policy_status" where
  "spec_one_path pp tt path =
     (case match_path_rule (pth_rules pp) (path, tt) of
        None \<Rightarrow> if pth_default_mode pp = ''block'' then BLOCK
                 else if pth_default_mode pp = ''review_required'' then REQUIRE_REVIEW else ALLOW
      | Some rule \<Rightarrow> if psr_access_mode rule = ''block'' then BLOCK
                 else if psr_access_mode rule \<in> {''read_only'', ''review_required''} then REQUIRE_REVIEW else ALLOW)"

definition spec_paths :: "path_policy \<Rightarrow> string \<Rightarrow> string list \<Rightarrow> policy_status" where
  "spec_paths pp tt paths =
     (if paths = [] then
        (if pth_default_mode pp = ''block'' then BLOCK
         else if pth_default_mode pp = ''review_required'' then ALLOW_WITH_WARNINGS else ALLOW)
      else worst (map (spec_one_path pp tt) paths))"

definition spec_branch :: "branch_guardrail \<Rightarrow> branch_policy \<Rightarrow> string \<Rightarrow> policy_status" where
  "spec_branch bg branch base =
     (if bg_allowed_base_branches bg \<noteq> [] \<and> base \<notin> set (bg_allowed_base_branches bg) then BLOCK
      else if bg_require_pr bg \<and> \<not> bp_open_pr branch then REQUIRE_REVIEW
      else if \<not> bg_allow_direct_commit bg \<and> bp_branch_prefix branch = [] then ALLOW_WITH_WARNINGS
      else ALLOW)"

definition spec_tool :: "tool_guardrail \<Rightarrow> string list \<Rightarrow> lane_name \<Rightarrow> policy_status" where
  "spec_tool tg labels lane =
     (if tg_network_mode tg = ''blocked''
         \<or> (tg_network_mode tg = ''local_only'' \<and> lane \<noteq> LANE_AIDER_LOCAL)
         \<or> (\<not> tg_allow_destructive_actions tg
            \<and> (\<exists>l \<in> set labels. py_lower l \<in> set DESTRUCTIVE_INDICATORS))
      then BLOCK else ALLOW)"

definition spec_validation :: "validation_requirement list \<Rightarrow> string \<times> string \<Rightarrow> bool \<Rightarrow> policy_status" where
  "spec_validation vrs q available =
     (case first_requirement vrs q of
        None \<Rightarrow> ALLOW
      | Some vr \<Rightarrow> if available then ALLOW
                   else if vr_block_if_unavailable vr then BLOCK else ALLOW_WITH_WARNINGS)"

definition spec_review :: "review_requirement \<Rightarrow> string \<times> string \<Rightarrow> string list \<Rightarrow> policy_status" where
  "spec_review rr q labels =
     (if rr_blocked_without_human rr then BLOCK
      else if \<not> rr_autonomous_allowed rr \<or> ''review_required'' \<in> set labels then REQUIRE_REVIEW
      else if (fst q \<in> set (rr_require_review_for_risk_levels rr) \<or> snd q \<in> set (rr_require_review_for_task_types rr))
              \<and> set TRUSTED_SOURCE_LABELS \<inter> set labels = {} then REQUIRE_REVIEW
      else ALLOW)"

definition guardrail_statuses ::
  "repo_policy \<Rightarrow> oc_planning_proposal \<Rightarrow> oc_routing_decision \<Rightarrow> oc_execution_request option \<Rightarrow> policy_status list" where
  "guardrail_statuses policy proposal decision request =
     [spec_task_type policy (task_type_value (pp_task_type proposal)),
      spec_local_only (pp_labels proposal) (rd_selected_lane decision),
      spec_paths (rp_path_policy policy) (task_type_value (pp_task_type proposal)) (candidate_paths proposal request),
      spec_branch (rp_branch_guardrail policy) (pp_branch_policy proposal) (tt_base_branch (pp_target proposal)),
      spec_tool (rp_tool_guardrail policy) (pp_labels proposal) (rd_selected_lane decision),
      spec_validation (rp_validation_requirements policy)
        (risk_value (pp_risk_level proposal), task_type_value (pp_task_type proposal))
        (validation_available proposal request),
      spec_review (rp_review_requirement policy)
        (risk_value (pp_risk_level proposal), task_type_value (pp_task_type proposal)) (pp_labels proposal)]"

definition spec_status ::
  "repo_policy \<Rightarrow> oc_planning_proposal \<Rightarrow> oc_routing_decision \<Rightarrow> oc_execution_request option \<Rightarrow> policy_status" where
  "spec_status policy proposal decision request =
     (if \<not> rp_enabled policy then BLOCK else worst (guardrail_statuses policy proposal decision request))"

section \<open>Each check earns its status\<close>

lemmas status_unfold = determine_status_def add_defs violation_def warning_def

lemma lane_local_iff: "lane_value l \<in> set LOCAL_LANES \<longleftrightarrow> l = LANE_AIDER_LOCAL"
  by (cases l) (simp_all add: LOCAL_LANES_def)

lemma task_type_status:
  "determine_status (check_task_type proposal policy ([], []))
   = spec_task_type policy (task_type_value (pp_task_type proposal))"
  by (auto simp: check_task_type_def spec_task_type_def status_unfold Let_def)

lemma routing_status:
  "determine_status (check_routing_constraints proposal decision ([], []))
   = spec_local_only (pp_labels proposal) (rd_selected_lane decision)"
  by (auto simp: check_routing_constraints_def spec_local_only_def status_unfold Let_def lane_local_iff
      LOCAL_ONLY_LABELS_def)

lemma one_path_status:
  "determine_status (check_one_path pp tt path ([], [])) = spec_one_path pp tt path"
  by (auto simp: check_one_path_def spec_one_path_def status_unfold split: option.split)

lemma paths_status_fold:
  "determine_status (fold (check_one_path pp tt) paths f)
   = max (determine_status f) (worst (map (spec_one_path pp tt) paths))"
proof (induction paths arbitrary: f)
  case Nil
  then show ?case by simp
next
  case (Cons p ps)
  then show ?case
    by (simp add: chk_one_path.status_check [of pp tt p f] one_path_status max.assoc)
qed

lemma path_status:
  "determine_status (check_path_restrictions proposal policy request ([], []))
   = spec_paths (rp_path_policy policy) (task_type_value (pp_task_type proposal))
       (candidate_paths proposal request)"
  by (simp add: check_path_restrictions_def spec_paths_def paths_status_fold Let_def)
    (simp add: status_unfold)

lemma branch_status:
  "determine_status (check_branch_guardrail proposal policy ([], []))
   = spec_branch (rp_branch_guardrail policy) (pp_branch_policy proposal) (tt_base_branch (pp_target proposal))"
  by (auto simp: check_branch_guardrail_def spec_branch_def status_unfold Let_def)

lemma tool_status:
  "determine_status (check_tool_guardrail proposal decision policy ([], []))
   = spec_tool (rp_tool_guardrail policy) (pp_labels proposal) (rd_selected_lane decision)"
  by (auto simp: check_tool_guardrail_def spec_tool_def status_unfold Let_def lane_local_iff list_ex_iff)

lemma validation_status:
  "determine_status (check_validation_requirements proposal policy request ([], []))
   = spec_validation (rp_validation_requirements policy)
       (risk_value (pp_risk_level proposal), task_type_value (pp_task_type proposal))
       (validation_available proposal request)"
  by (auto simp: check_validation_requirements_def spec_validation_def status_unfold Let_def split: option.split)

lemma review_status:
  "determine_status (check_review_requirements proposal policy ([], []))
   = spec_review (rp_review_requirement policy)
       (risk_value (pp_risk_level proposal), task_type_value (pp_task_type proposal)) (pp_labels proposal)"
proof -
  have "list_ex (\<lambda>l. l \<in> set labels) TRUSTED_SOURCE_LABELS \<longleftrightarrow> set TRUSTED_SOURCE_LABELS \<inter> set labels \<noteq> {}"
    for labels by (auto simp: list_ex_iff)
  then show ?thesis
    by (simp add: check_review_requirements_def spec_review_def status_unfold Let_def)
qed

lemmas check_statuses =
  chk_task.status_check chk_routing.status_check chk_path.status_check chk_branch.status_check
  chk_tool.status_check chk_validation.status_check chk_review.status_check

section \<open>The gate refines its specification\<close>

lemma evaluate_status:
  "pd_status (evaluate cfg proposal decision request)
   = spec_status (get_repo_policy cfg (tt_repo_key (pp_target proposal))) proposal decision request"
proof (cases "rp_enabled (get_repo_policy cfg (tt_repo_key (pp_target proposal)))")
  case False
  then show ?thesis
    by (simp add: evaluate_def spec_status_def build_decision_def check_repo_enabled_def status_unfold Let_def
        del: worst_simps)
next
  case True
  let ?p = "get_repo_policy cfg (tt_repo_key (pp_target proposal))"
  have "pd_status (evaluate cfg proposal decision request) =
    determine_status (check_review_requirements proposal ?p
      (check_validation_requirements proposal ?p request
        (check_tool_guardrail proposal decision ?p
          (check_branch_guardrail proposal ?p
            (check_path_restrictions proposal ?p request
              (check_routing_constraints proposal decision
                (check_task_type proposal ?p ([], []))))))))"
    using True by (simp add: evaluate_def build_decision_def check_repo_enabled_def Let_def)
  also have "\<dots> = worst (guardrail_statuses ?p proposal decision request)"
    unfolding chk_review.status_check [of proposal ?p "check_validation_requirements _ _ _ _"]
      chk_validation.status_check [of proposal ?p request "check_tool_guardrail _ _ _ _"]
      chk_tool.status_check [of proposal decision ?p "check_branch_guardrail _ _ _"]
      chk_branch.status_check [of proposal ?p "check_path_restrictions _ _ _ _"]
      chk_path.status_check [of proposal ?p request "check_routing_constraints _ _ _"]
      chk_routing.status_check [of proposal decision "check_task_type _ _ _"]
      task_type_status routing_status path_status branch_status tool_status validation_status
      review_status worst_seven guardrail_statuses_def
    by (rule refl)
  also have "\<dots> = spec_status ?p proposal decision request"
    using True by (simp only: spec_status_def not_True_eq_False if_False)
  finally show ?thesis .
qed

text \<open>
  C1: for every configuration, proposal, routing decision and optional request, the status
  \<open>PolicyEngine.evaluate\<close> returns is the specified one: BLOCK for a disabled repository, otherwise the
  worst status any of the seven guardrails earns, with the policy the lookup resolves.
\<close>

theorem evaluate_refines_spec:
  "pd_status (evaluate cfg proposal decision request)
   = spec_status (get_repo_policy cfg (tt_repo_key (pp_target proposal))) proposal decision request"
  by (rule evaluate_status)

lemma guardrail_le_status:
  "s \<in> set (guardrail_statuses policy proposal decision request)
   \<Longrightarrow> s \<le> spec_status policy proposal decision request"
  by (auto simp: spec_status_def worst_upper)

lemma spec_status_path:
  assumes "path \<in> set (candidate_paths proposal request)"
  shows "spec_one_path (rp_path_policy policy) (task_type_value (pp_task_type proposal)) path
    \<le> spec_status policy proposal decision request"
proof -
  let ?pp = "rp_path_policy policy" and ?tt = "task_type_value (pp_task_type proposal)"
  let ?paths = "candidate_paths proposal request"
  have "spec_one_path ?pp ?tt path \<le> worst (map (spec_one_path ?pp ?tt) ?paths)"
    using assms by (intro worst_upper) auto
  also have "\<dots> = spec_paths ?pp ?tt ?paths"
    using assms by (auto simp: spec_paths_def)
  also have "\<dots> \<le> spec_status policy proposal decision request"
    by (rule guardrail_le_status) (simp add: guardrail_statuses_def)
  finally show ?thesis .
qed

lemma spec_status_review:
  "spec_review (rp_review_requirement policy)
     (risk_value (pp_risk_level proposal), task_type_value (pp_task_type proposal)) (pp_labels proposal)
   \<le> spec_status policy proposal decision request"
  by (rule guardrail_le_status) (simp add: guardrail_statuses_def)

lemma spec_status_local_only:
  "spec_local_only (pp_labels proposal) (rd_selected_lane decision) \<le> spec_status policy proposal decision request"
  by (rule guardrail_le_status) (simp add: guardrail_statuses_def)

section \<open>A local-only proposal never leaves the host\<close>

text \<open>
  Whatever the configuration, a proposal labelled \<open>local_only\<close> or \<open>no_remote\<close> that the gate lets
  through (ALLOW or ALLOW_WITH_WARNINGS) was routed to the local lane.
\<close>

theorem local_only_stays_local:
  assumes "is_allowed (evaluate cfg proposal decision request)"
    and "''local_only'' \<in> set (pp_labels proposal) \<or> ''no_remote'' \<in> set (pp_labels proposal)"
  shows "rd_selected_lane decision = LANE_AIDER_LOCAL"
proof (rule ccontr)
  assume "rd_selected_lane decision \<noteq> LANE_AIDER_LOCAL"
  with assms(2) have "spec_local_only (pp_labels proposal) (rd_selected_lane decision) = BLOCK"
    by (simp add: spec_local_only_def)
  with spec_status_local_only
  have "pd_status (evaluate cfg proposal decision request) = BLOCK"
    by (metis BLOCK_greatest(2) evaluate_status)
  with assms(1) show False by (simp add: is_allowed_def)
qed

theorem local_only_stays_local_witness:
  "rd_selected_lane (sample_decision LANE_AIDER_LOCAL AIDER_LOCAL) = LANE_AIDER_LOCAL"
  by (rule local_only_stays_local [of DEFAULT_POLICY_CONFIG
        "sample_proposal [''src/a.py''] [''local_only''] LINT_FIX LOW" _ None])
     code_simp+

section \<open>Explicit review requests cannot be bypassed\<close>

text \<open>
  A proposal that carries the label \<open>review_required\<close>, or whose repository does not allow autonomous
  work, is never let through without review, whatever trusted-source labels it also carries.
\<close>

theorem explicit_review_not_bypassed:
  assumes "''review_required'' \<in> set (pp_labels proposal)
    \<or> \<not> rr_autonomous_allowed (rp_review_requirement (get_repo_policy cfg (tt_repo_key (pp_target proposal))))"
  shows "REQUIRE_REVIEW \<le> pd_status (evaluate cfg proposal decision request)"
proof -
  have "REQUIRE_REVIEW \<le> spec_review (rp_review_requirement (get_repo_policy cfg (tt_repo_key (pp_target proposal))))
      (risk_value (pp_risk_level proposal), task_type_value (pp_task_type proposal)) (pp_labels proposal)"
    using assms by (auto simp: spec_review_def)
  then show ?thesis
    unfolding evaluate_status using spec_status_review by (rule order_trans)
qed

theorem explicit_review_not_bypassed_witness:
  "REQUIRE_REVIEW \<le> pd_status (evaluate DEFAULT_POLICY_CONFIG
     (sample_proposal [''src/a.py''] [''source: autonomy'', ''review_required''] LINT_FIX LOW)
     (sample_decision CLAUDE_CLI TEAM_EXECUTOR) None)"
  by (rule explicit_review_not_bypassed) (simp add: sample_proposal_def)

section \<open>The default policy's paths\<close>

abbreviation default_paths :: path_policy where
  "default_paths \<equiv> rp_path_policy DEFAULT_REPO_POLICY"

lemma default_paths_simps:
  "pth_rules default_paths = BLOCKED_PATHS @ SENSITIVE_PATHS" "pth_default_mode default_paths = ''allow''"
  by (simp_all add: DEFAULT_REPO_POLICY_def)

lemma sensitive_modes:
  "r \<in> set SENSITIVE_PATHS \<Longrightarrow> psr_access_mode r = ''review_required'' \<and> psr_applies_to_task_types r = []"
  by (auto simp: SENSITIVE_PATHS_def scope_rule_def)

lemma blocked_modes: "r \<in> set BLOCKED_PATHS \<Longrightarrow> psr_access_mode r = ''block'' \<and> psr_applies_to_task_types r = []"
  by (auto simp: BLOCKED_PATHS_def scope_rule_def)

lemma ssh_pattern: "fnmatch s ''**/.ssh/**'' \<longleftrightarrow> (\<exists>a b. s = a @ ''/.ssh/'' @ b)"
  using fnmatch_infix [of "''/.ssh/''" s] by (simp add: plain_char_def)

lemma gnupg_pattern: "fnmatch s ''**/.gnupg/**'' \<longleftrightarrow> (\<exists>a b. s = a @ ''/.gnupg/'' @ b)"
  using fnmatch_infix [of "''/.gnupg/''" s] by (simp add: plain_char_def)

lemma spec_default_path:
  "spec_one_path default_paths tt path =
     (if \<exists>r \<in> set BLOCKED_PATHS. fnmatch path (psr_path_pattern r) then BLOCK
      else if \<exists>r \<in> set SENSITIVE_PATHS. fnmatch path (psr_path_pattern r) then REQUIRE_REVIEW
      else ALLOW)"
proof -
  have applies: "path_rule_applies (path, tt) r = fnmatch path (psr_path_pattern r)"
    if "r \<in> set BLOCKED_PATHS \<union> set SENSITIVE_PATHS" for r
    using that blocked_modes sensitive_modes by (auto simp: path_rule_applies_def)
  show ?thesis
    unfolding spec_one_path_def default_paths_simps path_rules.select_append
    using applies blocked_modes sensitive_modes
    by (auto split: option.splits simp: path_rules.select_None_iff dest!: path_rules.select_mem)
qed

text \<open>
  Under the bundled default policy a path is stopped outright exactly when it has \<open>/.ssh/\<close> or
  \<open>/.gnupg/\<close> inside it. So key material below any directory is blocked for every task type, and the
  same directory at the repository root (\<open>.ssh/id_rsa\<close>) is not, although the rule says that SSH keys must
  never be written by automation.
\<close>

theorem default_policy_block_iff:
  "spec_one_path (rp_path_policy DEFAULT_REPO_POLICY) tt path = BLOCK \<longleftrightarrow>
     (\<exists>a b. path = a @ ''/.ssh/'' @ b \<or> path = a @ ''/.gnupg/'' @ b)"
proof -
  have "(\<exists>r \<in> set BLOCKED_PATHS. fnmatch path (psr_path_pattern r)) \<longleftrightarrow>
      fnmatch path ''**/.ssh/**'' \<or> fnmatch path ''**/.gnupg/**''"
    by (simp add: BLOCKED_PATHS_def scope_rule_def)
  then show ?thesis
    by (auto simp: spec_default_path ssh_pattern gnupg_pattern)
qed

end
