(* ===== verification/Policy_Validate.thy ===== *)
theory Policy_Validate
  imports Policy_Spec
begin

text \<open>
  \<open>policy/validate.py\<close> and the two constructors of \<open>PolicyEngine\<close> that are wired to it. An error is the
  f-string the validator appends; \<open>Inl errors\<close> is \<open>InvalidPolicyConfigError\<close>. \<open>wf_config\<close> is the
  declarative reading of "no error", and the last section shows what a validated configuration gives the
  gate: no access mode or network mode is silently ignored.
\<close>

section \<open>The validator\<close>

definition VALID_ACCESS_MODES :: "string list" where
  "VALID_ACCESS_MODES = [''allow'', ''block'', ''read_only'', ''review_required'']"

definition VALID_NETWORK_MODES :: "string list" where
  "VALID_NETWORK_MODES = [''allowed'', ''blocked'', ''local_only'']"

definition VALID_DEFAULT_MODES :: "string list" where
  "VALID_DEFAULT_MODES = [''allow'', ''block'', ''review_required'']"

definition VALID_RISK_LEVELS :: "string list" where
  "VALID_RISK_LEVELS = [''high'', ''low'', ''medium'']"

definition VALID_RISK_PROFILES :: "string list" where
  "VALID_RISK_PROFILES = [''critical'', ''elevated'', ''standard'']"

definition validate_rule :: "fstring \<Rightarrow> nat \<times> path_scope_rule \<Rightarrow> fstring list" where
  "validate_rule ctx jr =
     (let rule = snd jr;
          rule_ctx = ctx @ [FLit ''.path_policy.rules['', FInt (int (fst jr)), FLit ''] (pattern='',
                            FRepr (psr_path_pattern rule), FLit '')'']
      in (if psr_path_pattern rule = [] then [rule_ctx @ [FLit '': path_pattern must not be empty'']] else [])
         @ (if psr_access_mode rule \<notin> set VALID_ACCESS_MODES
            then [rule_ctx @ [FLit '': invalid access_mode '', FRepr (psr_access_mode rule),
                              FLit ''; must be one of '', FReprs VALID_ACCESS_MODES]]
            else []))"

definition validate_path_policy :: "path_policy \<Rightarrow> fstring \<Rightarrow> fstring list" where
  "validate_path_policy pp ctx =
     (if pth_default_mode pp \<notin> set VALID_DEFAULT_MODES
      then [ctx @ [FLit ''.path_policy: invalid default_mode '', FRepr (pth_default_mode pp),
                   FLit ''; must be one of '', FReprs VALID_DEFAULT_MODES]]
      else [])
     @ concat (map (validate_rule ctx) (enumerate 0 (pth_rules pp)))"

definition validate_tool_guardrail :: "tool_guardrail \<Rightarrow> fstring \<Rightarrow> fstring list" where
  "validate_tool_guardrail tool ctx =
     (if tg_network_mode tool \<notin> set VALID_NETWORK_MODES
      then [ctx @ [FLit ''.tool_guardrail: invalid network_mode '', FRepr (tg_network_mode tool),
                   FLit ''; must be one of '', FReprs VALID_NETWORK_MODES]]
      else [])"

definition validate_requirement :: "fstring \<Rightarrow> nat \<times> validation_requirement \<Rightarrow> fstring list" where
  "validate_requirement ctx ivr =
     (let vr = snd ivr; vr_ctx = ctx @ [FLit ''.validation_requirements['', FInt (int (fst ivr)), FLit '']'']
      in concat (map (\<lambda>rl. if rl \<notin> set VALID_RISK_LEVELS
                   then [vr_ctx @ [FLit '': invalid risk level '', FRepr rl, FLit ''; must be one of '',
                                   FReprs VALID_RISK_LEVELS]]
                   else []) (vr_applies_to_risk_levels vr))
         @ (if vr_required_profile vr = [] then [vr_ctx @ [FLit '': required_profile must not be empty'']] else []))"

definition validate_validation_requirements :: "repo_policy \<Rightarrow> fstring \<Rightarrow> fstring list" where
  "validate_validation_requirements policy ctx =
     concat (map (validate_requirement ctx) (enumerate 0 (rp_validation_requirements policy)))"

definition validate_review_requirement :: "repo_policy \<Rightarrow> fstring \<Rightarrow> fstring list" where
  "validate_review_requirement policy ctx =
     concat (map (\<lambda>rl. if rl \<notin> set VALID_RISK_LEVELS
               then [ctx @ [FLit ''.review_requirement: invalid risk level '', FRepr rl,
                            FLit ''; must be one of '', FReprs VALID_RISK_LEVELS]]
               else []) (rr_require_review_for_risk_levels (rp_review_requirement policy)))"

definition validate_branch_guardrail :: "repo_policy \<Rightarrow> fstring \<Rightarrow> fstring list" where
  "validate_branch_guardrail policy ctx =
     (let bg = rp_branch_guardrail policy
      in if bg_allow_direct_commit bg \<and> bg_require_branch bg
         then [ctx @ [FLit ''.branch_guardrail: allow_direct_commit=True contradicts require_branch=True'']]
         else [])"

definition check_contradictions :: "repo_policy \<Rightarrow> fstring \<Rightarrow> fstring list" where
  "check_contradictions policy ctx =
     (let rr = rp_review_requirement policy
      in (if rr_blocked_without_human rr \<and> rr_autonomous_allowed rr
          then [ctx @ [FLit ''.review_requirement: blocked_without_human=True contradicts autonomous_allowed=True'']]
          else [])
         @ (if \<not> rp_enabled policy \<and> rp_allowed_task_types policy \<noteq> []
            then [ctx @ [FLit '': enabled=False but allowed_task_types is set -- allowed_task_types has no effect when repo is disabled'']]
            else []))"

definition validate_repo_policy :: "repo_policy \<Rightarrow> fstring \<Rightarrow> fstring list" where
  "validate_repo_policy policy ctx =
     (if rp_repo_key policy = [] then [ctx @ [FLit '': repo_key must not be empty'']] else [])
     @ (if rp_risk_profile policy \<notin> set VALID_RISK_PROFILES
        then [ctx @ [FLit '': invalid risk_profile '', FRepr (rp_risk_profile policy),
                     FLit ''; must be one of '', FReprs VALID_RISK_PROFILES]]
        else [])
     @ validate_path_policy (rp_path_policy policy) ctx
     @ validate_tool_guardrail (rp_tool_guardrail policy) ctx
     @ validate_validation_requirements policy ctx
     @ validate_review_requirement policy ctx
     @ validate_branch_guardrail policy ctx
     @ check_contradictions policy ctx"

fun duplicate_keys :: "string list \<Rightarrow> repo_policy list \<Rightarrow> fstring list" where
  "duplicate_keys seen [] = []"
| "duplicate_keys seen (p # ps) =
     (if rp_repo_key p \<in> set seen
      then [[FLit ''Duplicate repo_key '', FRepr (rp_repo_key p),
             FLit '' in repo_policies -- only the first match is used'']]
      else [])
     @ duplicate_keys (rp_repo_key p # seen) ps"

definition check_duplicate_repo_keys :: "policy_config \<Rightarrow> fstring list" where
  "check_duplicate_repo_keys cfg = duplicate_keys [] (pc_repo_policies cfg)"

definition validate_config :: "policy_config \<Rightarrow> fstring list" where
  "validate_config cfg =
     (case pc_default_policy cfg of
        Some p \<Rightarrow> validate_repo_policy p [FLit ''default_policy'']
      | None \<Rightarrow> [])
     @ concat (map (\<lambda>(i, policy). validate_repo_policy policy
          [FLit ''repo_policies['', FInt (int i), FLit ''] (repo_key='', FRepr (rp_repo_key policy), FLit '')''])
        (enumerate 0 (pc_repo_policies cfg)))
     @ check_duplicate_repo_keys cfg"

text \<open>\<open>PolicyEngine.from_config\<close> and \<open>from_defaults\<close>: the engine is its configuration.\<close>

definition from_config :: "policy_config \<Rightarrow> fstring list + policy_config" where
  "from_config cfg = (let errors = validate_config cfg in if errors \<noteq> [] then Inl errors else Inr cfg)"

definition from_defaults :: "fstring list + policy_config" where
  "from_defaults = from_config DEFAULT_POLICY_CONFIG"

section \<open>What a valid configuration is\<close>

definition wf_repo_policy :: "repo_policy \<Rightarrow> bool" where
  "wf_repo_policy p =
     (rp_repo_key p \<noteq> []
      \<and> rp_risk_profile p \<in> set VALID_RISK_PROFILES
      \<and> pth_default_mode (rp_path_policy p) \<in> set VALID_DEFAULT_MODES
      \<and> (\<forall>r \<in> set (pth_rules (rp_path_policy p)). psr_path_pattern r \<noteq> [] \<and> psr_access_mode r \<in> set VALID_ACCESS_MODES)
      \<and> tg_network_mode (rp_tool_guardrail p) \<in> set VALID_NETWORK_MODES
      \<and> (\<forall>vr \<in> set (rp_validation_requirements p).
            set (vr_applies_to_risk_levels vr) \<subseteq> set VALID_RISK_LEVELS \<and> vr_required_profile vr \<noteq> [])
      \<and> set (rr_require_review_for_risk_levels (rp_review_requirement p)) \<subseteq> set VALID_RISK_LEVELS
      \<and> \<not> (bg_allow_direct_commit (rp_branch_guardrail p) \<and> bg_require_branch (rp_branch_guardrail p))
      \<and> \<not> (rr_blocked_without_human (rp_review_requirement p) \<and> rr_autonomous_allowed (rp_review_requirement p))
      \<and> (rp_enabled p \<or> rp_allowed_task_types p = []))"

definition wf_config :: "policy_config \<Rightarrow> bool" where
  "wf_config cfg =
     ((\<forall>p \<in> set_option (pc_default_policy cfg) \<union> set (pc_repo_policies cfg). wf_repo_policy p)
      \<and> distinct (map rp_repo_key (pc_repo_policies cfg)))"

lemma ball_enumerate_snd: "(\<forall>x \<in> set (enumerate n xs). P (snd x)) \<longleftrightarrow> (\<forall>x \<in> set xs. P x)"
  by (metis (no_types, lifting) in_set_impl_in_set_zip2 map_snd_enumerate image_iff list.set_map)

lemma enumerate_Nil_iff:
  assumes "\<And>i x. f (i, x) = [] \<longleftrightarrow> P x"
  shows "concat (map f (enumerate n xs)) = [] \<longleftrightarrow> (\<forall>x \<in> set xs. P x)"
proof -
  have "concat (map f (enumerate n xs)) = [] \<longleftrightarrow> (\<forall>x \<in> set (enumerate n xs). P (snd x))"
    using assms by auto
  then show ?thesis by (simp add: ball_enumerate_snd)
qed

lemma validate_rule_Nil:
  "validate_rule ctx (j, r) = [] \<longleftrightarrow> psr_path_pattern r \<noteq> [] \<and> psr_access_mode r \<in> set VALID_ACCESS_MODES"
  by (simp add: validate_rule_def Let_def)

lemma validate_requirement_Nil:
  "validate_requirement ctx (i, vr) = [] \<longleftrightarrow>
     set (vr_applies_to_risk_levels vr) \<subseteq> set VALID_RISK_LEVELS \<and> vr_required_profile vr \<noteq> []"
  by (auto simp: validate_requirement_def Let_def split: if_splits)

lemma validate_rules_Nil:
  "concat (map (validate_rule ctx) (enumerate 0 rs)) = [] \<longleftrightarrow>
     (\<forall>r \<in> set rs. psr_path_pattern r \<noteq> [] \<and> psr_access_mode r \<in> set VALID_ACCESS_MODES)"
  by (rule enumerate_Nil_iff) (rule validate_rule_Nil)

lemma validate_requirements_Nil:
  "concat (map (validate_requirement ctx) (enumerate 0 vrs)) = [] \<longleftrightarrow>
     (\<forall>vr \<in> set vrs. set (vr_applies_to_risk_levels vr) \<subseteq> set VALID_RISK_LEVELS \<and> vr_required_profile vr \<noteq> [])"
  by (rule enumerate_Nil_iff) (rule validate_requirement_Nil)

lemma validate_repo_policy_Nil: "validate_repo_policy p ctx = [] \<longleftrightarrow> wf_repo_policy p"
  unfolding validate_repo_policy_def wf_repo_policy_def validate_path_policy_def
    validate_validation_requirements_def append_is_Nil_conv
    validate_rules_Nil validate_requirements_Nil
  by (auto simp: validate_tool_guardrail_def validate_review_requirement_def validate_branch_guardrail_def
      check_contradictions_def Let_def split: if_splits)

lemma duplicate_keys_Nil:
  "duplicate_keys seen ps = [] \<longleftrightarrow> distinct (map rp_repo_key ps) \<and> set seen \<inter> set (map rp_repo_key ps) = {}"
  by (induction ps arbitrary: seen) auto

lemma validate_config_Nil: "validate_config cfg = [] \<longleftrightarrow> wf_config cfg"
proof -
  have "concat (map (\<lambda>(i, policy). validate_repo_policy policy
          [FLit ''repo_policies['', FInt (int i), FLit ''] (repo_key='', FRepr (rp_repo_key policy), FLit '')''])
        (enumerate 0 ps)) = [] \<longleftrightarrow> (\<forall>p \<in> set ps. wf_repo_policy p)" for ps
    by (rule enumerate_Nil_iff) (simp add: validate_repo_policy_Nil)
  then show ?thesis
    unfolding validate_config_def wf_config_def append_is_Nil_conv check_duplicate_repo_keys_def
      duplicate_keys_Nil
    by (auto simp: validate_repo_policy_Nil split: option.splits)
qed

lemma wf_default: "wf_repo_policy DEFAULT_REPO_POLICY"
  by code_simp

lemma from_config_Inr: "from_config cfg = Inr e \<longleftrightarrow> wf_config cfg \<and> e = cfg"
  by (auto simp: from_config_def Let_def validate_config_Nil)

lemma wf_get_repo_policy: "wf_config cfg \<Longrightarrow> wf_repo_policy (get_repo_policy cfg key)"
  using get_repo_policy_cases [of cfg key] wf_default by (auto simp: wf_config_def)

text \<open>
  An engine is built exactly from the well-formed configurations (every mode, profile and risk level
  known, no contradictory guardrail pair, no duplicate repository key) and keeps the configuration it was
  given; the bundled default is one of them, so the execution path always starts.
\<close>

theorem engine_built_iff_wf:
  "(from_config cfg = Inr e \<longleftrightarrow> wf_config cfg \<and> e = cfg) \<and> from_defaults = Inr DEFAULT_POLICY_CONFIG"
proof -
  have "wf_config DEFAULT_POLICY_CONFIG"
    using wf_default by (simp add: wf_config_def DEFAULT_POLICY_CONFIG_def)
  then show ?thesis
    by (simp add: from_config_Inr from_defaults_def)
qed

section \<open>A validated engine ignores no restriction\<close>

lemma wf_rule_mode:
  assumes "wf_repo_policy p" "match_path_rule (pth_rules (rp_path_policy p)) q = Some r"
    and "psr_access_mode r \<noteq> ''allow''"
  shows "psr_access_mode r \<in> {''block'', ''read_only'', ''review_required''}"
proof -
  from assms(2) have "r \<in> set (pth_rules (rp_path_policy p))"
    by (blast dest: path_rules.select_mem)
  with assms(1,3) show ?thesis
    by (auto simp: wf_repo_policy_def VALID_ACCESS_MODES_def)
qed

lemma wf_path_status:
  assumes wf: "wf_repo_policy (get_repo_policy e (tt_repo_key (pp_target proposal)))"
    and path: "path \<in> set (candidate_paths proposal request)"
    and rule: "match_path_rule (pth_rules (rp_path_policy (get_repo_policy e (tt_repo_key (pp_target proposal)))))
           (path, task_type_value (pp_task_type proposal)) = Some r"
    and mode: "psr_access_mode r \<noteq> ''allow''"
  shows "(if psr_access_mode r = ''block'' then BLOCK else REQUIRE_REVIEW) \<le> pd_status (evaluate e proposal decision request)"
proof -
  let ?p = "get_repo_policy e (tt_repo_key (pp_target proposal))"
  let ?s = "spec_one_path (rp_path_policy ?p) (task_type_value (pp_task_type proposal)) path"
  have "?s = (if psr_access_mode r = ''block'' then BLOCK else REQUIRE_REVIEW)"
    using wf_rule_mode [OF wf rule mode] rule by (auto simp: spec_one_path_def)
  moreover have "?s \<le> pd_status (evaluate e proposal decision request)"
    unfolding evaluate_status by (rule spec_status_path [OF path])
  ultimately show ?thesis by simp
qed

text \<open>
  An engine built through the validated constructor never lets a restricted path pass: when the first
  rule that matches one of the task's paths has any mode but \<open>allow\<close>, the status is REQUIRE_REVIEW or BLOCK,
  and BLOCK when the mode is \<open>block\<close>.
\<close>

theorem validated_engine_enforces_path_rules:
  assumes "from_config cfg = Inr e"
    and "path \<in> set (candidate_paths proposal request)"
    and "match_path_rule (pth_rules (rp_path_policy (get_repo_policy e (tt_repo_key (pp_target proposal)))))
           (path, task_type_value (pp_task_type proposal)) = Some r"
    and "psr_access_mode r \<noteq> ''allow''"
  shows "REQUIRE_REVIEW \<le> pd_status (evaluate e proposal decision request)
    \<and> (psr_access_mode r = ''block'' \<longrightarrow> pd_status (evaluate e proposal decision request) = BLOCK)"
proof -
  have "wf_repo_policy (get_repo_policy e (tt_repo_key (pp_target proposal)))"
    using assms(1) by (auto simp: from_config_Inr intro: wf_get_repo_policy)
  then show ?thesis
    using wf_path_status [OF _ assms(2-4), of decision] by (auto split: if_splits)
qed

theorem validated_engine_enforces_path_rules_witness:
  "pd_status (evaluate DEFAULT_POLICY_CONFIG (sample_proposal [''home/.ssh/id_rsa''] [] LINT_FIX LOW)
     (sample_decision CLAUDE_CLI TEAM_EXECUTOR) None) = BLOCK"
proof -
  let ?r = "scope_rule ''**/.ssh/**'' ''block'' ''SSH keys must never be written by automation''"
  have "from_config DEFAULT_POLICY_CONFIG = Inr DEFAULT_POLICY_CONFIG"
    using wf_default by (simp add: from_config_Inr wf_config_def DEFAULT_POLICY_CONFIG_def)
  moreover have "''home/.ssh/id_rsa'' \<in> set (candidate_paths (sample_proposal [''home/.ssh/id_rsa''] [] LINT_FIX LOW) None)"
    by code_simp
  moreover have "match_path_rule (pth_rules (rp_path_policy (get_repo_policy DEFAULT_POLICY_CONFIG
        (tt_repo_key (pp_target (sample_proposal [''home/.ssh/id_rsa''] [] LINT_FIX LOW))))))
      (''home/.ssh/id_rsa'', task_type_value (pp_task_type (sample_proposal [''home/.ssh/id_rsa''] [] LINT_FIX LOW)))
      = Some ?r"
    by code_simp
  moreover have "psr_access_mode ?r \<noteq> ''allow''" and "psr_access_mode ?r = ''block''"
    by code_simp+
  ultimately show ?thesis
    using validated_engine_enforces_path_rules by blast
qed

end
