(* ===== verification/Runtime_Binding.thy ===== *)
theory Runtime_Binding
  imports Contracts
begin

text \<open>
  \<open>policy/runtime_binding_policy.py\<close>: the rules that pick what powers a lane. \<open>RuntimeBinding\<close> and its
  validity table are CxRP's, so its constructor is the parameter \<open>mk_binding\<close>: it takes the field values
  and returns the binding or the message of the \<open>ValueError\<close> it raises. A loaded YAML document is the
  typed record \<open>policy_doc\<close>, with \<^const>\<open>None\<close> for an absent key.
\<close>

section \<open>Rules\<close>

record rb_rule =
  rbr_name :: string
  rbr_when :: "(string \<times> string) list"
  rbr_kind :: string
  rbr_model :: "string option"
  rbr_provider :: "string option"
  rbr_endpoint :: "string option"
  rbr_config_ref :: "string option"

record rb_policy =
  rbp_rules :: "rb_rule list"
  rbp_default :: "rb_rule option"

type_synonym attrs = "(string \<times> string) list"

fun when_matches :: "(string \<times> string) list \<Rightarrow> attrs \<Rightarrow> bool" where
  "when_matches [] attrs = True"
| "when_matches ((k, v) # rest) attrs =
     (if map_of attrs k \<noteq> Some v then False else when_matches rest attrs)"

definition rule_matches :: "attrs \<Rightarrow> rb_rule \<Rightarrow> bool" where
  "rule_matches attrs rule = when_matches (rbr_when rule) attrs"

definition to_binding :: "(runtime_binding \<Rightarrow> string + runtime_binding) \<Rightarrow> rb_rule \<Rightarrow> string + runtime_binding" where
  "to_binding mk_binding rule =
     mk_binding \<lparr>rb_kind = rbr_kind rule, rb_selection_mode = ''policy_selected'', rb_model = rbr_model rule,
       rb_provider = rbr_provider rule, rb_endpoint = rbr_endpoint rule, rb_config_ref = rbr_config_ref rule\<rparr>"

section \<open>Selection\<close>

definition binding_attrs :: "oc_planning_proposal \<Rightarrow> oc_routing_decision \<Rightarrow> attrs" where
  "binding_attrs proposal decision =
     [(''task_type'', task_type_value (pp_task_type proposal)), (''lane'', lane_value (rd_selected_lane decision))]"

fun first_rule :: "rb_rule list \<Rightarrow> attrs \<Rightarrow> rb_rule option" where
  "first_rule [] attrs = None"
| "first_rule (r # rs) attrs = (if rule_matches attrs r then Some r else first_rule rs attrs)"

definition select_binding ::
  "(runtime_binding \<Rightarrow> string + runtime_binding) \<Rightarrow> rb_policy \<Rightarrow> oc_planning_proposal \<Rightarrow> oc_routing_decision
   \<Rightarrow> string + runtime_binding option" where
  "select_binding mk_binding pol proposal decision =
     (case first_rule (rbp_rules pol) (binding_attrs proposal decision) of
        Some rule \<Rightarrow> map_sum id Some (to_binding mk_binding rule)
      | None \<Rightarrow>
          (case rbp_default pol of
             Some rule \<Rightarrow> map_sum id Some (to_binding mk_binding rule)
           | None \<Rightarrow> Inr None))"

section \<open>Loading\<close>

record bind_block =
  bb_kind :: "string option"
  bb_model :: "string option"
  bb_provider :: "string option"
  bb_endpoint :: "string option"
  bb_config_ref :: "string option"

record rule_entry =
  re_name :: "string option"
  re_when :: "(string \<times> string) list option"
  re_bind :: "bind_block option"

record policy_doc =
  doc_rules :: "rule_entry list option"
  doc_default :: "rule_entry option"

definition empty_bind :: bind_block where
  "empty_bind = \<lparr>bb_kind = None, bb_model = None, bb_provider = None, bb_endpoint = None, bb_config_ref = None\<rparr>"

definition rule_from_dict :: "rule_entry \<Rightarrow> rb_rule" where
  "rule_from_dict entry =
     (let bind = (case re_bind entry of None \<Rightarrow> empty_bind | Some b \<Rightarrow> b)
      in \<lparr>rbr_name = (case re_name entry of None \<Rightarrow> ''rule'' | Some n \<Rightarrow> n),
          rbr_when = (case re_when entry of None \<Rightarrow> [] | Some w \<Rightarrow> w),
          rbr_kind = (case bb_kind bind of None \<Rightarrow> ''backend_default'' | Some k \<Rightarrow> k),
          rbr_model = bb_model bind, rbr_provider = bb_provider bind,
          rbr_endpoint = bb_endpoint bind, rbr_config_ref = bb_config_ref bind\<rparr>)"

text \<open>\<open>{"name": "default", "when": {}, **default_block}\<close>: the block's own keys win.\<close>

definition default_entry :: "rule_entry \<Rightarrow> rule_entry" where
  "default_entry block =
     \<lparr>re_name = (case re_name block of None \<Rightarrow> Some ''default'' | Some n \<Rightarrow> Some n),
      re_when = (case re_when block of None \<Rightarrow> Some [] | Some w \<Rightarrow> Some w),
      re_bind = re_bind block\<rparr>"

definition from_dict :: "policy_doc \<Rightarrow> rb_policy" where
  "from_dict raw =
     \<lparr>rbp_rules = map rule_from_dict (case doc_rules raw of None \<Rightarrow> [] | Some rs \<Rightarrow> rs),
      rbp_default = map_option (\<lambda>b. rule_from_dict (default_entry b)) (doc_default raw)\<rparr>"

text \<open>\<open>from_yaml\<close>: \<^const>\<open>None\<close> is a missing file, \<open>Some None\<close> an empty document.\<close>

definition from_yaml :: "policy_doc option option \<Rightarrow> rb_policy" where
  "from_yaml file =
     (case file of
        None \<Rightarrow> \<lparr>rbp_rules = [], rbp_default = None\<rparr>
      | Some None \<Rightarrow> from_dict \<lparr>doc_rules = None, doc_default = None\<rparr>
      | Some (Some doc) \<Rightarrow> from_dict doc)"

section \<open>The bundled policy\<close>

definition mk_rule :: "string \<Rightarrow> string \<Rightarrow> string \<Rightarrow> string \<Rightarrow> string \<Rightarrow> string \<Rightarrow> rb_rule" where
  "mk_rule name tt lane provider model cref =
     \<lparr>rbr_name = name, rbr_when = [(''task_type'', tt), (''lane'', lane)], rbr_kind = ''cli_subscription'',
      rbr_model = Some model, rbr_provider = Some provider, rbr_endpoint = None, rbr_config_ref = Some cref\<rparr>"

definition DEFAULT_POLICY :: rb_policy where
  "DEFAULT_POLICY =
     \<lparr>rbp_rules =
        [mk_rule ''refactor_premium'' ''refactor'' ''claude_cli'' ''anthropic'' ''opus'' ''team_executor:premium'',
         mk_rule ''feature_premium'' ''feature'' ''claude_cli'' ''anthropic'' ''opus'' ''team_executor:premium'',
         mk_rule ''refactor_codex_premium'' ''refactor'' ''codex_cli'' ''openai'' ''gpt-5.4'' ''team_executor:premium'',
         mk_rule ''feature_codex_premium'' ''feature'' ''codex_cli'' ''openai'' ''gpt-5.4'' ''team_executor:premium'',
         mk_rule ''test_standard'' ''test_fix'' ''claude_cli'' ''anthropic'' ''sonnet'' ''team_executor:standard'',
         mk_rule ''test_codex_standard'' ''test_fix'' ''codex_cli'' ''openai'' ''gpt-5.4'' ''team_executor:standard'',
         mk_rule ''lint_cheap'' ''lint_fix'' ''claude_cli'' ''anthropic'' ''haiku'' ''team_executor:budget'',
         mk_rule ''lint_codex_cheap'' ''lint_fix'' ''codex_cli'' ''openai'' ''gpt-5.4-mini'' ''team_executor:budget''],
      rbp_default = Some
        \<lparr>rbr_name = ''fallback_standard'', rbr_when = [], rbr_kind = ''cli_subscription'',
         rbr_model = Some ''sonnet'', rbr_provider = Some ''anthropic'', rbr_endpoint = None,
         rbr_config_ref = Some ''team_executor:standard''\<rparr>\<rparr>"

section \<open>Properties\<close>

interpretation binding_rules: first_match rule_matches first_rule
  by unfold_locales simp_all

lemma when_matches_iff: "when_matches w attrs \<longleftrightarrow> (\<forall>(k, v) \<in> set w. map_of attrs k = Some v)"
  by (induction w attrs rule: when_matches.induct) auto

lemma rule_from_dict_default_matches:
  "re_when block = None \<Longrightarrow> rule_matches attrs (rule_from_dict (default_entry block))"
  by (simp add: rule_matches_def rule_from_dict_def default_entry_def Let_def)

lemma map_sum_id_Inl: "map_sum id f x = Inl e \<longleftrightarrow> x = Inl e"
  by (cases x) simp_all

lemma select_binding_error:
  "select_binding mk pol proposal decision = Inl e \<longleftrightarrow>
     (\<exists>rule. (first_rule (rbp_rules pol) (binding_attrs proposal decision) = Some rule
              \<or> first_rule (rbp_rules pol) (binding_attrs proposal decision) = None \<and> rbp_default pol = Some rule)
        \<and> to_binding mk rule = Inl e)"
  by (auto simp: select_binding_def map_sum_id_Inl split: option.splits)

text \<open>
  Which rule of the bundled policy wins, for every task type and lane: the two refactor/feature tiers and
  the lint tier of each CLI lane, and the Anthropic fallback for all the rest. The rules written for tests
  (\<open>test_standard\<close>, \<open>test_codex_standard\<close>) ask for the task type \<open>test_fix\<close>, which is no \<open>TaskType\<close>, so they
  never win and test work on the codex lane is bound to Anthropic's sonnet.
\<close>

theorem default_policy_winner:
  "map_option rbr_name (first_rule (rbp_rules DEFAULT_POLICY)
      (binding_attrs proposal decision)) =
   (case (pp_task_type proposal, rd_selected_lane decision) of
      (REFACTOR, CLAUDE_CLI) \<Rightarrow> Some ''refactor_premium''
    | (FEATURE, CLAUDE_CLI) \<Rightarrow> Some ''feature_premium''
    | (LINT_FIX, CLAUDE_CLI) \<Rightarrow> Some ''lint_cheap''
    | (REFACTOR, CODEX_CLI) \<Rightarrow> Some ''refactor_codex_premium''
    | (FEATURE, CODEX_CLI) \<Rightarrow> Some ''feature_codex_premium''
    | (LINT_FIX, CODEX_CLI) \<Rightarrow> Some ''lint_codex_cheap''
    | _ \<Rightarrow> None)"
  by (cases "pp_task_type proposal"; cases "rd_selected_lane decision")
    (simp_all add: DEFAULT_POLICY_def mk_rule_def binding_attrs_def rule_matches_def)

end
