(* ===== verification/Backend_Health.thy ===== *)
theory Backend_Health
  imports Contracts
begin

text \<open>
  \<open>backend_health/models.py\<close> and \<open>registry.py\<close>: the in-memory health record of each backend and the four
  operations that move it. Every operation takes the registry and returns it updated, with the record and
  the transition the Python call returns. \<open>health_step\<close> is one call on one backend; the invariant of the
  record is proved over every sequence of calls.
\<close>

section \<open>Models\<close>

datatype health_state =
  HS_UNKNOWN | HEALTHY | DEGRADED | UNSTABLE | UNAVAILABLE | RECOVERING | OPERATOR_BLOCKED

datatype recovery_strategy =
  RS_NONE | RETRY_AFTER_COOLDOWN | RESTART_BACKEND | RESTART_WATCHER | REINITIALIZE_RUNTIME
  | REDUCE_PRESSURE | ESCALATE

record backend_failure =
  bf_signature :: string
  bf_timestamp :: datetime
  bf_exit_code :: "int option"
  bf_signal :: "string option"
  bf_reason :: "string option"

record health_record =
  hr_backend_id :: string
  hr_state :: health_state
  hr_failure_count :: int
  hr_recovery_attempt_count :: int
  hr_last_success_at :: "datetime option"
  hr_last_failure :: "backend_failure option"
  hr_cooldown_until :: "datetime option"
  hr_safe_retry_after :: "datetime option"
  hr_recovery_strategy :: recovery_strategy
  hr_operator_blocked_reason :: "string option"

record health_transition =
  ht_backend_id :: string
  ht_previous :: health_state
  ht_current :: health_state
  ht_reason :: string
  ht_cooldown_applied :: bool
  ht_recovery_strategy :: recovery_strategy

record health_registry =
  reg_cooldown_seconds :: int
  reg_unstable_failure_threshold :: int
  reg_unavailable_failure_threshold :: int
  reg_records :: "string \<rightharpoonup> health_record"

definition fresh_record :: "string \<Rightarrow> health_record" where
  "fresh_record backend_id =
     \<lparr>hr_backend_id = backend_id, hr_state = HS_UNKNOWN, hr_failure_count = 0, hr_recovery_attempt_count = 0,
      hr_last_success_at = None, hr_last_failure = None, hr_cooldown_until = None, hr_safe_retry_after = None,
      hr_recovery_strategy = RS_NONE, hr_operator_blocked_reason = None\<rparr>"

definition default_registry :: health_registry where
  "default_registry =
     \<lparr>reg_cooldown_seconds = 1800, reg_unstable_failure_threshold = 2, reg_unavailable_failure_threshold = 5,
      reg_records = Map.empty\<rparr>"

section \<open>Reading a failure\<close>

definition extract_signal :: "string \<Rightarrow> string option" where
  "extract_signal reason =
     (let upper = py_upper reason
      in if str_contains ''SIGKILL'' upper then Some ''SIGKILL''
         else if str_contains ''SIGNAL=9'' upper \<or> str_contains ''SIGNAL 9'' upper then Some ''SIGKILL''
         else if str_contains ''SIGTERM'' upper then Some ''SIGTERM''
         else None)"

text \<open>
  The scan of \<open>_extract_exit_code\<close>: digits, with a minus only in front. A status is always set on a result,
  so the \<open>failure:unknown\<close> fallback of \<open>_failure_signature\<close> has no case of its own.
\<close>

fun exit_digits :: "string \<Rightarrow> string \<Rightarrow> string" where
  "exit_digits digits [] = digits"
| "exit_digits digits (ch # rest) =
     (if is_digit ch \<or> (ch = CHR ''-'' \<and> digits = []) then exit_digits (digits @ [ch]) rest else digits)"

fun exit_code_scan :: "string list \<Rightarrow> string \<Rightarrow> int option" where
  "exit_code_scan [] reason = None"
| "exit_code_scan (token # tokens) reason =
     (case str_find token reason of
        None \<Rightarrow> exit_code_scan tokens reason
      | Some idx \<Rightarrow>
          (let digits = exit_digits [] (drop (idx + length token) reason)
           in if digits \<noteq> [] then py_int digits else exit_code_scan tokens reason))"

definition extract_exit_code :: "string \<Rightarrow> int option" where
  "extract_exit_code reason = exit_code_scan [''exit_code='', ''exit=''] reason"

definition failure_signature :: "oc_execution_result \<Rightarrow> string" where
  "failure_signature result =
     (let reason = py_strip (or_empty (xr_failure_reason result))
      in case extract_signal reason of
           Some sig \<Rightarrow> ''signal:'' @ sig
         | None \<Rightarrow>
             (case xr_failure_category result of
                Some cat \<Rightarrow> ''category:'' @ category_value cat
              | None \<Rightarrow> ''status:'' @ status_value (xr_status result)))"

section \<open>The registry's operations\<close>

definition get_record :: "health_registry \<Rightarrow> string \<Rightarrow> health_record" where
  "get_record reg backend_id = (case reg_records reg backend_id of Some r \<Rightarrow> r | None \<Rightarrow> fresh_record backend_id)"

definition put_record :: "health_registry \<Rightarrow> string \<Rightarrow> health_record \<Rightarrow> health_registry" where
  "put_record reg backend_id r = reg\<lparr>reg_records := (reg_records reg)(backend_id \<mapsto> r)\<rparr>"

type_synonym health_result = "health_registry \<times> health_record \<times> health_transition"

definition record_success :: "health_registry \<Rightarrow> string \<Rightarrow> datetime \<Rightarrow> health_result" where
  "record_success reg backend_id now =
     (let previous = get_record reg backend_id;
          current = previous\<lparr>hr_state := HEALTHY, hr_failure_count := 0, hr_last_success_at := Some now,
            hr_cooldown_until := None, hr_safe_retry_after := None, hr_recovery_strategy := RS_NONE,
            hr_operator_blocked_reason := None\<rparr>
      in (put_record reg backend_id current, current,
          \<lparr>ht_backend_id = backend_id, ht_previous = hr_state previous, ht_current = hr_state current,
           ht_reason = ''execution_success'', ht_cooldown_applied = False, ht_recovery_strategy = RS_NONE\<rparr>))"

definition record_failure ::
  "health_registry \<Rightarrow> string \<Rightarrow> oc_execution_result \<Rightarrow> datetime \<Rightarrow> health_result" where
  "record_failure reg backend_id result now =
     (let previous = get_record reg backend_id;
          signature = failure_signature result;
          signal = extract_signal (or_empty (xr_failure_reason result));
          failure_count = hr_failure_count previous + 1;
          killed = (signal = Some ''SIGKILL'');
          until = now + td_seconds (reg_cooldown_seconds reg);
          cooldown_until = (if killed then Some until else hr_cooldown_until previous);
          safe_retry_after = (if killed then Some until else hr_safe_retry_after previous);
          strategy = (if killed then REDUCE_PRESSURE
                      else if reg_unavailable_failure_threshold reg \<le> failure_count then ESCALATE
                      else RETRY_AFTER_COOLDOWN);
          state = (if killed then UNSTABLE
                   else if reg_unavailable_failure_threshold reg \<le> failure_count then UNAVAILABLE
                   else if reg_unstable_failure_threshold reg \<le> failure_count then UNSTABLE
                   else DEGRADED);
          failure = \<lparr>bf_signature = signature, bf_timestamp = now,
            bf_exit_code = extract_exit_code (or_empty (xr_failure_reason result)), bf_signal = signal,
            bf_reason = xr_failure_reason result\<rparr>;
          current = previous\<lparr>hr_state := state, hr_failure_count := failure_count,
            hr_last_failure := Some failure, hr_cooldown_until := cooldown_until,
            hr_safe_retry_after := safe_retry_after, hr_recovery_strategy := strategy\<rparr>
      in (put_record reg backend_id current, current,
          \<lparr>ht_backend_id = backend_id, ht_previous = hr_state previous, ht_current = hr_state current,
           ht_reason = signature, ht_cooldown_applied = killed, ht_recovery_strategy = strategy\<rparr>))"

definition start_recovery :: "health_registry \<Rightarrow> string \<Rightarrow> recovery_strategy \<Rightarrow> health_result" where
  "start_recovery reg backend_id strategy =
     (let previous = get_record reg backend_id;
          current = previous\<lparr>hr_state := RECOVERING,
            hr_recovery_attempt_count := hr_recovery_attempt_count previous + 1,
            hr_recovery_strategy := strategy\<rparr>
      in (put_record reg backend_id current, current,
          \<lparr>ht_backend_id = backend_id, ht_previous = hr_state previous, ht_current = hr_state current,
           ht_reason = ''recovery_attempt_started'', ht_cooldown_applied = False,
           ht_recovery_strategy = strategy\<rparr>))"

definition mark_operator_blocked :: "health_registry \<Rightarrow> string \<Rightarrow> string \<Rightarrow> health_result" where
  "mark_operator_blocked reg backend_id reason =
     (let previous = get_record reg backend_id;
          current = previous\<lparr>hr_state := OPERATOR_BLOCKED, hr_recovery_strategy := ESCALATE,
            hr_operator_blocked_reason := Some reason\<rparr>
      in (put_record reg backend_id current, current,
          \<lparr>ht_backend_id = backend_id, ht_previous = hr_state previous, ht_current = hr_state current,
           ht_reason = reason, ht_cooldown_applied = False, ht_recovery_strategy = ESCALATE\<rparr>))"

section \<open>Sequences of calls\<close>

inductive health_step :: "health_registry \<Rightarrow> health_registry \<Rightarrow> bool" where
  success: "health_step reg (fst (record_success reg b now))"
| failure: "health_step reg (fst (record_failure reg b result now))"
| recovery: "health_step reg (fst (start_recovery reg b strategy))"
| blocked: "health_step reg (fst (mark_operator_blocked reg b reason))"

inductive health_reachable :: "health_registry \<Rightarrow> health_registry \<Rightarrow> bool" for reg0 where
  start: "health_reachable reg0 reg0"
| step: "health_reachable reg0 reg \<Longrightarrow> health_step reg reg' \<Longrightarrow> health_reachable reg0 reg'"

inductive_cases health_stepE: "health_step reg reg'"

definition wf_record :: "health_registry \<Rightarrow> health_record \<Rightarrow> bool" where
  "wf_record reg r =
     (0 \<le> hr_failure_count r \<and> 0 \<le> hr_recovery_attempt_count r
      \<and> hr_safe_retry_after r = hr_cooldown_until r
      \<and> (hr_state r = HEALTHY \<longrightarrow> hr_failure_count r = 0 \<and> hr_cooldown_until r = None
            \<and> hr_operator_blocked_reason r = None \<and> hr_last_success_at r \<noteq> None)
      \<and> (hr_state r = DEGRADED \<longrightarrow> hr_failure_count r < reg_unstable_failure_threshold reg
            \<and> hr_failure_count r < reg_unavailable_failure_threshold reg \<and> hr_last_failure r \<noteq> None)
      \<and> (hr_state r = UNSTABLE \<longrightarrow> 0 < hr_failure_count r
            \<and> (reg_unstable_failure_threshold reg \<le> hr_failure_count r \<or> hr_cooldown_until r \<noteq> None))
      \<and> (hr_state r = UNAVAILABLE \<longrightarrow> reg_unavailable_failure_threshold reg \<le> hr_failure_count r
            \<and> hr_recovery_strategy r = ESCALATE)
      \<and> (hr_state r = OPERATOR_BLOCKED \<longrightarrow> hr_operator_blocked_reason r \<noteq> None))"

definition wf_registry :: "health_registry \<Rightarrow> bool" where
  "wf_registry reg = (\<forall>b r. reg_records reg b = Some r \<longrightarrow> wf_record reg r \<and> hr_backend_id r = b)"

section \<open>Lemmas\<close>

lemma reg_put [simp]:
  "reg_records (put_record reg b r) = (reg_records reg)(b \<mapsto> r)"
  "reg_cooldown_seconds (put_record reg b r) = reg_cooldown_seconds reg"
  "reg_unstable_failure_threshold (put_record reg b r) = reg_unstable_failure_threshold reg"
  "reg_unavailable_failure_threshold (put_record reg b r) = reg_unavailable_failure_threshold reg"
  by (simp_all add: put_record_def)

lemma get_put [simp]: "get_record (put_record reg b r) b' = (if b' = b then r else get_record reg b')"
  by (simp add: get_record_def)

lemma wf_record_put [simp]: "wf_record (put_record reg b r) = wf_record reg"
  by (rule ext) (simp add: wf_record_def)

lemma wf_fresh: "wf_record reg (fresh_record b)"
  by (simp add: wf_record_def fresh_record_def)

lemma wf_get: "wf_registry reg \<Longrightarrow> wf_record reg (get_record reg b) \<and> hr_backend_id (get_record reg b) = b"
  by (auto simp: wf_registry_def get_record_def wf_fresh split: option.splits) (simp add: fresh_record_def)

lemma wf_put:
  "wf_registry reg \<Longrightarrow> wf_record reg r \<Longrightarrow> hr_backend_id r = b \<Longrightarrow> wf_registry (put_record reg b r)"
  by (auto simp: wf_registry_def split: if_splits)

lemmas health_op_defs =
  record_success_def record_failure_def start_recovery_def mark_operator_blocked_def

lemma health_op_put:
  "fst (record_success reg b now) = put_record reg b (fst (snd (record_success reg b now)))"
  "fst (record_failure reg b result now) = put_record reg b (fst (snd (record_failure reg b result now)))"
  "fst (start_recovery reg b strategy) = put_record reg b (fst (snd (start_recovery reg b strategy)))"
  "fst (mark_operator_blocked reg b reason) = put_record reg b (fst (snd (mark_operator_blocked reg b reason)))"
  by (simp_all add: health_op_defs Let_def)

lemma wf_health_ops:
  assumes "wf_registry reg"
  shows "wf_record reg (fst (snd (record_success reg b now)))"
    and "wf_record reg (fst (snd (record_failure reg b result now)))"
    and "wf_record reg (fst (snd (start_recovery reg b strategy)))"
    and "wf_record reg (fst (snd (mark_operator_blocked reg b reason)))"
  using wf_get [OF assms, of b] by (auto simp: health_op_defs Let_def wf_record_def)

lemma health_ops_id:
  assumes "wf_registry reg"
  shows "hr_backend_id (fst (snd (record_success reg b now))) = b"
    and "hr_backend_id (fst (snd (record_failure reg b result now))) = b"
    and "hr_backend_id (fst (snd (start_recovery reg b strategy))) = b"
    and "hr_backend_id (fst (snd (mark_operator_blocked reg b reason))) = b"
  using wf_get [OF assms, of b] by (simp_all add: health_op_defs Let_def)

lemma health_step_wf: "health_step reg reg' \<Longrightarrow> wf_registry reg \<Longrightarrow> wf_registry reg'"
  by (erule health_stepE) (simp_all add: health_op_put wf_put wf_health_ops health_ops_id)

text \<open>
  In every registry reachable by any sequence of the four operations from a registry with no records,
  each record is well formed: its counters are not negative, \<open>safe_retry_after\<close> mirrors \<open>cooldown_until\<close>, a
  HEALTHY record has no failures, cooldown or operator block, DEGRADED means below both thresholds, UNSTABLE
  means the threshold is reached or a kill cooldown is set, UNAVAILABLE means its threshold is reached and
  asks for escalation, and OPERATOR_BLOCKED carries its reason.
\<close>

theorem health_registry_invariant:
  assumes "health_reachable reg0 reg" and "reg_records reg0 = Map.empty"
  shows "wf_registry reg"
  using assms
proof (induction rule: health_reachable.induct)
  case start
  then show ?case by (simp add: wf_registry_def)
next
  case (step reg reg')
  then show ?case by (blast intro: health_step_wf)
qed

theorem health_registry_invariant_witness:
  "wf_registry (fst (mark_operator_blocked default_registry ''team_executor'' ''quota''))"
proof -
  have "health_reachable default_registry (fst (mark_operator_blocked default_registry ''team_executor'' ''quota''))"
    by (rule health_reachable.step [OF health_reachable.start health_step.blocked])
  then show ?thesis
    by (rule health_registry_invariant) (simp add: default_registry_def)
qed

end
