(* ===== verification/Recovery.thy ===== *)
theory Recovery
  imports Backend_Health
begin

text \<open>
  The recovery loop's decision layer (\<open>execution/recovery_loop/\<close>): failure classification, the recovery
  policy, the two handlers and \<open>RecoveryEngine.evaluate\<close>.

  A request object is a pair of its identity and its value, because the coordinator compares requests with
  \<open>is\<close>. Classifier, handlers and budget checker are the protocols the engine is constructed with, so an
  engine is a record of functions; \<open>build_default_engine\<close> fills it with the repository's own. The engine's
  health registry is threaded through \<open>engine_evaluate\<close>, and \<open>now\<close> is what \<open>datetime.now(UTC)\<close> returns.
\<close>

section \<open>Models\<close>

datatype failure_kind =
  FK_NONE | FK_TRANSIENT | FK_TIMEOUT | FK_RATE_LIMIT | FK_AUTH | FK_CONFIGURATION
  | FK_CONTRACT_VIOLATION | FK_BACKEND_UNAVAILABLE | FK_UNKNOWN

fun failure_kind_value :: "failure_kind \<Rightarrow> string" where
  "failure_kind_value FK_NONE = ''none''"
| "failure_kind_value FK_TRANSIENT = ''transient''"
| "failure_kind_value FK_TIMEOUT = ''timeout''"
| "failure_kind_value FK_RATE_LIMIT = ''rate_limit''"
| "failure_kind_value FK_AUTH = ''auth''"
| "failure_kind_value FK_CONFIGURATION = ''configuration''"
| "failure_kind_value FK_CONTRACT_VIOLATION = ''contract_violation''"
| "failure_kind_value FK_BACKEND_UNAVAILABLE = ''backend_unavailable''"
| "failure_kind_value FK_UNKNOWN = ''unknown''"

datatype adapter_error_code =
  AE_TIMEOUT | AE_RATE_LIMIT | AE_AUTH_FAILED | AE_BACKEND_UNAVAILABLE | AE_CONTRACT_REJECTED
  | AE_EXECUTOR_ERROR | AE_UNKNOWN

fun adapter_error_code_value :: "adapter_error_code \<Rightarrow> string" where
  "adapter_error_code_value AE_TIMEOUT = ''timeout''"
| "adapter_error_code_value AE_RATE_LIMIT = ''rate_limit''"
| "adapter_error_code_value AE_AUTH_FAILED = ''auth_failed''"
| "adapter_error_code_value AE_BACKEND_UNAVAILABLE = ''backend_unavailable''"
| "adapter_error_code_value AE_CONTRACT_REJECTED = ''contract_rejected''"
| "adapter_error_code_value AE_EXECUTOR_ERROR = ''executor_error''"
| "adapter_error_code_value AE_UNKNOWN = ''unknown''"

definition adapter_error_codes :: "adapter_error_code list" where
  "adapter_error_codes = [AE_TIMEOUT, AE_RATE_LIMIT, AE_AUTH_FAILED, AE_BACKEND_UNAVAILABLE,
     AE_CONTRACT_REJECTED, AE_EXECUTOR_ERROR, AE_UNKNOWN]"

datatype recovery_decision =
  ACCEPT | RETRY_SAME_REQUEST | RETRY_MODIFIED_REQUEST | REJECT_UNRECOVERABLE
  | STOP_ATTEMPT_BUDGET_EXHAUSTED | STOP_COST_BUDGET_EXHAUSTED | STOP_IDEMPOTENCY_REQUIRED
  | STOP_BACKOFF_REQUIRED | STOP_COOLDOWN_REQUIRED

fun recovery_decision_value :: "recovery_decision \<Rightarrow> string" where
  "recovery_decision_value ACCEPT = ''accept''"
| "recovery_decision_value RETRY_SAME_REQUEST = ''retry_same_request''"
| "recovery_decision_value RETRY_MODIFIED_REQUEST = ''retry_modified_request''"
| "recovery_decision_value REJECT_UNRECOVERABLE = ''reject_unrecoverable''"
| "recovery_decision_value STOP_ATTEMPT_BUDGET_EXHAUSTED = ''stop_attempt_budget_exhausted''"
| "recovery_decision_value STOP_COST_BUDGET_EXHAUSTED = ''stop_cost_budget_exhausted''"
| "recovery_decision_value STOP_IDEMPOTENCY_REQUIRED = ''stop_idempotency_required''"
| "recovery_decision_value STOP_BACKOFF_REQUIRED = ''stop_backoff_required''"
| "recovery_decision_value STOP_COOLDOWN_REQUIRED = ''stop_cooldown_required''"

record recovery_action =
  ra_attempt :: int
  ra_failure_kind :: failure_kind
  ra_decision :: recovery_decision
  ra_reason :: fstring
  ra_handler_name :: "string option"
  ra_modified_fields :: "string list"
  ra_delay_seconds :: "rat option"
  ra_executor_exit_code :: "int option"
  ra_executor_signal :: "string option"
  ra_retry_strategy_used :: "string option"
  ra_retry_strategy_changed :: "bool option"
  ra_remediation_attempt_number :: "int option"
  ra_remediation_lineage_id :: "string option"
  ra_prior_failure_signature :: "string option"

type_synonym request_obj = "nat \<times> oc_execution_request"

record recovery_context =
  rc_original_request :: request_obj
  rc_current_request :: request_obj
  rc_attempt :: int
  rc_previous_actions :: "recovery_action list"

record recovery_outcome =
  ro_decision :: recovery_decision
  ro_action :: recovery_action
  ro_next_request :: "request_obj option"
  ro_requires_policy_revalidation :: bool
  ro_delay_seconds :: "rat option"

record recovery_metadata =
  rm_attempts :: int
  rm_actions :: "recovery_action list"
  rm_final_decision :: recovery_decision
  rm_retry_refused_reason :: "string option"

record recovery_policy =
  rpol_max_attempts :: int
  rpol_retry_unknowns :: bool
  rpol_unknown_retry_limit :: int
  rpol_retryable_kinds :: "failure_kind set"
  rpol_non_retryable_kinds :: "failure_kind set"
  rpol_pre_send_failure_kinds :: "failure_kind set"
  rpol_rate_limit_retry_requires_backoff :: bool
  rpol_max_delay_seconds :: rat

definition default_recovery_policy :: recovery_policy where
  "default_recovery_policy =
     \<lparr>rpol_max_attempts = 1, rpol_retry_unknowns = False, rpol_unknown_retry_limit = 0,
      rpol_retryable_kinds = {FK_TRANSIENT, FK_TIMEOUT, FK_BACKEND_UNAVAILABLE},
      rpol_non_retryable_kinds = {FK_AUTH, FK_CONTRACT_VIOLATION, FK_CONFIGURATION, FK_UNKNOWN},
      rpol_pre_send_failure_kinds = {FK_BACKEND_UNAVAILABLE},
      rpol_rate_limit_retry_requires_backoff = True, rpol_max_delay_seconds = 30\<rparr>"

section \<open>Protocols\<close>

type_synonym classifier = "oc_execution_result \<Rightarrow> recovery_context \<Rightarrow> failure_kind"
type_synonym handler = "failure_kind \<Rightarrow> oc_execution_result \<Rightarrow> recovery_context \<Rightarrow> recovery_outcome option"

record budget_checker =
  bk_class_name :: string
  bk_can_retry :: "oc_execution_request \<Rightarrow> recovery_context \<Rightarrow> bool"

record recovery_engine =
  re_classifier :: classifier
  re_policy :: recovery_policy
  re_handlers :: "handler list"
  re_budget_checker :: "budget_checker option"

definition no_paid_can_retry :: "oc_execution_request \<Rightarrow> recovery_context \<Rightarrow> bool" where
  "no_paid_can_retry request context = False"

definition unbounded_can_retry :: "oc_execution_request \<Rightarrow> recovery_context \<Rightarrow> bool" where
  "unbounded_can_retry request context = True"

definition no_paid_checker :: budget_checker where
  "no_paid_checker = \<lparr>bk_class_name = ''NoPaidRetryBudgetChecker'', bk_can_retry = no_paid_can_retry\<rparr>"

definition unbounded_checker :: budget_checker where
  "unbounded_checker = \<lparr>bk_class_name = ''UnboundedRetryBudgetChecker'', bk_can_retry = unbounded_can_retry\<rparr>"

section \<open>Classification\<close>

text \<open>\<open>s.split(":", 1)[0]\<close> is the text before the first colon.\<close>

definition adapter_error_code_of :: "oc_execution_result \<Rightarrow> adapter_error_code option" where
  "adapter_error_code_of result =
     (let reason = or_empty (xr_failure_reason result); pre = ''adapter_error_code=''
      in if prefix pre reason
         then parse_by adapter_error_code_value adapter_error_codes
                (py_lower (py_strip (takeWhile (\<lambda>c. c \<noteq> CHR '':'') (drop (length pre) reason))))
         else None)"

fun code_mapping :: "adapter_error_code \<Rightarrow> failure_kind option" where
  "code_mapping AE_RATE_LIMIT = Some FK_RATE_LIMIT"
| "code_mapping AE_BACKEND_UNAVAILABLE = Some FK_BACKEND_UNAVAILABLE"
| "code_mapping AE_AUTH_FAILED = Some FK_AUTH"
| "code_mapping AE_CONTRACT_REJECTED = Some FK_CONTRACT_VIOLATION"
| "code_mapping AE_EXECUTOR_ERROR = Some FK_TRANSIENT"
| "code_mapping AE_TIMEOUT = Some FK_TIMEOUT"
| "code_mapping AE_UNKNOWN = None"

definition classify :: classifier where
  "classify result context =
     (if xr_success result then FK_NONE
      else if xr_status result = TIMED_OUT \<or> xr_failure_category result = Some FC_TIMEOUT then FK_TIMEOUT
      else if xr_failure_category result = Some POLICY_BLOCKED then FK_CONFIGURATION
      else if xr_failure_category result = Some VALIDATION_FAILED then FK_CONTRACT_VIOLATION
      else if xr_failure_category result = Some ROUTING_ERROR then FK_CONFIGURATION
      else case adapter_error_code_of result of
             Some code \<Rightarrow> (case code_mapping code of Some mapped \<Rightarrow> mapped | None \<Rightarrow> FK_UNKNOWN)
           | None \<Rightarrow> FK_UNKNOWN)"

section \<open>Backoff hints\<close>

definition RETRY_AFTER_KEYS :: "string list" where
  "RETRY_AFTER_KEYS = [''retry_after'', ''retry_after_seconds'']"

definition is_float_char :: "char \<Rightarrow> bool" where
  "is_float_char c = (is_digit c \<or> c = CHR ''.'')"

fun retry_after_scan :: "string list \<Rightarrow> string \<Rightarrow> rat option" where
  "retry_after_scan [] reason = None"
| "retry_after_scan (key # keys) reason =
     (let token = key @ ''=''
      in case str_find token reason of
           None \<Rightarrow> retry_after_scan keys reason
         | Some idx \<Rightarrow>
             (let num = takeWhile is_float_char (drop (idx + length token) reason)
              in if num = [] then retry_after_scan keys reason
                 else case py_float num of
                        None \<Rightarrow> retry_after_scan keys reason
                      | Some val \<Rightarrow> if val > 0 then Some val else retry_after_scan keys reason))"

definition retry_after_seconds :: "oc_execution_result \<Rightarrow> rat option" where
  "retry_after_seconds result = retry_after_scan RETRY_AFTER_KEYS (or_empty (xr_failure_reason result))"

section \<open>Handlers\<close>

definition new_action ::
  "int \<Rightarrow> failure_kind \<Rightarrow> recovery_decision \<Rightarrow> fstring \<Rightarrow> string option \<Rightarrow> recovery_action" where
  "new_action attempt kind decision reason handler_name =
     \<lparr>ra_attempt = attempt, ra_failure_kind = kind, ra_decision = decision, ra_reason = reason,
      ra_handler_name = handler_name, ra_modified_fields = [], ra_delay_seconds = None,
      ra_executor_exit_code = None, ra_executor_signal = None, ra_retry_strategy_used = None,
      ra_retry_strategy_changed = None, ra_remediation_attempt_number = None,
      ra_remediation_lineage_id = None, ra_prior_failure_signature = None\<rparr>"

definition retry_same_request :: "failure_kind set \<Rightarrow> handler" where
  "retry_same_request kinds kind result context =
     (if kind \<notin> kinds then None
      else Some \<lparr>ro_decision = RETRY_SAME_REQUEST,
             ro_action = new_action (rc_attempt context) kind RETRY_SAME_REQUEST
               [FLit ''retryable failure kind: '', FStr (failure_kind_value kind)] (Some ''retry_same_request''),
             ro_next_request = Some (rc_current_request context),
             ro_requires_policy_revalidation = False, ro_delay_seconds = None\<rparr>)"

definition reject_unrecoverable :: "failure_kind set \<Rightarrow> handler" where
  "reject_unrecoverable kinds kind result context =
     (if kind \<notin> kinds then None
      else Some \<lparr>ro_decision = REJECT_UNRECOVERABLE,
             ro_action = new_action (rc_attempt context) kind REJECT_UNRECOVERABLE
               [FLit ''non-retryable failure kind: '', FStr (failure_kind_value kind)]
               (Some ''reject_unrecoverable''),
             ro_next_request = None, ro_requires_policy_revalidation = False, ro_delay_seconds = None\<rparr>)"

definition build_default_engine :: "recovery_policy option \<Rightarrow> recovery_engine" where
  "build_default_engine policy =
     (let p = (case policy of None \<Rightarrow> default_recovery_policy | Some p \<Rightarrow> p)
      in \<lparr>re_classifier = classify, re_policy = p,
          re_handlers = [retry_same_request (rpol_retryable_kinds p),
                         reject_unrecoverable (rpol_non_retryable_kinds p)],
          re_budget_checker = None\<rparr>)"

section \<open>The engine\<close>

definition backend_id :: "recovery_context \<Rightarrow> string option" where
  "backend_id context =
     (let request = snd (rc_current_request context);
          from_binding = (case er_runtime_binding request of
              Some b \<Rightarrow> if rb_kind b \<noteq> [] then Some (rb_kind b) else None
            | None \<Rightarrow> None)
      in case er_bound_target request of
           Some t \<Rightarrow> if bt_backend t \<noteq> [] then Some (bt_backend t) else from_binding
         | None \<Rightarrow> from_binding)"

definition stop_outcome ::
  "recovery_context \<Rightarrow> failure_kind \<Rightarrow> recovery_decision \<Rightarrow> fstring \<Rightarrow> string option \<Rightarrow> recovery_outcome" where
  "stop_outcome context kind decision reason handler_name =
     \<lparr>ro_decision = decision, ro_action = new_action (rc_attempt context) kind decision reason handler_name,
      ro_next_request = None, ro_requires_policy_revalidation = False, ro_delay_seconds = None\<rparr>"

fun run_handlers ::
  "recovery_policy \<Rightarrow> handler list \<Rightarrow> rat option \<Rightarrow> failure_kind \<Rightarrow> oc_execution_result \<Rightarrow> recovery_context
   \<Rightarrow> recovery_outcome" where
  "run_handlers p [] delay kind result context =
     stop_outcome context kind REJECT_UNRECOVERABLE [FLit ''no handler returned an outcome''] None"
| "run_handlers p (h # hs) delay kind result context =
     (case h kind result context of
        None \<Rightarrow> run_handlers p hs delay kind result context
      | Some oc \<Rightarrow>
          (let final_delay = (if ro_delay_seconds oc \<noteq> None then ro_delay_seconds oc else delay)
           in oc\<lparr>ro_delay_seconds := map_option (\<lambda>d. min d (rpol_max_delay_seconds p)) final_delay\<rparr>))"

definition unknown_retries_used :: "recovery_context \<Rightarrow> int" where
  "unknown_retries_used context =
     int (length (filter (\<lambda>a. ra_failure_kind a = FK_UNKNOWN) (rc_previous_actions context)))"

text \<open>Rules 8 and 9: the delay to use, or the reason to stop.\<close>

definition rate_limit_delay ::
  "recovery_policy \<Rightarrow> failure_kind \<Rightarrow> oc_execution_result \<Rightarrow> fstring + rat option" where
  "rate_limit_delay p kind result =
     (if kind = FK_RATE_LIMIT \<and> rpol_rate_limit_retry_requires_backoff p
      then (case retry_after_seconds result of
              None \<Rightarrow> Inl [FLit ''RATE_LIMIT without usable retry_after metadata'']
            | Some ra \<Rightarrow>
                if ra > rpol_max_delay_seconds p
                then Inl [FLit ''RATE_LIMIT retry_after='', FFloat ra, FLit ''s exceeds max_delay_seconds='',
                          FFloat (rpol_max_delay_seconds p), FLit ''s'']
                else Inr (Some ra))
      else Inr None)"

text \<open>Rules 3 to 13, on a classified failure.\<close>

definition decide_failure ::
  "recovery_engine \<Rightarrow> failure_kind \<Rightarrow> oc_execution_result \<Rightarrow> recovery_context \<Rightarrow> recovery_outcome" where
  "decide_failure eng kind result context =
     (let p = re_policy eng; stop = stop_outcome context kind; used = unknown_retries_used context
      in if kind = FK_UNKNOWN \<and> \<not> rpol_retry_unknowns p
         then stop REJECT_UNRECOVERABLE [FLit ''UNKNOWN failure with retry_unknowns disabled''] None
         else if kind = FK_UNKNOWN \<and> used \<ge> rpol_unknown_retry_limit p
         then stop REJECT_UNRECOVERABLE
                [FLit ''UNKNOWN retry limit reached ('', FInt used, FLit ''/'', FInt (rpol_unknown_retry_limit p),
                 FLit '')''] None
         else if rc_attempt context \<ge> rpol_max_attempts p
         then stop STOP_ATTEMPT_BUDGET_EXHAUSTED
                [FLit ''attempt '', FInt (rc_attempt context), FLit '' reached max_attempts='',
                 FInt (rpol_max_attempts p)] None
         else if kind \<in> rpol_non_retryable_kinds p
         then stop REJECT_UNRECOVERABLE
                [FLit ''failure kind '', FStr (failure_kind_value kind), FLit '' is non-retryable per policy''] None
         else if \<not> er_idempotent (snd (rc_current_request context)) \<and> kind \<notin> rpol_pre_send_failure_kinds p
         then stop STOP_IDEMPOTENCY_REQUIRED
                [FLit ''non-idempotent request and failure '', FStr (failure_kind_value kind),
                 FLit '' is not in pre_send_failure_kinds''] None
         else if (case re_budget_checker eng of
                    None \<Rightarrow> False
                  | Some c \<Rightarrow> \<not> bk_can_retry c (snd (rc_current_request context)) context)
         then stop STOP_COST_BUDGET_EXHAUSTED
                [FLit ''retry budget checker '',
                 FStr (case re_budget_checker eng of None \<Rightarrow> [] | Some c \<Rightarrow> bk_class_name c),
                 FLit '' refused retry''] None
         else case rate_limit_delay p kind result of
                Inl why \<Rightarrow> stop STOP_BACKOFF_REQUIRED why None
              | Inr delay \<Rightarrow> run_handlers p (re_handlers eng) delay kind result context)"

definition engine_evaluate ::
  "recovery_engine \<Rightarrow> health_registry option \<Rightarrow> datetime \<Rightarrow> oc_execution_result \<Rightarrow> recovery_context
   \<Rightarrow> health_registry option \<times> recovery_outcome" where
  "engine_evaluate eng registry now result context =
     (if xr_success result
      then (registry, stop_outcome context FK_NONE ACCEPT [FLit ''result.success is True''] None)
      else
        (let kind = re_classifier eng result context
         in case (registry, backend_id context) of
              (Some reg, Some b) \<Rightarrow>
                (let (reg', _, transition) = record_failure reg b result now
                 in if (ht_current transition = UNSTABLE \<or> ht_current transition = UNAVAILABLE)
                       \<and> ht_cooldown_applied transition
                    then (Some reg', stop_outcome context kind STOP_COOLDOWN_REQUIRED
                            [FLit ''backend health registry applied cooldown after '', FStr (ht_reason transition)]
                            (Some ''backend_health_registry''))
                    else (Some reg', decide_failure eng kind result context))
            | _ \<Rightarrow> (registry, decide_failure eng kind result context)))"

section \<open>Metadata\<close>

definition action_to_summary :: "recovery_action \<Rightarrow> recovery_action_summary" where
  "action_to_summary a =
     \<lparr>ras_attempt = ra_attempt a, ras_failure_kind = failure_kind_value (ra_failure_kind a),
      ras_decision = recovery_decision_value (ra_decision a), ras_reason = ra_reason a,
      ras_handler_name = ra_handler_name a, ras_modified_fields = ra_modified_fields a,
      ras_delay_seconds = ra_delay_seconds a, ras_executor_exit_code = ra_executor_exit_code a,
      ras_executor_signal = ra_executor_signal a, ras_retry_strategy_used = ra_retry_strategy_used a,
      ras_retry_strategy_changed = ra_retry_strategy_changed a,
      ras_remediation_attempt_number = ra_remediation_attempt_number a,
      ras_remediation_lineage_id = ra_remediation_lineage_id a,
      ras_prior_failure_signature = ra_prior_failure_signature a\<rparr>"

definition metadata_to_summary :: "recovery_metadata \<Rightarrow> recovery_metadata_summary" where
  "metadata_to_summary m =
     \<lparr>rms_attempts = rm_attempts m, rms_actions = map action_to_summary (rm_actions m),
      rms_final_decision = recovery_decision_value (rm_final_decision m),
      rms_retry_refused_reason = rm_retry_refused_reason m\<rparr>"

fun refused_reasons :: "recovery_decision \<Rightarrow> string option" where
  "refused_reasons STOP_ATTEMPT_BUDGET_EXHAUSTED = Some ''attempt budget exhausted''"
| "refused_reasons STOP_COST_BUDGET_EXHAUSTED = Some ''cost budget exhausted''"
| "refused_reasons STOP_IDEMPOTENCY_REQUIRED = Some ''non-idempotent request, retry refused''"
| "refused_reasons STOP_BACKOFF_REQUIRED = Some ''rate-limit retry requires bounded backoff''"
| "refused_reasons STOP_COOLDOWN_REQUIRED = Some ''backend cooldown active''"
| "refused_reasons REJECT_UNRECOVERABLE = Some ''non-retryable failure''"
| "refused_reasons ACCEPT = None"
| "refused_reasons RETRY_SAME_REQUEST = None"
| "refused_reasons RETRY_MODIFIED_REQUEST = None"

definition attach_recovery_metadata :: "oc_execution_result \<Rightarrow> recovery_action list \<Rightarrow> oc_execution_result" where
  "attach_recovery_metadata result actions =
     (if actions = [] then result
      else result\<lparr>xr_recovery := Some (metadata_to_summary
             \<lparr>rm_attempts = ra_attempt (last actions), rm_actions = actions,
              rm_final_decision = ra_decision (last actions),
              rm_retry_refused_reason = refused_reasons (ra_decision (last actions))\<rparr>)\<rparr>)"

definition bounded_sleep :: "rat \<Rightarrow> rat \<Rightarrow> rat" where
  "bounded_sleep delay_seconds max_delay_seconds = max 0 (min delay_seconds max_delay_seconds)"

section \<open>Specification\<close>

definition is_retry :: "recovery_decision \<Rightarrow> bool" where
  "is_retry d = (d = RETRY_SAME_REQUEST \<or> d = RETRY_MODIFIED_REQUEST)"

text \<open>The invariants the docstring of \<open>RecoveryOutcome\<close> lists, and that the recorded action agrees.\<close>

definition outcome_wf :: "recovery_policy \<Rightarrow> recovery_context \<Rightarrow> recovery_outcome \<Rightarrow> bool" where
  "outcome_wf p context oc =
     ((ro_next_request oc \<noteq> None) = is_retry (ro_decision oc)
      \<and> (ro_decision oc = RETRY_MODIFIED_REQUEST \<longrightarrow> ro_requires_policy_revalidation oc)
      \<and> (\<forall>d. ro_delay_seconds oc = Some d \<longrightarrow> d \<le> rpol_max_delay_seconds p)
      \<and> ra_decision (ro_action oc) = ro_decision oc \<and> ra_attempt (ro_action oc) = rc_attempt context)"

text \<open>What rules 3 to 7 demand of a failure before any handler is asked.\<close>

definition retry_guards ::
  "recovery_engine \<Rightarrow> failure_kind \<Rightarrow> recovery_context \<Rightarrow> bool" where
  "retry_guards eng kind context =
     (let p = re_policy eng
      in (kind = FK_UNKNOWN \<longrightarrow> rpol_retry_unknowns p \<and> unknown_retries_used context < rpol_unknown_retry_limit p)
         \<and> rc_attempt context < rpol_max_attempts p
         \<and> kind \<notin> rpol_non_retryable_kinds p
         \<and> (er_idempotent (snd (rc_current_request context)) \<or> kind \<in> rpol_pre_send_failure_kinds p)
         \<and> (\<forall>c. re_budget_checker eng = Some c \<longrightarrow> bk_can_retry c (snd (rc_current_request context)) context))"

text \<open>The health registry does not stop this failure: none is wired, no backend is named, or no kill.\<close>

definition no_cooldown ::
  "health_registry option \<Rightarrow> datetime \<Rightarrow> oc_execution_result \<Rightarrow> recovery_context \<Rightarrow> bool" where
  "no_cooldown registry now result context =
     (registry = None \<or> backend_id context = None
      \<or> extract_signal (or_empty (xr_failure_reason result)) \<noteq> Some ''SIGKILL'')"

section \<open>The handler contract\<close>

locale recovery_handler =
  fixes recover :: handler
  assumes next_iff_retry:
      "recover kind result context = Some oc \<Longrightarrow> (ro_next_request oc \<noteq> None) = is_retry (ro_decision oc)"
    and modified_revalidates:
      "recover kind result context = Some oc \<Longrightarrow> ro_decision oc = RETRY_MODIFIED_REQUEST \<Longrightarrow>
         ro_requires_policy_revalidation oc"
    and same_keeps_request:
      "recover kind result context = Some oc \<Longrightarrow> ro_decision oc = RETRY_SAME_REQUEST \<Longrightarrow>
         ro_next_request oc = Some (rc_current_request context)"
    and action_agrees:
      "recover kind result context = Some oc \<Longrightarrow>
         ra_decision (ro_action oc) = ro_decision oc \<and> ra_attempt (ro_action oc) = rc_attempt context"
begin

lemma clamped_outcome_wf:
  "recover kind result context = Some oc \<Longrightarrow>
     outcome_wf p context (oc\<lparr>ro_delay_seconds := map_option (\<lambda>d. min d (rpol_max_delay_seconds p)) delay\<rparr>)"
  using next_iff_retry modified_revalidates action_agrees by (auto simp: outcome_wf_def)

end

interpretation retry_same: recovery_handler "retry_same_request kinds" for kinds
  by unfold_locales (auto simp: retry_same_request_def is_retry_def new_action_def split: if_splits)

interpretation reject_handler: recovery_handler "reject_unrecoverable kinds" for kinds
  by unfold_locales (auto simp: reject_unrecoverable_def is_retry_def new_action_def split: if_splits)

section \<open>Lemmas\<close>

lemma stop_outcome_wf:
  "\<not> is_retry decision \<Longrightarrow> outcome_wf p context (stop_outcome context kind decision reason name)"
  by (simp add: outcome_wf_def stop_outcome_def new_action_def is_retry_def)

lemma stop_outcome_simps [simp]:
  "ro_decision (stop_outcome context kind decision reason name) = decision"
  "ro_next_request (stop_outcome context kind decision reason name) = None"
  "ro_delay_seconds (stop_outcome context kind decision reason name) = None"
  by (simp_all add: stop_outcome_def)

lemma is_retry_simps [simp]:
  "is_retry RETRY_SAME_REQUEST" "is_retry RETRY_MODIFIED_REQUEST" "\<not> is_retry ACCEPT"
  "\<not> is_retry REJECT_UNRECOVERABLE" "\<not> is_retry STOP_ATTEMPT_BUDGET_EXHAUSTED"
  "\<not> is_retry STOP_COST_BUDGET_EXHAUSTED" "\<not> is_retry STOP_IDEMPOTENCY_REQUIRED"
  "\<not> is_retry STOP_BACKOFF_REQUIRED" "\<not> is_retry STOP_COOLDOWN_REQUIRED"
  by (simp_all add: is_retry_def)

lemma run_handlers_wf:
  assumes "\<forall>h \<in> set hs. recovery_handler h"
  shows "outcome_wf p context (run_handlers p hs delay kind result context)"
  using assms
proof (induction hs)
  case Nil
  then show ?case by (simp add: stop_outcome_wf)
next
  case (Cons h hs)
  then show ?case
    using recovery_handler.clamped_outcome_wf [of h kind result "context"]
    by (cases "h kind result context")
       (simp, simp only: run_handlers.simps option.case Let_def list.set ball_simps insert_iff)
qed

definition stopped_with_no_retry :: "recovery_context \<Rightarrow> failure_kind \<Rightarrow> recovery_outcome \<Rightarrow> bool" where
  "stopped_with_no_retry context kind oc =
     (\<exists>decision reason. oc = stop_outcome context kind decision reason None \<and> \<not> is_retry decision)"

lemma stopped_intro: "\<not> is_retry decision \<Longrightarrow> stopped_with_no_retry context kind (stop_outcome context kind decision reason None)"
  by (auto simp: stopped_with_no_retry_def)

lemma decide_failure_guarded:
  "retry_guards eng kind context \<Longrightarrow> decide_failure eng kind result context =
      (case rate_limit_delay (re_policy eng) kind result of
         Inl why \<Rightarrow> stop_outcome context kind STOP_BACKOFF_REQUIRED why None
       | Inr delay \<Rightarrow> run_handlers (re_policy eng) (re_handlers eng) delay kind result context)"
  by (auto simp: decide_failure_def retry_guards_def Let_def not_le split: option.split)

lemma decide_failure_unguarded:
  "\<not> retry_guards eng kind context \<Longrightarrow> stopped_with_no_retry context kind (decide_failure eng kind result context)"
  by (auto simp: decide_failure_def retry_guards_def Let_def not_le stopped_intro split: option.split)

text \<open>Either a rule stopped the failure, or every guard passed and the handlers decide.\<close>

lemma decide_failure_cases:
  obtains (stopped) "stopped_with_no_retry context kind (decide_failure eng kind result context)"
      "\<not> retry_guards eng kind context \<or> (\<exists>why. rate_limit_delay (re_policy eng) kind result = Inl why)"
  | (handled) delay where
      "decide_failure eng kind result context =
         run_handlers (re_policy eng) (re_handlers eng) delay kind result context"
      "retry_guards eng kind context" "rate_limit_delay (re_policy eng) kind result = Inr delay"
proof (cases "retry_guards eng kind context")
  case True
  then show thesis using decide_failure_guarded [OF True, of result] that
    by (cases "rate_limit_delay (re_policy eng) kind result") (auto simp: stopped_intro)
next
  case False
  then show thesis using decide_failure_unguarded [OF False, of result] that by blast
qed

lemma stopped_wf: "stopped_with_no_retry context kind oc \<Longrightarrow> outcome_wf p context oc"
  by (auto simp: stopped_with_no_retry_def stop_outcome_wf)

lemma stopped_no_retry: "stopped_with_no_retry context kind oc \<Longrightarrow> ro_next_request oc = None \<and> \<not> is_retry (ro_decision oc)"
  by (auto simp: stopped_with_no_retry_def)

text \<open>The engine either stops, or decides the classified failure with no cooldown in force.\<close>

lemma record_failure_transition:
  "snd (snd (record_failure reg b result now)) = tr \<Longrightarrow>
     ((ht_current tr = UNSTABLE \<or> ht_current tr = UNAVAILABLE) \<and> ht_cooldown_applied tr) \<longleftrightarrow>
       extract_signal (or_empty (xr_failure_reason result)) = Some ''SIGKILL''"
  by (auto simp: record_failure_def Let_def)

lemma engine_evaluate_outcome:
  "snd (engine_evaluate eng registry now result context) =
     (if xr_success result then stop_outcome context FK_NONE ACCEPT [FLit ''result.success is True''] None
      else if no_cooldown registry now result context
      then decide_failure eng (re_classifier eng result context) result context
      else stop_outcome context (re_classifier eng result context) STOP_COOLDOWN_REQUIRED
             [FLit ''backend health registry applied cooldown after '', FStr (failure_signature result)]
             (Some ''backend_health_registry''))"
proof (cases "registry = None \<or> backend_id context = None")
  case True
  then show ?thesis
    by (auto simp: engine_evaluate_def no_cooldown_def Let_def split: option.splits)
next
  case False
  then obtain reg b where [simp]: "registry = Some reg" "backend_id context = Some b" by auto
  obtain reg' r tr where rf: "record_failure reg b result now = (reg', r, tr)" by (cases "record_failure reg b result now")
  then have "ht_reason tr = failure_signature result"
    by (auto simp: record_failure_def Let_def)
  then show ?thesis
    using record_failure_transition [of reg b result now tr]
    by (simp add: engine_evaluate_def no_cooldown_def Let_def rf)
qed

lemma retry_after_pos: "retry_after_scan keys reason = Some v \<Longrightarrow> 0 < v"
  by (induction keys) (auto simp: Let_def split: option.splits if_splits)

lemma rate_limit_delay_bound:
  "rate_limit_delay p kind result = Inr (Some ra) \<Longrightarrow>
     retry_after_seconds result = Some ra \<and> 0 < ra \<and> ra \<le> rpol_max_delay_seconds p"
  by (auto simp: rate_limit_delay_def retry_after_seconds_def retry_after_pos split: if_splits option.splits)

lemma rate_limit_delay_Some:
  "rate_limit_delay p FK_RATE_LIMIT result = Inr d \<Longrightarrow> rpol_rate_limit_retry_requires_backoff p \<Longrightarrow> \<exists>ra. d = Some ra"
  by (cases "retry_after_seconds result"; cases d) (simp_all add: rate_limit_delay_def split: if_splits)

lemma rate_limit_delay_clamped:
  "rate_limit_delay p kind result = Inr d \<Longrightarrow> map_option (\<lambda>x. min x (rpol_max_delay_seconds p)) d = d"
  by (cases d) (auto dest: rate_limit_delay_bound)

text \<open>The two handlers of the default engine, under its policy.\<close>

lemma default_run_handlers:
  assumes "kind \<notin> rpol_non_retryable_kinds p" and "rate_limit_delay p kind result = Inr delay"
  shows "run_handlers p (re_handlers (build_default_engine (Some p))) delay kind result context =
    (if kind \<in> rpol_retryable_kinds p
     then \<lparr>ro_decision = RETRY_SAME_REQUEST,
           ro_action = new_action (rc_attempt context) kind RETRY_SAME_REQUEST
             [FLit ''retryable failure kind: '', FStr (failure_kind_value kind)] (Some ''retry_same_request''),
           ro_next_request = Some (rc_current_request context),
           ro_requires_policy_revalidation = False, ro_delay_seconds = delay\<rparr>
     else stop_outcome context kind REJECT_UNRECOVERABLE [FLit ''no handler returned an outcome''] None)"
  using assms rate_limit_delay_clamped [OF assms(2)]
  by (simp add: build_default_engine_def retry_same_request_def reject_unrecoverable_def Let_def)

lemma build_default_engine_simps [simp]:
  "re_policy (build_default_engine (Some p)) = p"
  "re_classifier (build_default_engine (Some p)) = classify"
  "re_budget_checker (build_default_engine (Some p)) = None"
  by (simp_all add: build_default_engine_def Let_def)

lemma retry_guards_not_listed: "retry_guards eng kind context \<Longrightarrow> kind \<notin> rpol_non_retryable_kinds (re_policy eng)"
  by (simp add: retry_guards_def Let_def)

definition sample_context :: "bool \<Rightarrow> int \<Rightarrow> recovery_context" where
  "sample_context idempotent attempt =
     \<lparr>rc_original_request = (0, sample_request idempotent), rc_current_request = (0, sample_request idempotent),
      rc_attempt = attempt, rc_previous_actions = []\<rparr>"

section \<open>Properties of the engine\<close>

text \<open>
  For any engine, with any classifier, handlers and budget checker, a retry (a retry decision or a request
  to run next) is only ever returned when the result failed, the attempt is below \<open>max_attempts\<close>, the kind is
  not in the non-retryable set, the request is idempotent or the failure is a pre-send kind, the budget
  checker agrees, an UNKNOWN failure is within its own opt-in limit, the wired health registry did not just
  apply a kill cooldown, and a rate limit that needs backoff names a usable delay within the policy's bound.
\<close>

theorem retry_only_when_guarded:
  assumes "snd (engine_evaluate eng registry now result context) = oc"
    and "is_retry (ro_decision oc) \<or> ro_next_request oc \<noteq> None"
  defines "kind \<equiv> re_classifier eng result context"
  shows "\<not> xr_success result \<and> no_cooldown registry now result context \<and> retry_guards eng kind context
    \<and> (kind = FK_RATE_LIMIT \<and> rpol_rate_limit_retry_requires_backoff (re_policy eng) \<longrightarrow>
         (\<exists>ra. retry_after_seconds result = Some ra \<and> 0 < ra \<and> ra \<le> rpol_max_delay_seconds (re_policy eng)))"
proof -
  have "\<not> xr_success result" "no_cooldown registry now result context" "decide_failure eng kind result context = oc"
    using assms by (auto simp: engine_evaluate_outcome split: if_splits)
  moreover have "retry_guards eng kind context \<and> (\<exists>d. rate_limit_delay (re_policy eng) kind result = Inr d)"
  proof (cases rule: decide_failure_cases [of "context" kind eng result])
    case stopped
    then show ?thesis using assms(2) \<open>decide_failure eng kind result context = oc\<close> by (auto dest: stopped_no_retry)
  qed auto
  ultimately show ?thesis
    using rate_limit_delay_Some rate_limit_delay_bound by metis
qed

theorem retry_only_when_guarded_witness:
  "retry_guards (build_default_engine (Some (default_recovery_policy\<lparr>rpol_max_attempts := 3\<rparr>))) FK_TIMEOUT
     (sample_context True 1)"
proof -
  let ?eng = "build_default_engine (Some (default_recovery_policy\<lparr>rpol_max_attempts := 3\<rparr>))"
  let ?res = "sample_result TIMED_OUT None None"
  let ?oc = "snd (engine_evaluate ?eng None 0 ?res (sample_context True 1))"
  have "ro_next_request ?oc \<noteq> None" by code_simp
  moreover have "re_classifier ?eng ?res (sample_context True 1) = FK_TIMEOUT" by code_simp
  ultimately show ?thesis
    using retry_only_when_guarded [of ?eng None 0 ?res "sample_context True 1" ?oc] by simp
qed

text \<open>
  Every outcome of an engine whose handlers keep the handler contract satisfies the invariants documented
  on \<open>RecoveryOutcome\<close>: only retry decisions carry a next request and all of them do, a modified retry asks for
  policy revalidation, the delay is bounded by \<open>max_delay_seconds\<close>, and the recorded action names the outcome's
  own decision and attempt.
\<close>

theorem engine_outcome_invariants:
  assumes "\<forall>h \<in> set (re_handlers eng). recovery_handler h"
  shows "outcome_wf (re_policy eng) context (snd (engine_evaluate eng registry now result context))"
proof -
  have "outcome_wf (re_policy eng) context (decide_failure eng kind result context)" for kind
    using assms by (cases rule: decide_failure_cases [of "context" kind eng result])
      (auto simp: stopped_wf run_handlers_wf)
  then show ?thesis
    by (simp add: engine_evaluate_outcome stop_outcome_wf)
qed

lemma default_handlers: "\<forall>h \<in> set (re_handlers (build_default_engine policy)). recovery_handler h"
  by (simp add: build_default_engine_def Let_def retry_same.recovery_handler_axioms
      reject_handler.recovery_handler_axioms)

theorem engine_outcome_invariants_witness:
  "outcome_wf default_recovery_policy (sample_context True 1)
     (snd (engine_evaluate (build_default_engine None) (Some default_registry) 0
        (sample_result TIMED_OUT None None) (sample_context True 1)))"
  using engine_outcome_invariants [OF default_handlers, of None "sample_context True 1" "Some default_registry" 0
      "sample_result TIMED_OUT None None"]
  by (simp add: build_default_engine_def)

text \<open>
  C10: the engine \<open>build_default_engine\<close> builds retries exactly when the guards hold, the kind is in the
  policy's retryable set and a rate limit has its backoff; it then re-runs the very same request object, with the
  hinted delay.
\<close>

theorem default_engine_retry_iff:
  fixes p :: recovery_policy
  defines "eng \<equiv> build_default_engine (Some p)"
  shows "is_retry (ro_decision (snd (engine_evaluate eng registry now result context))) \<longleftrightarrow>
    \<not> xr_success result \<and> no_cooldown registry now result context
    \<and> retry_guards eng (classify result context) context
    \<and> classify result context \<in> rpol_retryable_kinds p
    \<and> (\<exists>delay. rate_limit_delay p (classify result context) result = Inr delay
         \<and> snd (engine_evaluate eng registry now result context) =
             \<lparr>ro_decision = RETRY_SAME_REQUEST,
              ro_action = new_action (rc_attempt context) (classify result context) RETRY_SAME_REQUEST
                [FLit ''retryable failure kind: '', FStr (failure_kind_value (classify result context))]
                (Some ''retry_same_request''),
              ro_next_request = Some (rc_current_request context),
              ro_requires_policy_revalidation = False, ro_delay_seconds = delay\<rparr>)"
proof -
  let ?k = "classify result context"
  have "is_retry (ro_decision (decide_failure eng ?k result context)) \<longleftrightarrow>
      retry_guards eng ?k context \<and> ?k \<in> rpol_retryable_kinds p
      \<and> (\<exists>delay. rate_limit_delay p ?k result = Inr delay \<and> decide_failure eng ?k result context =
           \<lparr>ro_decision = RETRY_SAME_REQUEST,
            ro_action = new_action (rc_attempt context) ?k RETRY_SAME_REQUEST
              [FLit ''retryable failure kind: '', FStr (failure_kind_value ?k)] (Some ''retry_same_request''),
            ro_next_request = Some (rc_current_request context),
            ro_requires_policy_revalidation = False, ro_delay_seconds = delay\<rparr>)" (is "_ \<longleftrightarrow> ?R")
  proof (cases rule: decide_failure_cases [of "context" ?k eng result])
    case stopped
    then show ?thesis by (auto simp: eng_def dest: stopped_no_retry)
  next
    case (handled delay)
    then show ?thesis
      using default_run_handlers [of ?k p result delay "context"] retry_guards_not_listed [OF handled(2)]
      by (simp add: eng_def)
  qed
  then show ?thesis
    by (simp add: engine_evaluate_outcome eng_def)
qed

text \<open>
  With the kind sets of the default policy, whatever the other settings, an UNKNOWN failure is never
  retried: \<open>retry_unknowns\<close> and \<open>unknown_retry_limit\<close> have no effect because UNKNOWN is in the default
  \<open>non_retryable_kinds\<close>.
\<close>

theorem retry_unknowns_without_effect:
  assumes "rpol_non_retryable_kinds p = rpol_non_retryable_kinds default_recovery_policy"
    and "classify result context = FK_UNKNOWN"
  shows "\<not> is_retry (ro_decision (snd (engine_evaluate (build_default_engine (Some p)) registry now result context)))"
  using assms stopped_no_retry [OF decide_failure_unguarded]
  by (simp add: engine_evaluate_outcome retry_guards_def default_recovery_policy_def Let_def)

theorem retry_unknowns_without_effect_witness:
  "\<not> is_retry (ro_decision (snd (engine_evaluate
       (build_default_engine (Some (default_recovery_policy\<lparr>rpol_max_attempts := 3, rpol_retry_unknowns := True,
          rpol_unknown_retry_limit := 2\<rparr>))) None 0 (sample_result FAILED (Some BACKEND_ERROR) None)
       (sample_context True 1))))"
  by (rule retry_unknowns_without_effect) (simp, code_simp)

end
