(* ===== verification/Json_Values.thy ===== *)
theory Json_Values
  imports OC_Prelude "HOL-Library.AList"
begin

text \<open>
  JSON documents as the code reads and writes them. An object is an association list from keys to values; \<open>JTime t\<close> is
  the ISO-8601 text of an aware UTC datetime (what \<open>isoformat\<close> writes and \<open>fromisoformat\<close> reads back) and \<open>JStr s\<close> any
  other text, on which \<open>fromisoformat\<close> raises.
\<close>

section \<open>JSON values\<close>

datatype json =
  JNull | JBool bool | JInt int | JFloat rat | JStr string | JTime datetime
  | JList "json list" | JObj "(string \<times> json) list"

type_synonym event = "(string \<times> json) list"

fun truthy :: "json option \<Rightarrow> bool" where
  "truthy None = False"
| "truthy (Some JNull) = False"
| "truthy (Some (JBool b)) = b"
| "truthy (Some (JInt n)) = (n \<noteq> 0)"
| "truthy (Some (JFloat x)) = (x \<noteq> 0)"
| "truthy (Some (JStr s)) = (s \<noteq> [])"
| "truthy (Some (JTime t)) = True"
| "truthy (Some (JList xs)) = (xs \<noteq> [])"
| "truthy (Some (JObj kvs)) = (kvs \<noteq> [])"

text \<open>\<open>datetime.fromisoformat(str(v))\<close>, with \<^const>\<open>None\<close> for the exceptions the callers catch.\<close>

fun iso :: "json option \<Rightarrow> datetime option" where
  "iso (Some (JTime t)) = Some t"
| "iso _ = None"

definition timestamp_of :: "event \<Rightarrow> datetime option" where
  "timestamp_of e = iso (map_of e ''timestamp'')"

definition kind_is :: "string \<Rightarrow> event \<Rightarrow> bool" where
  "kind_is k e = (map_of e ''kind'' = Some (JStr k))"

text \<open>An optional field, added to a record only when it is set.\<close>

definition opt_field :: "string \<Rightarrow> string option \<Rightarrow> event" where
  "opt_field k v = (case v of None \<Rightarrow> [] | Some s \<Rightarrow> [(k, JStr s)])"

definition truthy_field :: "string \<Rightarrow> string option \<Rightarrow> event" where
  "truthy_field k v = (if truthy_str v then opt_field k v else [])"

definition opt_json :: "string option \<Rightarrow> json" where
  "opt_json v = (case v of None \<Rightarrow> JNull | Some s \<Rightarrow> JStr s)"

text \<open>\<open>sorted(..., key=f, reverse=True)\<close> for a time \<open>f\<close>, which keeps the order of equal keys.\<close>

definition newest_first :: "('a \<Rightarrow> datetime) \<Rightarrow> 'a list \<Rightarrow> 'a list" where
  "newest_first f xs = sort_key (\<lambda>x. - f x) xs"

end
