(* ===== verification/Usage_Store.thy ===== *)
theory Usage_Store
  imports Json_Values
begin

text \<open>
  The persistent usage store (\<open>execution/usage_store.py\<close>): the file's data, load, save with its disk-space
  guard, pruning, and every operation that writes the file.

  The file is \<^typ>\<open>'a option\<close>: \<^const>\<open>None\<close> before it exists. An event is a JSON object, an association list
  from keys to JSON values. The free space that
  \<open>shutil.disk_usage\<close> reports is the argument \<open>free_mb\<close>, \<^const>\<open>None\<close> when it cannot be read. A writing operation
  returns \<^const>\<open>Inl\<close> with the message of the \<open>OSError\<close> and then has written nothing, or the new file.
\<close>

section \<open>The file's data\<close>

record usage_data =
  ud_updated_at :: "datetime option"
  ud_events :: "event list"
  ud_task_attempts :: "string \<rightharpoonup> int"
  ud_last_task_signatures :: "string \<rightharpoonup> string"
  ud_task_artifacts :: "string \<rightharpoonup> event"
  ud_hourly_exec_count :: int
  ud_daily_exec_count :: int
  ud_skipped_due_to_budget :: int
  ud_skipped_due_to_noop :: int
  ud_skipped_due_to_cooldown :: int
  ud_blocked_due_to_retry_cap :: int
  ud_suppressed_due_to_proposal_budget :: int
  ud_budget_cap_samples :: "(rat \<times> datetime) list"

datatype os_error = DiskSpaceCritical rat

type_synonym usage_file = "usage_data option"
type_synonym write_result = "os_error + usage_file"

definition empty_data :: usage_data where
  "empty_data =
     \<lparr>ud_updated_at = None, ud_events = [], ud_task_attempts = Map.empty,
      ud_last_task_signatures = Map.empty, ud_task_artifacts = Map.empty, ud_hourly_exec_count = 0,
      ud_daily_exec_count = 0, ud_skipped_due_to_budget = 0, ud_skipped_due_to_noop = 0,
      ud_skipped_due_to_cooldown = 0, ud_blocked_due_to_retry_cap = 0,
      ud_suppressed_due_to_proposal_budget = 0, ud_budget_cap_samples = []\<rparr>"

definition load :: "usage_file \<Rightarrow> usage_data" where
  "load file = (case file of None \<Rightarrow> empty_data | Some d \<Rightarrow> d)"

section \<open>Saving\<close>

definition DISK_MIN_MB :: rat where
  "DISK_MIN_MB = 50"

definition check_disk_space :: "rat option \<Rightarrow> os_error option" where
  "check_disk_space free_mb =
     (case free_mb of
        None \<Rightarrow> None
      | Some free \<Rightarrow> if free < DISK_MIN_MB then Some (DiskSpaceCritical free) else None)"

definition exec_count :: "event list \<Rightarrow> datetime \<Rightarrow> int" where
  "exec_count events since =
     int (length (filter (\<lambda>e. kind_is ''execution'' e
       \<and> (case timestamp_of e of None \<Rightarrow> False | Some ts \<Rightarrow> since \<le> ts)) events))"

definition retained :: "datetime \<Rightarrow> event \<Rightarrow> bool" where
  "retained cutoff e = (case timestamp_of e of None \<Rightarrow> False | Some ts \<Rightarrow> cutoff \<le> ts)"

definition prune_events :: "event list \<Rightarrow> datetime \<Rightarrow> event list" where
  "prune_events events now = last_n 1000 (filter (retained (now - td_days 7)) events)"

definition count_kind :: "event list \<Rightarrow> string \<Rightarrow> int" where
  "count_kind events k = int (length (filter (kind_is k) events))"

text \<open>The data \<open>save\<close> writes: pruned events and every derived field recomputed.\<close>

definition saved :: "usage_data \<Rightarrow> datetime \<Rightarrow> usage_data" where
  "saved data now =
     (let events = prune_events (ud_events data) now
      in data\<lparr>ud_events := events, ud_updated_at := Some now,
           ud_hourly_exec_count := exec_count events (now - td_hours 1),
           ud_daily_exec_count := exec_count events (now - td_days 1),
           ud_skipped_due_to_budget := count_kind events ''skip_budget'',
           ud_skipped_due_to_noop := count_kind events ''skip_noop'',
           ud_skipped_due_to_cooldown := count_kind events ''skip_cooldown'',
           ud_blocked_due_to_retry_cap := count_kind events ''retry_cap_block'',
           ud_suppressed_due_to_proposal_budget := count_kind events ''proposal_budget_suppressed''\<rparr>)"

definition save :: "rat option \<Rightarrow> usage_data \<Rightarrow> datetime \<Rightarrow> write_result" where
  "save free_mb data now =
     (case check_disk_space free_mb of Some err \<Rightarrow> Inl err | None \<Rightarrow> Inr (Some (saved data now)))"

definition append_event :: "rat option \<Rightarrow> usage_data \<Rightarrow> event \<Rightarrow> datetime \<Rightarrow> write_result" where
  "append_event free_mb data event now = save free_mb (data\<lparr>ud_events := ud_events data @ [event]\<rparr>) now"

section \<open>Recording operations\<close>

definition with_attempt :: "usage_data \<Rightarrow> string \<Rightarrow> string \<Rightarrow> string \<Rightarrow> usage_data" where
  "with_attempt data role task_id signature =
     (let n = (case ud_task_attempts data task_id of None \<Rightarrow> 0 | Some n \<Rightarrow> n)
      in data\<lparr>ud_task_attempts := (ud_task_attempts data)(task_id \<mapsto> n + 1),
           ud_last_task_signatures := (ud_last_task_signatures data)(role @ '':'' @ task_id \<mapsto> signature)\<rparr>)"

definition execution_event ::
  "string \<Rightarrow> string \<Rightarrow> string \<Rightarrow> datetime \<Rightarrow> string option \<Rightarrow> string option \<Rightarrow> event" where
  "execution_event role task_id signature now repo_key backend =
     [(''kind'', JStr ''execution''), (''role'', JStr role), (''task_id'', JStr task_id),
      (''signature'', JStr signature), (''timestamp'', JTime now)]
     @ truthy_field ''repo_key'' repo_key @ truthy_field ''backend'' backend"

definition record_execution ::
  "rat option \<Rightarrow> usage_file \<Rightarrow> string \<Rightarrow> string \<Rightarrow> string \<Rightarrow> datetime \<Rightarrow> string option \<Rightarrow> string option
   \<Rightarrow> write_result" where
  "record_execution free_mb file role task_id signature now repo_key backend =
     append_event free_mb (with_attempt (load file) role task_id signature)
       (execution_event role task_id signature now repo_key backend) now"

definition record_execution_outcome ::
  "rat option \<Rightarrow> usage_file \<Rightarrow> string \<Rightarrow> string \<Rightarrow> bool \<Rightarrow> datetime \<Rightarrow> string option \<Rightarrow> string option
   \<Rightarrow> write_result" where
  "record_execution_outcome free_mb file task_id role succeeded now backend backend_version =
     append_event free_mb (load file)
       ([(''kind'', JStr ''execution_outcome''), (''task_id'', JStr task_id), (''role'', JStr role),
         (''succeeded'', JBool succeeded), (''timestamp'', JTime now)]
        @ truthy_field ''backend'' backend @ truthy_field ''backend_version'' backend_version) now"

definition record_quality_warning ::
  "rat option \<Rightarrow> usage_file \<Rightarrow> string \<Rightarrow> string \<Rightarrow> (string \<times> int) list \<Rightarrow> datetime \<Rightarrow> write_result" where
  "record_quality_warning free_mb file task_id repo_key suppression_counts now =
     append_event free_mb (load file)
       [(''kind'', JStr ''executor_quality_warning''), (''task_id'', JStr task_id), (''repo_key'', JStr repo_key),
        (''suppression_counts'', JObj (map (map_prod id JInt) suppression_counts)), (''timestamp'', JTime now)] now"

definition record_scope_violation ::
  "rat option \<Rightarrow> usage_file \<Rightarrow> string \<Rightarrow> string \<Rightarrow> string list \<Rightarrow> datetime \<Rightarrow> write_result" where
  "record_scope_violation free_mb file task_id repo_key violated_files now =
     append_event free_mb (load file)
       [(''kind'', JStr ''scope_violation''), (''task_id'', JStr task_id), (''repo_key'', JStr repo_key),
        (''violated_files'', JList (map JStr (take 10 violated_files))), (''timestamp'', JTime now)] now"

definition record_quota_event ::
  "rat option \<Rightarrow> usage_file \<Rightarrow> string \<Rightarrow> string \<Rightarrow> string \<Rightarrow> datetime \<Rightarrow> write_result" where
  "record_quota_event free_mb file task_id role backend now =
     append_event free_mb (load file)
       [(''kind'', JStr ''quota_event''), (''task_id'', JStr task_id), (''role'', JStr role),
        (''backend'', JStr backend), (''timestamp'', JTime now)] now"

definition started_event :: "string \<Rightarrow> string \<Rightarrow> datetime \<Rightarrow> event" where
  "started_event task_id backend now =
     [(''kind'', JStr ''execution_started''), (''task_id'', JStr task_id), (''backend'', JStr backend),
      (''timestamp'', JTime now)]"

definition record_execution_started ::
  "rat option \<Rightarrow> usage_file \<Rightarrow> string \<Rightarrow> string \<Rightarrow> datetime \<Rightarrow> write_result" where
  "record_execution_started free_mb file task_id backend now =
     append_event free_mb (load file) (started_event task_id backend now) now"

definition finished_event :: "string \<Rightarrow> string \<Rightarrow> datetime \<Rightarrow> event" where
  "finished_event task_id backend now =
     [(''kind'', JStr ''execution_finished''), (''task_id'', JStr task_id), (''backend'', JStr backend),
      (''timestamp'', JTime now)]"

definition record_execution_finished ::
  "rat option \<Rightarrow> usage_file \<Rightarrow> string \<Rightarrow> string \<Rightarrow> datetime \<Rightarrow> write_result" where
  "record_execution_finished free_mb file task_id backend now =
     append_event free_mb (load file) (finished_event task_id backend now) now"

definition record_execution_duration ::
  "rat option \<Rightarrow> usage_file \<Rightarrow> string \<Rightarrow> string \<Rightarrow> rat \<Rightarrow> datetime \<Rightarrow> write_result" where
  "record_execution_duration free_mb file task_id role duration_seconds now =
     append_event free_mb (load file)
       [(''kind'', JStr ''execution_duration''), (''task_id'', JStr task_id), (''role'', JStr role),
        (''duration_seconds'', JFloat (py_round 1 duration_seconds)), (''timestamp'', JTime now)] now"

definition with_signature :: "usage_data \<Rightarrow> string \<Rightarrow> string \<Rightarrow> string \<Rightarrow> usage_data" where
  "with_signature data role task_id signature =
     data\<lparr>ud_last_task_signatures := (ud_last_task_signatures data)(role @ '':'' @ task_id \<mapsto> signature)\<rparr>"

definition record_skip ::
  "rat option \<Rightarrow> usage_file \<Rightarrow> string \<Rightarrow> string \<Rightarrow> string \<Rightarrow> string \<Rightarrow> string option \<Rightarrow> datetime
   \<Rightarrow> event option \<Rightarrow> write_result" where
  "record_skip free_mb file role task_id signature reason detail now evidence =
     (let data = (if reason = ''no_op'' then with_signature (load file) role task_id signature else load file);
          kind0 = (if reason = ''no_op'' then ''skip_noop'' else ''skip_budget'');
          kind = (if reason = ''cooldown_active'' then ''skip_cooldown'' else kind0)
      in append_event free_mb data
           [(''kind'', JStr kind), (''role'', JStr role), (''task_id'', JStr task_id),
            (''signature'', JStr signature), (''reason'', JStr reason), (''detail'', opt_json detail),
            (''evidence'', JObj (case evidence of None \<Rightarrow> [] | Some kvs \<Rightarrow> kvs)), (''timestamp'', JTime now)] now)"

definition record_retry_cap ::
  "rat option \<Rightarrow> usage_file \<Rightarrow> string \<Rightarrow> string \<Rightarrow> datetime \<Rightarrow> int \<Rightarrow> int \<Rightarrow> write_result" where
  "record_retry_cap free_mb file role task_id now attempts limit =
     append_event free_mb (load file)
       [(''kind'', JStr ''retry_cap_block''), (''role'', JStr role), (''task_id'', JStr task_id),
        (''attempts'', JInt attempts), (''limit'', JInt limit), (''timestamp'', JTime now)] now"

definition record_proposal_cycle ::
  "rat option \<Rightarrow> usage_file \<Rightarrow> int \<Rightarrow> int \<Rightarrow> int \<Rightarrow> datetime \<Rightarrow> write_result" where
  "record_proposal_cycle free_mb file created deduped skipped now =
     append_event free_mb (load file)
       [(''kind'', JStr ''proposal_cycle''), (''created'', JInt created), (''deduped'', JInt deduped),
        (''skipped'', JInt skipped), (''timestamp'', JTime now)] now"

text \<open>\<open>reset_satiation_window\<close> writes the file itself: no disk check, no pruning, no recount.\<close>

definition reset_satiation_window :: "usage_file \<Rightarrow> usage_file" where
  "reset_satiation_window file =
     (let data = load file
      in Some (data\<lparr>ud_events := filter (\<lambda>e. \<not> kind_is ''proposal_cycle'' e) (ud_events data)\<rparr>))"

definition record_proposal_outcome ::
  "rat option \<Rightarrow> usage_file \<Rightarrow> string \<Rightarrow> bool \<Rightarrow> datetime \<Rightarrow> write_result" where
  "record_proposal_outcome free_mb file category succeeded now =
     append_event free_mb (load file)
       [(''kind'', JStr ''proposal_outcome''), (''category'', JStr category), (''succeeded'', JBool succeeded),
        (''timestamp'', JTime now)] now"

definition record_validation_outcome ::
  "rat option \<Rightarrow> usage_file \<Rightarrow> string \<Rightarrow> bool \<Rightarrow> datetime \<Rightarrow> write_result" where
  "record_validation_outcome free_mb file command passed now =
     append_event free_mb (load file)
       [(''kind'', JStr ''validation_outcome''), (''command'', JStr command), (''passed'', JBool passed),
        (''timestamp'', JTime now)] now"

definition escalation_event :: "string \<Rightarrow> string list \<Rightarrow> datetime \<Rightarrow> event" where
  "escalation_event classification task_ids now =
     [(''kind'', JStr ''escalation_sent''), (''classification'', JStr classification),
      (''task_ids'', JList (map JStr task_ids)), (''timestamp'', JTime now)]"

definition record_escalation ::
  "rat option \<Rightarrow> usage_file \<Rightarrow> string \<Rightarrow> string list \<Rightarrow> datetime \<Rightarrow> write_result" where
  "record_escalation free_mb file classification task_ids now =
     append_event free_mb (load file) (escalation_event classification task_ids now) now"

definition record_blocked_triage ::
  "rat option \<Rightarrow> usage_file \<Rightarrow> string \<Rightarrow> string \<Rightarrow> datetime \<Rightarrow> write_result" where
  "record_blocked_triage free_mb file task_id classification now =
     append_event free_mb (load file)
       [(''kind'', JStr ''blocked_triage''), (''task_id'', JStr task_id), (''classification'', JStr classification),
        (''timestamp'', JTime now)] now"

definition record_execution_cost ::
  "rat option \<Rightarrow> usage_file \<Rightarrow> string \<Rightarrow> string \<Rightarrow> rat \<Rightarrow> datetime \<Rightarrow> write_result" where
  "record_execution_cost free_mb file task_id repo_key estimated_usd now =
     append_event free_mb (load file)
       [(''kind'', JStr ''execution_cost''), (''task_id'', JStr task_id), (''repo_key'', JStr repo_key),
        (''estimated_usd'', JFloat estimated_usd), (''timestamp'', JTime now)] now"

definition record_proposal_budget_suppression ::
  "rat option \<Rightarrow> usage_file \<Rightarrow> string \<Rightarrow> datetime \<Rightarrow> event \<Rightarrow> write_result" where
  "record_proposal_budget_suppression free_mb file reason now evidence =
     append_event free_mb (load file)
       [(''kind'', JStr ''proposal_budget_suppressed''), (''reason'', JStr reason), (''evidence'', JObj evidence),
        (''timestamp'', JTime now)] now"

text \<open>\<open>{**artifact, "recorded_at": now}\<close>: the new key replaces one of the same name.\<close>

definition record_task_artifact ::
  "rat option \<Rightarrow> usage_file \<Rightarrow> string \<Rightarrow> event \<Rightarrow> datetime \<Rightarrow> write_result" where
  "record_task_artifact free_mb file task_id artifact now =
     (let data = load file
      in save free_mb (data\<lparr>ud_task_artifacts := (ud_task_artifacts data)
           (task_id \<mapsto> AList.update ''recorded_at'' (JTime now) artifact)\<rparr>) now)"

definition get_task_artifact :: "usage_file \<Rightarrow> string \<Rightarrow> event option" where
  "get_task_artifact file task_id = ud_task_artifacts (load file) task_id"

text \<open>\<open>samples[-keep:]\<close> is the whole list when \<open>keep\<close> is 0.\<close>

definition record_budget_cap_sample ::
  "rat option \<Rightarrow> usage_file \<Rightarrow> rat \<Rightarrow> datetime \<Rightarrow> timedelta \<Rightarrow> nat \<Rightarrow> write_result" where
  "record_budget_cap_sample free_mb file weighted now min_gap keep =
     (if weighted \<le> 0 then Inr file
      else
        (let data = load file; samples = ud_budget_cap_samples data
         in if samples \<noteq> [] \<and> now - snd (last samples) < min_gap then Inr file
            else save free_mb (data\<lparr>ud_budget_cap_samples :=
                   (let new = samples @ [(weighted, now)] in if keep = 0 then new else last_n keep new)\<rparr>) now))"

section \<open>Attempt reset\<close>

text \<open>\<open>_reset_task_attempts\<close> writes \<open>data\<close> as it was loaded, outside the lock and with no recount.\<close>

definition reset_task_attempts :: "usage_data \<Rightarrow> string \<Rightarrow> usage_data" where
  "reset_task_attempts data task_id =
     data\<lparr>ud_task_attempts := (ud_task_attempts data)(task_id := None),
          ud_last_task_signatures := (\<lambda>key. if str_endswith key ('':'' @ task_id) then None
                                            else ud_last_task_signatures data key)\<rparr>"

section \<open>Well-formed files\<close>

text \<open>The derived counters agree with the events at the time of the last save.\<close>

definition counters_agree :: "usage_data \<Rightarrow> datetime \<Rightarrow> bool" where
  "counters_agree d t =
     (ud_hourly_exec_count d = exec_count (ud_events d) (t - td_hours 1)
      \<and> ud_daily_exec_count d = exec_count (ud_events d) (t - td_days 1)
      \<and> ud_skipped_due_to_budget d = count_kind (ud_events d) ''skip_budget''
      \<and> ud_skipped_due_to_noop d = count_kind (ud_events d) ''skip_noop''
      \<and> ud_skipped_due_to_cooldown d = count_kind (ud_events d) ''skip_cooldown''
      \<and> ud_blocked_due_to_retry_cap d = count_kind (ud_events d) ''retry_cap_block''
      \<and> ud_suppressed_due_to_proposal_budget d = count_kind (ud_events d) ''proposal_budget_suppressed'')"

definition wf_data :: "usage_data \<Rightarrow> bool" where
  "wf_data d =
     (length (ud_events d) \<le> 1000
      \<and> (case ud_updated_at d of
           None \<Rightarrow> ud_events d = [] \<and> (\<forall>t. counters_agree d t)
         | Some t \<Rightarrow> (\<forall>e \<in> set (ud_events d). retained (t - td_days 7) e) \<and> counters_agree d t))"

definition wf_file :: "usage_file \<Rightarrow> bool" where
  "wf_file file = wf_data (load file)"

section \<open>Lemmas on pruning and saving\<close>

lemma prune_length: "length (prune_events es now) \<le> 1000"
  by (simp add: prune_events_def)

lemma prune_retained: "e \<in> set (prune_events es now) \<Longrightarrow> e \<in> set es \<and> retained (now - td_days 7) e"
  using set_last_n [of 1000 "filter (retained (now - td_days 7)) es"] by (auto simp: prune_events_def)

lemma prune_small: "length es \<le> 1000 \<Longrightarrow> prune_events es now = filter (retained (now - td_days 7)) es"
  unfolding prune_events_def by (rule last_n_id) (meson le_trans length_filter_le)

lemma retained_mono: "c \<le> c' \<Longrightarrow> retained c' e \<Longrightarrow> retained c e"
  by (auto simp: retained_def split: option.splits)

lemma retained_stamped: "timestamp_of e = Some t \<Longrightarrow> retained c e \<longleftrightarrow> c \<le> t"
  by (simp add: retained_def)

lemma td_days_nonneg [simp]: "0 \<le> n \<Longrightarrow> 0 \<le> td_days n"
  by (simp add: td_defs)

lemma prune_prune:
  assumes "length es \<le> 1000" and "now \<le> now'"
  shows "prune_events (prune_events es now) now' = prune_events es now'"
proof -
  have "length (filter (retained (now - td_days 7)) es) \<le> 1000"
    using assms(1) by (meson le_trans length_filter_le)
  moreover have "retained (now' - td_days 7) e \<Longrightarrow> retained (now - td_days 7) e" for e
    using assms(2) by (auto intro: retained_mono [of "now - td_days 7" "now' - td_days 7"])
  ultimately show ?thesis
    using assms(1) by (simp add: prune_small) (rule filter_cong, auto)
qed

lemma prune_snoc:
  "timestamp_of e = Some now \<Longrightarrow> prune_events (es @ [e]) now = last_n 999 (filter (retained (now - td_days 7)) es) @ [e]"
  by (simp add: prune_events_def retained_stamped last_n_snoc)

lemma load_Some [simp]: "load (Some d) = d"
  by (simp add: load_def)

lemma saved_simps [simp]:
  "ud_events (saved d now) = prune_events (ud_events d) now"
  "ud_updated_at (saved d now) = Some now"
  "ud_task_attempts (saved d now) = ud_task_attempts d"
  "ud_last_task_signatures (saved d now) = ud_last_task_signatures d"
  "ud_task_artifacts (saved d now) = ud_task_artifacts d"
  "ud_budget_cap_samples (saved d now) = ud_budget_cap_samples d"
  by (simp_all add: saved_def Let_def)

lemma saved_wf: "wf_data (saved d now)"
proof -
  have "counters_agree (saved d now) now"
    by (simp add: counters_agree_def saved_def Let_def)
  then show ?thesis
    by (simp add: wf_data_def prune_length) (blast dest: prune_retained)
qed

lemma empty_wf: "wf_data empty_data"
proof -
  have "counters_agree empty_data t" for t
    by (simp add: empty_data_def counters_agree_def exec_count_def count_kind_def)
  moreover have "ud_events empty_data = [] \<and> ud_updated_at empty_data = None"
    by (simp add: empty_data_def)
  ultimately show ?thesis
    by (auto simp: wf_data_def)
qed

lemma save_Inr: "save free d now = Inr file' \<longleftrightarrow> check_disk_space free = None \<and> file' = Some (saved d now)"
  by (auto simp: save_def split: option.splits)

lemma check_disk_iff: "check_disk_space free \<noteq> None \<longleftrightarrow> (\<exists>f. free = Some f \<and> f < DISK_MIN_MB)"
  by (auto simp: check_disk_space_def split: option.splits)

text \<open>
  What a save does to the event list: some events are dropped, at most one event is added, and the result is
  pruned. \<open>keeps\<close> are the events that no drop may touch, \<open>new_ok\<close> the events that may be added.
\<close>

definition resaves ::
  "(event \<Rightarrow> bool) \<Rightarrow> (event \<Rightarrow> bool) \<Rightarrow> datetime \<Rightarrow> usage_file \<Rightarrow> usage_file \<Rightarrow> bool" where
  "resaves keeps new_ok now file file' =
     (\<exists>d Q new. file' = Some (saved d now) \<and> ud_events d = filter Q (ud_events (load file)) @ new
        \<and> (\<forall>e. keeps e \<longrightarrow> Q e)
        \<and> (new = [] \<or> (\<exists>e. new = [e] \<and> timestamp_of e = Some now \<and> new_ok e)))"

lemma resavesI:
  "file' = Some (saved d now) \<Longrightarrow> ud_events d = filter Q (ud_events (load file)) @ new \<Longrightarrow> (\<And>e. keeps e \<Longrightarrow> Q e) \<Longrightarrow>
     (new = [] \<or> (\<exists>e. new = [e] \<and> timestamp_of e = Some now \<and> new_ok e)) \<Longrightarrow> resaves keeps new_ok now file file'"
  by (auto simp: resaves_def)

lemma resaves_append:
  "file' = Some (saved (d\<lparr>ud_events := ud_events (load file) @ [e]\<rparr>) now) \<Longrightarrow> timestamp_of e = Some now \<Longrightarrow> new_ok e \<Longrightarrow>
     resaves keeps new_ok now file file'"
  by (rule resavesI [where Q = "\<lambda>_. True" and new = "[e]"]) auto

section \<open>The writer contracts\<close>

text \<open>An operation that loads the file, updates the data and saves it.\<close>

locale usage_writer =
  fixes op :: "rat option \<Rightarrow> usage_file \<Rightarrow> datetime \<Rightarrow> write_result"
    and upd :: "datetime \<Rightarrow> usage_data \<Rightarrow> usage_data"
  assumes op_saves: "op free file now = save free (upd now (load file)) now"
begin

lemma writer_error_iff: "(\<exists>err. op free file now = Inl err) \<longleftrightarrow> (\<exists>f. free = Some f \<and> f < DISK_MIN_MB)"
  by (auto simp: op_saves save_def check_disk_space_def split: option.splits)

lemma writer_result: "op free file now = Inr file' \<Longrightarrow> file' = Some (saved (upd now (load file)) now)"
  by (simp add: op_saves save_Inr)

lemma writer_wf: "op free file now = Inr file' \<Longrightarrow> wf_file file'"
  by (auto dest!: writer_result simp: wf_file_def saved_wf)

lemma writer_some: "\<not> (\<exists>f. free = Some f \<and> f < DISK_MIN_MB) \<Longrightarrow> op free file now = Inr (Some (saved (upd now (load file)) now))"
  by (auto simp: op_saves save_Inr check_disk_space_def split: option.splits)

end

text \<open>An operation that only appends one event, stamped with the time of the call.\<close>

locale event_appender =
  fixes op :: "rat option \<Rightarrow> usage_file \<Rightarrow> datetime \<Rightarrow> write_result"
    and ev :: "datetime \<Rightarrow> event"
  assumes appends: "op free file now = append_event free (load file) (ev now) now"
    and stamped: "timestamp_of (ev now) = Some now"

sublocale event_appender < usage_writer op "\<lambda>now d. d\<lparr>ud_events := ud_events d @ [ev now]\<rparr>"
  by unfold_locales (simp add: appends append_event_def)

context event_appender
begin

lemma appender_frame:
  "op free file now = Inr file' \<Longrightarrow>
     ud_task_attempts (load file') = ud_task_attempts (load file)
     \<and> ud_last_task_signatures (load file') = ud_last_task_signatures (load file)
     \<and> ud_task_artifacts (load file') = ud_task_artifacts (load file)
     \<and> ud_budget_cap_samples (load file') = ud_budget_cap_samples (load file)"
  by (auto dest!: writer_result)

lemma appender_events:
  "op free file now = Inr file' \<Longrightarrow>
     ud_events (load file') = last_n 999 (filter (retained (now - td_days 7)) (ud_events (load file))) @ [ev now]"
  by (auto dest!: writer_result simp: prune_snoc stamped)

lemma appender_resaves:
  "op free file now = Inr file' \<Longrightarrow> new_ok (ev now) \<Longrightarrow> resaves keeps new_ok now file file'"
  by (rule resaves_append [OF writer_result stamped]) auto

text \<open>An appended event that a later query does not look at changes nothing for it.\<close>

lemma appender_invisible:
  assumes "op free file now = Inr file'" and "length (ud_events (load file)) < 1000" and "now \<le> now'"
    and "\<not> P (ev now)"
  shows "filter P (prune_events (ud_events (load file')) now') = filter P (prune_events (ud_events (load file)) now')"
proof -
  have "ud_events (load file') = prune_events (ud_events (load file) @ [ev now]) now"
    using assms(1) by (auto dest!: writer_result)
  then have "prune_events (ud_events (load file')) now' = prune_events (ud_events (load file) @ [ev now]) now'"
    using assms(2,3) by (simp add: prune_prune)
  then show ?thesis
    using assms(2,4) by (simp add: prune_small)
qed

end

section \<open>Every recording operation is a writer\<close>

lemmas event_reading = timestamp_of_def kind_is_def truthy_field_def opt_field_def

lemmas event_defs = execution_event_def started_event_def finished_event_def escalation_event_def

interpretation w_quality_warning: event_appender
  "\<lambda>free file now. record_quality_warning free file task_id repo_key counts now"
  "\<lambda>now. [(''kind'', JStr ''executor_quality_warning''), (''task_id'', JStr task_id), (''repo_key'', JStr repo_key),
        (''suppression_counts'', JObj (map (map_prod id JInt) counts)), (''timestamp'', JTime now)]" for task_id repo_key counts
  by unfold_locales (simp_all add: record_quality_warning_def timestamp_of_def)

interpretation w_scope_violation: event_appender
  "\<lambda>free file now. record_scope_violation free file task_id repo_key files now"
  "\<lambda>now. [(''kind'', JStr ''scope_violation''), (''task_id'', JStr task_id), (''repo_key'', JStr repo_key),
        (''violated_files'', JList (map JStr (take 10 files))), (''timestamp'', JTime now)]" for task_id repo_key files
  by unfold_locales (simp_all add: record_scope_violation_def timestamp_of_def)

interpretation w_quota_event: event_appender
  "\<lambda>free file now. record_quota_event free file task_id role backend now"
  "\<lambda>now. [(''kind'', JStr ''quota_event''), (''task_id'', JStr task_id), (''role'', JStr role),
        (''backend'', JStr backend), (''timestamp'', JTime now)]" for task_id role backend
  by unfold_locales (simp_all add: record_quota_event_def timestamp_of_def)

interpretation w_outcome: event_appender
  "\<lambda>free file now. record_execution_outcome free file task_id role ok now backend version"
  "\<lambda>now. [(''kind'', JStr ''execution_outcome''), (''task_id'', JStr task_id), (''role'', JStr role),
        (''succeeded'', JBool ok), (''timestamp'', JTime now)]
        @ truthy_field ''backend'' backend @ truthy_field ''backend_version'' version" for task_id role ok backend version
  by unfold_locales (simp_all add: record_execution_outcome_def timestamp_of_def)

interpretation w_started: event_appender
  "\<lambda>free file now. record_execution_started free file task_id backend now"
  "\<lambda>now. started_event task_id backend now" for task_id backend
  by unfold_locales (simp_all add: record_execution_started_def timestamp_of_def started_event_def)

interpretation w_finished: event_appender
  "\<lambda>free file now. record_execution_finished free file task_id backend now"
  "\<lambda>now. finished_event task_id backend now" for task_id backend
  by unfold_locales (simp_all add: record_execution_finished_def timestamp_of_def finished_event_def)

interpretation w_duration: event_appender
  "\<lambda>free file now. record_execution_duration free file task_id role secs now"
  "\<lambda>now. [(''kind'', JStr ''execution_duration''), (''task_id'', JStr task_id), (''role'', JStr role),
        (''duration_seconds'', JFloat (py_round 1 secs)), (''timestamp'', JTime now)]" for task_id role secs
  by unfold_locales (simp_all add: record_execution_duration_def timestamp_of_def)

interpretation w_retry_cap: event_appender
  "\<lambda>free file now. record_retry_cap free file role task_id now attempts limit"
  "\<lambda>now. [(''kind'', JStr ''retry_cap_block''), (''role'', JStr role), (''task_id'', JStr task_id),
        (''attempts'', JInt attempts), (''limit'', JInt limit), (''timestamp'', JTime now)]" for role task_id attempts limit
  by unfold_locales (simp_all add: record_retry_cap_def timestamp_of_def)

interpretation w_proposal_cycle: event_appender
  "\<lambda>free file now. record_proposal_cycle free file created deduped skipped now"
  "\<lambda>now. [(''kind'', JStr ''proposal_cycle''), (''created'', JInt created), (''deduped'', JInt deduped),
        (''skipped'', JInt skipped), (''timestamp'', JTime now)]" for created deduped skipped
  by unfold_locales (simp_all add: record_proposal_cycle_def timestamp_of_def)

interpretation w_proposal_outcome: event_appender
  "\<lambda>free file now. record_proposal_outcome free file category ok now"
  "\<lambda>now. [(''kind'', JStr ''proposal_outcome''), (''category'', JStr category), (''succeeded'', JBool ok),
        (''timestamp'', JTime now)]" for category ok
  by unfold_locales (simp_all add: record_proposal_outcome_def timestamp_of_def)

interpretation w_validation_outcome: event_appender
  "\<lambda>free file now. record_validation_outcome free file command passed now"
  "\<lambda>now. [(''kind'', JStr ''validation_outcome''), (''command'', JStr command), (''passed'', JBool passed),
        (''timestamp'', JTime now)]" for command passed
  by unfold_locales (simp_all add: record_validation_outcome_def timestamp_of_def)

interpretation w_escalation: event_appender
  "\<lambda>free file now. record_escalation free file classification ids now"
  "\<lambda>now. escalation_event classification ids now" for classification ids
  by unfold_locales (simp_all add: record_escalation_def timestamp_of_def escalation_event_def)

interpretation w_blocked_triage: event_appender
  "\<lambda>free file now. record_blocked_triage free file task_id classification now"
  "\<lambda>now. [(''kind'', JStr ''blocked_triage''), (''task_id'', JStr task_id), (''classification'', JStr classification),
        (''timestamp'', JTime now)]" for task_id classification
  by unfold_locales (simp_all add: record_blocked_triage_def timestamp_of_def)

interpretation w_cost: event_appender
  "\<lambda>free file now. record_execution_cost free file task_id repo_key usd now"
  "\<lambda>now. [(''kind'', JStr ''execution_cost''), (''task_id'', JStr task_id), (''repo_key'', JStr repo_key),
        (''estimated_usd'', JFloat usd), (''timestamp'', JTime now)]" for task_id repo_key usd
  by unfold_locales (simp_all add: record_execution_cost_def timestamp_of_def)

interpretation w_suppression: event_appender
  "\<lambda>free file now. record_proposal_budget_suppression free file reason now evidence"
  "\<lambda>now. [(''kind'', JStr ''proposal_budget_suppressed''), (''reason'', JStr reason), (''evidence'', JObj evidence),
        (''timestamp'', JTime now)]" for reason evidence
  by unfold_locales (simp_all add: record_proposal_budget_suppression_def timestamp_of_def)

interpretation w_execution: usage_writer
  "\<lambda>free file now. record_execution free file role task_id sig now repo_key backend"
  "\<lambda>now d. (with_attempt d role task_id sig)\<lparr>ud_events := ud_events d @
     [execution_event role task_id sig now repo_key backend]\<rparr>" for role task_id sig repo_key backend
  by unfold_locales (simp add: record_execution_def append_event_def with_attempt_def Let_def)

interpretation w_skip: usage_writer
  "\<lambda>free file now. record_skip free file role task_id sig reason detail now evidence"
  "\<lambda>now d. (if reason = ''no_op'' then with_signature d role task_id sig else d)\<lparr>ud_events := ud_events d @
     [[(''kind'', JStr (if reason = ''cooldown_active'' then ''skip_cooldown''
                        else if reason = ''no_op'' then ''skip_noop'' else ''skip_budget'')),
       (''role'', JStr role), (''task_id'', JStr task_id), (''signature'', JStr sig), (''reason'', JStr reason),
       (''detail'', opt_json detail), (''evidence'', JObj (case evidence of None \<Rightarrow> [] | Some kvs \<Rightarrow> kvs)),
       (''timestamp'', JTime now)]]\<rparr>" for role task_id sig reason detail evidence
  by unfold_locales (simp add: record_skip_def append_event_def with_signature_def Let_def)

interpretation w_artifact: usage_writer
  "\<lambda>free file now. record_task_artifact free file task_id artifact now"
  "\<lambda>now d. d\<lparr>ud_task_artifacts := (ud_task_artifacts d)(task_id \<mapsto> AList.update ''recorded_at'' (JTime now) artifact)\<rparr>"
  for task_id artifact
  by unfold_locales (simp add: record_task_artifact_def Let_def)

end
