(* ===== verification/Usage_Cooldown.thy ===== *)
theory Usage_Cooldown
  imports Usage_Store
begin

text \<open>
  The worker-backend cooldowns of \<open>execution/usage_store.py\<close>: recording with coalescing, the queries that
  decide whether a backend is blocked, and the retraction a live probe triggers. The declarative reading of
  the scan loops is given as sets of active reset times.
\<close>

section \<open>Constants and event access\<close>

definition MODEL_WEEKLY :: string where
  "MODEL_WEEKLY = ''model_weekly''"

definition WORKER_BACKEND_MODELS :: "string \<rightharpoonup> string list" where
  "WORKER_BACKEND_MODELS =
     [''claude_code'' \<mapsto> [''sonnet'', ''opus'', ''haiku''], ''codex_cli'' \<mapsto> [''codex'']]"

text \<open>\<open>event.get(k)\<close>, where an absent key and a null both read as \<open>None\<close>.\<close>

definition jget :: "event \<Rightarrow> string \<Rightarrow> json" where
  "jget e k = (case map_of e k of None \<Rightarrow> JNull | Some v \<Rightarrow> v)"

text \<open>The shared head of the scans: the reset time of a future cooldown of this backend.\<close>

definition active_reset :: "event \<Rightarrow> string \<Rightarrow> datetime \<Rightarrow> datetime option" where
  "active_reset e worker_backend now =
     (if \<not> kind_is ''worker_backend_cooldown'' e then None
      else if jget e ''worker_backend'' \<noteq> JStr worker_backend then None
      else case iso (map_of e ''reset_at'') of
             None \<Rightarrow> None
           | Some reset_at \<Rightarrow> if reset_at \<le> now then None else Some reset_at)"

definition is_active_cooldown_for :: "event \<Rightarrow> string \<Rightarrow> datetime \<Rightarrow> bool" where
  "is_active_cooldown_for e worker_backend now =
     (if \<not> kind_is ''worker_backend_cooldown'' e then False
      else if jget e ''worker_backend'' \<noteq> JStr worker_backend then False
      else case iso (map_of e ''reset_at'') of None \<Rightarrow> False | Some reset_at \<Rightarrow> reset_at > now)"

section \<open>Recording\<close>

definition cooldown_event ::
  "string \<Rightarrow> datetime \<Rightarrow> datetime \<Rightarrow> string option \<Rightarrow> string option \<Rightarrow> event" where
  "cooldown_event worker_backend reset_at now limit_kind model =
     [(''kind'', JStr ''worker_backend_cooldown''), (''worker_backend'', JStr worker_backend),
      (''reset_at'', JTime reset_at), (''timestamp'', JTime now)]
     @ opt_field ''limit_kind'' limit_kind @ opt_field ''model'' model"

definition superseded :: "string \<Rightarrow> datetime \<Rightarrow> string option \<Rightarrow> string option \<Rightarrow> event \<Rightarrow> bool" where
  "superseded worker_backend now limit_kind model e =
     (is_active_cooldown_for e worker_backend now
      \<and> jget e ''limit_kind'' = opt_json limit_kind \<and> jget e ''model'' = opt_json model)"

definition record_worker_backend_cooldown ::
  "rat option \<Rightarrow> usage_file \<Rightarrow> string \<Rightarrow> datetime \<Rightarrow> datetime \<Rightarrow> string option \<Rightarrow> string option
   \<Rightarrow> write_result" where
  "record_worker_backend_cooldown free_mb file worker_backend reset_at now limit_kind model =
     (let data = load file;
          events = filter (\<lambda>e. \<not> superseded worker_backend now limit_kind model e) (ud_events data)
      in append_event free_mb (data\<lparr>ud_events := events\<rparr>)
           (cooldown_event worker_backend reset_at now limit_kind model) now)"

section \<open>Queries\<close>

definition pruned_events :: "usage_file \<Rightarrow> datetime \<Rightarrow> event list" where
  "pruned_events file now = prune_events (ud_events (load file)) now"

definition latest_step :: "string \<Rightarrow> datetime \<Rightarrow> event \<Rightarrow> datetime option \<Rightarrow> datetime option" where
  "latest_step worker_backend now e latest =
     (case active_reset e worker_backend now of
        None \<Rightarrow> latest
      | Some reset_at \<Rightarrow>
          (case latest of None \<Rightarrow> Some reset_at | Some l \<Rightarrow> if l < reset_at then Some reset_at else latest))"

definition worker_backend_cooldown_until :: "usage_file \<Rightarrow> string \<Rightarrow> datetime \<Rightarrow> datetime option" where
  "worker_backend_cooldown_until file worker_backend now =
     fold (latest_step worker_backend now) (pruned_events file now) None"

record cooldown_detail =
  cd_limit_kind :: json
  cd_model :: json
  cd_reset_at :: datetime
  cd_seconds_remaining :: int

definition detail_step ::
  "string \<Rightarrow> datetime \<Rightarrow> event \<Rightarrow> ((json \<times> json) \<times> datetime) list \<Rightarrow> ((json \<times> json) \<times> datetime) list" where
  "detail_step worker_backend now e latest =
     (case active_reset e worker_backend now of
        None \<Rightarrow> latest
      | Some reset_at \<Rightarrow>
          (let key = (jget e ''limit_kind'', jget e ''model'')
           in case map_of latest key of
                None \<Rightarrow> AList.update key reset_at latest
              | Some l \<Rightarrow> if l < reset_at then AList.update key reset_at latest else latest))"

definition seconds_until :: "datetime \<Rightarrow> datetime \<Rightarrow> int" where
  "seconds_until reset_at now = max 0 ((reset_at - now) div td_seconds 1)"

definition worker_backend_cooldown_details :: "usage_file \<Rightarrow> string \<Rightarrow> datetime \<Rightarrow> cooldown_detail list" where
  "worker_backend_cooldown_details file worker_backend now =
     sort_key cd_reset_at
       (map (\<lambda>((limit_kind, model), reset_at).
              \<lparr>cd_limit_kind = limit_kind, cd_model = model, cd_reset_at = reset_at,
               cd_seconds_remaining = seconds_until reset_at now\<rparr>)
          (fold (detail_step worker_backend now) (pruned_events file now) []))"

definition model_specific :: "event \<Rightarrow> bool" where
  "model_specific e = (jget e ''limit_kind'' = JStr MODEL_WEEKLY \<and> jget e ''model'' \<noteq> JNull)"

type_synonym block_scan = "datetime list \<times> (json \<rightharpoonup> datetime)"

definition block_step :: "string \<Rightarrow> datetime \<Rightarrow> event \<Rightarrow> block_scan \<Rightarrow> block_scan" where
  "block_step worker_backend now e scan =
     (case scan of (account_wide, per_model) \<Rightarrow>
       (case active_reset e worker_backend now of
          None \<Rightarrow> (account_wide, per_model)
        | Some reset_at \<Rightarrow>
            if model_specific e
            then (case per_model (jget e ''model'') of
                    None \<Rightarrow> (account_wide, per_model(jget e ''model'' \<mapsto> reset_at))
                  | Some l \<Rightarrow> if l < reset_at then (account_wide, per_model(jget e ''model'' \<mapsto> reset_at))
                              else (account_wide, per_model))
            else (account_wide @ [reset_at], per_model)))"

definition worker_backend_blocked_until :: "usage_file \<Rightarrow> string \<Rightarrow> datetime \<Rightarrow> datetime option" where
  "worker_backend_blocked_until file worker_backend now =
     (case fold (block_step worker_backend now) (pruned_events file now) ([], Map.empty) of
        (account_wide, per_model) \<Rightarrow>
          if account_wide \<noteq> [] then Some (Max (set account_wide))
          else case WORKER_BACKEND_MODELS worker_backend of
                 None \<Rightarrow> None
               | Some models \<Rightarrow>
                   if models \<noteq> [] \<and> list_all (\<lambda>m. per_model (JStr m) \<noteq> None) models
                   then Some (Min (set (map (\<lambda>m. the (per_model (JStr m))) models)))
                   else None)"

record backend_cooldown =
  bc_cooling_down :: bool
  bc_reset_at :: "datetime option"
  bc_seconds_remaining :: "int option"
  bc_cooldowns :: "cooldown_detail list"

definition current_worker_backend_cooldowns :: "usage_file \<Rightarrow> datetime \<Rightarrow> (string \<times> backend_cooldown) list" where
  "current_worker_backend_cooldowns file now =
     map (\<lambda>wb. let reset_at = worker_backend_blocked_until file wb now
               in (wb, \<lparr>bc_cooling_down = (reset_at \<noteq> None), bc_reset_at = reset_at,
                        bc_seconds_remaining = map_option (\<lambda>r. seconds_until r now) reset_at,
                        bc_cooldowns = worker_backend_cooldown_details file wb now\<rparr>))
       [''claude_code'', ''codex_cli'']"

section \<open>Retraction\<close>

definition retracted :: "string \<Rightarrow> string option \<Rightarrow> datetime \<Rightarrow> bool \<Rightarrow> event \<Rightarrow> bool" where
  "retracted worker_backend model now include_account_wide e =
     (is_active_cooldown_for e worker_backend now
      \<and> (if model_specific e then jget e ''model'' = opt_json model else include_account_wide))"

definition cleared_event ::
  "string \<Rightarrow> string option \<Rightarrow> bool \<Rightarrow> string \<Rightarrow> nat \<Rightarrow> datetime \<Rightarrow> event" where
  "cleared_event worker_backend model include_account_wide reason removed now =
     [(''kind'', JStr ''worker_backend_cooldown_cleared''), (''worker_backend'', JStr worker_backend),
      (''model'', opt_json model), (''include_account_wide'', JBool include_account_wide),
      (''reason'', JStr reason), (''removed'', JInt (int removed)), (''timestamp'', JTime now)]"

definition clear_worker_backend_cooldown ::
  "rat option \<Rightarrow> usage_file \<Rightarrow> string \<Rightarrow> string option \<Rightarrow> datetime \<Rightarrow> bool \<Rightarrow> string
   \<Rightarrow> os_error + (usage_file \<times> nat)" where
  "clear_worker_backend_cooldown free_mb file worker_backend model now include_account_wide reason =
     (let data = load file;
          gone = retracted worker_backend model now include_account_wide;
          removed = length (filter gone (ud_events data));
          kept = data\<lparr>ud_events := filter (\<lambda>e. \<not> gone e) (ud_events data)\<rparr>
      in map_sum id (\<lambda>f. (f, removed))
           (if removed \<noteq> 0
            then append_event free_mb kept
                   (cleared_event worker_backend model include_account_wide reason removed now) now
            else save free_mb kept now))"

section \<open>The declarative reading of the scans\<close>

definition resets :: "event list \<Rightarrow> string \<Rightarrow> datetime \<Rightarrow> (event \<Rightarrow> bool) \<Rightarrow> datetime set" where
  "resets es worker_backend now P = {r. \<exists>e \<in> set es. active_reset e worker_backend now = Some r \<and> P e}"

definition opt_max :: "datetime option \<Rightarrow> datetime set \<Rightarrow> datetime option" where
  "opt_max start S = (let T = set_option start \<union> S in if T = {} then None else Some (Max T))"

text \<open>Resets of limits that stop every model, and of the weekly limit of one model.\<close>

definition account_wide_resets :: "usage_file \<Rightarrow> string \<Rightarrow> datetime \<Rightarrow> datetime set" where
  "account_wide_resets file wb now = resets (pruned_events file now) wb now (\<lambda>e. \<not> model_specific e)"

definition model_resets :: "usage_file \<Rightarrow> string \<Rightarrow> datetime \<Rightarrow> string \<Rightarrow> datetime set" where
  "model_resets file wb now m =
     resets (pruned_events file now) wb now (\<lambda>e. model_specific e \<and> jget e ''model'' = JStr m)"

definition spec_blocked_until :: "usage_file \<Rightarrow> string \<Rightarrow> datetime \<Rightarrow> datetime option" where
  "spec_blocked_until file wb now =
     (if account_wide_resets file wb now \<noteq> {} then Some (Max (account_wide_resets file wb now))
      else case WORKER_BACKEND_MODELS wb of
             None \<Rightarrow> None
           | Some models \<Rightarrow>
               if models \<noteq> [] \<and> (\<forall>m \<in> set models. model_resets file wb now m \<noteq> {})
               then Some (Min ((\<lambda>m. Max (model_resets file wb now m)) ` set models))
               else None)"

section \<open>Lemmas on the scans\<close>

lemma active_iff: "is_active_cooldown_for e wb now \<longleftrightarrow> active_reset e wb now \<noteq> None"
  by (auto simp: is_active_cooldown_for_def active_reset_def split: option.splits)

lemma active_reset_future: "active_reset e wb now = Some r \<Longrightarrow> now < r"
  by (auto simp: active_reset_def split: if_splits option.splits)

lemma active_reset_mono: "active_reset e wb now' = Some r \<Longrightarrow> now \<le> now' \<Longrightarrow> active_reset e wb now = Some r"
  by (auto simp: active_reset_def split: if_splits option.splits)

lemma resets_Nil [simp]: "resets [] wb now P = {}"
  by (simp add: resets_def)

lemma resets_Cons:
  "resets (e # es) wb now P =
     (case active_reset e wb now of
        Some r \<Rightarrow> if P e then insert r (resets es wb now P) else resets es wb now P
      | None \<Rightarrow> resets es wb now P)"
  by (auto simp: resets_def split: option.split)

lemma finite_resets [simp]: "finite (resets es wb now P)"
  by (induction es) (auto simp: resets_Cons split: option.split)

lemma opt_max_insert:
  "finite S \<Longrightarrow> opt_max start (insert r S) =
     opt_max (case start of None \<Rightarrow> Some r | Some l \<Rightarrow> if l < r then Some r else Some l) S"
  by (cases start; cases "S = {}") (auto simp: opt_max_def Let_def max_def)

lemma opt_max_empty [simp]: "opt_max start {} = start"
  by (cases start) (auto simp: opt_max_def)

lemma opt_max_None: "opt_max None S = (if S = {} then None else Some (Max S))"
  by (simp add: opt_max_def)

lemma fold_latest: "fold (latest_step wb now) es start = opt_max start (resets es wb now (\<lambda>_. True))"
  by (induction es arbitrary: start)
     (auto simp: resets_Cons latest_step_def opt_max_insert split: option.split)

lemma fold_block:
  "fold (block_step wb now) es (aw, pm) = (aw', pm') \<Longrightarrow>
     set aw' = set aw \<union> resets es wb now (\<lambda>e. \<not> model_specific e)
     \<and> (\<forall>m. pm' m = opt_max (pm m) (resets es wb now (\<lambda>e. model_specific e \<and> jget e ''model'' = m)))"
proof (induction es arbitrary: aw pm)
  case (Cons e es)
  obtain aw1 pm1 where s: "block_step wb now e (aw, pm) = (aw1, pm1)" by fastforce
  have "set aw' = set aw1 \<union> resets es wb now (\<lambda>e. \<not> model_specific e)"
    and pm: "\<forall>m. pm' m = opt_max (pm1 m) (resets es wb now (\<lambda>e. model_specific e \<and> jget e ''model'' = m))"
    using Cons by (auto simp: s)
  moreover have "set aw1 = set aw \<union> (if model_specific e then {} else set_option (active_reset e wb now))"
    using s by (auto simp: block_step_def split: option.splits if_splits)
  moreover have "opt_max (pm1 m) (resets es wb now (\<lambda>e. model_specific e \<and> jget e ''model'' = m)) =
      opt_max (pm m) (resets (e # es) wb now (\<lambda>e. model_specific e \<and> jget e ''model'' = m))" for m
    using s by (auto simp: block_step_def resets_Cons opt_max_insert split: option.splits if_splits)
  ultimately show ?case
    by (auto simp: resets_Cons split: option.splits if_splits)
qed simp

lemma cooldown_until_spec:
  "worker_backend_cooldown_until file wb now =
     (let R = resets (pruned_events file now) wb now (\<lambda>_. True) in if R = {} then None else Some (Max R))"
  by (simp add: worker_backend_cooldown_until_def fold_latest opt_max_None Let_def)

lemma blocked_until_spec: "worker_backend_blocked_until file wb now = spec_blocked_until file wb now"
proof -
  obtain aw pm where s: "fold (block_step wb now) (pruned_events file now) ([], Map.empty) = (aw, pm)" by fastforce
  have aw: "set aw = account_wide_resets file wb now"
    and pm: "\<And>m. pm (JStr m) = (if model_resets file wb now m = {} then None else Some (Max (model_resets file wb now m)))"
    using fold_block [OF s] by (auto simp: account_wide_resets_def model_resets_def opt_max_None)
  have "Min (set (map (\<lambda>m. the (pm (JStr m))) models)) = Min ((\<lambda>m. Max (model_resets file wb now m)) ` set models)"
    if "\<forall>m \<in> set models. model_resets file wb now m \<noteq> {}" for models
    using that by (simp add: pm image_def)
  then show ?thesis
    using aw by (auto simp: worker_backend_blocked_until_def spec_blocked_until_def s pm list_all_iff split: option.split)
qed

section \<open>The writers\<close>

interpretation w_cooldown: usage_writer
  "\<lambda>free file now. record_worker_backend_cooldown free file wb reset_at now limit_kind model"
  "\<lambda>now d. d\<lparr>ud_events := filter (\<lambda>e. \<not> superseded wb now limit_kind model e) (ud_events d) @
     [cooldown_event wb reset_at now limit_kind model]\<rparr>" for wb reset_at limit_kind model
  by unfold_locales (simp add: record_worker_backend_cooldown_def append_event_def Let_def)

lemma cooldown_event_fields [simp]:
  "timestamp_of (cooldown_event wb r now lk m) = Some now"
  "kind_is ''worker_backend_cooldown'' (cooldown_event wb r now lk m)"
  "map_of (cooldown_event wb r now lk m) ''reset_at'' = Some (JTime r)"
  "jget (cooldown_event wb r now lk m) ''worker_backend'' = JStr wb"
  "jget (cooldown_event wb r now lk m) ''limit_kind'' = opt_json lk"
  "jget (cooldown_event wb r now lk m) ''model'' = opt_json m"
  by (auto simp: cooldown_event_def timestamp_of_def kind_is_def jget_def opt_json_def opt_field_def split: option.split)

lemma active_cooldown_event:
  "active_reset (cooldown_event wb r now lk m) wb' t = (if wb' = wb \<and> t < r then Some r else None)"
  by (auto simp: active_reset_def)

lemma cleared_not_active [simp]: "active_reset (cleared_event wb m aw reason n now) wb' t = None"
  by (simp add: active_reset_def cleared_event_def kind_is_def)

lemma clear_result:
  assumes "clear_worker_backend_cooldown free file wb m now aw reason = Inr (file', n)"
  obtains extra where
    "file' = Some (saved ((load file)\<lparr>ud_events :=
        filter (\<lambda>e. \<not> retracted wb m now aw e) (ud_events (load file)) @ extra\<rparr>) now)"
    "extra = (if n = 0 then [] else [cleared_event wb m aw reason n now])"
    "n = length (filter (retracted wb m now aw) (ud_events (load file)))"
  using assms
  by (auto simp: clear_worker_backend_cooldown_def Let_def append_event_def save_Inr map_sum_def
      split: sum.splits if_splits)

lemma prune_keeps_last:
  "timestamp_of e = Some now \<Longrightarrow> e \<in> set (prune_events (prune_events (es @ [e]) now) now)"
  by (simp add: prune_snoc)

lemma resets_prune: "resets (prune_events es now) wb t P \<subseteq> resets es wb t P"
  by (auto simp: resets_def dest: prune_retained)

lemma resets_append [simp]: "resets (xs @ ys) wb t P = resets xs wb t P \<union> resets ys wb t P"
  by (auto simp: resets_def)

section \<open>Properties\<close>

text \<open>
  \<open>worker_backend_blocked_until\<close> computes its documented meaning: when some active cooldown of the backend
  is account-wide (not a weekly limit attributed to a model), the latest such reset; otherwise, when the backend
  is known and each of its models has an active weekly limit, the earliest time one of them is free again;
  otherwise not blocked.
\<close>

theorem blocked_until_meaning:
  "worker_backend_blocked_until file wb now = spec_blocked_until file wb now"
  by (rule blocked_until_spec)

text \<open>
  After a probe has confirmed one model of a known backend (retraction with the account-wide limits
  included), the backend does not read as blocked.
\<close>

theorem clear_unblocks:
  assumes "clear_worker_backend_cooldown free file wb (Some m) now True reason = Inr (file', n)"
    and "WORKER_BACKEND_MODELS wb = Some models" and "m \<in> set models"
  shows "worker_backend_blocked_until file' wb now = None"
proof -
  let ?kept = "filter (\<lambda>e. \<not> retracted wb (Some m) now True e) (ud_events (load file))"
  obtain extra where f: "file' = Some (saved ((load file)\<lparr>ud_events := ?kept @ extra\<rparr>) now)"
    and x: "extra = (if n = 0 then [] else [cleared_event wb (Some m) True reason n now])"
    using clear_result [OF assms(1)] by blast
  have sub: "resets (pruned_events file' now) wb now P \<subseteq> resets ?kept wb now P" for P
  proof -
    have "resets (pruned_events file' now) wb now P \<subseteq> resets (?kept @ extra) wb now P"
      by (simp add: pruned_events_def f del: resets_append) (meson order_trans resets_prune)
    then show ?thesis by (simp add: x resets_Cons split: if_splits)
  qed
  have "resets ?kept wb now (\<lambda>e. \<not> model_specific e) = {}"
    and "resets ?kept wb now (\<lambda>e. model_specific e \<and> jget e ''model'' = JStr m) = {}"
    by (auto simp: resets_def retracted_def active_iff opt_json_def)
  then have "account_wide_resets file' wb now = {}" "model_resets file' wb now m = {}"
    using sub by (auto simp: account_wide_resets_def model_resets_def)
  then show ?thesis
    using assms(2,3) by (auto simp: blocked_until_spec spec_blocked_until_def)
qed

definition sample_cooldown_file :: usage_file where
  "sample_cooldown_file = Some (empty_data\<lparr>ud_events :=
     [cooldown_event ''claude_code'' (td_hours 5) 0 (Some ''session_5h'') None,
      cooldown_event ''claude_code'' (td_days 3) 0 (Some MODEL_WEEKLY) (Some ''sonnet'')]\<rparr>)"

theorem clear_unblocks_witness:
  "\<exists>file' n. clear_worker_backend_cooldown (Some 900) sample_cooldown_file ''claude_code'' (Some ''opus'') 1 True ''probe''
       = Inr (file', n)
     \<and> worker_backend_blocked_until sample_cooldown_file ''claude_code'' 1 = Some (td_hours 5)
     \<and> worker_backend_blocked_until file' ''claude_code'' 1 = None"
proof -
  let ?c = "clear_worker_backend_cooldown (Some 900) sample_cooldown_file ''claude_code'' (Some ''opus'') 1 True ''probe''"
  have "\<not> isl ?c" by code_simp
  then obtain file' n where c: "?c = Inr (file', n)" by (cases ?c) auto
  have "worker_backend_blocked_until sample_cooldown_file ''claude_code'' 1 = Some (td_hours 5)" by code_simp
  moreover have "worker_backend_blocked_until file' ''claude_code'' 1 = None"
    by (rule clear_unblocks [OF c, of "[''sonnet'', ''opus'', ''haiku'']"]) (simp_all add: WORKER_BACKEND_MODELS_def)
  ultimately show ?thesis using c by blast
qed

text \<open>
  Recording an account-wide cooldown (any limit that is not a weekly limit of a named model) whose reset
  lies in the future blocks the backend at least until that reset.
\<close>

theorem account_wide_cooldown_blocks:
  assumes "record_worker_backend_cooldown free file wb reset_at now lk m = Inr file'"
    and "now < reset_at" and "lk \<noteq> Some MODEL_WEEKLY \<or> m = None"
  shows "\<exists>r. worker_backend_blocked_until file' wb now = Some r \<and> reset_at \<le> r"
proof -
  let ?e = "cooldown_event wb reset_at now lk m"
  have "?e \<in> set (pruned_events file' now)"
    using w_cooldown.writer_result [OF assms(1)] by (simp add: pruned_events_def prune_keeps_last)
  moreover have "active_reset ?e wb now = Some reset_at" "\<not> model_specific ?e"
    using assms(2,3) by (auto simp: active_cooldown_event model_specific_def opt_json_def split: option.splits)
  ultimately have "reset_at \<in> account_wide_resets file' wb now"
    by (auto simp: account_wide_resets_def resets_def)
  moreover have "finite (account_wide_resets file' wb now)"
    by (simp add: account_wide_resets_def)
  ultimately show ?thesis
    by (auto simp: blocked_until_spec spec_blocked_until_def)
qed

theorem account_wide_cooldown_blocks_witness:
  "\<exists>file' r. record_worker_backend_cooldown None None ''codex_cli'' 100 7 (Some ''session_5h'') None = Inr file'
     \<and> worker_backend_blocked_until file' ''codex_cli'' 7 = Some r \<and> 100 \<le> r"
proof -
  let ?c = "record_worker_backend_cooldown None None ''codex_cli'' 100 7 (Some ''session_5h'') None"
  have "\<not> isl ?c" by code_simp
  then obtain file' where c: "?c = Inr file'" by (cases ?c) auto
  then show ?thesis
    using account_wide_cooldown_blocks [OF c] by (auto simp: MODEL_WEEKLY_def)
qed

end
