(* ===== verification/Usage_Decisions.thy ===== *)
theory Usage_Decisions
  imports Usage_Cooldown
begin

text \<open>
  The gates of \<open>execution/usage_store.py\<close> that decide whether work may run: the global budget with its circuit
  breaker, the retry cap with its automatic reset, the no-op check, and the per-repository, per-backend and
  global caps on rate, concurrency and memory. \<open>execution/models.py\<close> gives the settings and the decisions.

  The settings are what \<open>ExecutionControlSettings.from_env\<close> produced; the circuit breaker's three constants,
  read from the environment at import, are the record \<open>breaker\<close>. The text of \<open>/proc/meminfo\<close> is the argument
  \<open>meminfo\<close>, \<^const>\<open>None\<close> when it cannot be opened.
\<close>

section \<open>Settings and decisions\<close>

record exec_settings =
  es_max_exec_per_hour :: int
  es_max_exec_per_day :: int
  es_max_retries_per_task :: int

record breaker =
  cb_threshold :: rat
  cb_window :: nat
  cb_staleness :: timedelta

definition default_settings :: exec_settings where
  "default_settings = \<lparr>es_max_exec_per_hour = 10, es_max_exec_per_day = 50, es_max_retries_per_task = 3\<rparr>"

definition default_breaker :: breaker where
  "default_breaker = \<lparr>cb_threshold = 4/5, cb_window = 5, cb_staleness = td_hours 4\<rparr>"

record budget_decision =
  bd_allowed :: bool
  bd_reason :: "string option"
  bd_window :: "string option"
  bd_limit :: "int option"
  bd_current :: "int option"

record retry_decision =
  rtd_allowed :: bool
  rtd_reason :: "string option"
  rtd_attempts :: int
  rtd_limit :: int

record noop_decision =
  nd_should_skip :: bool
  nd_reason :: "string option"
  nd_detail :: "string option"

definition allowed :: budget_decision where
  "allowed = \<lparr>bd_allowed = True, bd_reason = None, bd_window = None, bd_limit = None, bd_current = None\<rparr>"

definition blocked :: "string \<Rightarrow> string \<Rightarrow> int \<Rightarrow> int \<Rightarrow> budget_decision" where
  "blocked reason window limit current =
     \<lparr>bd_allowed = False, bd_reason = Some reason, bd_window = Some window, bd_limit = Some limit,
      bd_current = Some current\<rparr>"

section \<open>Global budget and circuit breaker\<close>

definition fresh_outcomes :: "breaker \<Rightarrow> event list \<Rightarrow> datetime \<Rightarrow> event list" where
  "fresh_outcomes cb events now =
     take (cb_window cb)
       (filter (\<lambda>e. kind_is ''execution_outcome'' e
          \<and> (case timestamp_of e of None \<Rightarrow> False | Some ts \<Rightarrow> now - cb_staleness cb < ts)) (rev events))"

definition failed_outcomes :: "event list \<Rightarrow> int" where
  "failed_outcomes outcomes = int (length (filter (\<lambda>e. \<not> truthy (map_of e ''succeeded'')) outcomes))"

definition versions_in_window :: "event list \<Rightarrow> json list" where
  "versions_in_window outcomes =
     remdups (map (\<lambda>e. jget e ''backend_version'') (filter (\<lambda>e. truthy (map_of e ''backend_version'')) outcomes))"

definition breaker_open :: "breaker \<Rightarrow> event list \<Rightarrow> bool" where
  "breaker_open cb outcomes =
     (3 \<le> length outcomes \<and> length (versions_in_window outcomes) \<le> 1
      \<and> cb_threshold cb \<le> of_int (failed_outcomes outcomes) / of_nat (length outcomes))"

definition budget_decision_of :: "exec_settings \<Rightarrow> breaker \<Rightarrow> usage_file \<Rightarrow> datetime \<Rightarrow> budget_decision" where
  "budget_decision_of settings cb file now =
     (let events = pruned_events file now;
          hourly = exec_count events (now - td_hours 1);
          daily = exec_count events (now - td_days 1);
          outcomes = fresh_outcomes cb events now
      in if hourly \<ge> es_max_exec_per_hour settings
         then blocked ''budget_exceeded'' ''hourly'' (es_max_exec_per_hour settings) hourly
         else if daily \<ge> es_max_exec_per_day settings
         then blocked ''budget_exceeded'' ''daily'' (es_max_exec_per_day settings) daily
         else if breaker_open cb outcomes
         then blocked ''circuit_breaker_open'' ''recent'' (int (cb_window cb)) (failed_outcomes outcomes)
         else allowed)"

definition remaining_exec_capacity :: "exec_settings \<Rightarrow> usage_file \<Rightarrow> datetime \<Rightarrow> int" where
  "remaining_exec_capacity settings file now =
     (let events = pruned_events file now;
          hourly = es_max_exec_per_hour settings - exec_count events (now - td_hours 1);
          daily = es_max_exec_per_day settings - exec_count events (now - td_days 1)
      in min hourly daily)"

section \<open>Retry cap and no-op check\<close>

text \<open>The scan stops at the newest matching event whose timestamp parses.\<close>

fun newest_timestamp :: "string \<Rightarrow> event list \<Rightarrow> datetime option" where
  "newest_timestamp task_id [] = None"
| "newest_timestamp task_id (e # es) =
     (if map_of e ''task_id'' = Some (JStr task_id) \<and> (kind_is ''execution'' e \<or> kind_is ''retry_cap_block'' e)
      then (case timestamp_of e of Some ts \<Rightarrow> Some ts | None \<Rightarrow> newest_timestamp task_id es)
      else newest_timestamp task_id es)"

definition last_attempt_timestamp :: "usage_data \<Rightarrow> string \<Rightarrow> datetime option" where
  "last_attempt_timestamp data task_id = newest_timestamp task_id (rev (ud_events data))"

definition attempts_of :: "usage_data \<Rightarrow> string \<Rightarrow> int" where
  "attempts_of data task_id = (case ud_task_attempts data task_id of None \<Rightarrow> 0 | Some n \<Rightarrow> n)"

definition retry_decision_of ::
  "exec_settings \<Rightarrow> usage_file \<Rightarrow> string \<Rightarrow> datetime \<Rightarrow> usage_file \<times> retry_decision" where
  "retry_decision_of settings file task_id now =
     (let data = load file; attempts = attempts_of data task_id; limit = es_max_retries_per_task settings;
          last = last_attempt_timestamp data task_id
      in if attempts \<ge> limit
         then (if (case last of None \<Rightarrow> True | Some ts \<Rightarrow> now - ts > td_hours 1)
               then (Some (reset_task_attempts data task_id),
                     \<lparr>rtd_allowed = True, rtd_reason = None, rtd_attempts = 0, rtd_limit = limit\<rparr>)
               else (file, \<lparr>rtd_allowed = False, rtd_reason = Some ''retry_cap_exceeded'',
                            rtd_attempts = attempts, rtd_limit = limit\<rparr>))
         else (file, \<lparr>rtd_allowed = True, rtd_reason = None, rtd_attempts = attempts, rtd_limit = limit\<rparr>))"

definition noop_decision_of :: "usage_file \<Rightarrow> string \<Rightarrow> string \<Rightarrow> string \<Rightarrow> noop_decision" where
  "noop_decision_of file role task_id signature =
     (let last = py_strip (or_empty (ud_last_task_signatures (load file) (role @ '':'' @ task_id)))
      in if last \<noteq> [] \<and> last = signature
         then \<lparr>nd_should_skip = True, nd_reason = Some ''no_op'', nd_detail = Some ''no_state_change''\<rparr>
         else \<lparr>nd_should_skip = False, nd_reason = None, nd_detail = None\<rparr>)"

section \<open>Rolling caps\<close>

definition matching_since :: "(event \<Rightarrow> bool) \<Rightarrow> event list \<Rightarrow> datetime \<Rightarrow> int" where
  "matching_since P events cutoff =
     int (length (filter (\<lambda>e. kind_is ''execution'' e \<and> P e \<and> retained cutoff e) events))"

definition repo_count :: "string \<Rightarrow> usage_file \<Rightarrow> datetime \<Rightarrow> int" where
  "repo_count repo_key file now =
     matching_since (\<lambda>e. jget e ''repo_key'' = JStr repo_key) (pruned_events file now) (now - td_days 1)"

definition budget_decision_for_repo :: "usage_file \<Rightarrow> string \<Rightarrow> int \<Rightarrow> datetime \<Rightarrow> budget_decision" where
  "budget_decision_for_repo file repo_key max_daily now =
     (if repo_count repo_key file now \<ge> max_daily
      then blocked ''repo_budget_exceeded'' ''daily'' max_daily (repo_count repo_key file now) else allowed)"

text \<open>The tail the per-backend and the global rate check share: hourly first, then daily.\<close>

definition two_window_decision :: "string \<Rightarrow> int option \<Rightarrow> int option \<Rightarrow> int \<Rightarrow> int \<Rightarrow> budget_decision" where
  "two_window_decision reason max_per_hour max_per_day hourly daily =
     (if (case max_per_hour of None \<Rightarrow> False | Some m \<Rightarrow> m \<le> hourly)
      then blocked reason ''hourly'' (the max_per_hour) hourly
      else if (case max_per_day of None \<Rightarrow> False | Some m \<Rightarrow> m \<le> daily)
      then blocked reason ''daily'' (the max_per_day) daily
      else allowed)"

definition budget_decision_for_backend ::
  "usage_file \<Rightarrow> string \<Rightarrow> int option \<Rightarrow> int option \<Rightarrow> datetime \<Rightarrow> budget_decision" where
  "budget_decision_for_backend file backend max_per_hour max_per_day now =
     (if backend = [] then allowed
      else if max_per_hour = None \<and> max_per_day = None then allowed
      else
        (let events = pruned_events file now; P = (\<lambda>e. jget e ''backend'' = JStr backend)
         in two_window_decision ''backend_budget_exceeded'' max_per_hour max_per_day
              (matching_since P events (now - td_hours 1)) (matching_since P events (now - td_days 1))))"

definition global_rate_decision ::
  "usage_file \<Rightarrow> int option \<Rightarrow> int option \<Rightarrow> datetime \<Rightarrow> budget_decision" where
  "global_rate_decision file max_per_hour max_per_day now =
     (if max_per_hour = None \<and> max_per_day = None then allowed
      else
        (let events = pruned_events file now
         in two_window_decision ''global_rate_exceeded'' max_per_hour max_per_day
              (matching_since (\<lambda>_. True) events (now - td_hours 1))
              (matching_since (\<lambda>_. True) events (now - td_days 1))))"

section \<open>Concurrency\<close>

text \<open>
  One event of the in-flight scan, for both accounts: \<open>key\<close> is what identifies a run, \<^const>\<open>None\<close> when the event
  is skipped.
\<close>

definition inflight_step :: "(event \<Rightarrow> 'k option) \<Rightarrow> datetime \<Rightarrow> event \<Rightarrow> 'k set \<Rightarrow> 'k set" where
  "inflight_step key cutoff e in_flight =
     (if \<not> retained cutoff e then in_flight
      else case key e of
             None \<Rightarrow> in_flight
           | Some k \<Rightarrow>
               if kind_is ''execution_started'' e then insert k in_flight
               else if kind_is ''execution_finished'' e then in_flight - {k}
               else in_flight)"

fun str_of :: "json \<Rightarrow> string option" where
  "str_of (JStr s) = Some s"
| "str_of _ = None"

definition backend_run_key :: "string \<Rightarrow> event \<Rightarrow> string option" where
  "backend_run_key backend e =
     (if jget e ''backend'' \<noteq> JStr backend then None else str_of (jget e ''task_id''))"

definition any_run_key :: "event \<Rightarrow> (json \<times> string) option" where
  "any_run_key e =
     (let backend = (if truthy (map_of e ''backend'') then jget e ''backend'' else JStr [])
      in map_option (\<lambda>tid. (backend, tid)) (str_of (jget e ''task_id'')))"

definition concurrent_runs_for_backend :: "usage_file \<Rightarrow> string \<Rightarrow> datetime \<Rightarrow> int" where
  "concurrent_runs_for_backend file backend now =
     int (card (fold (inflight_step (backend_run_key backend) (now - td_hours 24)) (pruned_events file now) {}))"

definition total_concurrent_runs :: "usage_file \<Rightarrow> datetime \<Rightarrow> int" where
  "total_concurrent_runs file now =
     int (card (fold (inflight_step any_run_key (now - td_hours 24)) (pruned_events file now) {}))"

definition global_concurrency_decision :: "usage_file \<Rightarrow> int option \<Rightarrow> datetime \<Rightarrow> budget_decision" where
  "global_concurrency_decision file max_concurrent now =
     (case max_concurrent of
        None \<Rightarrow> allowed
      | Some m \<Rightarrow>
          (let in_flight = total_concurrent_runs file now
           in if in_flight \<ge> m then blocked ''global_concurrency_exceeded'' ''in_flight'' m in_flight else allowed))"

definition concurrency_decision_for_backend ::
  "usage_file \<Rightarrow> string \<Rightarrow> int option \<Rightarrow> datetime \<Rightarrow> budget_decision" where
  "concurrency_decision_for_backend file backend max_concurrent now =
     (if backend = [] then allowed
      else case max_concurrent of
             None \<Rightarrow> allowed
           | Some m \<Rightarrow>
               (let in_flight = concurrent_runs_for_backend file backend now
                in if in_flight \<ge> m then blocked ''backend_concurrency_exceeded'' ''in_flight'' m in_flight
                   else allowed))"

section \<open>Memory\<close>

definition meminfo_step :: "string \<Rightarrow> int \<times> int \<Rightarrow> int \<times> int" where
  "meminfo_step line acc =
     (case acc of (mem, swap) \<Rightarrow>
       (let parts = py_split line;
            val = (if 2 \<le> length parts then map_option (\<lambda>n. n div 1024) (py_int (parts ! 1)) else None)
        in if prefix ''MemAvailable:'' line then (case val of None \<Rightarrow> mem | Some v \<Rightarrow> v, swap)
           else if prefix ''SwapFree:'' line then (mem, case val of None \<Rightarrow> swap | Some v \<Rightarrow> v)
           else (mem, swap)))"

definition available_memory_mb :: "string list option \<Rightarrow> int" where
  "available_memory_mb meminfo =
     (case meminfo of
        None \<Rightarrow> 0
      | Some lines \<Rightarrow> (case fold meminfo_step lines (0, 0) of (mem, swap) \<Rightarrow> mem + swap))"

definition memory_floor :: "string \<Rightarrow> string list option \<Rightarrow> int \<Rightarrow> budget_decision" where
  "memory_floor reason meminfo m =
     (let avail = available_memory_mb meminfo
      in if avail = 0 then allowed
         else if avail < m then blocked reason ''instant'' m avail else allowed)"

definition global_memory_decision :: "string list option \<Rightarrow> int option \<Rightarrow> budget_decision" where
  "global_memory_decision meminfo min_available_memory_mb =
     (case min_available_memory_mb of
        None \<Rightarrow> allowed | Some m \<Rightarrow> memory_floor ''global_memory_insufficient'' meminfo m)"

definition memory_decision_for_backend :: "string list option \<Rightarrow> string \<Rightarrow> int option \<Rightarrow> budget_decision" where
  "memory_decision_for_backend meminfo backend min_available_memory_mb =
     (if backend = [] then allowed
      else case min_available_memory_mb of
             None \<Rightarrow> allowed | Some m \<Rightarrow> memory_floor ''backend_memory_insufficient'' meminfo m)"

section \<open>The cap contract\<close>

text \<open>
  A cap compares a usage with a limit: it allows exactly below the limit, and a refusal carries the limit and
  the usage it saw.
\<close>

locale usage_cap =
  fixes usage :: "'s \<Rightarrow> int" and decide :: "int \<Rightarrow> 's \<Rightarrow> budget_decision"
  assumes below_allows: "usage s < limit \<Longrightarrow> decide limit s = allowed"
    and reached_blocks: "limit \<le> usage s \<Longrightarrow> \<exists>reason window. decide limit s = blocked reason window limit (usage s)"
begin

lemma cap_allowed_iff: "bd_allowed (decide limit s) \<longleftrightarrow> usage s < limit"
  using below_allows [of s limit] reached_blocks [of limit s] by (cases "usage s < limit") (auto simp: allowed_def blocked_def)

lemma cap_refusal_reports:
  "\<not> bd_allowed (decide limit s) \<Longrightarrow> bd_limit (decide limit s) = Some limit \<and> bd_current (decide limit s) = Some (usage s)"
  using cap_allowed_iff [of limit s] reached_blocks [of limit s] by (auto simp: blocked_def)

lemma cap_mono: "bd_allowed (decide limit s) \<Longrightarrow> limit \<le> limit' \<Longrightarrow> usage s' \<le> usage s \<Longrightarrow> bd_allowed (decide limit' s')"
  by (simp add: cap_allowed_iff)

end

interpretation repo_cap: usage_cap
  "\<lambda>file. repo_count repo_key file now" "\<lambda>limit file. budget_decision_for_repo file repo_key limit now" for repo_key now
  by unfold_locales (auto simp: budget_decision_for_repo_def)

interpretation global_concurrency_cap: usage_cap
  "\<lambda>file. total_concurrent_runs file now" "\<lambda>limit file. global_concurrency_decision file (Some limit) now" for now
  by unfold_locales (auto simp: global_concurrency_decision_def Let_def)

text \<open>A backend is named by a non-empty string; the pair of its first character and the rest.\<close>

interpretation backend_concurrency_cap: usage_cap
  "\<lambda>file. concurrent_runs_for_backend file (c # cs) now"
  "\<lambda>limit file. concurrency_decision_for_backend file (c # cs) (Some limit) now" for c cs now
  by unfold_locales (auto simp: concurrency_decision_for_backend_def Let_def)

interpretation backend_hourly_cap: usage_cap
  "\<lambda>file. matching_since (\<lambda>e. jget e ''backend'' = JStr (c # cs)) (pruned_events file now) (now - td_hours 1)"
  "\<lambda>limit file. budget_decision_for_backend file (c # cs) (Some limit) None now" for c cs now
  by unfold_locales (auto simp: budget_decision_for_backend_def two_window_decision_def Let_def)

interpretation backend_daily_cap: usage_cap
  "\<lambda>file. matching_since (\<lambda>e. jget e ''backend'' = JStr (c # cs)) (pruned_events file now) (now - td_days 1)"
  "\<lambda>limit file. budget_decision_for_backend file (c # cs) None (Some limit) now" for c cs now
  by unfold_locales (auto simp: budget_decision_for_backend_def two_window_decision_def Let_def)

section \<open>Lemmas\<close>

lemma allowed_simps [simp]:
  "bd_allowed allowed" "\<not> bd_allowed (blocked r w l c)" "bd_reason (blocked r w l c) = Some r" "bd_reason allowed = None"
  by (simp_all add: allowed_def blocked_def)

lemma budget_allowed_iff:
  "bd_allowed (budget_decision_of settings cb file now) \<longleftrightarrow>
     exec_count (pruned_events file now) (now - td_hours 1) < es_max_exec_per_hour settings
     \<and> exec_count (pruned_events file now) (now - td_days 1) < es_max_exec_per_day settings
     \<and> \<not> breaker_open cb (fresh_outcomes cb (pruned_events file now) now)"
  by (simp add: budget_decision_of_def Let_def not_le)

text \<open>The budget reads only executions and outcomes.\<close>

definition budget_relevant :: "event \<Rightarrow> bool" where
  "budget_relevant e = (kind_is ''execution'' e \<or> kind_is ''execution_outcome'' e)"

lemma filter_relevant:
  "(\<And>e. P e \<Longrightarrow> Q e) \<Longrightarrow> filter Q xs = filter Q ys \<Longrightarrow> filter P xs = filter P ys"
proof -
  assume "\<And>e. P e \<Longrightarrow> Q e" and eq: "filter Q xs = filter Q ys"
  then have "filter P zs = filter P (filter Q zs)" for zs
    by (simp add: conj_absorb cong: conj_cong) (metis (mono_tags, lifting) filter_cong)
  then show ?thesis using eq by metis
qed

lemma budget_decision_cong:
  assumes "filter budget_relevant (pruned_events file now) = filter budget_relevant (pruned_events file' now)"
  shows "budget_decision_of settings cb file now = budget_decision_of settings cb file' now"
proof -
  have "exec_count (pruned_events file now) c = exec_count (pruned_events file' now) c" for c
    unfolding exec_count_def
    by (rule arg_cong [where f = "\<lambda>xs. int (length xs)"], rule filter_relevant [OF _ assms])
       (simp add: budget_relevant_def)
  moreover have "fresh_outcomes cb (pruned_events file now) now = fresh_outcomes cb (pruned_events file' now) now"
    unfolding fresh_outcomes_def rev_filter [symmetric]
    by (rule arg_cong [where f = "\<lambda>xs. take (cb_window cb) (rev xs)"], rule filter_relevant [OF _ assms])
       (simp add: budget_relevant_def)
  ultimately show ?thesis
    by (simp add: budget_decision_of_def Let_def)
qed

lemma kind_excl: "kind_is k e \<Longrightarrow> kind_is k' e \<longleftrightarrow> k' = k"
  by (auto simp: kind_is_def)

lemma fresh_outcomes_stale:
  "(\<And>e ts. e \<in> set events \<Longrightarrow> kind_is ''execution_outcome'' e \<Longrightarrow> timestamp_of e = Some ts \<Longrightarrow> ts \<le> now - cb_staleness cb)
     \<Longrightarrow> fresh_outcomes cb events now = []"
  by (force simp: fresh_outcomes_def filter_empty_conv split: option.split)

section \<open>Properties of the budget\<close>

text \<open>
  Recording a quota exhaustion never changes what the budget or the circuit breaker decide, now or later:
  with fewer than 1000 stored events, the decision at any later time is the one without the quota event.
\<close>

theorem quota_event_invisible_to_budget:
  assumes "record_quota_event free file task_id role backend now = Inr file'"
    and "length (ud_events (load file)) < 1000" and "now \<le> now'"
  shows "budget_decision_of settings cb file' now' = budget_decision_of settings cb file now'"
  using w_quota_event.appender_invisible [OF assms, of budget_relevant]
  by (intro budget_decision_cong) (simp add: pruned_events_def budget_relevant_def kind_is_def)

theorem quota_event_invisible_to_budget_witness:
  "\<exists>file'. record_quota_event (Some 300) None ''t1'' ''goal'' ''team_executor'' 5 = Inr file'
     \<and> budget_decision_of default_settings default_breaker file' 9 = budget_decision_of default_settings default_breaker None 9"
proof -
  let ?c = "record_quota_event (Some 300) None ''t1'' ''goal'' ''team_executor'' 5"
  have "\<not> isl ?c" by code_simp
  then obtain file' where c: "?c = Inr file'" by (cases ?c) auto
  have "length (ud_events (load None)) < 1000" by code_simp
  then show ?thesis
    using c quota_event_invisible_to_budget [OF c, of 9] by auto
qed

text \<open>
  The circuit breaker never blocks forever: once every recorded outcome is at least the staleness period old,
  whatever the outcomes were, the budget's verdict depends on the two rate caps alone.
\<close>

theorem circuit_breaker_recovers:
  assumes "\<And>e ts. e \<in> set (ud_events (load file)) \<Longrightarrow> kind_is ''execution_outcome'' e \<Longrightarrow> timestamp_of e = Some ts
    \<Longrightarrow> ts \<le> now - cb_staleness cb"
  shows "bd_allowed (budget_decision_of settings cb file now) \<longleftrightarrow>
    exec_count (pruned_events file now) (now - td_hours 1) < es_max_exec_per_hour settings
    \<and> exec_count (pruned_events file now) (now - td_days 1) < es_max_exec_per_day settings"
proof -
  have "fresh_outcomes cb (pruned_events file now) now = []"
    using assms by (intro fresh_outcomes_stale) (auto simp: pruned_events_def dest: prune_retained)
  then show ?thesis by (simp add: budget_allowed_iff breaker_open_def)
qed

definition failing_outcome :: "datetime \<Rightarrow> event" where
  "failing_outcome t = [(''kind'', JStr ''execution_outcome''), (''succeeded'', JBool False), (''timestamp'', JTime t)]"

definition sample_failing_file :: usage_file where
  "sample_failing_file = Some (empty_data\<lparr>ud_events := [failing_outcome 0, failing_outcome 1, failing_outcome 2]\<rparr>)"

theorem circuit_breaker_recovers_witness:
  "\<not> bd_allowed (budget_decision_of default_settings default_breaker sample_failing_file 3)
   \<and> bd_allowed (budget_decision_of default_settings default_breaker sample_failing_file (td_hours 5))"
proof -
  have "bd_allowed (budget_decision_of default_settings default_breaker sample_failing_file (td_hours 5)) \<longleftrightarrow>
    exec_count (pruned_events sample_failing_file (td_hours 5)) (td_hours 5 - td_hours 1) < es_max_exec_per_hour default_settings
    \<and> exec_count (pruned_events sample_failing_file (td_hours 5)) (td_hours 5 - td_days 1) < es_max_exec_per_day default_settings"
    by (rule circuit_breaker_recovers)
       (auto simp: sample_failing_file_def failing_outcome_def timestamp_of_def default_breaker_def td_defs)
  moreover have "exec_count (pruned_events sample_failing_file (td_hours 5)) (td_hours 5 - td_hours 1) < es_max_exec_per_hour default_settings"
    by code_simp
  moreover have "exec_count (pruned_events sample_failing_file (td_hours 5)) (td_hours 5 - td_days 1) < es_max_exec_per_day default_settings"
    by code_simp
  moreover have "\<not> bd_allowed (budget_decision_of default_settings default_breaker sample_failing_file 3)"
    by code_simp
  ultimately show ?thesis by blast
qed

section \<open>Properties of the retry cap and the no-op check\<close>

lemma writer_snoc_newest:
  assumes "map_of e ''task_id'' = Some (JStr task_id)" "kind_is ''execution'' e" "timestamp_of e = Some now"
  shows "last_attempt_timestamp (saved (d\<lparr>ud_events := es @ [e]\<rparr>) now) task_id = Some now"
  using assms by (simp add: last_attempt_timestamp_def prune_snoc)

lemma execution_event_fields [simp]:
  "map_of (execution_event role tid sig now rk b) ''task_id'' = Some (JStr tid)"
  "kind_is ''execution'' (execution_event role tid sig now rk b)"
  "timestamp_of (execution_event role tid sig now rk b) = Some now"
  by (simp_all add: execution_event_def kind_is_def timestamp_of_def)

lemma with_attempt_simps [simp]:
  "attempts_of (with_attempt d role tid sig) x = attempts_of d x + (if x = tid then 1 else 0)"
  "ud_last_task_signatures (with_attempt d role tid sig) =
     (ud_last_task_signatures d)(role @ '':'' @ tid \<mapsto> sig)"
  by (simp_all add: attempts_of_def with_attempt_def Let_def)

lemma attempts_of_saved [simp]: "attempts_of (saved d now) x = attempts_of d x"
  by (simp add: attempts_of_def)

lemma attempts_of_events [simp]: "attempts_of (d\<lparr>ud_events := es\<rparr>) x = attempts_of d x"
  by (simp add: attempts_of_def)

text \<open>
  Once the executions of a task reach the retry limit, the task is refused for the whole hour after its
  last execution: the decision reports the attempts and the limit and the file is left as it is.
\<close>

theorem retry_cap_holds_for_an_hour:
  assumes "record_execution free file role tid sig t rk b = Inr file'"
    and "es_max_retries_per_task settings \<le> attempts_of (load file) tid + 1" and "now - t \<le> td_hours 1"
  shows "retry_decision_of settings file' tid now =
    (file', \<lparr>rtd_allowed = False, rtd_reason = Some ''retry_cap_exceeded'',
             rtd_attempts = attempts_of (load file) tid + 1, rtd_limit = es_max_retries_per_task settings\<rparr>)"
  using assms(2,3) w_execution.writer_result [OF assms(1)]
  by (simp add: retry_decision_of_def Let_def writer_snoc_newest)

theorem retry_cap_holds_for_an_hour_witness:
  "\<exists>file'. record_execution None (Some (empty_data\<lparr>ud_task_attempts := [''t1'' \<mapsto> 2]\<rparr>)) ''goal'' ''t1'' ''s'' 0 None None = Inr file'
     \<and> \<not> rtd_allowed (snd (retry_decision_of default_settings file' ''t1'' (td_hours 1)))"
proof -
  let ?c = "record_execution None (Some (empty_data\<lparr>ud_task_attempts := [''t1'' \<mapsto> 2]\<rparr>)) ''goal'' ''t1'' ''s'' 0 None None"
  have "\<not> isl ?c" by code_simp
  then obtain file' where c: "?c = Inr file'" by (cases ?c) auto
  show ?thesis
    using c retry_cap_holds_for_an_hour [OF c, of default_settings "td_hours 1"]
    by (auto simp: default_settings_def attempts_of_def)
qed

text \<open>
  A task is skipped as a no-op exactly when its last stored signature repeats: after an execution that stored
  a non-blank signature without surrounding blanks, the same role and task are skipped for that signature and for
  no other, and a skip for any reason but \<open>no_op\<close> (budget, cooldown) changes no no-op decision at all.
\<close>

theorem noop_round_trip:
  assumes "record_execution free file role tid sig t rk b = Inr file'" and "py_strip sig = sig" and "sig \<noteq> []"
    and "record_skip free2 file' role2 tid2 sig2 reason detail t2 evidence = Inr file''" and "reason \<noteq> ''no_op''"
  shows "(nd_should_skip (noop_decision_of file' role tid s) \<longleftrightarrow> s = sig)
    \<and> noop_decision_of file'' = noop_decision_of file'"
proof
  show "nd_should_skip (noop_decision_of file' role tid s) \<longleftrightarrow> s = sig"
    using assms(2,3) w_execution.writer_result [OF assms(1)]
    by (auto simp: noop_decision_of_def or_empty_def)
  show "noop_decision_of file'' = noop_decision_of file'"
    using w_skip.writer_result [OF assms(4)] assms(5)
    by (intro ext) (simp add: noop_decision_of_def)
qed

theorem noop_round_trip_witness:
  "\<exists>file' file''. record_execution None None ''goal'' ''t1'' ''sig'' 0 None None = Inr file'
     \<and> record_skip None file' ''goal'' ''t1'' ''other'' ''budget_exceeded'' None 1 None = Inr file''
     \<and> nd_should_skip (noop_decision_of file'' ''goal'' ''t1'' ''sig'')"
proof -
  let ?c = "record_execution None None ''goal'' ''t1'' ''sig'' 0 None None"
  have "\<not> isl ?c" by code_simp
  then obtain file' where c: "?c = Inr file'" by (cases ?c) auto
  let ?d = "record_skip None file' ''goal'' ''t1'' ''other'' ''budget_exceeded'' None 1 None"
  obtain file'' where d: "?d = Inr file''"
    using w_skip.writer_some [of None] by blast
  have "py_strip ''sig'' = ''sig''" by code_simp
  then show ?thesis
    using c d noop_round_trip [OF c _ _ d] by simp
qed

section \<open>Properties of the concurrency account\<close>

definition inflight_runs :: "usage_file \<Rightarrow> string \<Rightarrow> datetime \<Rightarrow> string set" where
  "inflight_runs file backend now =
     fold (inflight_step (backend_run_key backend) (now - td_hours 24)) (pruned_events file now) {}"

lemma finite_inflight_fold: "finite S \<Longrightarrow> finite (fold (inflight_step key c) es S)"
  by (induction es arbitrary: S) (auto simp: inflight_step_def split: option.split)

lemma started_fields [simp]:
  "timestamp_of (started_event tid b t) = Some t" "backend_run_key b (started_event tid b t) = Some tid"
  "kind_is ''execution_started'' (started_event tid b t)"
  by (simp_all add: started_event_def timestamp_of_def backend_run_key_def kind_is_def jget_def)

lemma finished_fields [simp]:
  "timestamp_of (finished_event tid b t) = Some t" "backend_run_key b (finished_event tid b t) = Some tid"
  "kind_is ''execution_finished'' (finished_event tid b t)" "\<not> kind_is ''execution_started'' (finished_event tid b t)"
  by (simp_all add: finished_event_def timestamp_of_def backend_run_key_def kind_is_def jget_def)

lemma day_within_week: "now - td_hours 24 \<le> t \<Longrightarrow> now - td_days 7 \<le> t"
  by (simp add: td_defs)

lemma pruned_append:
  assumes "ud_events (load file') = prune_events (es @ [e]) t" and "timestamp_of e = Some t"
    and "length es < 1000" and "t \<le> now" and "now - td_hours 24 \<le> t"
  shows "pruned_events file' now = prune_events es now @ [e]"
proof -
  have "pruned_events file' now = prune_events (es @ [e]) now"
    using assms(1,3,4) by (simp add: pruned_events_def prune_prune)
  then show ?thesis
    using assms(2,3) day_within_week [OF assms(5)] by (simp add: prune_small retained_stamped)
qed

text \<open>
  The in-flight account of a backend balances: recording the start of a run that is not in flight adds one,
  and recording its end brings the count back, at every time within a day of the start and with room in the
  event list.
\<close>

theorem concurrency_account_balances:
  assumes "record_execution_started free file tid b t = Inr file1"
    and "record_execution_finished free' file1 tid b t' = Inr file2"
    and "t \<le> t'" "t' \<le> now" "now - td_hours 24 \<le> t"
    and "length (ud_events (load file)) < 999" and "tid \<notin> inflight_runs file b now"
  shows "concurrent_runs_for_backend file1 b now = concurrent_runs_for_backend file b now + 1
    \<and> concurrent_runs_for_backend file2 b now = concurrent_runs_for_backend file b now"
proof -
  let ?es = "ud_events (load file)" and ?e1 = "started_event tid b t" and ?e2 = "finished_event tid b t'"
  have f1: "ud_events (load file1) = prune_events (?es @ [?e1]) t"
    using w_started.writer_result [OF assms(1)] by simp
  have f2: "ud_events (load file2) = prune_events (ud_events (load file1) @ [?e2]) t'"
    using w_finished.writer_result [OF assms(2)] by simp
  have len1: "length (ud_events (load file1)) < 1000"
    using assms(6) f1 prune_small [of "?es @ [?e1]" t] length_filter_le [of "retained (t - td_days 7)" "?es @ [?e1]"]
    by simp
  have p1: "pruned_events file1 now = pruned_events file now @ [?e1]"
    using pruned_append [OF f1] assms(3-6) by (simp add: pruned_events_def)
  have p2: "pruned_events file2 now = pruned_events file1 now @ [?e2]"
    using pruned_append [OF f2 _ len1] assms(3-5) by (simp add: pruned_events_def)
  have fin: "finite (inflight_runs file b now)"
    by (simp add: inflight_runs_def finite_inflight_fold)
  have r1: "inflight_runs file1 b now = insert tid (inflight_runs file b now)"
    using assms(5) by (simp add: inflight_runs_def p1 inflight_step_def retained_stamped)
  have r2: "inflight_runs file2 b now = inflight_runs file1 b now - {tid}"
    using assms(3,5) by (simp add: inflight_runs_def p2 inflight_step_def retained_stamped)
  have "concurrent_runs_for_backend f b now = int (card (inflight_runs f b now))" for f
    by (simp add: concurrent_runs_for_backend_def inflight_runs_def)
  then show ?thesis
    using assms(7) fin r1 r2 by simp
qed

theorem concurrency_account_balances_witness:
  "\<exists>file1 file2. record_execution_started None None ''r1'' ''team_executor'' 0 = Inr file1
     \<and> record_execution_finished None file1 ''r1'' ''team_executor'' 5 = Inr file2
     \<and> concurrent_runs_for_backend file1 ''team_executor'' 6 = 1
     \<and> concurrent_runs_for_backend file2 ''team_executor'' 6 = 0"
proof -
  obtain file1 where c: "record_execution_started None None ''r1'' ''team_executor'' 0 = Inr file1"
    using w_started.writer_some [of None] by blast
  obtain file2 where d: "record_execution_finished None file1 ''r1'' ''team_executor'' 5 = Inr file2"
    using w_finished.writer_some [of None] by blast
  have "concurrent_runs_for_backend None ''team_executor'' 6 = 0" by code_simp
  moreover have "''r1'' \<notin> inflight_runs None ''team_executor'' 6" by code_simp
  moreover have "length (ud_events (load None)) < 999" by code_simp
  ultimately show ?thesis
    using c d concurrency_account_balances [OF c d, of 6] by (simp add: td_defs)
qed

end
