(* ===== verification/Usage_Safety.thy ===== *)
theory Usage_Safety
  imports Usage_Decisions
begin

text \<open>
  The usage store under every sequence of its operations: the steps of the store, the invariants of every
  reachable file, the rolling execution caps of a dispatcher that asks the budget before each execution, and
  the one interleaving the per-path lock does not exclude.
\<close>

section \<open>Steps of the store\<close>

text \<open>Every write of the store except \<open>record_execution\<close>, at time \<open>now\<close>.\<close>

inductive bookkeeping_step :: "datetime \<Rightarrow> usage_file \<Rightarrow> usage_file \<Rightarrow> bool" where
  outcome: "record_execution_outcome free file tid role ok now backend version = Inr file' \<Longrightarrow> bookkeeping_step now file file'"
| quality: "record_quality_warning free file tid repo counts now = Inr file' \<Longrightarrow> bookkeeping_step now file file'"
| scope: "record_scope_violation free file tid repo files now = Inr file' \<Longrightarrow> bookkeeping_step now file file'"
| quota: "record_quota_event free file tid role backend' now = Inr file' \<Longrightarrow> bookkeeping_step now file file'"
| started: "record_execution_started free file tid backend' now = Inr file' \<Longrightarrow> bookkeeping_step now file file'"
| finished: "record_execution_finished free file tid backend' now = Inr file' \<Longrightarrow> bookkeeping_step now file file'"
| duration: "record_execution_duration free file tid role secs now = Inr file' \<Longrightarrow> bookkeeping_step now file file'"
| skip: "record_skip free file role tid sig reason detail now evidence = Inr file' \<Longrightarrow> bookkeeping_step now file file'"
| retry_cap: "record_retry_cap free file role tid now attempts limit = Inr file' \<Longrightarrow> bookkeeping_step now file file'"
| cycle: "record_proposal_cycle free file created deduped skipped now = Inr file' \<Longrightarrow> bookkeeping_step now file file'"
| satiation: "bookkeeping_step now file (reset_satiation_window file)"
| proposal: "record_proposal_outcome free file category ok now = Inr file' \<Longrightarrow> bookkeeping_step now file file'"
| validation: "record_validation_outcome free file command ok now = Inr file' \<Longrightarrow> bookkeeping_step now file file'"
| escalation: "record_escalation free file classification ids now = Inr file' \<Longrightarrow> bookkeeping_step now file file'"
| triage: "record_blocked_triage free file tid classification now = Inr file' \<Longrightarrow> bookkeeping_step now file file'"
| cost: "record_execution_cost free file tid repo usd now = Inr file' \<Longrightarrow> bookkeeping_step now file file'"
| suppression: "record_proposal_budget_suppression free file reason now ev = Inr file' \<Longrightarrow> bookkeeping_step now file file'"
| artifact: "record_task_artifact free file tid art now = Inr file' \<Longrightarrow> bookkeeping_step now file file'"
| cap_sample: "record_budget_cap_sample free file weighted now min_gap keep = Inr file' \<Longrightarrow> bookkeeping_step now file file'"
| cooldown: "record_worker_backend_cooldown free file wb reset_at now lk md = Inr file' \<Longrightarrow> bookkeeping_step now file file'"
| clear: "clear_worker_backend_cooldown free file wb md now aw reason = Inr (file', n) \<Longrightarrow> bookkeeping_step now file file'"
| retry: "bookkeeping_step now file (fst (retry_decision_of settings file tid now))"

inductive usage_step :: "datetime \<Rightarrow> usage_file \<Rightarrow> usage_file \<Rightarrow> bool" where
  bookkeeping: "bookkeeping_step now file file' \<Longrightarrow> usage_step now file file'"
| execution: "record_execution free file role tid sig now repo_key backend = Inr file' \<Longrightarrow> usage_step now file file'"

text \<open>Files reachable from a missing one, with a clock that does not run backwards.\<close>

inductive usage_reachable :: "usage_file \<Rightarrow> datetime \<Rightarrow> bool" where
  start: "usage_reachable None t"
| step: "usage_reachable file t \<Longrightarrow> t \<le> now \<Longrightarrow> usage_step now file file' \<Longrightarrow> usage_reachable file' now"

inductive_cases bookkeeping_stepE: "bookkeeping_step now file file'"
inductive_cases usage_stepE: "usage_step now file file'"

section \<open>The shape of a step\<close>

definition is_exec :: "event \<Rightarrow> bool" where
  "is_exec e = kind_is ''execution'' e"

definition plain_event :: "event \<Rightarrow> bool" where
  "plain_event e = (\<not> kind_is ''execution'' e \<and> \<not> kind_is ''worker_backend_cooldown'' e)"

text \<open>A write that only filters events and does not save: counters and update time stay.\<close>

definition same_file_filtered :: "usage_file \<Rightarrow> usage_file \<Rightarrow> bool" where
  "same_file_filtered file file' =
     (\<exists>Q. ud_events (load file') = filter Q (ud_events (load file))
        \<and> (\<forall>e. Q e \<or> kind_is ''proposal_cycle'' e)
        \<and> ud_updated_at (load file') = ud_updated_at (load file)
        \<and> ud_hourly_exec_count (load file') = ud_hourly_exec_count (load file)
        \<and> ud_daily_exec_count (load file') = ud_daily_exec_count (load file)
        \<and> ud_skipped_due_to_budget (load file') = ud_skipped_due_to_budget (load file)
        \<and> ud_skipped_due_to_noop (load file') = ud_skipped_due_to_noop (load file)
        \<and> ud_skipped_due_to_cooldown (load file') = ud_skipped_due_to_cooldown (load file)
        \<and> ud_blocked_due_to_retry_cap (load file') = ud_blocked_due_to_retry_cap (load file)
        \<and> ud_suppressed_due_to_proposal_budget (load file') = ud_suppressed_due_to_proposal_budget (load file))"

lemma same_file_refl: "same_file_filtered file file"
  by (auto simp: same_file_filtered_def intro: exI [of _ "\<lambda>_. True"])

lemma satiation_shape: "same_file_filtered file (reset_satiation_window file)"
  by (auto simp: same_file_filtered_def reset_satiation_window_def Let_def intro: exI [of _ "\<lambda>e. \<not> kind_is ''proposal_cycle'' e"])

lemma retry_shape: "same_file_filtered file (fst (retry_decision_of settings file tid now))"
proof -
  have "same_file_filtered file (Some (reset_task_attempts (load file) tid))"
    by (auto simp: same_file_filtered_def reset_task_attempts_def intro: exI [of _ "\<lambda>_. True"])
  then show ?thesis
    by (simp add: retry_decision_of_def Let_def same_file_refl)
qed

lemma is_exec_not_cooldown: "is_exec e \<Longrightarrow> \<not> is_active_cooldown_for e wb now"
  by (simp add: is_active_cooldown_for_def is_exec_def kind_is_def)

lemma cooldown_event_kind: "\<not> is_exec (cooldown_event wb r now lk m)"
  by (simp add: is_exec_def kind_is_def cooldown_event_def)

lemma cleared_event_plain: "plain_event (cleared_event wb m aw reason n now) \<and> timestamp_of (cleared_event wb m aw reason n now) = Some now"
  by (simp add: plain_event_def kind_is_def cleared_event_def timestamp_of_def)

lemma cooldown_shape:
  assumes "record_worker_backend_cooldown free file wb r now lk m = Inr file'"
  shows "resaves is_exec (\<lambda>e. \<not> is_exec e) now file file'"
  using w_cooldown.writer_result [OF assms]
  by (rule resavesI [where Q = "\<lambda>e. \<not> superseded wb now lk m e" and new = "[cooldown_event wb r now lk m]"])
     (auto simp: superseded_def is_exec_not_cooldown cooldown_event_kind)

lemma clear_shape:
  assumes "clear_worker_backend_cooldown free file wb m now aw reason = Inr (file', n)"
  shows "resaves is_exec plain_event now file file'"
proof -
  obtain extra where f: "file' = Some (saved ((load file)\<lparr>ud_events :=
        filter (\<lambda>e. \<not> retracted wb m now aw e) (ud_events (load file)) @ extra\<rparr>) now)"
    and x: "extra = (if n = 0 then [] else [cleared_event wb m aw reason n now])"
    using clear_result [OF assms] by blast
  show ?thesis
    by (rule resavesI [OF f, where Q = "\<lambda>e. \<not> retracted wb m now aw e" and new = extra])
       (simp_all add: retracted_def is_exec_not_cooldown cleared_event_plain x)
qed

lemma skip_shape:
  assumes "record_skip free file role tid sig reason detail now evidence = Inr file'"
  shows "resaves is_exec plain_event now file file'"
  using w_skip.writer_result [OF assms]
  by (rule resaves_append) (simp_all add: plain_event_def kind_is_def timestamp_of_def)

lemma save_shape:
  "file' = Some (saved d now) \<Longrightarrow> ud_events d = ud_events (load file) \<Longrightarrow> resaves is_exec plain_event now file file'"
  by (rule resavesI [where d = d and Q = "\<lambda>_. True" and new = "[]"]) auto

lemma cap_sample_shape:
  "record_budget_cap_sample free file weighted now min_gap keep = Inr file' \<Longrightarrow>
     same_file_filtered file file' \<or> resaves is_exec plain_event now file file'"
  by (auto simp: record_budget_cap_sample_def Let_def save_Inr intro: same_file_refl save_shape split: if_splits)

text \<open>None of the other appended events is an execution or a cooldown.\<close>

lemma plain_cons [simp]: "plain_event ((''kind'', JStr k) # rest) \<longleftrightarrow> k \<noteq> ''execution'' \<and> k \<noteq> ''worker_backend_cooldown''"
  by (auto simp: plain_event_def kind_is_def)

lemma resaves_weaken:
  "resaves keeps ok now file file' \<Longrightarrow> (\<And>e. ok e \<Longrightarrow> ok' e) \<Longrightarrow> resaves keeps ok' now file file'"
  unfolding resaves_def by metis

text \<open>Every bookkeeping step leaves the file filtered, or saves it with one more plain event or one cooldown.\<close>

lemma bookkeeping_cases:
  assumes "bookkeeping_step now file file'"
  obtains (filtered) "same_file_filtered file file'"
  | (plain) "resaves is_exec plain_event now file file'"
  | (cooled) free wb r lk md where "record_worker_backend_cooldown free file wb r now lk md = Inr file'"
proof -
  have "same_file_filtered file file' \<or> resaves is_exec plain_event now file file'
      \<or> (\<exists>free wb r lk md. record_worker_backend_cooldown free file wb r now lk md = Inr file')"
    using assms
    by cases (auto intro: satiation_shape retry_shape skip_shape clear_shape save_shape
        w_outcome.appender_resaves w_quality_warning.appender_resaves w_scope_violation.appender_resaves
        w_quota_event.appender_resaves w_started.appender_resaves w_finished.appender_resaves
        w_duration.appender_resaves w_retry_cap.appender_resaves w_proposal_cycle.appender_resaves
        w_proposal_outcome.appender_resaves w_validation_outcome.appender_resaves
        w_escalation.appender_resaves w_blocked_triage.appender_resaves w_cost.appender_resaves
        w_suppression.appender_resaves simp: started_event_def finished_event_def escalation_event_def
        dest: cap_sample_shape w_artifact.writer_result)
  then show thesis using that by blast
qed

section \<open>The file invariant\<close>

lemma resaves_wf: "resaves keeps ok now file file' \<Longrightarrow> wf_file file'"
  by (auto simp: resaves_def wf_file_def saved_wf)

lemma filter_count_kind:
  "(\<forall>e. Q e \<or> kind_is k' e) \<Longrightarrow> k \<noteq> k' \<Longrightarrow> count_kind (filter Q es) k = count_kind es k"
  unfolding count_kind_def by (induction es) (auto simp: kind_is_def)

lemma filter_exec_count:
  "(\<forall>e. Q e \<or> kind_is k' e) \<Longrightarrow> k' \<noteq> ''execution'' \<Longrightarrow> exec_count (filter Q es) c = exec_count es c"
  unfolding exec_count_def by (induction es) (auto simp: kind_is_def)

lemma filtered_counters:
  assumes "same_file_filtered file file'"
  shows "counters_agree (load file') t \<longleftrightarrow> counters_agree (load file) t"
  using assms
  by (auto simp: same_file_filtered_def counters_agree_def filter_count_kind [where k' = "''proposal_cycle''"]
      filter_exec_count [where k' = "''proposal_cycle''"])

lemma filtered_wf:
  assumes "same_file_filtered file file'" and "wf_file file"
  shows "wf_file file'"
proof -
  obtain Q where ev: "ud_events (load file') = filter Q (ud_events (load file))"
    and up: "ud_updated_at (load file') = ud_updated_at (load file)"
    using assms(1) by (auto simp: same_file_filtered_def)
  have "length (ud_events (load file')) \<le> 1000"
    using assms(2) ev le_trans [OF length_filter_le [of Q "ud_events (load file)"]]
    by (simp add: wf_file_def wf_data_def)
  then show ?thesis
    using assms(2) up ev filtered_counters [OF assms(1)]
    by (auto simp: wf_file_def wf_data_def split: option.splits)
qed

lemma usage_step_wf: "usage_step now file file' \<Longrightarrow> wf_file file \<Longrightarrow> wf_file file'"
proof (erule usage_stepE)
  assume "wf_file file" and "bookkeeping_step now file file'"
  then show "wf_file file'"
    by (cases rule: bookkeeping_cases [OF \<open>bookkeeping_step now file file'\<close>])
       (auto intro: filtered_wf resaves_wf w_cooldown.writer_wf)
qed (rule w_execution.writer_wf)

section \<open>Coalesced cooldowns\<close>

definition same_limit :: "string \<Rightarrow> json \<Rightarrow> json \<Rightarrow> datetime \<Rightarrow> event \<Rightarrow> bool" where
  "same_limit wb lk md t e = (active_reset e wb t \<noteq> None \<and> jget e ''limit_kind'' = lk \<and> jget e ''model'' = md)"

definition coalesced :: "event list \<Rightarrow> datetime \<Rightarrow> bool" where
  "coalesced es t = (\<forall>wb lk md. length (filter (same_limit wb lk md t) es) \<le> 1)"

lemma filter_prune_length: "length (filter P (prune_events es now)) \<le> length (filter P es)"
proof -
  have "length (filter P (last_n n xs)) \<le> length (filter P xs)" for n and xs :: "event list"
    unfolding last_n_def by (metis append_take_drop_id filter_append le_add2 length_append)
  then show ?thesis
    unfolding prune_events_def by (meson filter_sub_length le_trans)
qed

lemma coalesced_prune: "coalesced es t \<Longrightarrow> coalesced (prune_events es now) t"
  unfolding coalesced_def by (meson filter_prune_length le_trans)

lemma coalesced_filter: "coalesced es t \<Longrightarrow> coalesced (filter Q es) t"
  unfolding coalesced_def by (meson filter_sub_length le_trans)

lemma coalesced_plain: "coalesced es t \<Longrightarrow> plain_event e \<Longrightarrow> coalesced (es @ [e]) t"
  by (simp add: coalesced_def same_limit_def plain_event_def active_reset_def)

lemma coalesced_execution: "coalesced es t \<Longrightarrow> kind_is ''execution'' e \<Longrightarrow> coalesced (es @ [e]) t"
  by (simp add: coalesced_def same_limit_def active_reset_def kind_is_def)

lemma coalesced_resaves:
  assumes "resaves keeps plain_event now file file'" and "coalesced (ud_events (load file)) t"
  shows "coalesced (ud_events (load file')) t"
proof -
  obtain d Q new where "file' = Some (saved d now)" "ud_events d = filter Q (ud_events (load file)) @ new"
    and "new = [] \<or> (\<exists>e. new = [e] \<and> plain_event e)"
    using assms(1) unfolding resaves_def by blast
  then show ?thesis
    using coalesced_filter [OF assms(2), of Q] by (auto intro!: coalesced_prune intro: coalesced_plain)
qed

lemma superseded_iff:
  "superseded wb now lk md e \<longleftrightarrow> same_limit wb (opt_json lk) (opt_json md) now e"
  by (simp add: superseded_def same_limit_def active_iff)

lemma same_limit_mono: "same_limit wb lk md t e \<Longrightarrow> now \<le> t \<Longrightarrow> same_limit wb lk md now e"
  by (auto simp: same_limit_def dest: active_reset_mono)

lemma coalesced_record:
  assumes "coalesced es t" and "now \<le> t"
  shows "coalesced (filter (\<lambda>e. \<not> superseded wb now lk md e) es @ [cooldown_event wb r now lk md]) t"
  unfolding coalesced_def
proof (intro allI)
  fix wb' lk' md'
  let ?old = "filter (same_limit wb' lk' md' t) (filter (\<lambda>e. \<not> superseded wb now lk md e) es)"
  have old: "length ?old \<le> 1"
    using coalesced_filter [OF assms(1)] by (simp add: coalesced_def)
  show "length (filter (same_limit wb' lk' md' t) (filter (\<lambda>e. \<not> superseded wb now lk md e) es @ [cooldown_event wb r now lk md])) \<le> 1"
  proof (cases "same_limit wb' lk' md' t (cooldown_event wb r now lk md)")
    case True
    then have "wb' = wb" "lk' = opt_json lk" "md' = opt_json md"
      by (auto simp: same_limit_def active_cooldown_event split: if_splits)
    then have "?old = []"
      using assms(2) by (auto simp: filter_empty_conv superseded_iff dest: same_limit_mono)
    with True show ?thesis by simp
  next
    case False
    with old show ?thesis by simp
  qed
qed

lemma usage_step_coalesced:
  assumes "usage_step now file file'" and "coalesced (ud_events (load file)) t" and "now \<le> t"
  shows "coalesced (ud_events (load file')) t"
  using assms(1)
proof (rule usage_stepE)
  assume "bookkeeping_step now file file'"
  then show ?thesis
  proof (cases rule: bookkeeping_cases)
    case filtered
    then show ?thesis using coalesced_filter [OF assms(2)] by (auto simp: same_file_filtered_def)
  next
    case plain
    then show ?thesis using assms(2) by (rule coalesced_resaves)
  next
    case (cooled free wb r lk md)
    then show ?thesis
      using coalesced_prune [OF coalesced_record [OF assms(2,3)]] by (auto dest!: w_cooldown.writer_result)
  qed
next
  fix free role tid sig repo_key backend
  assume "record_execution free file role tid sig now repo_key backend = Inr file'"
  then show ?thesis
    using coalesced_execution [OF assms(2)] by (auto dest!: w_execution.writer_result intro!: coalesced_prune)
qed

text \<open>
  C5: every usage file reachable by any sequence of the store's operations is consistent: at most 1000 events,
  none older than seven days at the last save, every derived counter equal to what the events say, and at no
  later time two active cooldowns for the same worker backend, limit kind and model.
\<close>

theorem usage_file_invariant:
  assumes "usage_reachable file t" and "t \<le> t'"
  shows "wf_file file \<and> coalesced (ud_events (load file)) t'"
proof -
  have "wf_file file \<and> (\<forall>t' \<ge> t. coalesced (ud_events (load file)) t')"
    using assms(1)
  proof (induction rule: usage_reachable.induct)
    case (start t)
    then show ?case by (simp add: wf_file_def load_def empty_wf) (simp add: empty_data_def coalesced_def)
  next
    case (step f t now f')
    then show ?case using usage_step_wf usage_step_coalesced by (meson order_trans)
  qed
  then show ?thesis using assms(2) by blast
qed

theorem usage_file_invariant_witness:
  "\<exists>file. record_worker_backend_cooldown None None ''codex_cli'' 100 7 None None = Inr file
     \<and> wf_file file \<and> coalesced (ud_events (load file)) 8"
proof -
  obtain f where c: "record_worker_backend_cooldown None None ''codex_cli'' 100 7 None None = Inr f"
    using w_cooldown.writer_some [of None] by blast
  have "usage_reachable f 7"
    by (rule usage_reachable.step [OF usage_reachable.start order_refl
          usage_step.bookkeeping [OF bookkeeping_step.cooldown [OF c]]])
  then show ?thesis using c usage_file_invariant [of f 7 8] by simp
qed

section \<open>Rolling execution caps\<close>

text \<open>
  A dispatcher that asks the budget before each execution: \<open>runs\<close> are the times of all executions ever recorded,
  \<open>n\<close> the number of writes so far. Any bookkeeping may happen in between.
\<close>

inductive gated_run ::
  "exec_settings \<Rightarrow> breaker \<Rightarrow> usage_file \<Rightarrow> datetime \<Rightarrow> datetime list \<Rightarrow> nat \<Rightarrow> bool" for settings cb where
  start: "gated_run settings cb None t [] 0"
| execution: "gated_run settings cb file t runs n \<Longrightarrow> t \<le> now \<Longrightarrow>
    bd_allowed (budget_decision_of settings cb file now) \<Longrightarrow>
    record_execution free file role tid sig now repo_key backend = Inr file' \<Longrightarrow>
    gated_run settings cb file' now (runs @ [now]) (Suc n)"
| bookkeeping: "gated_run settings cb file t runs n \<Longrightarrow> t \<le> now \<Longrightarrow> bookkeeping_step now file file' \<Longrightarrow>
    gated_run settings cb file' now runs (Suc n)"

text \<open>The number of executions in the window of length \<open>width\<close> that ends at \<open>T\<close>.\<close>

definition in_window :: "datetime list \<Rightarrow> timedelta \<Rightarrow> datetime \<Rightarrow> nat" where
  "in_window runs width T = length (filter (\<lambda>x. T - width \<le> x \<and> x \<le> T) runs)"

lemma window_step:
  assumes "\<And>T. in_window runs width T \<le> m" and "length (filter (\<lambda>x. now - width \<le> x) runs) < m"
  shows "in_window (runs @ [now]) width T \<le> m"
proof (cases "T - width \<le> now \<and> now \<le> T")
  case True
  then have "in_window runs width T \<le> length (filter (\<lambda>x. now - width \<le> x) runs)"
    unfolding in_window_def by (intro length_filter_mono) auto
  then show ?thesis using assms(2) True by (simp add: in_window_def)
next
  case False
  then show ?thesis using assms(1) [of T] by (auto simp: in_window_def)
qed

lemma exec_count_alt: "exec_count es c = int (length (filter (\<lambda>e. is_exec e \<and> retained c e) es))"
  by (simp add: exec_count_def is_exec_def retained_def)

lemma exec_count_retained: "k \<le> c \<Longrightarrow> exec_count (filter (retained k) es) c = exec_count es c"
  unfolding exec_count_alt filter_filter by (metis (mono_tags, lifting) filter_cong retained_mono)

lemma exec_count_prune: "length es \<le> 1000 \<Longrightarrow> now - td_days 7 \<le> c \<Longrightarrow> exec_count (prune_events es now) c = exec_count es c"
  by (simp add: prune_small exec_count_retained)

lemma exec_count_append: "exec_count (xs @ ys) c = exec_count xs c + exec_count ys c"
  by (simp add: exec_count_alt)

lemma exec_count_filter: "(\<And>e. is_exec e \<Longrightarrow> Q e) \<Longrightarrow> exec_count (filter Q es) c = exec_count es c"
  unfolding exec_count_alt filter_filter by (metis (mono_tags, lifting) filter_cong)

lemma resaves_exec_count:
  assumes "resaves is_exec (\<lambda>e. \<not> is_exec e) now file file'" and "length (ud_events (load file)) < 1000"
  shows "length (ud_events (load file')) \<le> Suc (length (ud_events (load file)))
    \<and> (\<forall>c \<ge> now - td_days 7. exec_count (ud_events (load file')) c = exec_count (ud_events (load file)) c)"
proof -
  obtain d Q new where f: "file' = Some (saved d now)" and ev: "ud_events d = filter Q (ud_events (load file)) @ new"
    and Q: "\<And>e. is_exec e \<Longrightarrow> Q e" and new: "new = [] \<or> (\<exists>e. new = [e] \<and> \<not> is_exec e)"
    using assms(1) unfolding resaves_def by blast
  have len: "length (ud_events d) \<le> Suc (length (ud_events (load file)))"
    using new by (auto simp: ev le_SucI)
  moreover have "exec_count (ud_events d) c = exec_count (ud_events (load file)) c" for c
  proof -
    have "exec_count new c = 0" using new by (auto simp: exec_count_alt)
    then show ?thesis by (simp add: ev exec_count_append exec_count_filter Q)
  qed
  moreover have "length (prune_events (ud_events d) now) \<le> length (ud_events d)"
    using filter_prune_length [of "\<lambda>_. True"] by simp
  ultimately show ?thesis
    using assms(2) f by (auto simp: exec_count_prune)
qed

lemma bookkeeping_exec_count:
  assumes "bookkeeping_step now file file'" and "length (ud_events (load file)) < 1000"
  shows "length (ud_events (load file')) \<le> Suc (length (ud_events (load file)))
    \<and> (\<forall>c \<ge> now - td_days 7. exec_count (ud_events (load file')) c = exec_count (ud_events (load file)) c)"
  using assms(1)
proof (cases rule: bookkeeping_cases)
  case filtered
  then obtain Q where "ud_events (load file') = filter Q (ud_events (load file))" "\<forall>e. Q e \<or> kind_is ''proposal_cycle'' e"
    by (auto simp: same_file_filtered_def)
  then show ?thesis
    by (simp add: filter_exec_count [where k' = "''proposal_cycle''"] le_SucI)
next
  case plain
  then show ?thesis
    by (intro resaves_exec_count resaves_weaken [OF plain] assms(2)) (simp add: plain_event_def is_exec_def)
next
  case cooled
  then show ?thesis by (intro resaves_exec_count cooldown_shape assms(2))
qed

lemma execution_exec_count:
  assumes "record_execution free file role tid sig now repo_key backend = Inr file'"
    and "length (ud_events (load file)) < 1000" and "now - td_days 7 \<le> c"
  shows "length (ud_events (load file')) \<le> Suc (length (ud_events (load file)))
    \<and> exec_count (ud_events (load file')) c = exec_count (ud_events (load file)) c + (if c \<le> now then 1 else 0)"
proof -
  let ?es = "ud_events (load file) @ [execution_event role tid sig now repo_key backend]"
  have "ud_events (load file') = prune_events ?es now"
    using w_execution.writer_result [OF assms(1)] by simp
  moreover have "length (prune_events ?es now) \<le> length ?es"
    using filter_prune_length [of "\<lambda>_. True" ?es now] by simp
  moreover have "exec_count (prune_events ?es now) c = exec_count ?es c"
    using assms(2,3) by (intro exec_count_prune) simp_all
  ultimately show ?thesis
    using assms(2) by (simp add: exec_count_append exec_count_alt is_exec_def retained_stamped)
qed

text \<open>What the stored events say of the log, while no event has been dropped for lack of room.\<close>

definition log_agrees :: "usage_file \<Rightarrow> datetime \<Rightarrow> datetime list \<Rightarrow> bool" where
  "log_agrees file t runs =
     (\<forall>c \<ge> t - td_days 7. exec_count (ud_events (load file)) c = int (length (filter (\<lambda>x. c \<le> x) runs)))"

lemma budget_sees_log:
  assumes "log_agrees file t runs" and "t \<le> now" and "length (ud_events (load file)) \<le> 1000" and "0 \<le> width" "width \<le> td_days 7"
  shows "exec_count (pruned_events file now) (now - width) = int (length (filter (\<lambda>x. now - width \<le> x) runs))"
  using assms by (simp add: pruned_events_def exec_count_prune log_agrees_def)

definition run_ok :: "exec_settings \<Rightarrow> usage_file \<Rightarrow> datetime \<Rightarrow> datetime list \<Rightarrow> nat \<Rightarrow> bool" where
  "run_ok settings file t runs n =
     (length (ud_events (load file)) \<le> n \<and> log_agrees file t runs
      \<and> (\<forall>T. in_window runs (td_hours 1) T \<le> nat (es_max_exec_per_hour settings))
      \<and> (\<forall>T. in_window runs (td_days 1) T \<le> nat (es_max_exec_per_day settings)))"

lemma gated_run_ok: "gated_run settings cb file t runs n \<Longrightarrow> n \<le> 1000 \<Longrightarrow> run_ok settings file t runs n"
proof (induction rule: gated_run.induct)
  case (start t)
  then show ?case
    by (simp add: run_ok_def log_agrees_def in_window_def load_def empty_data_def exec_count_def)
next
  case (execution f t runs n now free role tid sig repo_key backend f')
  then have ok: "run_ok settings f t runs n" and len: "length (ud_events (load f)) < 1000"
    by (auto simp: run_ok_def)
  have "int (length (filter (\<lambda>x. now - td_hours 1 \<le> x) runs)) < es_max_exec_per_hour settings"
    and "int (length (filter (\<lambda>x. now - td_days 1 \<le> x) runs)) < es_max_exec_per_day settings"
    using execution.hyps(2,3) ok len budget_sees_log [of f t runs now "td_hours 1"] budget_sees_log [of f t runs now "td_days 1"]
    by (auto simp: budget_allowed_iff run_ok_def td_defs)
  then have "in_window (runs @ [now]) (td_hours 1) T \<le> nat (es_max_exec_per_hour settings)"
    and "in_window (runs @ [now]) (td_days 1) T \<le> nat (es_max_exec_per_day settings)" for T
    using ok by (auto intro!: window_step simp: run_ok_def)
  moreover have "length (ud_events (load f')) \<le> Suc n \<and> log_agrees f' now (runs @ [now])"
    using execution_exec_count [OF execution.hyps(4) len] execution.hyps(2) ok by (fastforce simp: run_ok_def log_agrees_def)
  ultimately show ?case by (simp add: run_ok_def)
next
  case (bookkeeping f t runs n now f')
  then have "run_ok settings f t runs n" and "length (ud_events (load f)) < 1000"
    by (auto simp: run_ok_def)
  then show ?case
    using bookkeeping_exec_count [OF bookkeeping.hyps(3)] bookkeeping.hyps(2) by (fastforce simp: run_ok_def log_agrees_def)
qed



section \<open>The unlocked reset\<close>

text \<open>
  \<open>retry_decision\<close> loads the file and, when it resets, writes back what it loaded, without taking the per-path
  lock. Its two halves are separate atomic steps of a thread; a locked writer may run between them.
\<close>

definition retry_commit :: "exec_settings \<Rightarrow> usage_data \<Rightarrow> usage_file \<Rightarrow> string \<Rightarrow> datetime \<Rightarrow> usage_file" where
  "retry_commit settings snapshot file task_id now =
     (if attempts_of snapshot task_id \<ge> es_max_retries_per_task settings
         \<and> (case last_attempt_timestamp snapshot task_id of None \<Rightarrow> True | Some ts \<Rightarrow> now - ts > td_hours 1)
      then Some (reset_task_attempts snapshot task_id) else file)"

lemma retry_commit_sequential: "fst (retry_decision_of settings file task_id now) = retry_commit settings (load file) file task_id now"
  by (simp add: retry_decision_of_def retry_commit_def Let_def)

text \<open>
  The reset in \<open>retry_decision\<close> can undo a concurrent write: there are a file and a time such that another
  task's execution, recorded between the load and the write of the reset, is gone from the file afterwards, while
  running the two calls one after the other keeps it. The load-modify-save of this path is not atomic.
\<close>

theorem unlocked_reset_loses_execution:
  "\<exists>file file'. record_execution None file ''goal'' ''t2'' ''s'' (td_hours 2) None None = Inr file'
     \<and> exec_count (ud_events (load (retry_commit default_settings (load file) file' ''t1'' (td_hours 2)))) 0 = 0
     \<and> exec_count (ud_events (load (fst (retry_decision_of default_settings file' ''t1'' (td_hours 2))))) 0 = 1
     \<and> fst (retry_decision_of default_settings file ''t1'' (td_hours 2)) \<noteq> file"
proof -
  let ?file = "Some (empty_data\<lparr>ud_task_attempts := [''t1'' \<mapsto> 3]\<rparr>)"
  let ?r = "record_execution None ?file ''goal'' ''t2'' ''s'' (td_hours 2) None None"
  obtain f where c: "?r = Inr f"
    using w_execution.writer_some [of None] by blast
  have f: "f = Some (saved ((with_attempt (the ?file) ''goal'' ''t2'' ''s'')\<lparr>ud_events :=
      [execution_event ''goal'' ''t2'' ''s'' (td_hours 2) None None]\<rparr>) (td_hours 2))"
    using w_execution.writer_result [OF c] by (simp add: empty_data_def)
  have "exec_count (ud_events (load (retry_commit default_settings (load ?file) f ''t1'' (td_hours 2)))) 0 = 0"
    unfolding f by code_simp
  moreover have "exec_count (ud_events (load (fst (retry_decision_of default_settings f ''t1'' (td_hours 2))))) 0 = 1"
    unfolding f by code_simp
  moreover have "ud_task_attempts (load (fst (retry_decision_of default_settings ?file ''t1'' (td_hours 2)))) ''t1'' = None"
    by code_simp
  then have "fst (retry_decision_of default_settings ?file ''t1'' (td_hours 2)) \<noteq> ?file"
    by (auto simp: load_def)
  ultimately show ?thesis using c by blast
qed

end
