(* ===== verification/Usage_Reports.thy ===== *)
theory Usage_Reports
  imports Usage_Decisions "HOL-Library.Multiset"
begin

text \<open>
  The reporting queries of \<open>execution/usage_store.py\<close>: medians, rates over the most recent events, satiation of the
  proposer, escalation, spend and the audit export. A field is read at the type the store writes it with: a number
  for durations, costs and counts, a text for names.
\<close>

section \<open>Reading fields\<close>

fun num_of :: "json option \<Rightarrow> rat option" where
  "num_of (Some (JInt n)) = Some (of_int n)"
| "num_of (Some (JFloat x)) = Some x"
| "num_of _ = None"

definition num_or_zero :: "json option \<Rightarrow> rat" where
  "num_or_zero v = (case num_of v of None \<Rightarrow> 0 | Some x \<Rightarrow> x)"

fun int_or_zero :: "json option \<Rightarrow> int" where
  "int_or_zero (Some (JInt n)) = n"
| "int_or_zero _ = 0"

definition text_or :: "string \<Rightarrow> json option \<Rightarrow> string" where
  "text_or dflt v = (case v of Some (JStr s) \<Rightarrow> s | _ \<Rightarrow> dflt)"

definition field_or :: "json \<Rightarrow> event \<Rightarrow> string \<Rightarrow> json" where
  "field_or dflt e k = (case map_of e k of None \<Rightarrow> dflt | Some v \<Rightarrow> v)"

text \<open>The newest \<open>window\<close> events that satisfy \<open>P\<close>, newest first.\<close>

definition newest :: "nat \<Rightarrow> (event \<Rightarrow> bool) \<Rightarrow> event list \<Rightarrow> event list" where
  "newest window P events = take window (filter P (rev events))"

definition count_if :: "(event \<Rightarrow> bool) \<Rightarrow> event list \<Rightarrow> nat" where
  "count_if P es = length (filter P es)"

section \<open>Medians\<close>

definition sorted_median :: "rat list \<Rightarrow> rat" where
  "sorted_median xs =
     (let n = length xs; mid = n div 2
      in if odd n then xs ! mid else (xs ! (mid - 1) + xs ! mid) / 2)"

definition learned_budget_cap :: "usage_file \<Rightarrow> nat \<Rightarrow> rat option" where
  "learned_budget_cap file min_samples =
     (let weights = sort (filter (\<lambda>w. w \<noteq> 0) (map fst (ud_budget_cap_samples (load file))))
      in if length weights < min_samples then None else Some (sorted_median weights))"

definition median_execution_duration :: "usage_file \<Rightarrow> string \<Rightarrow> nat \<Rightarrow> datetime \<Rightarrow> rat option" where
  "median_execution_duration file role window now =
     (let durations = map (\<lambda>e. num_or_zero (map_of e ''duration_seconds''))
            (newest window (\<lambda>e. kind_is ''execution_duration'' e \<and> jget e ''role'' = JStr role
               \<and> num_of (map_of e ''duration_seconds'') \<noteq> None) (pruned_events file now))
      in if length durations < 3 then None else Some (sorted_median (sort durations)))"

section \<open>Rates over recent events\<close>

definition check_failure_rate_degradation :: "usage_file \<Rightarrow> nat \<Rightarrow> rat \<Rightarrow> datetime \<Rightarrow> rat option" where
  "check_failure_rate_degradation file window warn_threshold now =
     (let outcomes = newest window (kind_is ''execution_outcome'') (pruned_events file now)
      in if length outcomes < 5 then None
         else let rate = of_nat (count_if (\<lambda>e. truthy (map_of e ''succeeded'')) outcomes) / of_nat (length outcomes)
              in if rate < warn_threshold then Some rate else None)"

definition proposal_success_rate :: "usage_file \<Rightarrow> string \<Rightarrow> nat \<Rightarrow> datetime \<Rightarrow> rat" where
  "proposal_success_rate file category window now =
     (let outcomes = newest window (\<lambda>e. kind_is ''proposal_outcome'' e \<and> jget e ''category'' = JStr category)
            (pruned_events file now)
      in if length outcomes < 3 then 1/2
         else of_nat (count_if (\<lambda>e. truthy (map_of e ''succeeded'')) outcomes) / of_nat (length outcomes))"

definition is_command_flaky :: "usage_file \<Rightarrow> string \<Rightarrow> nat \<Rightarrow> rat \<Rightarrow> datetime \<Rightarrow> bool" where
  "is_command_flaky file command window fail_ratio now =
     (let outcomes = newest window (\<lambda>e. kind_is ''validation_outcome'' e \<and> jget e ''command'' = JStr command)
            (pruned_events file now)
      in if length outcomes < window then False
         else fail_ratio \<le> of_nat (count_if (\<lambda>e. \<not> truthy (map_of e ''passed'')) outcomes) / of_nat window)"

definition is_proposal_satiated :: "usage_file \<Rightarrow> nat \<Rightarrow> rat \<Rightarrow> datetime \<Rightarrow> bool" where
  "is_proposal_satiated file window_cycles dedup_ratio_threshold now =
     (let recent = newest window_cycles (kind_is ''proposal_cycle'') (pruned_events file now);
          total = (\<lambda>k. sum_list (map (\<lambda>e. int_or_zero (map_of e k)) recent));
          created = total ''created''; deduped = total ''deduped''; skipped = total ''skipped'';
          all = created + deduped + skipped
      in if length recent < window_cycles then False
         else if all = 0 then False
         else if created > 0 then False
         else dedup_ratio_threshold \<le> of_int (deduped + skipped) / of_int all)"

section \<open>Escalation\<close>

definition classified :: "string \<Rightarrow> string \<Rightarrow> datetime \<Rightarrow> event \<Rightarrow> bool" where
  "classified kind classification since e =
     (kind_is kind e \<and> jget e ''classification'' = JStr classification \<and> retained since e)"

definition should_escalate ::
  "usage_file \<Rightarrow> string \<Rightarrow> nat \<Rightarrow> int \<Rightarrow> int \<Rightarrow> datetime \<Rightarrow> bool \<times> string list" where
  "should_escalate file classification threshold cooldown_seconds window_seconds now =
     (let events = pruned_events file now
      in if list_ex (classified ''escalation_sent'' classification (now - td_seconds cooldown_seconds)) (rev events)
         then (False, [])
         else
           (let matching_ids = filter (\<lambda>tid. tid \<noteq> [])
                  (map (\<lambda>e. text_or [] (map_of e ''task_id''))
                     (filter (classified ''blocked_triage'' classification (now - td_seconds window_seconds)) events))
            in if length matching_ids \<ge> threshold then (True, matching_ids) else (False, [])))"

text \<open>The backward scan stops at the task's last success.\<close>

fun count_blocks :: "string \<Rightarrow> event list \<Rightarrow> nat" where
  "count_blocks task_id [] = 0"
| "count_blocks task_id (e # es) =
     (if jget e ''task_id'' \<noteq> JStr task_id then count_blocks task_id es
      else if kind_is ''blocked_triage'' e then Suc (count_blocks task_id es)
      else if kind_is ''execution_outcome'' e \<and> truthy (map_of e ''succeeded'') then 0
      else count_blocks task_id es)"

definition consecutive_blocks_for_task :: "usage_file \<Rightarrow> string \<Rightarrow> datetime \<Rightarrow> nat" where
  "consecutive_blocks_for_task file task_id now = count_blocks task_id (rev (pruned_events file now))"

section \<open>Spend\<close>

record spend_bucket =
  sb_executions :: nat
  sb_estimated_usd :: rat

record spend_report =
  sr_window_days :: int
  sr_total_executions :: nat
  sr_total_estimated_usd :: rat
  sr_per_repo :: "(string \<times> spend_bucket) list"

definition add_spend :: "event \<Rightarrow> (string \<times> spend_bucket) list \<Rightarrow> (string \<times> spend_bucket) list" where
  "add_spend e per_repo =
     (let repo_key = (if truthy (map_of e ''repo_key'') then text_or [] (map_of e ''repo_key'') else ''unknown'');
          usd = num_or_zero (map_of e ''estimated_usd'');
          bucket = (case map_of per_repo repo_key of
              None \<Rightarrow> \<lparr>sb_executions = 0, sb_estimated_usd = 0\<rparr> | Some b \<Rightarrow> b)
      in AList.update repo_key
           \<lparr>sb_executions = sb_executions bucket + 1,
            sb_estimated_usd = py_round 6 (sb_estimated_usd bucket + usd)\<rparr> per_repo)"

definition get_spend_report :: "usage_file \<Rightarrow> int \<Rightarrow> datetime \<Rightarrow> spend_report" where
  "get_spend_report file window_days now =
     (let costs = filter (\<lambda>e. kind_is ''execution_cost'' e \<and> retained (now - td_days window_days) e) (pruned_events file now)
      in \<lparr>sr_window_days = window_days, sr_total_executions = length costs,
          sr_total_estimated_usd = py_round 6 (sum_list (map (\<lambda>e. num_or_zero (map_of e ''estimated_usd'')) costs)),
          sr_per_repo = fold add_spend costs []\<rparr>)"

section \<open>Audit export\<close>

definition duration_map :: "event list \<Rightarrow> (string \<times> rat) list" where
  "duration_map events =
     fold (\<lambda>e acc. AList.update (text_or [] (map_of e ''task_id'')) (num_or_zero (map_of e ''duration_seconds'')) acc)
       (filter (\<lambda>e. kind_is ''execution_duration'' e \<and> truthy (map_of e ''task_id'')) events) []"

definition audit_row :: "(string \<times> rat) list \<Rightarrow> event \<Rightarrow> event list" where
  "audit_row durations e =
     (let f = (\<lambda>k. field_or (JStr []) e k); ts = jget e ''timestamp''
      in if kind_is ''execution_outcome'' e then
           [[(''kind'', JStr ''execution''), (''task_id'', f ''task_id''), (''role'', f ''role''),
             (''outcome'', JStr (if truthy (map_of e ''succeeded'') then ''succeeded'' else ''failed'')),
             (''repo_key'', f ''repo_key''),
             (''duration_seconds'', case map_of durations (text_or [] (map_of e ''task_id'')) of
                None \<Rightarrow> JNull | Some d \<Rightarrow> JFloat d),
             (''backend'', f ''backend''), (''backend_version'', jget e ''backend_version''), (''timestamp'', ts)]]
         else if kind_is ''quota_event'' e then
           [[(''kind'', JStr ''execution''), (''task_id'', f ''task_id''), (''role'', f ''role''),
             (''outcome'', JStr ''quota_exhausted''), (''repo_key'', JStr []), (''backend'', f ''backend''),
             (''duration_seconds'', JNull), (''timestamp'', ts)]]
         else if kind_is ''executor_quality_warning'' e then
           [[(''kind'', JStr ''quality_warning''), (''task_id'', f ''task_id''), (''role'', JStr []),
             (''outcome'', JStr ''quality_warning''), (''repo_key'', f ''repo_key''),
             (''suppression_counts'', field_or (JObj []) e ''suppression_counts''), (''timestamp'', ts)]]
         else if kind_is ''scope_violation'' e then
           [[(''kind'', JStr ''scope_violation''), (''task_id'', f ''task_id''), (''role'', JStr []),
             (''outcome'', JStr ''scope_violation''), (''repo_key'', f ''repo_key''),
             (''violated_files'', field_or (JList []) e ''violated_files''), (''timestamp'', ts)]]
         else if kind_is ''escalation_sent'' e then
           [[(''kind'', JStr ''escalation''), (''task_id'', JStr []), (''role'', JStr []),
             (''outcome'', JStr ''escalated''), (''repo_key'', JStr []), (''classification'', f ''classification''),
             (''task_ids'', field_or (JList []) e ''task_ids''), (''timestamp'', ts)]]
         else [])"

definition audit_export :: "usage_file \<Rightarrow> int \<Rightarrow> datetime \<Rightarrow> event list" where
  "audit_export file window_days now =
     (let events = pruned_events file now; durations = duration_map events
      in sort_key (\<lambda>r. case timestamp_of r of None \<Rightarrow> 0 | Some ts \<Rightarrow> ts)
           (concat (map (audit_row durations) (filter (retained (now - td_days window_days)) events))))"

section \<open>Lemmas\<close>

lemma sorted_prefix_count:
  assumes "sorted xs" "k < length xs" "xs ! k \<le> c"
  shows "Suc k \<le> length (filter (\<lambda>x. x \<le> c) xs)"
proof -
  have "\<forall>x \<in> set (take (Suc k) xs). x \<le> c"
    using assms by (auto simp: in_set_conv_nth) (meson less_Suc_eq_le order_trans sorted_nth_mono)
  then have "filter (\<lambda>x. x \<le> c) (take (Suc k) xs) = take (Suc k) xs" by simp
  then have "filter (\<lambda>x. x \<le> c) xs = take (Suc k) xs @ filter (\<lambda>x. x \<le> c) (drop (Suc k) xs)"
    by (metis append_take_drop_id filter_append)
  then show ?thesis using assms(2) by simp
qed

lemma sorted_suffix_count:
  assumes "sorted xs" "k < length xs" "c \<le> xs ! k"
  shows "length xs - k \<le> length (filter (\<lambda>x. c \<le> x) xs)"
proof -
  have "\<forall>x \<in> set (drop k xs). c \<le> x"
  proof
    fix x
    assume "x \<in> set (drop k xs)"
    then obtain i where "i < length xs - k" "x = xs ! (k + i)"
      by (auto simp: in_set_conv_nth)
    then have "xs ! k \<le> x"
      using sorted_nth_mono [OF assms(1), of k "k + i"] by (metis add.commute le_add1 less_diff_conv)
    then show "c \<le> x" using assms(3) by (rule order_trans [rotated])
  qed
  then have "filter (\<lambda>x. c \<le> x) (drop k xs) = drop k xs" by simp
  then have "filter (\<lambda>x. c \<le> x) xs = filter (\<lambda>x. c \<le> x) (take k xs) @ drop k xs"
    by (metis append_take_drop_id filter_append)
  then show ?thesis by simp
qed

lemma sorted_median_half:
  assumes "sorted xs" "xs \<noteq> []"
  shows "length xs \<le> 2 * length (filter (\<lambda>x. x \<le> sorted_median xs) xs)
    \<and> length xs \<le> 2 * length (filter (\<lambda>x. sorted_median xs \<le> x) xs)"
proof (cases "odd (length xs)")
  case True
  then have m: "sorted_median xs = xs ! (length xs div 2)" and l: "length xs div 2 < length xs"
    using assms(2) by (auto simp: sorted_median_def Let_def)
  show ?thesis
    using sorted_prefix_count [OF assms(1) l, of "sorted_median xs"] sorted_suffix_count [OF assms(1) l, of "sorted_median xs"]
    unfolding m by (intro conjI) linarith+
next
  case False
  let ?k = "length xs div 2"
  have n: "length xs = 2 * ?k" using False by simp
  moreover have "0 < length xs" using assms(2) by simp
  ultimately have k: "0 < ?k" "?k < length xs" "?k - 1 < length xs" by linarith+
  have m: "sorted_median xs = (xs ! (?k - 1) + xs ! ?k) / 2"
    using False by (simp add: sorted_median_def Let_def)
  have "xs ! (?k - 1) \<le> xs ! ?k"
    using assms(1) k by (intro sorted_nth_mono) auto
  then have "xs ! (?k - 1) \<le> sorted_median xs" "sorted_median xs \<le> xs ! ?k"
    by (simp_all add: m)
  then show ?thesis
    using sorted_prefix_count [OF assms(1) k(3)] sorted_suffix_count [OF assms(1) k(2)] k(1) n by fastforce
qed

lemma filter_length_mset: "mset xs = mset ys \<Longrightarrow> length (filter P xs) = length (filter P ys)"
  by (metis mset_filter size_mset)

lemma prune_keeps_retained_last:
  "retained (now - td_days 7) e \<Longrightarrow> e \<in> set (prune_events (xs @ [e]) now)"
  by (simp add: prune_events_def last_n_snoc)

definition bucket_total :: "(string \<times> spend_bucket) list \<Rightarrow> nat" where
  "bucket_total per_repo = sum_list (map (sb_executions \<circ> snd) per_repo)"

lemma bucket_total_update:
  "distinct (map fst kvs) \<Longrightarrow> bucket_total (AList.update k b kvs) + (case map_of kvs k of None \<Rightarrow> 0 | Some b' \<Rightarrow> sb_executions b')
     = bucket_total kvs + sb_executions b"
proof (induction kvs)
  case (Cons kv kvs)
  then show ?case
    by (cases kv) (auto simp: bucket_total_def split: option.splits)
qed (simp add: bucket_total_def)

lemma add_spend_total:
  "distinct (map fst kvs) \<Longrightarrow>
     bucket_total (add_spend e kvs) = Suc (bucket_total kvs) \<and> distinct (map fst (add_spend e kvs))"
proof -
  assume d: "distinct (map fst kvs)"
  define k where "k = (if truthy (map_of e ''repo_key'') then text_or [] (map_of e ''repo_key'') else ''unknown'')"
  define n where "n = (case map_of kvs k of None \<Rightarrow> 0 | Some b \<Rightarrow> sb_executions b)"
  obtain b where b: "add_spend e kvs = AList.update k b kvs" "sb_executions b = n + 1"
    by (auto simp: add_spend_def Let_def k_def n_def split: option.splits)
  then show ?thesis
    using bucket_total_update [OF d, of k b] d by (simp add: n_def distinct_update)
qed

lemma fold_add_spend_total:
  "distinct (map fst kvs) \<Longrightarrow> bucket_total (fold add_spend es kvs) = length es + bucket_total kvs"
  by (induction es arbitrary: kvs) (simp_all add: add_spend_total)

section \<open>Properties\<close>

text \<open>
  A learned budget cap is a median of the observed samples: at least half of the non-zero samples lie at or
  below it and at least half at or above it, so no minority of outliers can move it past the others.
\<close>

theorem learned_cap_is_median:
  assumes "learned_budget_cap file min_samples = Some cap" and "0 < min_samples"
  defines "weights \<equiv> filter (\<lambda>w. w \<noteq> 0) (map fst (ud_budget_cap_samples (load file)))"
  shows "length weights \<le> 2 * length (filter (\<lambda>w. w \<le> cap) weights)
    \<and> length weights \<le> 2 * length (filter (\<lambda>w. cap \<le> w) weights) \<and> min_samples \<le> length weights"
proof -
  have cap: "cap = sorted_median (sort weights)" "min_samples \<le> length weights"
    using assms(1) by (auto simp: learned_budget_cap_def weights_def Let_def not_less split: if_splits)
  then have "sort weights \<noteq> []"
    using assms(2) by (metis length_0_conv length_sort not_less)
  then show ?thesis
    using sorted_median_half [of "sort weights"] cap filter_length_mset [of "sort weights" weights] by simp
qed

theorem learned_cap_is_median_witness:
  "learned_budget_cap (Some (empty_data\<lparr>ud_budget_cap_samples := [(9, 0), (1, 1), (5, 2)]\<rparr>)) 2 = Some 5
   \<and> length (filter (\<lambda>w. w \<le> (5::rat)) [9, 1, 5]) = 2"
proof -
  let ?f = "Some (empty_data\<lparr>ud_budget_cap_samples := [(9, 0), (1, 1), (5, 2)]\<rparr>)"
  have c: "learned_budget_cap ?f 2 = Some 5" by code_simp
  then show ?thesis
    using learned_cap_is_median [OF c] by simp
qed

text \<open>
  An escalation silences its classification: from the moment it is recorded and for the whole cooldown (up to
  the seven days events are kept), \<open>should_escalate\<close> does not fire again for it, whatever the blocked tasks.
\<close>

theorem escalation_cooldown:
  assumes "record_escalation free file classification ids t = Inr file'"
    and "t \<le> now" "now - t \<le> td_seconds cooldown" "td_seconds cooldown \<le> td_days 7"
  shows "should_escalate file' classification threshold cooldown window now = (False, [])"
proof -
  let ?e = "escalation_event classification ids t"
  have "ud_events (load file') = last_n 999 (filter (retained (t - td_days 7)) (ud_events (load file))) @ [?e]"
    using w_escalation.appender_events [OF assms(1)] by simp
  moreover have "retained c ?e \<longleftrightarrow> c \<le> t" for c
    by (simp add: retained_def timestamp_of_def escalation_event_def)
  ultimately have "?e \<in> set (pruned_events file' now)"
    using assms(3,4) by (simp add: pruned_events_def prune_keeps_retained_last)
  moreover have "classified ''escalation_sent'' classification (now - td_seconds cooldown) ?e"
    using assms(3) by (simp add: classified_def escalation_event_def kind_is_def jget_def retained_def timestamp_of_def)
  ultimately show ?thesis
    by (auto simp: should_escalate_def list_ex_iff Let_def)
qed

theorem escalation_cooldown_witness:
  "\<exists>f. record_escalation None None ''infra'' [''t1''] 0 = Inr f
     \<and> should_escalate f ''infra'' 0 60 86400 (td_seconds 60) = (False, [])"
proof -
  obtain f where c: "record_escalation None None ''infra'' [''t1''] 0 = Inr f"
    using w_escalation.writer_some [of None] by blast
  show ?thesis
    using c escalation_cooldown [OF c, of "td_seconds 60" 60] by (simp add: td_defs)
qed

text \<open>
  The spend report and the audit export are consistent: the executions of the per-repository buckets add up
  to the total, and the audit rows are in chronological order, each from the requested window.
\<close>

theorem reports_consistent:
  "bucket_total (sr_per_repo (get_spend_report file days now)) = sr_total_executions (get_spend_report file days now)
   \<and> sorted (map (\<lambda>r. case timestamp_of r of None \<Rightarrow> 0 | Some ts \<Rightarrow> ts) (audit_export file days now))
   \<and> list_all (retained (now - td_days days)) (audit_export file days now)"
proof -
  have row: "r \<in> set (audit_row durations e) \<Longrightarrow> timestamp_of r = timestamp_of e" for r durations e
    by (cases "map_of e ''timestamp''")
       (auto simp: audit_row_def Let_def timestamp_of_def jget_def split: if_splits)
  have "retained c r" if "r \<in> set (audit_row durations e)" "retained c e" for r durations e c
    using row [OF that(1)] that(2) by (simp add: retained_def)
  then have "list_all (retained (now - td_days days)) (audit_export file days now)"
    by (auto simp: audit_export_def Let_def list_all_iff)
  then show ?thesis
    using fold_add_spend_total [of "[]"]
    by (simp add: get_spend_report_def audit_export_def Let_def bucket_total_def)
qed

text \<open>
  After the satiation window is reset the proposer is never read as satiated, for any window of at least one
  cycle.
\<close>

theorem reset_ends_satiation:
  assumes "0 < window_cycles"
  shows "\<not> is_proposal_satiated (reset_satiation_window file) window_cycles ratio now"
proof -
  have "newest window_cycles (kind_is ''proposal_cycle'') (pruned_events (reset_satiation_window file) now) = []"
    by (auto simp: newest_def pruned_events_def reset_satiation_window_def Let_def filter_empty_conv dest!: prune_retained)
  then show ?thesis
    using assms by (simp add: is_proposal_satiated_def Let_def)
qed

definition sample_cycle :: event where
  "sample_cycle = [(''kind'', JStr ''proposal_cycle''), (''created'', JInt 0), (''deduped'', JInt 4),
     (''skipped'', JInt 0), (''timestamp'', JTime 0)]"

theorem reset_ends_satiation_witness:
  "is_proposal_satiated (Some (empty_data\<lparr>ud_events := [sample_cycle, sample_cycle]\<rparr>)) 2 (9/10) 1
   \<and> \<not> is_proposal_satiated (reset_satiation_window (Some (empty_data\<lparr>ud_events := [sample_cycle, sample_cycle]\<rparr>))) 2 (9/10) 1"
proof
  show "is_proposal_satiated (Some (empty_data\<lparr>ud_events := [sample_cycle, sample_cycle]\<rparr>)) 2 (9/10) 1"
    by code_simp
qed (rule reset_ends_satiation, simp)

end
