(* ===== verification/Usage_Budget.thy ===== *)
theory Usage_Budget
  imports Usage_Reports
begin

text \<open>
  \<open>execution/usage_budget.py\<close>: the subscription budget guard. The transcripts on disk are the list of their usage
  rows (a timestamp, the model's name and the four token counts); reading files, skipping old ones by their
  modification time and parsing JSON lines are left out. An environment value is unset or blank, not a number, or a
  number.
\<close>

section \<open>Weights\<close>

definition BUCKET_SPAN :: timedelta where
  "BUCKET_SPAN = td_hours 5"

definition DEFAULT_CAP_WEIGHTED :: rat where
  "DEFAULT_CAP_WEIGHTED = 42000000"

definition DEFAULT_RESERVE :: rat where
  "DEFAULT_RESERVE = 1/4"

definition MAX_RESERVE :: rat where
  "MAX_RESERVE = 95/100"

definition MODEL_FAMILY_WEIGHTS :: "(string \<times> rat) list" where
  "MODEL_FAMILY_WEIGHTS = [(''opus'', 5), (''fable'', 5), (''sonnet'', 1), (''haiku'', 33/100)]"

definition UNKNOWN_MODEL_WEIGHT :: rat where
  "UNKNOWN_MODEL_WEIGHT = 5"

fun family_weight :: "(string \<times> rat) list \<Rightarrow> string \<Rightarrow> rat" where
  "family_weight [] m = UNKNOWN_MODEL_WEIGHT"
| "family_weight ((token, weight) # rest) m = (if str_contains token m then weight else family_weight rest m)"

definition model_weight :: "string \<Rightarrow> rat" where
  "model_weight model =
     (let m = py_lower model in if m = [] then 1 else family_weight MODEL_FAMILY_WEIGHTS m)"

record usage_row =
  ur_timestamp :: datetime
  ur_model :: string
  ur_input_tokens :: rat
  ur_output_tokens :: rat
  ur_cache_read_input_tokens :: rat
  ur_cache_creation_input_tokens :: rat

definition row_weight :: "usage_row \<Rightarrow> rat" where
  "row_weight r =
     (ur_input_tokens r * 1 + ur_output_tokens r * 5 + ur_cache_read_input_tokens r * (1/10)
      + ur_cache_creation_input_tokens r * (125/100)) * model_weight (ur_model r)"

definition iter_usage_events :: "usage_row list \<Rightarrow> datetime \<Rightarrow> (datetime \<times> rat) list" where
  "iter_usage_events rows not_before =
     filter (\<lambda>(ts, w). w > 0)
       (map (\<lambda>r. (ur_timestamp r, row_weight r)) (filter (\<lambda>r. not_before \<le> ur_timestamp r) rows))"

section \<open>Cap and horizon\<close>

datatype env_float = EnvUnset | EnvBad | EnvNum rat

definition env_float_or :: "env_float \<Rightarrow> rat \<Rightarrow> rat" where
  "env_float_or v d = (case v of EnvNum x \<Rightarrow> x | _ \<Rightarrow> d)"

text \<open>\<open>_learned_cap() or DEFAULT\<close>: a learned cap of 0 counts as none.\<close>

definition resolve_cap :: "env_float \<Rightarrow> rat option \<Rightarrow> rat" where
  "resolve_cap env learned =
     (let cap = (if env \<noteq> EnvUnset then env_float_or env DEFAULT_CAP_WEIGHTED
                 else case learned of None \<Rightarrow> DEFAULT_CAP_WEIGHTED
                      | Some c \<Rightarrow> if c = 0 then DEFAULT_CAP_WEIGHTED else c)
      in if cap \<le> 0 then DEFAULT_CAP_WEIGHTED else cap)"

fun shed_until :: "rat \<Rightarrow> rat \<Rightarrow> (datetime \<times> rat) list \<Rightarrow> datetime option" where
  "shed_until shed excess [] = None"
| "shed_until shed excess ((ts, w) # rest) =
     (if shed + w > excess then Some ts else shed_until (shed + w) excess rest)"

definition reset_horizon :: "(datetime \<times> rat) list \<Rightarrow> rat \<Rightarrow> datetime \<Rightarrow> datetime" where
  "reset_horizon in_window excess now =
     (let ordered = sort_key fst in_window
      in if excess < 0 then (case ordered of [] \<Rightarrow> now | (ts, _) # _ \<Rightarrow> ts) + BUCKET_SPAN
         else case shed_until 0 excess ordered of Some ts \<Rightarrow> ts + BUCKET_SPAN | None \<Rightarrow> now + BUCKET_SPAN)"

record budget_status =
  bs_bucket_start :: datetime
  bs_bucket_end :: datetime
  bs_used_weighted :: rat
  bs_cap_weighted :: rat
  bs_reserve_fraction :: rat
  bs_exhausted :: bool
  bs_disabled :: bool

definition threshold_weighted :: "budget_status \<Rightarrow> rat" where
  "threshold_weighted s = bs_cap_weighted s * (1 - bs_reserve_fraction s)"

definition weight_sum :: "(datetime \<times> rat) list \<Rightarrow> rat" where
  "weight_sum es = sum_list (map snd es)"

definition budget_status_of ::
  "env_float \<Rightarrow> env_float \<Rightarrow> bool \<Rightarrow> rat option \<Rightarrow> usage_row list \<Rightarrow> datetime \<Rightarrow> budget_status" where
  "budget_status_of cap_env reserve_env disabled learned rows now =
     (let cap = resolve_cap cap_env learned;
          reserve = min (max (env_float_or reserve_env DEFAULT_RESERVE) 0) MAX_RESERVE;
          window_start = now - BUCKET_SPAN;
          in_window = filter (\<lambda>(ts, w). window_start \<le> ts) (iter_usage_events rows window_start);
          used = weight_sum in_window;
          threshold = cap * (1 - reserve)
      in \<lparr>bs_bucket_start = (if in_window = [] then now else Min (set (map fst in_window))),
          bs_bucket_end = reset_horizon in_window (used - threshold) now,
          bs_used_weighted = used, bs_cap_weighted = cap, bs_reserve_fraction = reserve,
          bs_exhausted = (\<not> disabled \<and> used \<ge> threshold), bs_disabled = disabled\<rparr>)"

section \<open>Lemmas\<close>

lemma weight_sum_Cons [simp]: "weight_sum (e # es) = snd e + weight_sum es"
  by (simp add: weight_sum_def)

lemma weight_sum_Nil [simp]: "weight_sum [] = 0"
  by (simp add: weight_sum_def)

lemma weight_sum_mset: "mset xs = mset ys \<Longrightarrow> weight_sum xs = weight_sum ys"
  unfolding weight_sum_def by (metis mset_map sum_mset_sum_list)

lemma weight_sum_split: "weight_sum (filter P es) + weight_sum (filter (\<lambda>e. \<not> P e) es) = weight_sum es"
  by (induction es) auto

lemma weight_sum_nonneg: "\<forall>e \<in> set es. 0 < snd e \<Longrightarrow> 0 \<le> weight_sum es"
  by (induction es) force+

text \<open>The pivotal event: the weight that has aged out by \<open>c\<close> exceeds \<open>excess\<close> exactly when the pivot has aged out.\<close>

lemma shed_until_pivot:
  assumes "sorted (map fst es)" "\<forall>e \<in> set es. 0 < snd e" "shed \<le> excess" "excess < shed + weight_sum es"
  shows "\<exists>ts \<in> fst ` set es. shed_until shed excess es = Some ts
    \<and> (\<forall>c. excess < shed + weight_sum (filter (\<lambda>e. fst e < c) es) \<longleftrightarrow> ts < c)"
  using assms
proof (induction es arbitrary: shed)
  case (Cons e es)
  obtain t w where e: "e = (t, w)" by fastforce
  have none: "weight_sum (filter (\<lambda>e. fst e < c) (e # es)) = 0" if "c \<le> t" for c
  proof -
    have "filter (\<lambda>e. fst e < c) (e # es) = []"
      using Cons.prems(1) that by (force simp: e filter_empty_conv)
    then show ?thesis by (simp only: weight_sum_Nil)
  qed
  have pos: "0 \<le> weight_sum (filter (\<lambda>e. fst e < c) es)" for c
    using Cons.prems(2) by (intro weight_sum_nonneg) auto
  show ?case
  proof (cases "excess < shed + w")
    case True
    then have "excess < shed + weight_sum (filter (\<lambda>e. fst e < c) (e # es)) \<longleftrightarrow> t < c" for c
      using none [of c] pos [of c] Cons.prems(3) by (cases "t < c") (auto simp: e)
    with True show ?thesis by (auto simp: e)
  next
    case False
    have "\<exists>ts \<in> fst ` set es. shed_until (shed + w) excess es = Some ts
        \<and> (\<forall>c. excess < shed + w + weight_sum (filter (\<lambda>e. fst e < c) es) \<longleftrightarrow> ts < c)"
      using False Cons.prems by (intro Cons.IH) (auto simp: e algebra_simps)
    then obtain ts where ts: "ts \<in> fst ` set es" "shed_until (shed + w) excess es = Some ts"
      "\<And>c. excess < shed + w + weight_sum (filter (\<lambda>e. fst e < c) es) \<longleftrightarrow> ts < c" by blast
    have "t \<le> ts" using Cons.prems(1) ts(1) by (force simp: e)
    then have "excess < shed + weight_sum (filter (\<lambda>e. fst e < c) (e # es)) \<longleftrightarrow> ts < c" for c
      using none [of c] ts(3) [of c] Cons.prems(3) by (cases "t < c") (auto simp: e algebra_simps)
    with False ts show ?thesis by (auto simp: e)
  qed
qed simp

text \<open>Usage still inside the window at a later time, when nothing more is spent.\<close>

definition used_at :: "(datetime \<times> rat) list \<Rightarrow> datetime \<Rightarrow> rat" where
  "used_at es t = weight_sum (filter (\<lambda>e. t - BUCKET_SPAN \<le> fst e) es)"

lemma reset_horizon_exact:
  assumes "\<forall>e \<in> set es. 0 < snd e" "0 < threshold" "threshold \<le> weight_sum es"
  shows "used_at es t < threshold \<longleftrightarrow> reset_horizon es (weight_sum es - threshold) now < t"
proof -
  let ?o = "sort_key fst es" and ?x = "weight_sum es - threshold"
  have sum: "weight_sum (filter P ?o) = weight_sum (filter P es)" for P
    by (rule weight_sum_mset) simp
  have tot: "weight_sum ?o = weight_sum es" by (rule weight_sum_mset) simp
  obtain ts where ts: "shed_until 0 ?x ?o = Some ts"
    "\<And>c. ?x < 0 + weight_sum (filter (\<lambda>e. fst e < c) ?o) \<longleftrightarrow> ts < c"
    using shed_until_pivot [of ?o 0 ?x] assms tot by auto
  have "used_at es t = weight_sum es - weight_sum (filter (\<lambda>e. fst e < t - BUCKET_SPAN) es)"
    using weight_sum_split [of "\<lambda>e. fst e < t - BUCKET_SPAN" es] by (simp add: used_at_def not_less)
  then have "used_at es t < threshold \<longleftrightarrow> ts < t - BUCKET_SPAN"
    using ts(2) [of "t - BUCKET_SPAN"] sum by (auto simp: algebra_simps)
  then show ?thesis
    using assms(3) ts(1) by (auto simp: reset_horizon_def Let_def)
qed

lemma threshold_positive: "0 < resolve_cap env learned * (1 - min (max r 0) MAX_RESERVE)"
  by (rule mult_pos_pos) (auto simp: resolve_cap_def DEFAULT_CAP_WEIGHTED_def MAX_RESERVE_def Let_def)

lemma window_positive:
  "e \<in> set (filter (\<lambda>(ts, w). a \<le> ts) (iter_usage_events rows b)) \<Longrightarrow> 0 < snd e"
  by (auto simp: iter_usage_events_def)

section \<open>Property\<close>

text \<open>
  The reset horizon is exact: when the guard reports the budget exhausted, then, if nothing more is spent, the
  usage in the trailing window is below the threshold at a later time exactly when that time lies beyond
  \<open>bucket_end\<close>; the guard neither reopens early nor stays closed longer than needed.
\<close>

theorem budget_horizon_exact:
  assumes "bs_exhausted (budget_status_of cap_env reserve_env disabled learned rows now)"
  defines "status \<equiv> budget_status_of cap_env reserve_env disabled learned rows now"
    and "in_window \<equiv> filter (\<lambda>(ts, w). now - BUCKET_SPAN \<le> ts) (iter_usage_events rows (now - BUCKET_SPAN))"
  shows "used_at in_window t < threshold_weighted status \<longleftrightarrow> bs_bucket_end status < t"
proof -
  have "threshold_weighted status \<le> weight_sum in_window"
    using assms(1) by (simp add: status_def in_window_def budget_status_of_def threshold_weighted_def Let_def)
  moreover have "0 < threshold_weighted status"
    by (simp add: status_def budget_status_of_def threshold_weighted_def Let_def threshold_positive)
  moreover have "\<forall>e \<in> set in_window. 0 < snd e"
    unfolding in_window_def by (blast dest: window_positive)
  moreover have "bs_bucket_end status = reset_horizon in_window (weight_sum in_window - threshold_weighted status) now"
    by (simp add: status_def in_window_def budget_status_of_def threshold_weighted_def Let_def)
  ultimately show ?thesis using reset_horizon_exact by metis
qed

definition sample_rows :: "usage_row list" where
  "sample_rows =
     [\<lparr>ur_timestamp = 0, ur_model = ''claude-opus-4'', ur_input_tokens = 10, ur_output_tokens = 0,
       ur_cache_read_input_tokens = 0, ur_cache_creation_input_tokens = 0\<rparr>,
      \<lparr>ur_timestamp = 7, ur_model = ''claude-sonnet'', ur_input_tokens = 40, ur_output_tokens = 0,
       ur_cache_read_input_tokens = 0, ur_cache_creation_input_tokens = 0\<rparr>]"

theorem budget_horizon_exact_witness:
  "bs_exhausted (budget_status_of (EnvNum 100) EnvUnset False None sample_rows 9)
   \<and> used_at (filter (\<lambda>(ts, w). 9 - BUCKET_SPAN \<le> ts) (iter_usage_events sample_rows (9 - BUCKET_SPAN))) (td_hours 5 + 1)
       < threshold_weighted (budget_status_of (EnvNum 100) EnvUnset False None sample_rows 9)"
proof -
  have x: "bs_exhausted (budget_status_of (EnvNum 100) EnvUnset False None sample_rows 9)" by code_simp
  moreover have "bs_bucket_end (budget_status_of (EnvNum 100) EnvUnset False None sample_rows 9) < td_hours 5 + 1"
    by code_simp
  ultimately show ?thesis
    using budget_horizon_exact [OF x, of "td_hours 5 + 1"] by blast
qed

end
