(* ===== verification/Limit_Classifier.thy ===== *)
theory Limit_Classifier
  imports Usage_Cooldown
begin

text \<open>
  \<open>backends/limit_classifier.py\<close> and \<open>backends/_capacity_classifier.py\<close>: what a failure text says about limits.

  The modules search regular expressions with \<open>re.IGNORECASE\<close>. \<open>rx\<close> has the constructs they use; a position is the
  text before it, reversed, and the text after it. \<open>rx_ends\<close> lists the positions where a match that starts at a
  position may end, in the order in which Python's backtracking tries them, so its head is Python's match.
\<close>

section \<open>Regular expressions\<close>

datatype rx =
  Lit string
  | Dot
  | Space
  | Spaces
  | Upto nat
  | Boundary
  | Opt rx
  | Seq rx rx
  | Alt rx rx

type_synonym pos = "string \<times> string"

definition newline :: char where
  "newline = CHR 10"

definition is_word :: "char \<Rightarrow> bool" where
  "is_word c = (let n = (of_char c :: nat)
     in (48 \<le> n \<and> n \<le> 57) \<or> (65 \<le> n \<and> n \<le> 90) \<or> (97 \<le> n \<and> n \<le> 122) \<or> n = 95)"

definition word_at :: "string \<Rightarrow> bool" where
  "word_at s = (case s of [] \<Rightarrow> False | c # _ \<Rightarrow> is_word c)"

fun space_ends :: "string \<Rightarrow> string \<Rightarrow> pos list" where
  "space_ends before [] = [(before, [])]"
| "space_ends before (c # cs) =
     (if is_space c then space_ends (c # before) cs @ [(before, c # cs)] else [(before, c # cs)])"

fun upto_ends :: "nat \<Rightarrow> string \<Rightarrow> string \<Rightarrow> pos list" where
  "upto_ends 0 before rest = [(before, rest)]"
| "upto_ends (Suc n) before [] = [(before, [])]"
| "upto_ends (Suc n) before (c # cs) =
     (if c = newline then [(before, c # cs)] else upto_ends n (c # before) cs @ [(before, c # cs)])"

fun rx_ends :: "rx \<Rightarrow> pos \<Rightarrow> pos list" where
  "rx_ends (Lit s) (before, rest) =
     (if py_lower (take (length s) rest) = s
      then [(rev (take (length s) rest) @ before, drop (length s) rest)] else [])"
| "rx_ends Dot (before, rest) = (case rest of [] \<Rightarrow> [] | c # cs \<Rightarrow> if c = newline then [] else [(c # before, cs)])"
| "rx_ends Space (before, rest) = (case rest of [] \<Rightarrow> [] | c # cs \<Rightarrow> if is_space c then [(c # before, cs)] else [])"
| "rx_ends Spaces (before, rest) = space_ends before rest"
| "rx_ends (Upto n) (before, rest) = upto_ends n before rest"
| "rx_ends Boundary (before, rest) = (if word_at before \<noteq> word_at rest then [(before, rest)] else [])"
| "rx_ends (Opt r) p = rx_ends r p @ [p]"
| "rx_ends (Seq a b) p = concat (map (rx_ends b) (rx_ends a p))"
| "rx_ends (Alt a b) p = rx_ends a p @ rx_ends b p"

fun positions :: "string \<Rightarrow> string \<Rightarrow> pos list" where
  "positions before [] = [(before, [])]"
| "positions before (c # cs) = (before, c # cs) # positions (c # before) cs"

text \<open>\<open>pattern.search(text)\<close>: the leftmost match, as its start and end.\<close>

definition rx_match :: "rx \<Rightarrow> string \<Rightarrow> (pos \<times> pos) option" where
  "rx_match r s =
     (case List.find (\<lambda>p. rx_ends r p \<noteq> []) (positions [] s) of
        None \<Rightarrow> None | Some p \<Rightarrow> Some (p, hd (rx_ends r p)))"

definition rx_search :: "rx \<Rightarrow> string \<Rightarrow> bool" where
  "rx_search r s = (rx_match r s \<noteq> None)"

fun alts :: "rx list \<Rightarrow> rx" where
  "alts [] = Lit []"
| "alts [r] = r"
| "alts (r # rs) = Alt r (alts rs)"

fun seqs :: "rx list \<Rightarrow> rx" where
  "seqs [] = Lit []"
| "seqs [r] = r"
| "seqs (r # rs) = Seq r (seqs rs)"

definition spaces1 :: rx where
  "spaces1 = Seq Space Spaces"

section \<open>The limit classifier\<close>

definition MODEL_WORDS :: "string list" where
  "MODEL_WORDS = [''sonnet'', ''opus'', ''haiku'', ''codex'']"

definition SESSION_5H :: string where "SESSION_5H = ''session_5h''"

definition GLOBAL_WEEKLY :: string where "GLOBAL_WEEKLY = ''global_weekly''"

definition GENERIC :: string where "GENERIC = ''generic''"

definition SESSION_RE :: rx where
  "SESSION_RE = alts [seqs [Lit ''5'', Opt Dot, Lit ''hour''], seqs [Lit ''five'', Opt Dot, Lit ''hour''],
     seqs [Lit ''session'', spaces1, Alt (Lit ''limit'') (Lit ''usage'')]]"

definition GLOBAL_RE :: rx where
  "GLOBAL_RE = alts [seqs [Lit ''account'', spaces1, Lit ''limit''],
     seqs [Lit ''organi'', Alt (Lit ''s'') (Lit ''z''), Lit ''ation'', spaces1, Lit ''limit''],
     seqs [Lit ''org'', spaces1, Lit ''limit''], seqs [Lit ''all'', spaces1, Lit ''models'']]"

definition WEEKLY_RE :: rx where
  "WEEKLY_RE = alts [seqs [Lit ''weekly'', spaces1, Lit ''limit''], seqs [Lit ''per'', Opt Dot, Lit ''week''],
     seqs [Lit ''this'', spaces1, Lit ''week'']]"

definition LIMIT_SIGNAL_RE :: rx where
  "LIMIT_SIGNAL_RE = alts [seqs [Lit ''rate'', Spaces, Lit ''limit''], seqs [Lit ''usage'', Spaces, Lit ''limit''],
     seqs [Lit ''weekly'', Spaces, Lit ''limit''], Lit ''quota'',
     seqs [Lit ''too'', spaces1, Lit ''many'', spaces1, Lit ''requests''], Lit ''429'',
     seqs [Lit ''hit'', spaces1, Lit ''your'', Upto 40, Lit ''limit''],
     seqs [Lit ''sonnet'', spaces1, Lit ''limit''], seqs [Lit ''opus'', spaces1, Lit ''limit''],
     seqs [Lit ''haiku'', spaces1, Lit ''limit''], seqs [Lit ''claude'', spaces1, Lit ''limit''],
     seqs [Lit ''session'', spaces1, Lit ''limit'']]"

definition model_word_rx :: "string \<Rightarrow> rx" where
  "model_word_rx m = seqs [Boundary, Lit m, Boundary]"

text \<open>The leftmost position at which one of the alternatives matches names the model.\<close>

fun first_model :: "pos list \<Rightarrow> string option" where
  "first_model [] = None"
| "first_model (p # ps) =
     (case List.find (\<lambda>m. rx_ends (model_word_rx m) p \<noteq> []) MODEL_WORDS of
        Some m \<Rightarrow> Some m | None \<Rightarrow> first_model ps)"

definition detect_model :: "string option \<Rightarrow> string option \<Rightarrow> string option" where
  "detect_model text default_model =
     (case text of
        None \<Rightarrow> default_model
      | Some s \<Rightarrow>
          if s = [] then default_model
          else (case first_model (positions [] s) of None \<Rightarrow> default_model | Some m \<Rightarrow> Some m))"

definition classify_limit :: "string option \<Rightarrow> string option \<Rightarrow> string option \<times> string option" where
  "classify_limit text default_model =
     (if \<not> truthy_str text then (None, default_model)
      else
        (let s = or_empty text; model = detect_model text default_model
         in if rx_search SESSION_RE s then (Some SESSION_5H, None)
            else if rx_search GLOBAL_RE s then (Some GLOBAL_WEEKLY, None)
            else if rx_search WEEKLY_RE s
            then (if truthy_str model then (Some MODEL_WEEKLY, model) else (Some GLOBAL_WEEKLY, None))
            else if truthy_str model then (Some MODEL_WEEKLY, model)
            else if rx_search LIMIT_SIGNAL_RE s then (Some GENERIC, model)
            else (None, model)))"

section \<open>The capacity classifier\<close>

definition bounded :: "rx list \<Rightarrow> rx" where
  "bounded rs = seqs (Boundary # rs @ [Boundary])"

definition CAPACITY_PATTERNS :: "rx list" where
  "CAPACITY_PATTERNS =
     [bounded [Lit ''out of '', Opt (Lit ''extra ''), Lit ''usage''],
      bounded [Lit ''usage limit '', Alt (Lit ''reached'') (Lit ''hit'')],
      bounded [Lit ''you'', Alt (Lit [CHR 39, CHR ''v'', CHR ''e'']) (Lit '' have''), Lit '' '',
               Alt (Lit ''hit'') (Lit ''reached''), Lit '' your '', Opt (Lit ''usage ''), Lit ''limit''],
      bounded [Lit ''quota '', Alt (Lit ''exceeded'') (Lit ''exhausted'')],
      bounded [Lit ''insufficient quota''], bounded [Lit ''run out of credits''], bounded [Lit ''payment required'']]"

text \<open>The line around the match: back to the previous newline, on to the next one.\<close>

definition match_line :: "string \<Rightarrow> pos \<times> pos \<Rightarrow> string" where
  "match_line s m =
     (case m of ((before, rest), (_, rest_end)) \<Rightarrow>
        rev (takeWhile (\<lambda>c. c \<noteq> newline) before) @ take (length rest - length rest_end) rest
        @ takeWhile (\<lambda>c. c \<noteq> newline) rest_end)"

fun first_capacity_match :: "rx list \<Rightarrow> string \<Rightarrow> (pos \<times> pos) option" where
  "first_capacity_match [] s = None"
| "first_capacity_match (r # rs) s = (case rx_match r s of Some m \<Rightarrow> Some m | None \<Rightarrow> first_capacity_match rs s)"

definition classify_capacity_exhaustion :: "string option \<Rightarrow> string option" where
  "classify_capacity_exhaustion text =
     (if \<not> truthy_str text then None
      else map_option (\<lambda>m. ''capacity exhaustion detected: '' @ take 160 (py_strip (match_line (or_empty text) m)))
             (first_capacity_match CAPACITY_PATTERNS (or_empty text)))"

section \<open>Lemmas\<close>

lemma first_model_known: "first_model ps = Some m \<Longrightarrow> m \<in> set MODEL_WORDS"
  by (induction ps) (auto simp: find_Some_iff split: option.splits)

lemma first_model_truthy: "first_model ps = Some m \<Longrightarrow> truthy_str (Some m)"
  by (drule first_model_known) (auto simp: truthy_str_def MODEL_WORDS_def)

lemma detect_model_known: "detect_model text None = Some m \<Longrightarrow> m \<in> set MODEL_WORDS"
  by (auto simp: detect_model_def dest: first_model_known split: option.splits if_splits)

section \<open>Properties\<close>

text \<open>
  The attribution of a limit is sound: a weekly limit of one model always names one of the four known
  models, the session and the account limits never name one, so that a limit that stops every model is never
  stored as the limit of a single one.
\<close>

theorem limit_attribution:
  "(\<exists>m. classify_limit text None = (Some MODEL_WEEKLY, Some m) \<and> m \<in> set MODEL_WORDS)
   \<or> (fst (classify_limit text None) \<noteq> Some MODEL_WEEKLY \<and> snd (classify_limit text None) = None)"
proof -
  have kinds: "SESSION_5H \<noteq> MODEL_WEEKLY" "GLOBAL_WEEKLY \<noteq> MODEL_WEEKLY" "GENERIC \<noteq> MODEL_WEEKLY"
    by (simp_all add: SESSION_5H_def GLOBAL_WEEKLY_def GENERIC_def MODEL_WEEKLY_def)
  show ?thesis
  proof (cases "detect_model text None")
    case None
    then show ?thesis using kinds by (auto simp: classify_limit_def truthy_str_def Let_def)
  next
    case (Some m)
    moreover have "truthy_str (Some m)" "m \<in> set MODEL_WORDS"
      using detect_model_known [OF Some] by (auto simp: truthy_str_def MODEL_WORDS_def)
    ultimately show ?thesis using kinds by (auto simp: classify_limit_def Let_def)
  qed
qed

text \<open>
  Naming a model is enough for a limit: a text that names a model as a word is classified as a limit of some
  kind even when no limit phrase occurs in it, so the classifier does not return \<open>None\<close> only for texts without a
  limit signal, as its documentation says.
\<close>

theorem model_name_alone_is_a_limit:
  assumes "detect_model (Some s) None = Some m"
  shows "fst (classify_limit (Some s) None) \<noteq> None"
proof -
  have "truthy_str (Some m)" "s \<noteq> []"
    using detect_model_known [OF assms] assms
    by (auto simp: truthy_str_def MODEL_WORDS_def detect_model_def split: if_splits)
  then show ?thesis
    using assms by (auto simp: classify_limit_def truthy_str_def Let_def)
qed

theorem model_name_alone_is_a_limit_witness:
  "\<not> rx_search LIMIT_SIGNAL_RE ''codex exited with code 1''
   \<and> fst (classify_limit (Some ''codex exited with code 1'') None) \<noteq> None"
proof
  show "\<not> rx_search LIMIT_SIGNAL_RE ''codex exited with code 1''" by code_simp
  have "detect_model (Some ''codex exited with code 1'') None = Some ''codex''" by code_simp
  then show "fst (classify_limit (Some ''codex exited with code 1'') None) \<noteq> None"
    by (rule model_name_alone_is_a_limit)
qed

end
