(* ===== verification/Worker_Backend.thy ===== *)
theory Worker_Backend
  imports Limit_Classifier
begin

text \<open>
  \<open>backends/worker_backend_selector.py\<close>: which worker backend runs next and the one-step fallback after a limit.

  Reading a reset time out of a message needs the time zone database, so \<open>parse_worker_backend_reset\<close> is the
  argument \<open>parse_reset\<close> (text, backend, now). The payload of a run is opaque: \<open>execute_once\<close> gives it for each
  call, \<open>failed\<close> and \<open>failure_text\<close> read it. \<open>allowed_env\<close> is the text of \<open>OPERATIONS_CENTER_ALLOWED_PROVIDERS\<close>, and
  \<open>t1\<close> to \<open>t4\<close> are the successive readings of the clock. The calls made are returned as a trace.
\<close>

section \<open>Candidates\<close>

definition SUPPORTED_WORKER_BACKENDS :: "string list" where
  "SUPPORTED_WORKER_BACKENDS = [''claude_code'', ''codex_cli'', ''aider_local'', ''direct_local'']"

definition REMOTE_WORKER_BACKENDS :: "string list" where
  "REMOTE_WORKER_BACKENDS = [''claude_code'', ''codex_cli'']"

definition LOCAL_WORKER_BACKENDS :: "string list" where
  "LOCAL_WORKER_BACKENDS = [''aider_local'', ''direct_local'']"

definition PROVIDER_TO_WORKER_BACKEND :: "string \<rightharpoonup> string" where
  "PROVIDER_TO_WORKER_BACKEND =
     [''claude'' \<mapsto> ''claude_code'', ''anthropic'' \<mapsto> ''claude_code'', ''codex'' \<mapsto> ''codex_cli'', ''openai'' \<mapsto> ''codex_cli'']"

text \<open>\<open>s.split(",")\<close>.\<close>

fun split_on :: "char \<Rightarrow> string \<Rightarrow> string \<Rightarrow> string list" where
  "split_on sep acc [] = [rev acc]"
| "split_on sep acc (c # cs) = (if c = sep then rev acc # split_on sep [] cs else split_on sep (c # acc) cs)"

definition allowed_remote_worker_backends :: "string \<Rightarrow> string list" where
  "allowed_remote_worker_backends allowed_env =
     (let raw = py_strip allowed_env
      in if raw = [] then REMOTE_WORKER_BACKENDS
         else (let allowed = List.map_filter (\<lambda>p. PROVIDER_TO_WORKER_BACKEND (py_lower (py_strip p))) (split_on (CHR '','') [] raw)
               in filter (\<lambda>b. b \<in> set allowed) REMOTE_WORKER_BACKENDS))"

definition worker_backend_candidates :: "string \<Rightarrow> string \<Rightarrow> string list" where
  "worker_backend_candidates allowed_env preferred =
     (if preferred \<notin> set SUPPORTED_WORKER_BACKENDS then [preferred]
      else
        (let pool = (if preferred \<in> set REMOTE_WORKER_BACKENDS then allowed_remote_worker_backends allowed_env
                     else LOCAL_WORKER_BACKENDS)
         in if pool = [] then []
            else if preferred \<notin> set pool then pool
            else preferred # filter (\<lambda>b. b \<noteq> preferred) pool))"

definition alternate_worker_backend :: "string \<Rightarrow> string option" where
  "alternate_worker_backend worker_backend =
     (let pool = (if worker_backend \<in> set REMOTE_WORKER_BACKENDS then REMOTE_WORKER_BACKENDS else LOCAL_WORKER_BACKENDS)
      in List.find (\<lambda>c. c \<noteq> worker_backend) pool)"

section \<open>Selection\<close>

record worker_selection =
  ws_preferred_backend :: string
  ws_selected_backend :: "string option"
  ws_cooldowns :: "(string \<times> datetime option) list"

definition available_at :: "usage_file \<Rightarrow> datetime \<Rightarrow> string \<Rightarrow> bool" where
  "available_at file now backend =
     (case worker_backend_blocked_until file backend now of None \<Rightarrow> True | Some u \<Rightarrow> u \<le> now)"

fun first_available :: "string list \<Rightarrow> usage_file \<times> datetime \<Rightarrow> string option" where
  "first_available [] q = None"
| "first_available (b # bs) q = (if available_at (fst q) (snd q) b then Some b else first_available bs q)"

definition select_worker_backend :: "string \<Rightarrow> usage_file \<Rightarrow> string \<Rightarrow> bool \<Rightarrow> datetime \<Rightarrow> worker_selection" where
  "select_worker_backend allowed_env file preferred dynamic_enabled now =
     (let candidates = worker_backend_candidates allowed_env preferred;
          cooldowns = map (\<lambda>b. (b, worker_backend_blocked_until file b now)) candidates
      in if candidates = []
         then \<lparr>ws_preferred_backend = preferred, ws_selected_backend = None, ws_cooldowns = []\<rparr>
         else if \<not> dynamic_enabled
         then \<lparr>ws_preferred_backend = preferred, ws_selected_backend = Some preferred, ws_cooldowns = cooldowns\<rparr>
         else \<lparr>ws_preferred_backend = preferred, ws_selected_backend = first_available candidates (file, now),
               ws_cooldowns = cooldowns\<rparr>)"

section \<open>Recording a limit\<close>

type_synonym reset_parser = "string \<Rightarrow> string \<Rightarrow> datetime \<Rightarrow> datetime option"

definition maybe_record_worker_backend_cooldown ::
  "reset_parser \<Rightarrow> rat option \<Rightarrow> usage_file \<Rightarrow> string \<Rightarrow> string option \<Rightarrow> datetime
   \<Rightarrow> os_error + usage_file \<times> datetime option" where
  "maybe_record_worker_backend_cooldown parse_reset free_mb file worker_backend combined_output now =
     (if \<not> truthy_str combined_output then Inr (file, None)
      else case parse_reset (or_empty combined_output) worker_backend now of
             None \<Rightarrow> Inr (file, None)
           | Some reset_at \<Rightarrow>
               (let (kind, model) = classify_limit combined_output None;
                    limit_kind = (case kind of None \<Rightarrow> GENERIC | Some k \<Rightarrow> k)
                in map_sum id (\<lambda>f. (f, Some reset_at))
                     (record_worker_backend_cooldown free_mb file worker_backend reset_at now (Some limit_kind) model)))"

section \<open>Round robin\<close>

record 'p worker_execution =
  we_selected_backend :: "string option"
  we_payload :: "'p option"
  we_fallback_used :: bool
  we_selection :: worker_selection
  we_calls :: "string list"

definition execute_with_worker_backend_round_robin ::
  "reset_parser \<Rightarrow> rat option \<Rightarrow> string \<Rightarrow> usage_file \<Rightarrow> string \<Rightarrow> bool
   \<Rightarrow> (nat \<Rightarrow> string \<Rightarrow> 'p) \<Rightarrow> ('p \<Rightarrow> bool) \<Rightarrow> ('p \<Rightarrow> string option)
   \<Rightarrow> datetime \<Rightarrow> datetime \<Rightarrow> datetime \<Rightarrow> datetime \<Rightarrow> os_error + usage_file \<times> 'p worker_execution" where
  "execute_with_worker_backend_round_robin parse_reset free_mb allowed_env file preferred dynamic_enabled
     execute_once failed failure_text t1 t2 t3 t4 =
     (let selection = select_worker_backend allowed_env file preferred dynamic_enabled t1
      in case ws_selected_backend selection of
           None \<Rightarrow> Inr (file, \<lparr>we_selected_backend = None, we_payload = None, we_fallback_used = False,
                               we_selection = selection, we_calls = []\<rparr>)
         | Some primary \<Rightarrow>
             (let payload = execute_once 0 primary;
                  done = (\<lambda>sel. \<lparr>we_selected_backend = Some primary, we_payload = Some payload,
                                  we_fallback_used = False, we_selection = sel, we_calls = [primary]\<rparr>)
              in if \<not> failed payload then Inr (file, done selection)
                 else case maybe_record_worker_backend_cooldown parse_reset free_mb file primary (failure_text payload) t2 of
                        Inl err \<Rightarrow> Inl err
                      | Inr (file1, reset_at) \<Rightarrow>
                          if reset_at = None \<or> \<not> dynamic_enabled then Inr (file1, done selection)
                          else
                            (let fallback_selection = select_worker_backend allowed_env file1 preferred True t3
                             in case ws_selected_backend fallback_selection of
                                  None \<Rightarrow> Inr (file1, done fallback_selection)
                                | Some fallback \<Rightarrow>
                                    if fallback = primary then Inr (file1, done fallback_selection)
                                    else
                                      (let payload2 = execute_once 1 fallback;
                                           result = \<lparr>we_selected_backend = Some fallback, we_payload = Some payload2,
                                             we_fallback_used = True, we_selection = fallback_selection,
                                             we_calls = [primary, fallback]\<rparr>
                                       in if \<not> failed payload2 then Inr (file1, result)
                                          else map_sum id (\<lambda>(f, _). (f, result))
                                                 (maybe_record_worker_backend_cooldown parse_reset free_mb file1 fallback
                                                    (failure_text payload2) t4)))))"

interpretation worker_scan: first_match "\<lambda>q. available_at (fst q) (snd q)" first_available
  by unfold_locales simp_all

section \<open>Lemmas\<close>

lemma blocked_in_future: "worker_backend_blocked_until file wb now = Some u \<Longrightarrow> now < u"
proof -
  have fut: "r \<in> resets es wb now P \<Longrightarrow> now < r" for es r P
    by (auto simp: resets_def dest: active_reset_future)
  have aw: "account_wide_resets file wb now \<noteq> {} \<Longrightarrow> now < Max (account_wide_resets file wb now)"
    unfolding account_wide_resets_def by (rule fut [OF Max_in]) simp_all
  have mr: "model_resets file wb now m \<noteq> {} \<Longrightarrow> now < Max (model_resets file wb now m)" for m
    unfolding model_resets_def by (rule fut [OF Max_in]) simp_all
  assume "worker_backend_blocked_until file wb now = Some u"
  then show "now < u"
    using aw mr by (auto simp: blocked_until_spec spec_blocked_until_def split: if_splits option.splits)
qed

lemma available_iff: "available_at file now b \<longleftrightarrow> worker_backend_blocked_until file b now = None"
  using blocked_in_future by (fastforce simp: available_at_def split: option.splits)

lemma candidates_same_side:
  "b \<in> set (worker_backend_candidates allowed_env preferred) \<Longrightarrow> preferred \<in> set SUPPORTED_WORKER_BACKENDS \<Longrightarrow>
     (b \<in> set REMOTE_WORKER_BACKENDS) = (preferred \<in> set REMOTE_WORKER_BACKENDS)
     \<and> b \<in> set SUPPORTED_WORKER_BACKENDS"
  by (auto simp: worker_backend_candidates_def allowed_remote_worker_backends_def Let_def
      REMOTE_WORKER_BACKENDS_def LOCAL_WORKER_BACKENDS_def SUPPORTED_WORKER_BACKENDS_def split: if_splits)

lemma select_dynamic:
  "ws_selected_backend (select_worker_backend allowed_env file preferred True now) =
     first_available (worker_backend_candidates allowed_env preferred) (file, now)"
  by (simp add: select_worker_backend_def Let_def)

section \<open>Properties\<close>

text \<open>
  Dynamic selection picks the first candidate, preferred backend first, that is not blocked, and picks nothing
  exactly when every candidate is blocked.
\<close>

theorem dynamic_selection_first_available:
  "ws_selected_backend (select_worker_backend allowed_env file preferred True now) = Some b \<longleftrightarrow>
     (\<exists>pre post. worker_backend_candidates allowed_env preferred = pre @ b # post
        \<and> worker_backend_blocked_until file b now = None
        \<and> (\<forall>x \<in> set pre. worker_backend_blocked_until file x now \<noteq> None))"
  by (simp add: select_dynamic worker_scan.select_Some_iff available_iff)

theorem dynamic_selection_first_available_witness:
  "ws_selected_backend (select_worker_backend [] sample_cooldown_file ''claude_code'' True 1) = Some ''codex_cli''"
proof -
  have "worker_backend_candidates [] ''claude_code'' = [''claude_code''] @ ''codex_cli'' # []" by code_simp
  moreover have "worker_backend_blocked_until sample_cooldown_file ''codex_cli'' 1 = None" by code_simp
  moreover have "worker_backend_blocked_until sample_cooldown_file ''claude_code'' 1 \<noteq> None" by code_simp
  ultimately have "\<exists>pre post. worker_backend_candidates [] ''claude_code'' = pre @ ''codex_cli'' # post
      \<and> worker_backend_blocked_until sample_cooldown_file ''codex_cli'' 1 = None
      \<and> (\<forall>x \<in> set pre. worker_backend_blocked_until sample_cooldown_file x 1 \<noteq> None)"
    by (intro exI [of _ "[''claude_code'']"] exI [of _ "[]"]) simp
  then show ?thesis
    by (rule dynamic_selection_first_available [THEN iffD2])
qed

text \<open>
  A round-robin execution runs at most two backends, never the same one twice, reports the one it ran last,
  marks a fallback exactly when it ran two, and, for a supported preferred backend with dynamic selection, never
  crosses between the remote and the local backends.
\<close>

theorem round_robin_calls:
  assumes "execute_with_worker_backend_round_robin parse_reset free allowed_env file preferred dynamic
      exec failed text t1 t2 t3 t4 = Inr (file', we)"
  shows "length (we_calls we) \<le> 2 \<and> distinct (we_calls we)
    \<and> we_selected_backend we = (if we_calls we = [] then None else Some (last (we_calls we)))
    \<and> (we_fallback_used we \<longleftrightarrow> length (we_calls we) = 2)
    \<and> (dynamic \<and> preferred \<in> set SUPPORTED_WORKER_BACKENDS \<longrightarrow>
         (\<forall>b \<in> set (we_calls we). (b \<in> set REMOTE_WORKER_BACKENDS) = (preferred \<in> set REMOTE_WORKER_BACKENDS)))"
proof -
  have side: "ws_selected_backend (select_worker_backend allowed_env f preferred True t) = Some b \<Longrightarrow>
      preferred \<in> set SUPPORTED_WORKER_BACKENDS \<Longrightarrow>
      (b \<in> set REMOTE_WORKER_BACKENDS) = (preferred \<in> set REMOTE_WORKER_BACKENDS)" for f t b
    using candidates_same_side worker_scan.select_mem by (fastforce simp: select_dynamic)
  have shape: "we_calls we = [] \<and> we_selected_backend we = None \<and> \<not> we_fallback_used we
      \<or> (\<exists>p. we_calls we = [p] \<and> we_selected_backend we = Some p \<and> \<not> we_fallback_used we
           \<and> ws_selected_backend (select_worker_backend allowed_env file preferred dynamic t1) = Some p)
      \<or> (\<exists>p q f. we_calls we = [p, q] \<and> p \<noteq> q \<and> we_selected_backend we = Some q \<and> we_fallback_used we
           \<and> ws_selected_backend (select_worker_backend allowed_env file preferred dynamic t1) = Some p
           \<and> ws_selected_backend (select_worker_backend allowed_env f preferred True t3) = Some q)"
    using assms
    by (auto simp: execute_with_worker_backend_round_robin_def Let_def map_sum_def
        split: option.splits if_splits sum.splits prod.splits)
  then show ?thesis
    using side by (elim disjE exE conjE) auto
qed

definition no_reset :: reset_parser where
  "no_reset s b t = None"

theorem round_robin_calls_witness:
  "\<exists>file' we. execute_with_worker_backend_round_robin no_reset None [] None ''claude_code'' True
      (\<lambda>n b. b) (\<lambda>p. False) (\<lambda>p. None) 0 1 2 3 = Inr (file', we)
    \<and> length (we_calls we) \<le> 2 \<and> distinct (we_calls we)"
proof -
  let ?r = "execute_with_worker_backend_round_robin no_reset None [] None ''claude_code'' True
      (\<lambda>n b. b) (\<lambda>p. False) (\<lambda>p. None) 0 1 2 3"
  have "\<not> isl ?r" by code_simp
  then obtain f we where r: "?r = Inr (f, we)" by (cases ?r) auto
  then show ?thesis using round_robin_calls [OF r] by blast
qed

end
