(* ===== verification/Coordinator.thy ===== *)
theory Coordinator
  imports Policy_Validate Runtime_Binding Recovery Usage_Decisions Worker_Backend
begin

text \<open>
  The execution boundary: \<open>execution/handoff.py\<close> builds the request, \<open>execution/coordinator.py\<close> gates it, dispatches it
  through the bounded recovery loop and records what happened in the usage store.

  What the coordinator is constructed with is the record \<open>coordinator\<close>; an adapter, a policy engine or a recovery
  engine may raise, so each returns \<^const>\<open>Inl\<close> with the text of the exception or a value. The outside world of one
  call is the record \<open>world\<close>: the readings of the clock and of the free disk space, \<open>/proc/meminfo\<close>, the fresh run
  ids, the source registry. \<open>execute\<close> returns the usage file after the call with the outcome or the exception that
  leaves it. Observability records, run memory, the context-lifecycle wrap and lifecycle stages read the outcome and
  do not change it; they are not part of the model, and a request carries no lifecycle metadata.
\<close>

section \<open>Handoff\<close>

record work_bundle =
  bu_proposal :: oc_planning_proposal
  bu_decision :: oc_routing_decision

record runtime_context =
  rt_workspace_path :: string
  rt_task_branch :: string
  rt_goal_file_path :: "string option"
  rt_runtime_binding :: "runtime_binding option"

definition bound_target_from_decision ::
  "(string \<Rightarrow> backend_provenance option) \<Rightarrow> work_bundle \<Rightarrow> runtime_binding option \<Rightarrow> bound_target" where
  "bound_target_from_decision provenance b binding =
     (let backend_id = backend_value (rd_selected_backend (bu_decision b));
          lane = lane_value (rd_selected_lane (bu_decision b))
      in \<lparr>bt_lane = lane, bt_backend = backend_id, bt_executor = Some lane, bt_runtime_binding = binding,
          bt_provenance = provenance backend_id\<rparr>)"

definition build ::
  "(string \<Rightarrow> backend_provenance option) \<Rightarrow> work_bundle \<Rightarrow> runtime_context \<Rightarrow> policy_decision option \<Rightarrow> string
   \<Rightarrow> oc_execution_request" where
  "build provenance b rt pd run_id =
     (let proposal = bu_proposal b;
          declared = (if ec_allowed_paths (pp_constraints proposal) \<noteq> [] then ec_allowed_paths (pp_constraints proposal)
                      else tt_allowed_paths (pp_target proposal));
          scope = (case pd of
              Some d \<Rightarrow> if pd_effective_scope d \<noteq> [] then pd_effective_scope d else declared
            | None \<Rightarrow> declared)
      in \<lparr>er_run_id = run_id, er_proposal_id = pp_proposal_id proposal,
          er_decision_id = rd_decision_id (bu_decision b),
          er_goal_text = py_replace ''{{RUN_ID}}'' run_id (pp_goal_text proposal),
          er_constraints_text = pp_constraints_text proposal, er_repo_key = tt_repo_key (pp_target proposal),
          er_clone_url = tt_clone_url (pp_target proposal), er_base_branch = tt_base_branch (pp_target proposal),
          er_task_branch = rt_task_branch rt, er_workspace_path = rt_workspace_path rt,
          er_goal_file_path = rt_goal_file_path rt, er_allowed_paths = scope,
          er_max_changed_files = ec_max_changed_files (pp_constraints proposal),
          er_timeout_seconds = ec_timeout_seconds (pp_constraints proposal),
          er_require_clean_validation = ec_require_clean_validation (pp_constraints proposal),
          er_validation_commands = vp_commands (pp_validation_profile proposal), er_idempotent = False,
          er_runtime_binding = rt_runtime_binding rt,
          er_bound_target = Some (bound_target_from_decision provenance b (rt_runtime_binding rt))\<rparr>)"

section \<open>Synthetic results\<close>

definition synthetic_result ::
  "oc_execution_request \<Rightarrow> execution_status \<Rightarrow> failure_reason_category \<Rightarrow> string \<Rightarrow> oc_execution_result" where
  "synthetic_result request st category reason =
     \<lparr>xr_run_id = er_run_id request, xr_proposal_id = er_proposal_id request,
      xr_decision_id = er_decision_id request, xr_status = st, xr_success = False,
      xr_validation_status = V_SKIPPED, xr_failure_category = Some category, xr_failure_reason = Some reason,
      xr_recovery = None\<rparr>"

definition workspace_prep_failed_result :: "oc_execution_request \<Rightarrow> string \<Rightarrow> oc_execution_result" where
  "workspace_prep_failed_result request exc =
     synthetic_result request FAILED BACKEND_ERROR (''Workspace preparation failed: '' @ exc)"

definition adapter_crash_result :: "oc_execution_request \<Rightarrow> string \<Rightarrow> oc_execution_result" where
  "adapter_crash_result request exc =
     synthetic_result request FAILED BACKEND_ERROR (''Adapter raised unexpected exception: '' @ exc)"

definition recovery_engine_crash_result :: "oc_execution_request \<Rightarrow> string \<Rightarrow> oc_execution_result" where
  "recovery_engine_crash_result request exc =
     synthetic_result request FAILED BACKEND_ERROR (''RecoveryEngine raised unexpected exception: '' @ exc)"

definition policy_engine_crash_result :: "oc_execution_request \<Rightarrow> string \<Rightarrow> oc_execution_result" where
  "policy_engine_crash_result request exc =
     synthetic_result request FAILED POLICY_BLOCKED (''PolicyEngine.evaluate raised mid-loop: '' @ exc)"

text \<open>The em dash of the messages is three bytes of UTF-8.\<close>

definition em_dash :: string where
  "em_dash = [CHR 0xE2, CHR 0x80, CHR 0x94]"

definition decision_parts :: "budget_decision \<Rightarrow> string list" where
  "decision_parts d =
     (if truthy_str (bd_window d) then [''window='' @ or_empty (bd_window d)] else [])
     @ (case (bd_current d, bd_limit d) of
          (Some c, Some l) \<Rightarrow> [''current='' @ show_int c @ '' limit='' @ show_int l] | _ \<Rightarrow> [])"

definition py_str_opt :: "string option \<Rightarrow> string" where
  "py_str_opt v = (case v of None \<Rightarrow> ''None'' | Some s \<Rightarrow> s)"

definition resource_gate_blocked_result :: "oc_execution_request \<Rightarrow> budget_decision \<Rightarrow> oc_execution_result" where
  "resource_gate_blocked_result request d =
     synthetic_result request SKIPPED BUDGET_EXHAUSTED
       (py_join ''; '' ((''dispatch skipped '' @ em_dash @ '' global resource gate '' @ py_str_opt (bd_reason d))
          # decision_parts d))"

definition backend_capped_result :: "oc_execution_request \<Rightarrow> budget_decision \<Rightarrow> string \<Rightarrow> oc_execution_result" where
  "backend_capped_result request d backend =
     synthetic_result request SKIPPED BUDGET_EXHAUSTED
       (py_join ''; '' ((''dispatch skipped '' @ em_dash @ '' backend='' @ py_repr backend @ '' '' @ py_str_opt (bd_reason d))
          # decision_parts d))"

definition policy_blocked_result :: "oc_execution_request \<Rightarrow> policy_decision \<Rightarrow> oc_execution_result" where
  "policy_blocked_result request pd =
     synthetic_result request SKIPPED POLICY_BLOCKED
       ((if pd_status pd = BLOCK then ''execution blocked by policy''
         else ''execution requires review before autonomous execution'') @ '': '' @ pd_notes pd)"

definition is_capacity_limit_failure :: "oc_execution_result \<Rightarrow> bool" where
  "is_capacity_limit_failure result =
     (if xr_success result \<or> xr_failure_category result \<noteq> Some BACKEND_ERROR
         \<or> \<not> truthy_str (xr_failure_reason result) then False
      else if classify_capacity_exhaustion (xr_failure_reason result) \<noteq> None then True
      else fst (classify_limit (xr_failure_reason result) None) \<noteq> None)"

section \<open>Runtime binding\<close>

definition apply_runtime_binding_policy ::
  "(runtime_binding \<Rightarrow> string + runtime_binding) \<Rightarrow> rb_policy option \<Rightarrow> work_bundle \<Rightarrow> runtime_context \<Rightarrow> runtime_context" where
  "apply_runtime_binding_policy mk_binding pol b rt =
     (case pol of
        None \<Rightarrow> rt
      | Some p \<Rightarrow>
          if rt_runtime_binding rt \<noteq> None then rt
          else case select_binding mk_binding p (bu_proposal b) (bu_decision b) of
                 Inl exc \<Rightarrow> rt
               | Inr None \<Rightarrow> rt
               | Inr (Some binding) \<Rightarrow> rt\<lparr>rt_runtime_binding := Some binding\<rparr>)"

section \<open>Resource gate and backend caps\<close>

record resource_gate =
  rg_max_concurrent :: "int option"
  rg_max_per_hour :: "int option"
  rg_max_per_day :: "int option"
  rg_min_available_memory_mb :: "int option"

record backend_cap =
  bcap_max_per_hour :: "int option"
  bcap_max_per_day :: "int option"
  bcap_max_concurrent :: "int option"
  bcap_min_available_memory_mb :: "int option"

text \<open>The chain returns the first failing decision: \<^const>\<open>None\<close> when every configured check allows.\<close>

fun first_refusal :: "budget_decision option list \<Rightarrow> budget_decision option" where
  "first_refusal [] = None"
| "first_refusal (None # ds) = first_refusal ds"
| "first_refusal (Some d # ds) = (if \<not> bd_allowed d then Some d else first_refusal ds)"

definition evaluate_resource_gate ::
  "usage_file option \<Rightarrow> resource_gate option \<Rightarrow> string list option \<Rightarrow> datetime \<Rightarrow> budget_decision option" where
  "evaluate_resource_gate store gate meminfo now =
     (case (store, gate) of
        (Some file, Some g) \<Rightarrow>
          first_refusal
            [if rg_max_concurrent g \<noteq> None then Some (global_concurrency_decision file (rg_max_concurrent g) now) else None,
             if rg_max_per_hour g \<noteq> None \<or> rg_max_per_day g \<noteq> None
             then Some (global_rate_decision file (rg_max_per_hour g) (rg_max_per_day g) now) else None,
             if rg_min_available_memory_mb g \<noteq> None
             then Some (global_memory_decision meminfo (rg_min_available_memory_mb g)) else None]
      | _ \<Rightarrow> None)"

definition evaluate_backend_caps ::
  "usage_file option \<Rightarrow> (string \<rightharpoonup> backend_cap) \<Rightarrow> string \<Rightarrow> string list option \<Rightarrow> datetime \<Rightarrow> budget_decision option" where
  "evaluate_backend_caps store caps backend meminfo now =
     (case (store, caps backend) of
        (Some file, Some c) \<Rightarrow>
          first_refusal
            [if bcap_max_per_hour c \<noteq> None \<or> bcap_max_per_day c \<noteq> None
             then Some (budget_decision_for_backend file backend (bcap_max_per_hour c) (bcap_max_per_day c) now) else None,
             if bcap_max_concurrent c \<noteq> None
             then Some (concurrency_decision_for_backend file backend (bcap_max_concurrent c) now) else None,
             if bcap_min_available_memory_mb c \<noteq> None
             then Some (memory_decision_for_backend meminfo backend (bcap_min_available_memory_mb c)) else None]
      | _ \<Rightarrow> None)"

section \<open>The recovery loop\<close>

type_synonym adapter = "int \<Rightarrow> oc_execution_request \<Rightarrow> string + oc_execution_result \<times> event"
type_synonym policy_eval = "oc_execution_request \<Rightarrow> string + policy_decision"
type_synonym 's recovery_eval = "'s \<Rightarrow> oc_execution_result \<Rightarrow> recovery_context \<Rightarrow> string + 's \<times> recovery_outcome"

definition execute_adapter :: "adapter \<Rightarrow> int \<Rightarrow> oc_execution_request \<Rightarrow> oc_execution_result \<times> event" where
  "execute_adapter ad attempt request =
     (case ad attempt request of Inl exc \<Rightarrow> (adapter_crash_result request exc, []) | Inr r \<Rightarrow> r)"

record 's loop_result =
  lr_result :: oc_execution_result
  lr_meta :: event
  lr_actions :: "recovery_action list"
  lr_policy :: policy_decision
  lr_engine :: 's
  lr_calls :: "request_obj list"

definition rerecorded :: "recovery_action \<Rightarrow> rat \<Rightarrow> recovery_action" where
  "rerecorded a delay =
     (new_action (ra_attempt a) (ra_failure_kind a) (ra_decision a) (ra_reason a) (ra_handler_name a))
       \<lparr>ra_modified_fields := ra_modified_fields a, ra_delay_seconds := Some delay\<rparr>"

definition policy_stops :: "policy_decision \<Rightarrow> bool" where
  "policy_stops pd = (pd_status pd = BLOCK \<or> pd_status pd = REQUIRE_REVIEW)"

text \<open>
  One pass of the \<open>for\<close> loop and the passes after it. The first argument is the number of passes left after this one
  and \<open>calls\<close> the request objects the adapter was called with; \<open>max_delay\<close> is the coordinator's own policy's bound.
\<close>

fun run_loop ::
  "nat \<Rightarrow> adapter \<Rightarrow> 's recovery_eval \<Rightarrow> policy_eval \<Rightarrow> rat \<Rightarrow> request_obj \<Rightarrow> int \<Rightarrow> request_obj \<Rightarrow> policy_decision
   \<Rightarrow> recovery_action list \<Rightarrow> 's \<Rightarrow> request_obj list \<Rightarrow> 's loop_result" where
  "run_loop k ad ev pol max_delay original attempt current pd actions st calls =
     (let (res, meta) = execute_adapter ad attempt (snd current);
          calls = calls @ [current];
          ctx = \<lparr>rc_original_request = original, rc_current_request = current, rc_attempt = attempt,
                 rc_previous_actions = actions\<rparr>;
          stop = (\<lambda>r acts p s. \<lparr>lr_result = r, lr_meta = meta, lr_actions = acts, lr_policy = p, lr_engine = s,
                                lr_calls = calls\<rparr>)
      in case ev st res ctx of
           Inl exc \<Rightarrow>
             stop (recovery_engine_crash_result (snd current) exc)
               (actions @ [new_action attempt FK_UNKNOWN REJECT_UNRECOVERABLE
                  [FLit ''recovery engine raised: '', FRepr exc] None]) pd st
         | Inr (st', oc) \<Rightarrow>
             (case ro_next_request oc of
                None \<Rightarrow> stop res (actions @ [ro_action oc]) pd st'
              | Some next \<Rightarrow>
                  if ro_decision oc = ACCEPT then stop res (actions @ [ro_action oc]) pd st'
                  else
                    (let actions = actions @ [case ro_delay_seconds oc of
                           None \<Rightarrow> ro_action oc
                         | Some d \<Rightarrow> rerecorded (ro_action oc) (bounded_sleep d max_delay)];
                         continue = (\<lambda>p. case k of
                             0 \<Rightarrow> stop res actions p st'
                           | Suc k' \<Rightarrow> run_loop k' ad ev pol max_delay original (attempt + 1) next p actions st' calls)
                     in if fst next \<noteq> fst current \<or> ro_requires_policy_revalidation oc
                        then (case pol (snd next) of
                                Inl exc \<Rightarrow> stop (policy_engine_crash_result (snd next) exc) actions pd st'
                              | Inr pd' \<Rightarrow>
                                  if policy_stops pd' then stop (policy_blocked_result (snd next) pd') actions pd' st'
                                  else continue pd')
                        else continue pd)))"

declare run_loop.simps [simp del]

definition run_with_recovery_loop ::
  "recovery_policy \<Rightarrow> adapter \<Rightarrow> 's recovery_eval \<Rightarrow> policy_eval \<Rightarrow> request_obj \<Rightarrow> policy_decision \<Rightarrow> 's
   \<Rightarrow> 's loop_result" where
  "run_with_recovery_loop rp ad ev pol request pd st =
     run_loop (nat (max 1 (rpol_max_attempts rp)) - 1) ad ev pol (rpol_max_delay_seconds rp) request 1 request pd [] st []"

section \<open>The coordinator\<close>

record 's coordinator =
  co_adapters :: "backend_name \<Rightarrow> adapter option"
  co_policy :: "oc_planning_proposal \<Rightarrow> oc_routing_decision \<Rightarrow> oc_execution_request \<Rightarrow> string + policy_decision"
  co_binding_policy :: "rb_policy option"
  co_mk_binding :: "runtime_binding \<Rightarrow> string + runtime_binding"
  co_recovery_policy :: recovery_policy
  co_recovery_eval :: "'s recovery_eval"
  co_prepare :: "(oc_execution_request \<Rightarrow> string option) option"
  co_finalize :: "oc_execution_request \<Rightarrow> oc_execution_result \<Rightarrow> string + oc_execution_result"
  co_backend_caps :: "string \<rightharpoonup> backend_cap"
  co_resource_gate :: "resource_gate option"

record world =
  w_clock :: "nat \<Rightarrow> datetime"
  w_free_mb :: "nat \<Rightarrow> rat option"
  w_meminfo :: "string list option"
  w_run_id :: "nat \<Rightarrow> string"
  w_provenance :: "string \<Rightarrow> backend_provenance option"
  w_parse_reset :: reset_parser

record run_outcome =
  out_request :: oc_execution_request
  out_policy :: policy_decision
  out_result :: oc_execution_result
  out_executed :: bool
  out_calls :: "request_obj list"

datatype exec_error = RaisedPolicy string | RaisedOS os_error | UnsupportedBackend backend_name

text \<open>The worker backend the final result's runtime metadata names, when it is a non-empty text.\<close>

definition selected_worker :: "event \<Rightarrow> string option" where
  "selected_worker meta =
     (case jget meta ''observed_runtime'' of
        JObj kvs \<Rightarrow> (case jget kvs ''selected_worker_backend'' of JStr s \<Rightarrow> if s = [] then None else Some s | _ \<Rightarrow> None)
      | _ \<Rightarrow> None)"

definition record_worker_backend_cooldown_from_result ::
  "reset_parser \<Rightarrow> rat option \<Rightarrow> usage_file \<Rightarrow> oc_execution_result \<Rightarrow> event \<Rightarrow> datetime \<Rightarrow> write_result" where
  "record_worker_backend_cooldown_from_result parse_reset free_mb file result meta now =
     (if \<not> is_capacity_limit_failure result then Inr file
      else case selected_worker meta of
             None \<Rightarrow> Inr file
           | Some wb \<Rightarrow> map_sum id fst
               (maybe_record_worker_backend_cooldown parse_reset free_mb file wb (xr_failure_reason result) now))"

definition write_then :: "usage_file \<Rightarrow> write_result \<Rightarrow> (usage_file \<Rightarrow> usage_file \<times> os_error option) \<Rightarrow> usage_file \<times> os_error option" where
  "write_then file r k = (case r of Inl err \<Rightarrow> (file, Some err) | Inr f \<Rightarrow> k f)"

text \<open>The writes after a dispatch: the execution, a cooldown, then a quota event or the outcome.\<close>

definition record_dispatch ::
  "world \<Rightarrow> work_bundle \<Rightarrow> oc_execution_request \<Rightarrow> oc_execution_result \<Rightarrow> event \<Rightarrow> usage_file \<Rightarrow> usage_file \<times> os_error option" where
  "record_dispatch w b request result meta file =
     (let now = w_clock w 4; role = task_type_value (pp_task_type (bu_proposal b)); run_id = er_run_id request;
          backend = backend_value (rd_selected_backend (bu_decision b))
      in write_then file
           (record_execution (w_free_mb w 2) file role run_id run_id now (Some (er_repo_key request)) (Some backend))
           (\<lambda>f1. write_then f1
             (record_worker_backend_cooldown_from_result (w_parse_reset w) (w_free_mb w 3) f1 result meta now)
             (\<lambda>f2. write_then f2
               (if is_capacity_limit_failure result
                then record_quota_event (w_free_mb w 4) f2 run_id role backend now
                else record_execution_outcome (w_free_mb w 4) f2 run_id role (xr_success result) now (Some backend) None)
               (\<lambda>f3. (f3, None)))))"

definition finalize_result ::
  "'s coordinator \<Rightarrow> oc_execution_request \<Rightarrow> oc_execution_result \<Rightarrow> oc_execution_result" where
  "finalize_result co request result =
     (if co_prepare co \<noteq> None \<and> xr_success result
      then (case co_finalize co request result of Inl exc \<Rightarrow> result | Inr r \<Rightarrow> r) else result)"

type_synonym 's exec_result = "usage_file option \<times> 's \<times> (exec_error + run_outcome)"

text \<open>From the in-flight marker on: the \<open>try\<close>/\<open>finally\<close> around the recovery loop and everything after it.\<close>

definition dispatch ::
  "'s coordinator \<Rightarrow> world \<Rightarrow> work_bundle \<Rightarrow> adapter \<Rightarrow> oc_execution_request \<Rightarrow> policy_decision \<Rightarrow> usage_file option \<Rightarrow> 's
   \<Rightarrow> 's exec_result" where
  "dispatch co w b ad request pd store st =
     (let backend = backend_value (rd_selected_backend (bu_decision b));
          lr = run_with_recovery_loop (co_recovery_policy co) ad (co_recovery_eval co)
                 (co_policy co (bu_proposal b) (bu_decision b)) (0, request) pd st;
          result = attach_recovery_metadata (lr_result lr) (lr_actions lr);
          outcome = Inr \<lparr>out_request = request, out_policy = lr_policy lr,
            out_result = finalize_result co request result, out_executed = True, out_calls = lr_calls lr\<rparr>
      in case store of
           None \<Rightarrow> (None, lr_engine lr, outcome)
         | Some file \<Rightarrow>
             (case record_execution_started (w_free_mb w 0) file (er_run_id request) backend (w_clock w 2) of
                Inl err \<Rightarrow> (Some file, st, Inl (RaisedOS err))
              | Inr f1 \<Rightarrow>
                  (case record_execution_finished (w_free_mb w 1) f1 (er_run_id request) backend (w_clock w 3) of
                     Inl err \<Rightarrow> (Some f1, lr_engine lr, Inl (RaisedOS err))
                   | Inr f2 \<Rightarrow>
                       (case record_dispatch w b request result (lr_meta lr) f2 of
                          (f3, Some err) \<Rightarrow> (Some f3, lr_engine lr, Inl (RaisedOS err))
                        | (f3, None) \<Rightarrow> (Some f3, lr_engine lr, outcome)))))"

definition execute ::
  "'s coordinator \<Rightarrow> world \<Rightarrow> work_bundle \<Rightarrow> runtime_context \<Rightarrow> usage_file option \<Rightarrow> 's \<Rightarrow> 's exec_result" where
  "execute co w b rt0 store st =
     (let rt = apply_runtime_binding_policy (co_mk_binding co) (co_binding_policy co) b rt0;
          request0 = build (w_provenance w) b rt None (w_run_id w 0)
      in case co_policy co (bu_proposal b) (bu_decision b) request0 of
           Inl exc \<Rightarrow> (store, st, Inl (RaisedPolicy exc))
         | Inr pd \<Rightarrow>
             if policy_stops pd
             then (store, st, Inr \<lparr>out_request = request0, out_policy = pd,
                     out_result = policy_blocked_result request0 pd, out_executed = False, out_calls = []\<rparr>)
             else
               (let request = build (w_provenance w) b rt (Some pd) (w_run_id w 1);
                    backend = backend_value (rd_selected_backend (bu_decision b));
                    skip = (\<lambda>r. (store, st, Inr \<lparr>out_request = request, out_policy = pd, out_result = r,
                              out_executed = False, out_calls = []\<rparr>))
                in case (case co_prepare co of None \<Rightarrow> None | Some prep \<Rightarrow> prep request) of
                     Some exc \<Rightarrow> skip (workspace_prep_failed_result request exc)
                   | None \<Rightarrow>
                       (case evaluate_resource_gate store (co_resource_gate co) (w_meminfo w) (w_clock w 0) of
                          Some d \<Rightarrow> skip (resource_gate_blocked_result request d)
                        | None \<Rightarrow>
                            (case evaluate_backend_caps store (co_backend_caps co) backend (w_meminfo w) (w_clock w 1) of
                               Some d \<Rightarrow> skip (backend_capped_result request d backend)
                             | None \<Rightarrow>
                                 (case co_adapters co (rd_selected_backend (bu_decision b)) of
                                    None \<Rightarrow> (store, st, Inl (UnsupportedBackend (rd_selected_backend (bu_decision b))))
                                  | Some ad \<Rightarrow> dispatch co w b ad request pd store st)))))"

text \<open>The parts the repository itself supplies: its policy engine and its recovery engine.\<close>

definition engine_policy ::
  "policy_config \<Rightarrow> oc_planning_proposal \<Rightarrow> oc_routing_decision \<Rightarrow> oc_execution_request \<Rightarrow> string + policy_decision" where
  "engine_policy cfg proposal decision request = Inr (evaluate cfg proposal decision (Some request))"

definition engine_recovery :: "recovery_engine \<Rightarrow> (int \<Rightarrow> datetime) \<Rightarrow> health_registry option recovery_eval" where
  "engine_recovery eng clock registry result ctx =
     Inr (engine_evaluate eng registry (clock (rc_attempt ctx)) result ctx)"

end
