(* ===== verification/Coordinator_Safety.thy ===== *)
theory Coordinator_Safety
  imports Coordinator
begin

text \<open>
  What the execution boundary guarantees: nothing reaches an adapter without clearance, the recovery loop is bounded
  and its audit trail exact, a request with side effects is only repeated after failures that precede sending, the
  scope that was checked is the scope that is dispatched.
\<close>

section \<open>One pass of the loop\<close>

definition loop_context :: "request_obj \<Rightarrow> int \<Rightarrow> request_obj \<Rightarrow> recovery_action list \<Rightarrow> recovery_context" where
  "loop_context original attempt current actions =
     \<lparr>rc_original_request = original, rc_current_request = current, rc_attempt = attempt,
      rc_previous_actions = actions\<rparr>"

text \<open>A later request may be dispatched when it is the same object or the policy engine has cleared it.\<close>

definition cleared :: "policy_eval \<Rightarrow> request_obj \<Rightarrow> request_obj \<Rightarrow> bool" where
  "cleared pol x y = (fst x = fst y \<or> (\<exists>pd. pol (snd y) = Inr pd \<and> \<not> policy_stops pd))"

definition recorded_as :: "recovery_action \<Rightarrow> recovery_action \<Rightarrow> bool" where
  "recorded_as a b = (ra_attempt b = ra_attempt a \<and> ra_failure_kind b = ra_failure_kind a \<and> ra_decision b = ra_decision a)"

lemma recorded_simps [simp]: "recorded_as a a" "recorded_as a (rerecorded a d)"
  by (simp_all add: recorded_as_def rerecorded_def new_action_def)

text \<open>A pass either ends the loop with one more action, or hands a cleared request to the next pass.\<close>

lemma run_loop_cases:
  fixes k :: nat and ad :: adapter and ev :: "'s recovery_eval"
  defines "ctx original attempt current actions \<equiv> loop_context original attempt current actions"
  obtains (stop) a where
      "lr_calls (run_loop k ad ev pol md original attempt current pd actions st calls) = calls @ [current]"
      "lr_actions (run_loop k ad ev pol md original attempt current pd actions st calls) = actions @ [a]"
      "ra_attempt a = attempt \<or> (\<exists>res st' oc. ev st res (ctx original attempt current actions) = Inr (st', oc) \<and> recorded_as (ro_action oc) a)"
  | (again) k' res st' oc a nxt pd' where
      "k = Suc k'" "ev st res (ctx original attempt current actions) = Inr (st', oc)"
      "ro_next_request oc = Some nxt" "recorded_as (ro_action oc) a" "cleared pol current nxt"
      "res = fst (execute_adapter ad attempt (snd current))"
      "run_loop k ad ev pol md original attempt current pd actions st calls =
         run_loop k' ad ev pol md original (attempt + 1) nxt pd' (actions @ [a]) st' (calls @ [current])"
proof -
  obtain res meta where x: "execute_adapter ad attempt (snd current) = (res, meta)" by fastforce
  let ?c = "ctx original attempt current actions"
  let ?r = "run_loop k ad ev pol md original attempt current pd actions st calls"
  note unfold = run_loop.simps [of k ad ev pol md original attempt current pd actions st calls]
  show thesis
  proof (cases "ev st res ?c")
    case (Inl exc)
    then have "lr_calls ?r = calls @ [current]" "\<exists>a. lr_actions ?r = actions @ [a] \<and> ra_attempt a = attempt"
      by (simp_all add: unfold x ctx_def loop_context_def new_action_def)
    then show thesis using stop by blast
  next
    case (Inr p)
    then obtain st' oc where e: "ev st res ?c = Inr (st', oc)" by (cases p) auto
    define a where "a = (case ro_delay_seconds oc of None \<Rightarrow> ro_action oc | Some d \<Rightarrow> rerecorded (ro_action oc) (bounded_sleep d md))"
    have a: "recorded_as (ro_action oc) a" by (simp add: a_def split: option.split)
    note e' = e [unfolded ctx_def loop_context_def]
    show thesis
    proof (cases "ro_next_request oc = None \<or> ro_decision oc = ACCEPT")
      case True
      then have "lr_calls ?r = calls @ [current]" "lr_actions ?r = actions @ [ro_action oc]"
        by (auto simp: unfold x e' Let_def split: option.splits)
      then show thesis using stop e recorded_simps(1) by blast
    next
      case False
      then obtain nxt where n: "ro_next_request oc = Some nxt" "ro_decision oc \<noteq> ACCEPT" by auto
      have "(lr_calls ?r = calls @ [current] \<and> lr_actions ?r = actions @ [a])
          \<or> (\<exists>k' pd'. k = Suc k' \<and> cleared pol current nxt
               \<and> ?r = run_loop k' ad ev pol md original (attempt + 1) nxt pd' (actions @ [a]) st' (calls @ [current]))"
        unfolding unfold
        by (cases k) (auto simp: x e' n a_def [symmetric] cleared_def Let_def split: sum.splits)
      then show thesis using stop again e a n(1) x by fastforce
    qed
  qed
qed

section \<open>Bounds and audit trail\<close>

definition actions_agree :: "'s recovery_eval \<Rightarrow> bool" where
  "actions_agree ev = (\<forall>st res c st' oc. ev st res c = Inr (st', oc) \<longrightarrow> ra_attempt (ro_action oc) = rc_attempt c)"

lemma run_loop_bound:
  "length (lr_calls (run_loop k ad ev pol md original attempt current pd actions st calls)) \<le> length calls + Suc k
   \<and> lr_calls (run_loop k ad ev pol md original attempt current pd actions st calls) \<noteq> []"
proof (induction k arbitrary: attempt current pd actions st calls)
  case 0
  show ?case
    by (cases rule: run_loop_cases [of 0 ad ev pol md original attempt current pd actions st calls]) simp_all
next
  case (Suc k)
  show ?case
  proof (cases rule: run_loop_cases [of "Suc k" ad ev pol md original attempt current pd actions st calls])
    case stop
    then show ?thesis by simp
  next
    case (again k' res st' oc a nxt pd')
    then show ?thesis using Suc.IH [of "attempt + 1" nxt pd' "actions @ [a]" st' "calls @ [current]"] by simp
  qed
qed

lemma run_loop_audit:
  assumes "actions_agree ev"
  shows "length actions = length calls \<Longrightarrow> attempt = int (length calls) + 1 \<Longrightarrow>
    length (lr_actions (run_loop k ad ev pol md original attempt current pd actions st calls))
      = length (lr_calls (run_loop k ad ev pol md original attempt current pd actions st calls))
    \<and> lr_actions (run_loop k ad ev pol md original attempt current pd actions st calls) \<noteq> []
    \<and> ra_attempt (last (lr_actions (run_loop k ad ev pol md original attempt current pd actions st calls)))
      = int (length (lr_calls (run_loop k ad ev pol md original attempt current pd actions st calls)))"
proof (induction k arbitrary: attempt current pd actions st calls)
  case (0 attempt current pd actions st calls)
  show ?case
  proof (cases rule: run_loop_cases [of 0 ad ev pol md original attempt current pd actions st calls])
    case (stop a)
    then have "ra_attempt a = attempt"
      using assms by (auto simp: actions_agree_def recorded_as_def loop_context_def)
    then show ?thesis using stop(1,2) 0 by simp
  qed simp
next
  case (Suc k attempt current pd actions st calls)
  show ?case
  proof (cases rule: run_loop_cases [of "Suc k" ad ev pol md original attempt current pd actions st calls])
    case (stop a)
    then have "ra_attempt a = attempt"
      using assms by (auto simp: actions_agree_def recorded_as_def loop_context_def)
    then show ?thesis using stop(1,2) Suc.prems by simp
  next
    case (again k' res st' oc a nxt pd')
    then show ?thesis
      using Suc.IH [of "actions @ [a]" "calls @ [current]" "attempt + 1" nxt pd' st'] Suc.prems by simp
  qed
qed

lemma run_loop_cleared:
  "successively (cleared pol) (calls @ [current]) \<Longrightarrow>
     successively (cleared pol) (lr_calls (run_loop k ad ev pol md original attempt current pd actions st calls))
     \<and> prefix (calls @ [current]) (lr_calls (run_loop k ad ev pol md original attempt current pd actions st calls))"
proof (induction k arbitrary: attempt current pd actions st calls)
  case 0
  then show ?case
    by (cases rule: run_loop_cases [of 0 ad ev pol md original attempt current pd actions st calls]) simp_all
next
  case (Suc k)
  show ?case
  proof (cases rule: run_loop_cases [of "Suc k" ad ev pol md original attempt current pd actions st calls])
    case stop
    then show ?thesis using Suc.prems by simp
  next
    case (again k' res st' oc a nxt pd')
    then have "successively (cleared pol) ((calls @ [current]) @ [nxt])"
      using Suc.prems by (subst successively_append_iff) auto
    then show ?thesis
      using again(1,7) Suc.IH [where current = nxt and calls = "calls @ [current]" and attempt = "attempt + 1" and pd = pd'
          and actions = "actions @ [a]" and st = st'] append_prefixD [of "calls @ [current]" "[nxt]"]
      by auto
  qed
qed

section \<open>The repository's recovery engine in the loop\<close>

lemma default_engine_next:
  assumes "ro_next_request (snd (engine_evaluate (build_default_engine (Some p)) registry now res c)) = Some nxt"
  shows "nxt = rc_current_request c \<and> retry_guards (build_default_engine (Some p)) (classify res c) c
    \<and> ra_failure_kind (ro_action (snd (engine_evaluate (build_default_engine (Some p)) registry now res c))) = classify res c"
proof -
  let ?eng = "build_default_engine (Some p)" and ?k = "classify res c"
  have e: "snd (engine_evaluate ?eng registry now res c) = decide_failure ?eng ?k res c"
    using assms by (auto simp: engine_evaluate_outcome split: if_splits)
  show ?thesis
  proof (cases rule: decide_failure_cases [of c ?k ?eng res])
    case stopped
    then show ?thesis using assms e by (auto dest: stopped_no_retry)
  next
    case (handled delay)
    then show ?thesis
      using assms e default_run_handlers [of ?k p res delay c] retry_guards_not_listed [OF handled(2)]
      by (auto simp: new_action_def split: if_splits)
  qed
qed

lemma engine_actions_agree:
  assumes "\<forall>h \<in> set (re_handlers eng). recovery_handler h"
  shows "actions_agree (engine_recovery eng clock)"
proof -
  have wf: "outcome_wf (re_policy eng) c (snd (engine_evaluate eng reg now res c))" for c reg now res
  proof -
    have "outcome_wf (re_policy eng) c (decide_failure eng kind res c)" for kind
      using assms by (cases rule: decide_failure_cases [of c kind eng res]) (auto simp: stopped_wf run_handlers_wf)
    then show ?thesis by (simp add: engine_evaluate_outcome stop_outcome_wf)
  qed
  show ?thesis
    unfolding actions_agree_def
  proof (intro allI impI)
    fix st res c st' oc
    assume "engine_recovery eng clock st res c = Inr (st', oc)"
    then have "oc = snd (engine_evaluate eng st (clock (rc_attempt c)) res c)" by (simp add: engine_recovery_def)
    then show "ra_attempt (ro_action oc) = rc_attempt c" using wf by (simp add: outcome_wf_def)
  qed
qed

lemma run_loop_presend:
  fixes p :: recovery_policy and clock :: "int \<Rightarrow> datetime"
  defines "ev \<equiv> engine_recovery (build_default_engine (Some p)) clock"
  assumes "\<not> er_idempotent (snd current)"
  shows "\<forall>a \<in> set actions. ra_failure_kind a \<in> rpol_pre_send_failure_kinds p \<Longrightarrow> \<forall>c \<in> set calls. c = current \<Longrightarrow>
    (\<forall>a \<in> set (butlast (lr_actions (run_loop k ad ev pol md original attempt current pd actions st calls))).
       ra_failure_kind a \<in> rpol_pre_send_failure_kinds p)
    \<and> (\<forall>c \<in> set (lr_calls (run_loop k ad ev pol md original attempt current pd actions st calls)). c = current)"
proof (induction k arbitrary: attempt pd actions st calls)
  case (0 attempt pd actions st calls)
  then show ?case
    by (cases rule: run_loop_cases [of 0 ad ev pol md original attempt current pd actions st calls]) auto
next
  case (Suc k attempt pd actions st calls)
  show ?case
  proof (cases rule: run_loop_cases [of "Suc k" ad ev pol md original attempt current pd actions st calls])
    case (stop a)
    then show ?thesis using Suc.prems by auto
  next
    case (again k' res st' oc a nxt pd')
    let ?c = "loop_context original attempt current actions"
    have oc: "oc = snd (engine_evaluate (build_default_engine (Some p)) st (clock (rc_attempt ?c)) res ?c)"
      using again(2) by (simp add: ev_def engine_recovery_def)
    have "nxt = current" and "retry_guards (build_default_engine (Some p)) (classify res ?c) ?c"
      and "ra_failure_kind (ro_action oc) = classify res ?c"
      using default_engine_next [of p st "clock (rc_attempt ?c)" res ?c nxt] again(3) oc by (auto simp: loop_context_def)
    then have "nxt = current" "ra_failure_kind a \<in> rpol_pre_send_failure_kinds p"
      using assms(2) again(4) by (auto simp: retry_guards_def Let_def loop_context_def recorded_as_def)
    moreover have "k' = k" using again(1) by simp
    ultimately have r: "run_loop (Suc k) ad ev pol md original attempt current pd actions st calls =
        run_loop k ad ev pol md original (attempt + 1) current pd' (actions @ [a]) st' (calls @ [current])"
      and a: "\<forall>x \<in> set (actions @ [a]). ra_failure_kind x \<in> rpol_pre_send_failure_kinds p"
      using again(7) Suc.prems(1) by auto
    show ?thesis
      unfolding r by (rule Suc.IH [OF a]) (use Suc.prems(2) in auto)
  qed
qed

section \<open>Properties of the recovery loop\<close>

text \<open>
  C8: the recovery loop is bounded and its audit trail is exact: for a recovery engine whose handlers keep the
  handler contract, the adapter is called at least once and at most \<open>max(1, max_attempts)\<close> times, and the recovery
  summary attached to the result reports as many attempts and holds as many actions as the adapter was called.
\<close>

theorem recovery_loop_bounded_and_audited:
  fixes eng :: recovery_engine and rp :: recovery_policy and ad :: adapter and clock :: "int \<Rightarrow> datetime"
    and pol :: policy_eval and request :: request_obj and pd :: policy_decision and st :: "health_registry option"
  assumes "\<forall>h \<in> set (re_handlers eng). recovery_handler h"
  defines "lr \<equiv> run_with_recovery_loop rp ad (engine_recovery eng clock) pol request pd st"
  shows "1 \<le> length (lr_calls lr) \<and> int (length (lr_calls lr)) \<le> max 1 (rpol_max_attempts rp)
    \<and> (\<exists>m. xr_recovery (attach_recovery_metadata (lr_result lr) (lr_actions lr)) = Some m
         \<and> rms_attempts m = int (length (lr_calls lr)) \<and> length (rms_actions m) = length (lr_calls lr))"
proof -
  let ?k = "nat (max 1 (rpol_max_attempts rp)) - 1"
  have "length (lr_calls lr) \<le> Suc ?k \<and> lr_calls lr \<noteq> []"
    using run_loop_bound [of ?k ad "engine_recovery eng clock" pol "rpol_max_delay_seconds rp" request 1 request pd "[]" st "[]"]
    by (simp add: lr_def run_with_recovery_loop_def)
  then have "1 \<le> length (lr_calls lr)" "int (length (lr_calls lr)) \<le> max 1 (rpol_max_attempts rp)"
    by (auto simp: Suc_le_eq)
  moreover have "length (lr_actions lr) = length (lr_calls lr) \<and> lr_actions lr \<noteq> []
      \<and> ra_attempt (last (lr_actions lr)) = int (length (lr_calls lr))"
    using run_loop_audit [OF engine_actions_agree [OF assms(1)], of "[]" "[]" 1 ?k ad clock pol "rpol_max_delay_seconds rp" request
        request pd st]
    by (simp add: lr_def run_with_recovery_loop_def)
  ultimately show ?thesis
    by (simp add: attach_recovery_metadata_def metadata_to_summary_def)
qed

definition failing_adapter :: adapter where
  "failing_adapter attempt request = Inl ''boom''"

definition sample_pd :: policy_decision where
  "sample_pd = evaluate DEFAULT_POLICY_CONFIG (sample_proposal [''src/a.py''] [] LINT_FIX LOW)
     (sample_decision CLAUDE_CLI TEAM_EXECUTOR) None"

theorem recovery_loop_bounded_and_audited_witness:
  "int (length (lr_calls (run_with_recovery_loop (default_recovery_policy\<lparr>rpol_max_attempts := 3\<rparr>) failing_adapter
      (engine_recovery (build_default_engine None) (\<lambda>_. 0)) (\<lambda>r. Inr sample_pd) (0, sample_request False) sample_pd None))) \<le> 3"
  using recovery_loop_bounded_and_audited [where eng = "build_default_engine None" and clock = "\<lambda>_. 0"
      and rp = "default_recovery_policy\<lparr>rpol_max_attempts := 3\<rparr>" and ad = failing_adapter and pol = "\<lambda>r. Inr sample_pd"
      and request = "(0, sample_request False)" and pd = sample_pd and st = None, OF default_handlers]
  by simp

text \<open>
  C9: a request with side effects is only repeated after failures that precede sending: with the engine
  \<open>build_default_engine\<close> builds, the adapter only ever sees the one request object, and every recorded failure that was
  followed by another call is of a pre-send kind of the policy.
\<close>

theorem side_effects_never_repeated:
  fixes p :: recovery_policy and rp :: recovery_policy and ad :: adapter and clock :: "int \<Rightarrow> datetime"
    and pol :: policy_eval and request :: request_obj and pd :: policy_decision and st :: "health_registry option"
  assumes "\<not> er_idempotent (snd request)"
  defines "lr \<equiv> run_with_recovery_loop rp ad (engine_recovery (build_default_engine (Some p)) clock) pol request pd st"
  shows "(\<forall>a \<in> set (butlast (lr_actions lr)). ra_failure_kind a \<in> rpol_pre_send_failure_kinds p)
    \<and> (\<forall>c \<in> set (lr_calls lr). c = request)"
  using run_loop_presend [OF assms(1), of "[]" p "[]"]
  by (simp add: lr_def run_with_recovery_loop_def)

definition unavailable_adapter :: adapter where
  "unavailable_adapter attempt request =
     Inr (sample_result FAILED (Some BACKEND_ERROR) (Some ''adapter_error_code=backend_unavailable: refused''), [])"

definition sample_loop :: "health_registry option loop_result" where
  "sample_loop = run_with_recovery_loop (default_recovery_policy\<lparr>rpol_max_attempts := 3\<rparr>) unavailable_adapter
      (engine_recovery (build_default_engine (Some (default_recovery_policy\<lparr>rpol_max_attempts := 3\<rparr>))) (\<lambda>_. 0))
      (\<lambda>r. Inr sample_pd) (0, sample_request False) sample_pd None"

theorem side_effects_never_repeated_witness:
  "length (lr_calls sample_loop) = 3 \<and> set (lr_calls sample_loop) = {(0, sample_request False)}"
proof
  show n: "length (lr_calls sample_loop) = 3" by code_simp
  have "\<not> er_idempotent (snd (0::nat, sample_request False))" by (simp add: sample_request_def)
  then have "set (lr_calls sample_loop) \<subseteq> {(0, sample_request False)}"
    using side_effects_never_repeated [THEN conjunct2] unfolding sample_loop_def by blast
  then show "set (lr_calls sample_loop) = {(0, sample_request False)}"
    using n by (cases "lr_calls sample_loop") auto
qed

end
