(* ===== verification/Coordinator_Gates.thy ===== *)
theory Coordinator_Gates
  imports Coordinator_Safety
begin

text \<open>
  The gates of \<open>ExecutionCoordinator.execute\<close> as a whole: what must have held for an adapter to be called, what is
  left untouched when none is, and that the scope the policy engine judged is the scope that is dispatched.
\<close>

section \<open>The branches of execute\<close>

lemma dispatch_outcome:
  assumes "dispatch co w b ad request pd store st = (store', st', Inr out)"
  shows "out_executed out \<and> out_request out = request \<and> out_calls out =
    lr_calls (run_with_recovery_loop (co_recovery_policy co) ad (co_recovery_eval co)
      (co_policy co (bu_proposal b) (bu_decision b)) (0, request) pd st)"
  using assms by (auto simp: dispatch_def Let_def split: option.splits sum.splits prod.splits)

text \<open>The request the policy engine judges, and the one that is dispatched.\<close>

definition judged_request :: "'s coordinator \<Rightarrow> world \<Rightarrow> work_bundle \<Rightarrow> runtime_context \<Rightarrow> oc_execution_request" where
  "judged_request co w b rt =
     build (w_provenance w) b (apply_runtime_binding_policy (co_mk_binding co) (co_binding_policy co) b rt) None (w_run_id w 0)"

definition dispatched_request ::
  "'s coordinator \<Rightarrow> world \<Rightarrow> work_bundle \<Rightarrow> runtime_context \<Rightarrow> policy_decision \<Rightarrow> oc_execution_request" where
  "dispatched_request co w b rt pd =
     build (w_provenance w) b (apply_runtime_binding_policy (co_mk_binding co) (co_binding_policy co) b rt) (Some pd)
       (w_run_id w 1)"

lemma execute_cases:
  assumes "execute co w b rt store st = (store', st', Inr out)"
  obtains (refused) "\<not> out_executed out" "out_calls out = []" "store' = store" "st' = st" "\<not> xr_success (out_result out)"
    "xr_status (out_result out) \<noteq> SUCCEEDED"
  | (dispatched) pd ad where
      "co_policy co (bu_proposal b) (bu_decision b) (judged_request co w b rt) = Inr pd" "\<not> policy_stops pd"
      "evaluate_resource_gate store (co_resource_gate co) (w_meminfo w) (w_clock w 0) = None"
      "evaluate_backend_caps store (co_backend_caps co) (backend_value (rd_selected_backend (bu_decision b)))
         (w_meminfo w) (w_clock w 1) = None"
      "co_adapters co (rd_selected_backend (bu_decision b)) = Some ad"
      "dispatch co w b ad (dispatched_request co w b rt pd) pd store st = (store', st', Inr out)"
  using assms
  unfolding execute_def Let_def judged_request_def [symmetric] dispatched_request_def [symmetric]
  by (auto simp: policy_blocked_result_def workspace_prep_failed_result_def resource_gate_blocked_result_def
      backend_capped_result_def synthetic_result_def split: sum.splits option.splits if_splits)

lemma recovery_loop_cleared:
  "successively (cleared pol) (lr_calls (run_with_recovery_loop rp ad ev pol request pd st))
   \<and> hd (lr_calls (run_with_recovery_loop rp ad ev pol request pd st)) = request
   \<and> lr_calls (run_with_recovery_loop rp ad ev pol request pd st) \<noteq> []"
proof -
  let ?c = "lr_calls (run_with_recovery_loop rp ad ev pol request pd st)"
  have "successively (cleared pol) ?c \<and> prefix [request] ?c"
    using run_loop_cleared [of pol "[]" request] by (simp add: run_with_recovery_loop_def)
  then show ?thesis by (auto simp: prefix_def)
qed

lemma first_refusal_if:
  "first_refusal ((if P then Some d else None) # ds) = None \<longleftrightarrow> (P \<longrightarrow> bd_allowed d) \<and> first_refusal ds = None"
  by simp

lemma two_window_allowed:
  "bd_allowed (two_window_decision reason mh md hourly daily) \<longleftrightarrow>
     (\<forall>m. mh = Some m \<longrightarrow> hourly < m) \<and> (\<forall>m. md = Some m \<longrightarrow> daily < m)"
  by (auto simp: two_window_decision_def blocked_def allowed_def split: option.splits)

lemma memory_floor_allowed:
  "bd_allowed (memory_floor reason meminfo m) \<longleftrightarrow> available_memory_mb meminfo = 0 \<or> m \<le> available_memory_mb meminfo"
  by (auto simp: memory_floor_def Let_def blocked_def allowed_def)

lemma backend_value_not_empty: "backend_value bk \<noteq> []"
  by (cases bk) simp_all

lemmas gate_decisions = global_concurrency_decision_def global_rate_decision_def global_memory_decision_def
  concurrency_decision_for_backend_def budget_decision_for_backend_def memory_decision_for_backend_def
  two_window_allowed memory_floor_allowed backend_value_not_empty Let_def blocked_def allowed_def

lemma gate_passed:
  assumes "evaluate_resource_gate (Some f) gate meminfo now = None" "gate = Some g"
  shows "(rg_max_concurrent g = Some m \<longrightarrow> total_concurrent_runs f now < m)
      \<and> (rg_max_per_hour g = Some m \<longrightarrow> matching_since (\<lambda>_. True) (pruned_events f now) (now - td_hours 1) < m)
      \<and> (rg_max_per_day g = Some m \<longrightarrow> matching_since (\<lambda>_. True) (pruned_events f now) (now - td_days 1) < m)
      \<and> (rg_min_available_memory_mb g = Some m \<longrightarrow> available_memory_mb meminfo = 0 \<or> m \<le> available_memory_mb meminfo)"
proof -
  have "(rg_max_concurrent g \<noteq> None \<longrightarrow> bd_allowed (global_concurrency_decision f (rg_max_concurrent g) now))
      \<and> (rg_max_per_hour g \<noteq> None \<or> rg_max_per_day g \<noteq> None \<longrightarrow>
           bd_allowed (global_rate_decision f (rg_max_per_hour g) (rg_max_per_day g) now))
      \<and> (rg_min_available_memory_mb g \<noteq> None \<longrightarrow>
           bd_allowed (global_memory_decision meminfo (rg_min_available_memory_mb g)))"
    using assms(1) unfolding assms(2) evaluate_resource_gate_def prod.case option.case first_refusal_if by simp
  then show ?thesis
    by (intro conjI impI) (simp_all add: gate_decisions split: if_split_asm)
qed

lemma caps_passed:
  assumes "evaluate_backend_caps (Some f) caps (backend_value bk) meminfo now = None" "caps (backend_value bk) = Some c"
  shows "(bcap_max_concurrent c = Some m \<longrightarrow> concurrent_runs_for_backend f (backend_value bk) now < m)
      \<and> (bcap_max_per_hour c = Some m \<longrightarrow>
           matching_since (\<lambda>e. jget e ''backend'' = JStr (backend_value bk)) (pruned_events f now) (now - td_hours 1) < m)
      \<and> (bcap_max_per_day c = Some m \<longrightarrow>
           matching_since (\<lambda>e. jget e ''backend'' = JStr (backend_value bk)) (pruned_events f now) (now - td_days 1) < m)
      \<and> (bcap_min_available_memory_mb c = Some m \<longrightarrow> available_memory_mb meminfo = 0 \<or> m \<le> available_memory_mb meminfo)"
proof -
  let ?bk = "backend_value bk"
  have "(bcap_max_per_hour c \<noteq> None \<or> bcap_max_per_day c \<noteq> None \<longrightarrow>
           bd_allowed (budget_decision_for_backend f ?bk (bcap_max_per_hour c) (bcap_max_per_day c) now))
      \<and> (bcap_max_concurrent c \<noteq> None \<longrightarrow> bd_allowed (concurrency_decision_for_backend f ?bk (bcap_max_concurrent c) now))
      \<and> (bcap_min_available_memory_mb c \<noteq> None \<longrightarrow>
           bd_allowed (memory_decision_for_backend meminfo ?bk (bcap_min_available_memory_mb c)))"
    using assms(1) unfolding assms(2) evaluate_backend_caps_def prod.case option.case first_refusal_if by simp
  then show ?thesis
    by (intro conjI impI) (simp_all add: gate_decisions split: if_split_asm)
qed

text \<open>The request that is dispatched is the one that was judged, under a fresh run id.\<close>

lemma dispatched_judged:
  assumes "engine_policy cfg (bu_proposal b) (bu_decision b) (judged_request co w b rt) = Inr pd"
  shows "dispatched_request co w b rt pd = (judged_request co w b rt)
    \<lparr>er_run_id := w_run_id w 1, er_goal_text := py_replace ''{{RUN_ID}}'' (w_run_id w 1) (pp_goal_text (bu_proposal b))\<rparr>"
proof -
  have "pd_effective_scope pd = effective_scope (bu_proposal b) (Some (judged_request co w b rt))"
    using assms by (auto simp: engine_policy_def evaluate_def Let_def build_decision_def)
  then show ?thesis
    by (simp add: dispatched_request_def judged_request_def build_def Let_def effective_scope_def)
qed

lemma recovery_loop_same_request:
  assumes "\<not> er_idempotent (snd request)"
    and "c \<in> set (lr_calls (run_with_recovery_loop rp ad (engine_recovery (build_default_engine (Some p)) clock) pol request pd st))"
  shows "c = request"
  using run_loop_presend [OF assms(1), of "[]" p "[]"] assms(2) by (simp add: run_with_recovery_loop_def)

lemma judged_candidates:
  "candidate_paths (bu_proposal b) (Some (judged_request co w b rt)) = er_allowed_paths (judged_request co w b rt)"
  by (simp add: candidate_paths_def judged_request_def build_def Let_def)

section \<open>A call returns\<close>

definition disk_ok :: "rat option \<Rightarrow> bool" where
  "disk_ok free_mb = (case free_mb of None \<Rightarrow> True | Some f \<Rightarrow> DISK_MIN_MB \<le> f)"

lemma disk_ok_iff: "disk_ok free \<longleftrightarrow> \<not> (\<exists>f. free = Some f \<and> f < DISK_MIN_MB)"
  by (auto simp: disk_ok_def split: option.split)

lemma cooldown_from_result_returns:
  assumes "disk_ok free"
  shows "\<exists>f'. record_worker_backend_cooldown_from_result parse free f res meta now = Inr f'"
proof -
  have "\<forall>wb reset kind model. \<exists>f'. record_worker_backend_cooldown free f wb reset now kind model = Inr f'"
    using w_cooldown.writer_some assms unfolding disk_ok_iff by blast
  then obtain g where g: "\<forall>wb reset kind model. record_worker_backend_cooldown free f wb reset now kind model = Inr (g wb reset kind model)"
    by metis
  show ?thesis
    by (simp add: record_worker_backend_cooldown_from_result_def maybe_record_worker_backend_cooldown_def Let_def g
        split: option.split prod.split)
qed

lemma record_dispatch_returns:
  assumes "\<And>i. disk_ok (w_free_mb w i)"
  shows "\<exists>f'. record_dispatch w b rq res meta f = (f', None)"
proof -
  have ex: "\<exists>f'. record_execution (w_free_mb w i) f role r s t rk bk = Inr f'" for i f role r s t rk bk
    using w_execution.writer_some assms unfolding disk_ok_iff by blast
  have qu: "\<exists>f'. record_quota_event (w_free_mb w i) f r role bk t = Inr f'" for i f r role bk t
    using w_quota_event.writer_some assms unfolding disk_ok_iff by blast
  have oc: "\<exists>f'. record_execution_outcome (w_free_mb w i) f r role ok t bk v = Inr f'" for i f r role ok t bk v
    using w_outcome.writer_some assms unfolding disk_ok_iff by blast
  obtain f1 where f1: "record_execution (w_free_mb w 2) f (task_type_value (pp_task_type (bu_proposal b))) (er_run_id rq)
      (er_run_id rq) (w_clock w 4) (Some (er_repo_key rq)) (Some (backend_value (rd_selected_backend (bu_decision b)))) = Inr f1"
    using ex by blast
  obtain f2 where f2: "record_worker_backend_cooldown_from_result (w_parse_reset w) (w_free_mb w 3) f1 res meta (w_clock w 4) = Inr f2"
    using cooldown_from_result_returns [OF assms] by blast
  have "\<exists>f3. (if is_capacity_limit_failure res
      then record_quota_event (w_free_mb w 4) f2 (er_run_id rq) (task_type_value (pp_task_type (bu_proposal b)))
        (backend_value (rd_selected_backend (bu_decision b))) (w_clock w 4)
      else record_execution_outcome (w_free_mb w 4) f2 (er_run_id rq) (task_type_value (pp_task_type (bu_proposal b)))
        (xr_success res) (w_clock w 4) (Some (backend_value (rd_selected_backend (bu_decision b)))) None) = Inr f3"
    using qu oc by simp
  then show ?thesis by (auto simp: record_dispatch_def Let_def write_then_def f1 f2)
qed

lemma dispatch_returns:
  assumes "\<And>i. disk_ok (w_free_mb w i)"
  shows "\<exists>store' st' out. dispatch co w b ad rq pd store st = (store', st', Inr out)"
proof (cases store)
  case None
  then show ?thesis by (simp add: dispatch_def Let_def)
next
  case (Some f)
  have s: "\<exists>f'. record_execution_started (w_free_mb w i) f r bk t = Inr f'" for i f r bk t
    using w_started.writer_some assms unfolding disk_ok_iff by blast
  have fin: "\<exists>f'. record_execution_finished (w_free_mb w i) f r bk t = Inr f'" for i f r bk t
    using w_finished.writer_some assms unfolding disk_ok_iff by blast
  obtain f1 where f1: "record_execution_started (w_free_mb w 0) f (er_run_id rq)
      (backend_value (rd_selected_backend (bu_decision b))) (w_clock w 2) = Inr f1" using s by blast
  obtain f2 where f2: "record_execution_finished (w_free_mb w 1) f1 (er_run_id rq)
      (backend_value (rd_selected_backend (bu_decision b))) (w_clock w 3) = Inr f2" using fin by blast
  have "\<forall>res meta. \<exists>f3. record_dispatch w b rq res meta f2 = (f3, None)"
    using record_dispatch_returns [OF assms] by simp
  then obtain g where g: "\<forall>res meta. record_dispatch w b rq res meta f2 = (g res meta, None)"
    by metis
  show ?thesis by (simp add: dispatch_def Let_def Some f1 f2 [unfolded One_nat_def] g)
qed

definition sample_config :: policy_config where
  "sample_config =
     \<lparr>pc_repo_policies = [DEFAULT_REPO_POLICY\<lparr>rp_path_policy :=
        \<lparr>pth_rules = scope_rule ''src/*'' ''allow'' ''source tree'' # BLOCKED_PATHS @ SENSITIVE_PATHS, pth_default_mode = ''allow''\<rparr>\<rparr>],
      pc_default_policy = None\<rparr>"

definition sample_coordinator :: "health_registry option coordinator" where
  "sample_coordinator =
     \<lparr>co_adapters = (\<lambda>bk. if bk = TEAM_EXECUTOR then Some unavailable_adapter else None),
      co_policy = engine_policy sample_config, co_binding_policy = None, co_mk_binding = Inr,
      co_recovery_policy = default_recovery_policy\<lparr>rpol_max_attempts := 3\<rparr>,
      co_recovery_eval = engine_recovery (build_default_engine (Some (default_recovery_policy\<lparr>rpol_max_attempts := 3\<rparr>))) (\<lambda>_. 0),
      co_prepare = None, co_finalize = (\<lambda>rq r. Inr r),
      co_backend_caps = (\<lambda>bk. Some \<lparr>bcap_max_per_hour = Some 5, bcap_max_per_day = None, bcap_max_concurrent = Some 2,
        bcap_min_available_memory_mb = None\<rparr>),
      co_resource_gate = Some \<lparr>rg_max_concurrent = Some 1, rg_max_per_hour = Some 4, rg_max_per_day = None,
        rg_min_available_memory_mb = None\<rparr>\<rparr>"

definition sample_world :: world where
  "sample_world = \<lparr>w_clock = (\<lambda>i. td_days 1 + int i), w_free_mb = (\<lambda>_. None), w_meminfo = None,
     w_run_id = (\<lambda>i. if i = 0 then ''r0'' else ''r1''), w_provenance = (\<lambda>_. None), w_parse_reset = (\<lambda>_ _ _. None)\<rparr>"

definition sample_bundle :: work_bundle where
  "sample_bundle = \<lparr>bu_proposal = sample_proposal [''src/a.py''] [] LINT_FIX LOW, bu_decision = sample_decision CLAUDE_CLI TEAM_EXECUTOR\<rparr>"

definition sample_runtime :: runtime_context where
  "sample_runtime = \<lparr>rt_workspace_path = ''/w'', rt_task_branch = ''auto/t1'', rt_goal_file_path = None, rt_runtime_binding = None\<rparr>"

lemma sample_execute:
  obtains store' st' out where
    "execute sample_coordinator sample_world sample_bundle sample_runtime (Some None) None = (store', st', Inr out)"
    "out_executed out" "er_allowed_paths (out_request out) = [''src/a.py'']" "(0, out_request out) \<in> set (out_calls out)"
proof -
  let ?co = sample_coordinator and ?w = sample_world and ?b = sample_bundle and ?rt = sample_runtime
  let ?pd = "evaluate sample_config (bu_proposal ?b) (bu_decision ?b) (Some (judged_request ?co ?w ?b ?rt))"
  have "\<not> policy_stops ?pd" by code_simp
  moreover have "co_policy ?co (bu_proposal ?b) (bu_decision ?b) (judged_request ?co ?w ?b ?rt) = Inr ?pd"
    by (simp add: sample_coordinator_def engine_policy_def)
  moreover have "evaluate_resource_gate (Some None) (co_resource_gate ?co) (w_meminfo ?w) (w_clock ?w 0) = None"
    "evaluate_backend_caps (Some None) (co_backend_caps ?co) (backend_value (rd_selected_backend (bu_decision ?b)))
         (w_meminfo ?w) (w_clock ?w 1) = None"
    by code_simp+
  moreover have "co_adapters ?co (rd_selected_backend (bu_decision ?b)) = Some unavailable_adapter" "co_prepare ?co = None"
    by (simp_all add: sample_coordinator_def sample_bundle_def sample_decision_def)
  ultimately have "execute ?co ?w ?b ?rt (Some None) None =
      dispatch ?co ?w ?b unavailable_adapter (dispatched_request ?co ?w ?b ?rt ?pd) ?pd (Some None) None"
    unfolding execute_def Let_def judged_request_def [symmetric] dispatched_request_def [symmetric] by simp
  moreover obtain store' st' out where disp:
    "dispatch ?co ?w ?b unavailable_adapter (dispatched_request ?co ?w ?b ?rt ?pd) ?pd (Some None) None = (store', st', Inr out)"
    using dispatch_returns [of ?w] by (metis disk_ok_def option.simps(4) sample_world_def world.select_convs(2))
  ultimately have ex: "execute ?co ?w ?b ?rt (Some None) None = (store', st', Inr out)" by simp
  have "out_executed out" "out_request out = dispatched_request ?co ?w ?b ?rt ?pd" "(0, out_request out) \<in> set (out_calls out)"
    using dispatch_outcome [OF disp] recovery_loop_cleared hd_in_set by metis+
  moreover have "er_allowed_paths (dispatched_request ?co ?w ?b ?rt ?pd) = [''src/a.py'']" by code_simp
  ultimately show thesis using ex that by simp
qed

lemma executed_calls:
  assumes "execute co w b rt store st = (store', st', Inr out)" "out_executed out"
  shows "out_calls out \<noteq> []"
  using assms(1)
proof (cases rule: execute_cases)
  case (dispatched pd ad)
  then show ?thesis using dispatch_outcome recovery_loop_cleared by metis
qed (use assms(2) in simp)

section \<open>Properties\<close>

text \<open>
  C2: the policy gate is not bypassed: when \<open>execute\<close> returns an outcome marked as executed, the policy engine cleared
  the request before anything was sent, the first request an adapter saw is the one of the outcome, built from that
  decision, and every later one is the same object or was cleared again. When the outcome is not marked as executed,
  no adapter was called, neither the usage file nor the recovery state changed, and the result reports no success.
\<close>

theorem execution_gate:
  assumes "execute co w b rt store st = (store', st', Inr out)"
  shows "(out_executed out \<longrightarrow>
      (\<exists>pd. co_policy co (bu_proposal b) (bu_decision b) (judged_request co w b rt) = Inr pd \<and> \<not> policy_stops pd
         \<and> out_request out = dispatched_request co w b rt pd)
      \<and> out_calls out \<noteq> [] \<and> hd (out_calls out) = (0, out_request out)
      \<and> successively (cleared (co_policy co (bu_proposal b) (bu_decision b))) (out_calls out))
    \<and> (\<not> out_executed out \<longrightarrow> out_calls out = [] \<and> store' = store \<and> st' = st \<and> \<not> xr_success (out_result out)
         \<and> xr_status (out_result out) \<noteq> SUCCEEDED)"
  using assms
proof (cases rule: execute_cases)
  case (dispatched pd ad)
  let ?pol = "co_policy co (bu_proposal b) (bu_decision b)"
  have "out_executed out" "out_request out = dispatched_request co w b rt pd" "out_calls out \<noteq> []"
    "hd (out_calls out) = (0, out_request out)" "successively (cleared ?pol) (out_calls out)"
    using dispatch_outcome [OF dispatched(6)]
      recovery_loop_cleared [of ?pol "co_recovery_policy co" ad "co_recovery_eval co" "(0, dispatched_request co w b rt pd)" pd st]
    by simp_all
  then show ?thesis using dispatched(1,2) by blast
qed simp


theorem execution_gate_witness:
  "\<exists>store' st' out. execute sample_coordinator sample_world sample_bundle sample_runtime (Some None) None = (store', st', Inr out)
     \<and> hd (out_calls out) = (0, out_request out)"
proof -
  obtain store' st' out where
    "execute sample_coordinator sample_world sample_bundle sample_runtime (Some None) None = (store', st', Inr out)" "out_executed out"
    by (rule sample_execute)
  then show ?thesis using execution_gate [of sample_coordinator] by blast
qed

text \<open>
  C3: a restricted path never reaches a backend: with a validated policy configuration and the recovery engine
  \<open>build_default_engine\<close> builds, every path in the scope of every request an adapter is called with is free of the
  repository's path rules or falls under one that allows it.
\<close>

theorem restricted_paths_never_dispatched:
  assumes "execute co w b rt store st = (store', st', Inr out)"
    and "co_policy co = engine_policy e" "from_config cfg = Inr e"
    and "co_recovery_eval co = engine_recovery (build_default_engine (Some p)) clock"
    and "call \<in> set (out_calls out)" "path \<in> set (er_allowed_paths (snd call))"
    and "match_path_rule (pth_rules (rp_path_policy (get_repo_policy e (tt_repo_key (pp_target (bu_proposal b))))))
           (path, task_type_value (pp_task_type (bu_proposal b))) = Some r"
  shows "psr_access_mode r = ''allow''"
  using assms(1)
proof (cases rule: execute_cases)
  case refused
  then show ?thesis using assms(5) by simp
next
  case (dispatched pd ad)
  let ?rq = "dispatched_request co w b rt pd" and ?jr = "judged_request co w b rt"
  have rq: "?rq = ?jr\<lparr>er_run_id := w_run_id w 1, er_goal_text := py_replace ''{{RUN_ID}}'' (w_run_id w 1) (pp_goal_text (bu_proposal b))\<rparr>"
    using dispatched(1) assms(2) by (intro dispatched_judged) simp
  have "\<not> er_idempotent (snd (0::nat, ?rq))" by (simp add: dispatched_request_def build_def Let_def)
  then have "call = (0, ?rq)"
    using recovery_loop_same_request dispatch_outcome [OF dispatched(6)] assms(4,5) by metis
  then have path: "path \<in> set (candidate_paths (bu_proposal b) (Some ?jr))"
    using assms(6) unfolding rq judged_candidates by simp
  have wf: "wf_repo_policy (get_repo_policy e (tt_repo_key (pp_target (bu_proposal b))))"
    using assms(3) by (auto simp: from_config_Inr intro: wf_get_repo_policy)
  have "pd = evaluate e (bu_proposal b) (bu_decision b) (Some ?jr)"
    using dispatched(1) assms(2) by (simp add: engine_policy_def)
  then have "\<not> REQUIRE_REVIEW \<le> pd_status (evaluate e (bu_proposal b) (bu_decision b) (Some ?jr))"
    using dispatched(2) by (cases "pd_status pd") (auto simp: policy_stops_def policy_status_order)
  then show ?thesis
    using wf_path_status [OF wf path assms(7), of "bu_decision b"]
    by (cases "psr_access_mode r = ''block''") (auto simp: policy_status_order)
qed

theorem restricted_paths_never_dispatched_witness:
  "\<exists>store' st' out call r. execute sample_coordinator sample_world sample_bundle sample_runtime (Some None) None = (store', st', Inr out)
     \<and> call \<in> set (out_calls out) \<and> ''src/a.py'' \<in> set (er_allowed_paths (snd call))
     \<and> match_path_rule (pth_rules (rp_path_policy (get_repo_policy sample_config
          (tt_repo_key (pp_target (bu_proposal sample_bundle)))))) (''src/a.py'', task_type_value LINT_FIX) = Some r
     \<and> psr_access_mode r = ''allow''"
proof -
  let ?m = "match_path_rule (pth_rules (rp_path_policy (get_repo_policy sample_config
      (tt_repo_key (pp_target (bu_proposal sample_bundle))))))"
  let ?r = "scope_rule ''src/*'' ''allow'' ''source tree''"
  obtain store' st' out where ex:
    "execute sample_coordinator sample_world sample_bundle sample_runtime (Some None) None = (store', st', Inr out)"
    "er_allowed_paths (out_request out) = [''src/a.py'']" "(0, out_request out) \<in> set (out_calls out)"
    by (rule sample_execute)
  have "from_config sample_config = Inr sample_config" by code_simp
  moreover have "co_policy sample_coordinator = engine_policy sample_config"
    "co_recovery_eval sample_coordinator = engine_recovery (build_default_engine (Some (default_recovery_policy\<lparr>rpol_max_attempts := 3\<rparr>))) (\<lambda>_. 0)"
    "task_type_value LINT_FIX = task_type_value (pp_task_type (bu_proposal sample_bundle))"
    by (simp_all add: sample_coordinator_def sample_bundle_def sample_proposal_def)
  moreover have m: "?m (''src/a.py'', task_type_value LINT_FIX) = Some ?r" by code_simp
  ultimately have "psr_access_mode ?r = ''allow''"
    using restricted_paths_never_dispatched [OF ex(1) _ _ _ ex(3), of sample_config sample_config _ _ "''src/a.py''" ?r] ex(2)
    by simp
  then show ?thesis using ex m by force
qed

text \<open>
  C7: a dispatch happens within the configured capacity: when an outcome is marked as executed and a usage file is
  kept, then at the reading of the clock the gate took, the runs in flight and the executions of the last hour and day
  are below every limit the global gate and the selected backend's cap configure, and the available memory, where it
  can be read, is at least their floor.
\<close>

theorem dispatch_within_capacity:
  fixes co :: "'s coordinator" and w :: world and b :: work_bundle
  defines "backend \<equiv> backend_value (rd_selected_backend (bu_decision b))"
    and "t0 \<equiv> w_clock w 0" and "t1 \<equiv> w_clock w 1" and "mem \<equiv> available_memory_mb (w_meminfo w)"
  assumes "execute co w b rt (Some f) st = (store', st', Inr out)" "out_executed out"
  shows "(\<forall>g m. co_resource_gate co = Some g \<longrightarrow>
        (rg_max_concurrent g = Some m \<longrightarrow> total_concurrent_runs f t0 < m)
      \<and> (rg_max_per_hour g = Some m \<longrightarrow> matching_since (\<lambda>_. True) (pruned_events f t0) (t0 - td_hours 1) < m)
      \<and> (rg_max_per_day g = Some m \<longrightarrow> matching_since (\<lambda>_. True) (pruned_events f t0) (t0 - td_days 1) < m)
      \<and> (rg_min_available_memory_mb g = Some m \<longrightarrow> mem = 0 \<or> m \<le> mem))
    \<and> (\<forall>c m. co_backend_caps co backend = Some c \<longrightarrow>
        (bcap_max_concurrent c = Some m \<longrightarrow> concurrent_runs_for_backend f backend t1 < m)
      \<and> (bcap_max_per_hour c = Some m \<longrightarrow>
           matching_since (\<lambda>e. jget e ''backend'' = JStr backend) (pruned_events f t1) (t1 - td_hours 1) < m)
      \<and> (bcap_max_per_day c = Some m \<longrightarrow>
           matching_since (\<lambda>e. jget e ''backend'' = JStr backend) (pruned_events f t1) (t1 - td_days 1) < m)
      \<and> (bcap_min_available_memory_mb c = Some m \<longrightarrow> mem = 0 \<or> m \<le> mem))"
  using assms(5)
proof (cases rule: execute_cases)
  case refused
  then show ?thesis using assms(6) by simp
next
  case (dispatched pd ad)
  show ?thesis
    using gate_passed [OF dispatched(3)] caps_passed [OF dispatched(4)]
    unfolding backend_def t0_def t1_def mem_def by blast
qed

theorem dispatch_within_capacity_witness:
  "total_concurrent_runs None (w_clock sample_world 0) < 1
   \<and> concurrent_runs_for_backend None ''team_executor'' (w_clock sample_world 1) < 2"
proof -
  obtain store' st' out where ex:
    "execute sample_coordinator sample_world sample_bundle sample_runtime (Some None) None = (store', st', Inr out)" "out_executed out"
    by (rule sample_execute)
  have "rd_selected_backend (bu_decision sample_bundle) = TEAM_EXECUTOR" "backend_value TEAM_EXECUTOR = ''team_executor''"
    by (simp_all add: sample_bundle_def sample_decision_def)
  then show ?thesis
    using dispatch_within_capacity [OF ex] by (simp add: sample_coordinator_def)
qed



end
