(* ===== verification/Audit_Locks.thy ===== *)
theory Audit_Locks
  imports Json_Values "HOL-Library.List_Lexorder" "HOL-Library.Char_ord"
begin

text \<open>
  One audit per repository (\<open>audit_dispatch/lock_store.py\<close>, \<open>audit_dispatch/locks.py\<close>): the on-disk lock store and the
  registry each OperationsCenter process keeps over it.

  The lock directory is an association list from repository ids to lock files; a file either holds a payload or is
  corrupt, which is when \<open>read\<close> raises \<open>LockStoreCorruptError\<close>. What \<open>os.kill(pid, 0)\<close> finds is the set of live process
  ids, an argument. Each operation of the store runs under the file lock of its repository and is one atomic step; that
  a file lock may time out is modelled where the code catches the exception (\<open>release\<close>).
\<close>

section \<open>The payload\<close>

record lock_payload =
  lp_repo_id :: string
  lp_run_id :: string
  lp_audit_type :: string
  lp_oc_pid :: int
  lp_started_at :: string
  lp_command :: string
  lp_expected_run_status_path :: string
  lp_audit_pid :: "int option"
  lp_audit_pgid :: "int option"
  lp_owner_hostname :: string
  lp_schema_version :: int

definition LOCK_SCHEMA_VERSION :: int where
  "LOCK_SCHEMA_VERSION = 1"

definition opt_int_json :: "int option \<Rightarrow> json" where
  "opt_int_json v = (case v of None \<Rightarrow> JNull | Some n \<Rightarrow> JInt n)"

definition payload_to_json :: "lock_payload \<Rightarrow> event" where
  "payload_to_json p =
     [(''lock_schema_version'', JInt (lp_schema_version p)), (''repo_id'', JStr (lp_repo_id p)),
      (''run_id'', JStr (lp_run_id p)), (''audit_type'', JStr (lp_audit_type p)), (''oc_pid'', JInt (lp_oc_pid p)),
      (''audit_pid'', opt_int_json (lp_audit_pid p)), (''audit_pgid'', opt_int_json (lp_audit_pgid p)),
      (''started_at'', JStr (lp_started_at p)), (''command'', JStr (lp_command p)),
      (''expected_run_status_path'', JStr (lp_expected_run_status_path p)),
      (''owner_hostname'', JStr (lp_owner_hostname p))]"

text \<open>
  \<open>str(v)\<close> and \<open>int(v)\<close> on a JSON value. The text Python prints for a float, a list or an object is the argument
  \<open>rep\<close>; \<^const>\<open>None\<close> of \<open>json_int\<close> is \<open>ValueError\<close> or \<open>TypeError\<close>. A float is truncated towards zero.
\<close>

definition json_str :: "(json \<Rightarrow> string) \<Rightarrow> json \<Rightarrow> string" where
  "json_str rep v =
     (case v of JStr s \<Rightarrow> s | JInt n \<Rightarrow> show_int n | JBool b \<Rightarrow> (if b then ''True'' else ''False'') | JNull \<Rightarrow> ''None''
      | _ \<Rightarrow> rep v)"

definition json_int :: "json \<Rightarrow> int option" where
  "json_int v =
     (case v of JInt n \<Rightarrow> Some n | JBool b \<Rightarrow> Some (of_bool b) | JStr s \<Rightarrow> py_int (py_strip s)
      | JFloat x \<Rightarrow> Some (if x < 0 then \<lceil>x\<rceil> else \<lfloor>x\<rfloor>) | _ \<Rightarrow> None)"

text \<open>\<open>int(data[k]) if data.get(k) is not None else None\<close>: the outer \<^const>\<open>None\<close> is the exception.\<close>

definition json_opt_int :: "event \<Rightarrow> string \<Rightarrow> int option option" where
  "json_opt_int d k =
     (case map_of d k of None \<Rightarrow> Some None | Some JNull \<Rightarrow> Some None | Some v \<Rightarrow> map_option Some (json_int v))"

text \<open>\<open>PersistentLockPayload.from_json\<close>; \<^const>\<open>None\<close> is \<open>LockStoreCorruptError\<close>.\<close>

definition payload_from_json :: "(json \<Rightarrow> string) \<Rightarrow> string \<Rightarrow> event \<Rightarrow> lock_payload option" where
  "payload_from_json rep hostname d =
     Option.bind (map_of d ''repo_id'') (\<lambda>repo. Option.bind (map_of d ''run_id'') (\<lambda>run.
     Option.bind (map_of d ''audit_type'') (\<lambda>typ.
     Option.bind (Option.bind (map_of d ''oc_pid'') json_int) (\<lambda>oc.
     Option.bind (map_of d ''started_at'') (\<lambda>started. Option.bind (map_of d ''command'') (\<lambda>command.
     Option.bind (map_of d ''expected_run_status_path'') (\<lambda>path.
     Option.bind (json_opt_int d ''audit_pid'') (\<lambda>apid. Option.bind (json_opt_int d ''audit_pgid'') (\<lambda>apgid.
     Option.bind (case map_of d ''lock_schema_version'' of None \<Rightarrow> Some LOCK_SCHEMA_VERSION | Some v \<Rightarrow> json_int v) (\<lambda>ver.
       Some \<lparr>lp_repo_id = json_str rep repo, lp_run_id = json_str rep run, lp_audit_type = json_str rep typ,
             lp_oc_pid = oc, lp_started_at = json_str rep started, lp_command = json_str rep command,
             lp_expected_run_status_path = json_str rep path, lp_audit_pid = apid, lp_audit_pgid = apgid,
             lp_owner_hostname = (case map_of d ''owner_hostname'' of None \<Rightarrow> hostname | Some v \<Rightarrow> json_str rep v),
             lp_schema_version = ver\<rparr>))))))))))"

lemma payload_round_trip: "payload_from_json rep hostname (payload_to_json p) = Some p"
  by (cases p) (auto simp: payload_from_json_def payload_to_json_def json_opt_int_def opt_int_json_def json_str_def
      json_int_def split: option.split)

section \<open>Liveness\<close>

definition is_pid_alive :: "int set \<Rightarrow> int option \<Rightarrow> bool" where
  "is_pid_alive alive pid = (case pid of None \<Rightarrow> False | Some n \<Rightarrow> 0 < n \<and> n \<in> alive)"

definition payload_alive :: "int set \<Rightarrow> lock_payload \<Rightarrow> bool" where
  "payload_alive alive p = (is_pid_alive alive (Some (lp_oc_pid p)) \<or> is_pid_alive alive (lp_audit_pid p))"

lemma payload_alive_mono: "payload_alive alive p \<Longrightarrow> alive \<subseteq> alive' \<Longrightarrow> payload_alive alive' p"
  by (auto simp: payload_alive_def is_pid_alive_def split: option.splits)

section \<open>The lock store\<close>

datatype lock_file = CorruptFile | LockFile lock_payload

type_synonym lock_dir = "(string \<times> lock_file) list"

datatype lock_error = LockCorrupt | LockHeld lock_payload | LockHeldInProcess | NoLockToUpdate

definition store_read :: "lock_dir \<Rightarrow> string \<Rightarrow> lock_error + lock_payload option" where
  "store_read dir repo =
     (case map_of dir repo of
        None \<Rightarrow> Inr None | Some CorruptFile \<Rightarrow> Inl LockCorrupt | Some (LockFile p) \<Rightarrow> Inr (Some p))"

text \<open>The first-tier lock files: a stem with a dot in it is taken for a sentinel.\<close>

definition iter_lock_files :: "lock_dir \<Rightarrow> string list" where
  "iter_lock_files dir = filter (\<lambda>stem. CHR ''.'' \<notin> set stem) (sort (map fst dir))"

definition list_active :: "lock_dir \<Rightarrow> lock_payload list" where
  "list_active dir =
     List.map_filter (\<lambda>stem. case store_read dir stem of Inr p \<Rightarrow> p | Inl _ \<Rightarrow> None) (iter_lock_files dir)"

definition try_acquire :: "int set \<Rightarrow> lock_dir \<Rightarrow> lock_payload \<Rightarrow> lock_error + lock_dir" where
  "try_acquire alive dir p =
     (case store_read dir (lp_repo_id p) of
        Inl e \<Rightarrow> Inl e
      | Inr (Some existing) \<Rightarrow>
          if payload_alive alive existing then Inl (LockHeld existing)
          else Inr (AList.update (lp_repo_id p) (LockFile p) dir)
      | Inr None \<Rightarrow> Inr (AList.update (lp_repo_id p) (LockFile p) dir))"

definition store_release :: "lock_dir \<Rightarrow> string \<Rightarrow> lock_dir \<times> bool" where
  "store_release dir repo =
     (case map_of dir repo of None \<Rightarrow> (dir, False) | Some _ \<Rightarrow> (AList.delete repo dir, True))"

definition store_update ::
  "lock_dir \<Rightarrow> string \<Rightarrow> int option \<Rightarrow> int option \<Rightarrow> lock_error + lock_dir \<times> lock_payload" where
  "store_update dir repo audit_pid audit_pgid =
     (case store_read dir repo of
        Inl e \<Rightarrow> Inl e
      | Inr None \<Rightarrow> Inl NoLockToUpdate
      | Inr (Some existing) \<Rightarrow>
          (let updated = existing\<lparr>lp_audit_pid := audit_pid, lp_audit_pgid := audit_pgid\<rparr>
           in Inr (AList.update repo (LockFile updated) dir, updated)))"

definition reclaim_if_stale :: "int set \<Rightarrow> lock_dir \<Rightarrow> string \<Rightarrow> lock_dir \<times> bool" where
  "reclaim_if_stale alive dir repo =
     (case store_read dir repo of
        Inl _ \<Rightarrow> (AList.delete repo dir, True)
      | Inr None \<Rightarrow> (dir, False)
      | Inr (Some existing) \<Rightarrow> if payload_alive alive existing then (dir, False) else (AList.delete repo dir, True))"

fun sweep_files :: "int set \<Rightarrow> string list \<Rightarrow> lock_dir \<Rightarrow> lock_dir \<times> string list" where
  "sweep_files alive [] dir = (dir, [])"
| "sweep_files alive (stem # stems) dir =
     (let (dir', gone) = reclaim_if_stale alive dir stem; (dir'', more) = sweep_files alive stems dir'
      in (dir'', if gone then stem # more else more))"

definition sweep_stale :: "int set \<Rightarrow> lock_dir \<Rightarrow> lock_dir \<times> string list" where
  "sweep_stale alive dir = sweep_files alive (iter_lock_files dir) dir"

section \<open>The registry of a process\<close>

record lock_registry =
  reg_held :: "string set"
  reg_swept :: bool

definition new_registry :: lock_registry where
  "new_registry = \<lparr>reg_held = {}, reg_swept = False\<rparr>"

definition sweep_once :: "int set \<Rightarrow> lock_registry \<Rightarrow> lock_dir \<Rightarrow> lock_registry \<times> lock_dir" where
  "sweep_once alive reg dir =
     (if reg_swept reg then (reg, dir) else (reg\<lparr>reg_swept := True\<rparr>, fst (sweep_stale alive dir)))"

record acquire_args =
  aa_repo_id :: string
  aa_run_id :: "string option"
  aa_audit_type :: "string option"
  aa_oc_pid :: "int option"
  aa_command :: string
  aa_expected_run_status_path :: string

text \<open>The payload; \<open>own_pid\<close> is \<open>os.getpid()\<close>, \<open>now\<close> and \<open>hostname\<close> the texts of the clock and of the host.\<close>

definition acquire_payload :: "int \<Rightarrow> string \<Rightarrow> string \<Rightarrow> acquire_args \<Rightarrow> lock_payload" where
  "acquire_payload own_pid now hostname a =
     \<lparr>lp_repo_id = aa_repo_id a,
      lp_run_id = (if truthy_str (aa_run_id a) then or_empty (aa_run_id a) else ''legacy''),
      lp_audit_type = (if truthy_str (aa_audit_type a) then or_empty (aa_audit_type a) else ''unknown''),
      lp_oc_pid = (case aa_oc_pid a of None \<Rightarrow> own_pid | Some n \<Rightarrow> if n = 0 then own_pid else n),
      lp_started_at = now, lp_command = aa_command a, lp_expected_run_status_path = aa_expected_run_status_path a,
      lp_audit_pid = None, lp_audit_pgid = None, lp_owner_hostname = hostname,
      lp_schema_version = LOCK_SCHEMA_VERSION\<rparr>"

definition registry_acquire ::
  "int set \<Rightarrow> int \<Rightarrow> string \<Rightarrow> string \<Rightarrow> lock_registry \<Rightarrow> lock_dir \<Rightarrow> acquire_args
   \<Rightarrow> lock_registry \<times> lock_dir \<times> (lock_error + lock_payload)" where
  "registry_acquire alive own_pid now hostname reg0 dir0 a =
     (let (reg, dir) = sweep_once alive reg0 dir0
      in if aa_repo_id a \<in> reg_held reg then (reg, dir, Inl LockHeldInProcess)
         else (let p = acquire_payload own_pid now hostname a
               in case try_acquire alive dir p of
                    Inl e \<Rightarrow> (reg, dir, Inl e)
                  | Inr dir' \<Rightarrow> (reg\<lparr>reg_held := insert (aa_repo_id a) (reg_held reg)\<rparr>, dir', Inr p)))"

text \<open>\<open>io_ok\<close> is \<open>False\<close> when the store's release raises: the exception is logged and swallowed.\<close>

definition registry_release :: "bool \<Rightarrow> lock_registry \<Rightarrow> lock_dir \<Rightarrow> string \<Rightarrow> lock_registry \<times> lock_dir" where
  "registry_release io_ok reg dir repo =
     (reg\<lparr>reg_held := reg_held reg - {repo}\<rparr>, if io_ok then fst (store_release dir repo) else dir)"

definition is_held :: "int set \<Rightarrow> lock_registry \<Rightarrow> lock_dir \<Rightarrow> string \<Rightarrow> bool" where
  "is_held alive reg dir repo =
     (repo \<in> reg_held reg
      \<or> (case store_read dir repo of Inl _ \<Rightarrow> False | Inr None \<Rightarrow> False | Inr (Some p) \<Rightarrow> payload_alive alive p))"

record audit_lock =
  al_repo_id :: string
  al_released :: bool
  al_payload :: "lock_payload option"

definition lock_release ::
  "bool \<Rightarrow> audit_lock \<Rightarrow> lock_registry \<Rightarrow> lock_dir \<Rightarrow> audit_lock \<times> lock_registry \<times> lock_dir" where
  "lock_release io_ok l reg dir =
     (if al_released l then (l, reg, dir)
      else (l\<lparr>al_released := True\<rparr>, registry_release io_ok reg dir (al_repo_id l)))"

definition lock_update_audit_pid ::
  "audit_lock \<Rightarrow> lock_dir \<Rightarrow> int \<Rightarrow> int option \<Rightarrow> lock_error + audit_lock \<times> lock_dir" where
  "lock_update_audit_pid l dir audit_pid audit_pgid =
     (if al_payload l = None then Inr (l, dir)
      else case store_update dir (al_repo_id l) (Some audit_pid) audit_pgid of
             Inl e \<Rightarrow> Inl e
           | Inr (dir', p) \<Rightarrow> Inr (l\<lparr>al_payload := Some p\<rparr>, dir'))"

section \<open>Laws of the store\<close>

text \<open>A repository's lock file names the repository it is for.\<close>

definition held_by :: "lock_dir \<Rightarrow> string \<Rightarrow> lock_payload \<Rightarrow> bool" where
  "held_by dir repo p = (map_of dir repo = Some (LockFile p))"

lemma store_read_iff: "store_read dir repo = Inr (Some p) \<longleftrightarrow> held_by dir repo p"
  by (auto simp: store_read_def held_by_def split: option.splits lock_file.splits)

lemma store_read_held: "held_by dir repo p \<Longrightarrow> store_read dir repo = Inr (Some p)"
  by (simp add: store_read_iff)

lemma held_by_update [simp]: "held_by (AList.update repo (LockFile p) dir) r q \<longleftrightarrow> (if r = repo then q = p else held_by dir r q)"
  by (auto simp: held_by_def update_conv')

lemma held_by_delete [simp]: "held_by (AList.delete repo dir) r q \<longleftrightarrow> r \<noteq> repo \<and> held_by dir r q"
  by (auto simp: held_by_def delete_conv')

lemma held_by_unique: "held_by dir r p \<Longrightarrow> held_by dir r q \<Longrightarrow> p = q"
  by (simp add: held_by_def)

lemma reclaim_keeps_alive:
  assumes "held_by dir r p" "payload_alive alive p"
  shows "held_by (fst (reclaim_if_stale alive dir repo)) r p"
proof (cases "r = repo")
  case True
  then show ?thesis using assms by (simp add: reclaim_if_stale_def store_read_held)
next
  case False
  then show ?thesis using assms by (auto simp: reclaim_if_stale_def split: sum.split option.split)
qed

lemma fst_sweep_files: "fst (sweep_files alive (stem # stems) dir) = fst (sweep_files alive stems (fst (reclaim_if_stale alive dir stem)))"
  by (simp add: Let_def split: prod.split)

lemma sweep_files_keeps_alive:
  "held_by dir r p \<Longrightarrow> payload_alive alive p \<Longrightarrow> held_by (fst (sweep_files alive stems dir)) r p"
proof (induction stems arbitrary: dir)
  case (Cons stem stems)
  then show ?case unfolding fst_sweep_files by (simp add: reclaim_keeps_alive)
qed simp

lemma sweep_once_keeps_alive:
  "held_by dir r p \<Longrightarrow> payload_alive alive p \<Longrightarrow> held_by (snd (sweep_once alive reg dir)) r p"
  by (simp add: sweep_once_def sweep_stale_def sweep_files_keeps_alive)

lemma sweep_once_held [simp]: "reg_held (fst (sweep_once alive reg dir)) = reg_held reg"
  by (simp add: sweep_once_def)

end
