(* ===== verification/Audit_Lock_Safety.thy ===== *)
theory Audit_Lock_Safety
  imports Audit_Locks
begin

text \<open>
  Mutual exclusion of audits. The system is a set of live processes, the lock directory they share, the registry of each
  OperationsCenter process and one \<open>session\<close> per lock that was acquired and not released: the process that dispatched the
  audit while it lives, the audit's own process while it runs, and whether its id has been recorded in the lock file.
  Processes start and die at any time; a dispatcher acquires, spawns the audit, records its id (\<open>on_spawn\<close>) and
  releases once the audit's process has ended, as \<open>dispatch_managed_audit\<close> does.
\<close>

record audit_session =
  se_repo :: string
  se_owner :: "int option"
  se_audit :: "int option"
  se_recorded :: bool

record lock_system =
  sys_alive :: "int set"
  sys_dir :: lock_dir
  sys_reg :: "int \<Rightarrow> lock_registry"
  sys_sessions :: "audit_session list"

definition forget_pid :: "int \<Rightarrow> audit_session \<Rightarrow> audit_session" where
  "forget_pid n s =
     s\<lparr>se_owner := (if se_owner s = Some n then None else se_owner s),
       se_audit := (if se_audit s = Some n then None else se_audit s)\<rparr>"

definition remove_nth :: "nat \<Rightarrow> 'a list \<Rightarrow> 'a list" where
  "remove_nth i xs = take i xs @ drop (Suc i) xs"

inductive lock_step :: "lock_system \<Rightarrow> lock_system \<Rightarrow> bool" where
  start: "lock_step s (s\<lparr>sys_alive := insert n (sys_alive s), sys_reg := (sys_reg s)(n := new_registry)\<rparr>)"
    if "0 < n" "n \<notin> sys_alive s"
| stop: "lock_step s (s\<lparr>sys_alive := sys_alive s - {n}, sys_sessions := map (forget_pid n) (sys_sessions s)\<rparr>)"
    if "n \<in> sys_alive s"
| acquire: "lock_step s (s\<lparr>sys_dir := dir', sys_reg := (sys_reg s)(n := reg'),
      sys_sessions := sys_sessions s @ [\<lparr>se_repo = aa_repo_id a, se_owner = Some n, se_audit = None, se_recorded = False\<rparr>]\<rparr>)"
    if "n \<in> sys_alive s" "0 < n" "aa_oc_pid a = Some n"
      "registry_acquire (sys_alive s) n now hostname (sys_reg s n) (sys_dir s) a = (reg', dir', Inr p)"
| refuse: "lock_step s (s\<lparr>sys_dir := dir', sys_reg := (sys_reg s)(n := reg')\<rparr>)"
    if "n \<in> sys_alive s"
      "registry_acquire (sys_alive s) n now hostname (sys_reg s n) (sys_dir s) a = (reg', dir', Inl e)"
| spawn: "lock_step s (s\<lparr>sys_alive := insert m (sys_alive s), sys_reg := (sys_reg s)(m := new_registry),
      sys_sessions := (sys_sessions s)[i := (sys_sessions s ! i)\<lparr>se_audit := Some m, se_recorded := False\<rparr>]\<rparr>)"
    if "i < length (sys_sessions s)" "se_owner (sys_sessions s ! i) \<noteq> None" "se_audit (sys_sessions s ! i) = None"
      "0 < m" "m \<notin> sys_alive s"
| record_pid: "lock_step s (s\<lparr>sys_dir := dir', sys_sessions := (sys_sessions s)[i := (sys_sessions s ! i)\<lparr>se_recorded := True\<rparr>]\<rparr>)"
    if "i < length (sys_sessions s)" "se_owner (sys_sessions s ! i) \<noteq> None"
      "se_audit (sys_sessions s ! i) = None \<or> se_audit (sys_sessions s ! i) = Some m"
      "store_update (sys_dir s) (se_repo (sys_sessions s ! i)) (Some m) pgid = Inr (dir', p)"
| release: "lock_step s (s\<lparr>sys_dir := dir', sys_reg := (sys_reg s)(n := reg'), sys_sessions := remove_nth i (sys_sessions s)\<rparr>)"
    if "i < length (sys_sessions s)" "se_owner (sys_sessions s ! i) = Some n" "se_audit (sys_sessions s ! i) = None"
      "registry_release io_ok (sys_reg s n) (sys_dir s) (se_repo (sys_sessions s ! i)) = (reg', dir')"

text \<open>Any lock directory may be there at first, with stale locks and corrupt files in it.\<close>

inductive lock_reachable :: "lock_system \<Rightarrow> bool" where
  initial: "lock_reachable \<lparr>sys_alive = alive, sys_dir = dir, sys_reg = (\<lambda>_. new_registry), sys_sessions = []\<rparr>"
| step: "lock_reachable s \<Longrightarrow> lock_step s s' \<Longrightarrow> lock_reachable s'"

section \<open>The invariant\<close>

text \<open>A session excludes others while its dispatcher lives or its recorded audit runs.\<close>

definition protects :: "audit_session \<Rightarrow> bool" where
  "protects se = (se_owner se \<noteq> None \<or> (se_audit se \<noteq> None \<and> se_recorded se))"

definition session_ok :: "lock_system \<Rightarrow> audit_session \<Rightarrow> bool" where
  "session_ok s se =
     ((\<forall>n. se_owner se = Some n \<longrightarrow> 0 < n \<and> n \<in> sys_alive s \<and> se_repo se \<in> reg_held (sys_reg s n))
      \<and> (\<forall>m. se_audit se = Some m \<longrightarrow> 0 < m \<and> m \<in> sys_alive s)
      \<and> (protects se \<longrightarrow> (\<exists>p. held_by (sys_dir s) (se_repo se) p
           \<and> (\<forall>n. se_owner se = Some n \<longrightarrow> lp_oc_pid p = n)
           \<and> (\<forall>m. se_audit se = Some m \<and> se_recorded se \<longrightarrow> lp_audit_pid p = Some m))))"

definition exclusive :: "audit_session list \<Rightarrow> bool" where
  "exclusive ss = sorted_wrt (\<lambda>a b. protects a \<and> protects b \<longrightarrow> se_repo a \<noteq> se_repo b) ss"

definition lock_inv :: "lock_system \<Rightarrow> bool" where
  "lock_inv s = ((\<forall>se \<in> set (sys_sessions s). session_ok s se) \<and> exclusive (sys_sessions s))"

lemma session_payload_alive:
  assumes "session_ok s se" "protects se"
  obtains p where "held_by (sys_dir s) (se_repo se) p" "payload_alive (sys_alive s) p"
proof -
  obtain p where p: "held_by (sys_dir s) (se_repo se) p" "\<And>n. se_owner se = Some n \<Longrightarrow> lp_oc_pid p = n"
      "\<And>m. se_audit se = Some m \<Longrightarrow> se_recorded se \<Longrightarrow> lp_audit_pid p = Some m"
    using assms unfolding session_ok_def by blast
  then have "payload_alive (sys_alive s) p"
    using assms by (cases "se_owner se") (auto simp: session_ok_def protects_def payload_alive_def is_pid_alive_def)
  then show thesis using p(1) that by blast
qed

text \<open>A change of the directory and of the live processes that keeps the lock of a protected session keeps it in order.\<close>

lemma session_ok_frame:
  assumes "session_ok s se" "sys_alive s \<subseteq> sys_alive s'"
    and "\<And>n. se_owner se = Some n \<Longrightarrow> se_repo se \<in> reg_held (sys_reg s n) \<Longrightarrow> se_repo se \<in> reg_held (sys_reg s' n)"
    and "\<And>p. protects se \<Longrightarrow> held_by (sys_dir s) (se_repo se) p \<Longrightarrow> payload_alive (sys_alive s) p \<Longrightarrow> held_by (sys_dir s') (se_repo se) p"
  shows "session_ok s' se"
proof -
  have "\<exists>p. held_by (sys_dir s') (se_repo se) p \<and> (\<forall>n. se_owner se = Some n \<longrightarrow> lp_oc_pid p = n)
      \<and> (\<forall>m. se_audit se = Some m \<and> se_recorded se \<longrightarrow> lp_audit_pid p = Some m)" if pr: "protects se"
  proof -
    obtain q where q: "held_by (sys_dir s) (se_repo se) q" "payload_alive (sys_alive s) q"
      using assms(1) pr by (rule session_payload_alive)
    then have "held_by (sys_dir s') (se_repo se) q" using assms(4) pr by blast
    then show ?thesis using assms(1) pr q(1) held_by_unique unfolding session_ok_def by blast
  qed
  then show ?thesis using assms(1-3) unfolding session_ok_def by blast
qed

section \<open>Exclusion under list changes\<close>

lemma exclusive_sub: "exclusive ss \<Longrightarrow> (\<And>se. se_repo (f se) = se_repo se \<and> (protects (f se) \<longrightarrow> protects se))
    \<Longrightarrow> exclusive (map f ss)"
  unfolding exclusive_def sorted_wrt_map by (erule sorted_wrt_mono_rel [rotated]) auto

lemma exclusive_snoc: "exclusive (ss @ [x]) \<longleftrightarrow>
    exclusive ss \<and> (protects x \<longrightarrow> (\<forall>se \<in> set ss. protects se \<longrightarrow> se_repo se \<noteq> se_repo x))"
  by (auto simp: exclusive_def sorted_wrt_append)

lemma exclusive_update:
  assumes "i < length ss" "protects (ss ! i)" "se_repo x = se_repo (ss ! i)" "exclusive ss"
  shows "exclusive (ss[i := x])"
proof -
  have "exclusive (take i ss @ ss ! i # drop (Suc i) ss)" using assms(1,4) by (simp add: id_take_nth_drop [symmetric])
  then show ?thesis
    using assms(2,3) unfolding upd_conv_take_nth_drop [OF assms(1)]
    by (auto simp: exclusive_def sorted_wrt_append)
qed

lemma remove_nth_split:
  assumes "i < length ss"
  shows "exclusive ss \<Longrightarrow> exclusive (remove_nth i ss)" and "set (remove_nth i ss) \<subseteq> set ss"
    and "exclusive ss \<Longrightarrow> protects (ss ! i) \<Longrightarrow> se \<in> set (remove_nth i ss) \<Longrightarrow> protects se \<Longrightarrow> se_repo se \<noteq> se_repo (ss ! i)"
proof -
  have s: "exclusive ss \<longleftrightarrow> exclusive (take i ss @ ss ! i # drop (Suc i) ss)" using assms by (simp add: id_take_nth_drop [symmetric])
  then show "exclusive ss \<Longrightarrow> exclusive (remove_nth i ss)"
    "exclusive ss \<Longrightarrow> protects (ss ! i) \<Longrightarrow> se \<in> set (remove_nth i ss) \<Longrightarrow> protects se \<Longrightarrow> se_repo se \<noteq> se_repo (ss ! i)"
    by (auto simp: exclusive_def remove_nth_def sorted_wrt_append)
  show "set (remove_nth i ss) \<subseteq> set ss"
    by (auto simp: remove_nth_def dest: in_set_takeD in_set_dropD)
qed

lemma exclusive_others:
  assumes "exclusive ss" "i < length ss" "protects (ss ! i)" "se \<in> set (ss[i := x])" "se \<noteq> x" "protects se"
  shows "se_repo se \<noteq> se_repo (ss ! i)"
proof -
  have "set (ss[i := x]) \<subseteq> insert x (set (remove_nth i ss))"
    using assms(2) by (simp add: remove_nth_def upd_conv_take_nth_drop)
  then show ?thesis using remove_nth_split(3) [OF assms(2,1,3)] assms(4-6) by blast
qed

section \<open>Every step keeps it\<close>

lemma lock_invI: "(\<And>se. se \<in> set (sys_sessions s) \<Longrightarrow> session_ok s se) \<Longrightarrow> exclusive (sys_sessions s) \<Longrightarrow> lock_inv s"
  by (simp add: lock_inv_def)

lemma start_inv:
  assumes "lock_inv s" "n \<notin> sys_alive s"
  shows "lock_inv (s\<lparr>sys_alive := insert n (sys_alive s), sys_reg := (sys_reg s)(n := new_registry)\<rparr>)"
proof (rule lock_invI)
  fix se
  assume "se \<in> set (sys_sessions (s\<lparr>sys_alive := insert n (sys_alive s), sys_reg := (sys_reg s)(n := new_registry)\<rparr>))"
  then have ok: "session_ok s se" using assms(1) by (simp add: lock_inv_def)
  show "session_ok (s\<lparr>sys_alive := insert n (sys_alive s), sys_reg := (sys_reg s)(n := new_registry)\<rparr>) se"
    by (rule session_ok_frame [OF ok]) (use ok assms(2) in \<open>auto simp: session_ok_def\<close>)
qed (use assms(1) in \<open>simp add: lock_inv_def\<close>)

lemma stop_inv:
  assumes "lock_inv s"
  shows "lock_inv (s\<lparr>sys_alive := sys_alive s - {n}, sys_sessions := map (forget_pid n) (sys_sessions s)\<rparr>)"
proof (rule lock_invI)
  fix se'
  assume "se' \<in> set (sys_sessions (s\<lparr>sys_alive := sys_alive s - {n}, sys_sessions := map (forget_pid n) (sys_sessions s)\<rparr>))"
  then obtain se where se: "se \<in> set (sys_sessions s)" "se' = forget_pid n se" by auto
  then have ok: "session_ok s se" using assms by (simp add: lock_inv_def)
  have "protects se' \<Longrightarrow> protects se" by (auto simp: se(2) protects_def forget_pid_def split: if_splits)
  then show "session_ok (s\<lparr>sys_alive := sys_alive s - {n}, sys_sessions := map (forget_pid n) (sys_sessions s)\<rparr>) se'"
    using ok unfolding se(2) session_ok_def by (auto simp: forget_pid_def split: if_splits)
next
  show "exclusive (sys_sessions (s\<lparr>sys_alive := sys_alive s - {n}, sys_sessions := map (forget_pid n) (sys_sessions s)\<rparr>))"
    using assms exclusive_sub [of "sys_sessions s" "forget_pid n"]
    by (auto simp: lock_inv_def protects_def forget_pid_def split: if_splits)
qed

lemma refuse_inv:
  assumes "lock_inv s" "registry_acquire (sys_alive s) n now hostname (sys_reg s n) (sys_dir s) a = (reg', dir', Inl e)"
  shows "lock_inv (s\<lparr>sys_dir := dir', sys_reg := (sys_reg s)(n := reg')\<rparr>)"
proof (rule lock_invI)
  have reg: "reg_held reg' = reg_held (sys_reg s n)" "dir' = snd (sweep_once (sys_alive s) (sys_reg s n) (sys_dir s))"
    using assms(2) by (auto simp: registry_acquire_def Let_def case_prod_beta split: if_splits sum.splits)
  fix se
  assume "se \<in> set (sys_sessions (s\<lparr>sys_dir := dir', sys_reg := (sys_reg s)(n := reg')\<rparr>))"
  then have ok: "session_ok s se" using assms(1) by (simp add: lock_inv_def)
  show "session_ok (s\<lparr>sys_dir := dir', sys_reg := (sys_reg s)(n := reg')\<rparr>) se"
    by (rule session_ok_frame [OF ok]) (auto simp: reg sweep_once_keeps_alive)
qed (use assms(1) in \<open>simp add: lock_inv_def\<close>)

lemma acquire_ok:
  assumes "registry_acquire alive n now hostname reg dir a = (reg', dir', Inr p)"
  shows "p = acquire_payload n now hostname a" "aa_repo_id a \<notin> reg_held reg" "reg_held reg' = insert (aa_repo_id a) (reg_held reg)"
    and "dir' = AList.update (aa_repo_id a) (LockFile p) (snd (sweep_once alive reg dir))"
    and "\<And>q. held_by dir (aa_repo_id a) q \<Longrightarrow> \<not> payload_alive alive q"
proof -
  let ?reg = "fst (sweep_once alive reg dir)" and ?dir = "snd (sweep_once alive reg dir)" and ?p = "acquire_payload n now hostname a"
  have a: "aa_repo_id a \<notin> reg_held ?reg" "try_acquire alive ?dir ?p = Inr dir'" "p = ?p"
      "reg' = ?reg\<lparr>reg_held := insert (aa_repo_id a) (reg_held ?reg)\<rparr>"
    using assms unfolding registry_acquire_def Let_def case_prod_beta by (simp_all split: if_splits sum.splits)
  have repo: "lp_repo_id ?p = aa_repo_id a" by (simp add: acquire_payload_def)
  show "p = ?p" "aa_repo_id a \<notin> reg_held reg" "reg_held reg' = insert (aa_repo_id a) (reg_held reg)"
    "dir' = AList.update (aa_repo_id a) (LockFile p) ?dir"
    using a by (auto simp: try_acquire_def repo split: sum.splits option.splits if_splits)
  show "\<not> payload_alive alive q" if "held_by dir (aa_repo_id a) q" for q
  proof
    assume "payload_alive alive q"
    then have "store_read ?dir (aa_repo_id a) = Inr (Some q)" using that sweep_once_keeps_alive store_read_held by blast
    then show False using a(2) \<open>payload_alive alive q\<close> by (simp add: try_acquire_def repo)
  qed
qed

lemma acquire_inv:
  assumes inv: "lock_inv s" and n: "n \<in> sys_alive s" "0 < n" "aa_oc_pid a = Some n"
    and acq: "registry_acquire (sys_alive s) n now hostname (sys_reg s n) (sys_dir s) a = (reg', dir', Inr p)"
  defines "new \<equiv> \<lparr>se_repo = aa_repo_id a, se_owner = Some n, se_audit = None, se_recorded = False\<rparr>"
  shows "lock_inv (s\<lparr>sys_dir := dir', sys_reg := (sys_reg s)(n := reg'), sys_sessions := sys_sessions s @ [new]\<rparr>)"
proof (rule lock_invI)
  let ?s' = "s\<lparr>sys_dir := dir', sys_reg := (sys_reg s)(n := reg'), sys_sessions := sys_sessions s @ [new]\<rparr>"
  note acq' = acquire_ok [OF acq]
  have other: "se_repo se \<noteq> aa_repo_id a" if "se \<in> set (sys_sessions s)" "protects se" for se
    using inv that acq'(5) session_payload_alive [of s se] unfolding lock_inv_def by metis
  show "exclusive (sys_sessions ?s')"
    using inv other by (auto simp: exclusive_snoc lock_inv_def new_def)
  fix se
  assume "se \<in> set (sys_sessions ?s')"
  then consider "se = new" | "se \<in> set (sys_sessions s)" by auto
  then show "session_ok ?s' se"
  proof cases
    case 1
    then show ?thesis using n acq'(1,3,4) by (simp add: new_def session_ok_def acquire_payload_def)
  next
    case 2
    then have ok: "session_ok s se" using inv by (simp add: lock_inv_def)
    show ?thesis
      by (rule session_ok_frame [OF ok]) (use other [OF 2] acq'(3,4) in \<open>auto simp: sweep_once_keeps_alive\<close>)
  qed
qed

lemma spawn_inv:
  assumes inv: "lock_inv s" and i: "i < length (sys_sessions s)" "se_owner (sys_sessions s ! i) \<noteq> None"
    and m: "0 < m" "m \<notin> sys_alive s"
  defines "new \<equiv> (sys_sessions s ! i)\<lparr>se_audit := Some m, se_recorded := False\<rparr>"
  shows "lock_inv (s\<lparr>sys_alive := insert m (sys_alive s), sys_reg := (sys_reg s)(m := new_registry),
      sys_sessions := (sys_sessions s)[i := new]\<rparr>)"
proof (rule lock_invI)
  let ?s' = "s\<lparr>sys_alive := insert m (sys_alive s), sys_reg := (sys_reg s)(m := new_registry), sys_sessions := (sys_sessions s)[i := new]\<rparr>"
  have ok: "session_ok s (sys_sessions s ! i)" using inv i(1) by (simp add: lock_inv_def)
  have pr: "protects (sys_sessions s ! i)" using i(2) by (simp add: protects_def)
  show "exclusive (sys_sessions ?s')"
    using inv exclusive_update [OF i(1) pr] by (simp add: lock_inv_def new_def)
  fix se
  assume "se \<in> set (sys_sessions ?s')"
  then consider "se = new" | "se \<in> set (sys_sessions s)" using set_update_subset_insert by fastforce
  then show "session_ok ?s' se"
  proof cases
    case 1
    then show ?thesis using ok pr m i(2) by (auto simp: new_def session_ok_def)
  next
    case 2
    then have ok': "session_ok s se" using inv by (simp add: lock_inv_def)
    show ?thesis by (rule session_ok_frame [OF ok']) (use ok' m(2) in \<open>auto simp: session_ok_def\<close>)
  qed
qed

lemma record_inv:
  assumes inv: "lock_inv s" and i: "i < length (sys_sessions s)" "se_owner (sys_sessions s ! i) \<noteq> None"
    and m: "se_audit (sys_sessions s ! i) = None \<or> se_audit (sys_sessions s ! i) = Some m"
    and upd: "store_update (sys_dir s) (se_repo (sys_sessions s ! i)) (Some m) pgid = Inr (dir', p)"
  defines "new \<equiv> (sys_sessions s ! i)\<lparr>se_recorded := True\<rparr>"
  shows "lock_inv (s\<lparr>sys_dir := dir', sys_sessions := (sys_sessions s)[i := new]\<rparr>)"
proof (rule lock_invI)
  let ?s' = "s\<lparr>sys_dir := dir', sys_sessions := (sys_sessions s)[i := new]\<rparr>" and ?old = "sys_sessions s ! i"
  have ok: "session_ok s ?old" using inv i(1) by (simp add: lock_inv_def)
  have pr: "protects ?old" using i(2) by (simp add: protects_def)
  have ex: "exclusive (sys_sessions s)" using inv by (simp add: lock_inv_def)
  then show "exclusive (sys_sessions ?s')"
    using exclusive_update [OF i(1) pr] by (simp add: new_def)
  obtain q where q: "held_by (sys_dir s) (se_repo ?old) q" "\<And>n. se_owner ?old = Some n \<Longrightarrow> lp_oc_pid q = n"
    using ok pr unfolding session_ok_def by blast
  then have dir': "dir' = AList.update (se_repo ?old) (LockFile (q\<lparr>lp_audit_pid := Some m, lp_audit_pgid := pgid\<rparr>)) (sys_dir s)"
    using upd by (auto simp: store_update_def store_read_held Let_def)
  fix se
  assume se: "se \<in> set (sys_sessions ?s')"
  show "session_ok ?s' se"
  proof (cases "se = new")
    case True
    then show ?thesis using ok q m by (auto simp: new_def session_ok_def dir')
  next
    case False
    then have "se \<in> set (sys_sessions s)" using se set_update_subset_insert by fastforce
    then have ok': "session_ok s se" using inv by (simp add: lock_inv_def)
    have "protects se \<Longrightarrow> se_repo se \<noteq> se_repo ?old"
      using exclusive_others [OF ex i(1) pr _ False] se by simp
    then show ?thesis by (intro session_ok_frame [OF ok']) (auto simp: dir')
  qed
qed

lemma release_inv:
  assumes inv: "lock_inv s" and i: "i < length (sys_sessions s)" "se_owner (sys_sessions s ! i) = Some n"
    and rel: "registry_release io_ok (sys_reg s n) (sys_dir s) (se_repo (sys_sessions s ! i)) = (reg', dir')"
  shows "lock_inv (s\<lparr>sys_dir := dir', sys_reg := (sys_reg s)(n := reg'), sys_sessions := remove_nth i (sys_sessions s)\<rparr>)"
proof (rule lock_invI)
  let ?s' = "s\<lparr>sys_dir := dir', sys_reg := (sys_reg s)(n := reg'), sys_sessions := remove_nth i (sys_sessions s)\<rparr>"
  let ?old = "sys_sessions s ! i"
  have ex: "exclusive (sys_sessions s)" using inv by (simp add: lock_inv_def)
  then show "exclusive (sys_sessions ?s')" by (simp add: remove_nth_split(1) [OF i(1)])
  have pr: "protects ?old" using i(2) by (simp add: protects_def)
  have reg': "reg_held reg' = reg_held (sys_reg s n) - {se_repo ?old}"
    and dir': "dir' = (if io_ok then fst (store_release (sys_dir s) (se_repo ?old)) else sys_dir s)"
    using rel by (auto simp: registry_release_def)
  fix se
  assume "se \<in> set (sys_sessions ?s')"
  then have se: "se \<in> set (remove_nth i (sys_sessions s))" by simp
  then have ok: "session_ok s se" using inv remove_nth_split(2) [OF i(1)] by (auto simp: lock_inv_def)
  have ne: "protects se \<Longrightarrow> se_repo se \<noteq> se_repo ?old" by (rule remove_nth_split(3) [OF i(1) ex pr se])
  have "se_owner se = Some n \<Longrightarrow> se_repo se \<noteq> se_repo ?old" using ne by (simp add: protects_def)
  then show "session_ok ?s' se"
    using ne by (intro session_ok_frame [OF ok]) (auto simp: reg' dir' store_release_def split: option.split)
qed

lemma lock_step_inv: "lock_step s s' \<Longrightarrow> lock_inv s \<Longrightarrow> lock_inv s'"
  by (induction rule: lock_step.induct)
    (simp_all add: start_inv stop_inv acquire_inv refuse_inv spawn_inv record_inv release_inv)

lemma initial_inv: "lock_inv \<lparr>sys_alive = alive, sys_dir = dir, sys_reg = (\<lambda>_. new_registry), sys_sessions = []\<rparr>"
  by (simp add: lock_inv_def exclusive_def)

lemma reachable_inv: "lock_reachable s \<Longrightarrow> lock_inv s"
  by (induction rule: lock_reachable.induct) (simp_all add: initial_inv lock_step_inv)

section \<open>What acquire decides\<close>

definition stale_file :: "int set \<Rightarrow> lock_file \<Rightarrow> bool" where
  "stale_file alive f = (case f of CorruptFile \<Rightarrow> True | LockFile p \<Rightarrow> \<not> payload_alive alive p)"

lemma map_of_reclaim:
  "map_of (fst (reclaim_if_stale alive dir repo)) r =
     (if r = repo \<and> (\<exists>f. map_of dir r = Some f \<and> stale_file alive f) then None else map_of dir r)"
  by (auto simp: reclaim_if_stale_def store_read_def stale_file_def delete_conv' split: option.splits lock_file.splits)

lemma map_of_sweep_files:
  "map_of (fst (sweep_files alive stems dir)) r =
     (if r \<in> set stems \<and> (\<exists>f. map_of dir r = Some f \<and> stale_file alive f) then None else map_of dir r)"
proof (induction stems arbitrary: dir)
  case (Cons stem stems)
  show ?case unfolding fst_sweep_files Cons.IH by (auto simp: map_of_reclaim)
qed simp

lemma map_of_sweep_once:
  "map_of (snd (sweep_once alive reg dir)) r =
     (if \<not> reg_swept reg \<and> CHR ''.'' \<notin> set r \<and> (\<exists>f. map_of dir r = Some f \<and> stale_file alive f) then None else map_of dir r)"
proof -
  have "r \<in> set (iter_lock_files dir)" if "map_of dir r = Some f" "CHR ''.'' \<notin> set r" for f
    using that map_of_SomeD by (force simp: iter_lock_files_def)
  then show ?thesis
    by (auto simp: sweep_once_def sweep_stale_def map_of_sweep_files iter_lock_files_def)
qed

section \<open>Properties\<close>


definition sample_args :: "int \<Rightarrow> acquire_args" where
  "sample_args n = \<lparr>aa_repo_id = ''repo'', aa_run_id = Some ''run'', aa_audit_type = Some ''full'', aa_oc_pid = Some n,
     aa_command = ''audit'', aa_expected_run_status_path = ''out''\<rparr>"

text \<open>A dispatcher crashes between starting the audit and recording its process id, and another one takes the lock.\<close>

definition crash0 :: lock_system where
  "crash0 = \<lparr>sys_alive = {10, 20}, sys_dir = [], sys_reg = (\<lambda>_. new_registry), sys_sessions = []\<rparr>"

definition acquired_by :: "int \<Rightarrow> lock_system \<Rightarrow> lock_system" where
  "acquired_by n s = (case registry_acquire (sys_alive s) n ''t'' ''h'' (sys_reg s n) (sys_dir s) (sample_args n) of
     (reg', dir', r) \<Rightarrow> s\<lparr>sys_dir := dir', sys_reg := (sys_reg s)(n := reg'), sys_sessions := sys_sessions s @
       [\<lparr>se_repo = aa_repo_id (sample_args n), se_owner = Some n, se_audit = None, se_recorded = False\<rparr>]\<rparr>)"

definition spawned :: "nat \<Rightarrow> int \<Rightarrow> lock_system \<Rightarrow> lock_system" where
  "spawned i m s = s\<lparr>sys_alive := insert m (sys_alive s), sys_reg := (sys_reg s)(m := new_registry),
      sys_sessions := (sys_sessions s)[i := (sys_sessions s ! i)\<lparr>se_audit := Some m, se_recorded := False\<rparr>]\<rparr>"

definition stopped :: "int \<Rightarrow> lock_system \<Rightarrow> lock_system" where
  "stopped n s = s\<lparr>sys_alive := sys_alive s - {n}, sys_sessions := map (forget_pid n) (sys_sessions s)\<rparr>"

lemma acquired_by_reachable:
  assumes "lock_reachable s" "n \<in> sys_alive s" "0 < n"
    and "\<not> isl (snd (snd (registry_acquire (sys_alive s) n ''t'' ''h'' (sys_reg s n) (sys_dir s) (sample_args n))))"
  shows "lock_reachable (acquired_by n s)"
proof -
  obtain reg' dir' p where
    acq: "registry_acquire (sys_alive s) n ''t'' ''h'' (sys_reg s n) (sys_dir s) (sample_args n) = (reg', dir', Inr p)"
    using assms(4) by (metis prod.collapse sum.collapse(2))
  have "aa_oc_pid (sample_args n) = Some n" by (simp add: sample_args_def)
  then show ?thesis
    using lock_reachable.step [OF assms(1) lock_step.acquire [OF assms(2,3) _ acq]] by (simp add: acquired_by_def acq)
qed

lemma spawned_reachable:
  "lock_reachable s \<Longrightarrow> i < length (sys_sessions s) \<Longrightarrow> se_owner (sys_sessions s ! i) \<noteq> None \<Longrightarrow>
   se_audit (sys_sessions s ! i) = None \<Longrightarrow> 0 < m \<Longrightarrow> m \<notin> sys_alive s \<Longrightarrow> lock_reachable (spawned i m s)"
  unfolding spawned_def by (rule lock_reachable.step [OF _ lock_step.spawn])

lemma stopped_reachable: "lock_reachable s \<Longrightarrow> n \<in> sys_alive s \<Longrightarrow> lock_reachable (stopped n s)"
  unfolding stopped_def by (rule lock_reachable.step [OF _ lock_step.stop])

definition crash_state :: lock_system where
  "crash_state = spawned 1 40 (acquired_by 20 (stopped 10 (spawned 0 30 (acquired_by 10 crash0))))"

lemma crash_reachable: "lock_reachable crash_state"
proof -
  have "lock_reachable crash0" unfolding crash0_def by (rule lock_reachable.initial)
  then have "lock_reachable (acquired_by 10 crash0)" by (rule acquired_by_reachable) code_simp+
  then have "lock_reachable (spawned 0 30 (acquired_by 10 crash0))" by (rule spawned_reachable) code_simp+
  then have "lock_reachable (stopped 10 (spawned 0 30 (acquired_by 10 crash0)))" by (rule stopped_reachable) code_simp
  then have "lock_reachable (acquired_by 20 (stopped 10 (spawned 0 30 (acquired_by 10 crash0))))"
    by (rule acquired_by_reachable) code_simp+
  then show ?thesis unfolding crash_state_def by (rule spawned_reachable) code_simp+
qed


text \<open>
  The exclusion has a window: when a dispatcher dies after starting the audit's process and before recording its
  id, the lock counts as stale while that audit runs on, and a second audit of the same repository can run beside it.
\<close>

theorem unrecorded_audit_window:
  "\<exists>s m k. lock_reachable s \<and> length (sys_sessions s) = 2
     \<and> se_repo (sys_sessions s ! 0) = se_repo (sys_sessions s ! 1)
     \<and> se_audit (sys_sessions s ! 0) = Some m \<and> se_audit (sys_sessions s ! 1) = Some k \<and> m \<noteq> k
     \<and> m \<in> sys_alive s \<and> k \<in> sys_alive s"
proof -
  have "length (sys_sessions crash_state) = 2 \<and> se_repo (sys_sessions crash_state ! 0) = se_repo (sys_sessions crash_state ! 1)
     \<and> se_audit (sys_sessions crash_state ! 0) = Some 30 \<and> se_audit (sys_sessions crash_state ! 1) = Some 40 \<and> (30::int) \<noteq> 40
     \<and> 30 \<in> sys_alive crash_state \<and> 40 \<in> sys_alive crash_state"
    by code_simp
  then show ?thesis using crash_reachable by blast
qed

text \<open>
  Exactly when a lock can be acquired: the repository is not held in this process, and its lock file is absent, or
  holds a payload all of whose processes are dead, or is corrupt while this registry has not swept yet and the
  repository's id has no dot. So a corrupt file blocks a repository from the second acquisition of a process on.
\<close>

theorem acquire_iff:
  "(\<exists>p. snd (snd (registry_acquire alive n now hostname reg dir a)) = Inr p) \<longleftrightarrow>
     aa_repo_id a \<notin> reg_held reg
     \<and> (case map_of dir (aa_repo_id a) of
          None \<Rightarrow> True
        | Some (LockFile p) \<Rightarrow> \<not> payload_alive alive p
        | Some CorruptFile \<Rightarrow> \<not> reg_swept reg \<and> CHR ''.'' \<notin> set (aa_repo_id a))"
proof -
  let ?dir = "snd (sweep_once alive reg dir)"
  have "lp_repo_id (acquire_payload n now hostname a) = aa_repo_id a" by (simp add: acquire_payload_def)
  then have "(\<exists>p. snd (snd (registry_acquire alive n now hostname reg dir a)) = Inr p) \<longleftrightarrow>
      aa_repo_id a \<notin> reg_held reg \<and> (case map_of ?dir (aa_repo_id a) of
        None \<Rightarrow> True | Some (LockFile p) \<Rightarrow> \<not> payload_alive alive p | Some CorruptFile \<Rightarrow> False)"
    unfolding registry_acquire_def Let_def case_prod_beta
    by (auto simp: try_acquire_def store_read_def split: option.split lock_file.split)
  then show ?thesis
    by (auto simp: map_of_sweep_once stale_file_def split: option.splits lock_file.splits)
qed

end
