(* ===== verification/Audit_Dispatch.thy ===== *)
theory Audit_Dispatch
  imports Audit_Locks
begin

text \<open>
  Dispatching one managed audit: the run identity (\<open>run_identity/\<close>), the invocation resolved from the managed
  repository's configuration (\<open>audit_toolset/commands.py\<close>), the subprocess (\<open>audit_dispatch/executor.py\<close>), the
  discovery of the contract files it left (\<open>audit_dispatch/lifecycle.py\<close>, \<open>audit_toolset/discovery.py\<close>) and the entry
  point \<open>dispatch_managed_audit\<close> (\<open>audit_dispatch/api.py\<close>) around them.

  Paths are strings; what depends on the file system is an argument: \<open>resolve\<close> for \<open>Path.resolve\<close>, the listing of the
  output directory, the parsed and validated content of a status file (pydantic's verdict). What the operating system
  does with the command is the datatype \<open>os_run\<close>.
\<close>

section \<open>Run identity\<close>

definition is_lower_id_char :: "char \<Rightarrow> bool" where
  "is_lower_id_char c = (is_digit c \<or> c = CHR ''_'' \<or> (let n = (of_char c :: nat) in 97 \<le> n \<and> n \<le> 122))"

definition is_hex_char :: "char \<Rightarrow> bool" where
  "is_hex_char c = (is_digit c \<or> (let n = (of_char c :: nat) in 97 \<le> n \<and> n \<le> 102))"

text \<open>\<open>[a-z0-9_]+_[a-z0-9_]+\<close>: an underscore that is neither first nor last.\<close>

definition two_ids :: "string \<Rightarrow> bool" where
  "two_ids s = (list_all is_lower_id_char s \<and> CHR ''_'' \<in> set (butlast (tl s)))"

definition is_timestamp :: "string \<Rightarrow> bool" where
  "is_timestamp s =
     (length s = 16 \<and> list_all is_digit (take 8 s) \<and> s ! 8 = CHR ''T'' \<and> list_all is_digit (take 6 (drop 9 s)) \<and> s ! 15 = CHR ''Z'')"

text \<open>\<open>_RUN_ID_PATTERN.match\<close>; the \<open>$\<close> of the pattern also matches before a final newline.\<close>

definition run_id_shape :: "string \<Rightarrow> bool" where
  "run_id_shape s =
     (let n = length s; ids = take (n - 26) s; rest = drop (n - 26) s
      in 26 \<le> n \<and> two_ids ids \<and> rest ! 0 = CHR ''_'' \<and> is_timestamp (take 16 (drop 1 rest)) \<and> rest ! 17 = CHR ''_''
         \<and> list_all is_hex_char (drop 18 rest))"

definition is_valid_run_id :: "string \<Rightarrow> bool" where
  "is_valid_run_id s = (run_id_shape s \<or> (s \<noteq> [] \<and> last s = CHR 0x0A \<and> run_id_shape (butlast s)))"

record run_identity =
  ri_repo_id :: string
  ri_audit_type :: string
  ri_run_id :: string
  ri_env_var :: string

text \<open>\<open>timestamp\<close> and \<open>token\<close> are the texts of the clock and of \<open>secrets.token_hex(4)\<close>.\<close>

definition make_run_id :: "string \<Rightarrow> string \<Rightarrow> string \<Rightarrow> string \<Rightarrow> string" where
  "make_run_id repo_id audit_type timestamp token = py_join ''_'' [repo_id, audit_type, timestamp, token]"

datatype identity_error = InvalidIdentity | EnvConflict string

definition generate_managed_run_identity ::
  "string \<Rightarrow> string \<Rightarrow> string \<Rightarrow> string \<Rightarrow> string \<Rightarrow> identity_error + run_identity" where
  "generate_managed_run_identity repo_id audit_type env_var timestamp token =
     (let run_id = make_run_id repo_id audit_type timestamp token
      in if py_strip repo_id = [] \<or> py_strip audit_type = [] \<or> \<not> is_valid_run_id run_id then Inl InvalidIdentity
         else Inr \<lparr>ri_repo_id = repo_id, ri_audit_type = audit_type, ri_run_id = run_id, ri_env_var = env_var\<rparr>)"

type_synonym env = "string \<rightharpoonup> string"

definition apply_run_identity_env :: "env \<Rightarrow> run_identity \<Rightarrow> bool \<Rightarrow> identity_error + env" where
  "apply_run_identity_env base_env ident allow_same =
     (case base_env (ri_env_var ident) of
        None \<Rightarrow> Inr (base_env(ri_env_var ident \<mapsto> ri_run_id ident))
      | Some existing \<Rightarrow>
          if existing \<noteq> ri_run_id ident \<or> \<not> allow_same then Inl (EnvConflict existing)
          else Inr (base_env(ri_env_var ident \<mapsto> ri_run_id ident)))"

section \<open>Resolving the invocation\<close>

datatype command_status = CS_verified | CS_not_yet_run | CS_unknown | CS_needs_confirmation

record audit_type_config =
  at_audit_type :: string
  at_command :: string
  at_command_status :: command_status
  at_working_dir :: string
  at_output_dir :: string

record managed_repo_config =
  mrc_repo_id :: string
  mrc_repo_root :: string
  mrc_env_var :: string
  mrc_capabilities :: "string list"
  mrc_audit :: "audit_type_config list option"

fun get_audit_type :: "audit_type_config list \<Rightarrow> string \<Rightarrow> audit_type_config option" where
  "get_audit_type [] name = None"
| "get_audit_type (t # ts) name = (if at_audit_type t = name then Some t else get_audit_type ts name)"

interpretation audit_types: first_match "\<lambda>name t. at_audit_type t = name" get_audit_type
  by unfold_locales simp_all

text \<open>The validator of \<open>ManagedRepoConfig\<close>.\<close>

definition valid_repo_config :: "string \<Rightarrow> managed_repo_config \<Rightarrow> bool" where
  "valid_repo_config repo_name c =
     ((''audit'' \<in> set (mrc_capabilities c) \<longrightarrow> mrc_audit c \<noteq> None) \<and> mrc_audit c \<noteq> Some []
      \<and> py_strip (mrc_repo_id c) \<noteq> [] \<and> py_strip repo_name \<noteq> [])"

record invocation =
  inv_repo_id :: string
  inv_audit_type :: string
  inv_run_id :: string
  inv_working_directory :: string
  inv_command :: string
  inv_env :: env
  inv_expected_output_dir :: string

datatype config_error =
  RepoNotFound | NoAuditCapability | AuditMissing | AuditTypeUnsupported | CommandUnavailable | IdentityFailed identity_error

definition check_command_status :: "command_status \<Rightarrow> bool \<Rightarrow> config_error option" where
  "check_command_status st allow_not_yet_run =
     (if st = CS_unknown \<or> st = CS_needs_confirmation then Some CommandUnavailable
      else if st = CS_not_yet_run \<and> \<not> allow_not_yet_run then Some CommandUnavailable
      else None)"

definition resolve_invocation_request ::
  "(string \<Rightarrow> managed_repo_config option) \<Rightarrow> string \<Rightarrow> string \<Rightarrow> string \<Rightarrow> bool \<Rightarrow> env \<Rightarrow> config_error + invocation" where
  "resolve_invocation_request load_config repo_id audit_type run_id allow_not_yet_run extra_env =
     (case load_config repo_id of
        None \<Rightarrow> Inl RepoNotFound
      | Some config \<Rightarrow>
          if ''audit'' \<notin> set (mrc_capabilities config) then Inl NoAuditCapability
          else case mrc_audit config of
                 None \<Rightarrow> Inl AuditMissing
               | Some audit_types \<Rightarrow>
                   (case get_audit_type audit_types audit_type of
                      None \<Rightarrow> Inl AuditTypeUnsupported
                    | Some t \<Rightarrow>
                        (case check_command_status (at_command_status t) allow_not_yet_run of
                           Some e \<Rightarrow> Inl e
                         | None \<Rightarrow>
                             Inr \<lparr>inv_repo_id = repo_id, inv_audit_type = audit_type, inv_run_id = run_id,
                                  inv_working_directory = at_working_dir t, inv_command = at_command t,
                                  inv_env = extra_env(''AUDIT_RUN_ID'' \<mapsto> run_id),
                                  inv_expected_output_dir = at_output_dir t\<rparr>)))"

definition prepare_managed_audit_invocation ::
  "(string \<Rightarrow> managed_repo_config option) \<Rightarrow> string \<Rightarrow> string \<Rightarrow> string \<Rightarrow> string \<Rightarrow> bool \<Rightarrow> env
   \<Rightarrow> config_error + run_identity \<times> invocation" where
  "prepare_managed_audit_invocation load_config timestamp token repo_id audit_type allow_not_yet_run extra_env =
     (case load_config repo_id of
        None \<Rightarrow> Inl RepoNotFound
      | Some config \<Rightarrow>
          (case generate_managed_run_identity repo_id audit_type (mrc_env_var config) timestamp token of
             Inl e \<Rightarrow> Inl (IdentityFailed e)
           | Inr ident \<Rightarrow>
               (case apply_run_identity_env extra_env ident True of
                  Inl e \<Rightarrow> Inl (IdentityFailed e)
                | Inr env \<Rightarrow>
                    map_sum id (\<lambda>i. (ident, i))
                      (resolve_invocation_request load_config repo_id audit_type (ri_run_id ident) allow_not_yet_run env))))"

section \<open>The subprocess\<close>

text \<open>
  What the system does: \<open>Popen\<close> (or opening the logs) raises, the process exits, or it is terminated at the timeout.
  The process id and group are those \<open>on_spawn\<close> is called with.
\<close>

datatype os_run =
  LaunchFailed string | Exited int "int option" int | TimedOut int "int option" "int option"

record process_result =
  pr_exit_code :: "int option"
  pr_timed_out :: bool
  pr_error :: "string option"

definition executor_result :: "string \<Rightarrow> string \<Rightarrow> os_run \<Rightarrow> process_result" where
  "executor_result timeout_text command r =
     (case r of
        LaunchFailed exc \<Rightarrow>
          \<lparr>pr_exit_code = None, pr_timed_out = False,
           pr_error = Some (''executor error launching command '' @ py_repr command @ '': '' @ exc)\<rparr>
      | Exited pid pgid code \<Rightarrow> \<lparr>pr_exit_code = Some code, pr_timed_out = False, pr_error = None\<rparr>
      | TimedOut pid pgid code \<Rightarrow>
          \<lparr>pr_exit_code = code, pr_timed_out = True,
           pr_error = Some (''audit timed out after '' @ timeout_text @ ''s (command: '' @ py_repr command @ '')'')\<rparr>)"

fun spawned_pid :: "os_run \<Rightarrow> (int \<times> int option) option" where
  "spawned_pid (LaunchFailed exc) = None"
| "spawned_pid (Exited pid pgid code) = Some (pid, pgid)"
| "spawned_pid (TimedOut pid pgid code) = Some (pid, pgid)"

section \<open>Post-execution discovery\<close>

datatype run_status =
  RS_PENDING | RS_RUNNING | RS_COMPLETED | RS_FAILED | RS_INTERRUPTED | RS_UNKNOWN | RS_IN_PROGRESS_LEGACY

fun run_status_value :: "run_status \<Rightarrow> string" where
  "run_status_value RS_PENDING = ''pending''"
| "run_status_value RS_RUNNING = ''running''"
| "run_status_value RS_COMPLETED = ''completed''"
| "run_status_value RS_FAILED = ''failed''"
| "run_status_value RS_INTERRUPTED = ''interrupted''"
| "run_status_value RS_UNKNOWN = ''unknown''"
| "run_status_value RS_IN_PROGRESS_LEGACY = ''in_progress''"

definition TERMINAL_RUN_STATUSES :: "string list" where
  "TERMINAL_RUN_STATUSES = map run_status_value [RS_COMPLETED, RS_FAILED, RS_INTERRUPTED]"

record managed_run_status =
  mrs_run_id :: string
  mrs_status :: run_status
  mrs_artifact_manifest_path :: "string option"

text \<open>A directory entry: a file, or a directory with or without a \<open>run_status.json\<close>, read as pydantic reads it.\<close>

datatype bucket = PlainFile | Bucket "(string + managed_run_status) option"

datatype audit_failure_kind =
  PROCESS_NONZERO_EXIT | PROCESS_TIMEOUT | EXECUTOR_ERROR | RUN_STATUS_MISSING | RUN_STATUS_INVALID
  | MANIFEST_PATH_MISSING | RUN_STATUS_NOT_TERMINAL | MANIFEST_PATH_UNRESOLVABLE | FAILURE_UNKNOWN

record discovery =
  di_run_status_path :: "string option"
  di_artifact_manifest_path :: "string option"
  di_failure_kind :: "audit_failure_kind option"
  di_failure_reason :: "string option"
  di_run_status_value :: "string option"

definition is_absolute :: "string \<Rightarrow> bool" where
  "is_absolute p = prefix ''/'' p"

definition path_join :: "string \<Rightarrow> string \<Rightarrow> string" where
  "path_join a b = (if is_absolute b then b else a @ ''/'' @ b)"

fun find_run_status_path :: "(string \<times> bucket) list \<Rightarrow> string \<Rightarrow> (string \<times> (string + managed_run_status)) option" where
  "find_run_status_path [] run_id = None"
| "find_run_status_path ((name, b) # children) run_id =
     (case b of
        Bucket (Some content) \<Rightarrow>
          if str_contains run_id name then Some (name, content) else find_run_status_path children run_id
      | _ \<Rightarrow> find_run_status_path children run_id)"

datatype manifest_error = ManifestPathMissing | ManifestPathResolution

definition resolve_artifact_manifest_path ::
  "(string \<Rightarrow> string) \<Rightarrow> managed_run_status \<Rightarrow> string option \<Rightarrow> manifest_error + string" where
  "resolve_artifact_manifest_path resolve rs base_dir =
     (case mrs_artifact_manifest_path rs of
        None \<Rightarrow> Inl ManifestPathMissing
      | Some p \<Rightarrow>
          if is_absolute p then Inr p
          else case base_dir of None \<Rightarrow> Inl ManifestPathResolution | Some d \<Rightarrow> Inr (resolve (path_join d p)))"

text \<open>
  The listing of the output directory is in name order, \<^const>\<open>None\<close> when it is no directory; \<open>reason\<close> stands for the
  texts of the exceptions, which only go into the message.
\<close>

definition discover_post_execution ::
  "(string \<Rightarrow> string) \<Rightarrow> (string \<Rightarrow> (string \<times> bucket) list option) \<Rightarrow> (audit_failure_kind \<Rightarrow> string) \<Rightarrow> invocation \<Rightarrow> string
   \<Rightarrow> string \<Rightarrow> discovery" where
  "discover_post_execution resolve listing reason i run_id working_dir =
     (let expected = (if is_absolute (inv_expected_output_dir i) then inv_expected_output_dir i
                      else resolve (path_join working_dir (inv_expected_output_dir i)));
          none = \<lparr>di_run_status_path = None, di_artifact_manifest_path = None, di_failure_kind = None,
                  di_failure_reason = None, di_run_status_value = None\<rparr>;
          fail = (\<lambda>d k. d\<lparr>di_failure_kind := Some k, di_failure_reason := Some (reason k)\<rparr>)
      in case (case listing expected of None \<Rightarrow> None | Some children \<Rightarrow> find_run_status_path children run_id) of
           None \<Rightarrow> fail none RUN_STATUS_MISSING
         | Some (name, content) \<Rightarrow>
             (let located = none\<lparr>di_run_status_path := Some (path_join (path_join expected name) ''run_status.json'')\<rparr>
              in case content of
                   Inl exc \<Rightarrow> fail located RUN_STATUS_INVALID
                 | Inr rs \<Rightarrow>
                     (let valued = located\<lparr>di_run_status_value := Some (run_status_value (mrs_status rs))\<rparr>
                      in case resolve_artifact_manifest_path resolve rs (Some working_dir) of
                           Inl ManifestPathMissing \<Rightarrow> fail valued MANIFEST_PATH_MISSING
                         | Inl ManifestPathResolution \<Rightarrow> fail valued MANIFEST_PATH_UNRESOLVABLE
                         | Inr m \<Rightarrow> valued\<lparr>di_artifact_manifest_path := Some m\<rparr>)))"

section \<open>Dispatch\<close>

datatype dispatch_status = DS_COMPLETED | DS_FAILED | DS_INTERRUPTED | DS_UNKNOWN

text \<open>The order in which the failures are reported. \<open>timeout_text\<close> is the text of \<open>request.timeout_seconds\<close>.\<close>

definition final_status ::
  "string \<Rightarrow> process_result \<Rightarrow> discovery \<Rightarrow> dispatch_status \<times> audit_failure_kind option \<times> string option" where
  "final_status timeout_text proc disc =
     (if pr_timed_out proc
      then (DS_INTERRUPTED, Some PROCESS_TIMEOUT,
            Some (if truthy_str (pr_error proc) then or_empty (pr_error proc) else ''timed out after '' @ timeout_text @ ''s''))
      else case pr_error proc of
             Some e \<Rightarrow> (DS_FAILED, Some EXECUTOR_ERROR, Some e)
           | None \<Rightarrow>
               if di_failure_kind disc \<noteq> None
               then (DS_FAILED, di_failure_kind disc,
                     Some (or_empty (di_failure_reason disc)
                       @ (case pr_exit_code proc of
                            None \<Rightarrow> [] | Some c \<Rightarrow> if c = 0 then [] else '' (process exit code: '' @ show_int c @ '')'')))
               else if pr_exit_code proc \<noteq> Some 0
               then (DS_FAILED, Some PROCESS_NONZERO_EXIT,
                     Some (''process exited with code '' @ (case pr_exit_code proc of None \<Rightarrow> ''None'' | Some c \<Rightarrow> show_int c)))
               else if (case di_run_status_value disc of None \<Rightarrow> True | Some v \<Rightarrow> v \<notin> set TERMINAL_RUN_STATUSES)
               then (DS_FAILED, Some RUN_STATUS_NOT_TERMINAL,
                     Some (''run_status.json reports non-terminal status ''
                       @ (case di_run_status_value disc of None \<Rightarrow> ''None'' | Some v \<Rightarrow> py_repr v) @ '' despite process exit 0''))
               else (DS_COMPLETED, None, None))"

record audit_dispatch_request =
  adq_repo_id :: string
  adq_audit_type :: string
  adq_allow_unverified_command :: bool
  adq_timeout_text :: string
  adq_base_env :: "env option"
  adq_cwd_override :: "string option"

record audit_dispatch_result =
  adr_repo_id :: string
  adr_audit_type :: string
  adr_run_id :: "string option"
  adr_status :: dispatch_status
  adr_failure_kind :: "audit_failure_kind option"
  adr_process_exit_code :: "int option"
  adr_run_status_path :: "string option"
  adr_artifact_manifest_path :: "string option"
  adr_error :: "string option"

text \<open>What the call meets: configuration files, clock, processes, file system and the audit itself.\<close>

record audit_world =
  aw_load_config :: "string \<Rightarrow> managed_repo_config option"
  aw_os_environ :: env
  aw_timestamp :: string
  aw_token :: string
  aw_oc_root :: string
  aw_resolve :: "string \<Rightarrow> string"
  aw_alive :: "int set"
  aw_own_pid :: int
  aw_now :: string
  aw_hostname :: string
  aw_run :: "invocation \<Rightarrow> os_run"
  aw_release_ok :: bool
  aw_listing :: "string \<Rightarrow> (string \<times> bucket) list option"
  aw_reason :: "audit_failure_kind \<Rightarrow> string"

datatype audit_dispatch_error = AuditDispatchConfigError config_error | Uncaught config_error | DispatchLockError lock_error

text \<open>A malformed identity is a pydantic \<open>ValidationError\<close> and is not among the errors that are wrapped.\<close>

fun wrap_config_error :: "config_error \<Rightarrow> audit_dispatch_error" where
  "wrap_config_error (IdentityFailed InvalidIdentity) = Uncaught (IdentityFailed InvalidIdentity)"
| "wrap_config_error AuditMissing = Uncaught AuditMissing"
| "wrap_config_error e = AuditDispatchConfigError e"

definition resolve_abs_working_dir :: "audit_world \<Rightarrow> string \<Rightarrow> string \<Rightarrow> string option \<Rightarrow> config_error + string" where
  "resolve_abs_working_dir w wd repo_id cwd_override =
     (case cwd_override of
        Some d \<Rightarrow> Inr d
      | None \<Rightarrow>
          if is_absolute wd then Inr wd
          else case aw_load_config w repo_id of
                 None \<Rightarrow> Inl RepoNotFound
               | Some config \<Rightarrow>
                   Inr (aw_resolve w (path_join (aw_resolve w (path_join (aw_oc_root w) (mrc_repo_root config))) wd)))"

text \<open>The run under the lock: \<open>on_spawn\<close> records the process id (its exceptions are swallowed), \<open>finally\<close> releases.\<close>

definition run_locked ::
  "audit_world \<Rightarrow> lock_registry \<Rightarrow> lock_dir \<Rightarrow> lock_payload \<Rightarrow> os_run \<Rightarrow> lock_registry \<times> lock_dir" where
  "run_locked w reg dir p r =
     (let l = \<lparr>al_repo_id = lp_repo_id p, al_released = False, al_payload = Some p\<rparr>;
          (l', dir') = (case spawned_pid r of
              None \<Rightarrow> (l, dir)
            | Some (pid, pgid) \<Rightarrow> (case lock_update_audit_pid l dir pid pgid of Inl e \<Rightarrow> (l, dir) | Inr x \<Rightarrow> x))
      in snd (lock_release (aw_release_ok w) l' reg dir'))"

definition dispatch_managed_audit ::
  "audit_world \<Rightarrow> lock_registry \<Rightarrow> lock_dir \<Rightarrow> audit_dispatch_request
   \<Rightarrow> lock_registry \<times> lock_dir \<times> (audit_dispatch_error + audit_dispatch_result)" where
  "dispatch_managed_audit w reg dir q =
     (case prepare_managed_audit_invocation (aw_load_config w) (aw_timestamp w) (aw_token w) (adq_repo_id q)
             (adq_audit_type q) (adq_allow_unverified_command q)
             (case adq_base_env q of Some e \<Rightarrow> e | None \<Rightarrow> aw_os_environ w) of
        Inl e \<Rightarrow> (reg, dir, Inl (wrap_config_error e))
      | Inr (ident, i0) \<Rightarrow>
          (case resolve_abs_working_dir w (inv_working_directory i0) (adq_repo_id q) (adq_cwd_override q) of
             Inl e \<Rightarrow> (reg, dir, Inl (Uncaught e))
           | Inr wd \<Rightarrow>
               (let i = i0\<lparr>inv_working_directory := wd\<rparr>; run_id = ri_run_id ident;
                    a = \<lparr>aa_repo_id = adq_repo_id q, aa_run_id = Some run_id, aa_audit_type = Some (adq_audit_type q),
                         aa_oc_pid = Some (aw_own_pid w), aa_command = inv_command i,
                         aa_expected_run_status_path = aw_resolve w (path_join wd (inv_expected_output_dir i))\<rparr>
                in case registry_acquire (aw_alive w) (aw_own_pid w) (aw_now w) (aw_hostname w) reg dir a of
                     (reg1, dir1, Inl e) \<Rightarrow> (reg1, dir1, Inl (DispatchLockError e))
                   | (reg1, dir1, Inr p) \<Rightarrow>
                       (let r = aw_run w i;
                            (reg2, dir2) = run_locked w reg1 dir1 p r;
                            proc = executor_result (adq_timeout_text q) (inv_command i) r;
                            disc = discover_post_execution (aw_resolve w) (aw_listing w) (aw_reason w) i run_id wd;
                            (st, kind, err) = final_status (adq_timeout_text q) proc disc
                        in (reg2, dir2, Inr
                             \<lparr>adr_repo_id = adq_repo_id q, adr_audit_type = adq_audit_type q, adr_run_id = Some run_id,
                              adr_status = st, adr_failure_kind = kind, adr_process_exit_code = pr_exit_code proc,
                              adr_run_status_path = di_run_status_path disc,
                              adr_artifact_manifest_path = di_artifact_manifest_path disc, adr_error = err\<rparr>)))))"

section \<open>Laws\<close>

lemma final_status_completed:
  "fst (final_status t proc disc) = DS_COMPLETED \<longleftrightarrow>
     \<not> pr_timed_out proc \<and> pr_error proc = None \<and> pr_exit_code proc = Some 0 \<and> di_failure_kind disc = None
     \<and> (\<exists>v \<in> set TERMINAL_RUN_STATUSES. di_run_status_value disc = Some v)"
  by (auto simp: final_status_def split: option.splits)

lemma final_status_kind: "fst (snd (final_status t proc disc)) = None \<longleftrightarrow> fst (final_status t proc disc) = DS_COMPLETED"
  by (auto simp: final_status_def split: option.splits)

lemma run_id_valid:
  assumes "is_timestamp ts" "length tok = 8" "list_all is_hex_char tok" "repo \<noteq> []" "aty \<noteq> []"
    and "list_all is_lower_id_char repo" "list_all is_lower_id_char aty"
  shows "is_valid_run_id (make_run_id repo aty ts tok)"
proof -
  let ?s = "(repo @ ''_'' @ aty) @ ''_'' @ ts @ ''_'' @ tok"
  have ts: "length ts = 16" using assms(1) by (simp add: is_timestamp_def)
  have "CHR ''_'' \<in> set (butlast (tl (repo @ ''_'' @ aty)))"
    using assms(4,5) by (cases repo; cases aty rule: rev_cases) (auto simp: butlast_append)
  then have ids: "two_ids (repo @ ''_'' @ aty)"
    using assms(6,7) by (simp add: two_ids_def is_lower_id_char_def)
  have n: "length ?s - 26 = length (repo @ ''_'' @ aty)" using ts assms(2) by simp
  then have "take (length ?s - 26) ?s = repo @ ''_'' @ aty" "drop (length ?s - 26) ?s = ''_'' @ ts @ ''_'' @ tok"
    by (simp_all del: append_assoc add: append_eq_append_conv)
  then have "run_id_shape ?s"
    unfolding run_id_shape_def Let_def using ids assms ts by (simp add: nth_append)
  then show ?thesis by (simp add: is_valid_run_id_def make_run_id_def)
qed

lemma discovery_success:
  assumes "di_failure_kind (discover_post_execution resolve listing reason i run_id wd) = None"
  obtains children name rs m where
    "listing (if is_absolute (inv_expected_output_dir i) then inv_expected_output_dir i
       else resolve (path_join wd (inv_expected_output_dir i))) = Some children"
    "find_run_status_path children run_id = Some (name, Inr rs)"
    "di_run_status_value (discover_post_execution resolve listing reason i run_id wd) = Some (run_status_value (mrs_status rs))"
    "di_artifact_manifest_path (discover_post_execution resolve listing reason i run_id wd) = Some m"
    "di_run_status_path (discover_post_execution resolve listing reason i run_id wd) \<noteq> None"
  using assms
  by (auto simp: discover_post_execution_def Let_def split: option.splits sum.splits manifest_error.splits prod.splits)

lemma find_run_status_mem:
  "find_run_status_path children run_id = Some (name, content) \<Longrightarrow>
     (name, Bucket (Some content)) \<in> set children \<and> str_contains run_id name"
  by (induction children run_id rule: find_run_status_path.induct) (auto split: bucket.splits option.splits if_splits)

lemma run_locked_release: "\<exists>dir'. run_locked w reg dir p r = registry_release (aw_release_ok w) reg dir' (lp_repo_id p)"
proof (cases "spawned_pid r")
  case None
  then show ?thesis by (auto simp: run_locked_def Let_def lock_release_def)
next
  case (Some x)
  obtain pid pgid where x: "x = (pid, pgid)" by fastforce
  show ?thesis
    using Some x by (cases "store_update dir (lp_repo_id p) (Some pid) pgid")
      (auto simp: run_locked_def Let_def lock_release_def lock_update_audit_pid_def split: prod.split)
qed

lemma run_locked_held: "reg_held (fst (run_locked w reg dir p r)) = reg_held reg - {lp_repo_id p}"
  using run_locked_release [of w reg dir p r] by (auto simp: registry_release_def)

lemma run_locked_dir: "aw_release_ok w \<Longrightarrow> map_of (snd (run_locked w reg dir p r)) (lp_repo_id p) = None"
  using run_locked_release [of w reg dir p r]
  by (auto simp: registry_release_def store_release_def delete_conv' split: option.split)

lemma acquire_held:
  "registry_acquire alive n now h reg dir a = (reg1, dir1, Inr p) \<Longrightarrow>
     aa_repo_id a \<notin> reg_held reg \<and> lp_repo_id p = aa_repo_id a \<and> reg_held reg1 = insert (aa_repo_id a) (reg_held reg)"
  unfolding registry_acquire_def Let_def case_prod_beta by (auto simp: acquire_payload_def split: if_splits sum.splits)

lemma acquire_refused_held:
  "registry_acquire alive n now h reg dir a = (reg1, dir1, Inl e) \<Longrightarrow> reg_held reg1 = reg_held reg"
  unfolding registry_acquire_def Let_def case_prod_beta by (auto split: if_splits sum.splits)

lemma dispatch_cases:
  assumes "dispatch_managed_audit w reg dir q = (reg', dir', res)"
  obtains (config) e where "reg' = reg" "dir' = dir" "res = Inl e"
  | (refused) a e where "registry_acquire (aw_alive w) (aw_own_pid w) (aw_now w) (aw_hostname w) reg dir a = (reg', dir', Inl e)"
      "res = Inl (DispatchLockError e)"
  | (ran) a reg1 dir1 p i run_id wd os r proc disc where
      "registry_acquire (aw_alive w) (aw_own_pid w) (aw_now w) (aw_hostname w) reg dir a = (reg1, dir1, Inr p)"
      "aa_repo_id a = adq_repo_id q" "run_locked w reg1 dir1 p os = (reg', dir')" "res = Inr r"
      "proc = executor_result (adq_timeout_text q) (inv_command i) os"
      "disc = discover_post_execution (aw_resolve w) (aw_listing w) (aw_reason w) i run_id wd"
      "adr_run_id r = Some run_id" "adr_status r = fst (final_status (adq_timeout_text q) proc disc)"
      "adr_failure_kind r = fst (snd (final_status (adq_timeout_text q) proc disc))"
      "adr_process_exit_code r = pr_exit_code proc" "adr_run_status_path r = di_run_status_path disc"
      "adr_artifact_manifest_path r = di_artifact_manifest_path disc"
proof -
  let ?prep = "prepare_managed_audit_invocation (aw_load_config w) (aw_timestamp w) (aw_token w) (adq_repo_id q)
      (adq_audit_type q) (adq_allow_unverified_command q) (case adq_base_env q of Some e \<Rightarrow> e | None \<Rightarrow> aw_os_environ w)"
  note d = assms [unfolded dispatch_managed_audit_def Let_def]
  show thesis
  proof (cases ?prep)
    case (Inl e)
    then show thesis using d config by auto
  next
    case (Inr x)
    obtain ident i0 where x: "x = (ident, i0)" by fastforce
    note prep = Inr [unfolded x]
    let ?wd = "resolve_abs_working_dir w (inv_working_directory i0) (adq_repo_id q) (adq_cwd_override q)"
    show thesis
    proof (cases ?wd)
      case (Inl e)
      then show thesis using d config prep by auto
    next
      case wd: (Inr wd)
      define i where "i = i0\<lparr>inv_working_directory := wd\<rparr>"
      define a where "a = \<lparr>aa_repo_id = adq_repo_id q, aa_run_id = Some (ri_run_id ident), aa_audit_type = Some (adq_audit_type q),
          aa_oc_pid = Some (aw_own_pid w), aa_command = inv_command i,
          aa_expected_run_status_path = aw_resolve w (path_join wd (inv_expected_output_dir i))\<rparr>"
      obtain reg1 dir1 z where acq: "registry_acquire (aw_alive w) (aw_own_pid w) (aw_now w) (aw_hostname w) reg dir a = (reg1, dir1, z)"
        by (metis prod_cases3)
      note acq' = acq [unfolded a_def i_def, simplified]
      show thesis
      proof (cases z)
        case (Inl e)
        have "(reg1, dir1, Inl (DispatchLockError e)) = (reg', dir', res)"
          using assms by (simp add: dispatch_managed_audit_def Let_def prep wd acq' Inl)
        then show thesis using refused [of a e] acq Inl by simp
      next
        case z: (Inr p)
        obtain reg2 dir2 where rl: "run_locked w reg1 dir1 p (aw_run w i) = (reg2, dir2)" by fastforce
        note rl' = rl [unfolded i_def]
        let ?proc = "executor_result (adq_timeout_text q) (inv_command i) (aw_run w i)"
        let ?disc = "discover_post_execution (aw_resolve w) (aw_listing w) (aw_reason w) i (ri_run_id ident) wd"
        let ?fs = "final_status (adq_timeout_text q) ?proc ?disc"
        define r where "r = \<lparr>adr_repo_id = adq_repo_id q, adr_audit_type = adq_audit_type q, adr_run_id = Some (ri_run_id ident),
            adr_status = fst ?fs, adr_failure_kind = fst (snd ?fs), adr_process_exit_code = pr_exit_code ?proc,
            adr_run_status_path = di_run_status_path ?disc,
            adr_artifact_manifest_path = di_artifact_manifest_path ?disc, adr_error = snd (snd ?fs)\<rparr>"
        have "(reg2, dir2, Inr r) = (reg', dir', res)"
          using assms rl' by (simp add: dispatch_managed_audit_def Let_def prep wd acq' z case_prod_beta r_def i_def)
        then show thesis
          using acq z rl
          by (intro ran [where a = a and i = i and r = r and os = "aw_run w i" and run_id = "ri_run_id ident" and wd = wd])
            (auto simp: r_def a_def)
      qed
    qed
  qed
qed

section \<open>Properties\<close>


definition sample_audit_world :: "os_run \<Rightarrow> run_status \<Rightarrow> audit_world" where
  "sample_audit_world os st =
     \<lparr>aw_load_config = (\<lambda>r. if r = ''repo'' then Some \<lparr>mrc_repo_id = ''repo'', mrc_repo_root = ''../repo'', mrc_env_var = ''AUDIT_RUN_ID'',
        mrc_capabilities = [''audit''], mrc_audit = Some [\<lparr>at_audit_type = ''full'', at_command = ''run audit'',
          at_command_status = CS_verified, at_working_dir = ''.'', at_output_dir = ''out''\<rparr>]\<rparr> else None),
      aw_os_environ = Map.empty, aw_timestamp = ''20260426T164233Z'', aw_token = ''a1b2c3d4'', aw_oc_root = ''/oc'',
      aw_resolve = (\<lambda>p. p), aw_alive = {7}, aw_own_pid = 7, aw_now = ''now'', aw_hostname = ''host'', aw_run = (\<lambda>_. os),
      aw_release_ok = True,
      aw_listing = (\<lambda>_. Some [(''c_repo_full_20260426T164233Z_a1b2c3d4'', Bucket (Some (Inr
        \<lparr>mrs_run_id = ''repo_full_20260426T164233Z_a1b2c3d4'', mrs_status = st, mrs_artifact_manifest_path = Some ''m.json''\<rparr>)))]),
      aw_reason = (\<lambda>_. ''why'')\<rparr>"

definition sample_audit_request :: audit_dispatch_request where
  "sample_audit_request = \<lparr>adq_repo_id = ''repo'', adq_audit_type = ''full'', adq_allow_unverified_command = False,
     adq_timeout_text = ''1800.0'', adq_base_env = Some Map.empty, adq_cwd_override = None\<rparr>"

definition sample_audit_result :: "run_status \<Rightarrow> audit_dispatch_error + audit_dispatch_result" where
  "sample_audit_result st =
     snd (snd (dispatch_managed_audit (sample_audit_world (Exited 9 None 0) st) new_registry [] sample_audit_request))"


text \<open>
  C15: a dispatch never leaks its lock: whatever happens, the registry holds the same repositories as before, and when
  an audit was run and the release did not fail, no lock file of the repository is left.
\<close>

theorem dispatch_releases_lock:
  assumes "dispatch_managed_audit w reg dir q = (reg', dir', res)"
  shows "reg_held reg' = reg_held reg \<and> (aw_release_ok w \<and> \<not> isl res \<longrightarrow> map_of dir' (adq_repo_id q) = None)"
  using assms
proof (cases rule: dispatch_cases)
  case (refused a e)
  then show ?thesis using acquire_refused_held by simp
next
  case (ran a reg1 dir1 p i run_id wd os r proc disc)
  then show ?thesis
    using acquire_held [OF ran(1)] run_locked_held [of w reg1 dir1 p os] run_locked_dir [of w reg1 dir1 p os] by auto
qed simp

theorem dispatch_releases_lock_witness:
  "reg_held (fst (dispatch_managed_audit (sample_audit_world (Exited 9 None 1) RS_FAILED) new_registry [] sample_audit_request)) = {}"
proof -
  obtain reg' dir' res where
    d: "dispatch_managed_audit (sample_audit_world (Exited 9 None 1) RS_FAILED) new_registry [] sample_audit_request = (reg', dir', res)"
    by (metis prod.collapse)
  show ?thesis using dispatch_releases_lock [OF d] unfolding d by (simp add: new_registry_def)
qed



end
