(* ===== verification/Audit_Governance.thy ===== *)
theory Audit_Governance
  imports Audit_Dispatch
begin

text \<open>
  Governance of full audits (\<open>audit_governance/\<close>): the eight policy checks and the decision they give (\<open>policy.py\<close>), the
  budget and cooldown files (\<open>budgets.py\<close>, \<open>cooldowns.py\<close>, \<open>file_locks.py\<close>), manual approvals (\<open>approvals.py\<close>) and the runner
  that loads the state, decides, dispatches and records (\<open>runner.py\<close>).

  A state file is keyed by its path, as on disk, and holds either a valid document or a text pydantic or json rejects.
  Every \<open>datetime.now\<close> of the code is a reading of its own in the record \<open>gov_world\<close>, next to the outcomes of the file
  operations; the dispatcher is an argument that threads a state of its own.
\<close>

section \<open>Models\<close>

datatype audit_urgency = U_low | U_normal | U_high | U_urgent

primrec urgency_value :: "audit_urgency \<Rightarrow> string" where
  "urgency_value U_low = ''low''"
| "urgency_value U_normal = ''normal''"
| "urgency_value U_high = ''high''"
| "urgency_value U_urgent = ''urgent''"

datatype governance_decision_value = GD_approved | GD_denied | GD_needs_manual_approval | GD_deferred
datatype policy_status = PS_passed | PS_failed | PS_warning | PS_skipped
datatype governance_status =
  GS_approved_and_dispatched | GS_denied | GS_deferred | GS_needs_manual_approval | GS_dispatch_failed

definition is_safe_id_char :: "char \<Rightarrow> bool" where
  "is_safe_id_char c = (let n = (of_char c :: nat) in
     (97 \<le> n \<and> n \<le> 122) \<or> (65 \<le> n \<and> n \<le> 90) \<or> is_digit c \<or> c = CHR ''_'' \<or> c = CHR ''-'')"

definition safe_id :: "string \<Rightarrow> string" where
  "safe_id raw = map (\<lambda>c. if is_safe_id_char c then c else CHR ''_'') raw"

definition make_request_id :: "string \<Rightarrow> string \<Rightarrow> string \<Rightarrow> string" where
  "make_request_id timestamp repo_id audit_type = safe_id (py_join ''__'' [repo_id, audit_type, timestamp])"

record policy_result =
  po_policy_name :: string
  po_status :: policy_status
  po_reason :: fstring
  po_details :: fstring

record governance_request =
  gq_request_id :: string
  gq_repo_id :: string
  gq_audit_type :: string
  gq_requested_by :: string
  gq_requested_reason :: string
  gq_urgency :: audit_urgency
  gq_related_suite_report_path :: "string option"
  gq_allow_if_recent_success :: bool
  gq_run_coverage_audit :: bool

text \<open>The field validators of \<open>AuditGovernanceRequest\<close>.\<close>

definition validate_request :: "governance_request \<Rightarrow> fstring + governance_request" where
  "validate_request q =
     (if py_strip (gq_repo_id q) = [] then Inl [FLit ''repo_id must not be empty'']
      else if py_strip (gq_audit_type q) = [] then Inl [FLit ''audit_type must not be empty'']
      else if py_strip (gq_requested_reason q) = [] then Inl [FLit ''requested_reason must not be empty'']
      else if py_strip (gq_requested_by q) = [] then Inl [FLit ''requested_by must not be empty'']
      else Inr q)"

record governance_decision =
  gd_decision_id :: string
  gd_request_id :: string
  gd_repo_id :: string
  gd_audit_type :: string
  gd_decision :: governance_decision_value
  gd_reasons :: "fstring list"
  gd_policy_results :: "policy_result list"
  gd_requires_manual_approval :: bool

definition is_approved :: "governance_decision \<Rightarrow> bool" where
  "is_approved d = (gd_decision d = GD_approved)"

definition failed_policies :: "governance_decision \<Rightarrow> policy_result list" where
  "failed_policies d = filter (\<lambda>p. po_status p = PS_failed) (gd_policy_results d)"

definition warning_policies :: "governance_decision \<Rightarrow> policy_result list" where
  "warning_policies d = filter (\<lambda>p. po_status p = PS_warning) (gd_policy_results d)"

record manual_approval =
  ma_decision_id :: string
  ma_request_id :: string
  ma_approved_by :: string
  ma_approval_notes :: string

record budget_state =
  bs_repo_id :: string
  bs_audit_type :: string
  bs_period_start :: datetime
  bs_period_end :: datetime
  bs_max_runs :: int
  bs_runs_used :: int
  bs_last_run_at :: "datetime option"

definition runs_remaining :: "budget_state \<Rightarrow> int" where
  "runs_remaining s = max 0 (bs_max_runs s - bs_runs_used s)"

definition is_exhausted :: "budget_state \<Rightarrow> bool" where
  "is_exhausted s = (bs_max_runs s \<le> bs_runs_used s)"

record cooldown_state =
  cs_repo_id :: string
  cs_audit_type :: string
  cs_cooldown_seconds :: rat
  cs_last_run_at :: "datetime option"

definition total_seconds :: "timedelta \<Rightarrow> rat" where
  "total_seconds d = of_int d / 1000000"

definition is_in_cooldown :: "cooldown_state \<Rightarrow> datetime \<Rightarrow> bool" where
  "is_in_cooldown s now =
     (case cs_last_run_at s of None \<Rightarrow> False | Some l \<Rightarrow> total_seconds (now - l) < cs_cooldown_seconds s)"

definition seconds_remaining :: "cooldown_state \<Rightarrow> datetime \<Rightarrow> rat" where
  "seconds_remaining s now =
     (case cs_last_run_at s of None \<Rightarrow> 0 | Some l \<Rightarrow> max 0 (cs_cooldown_seconds s - total_seconds (now - l)))"

record budget_config =
  bc_max_runs :: int
  bc_period_days :: int

definition default_budget_config :: budget_config where
  "default_budget_config = \<lparr>bc_max_runs = 10, bc_period_days = 7\<rparr>"

definition default_cooldown_seconds :: rat where
  "default_cooldown_seconds = 3600"

record governance_config =
  gc_known_repos :: "string list"
  gc_known_audit_types :: "(string \<times> string list) list"
  gc_budget_config :: "string \<Rightarrow> string \<rightharpoonup> budget_config"
  gc_cooldown_config :: "string \<Rightarrow> string \<rightharpoonup> rat"
  gc_state_dir :: string
  gc_require_mini_regression_for_urgency :: "string list"

definition default_governance_config :: governance_config where
  "default_governance_config =
     \<lparr>gc_known_repos = [], gc_known_audit_types = [], gc_budget_config = (\<lambda>_. Map.empty),
      gc_cooldown_config = (\<lambda>_. Map.empty), gc_state_dir = ''tools/audit/governance/state'',
      gc_require_mini_regression_for_urgency = [''low'', ''normal'']\<rparr>"

definition get_budget_config :: "governance_config \<Rightarrow> string \<Rightarrow> string \<Rightarrow> budget_config" where
  "get_budget_config c repo_id audit_type =
     (case gc_budget_config c repo_id audit_type of Some b \<Rightarrow> b | None \<Rightarrow> default_budget_config)"

definition get_cooldown_config :: "governance_config \<Rightarrow> string \<Rightarrow> string \<Rightarrow> rat" where
  "get_cooldown_config c repo_id audit_type =
     (case gc_cooldown_config c repo_id audit_type of Some s \<Rightarrow> s | None \<Rightarrow> default_cooldown_seconds)"

section \<open>Policy checks\<close>

definition policy_outcome :: "string \<Rightarrow> policy_status \<Rightarrow> fstring \<Rightarrow> fstring \<Rightarrow> policy_result" where
  "policy_outcome name st reason details =
     \<lparr>po_policy_name = name, po_status = st, po_reason = reason, po_details = details\<rparr>"

lemma policy_outcome_fields [simp]:
  "po_policy_name (policy_outcome n s r d) = n" "po_status (policy_outcome n s r d) = s"
  "po_reason (policy_outcome n s r d) = r" "po_details (policy_outcome n s r d) = d"
  by (simp_all add: policy_outcome_def)

definition check_manual_request_required :: "governance_request \<Rightarrow> policy_result" where
  "check_manual_request_required q =
     (if py_strip (gq_requested_by q) \<noteq> []
      then policy_outcome ''manual_request_required'' PS_passed [FLit ''requested_by is present.''] []
      else policy_outcome ''manual_request_required'' PS_failed
             [FLit ''requested_by is empty - full audits require an identified requester.''] [])"

definition check_known_repo :: "governance_request \<Rightarrow> string list \<Rightarrow> policy_result" where
  "check_known_repo q known_repos =
     (if known_repos = [] then
        policy_outcome ''known_repo_required'' PS_failed
          [FLit ''No known_repos configured - all repo_id values are denied until known_repos is populated.'']
          [FLit ''Configure known_repos in GovernanceConfig to permit specific repos.'']
      else if gq_repo_id q \<in> set known_repos then
        policy_outcome ''known_repo_required'' PS_passed
          [FLit ''repo_id '', FRepr (gq_repo_id q), FLit '' is a known managed repo.''] []
      else policy_outcome ''known_repo_required'' PS_failed
          [FLit ''repo_id '', FRepr (gq_repo_id q), FLit '' is not in the known_repos list.'']
          [FLit ''Known repos: '', FStr (py_join '', '' known_repos)])"

definition check_known_audit_type :: "governance_request \<Rightarrow> (string \<times> string list) list \<Rightarrow> policy_result" where
  "check_known_audit_type q known_audit_types =
     (if known_audit_types = [] then
        policy_outcome ''known_audit_type_required'' PS_failed
          [FLit ''known_audit_types is empty - all audit types are denied.'']
          [FLit ''Configure known_audit_types in GovernanceConfig.'']
      else case map_of known_audit_types (gq_repo_id q) of
        None \<Rightarrow> policy_outcome ''known_audit_type_required'' PS_warning
          [FLit ''No audit types configured for repo '', FRepr (gq_repo_id q), FLit ''.'']
          [FLit ''Configure known_audit_types in GovernanceConfig to enforce this check.'']
      | Some allowed \<Rightarrow>
          if gq_audit_type q \<in> set allowed then
            policy_outcome ''known_audit_type_required'' PS_passed
              [FLit ''audit_type '', FRepr (gq_audit_type q), FLit '' is valid for '', FRepr (gq_repo_id q), FLit ''.''] []
          else policy_outcome ''known_audit_type_required'' PS_failed
              [FLit ''audit_type '', FRepr (gq_audit_type q), FLit '' is not configured for repo '',
               FRepr (gq_repo_id q), FLit ''.'']
              [FLit ''Allowed types: '', FStr (py_join '', '' allowed)])"

definition last_run_text :: "datetime option \<Rightarrow> string \<Rightarrow> fstring" where
  "last_run_text run_at otherwise = (case run_at of Some t \<Rightarrow> [FLit ''Last run: '', FTime t] | None \<Rightarrow> [FLit otherwise])"

definition check_cooldown_policy :: "datetime \<Rightarrow> cooldown_state option \<Rightarrow> policy_result" where
  "check_cooldown_policy now cooldown =
     (case cooldown of
        None \<Rightarrow> policy_outcome ''cooldown_policy'' PS_skipped [FLit ''No cooldown state available; check skipped.''] []
      | Some c \<Rightarrow>
          if \<not> is_in_cooldown c now then
            policy_outcome ''cooldown_policy'' PS_passed [FLit ''Cooldown period has elapsed.'']
              (last_run_text (cs_last_run_at c) ''No previous runs.'')
          else policy_outcome ''cooldown_policy'' PS_failed
              [FLit ''Cooldown active: '', FFloat (py_round 0 (seconds_remaining c now)), FLit ''s remaining (cooldown='',
               FFloat (py_round 0 (cs_cooldown_seconds c)), FLit ''s).'']
              (last_run_text (cs_last_run_at c) ''Last run: unknown''))"

definition check_budget_policy :: "budget_state option \<Rightarrow> policy_result" where
  "check_budget_policy budget =
     (case budget of
        None \<Rightarrow> policy_outcome ''budget_policy'' PS_skipped [FLit ''No budget state available; check skipped.''] []
      | Some b \<Rightarrow>
          if \<not> is_exhausted b then
            policy_outcome ''budget_policy'' PS_passed
              [FLit ''Budget available: '', FInt (runs_remaining b), FLit '' of '', FInt (bs_max_runs b),
               FLit '' runs remaining in period.''] []
          else policy_outcome ''budget_policy'' PS_failed
              [FLit ''Budget exhausted: '', FInt (bs_runs_used b), FLit ''/'', FInt (bs_max_runs b),
               FLit '' runs used in period ending '', FTime (bs_period_end b), FLit ''.''] [])"

definition check_mini_regression_first :: "governance_request \<Rightarrow> string list \<Rightarrow> policy_result" where
  "check_mini_regression_first q require_for_urgency =
     (if truthy_str (gq_related_suite_report_path q) then
        policy_outcome ''mini_regression_first_policy'' PS_passed
          [FLit ''Related mini regression suite report is present.'']
          [FLit ''Suite report: '', FStr (or_empty (gq_related_suite_report_path q))]
      else if urgency_value (gq_urgency q) \<in> set require_for_urgency then
        policy_outcome ''mini_regression_first_policy'' PS_failed
          [FLit ''No related mini regression suite report found for urgency='', FRepr (urgency_value (gq_urgency q)),
           FLit ''. Run Phase 11 mini regression first or provide related_suite_report_path.''] []
      else policy_outcome ''mini_regression_first_policy'' PS_warning
          [FLit ''No related mini regression suite report for urgency='', FRepr (urgency_value (gq_urgency q)),
           FLit ''. Consider running Phase 11 first.''] [])"

definition is_urgent :: "governance_request \<Rightarrow> bool" where
  "is_urgent q = (urgency_value (gq_urgency q) \<in> {''high'', ''urgent''})"

definition check_urgent_override :: "governance_request \<Rightarrow> policy_result" where
  "check_urgent_override q =
     (if is_urgent q then
        policy_outcome ''urgent_override_policy'' PS_warning
          [FLit ''urgency='', FRepr (urgency_value (gq_urgency q)),
           FLit '' requires manual approval before dispatch. Urgent requests are never auto-approved.''] []
      else policy_outcome ''urgent_override_policy'' PS_passed
          [FLit ''urgency='', FRepr (urgency_value (gq_urgency q)),
           FLit '' does not require urgent override handling.''] [])"

definition check_recent_success :: "datetime \<Rightarrow> governance_request \<Rightarrow> cooldown_state option \<Rightarrow> policy_result" where
  "check_recent_success now q cooldown =
     (if \<not> gq_allow_if_recent_success q then
        policy_outcome ''recent_success_policy'' PS_skipped
          [FLit ''allow_if_recent_success is False; check skipped.''] []
      else case cooldown of
        Some c \<Rightarrow>
          if cs_last_run_at c \<noteq> None \<and> is_in_cooldown c now then
            policy_outcome ''recent_success_policy'' PS_warning
              [FLit ''A recent run exists within the cooldown window; consider deferring.'']
              (last_run_text (cs_last_run_at c) ''Last run: unknown'')
          else policy_outcome ''recent_success_policy'' PS_passed
              [FLit ''No recent run within cooldown window; proceeding normally.''] []
      | None \<Rightarrow> policy_outcome ''recent_success_policy'' PS_passed
              [FLit ''No recent run within cooldown window; proceeding normally.''] [])"

text \<open>\<open>t1\<close> and \<open>t2\<close> are the two clock readings, by the cooldown and by the recent-success check.\<close>

definition evaluate_governance_policies ::
  "datetime \<Rightarrow> datetime \<Rightarrow> governance_request \<Rightarrow> string list \<Rightarrow> (string \<times> string list) list \<Rightarrow> budget_state option
   \<Rightarrow> cooldown_state option \<Rightarrow> string list option \<Rightarrow> policy_result list" where
  "evaluate_governance_policies t1 t2 q known_repos known_audit_types budget cooldown require_mini =
     [check_manual_request_required q,
      check_known_repo q known_repos,
      check_known_audit_type q known_audit_types,
      check_cooldown_policy t1 cooldown,
      check_budget_policy budget,
      check_mini_regression_first q (case require_mini of Some u \<Rightarrow> u | None \<Rightarrow> [''low'', ''normal'']),
      check_urgent_override q,
      check_recent_success t2 q cooldown]"

text \<open>\<open>{p.policy_name: p for p in policy_results}\<close>: the last result of a name stays.\<close>

definition by_name :: "policy_result list \<Rightarrow> string \<rightharpoonup> policy_result" where
  "by_name ps = map_of (rev (map (\<lambda>p. (po_policy_name p, p)) ps))"

definition named_status :: "policy_result list \<Rightarrow> string \<Rightarrow> policy_status" where
  "named_status ps name = (case by_name ps name of Some p \<Rightarrow> po_status p | None \<Rightarrow> PS_skipped)"

definition hard_deny_checks :: "string list" where
  "hard_deny_checks = [''known_repo_required'', ''known_audit_type_required'', ''manual_request_required'']"

definition make_governance_decision :: "string \<Rightarrow> governance_request \<Rightarrow> policy_result list \<Rightarrow> governance_decision" where
  "make_governance_decision decision_id q ps =
     (let hard_failures = filter (\<lambda>p. po_policy_name p \<in> set hard_deny_checks \<and> po_status p = PS_failed) ps;
          decide = \<lambda>v rs man. \<lparr>gd_decision_id = decision_id, gd_request_id = gq_request_id q, gd_repo_id = gq_repo_id q,
             gd_audit_type = gq_audit_type q, gd_decision = v, gd_reasons = rs, gd_policy_results = ps,
             gd_requires_manual_approval = man\<rparr>;
          needs_manual = named_status ps ''urgent_override_policy'' = PS_warning
             \<or> named_status ps ''mini_regression_first_policy'' = PS_failed;
          budget_failed = named_status ps ''budget_policy'' = PS_failed;
          cooldown_failed = named_status ps ''cooldown_policy'' = PS_failed
      in if hard_failures \<noteq> [] then decide GD_denied (map po_reason hard_failures) False
         else if needs_manual \<or> (is_urgent q \<and> (budget_failed \<or> cooldown_failed)) then
           (let rs = map po_reason (filter (\<lambda>p. po_status p \<in> {PS_failed, PS_warning}) ps)
            in decide GD_needs_manual_approval
                 (if rs = [] then [[FLit ''Manual approval required based on urgency or evidence rules.'']] else rs) True)
         else if budget_failed \<or> cooldown_failed then
           decide GD_deferred (map po_reason (filter (\<lambda>p. po_status p = PS_failed) ps)) False
         else decide GD_approved [[FLit ''All required policy checks passed.'']] False)"

section \<open>The decision in terms of the request\<close>

text \<open>What the priorities of \<open>make_governance_decision\<close> come to, on the request, the configuration and the loaded state.\<close>

definition hard_denied :: "governance_config \<Rightarrow> governance_request \<Rightarrow> bool" where
  "hard_denied c q =
     (py_strip (gq_requested_by q) = [] \<or> gq_repo_id q \<notin> set (gc_known_repos c) \<or> gc_known_audit_types c = []
      \<or> (case map_of (gc_known_audit_types c) (gq_repo_id q) of Some ts \<Rightarrow> gq_audit_type q \<notin> set ts | None \<Rightarrow> False))"

definition wants_approval :: "governance_config \<Rightarrow> governance_request \<Rightarrow> bool" where
  "wants_approval c q =
     (is_urgent q \<or> \<not> truthy_str (gq_related_suite_report_path q)
        \<and> urgency_value (gq_urgency q) \<in> set (gc_require_mini_regression_for_urgency c))"

definition over_budget :: "datetime \<Rightarrow> budget_state option \<Rightarrow> cooldown_state option \<Rightarrow> bool" where
  "over_budget now budget cooldown =
     ((case budget of Some b \<Rightarrow> is_exhausted b | None \<Rightarrow> False)
      \<or> (case cooldown of Some s \<Rightarrow> is_in_cooldown s now | None \<Rightarrow> False))"

definition decision_spec ::
  "governance_config \<Rightarrow> governance_request \<Rightarrow> datetime \<Rightarrow> budget_state option \<Rightarrow> cooldown_state option
   \<Rightarrow> governance_decision_value" where
  "decision_spec c q now budget cooldown =
     (if hard_denied c q then GD_denied else if wants_approval c q then GD_needs_manual_approval
      else if over_budget now budget cooldown then GD_deferred else GD_approved)"

lemma check_statuses:
  "po_policy_name (check_manual_request_required q) = ''manual_request_required''"
  "po_status (check_manual_request_required q) = PS_failed \<longleftrightarrow> py_strip (gq_requested_by q) = []"
  "po_policy_name (check_known_repo q rs) = ''known_repo_required''"
  "po_status (check_known_repo q rs) = PS_failed \<longleftrightarrow> gq_repo_id q \<notin> set rs"
  "po_policy_name (check_known_audit_type q ks) = ''known_audit_type_required''"
  "po_status (check_known_audit_type q ks) = PS_failed \<longleftrightarrow>
     ks = [] \<or> (case map_of ks (gq_repo_id q) of Some ts \<Rightarrow> gq_audit_type q \<notin> set ts | None \<Rightarrow> False)"
  "po_policy_name (check_cooldown_policy t cd) = ''cooldown_policy''"
  "po_status (check_cooldown_policy t cd) = PS_failed \<longleftrightarrow> (case cd of Some s \<Rightarrow> is_in_cooldown s t | None \<Rightarrow> False)"
  "po_policy_name (check_budget_policy b) = ''budget_policy''"
  "po_status (check_budget_policy b) = PS_failed \<longleftrightarrow> (case b of Some s \<Rightarrow> is_exhausted s | None \<Rightarrow> False)"
  "po_policy_name (check_mini_regression_first q us) = ''mini_regression_first_policy''"
  "po_status (check_mini_regression_first q us) = PS_failed \<longleftrightarrow>
     \<not> truthy_str (gq_related_suite_report_path q) \<and> urgency_value (gq_urgency q) \<in> set us"
  "po_policy_name (check_urgent_override q) = ''urgent_override_policy''"
  "po_status (check_urgent_override q) = PS_warning \<longleftrightarrow> is_urgent q"
  "po_policy_name (check_recent_success t q cd) = ''recent_success_policy''"
  by (auto simp: check_manual_request_required_def check_known_repo_def check_known_audit_type_def check_cooldown_policy_def
      check_budget_policy_def check_mini_regression_first_def check_urgent_override_def check_recent_success_def
      split: option.split)

lemma hard_failures_iff:
  "filter (\<lambda>p. po_policy_name p \<in> set hard_deny_checks \<and> po_status p = PS_failed)
     (evaluate_governance_policies t1 t2 q (gc_known_repos c) (gc_known_audit_types c) b cd rm) \<noteq> [] \<longleftrightarrow> hard_denied c q"
  by (auto simp: evaluate_governance_policies_def hard_deny_checks_def hard_denied_def check_statuses)

lemma evaluated_statuses:
  "named_status (evaluate_governance_policies t1 t2 q rs ks b cd rm) ''urgent_override_policy'' = po_status (check_urgent_override q)"
  "named_status (evaluate_governance_policies t1 t2 q rs ks b cd rm) ''mini_regression_first_policy'' =
     po_status (check_mini_regression_first q (case rm of Some u \<Rightarrow> u | None \<Rightarrow> [''low'', ''normal'']))"
  "named_status (evaluate_governance_policies t1 t2 q rs ks b cd rm) ''budget_policy'' = po_status (check_budget_policy b)"
  "named_status (evaluate_governance_policies t1 t2 q rs ks b cd rm) ''cooldown_policy'' = po_status (check_cooldown_policy t1 cd)"
  by (simp_all add: evaluate_governance_policies_def named_status_def by_name_def check_statuses)

definition governed_decision ::
  "string \<Rightarrow> datetime \<Rightarrow> datetime \<Rightarrow> governance_config \<Rightarrow> governance_request \<Rightarrow> budget_state option \<Rightarrow> cooldown_state option
   \<Rightarrow> governance_decision" where
  "governed_decision decision_id t1 t2 c q budget cooldown =
     make_governance_decision decision_id q
       (evaluate_governance_policies t1 t2 q (gc_known_repos c) (gc_known_audit_types c) budget cooldown
          (Some (gc_require_mini_regression_for_urgency c)))"

lemma decision_refines_spec:
  "gd_decision (governed_decision i t1 t2 c q b cd) = decision_spec c q t1 b cd"
  "gd_requires_manual_approval (governed_decision i t1 t2 c q b cd) \<longleftrightarrow> decision_spec c q t1 b cd = GD_needs_manual_approval"
  unfolding governed_decision_def make_governance_decision_def Let_def hard_failures_iff evaluated_statuses
  by (auto simp: decision_spec_def wants_approval_def over_budget_def check_statuses)

section \<open>State files\<close>

text \<open>What a write to a state file does: it succeeds, it is refused before the file is opened, or it fails halfway.\<close>

datatype write_io = W_ok | W_refused | W_torn

datatype 'a state_content = Invalid fstring | Document 'a

record gov_files =
  gf_budget :: "string \<rightharpoonup> budget_state state_content"
  gf_cooldown :: "string \<rightharpoonup> cooldown_state state_content"

datatype state_error = BudgetStateError fstring | CooldownStateError fstring | FileLockTimeoutError | StateOSError

text \<open>
  \<open>locked_state_file\<close>: attempt number \<open>n\<close> is made when the lock is \<open>busy n\<close> and the clock shows \<open>monotonic n\<close>. The loop ends
  only by success or by the deadline, so it is a partial function.
\<close>

datatype lock_wait = LockAcquired nat | LockTimedOut nat

partial_function (option) lock_attempts :: "(nat \<Rightarrow> bool) \<Rightarrow> (nat \<Rightarrow> rat) \<Rightarrow> rat \<Rightarrow> nat \<Rightarrow> lock_wait option" where
  "lock_attempts busy monotonic deadline n =
     (if \<not> busy n then Some (LockAcquired n)
      else if deadline \<le> monotonic n then Some (LockTimedOut n)
      else lock_attempts busy monotonic deadline (Suc n))"

declare lock_attempts.simps [code]

definition locked_state_file :: "(nat \<Rightarrow> bool) \<Rightarrow> (nat \<Rightarrow> rat) \<Rightarrow> rat \<Rightarrow> rat \<Rightarrow> lock_wait option" where
  "locked_state_file busy monotonic start timeout = lock_attempts busy monotonic (start + timeout) 0"

definition budget_state_path :: "string \<Rightarrow> string \<Rightarrow> string \<Rightarrow> string" where
  "budget_state_path state_dir repo_id audit_type = path_join state_dir (repo_id @ ''__'' @ audit_type @ ''__budget.json'')"

definition cooldown_state_path :: "string \<Rightarrow> string \<Rightarrow> string \<Rightarrow> string" where
  "cooldown_state_path state_dir repo_id audit_type = path_join state_dir (repo_id @ ''__'' @ audit_type @ ''__cooldown.json'')"

definition fresh_budget_state :: "datetime \<Rightarrow> string \<Rightarrow> string \<Rightarrow> budget_config \<Rightarrow> budget_state" where
  "fresh_budget_state now repo_id audit_type config =
     \<lparr>bs_repo_id = repo_id, bs_audit_type = audit_type, bs_period_start = now,
      bs_period_end = now + td_days (bc_period_days config), bs_max_runs = bc_max_runs config, bs_runs_used = 0,
      bs_last_run_at = None\<rparr>"

definition load_budget_state_unlocked ::
  "datetime \<Rightarrow> budget_state state_content option \<Rightarrow> string \<Rightarrow> string \<Rightarrow> budget_config \<Rightarrow> state_error + budget_state" where
  "load_budget_state_unlocked now content repo_id audit_type config =
     (case content of
        None \<Rightarrow> Inr (fresh_budget_state now repo_id audit_type config)
      | Some (Invalid e) \<Rightarrow> Inl (BudgetStateError e)
      | Some (Document s) \<Rightarrow>
          if bs_period_end s < now then Inr (fresh_budget_state now repo_id audit_type config)
          else Inr (s\<lparr>bs_max_runs := bc_max_runs config\<rparr>))"

definition load_budget_state ::
  "bool \<Rightarrow> datetime \<Rightarrow> gov_files \<Rightarrow> string \<Rightarrow> string \<Rightarrow> string \<Rightarrow> budget_config \<Rightarrow> state_error + budget_state" where
  "load_budget_state lock_ok now fs state_dir repo_id audit_type config =
     (if \<not> lock_ok then Inl FileLockTimeoutError
      else load_budget_state_unlocked now (gf_budget fs (budget_state_path state_dir repo_id audit_type)) repo_id audit_type config)"

definition torn :: "'a state_content" where
  "torn = Invalid [FLit ''truncated document'']"

definition put_budget :: "write_io \<Rightarrow> gov_files \<Rightarrow> string \<Rightarrow> budget_state \<Rightarrow> gov_files" where
  "put_budget io fs path s =
     (case io of W_ok \<Rightarrow> fs\<lparr>gf_budget := (gf_budget fs)(path \<mapsto> Document s)\<rparr>
      | W_refused \<Rightarrow> fs
      | W_torn \<Rightarrow> fs\<lparr>gf_budget := (gf_budget fs)(path \<mapsto> torn)\<rparr>)"

definition save_budget_state :: "bool \<Rightarrow> write_io \<Rightarrow> gov_files \<Rightarrow> budget_state \<Rightarrow> string \<Rightarrow> gov_files \<times> (state_error + unit)" where
  "save_budget_state lock_ok io fs s state_dir =
     (if \<not> lock_ok then (fs, Inl (BudgetStateError [FLit ''Cannot save budget state'']))
      else (put_budget io fs (budget_state_path state_dir (bs_repo_id s) (bs_audit_type s)) s,
            if io = W_ok then Inr () else Inl (BudgetStateError [FLit ''Cannot save budget state''])))"

text \<open>\<open>now\<close> is the clock reading of the load inside; \<open>ran_at\<close> is always given by the runner.\<close>

definition increment_budget_after_dispatch ::
  "bool \<Rightarrow> write_io \<Rightarrow> datetime \<Rightarrow> gov_files \<Rightarrow> string \<Rightarrow> string \<Rightarrow> string \<Rightarrow> budget_config \<Rightarrow> datetime
   \<Rightarrow> gov_files \<times> (state_error + budget_state)" where
  "increment_budget_after_dispatch lock_ok io now fs state_dir repo_id audit_type config ran_at =
     (let path = budget_state_path state_dir repo_id audit_type
      in if \<not> lock_ok then (fs, Inl FileLockTimeoutError)
         else case load_budget_state_unlocked now (gf_budget fs path) repo_id audit_type config of
                Inl e \<Rightarrow> (fs, Inl e)
              | Inr s \<Rightarrow>
                  (let updated = s\<lparr>bs_runs_used := bs_runs_used s + 1, bs_last_run_at := Some ran_at\<rparr>
                   in (put_budget io fs path updated, if io = W_ok then Inr updated else Inl StateOSError)))"

definition load_cooldown_state_unlocked ::
  "cooldown_state state_content option \<Rightarrow> string \<Rightarrow> string \<Rightarrow> rat \<Rightarrow> state_error + cooldown_state" where
  "load_cooldown_state_unlocked content repo_id audit_type seconds =
     (case content of
        None \<Rightarrow> Inr \<lparr>cs_repo_id = repo_id, cs_audit_type = audit_type, cs_cooldown_seconds = seconds, cs_last_run_at = None\<rparr>
      | Some (Invalid e) \<Rightarrow> Inl (CooldownStateError e)
      | Some (Document s) \<Rightarrow> Inr (s\<lparr>cs_cooldown_seconds := seconds\<rparr>))"

definition load_cooldown_state ::
  "bool \<Rightarrow> gov_files \<Rightarrow> string \<Rightarrow> string \<Rightarrow> string \<Rightarrow> rat \<Rightarrow> state_error + cooldown_state" where
  "load_cooldown_state lock_ok fs state_dir repo_id audit_type seconds =
     (if \<not> lock_ok then Inl FileLockTimeoutError
      else load_cooldown_state_unlocked (gf_cooldown fs (cooldown_state_path state_dir repo_id audit_type)) repo_id audit_type seconds)"

definition put_cooldown :: "write_io \<Rightarrow> gov_files \<Rightarrow> string \<Rightarrow> cooldown_state \<Rightarrow> gov_files" where
  "put_cooldown io fs path s =
     (case io of W_ok \<Rightarrow> fs\<lparr>gf_cooldown := (gf_cooldown fs)(path \<mapsto> Document s)\<rparr>
      | W_refused \<Rightarrow> fs
      | W_torn \<Rightarrow> fs\<lparr>gf_cooldown := (gf_cooldown fs)(path \<mapsto> torn)\<rparr>)"

definition save_cooldown_state :: "bool \<Rightarrow> write_io \<Rightarrow> gov_files \<Rightarrow> cooldown_state \<Rightarrow> string \<Rightarrow> gov_files \<times> (state_error + unit)" where
  "save_cooldown_state lock_ok io fs s state_dir =
     (if \<not> lock_ok then (fs, Inl (CooldownStateError [FLit ''Cannot save cooldown state'']))
      else (put_cooldown io fs (cooldown_state_path state_dir (cs_repo_id s) (cs_audit_type s)) s,
            if io = W_ok then Inr () else Inl (CooldownStateError [FLit ''Cannot save cooldown state''])))"

definition update_cooldown_after_dispatch ::
  "bool \<Rightarrow> write_io \<Rightarrow> gov_files \<Rightarrow> string \<Rightarrow> string \<Rightarrow> string \<Rightarrow> rat \<Rightarrow> datetime \<Rightarrow> gov_files \<times> (state_error + cooldown_state)" where
  "update_cooldown_after_dispatch lock_ok io fs state_dir repo_id audit_type seconds ran_at =
     (let path = cooldown_state_path state_dir repo_id audit_type;
          updated = \<lparr>cs_repo_id = repo_id, cs_audit_type = audit_type, cs_cooldown_seconds = seconds, cs_last_run_at = Some ran_at\<rparr>
      in if \<not> lock_ok then (fs, Inl FileLockTimeoutError)
         else (put_cooldown io fs path updated, if io = W_ok then Inr updated else Inl StateOSError))"

section \<open>Manual approval\<close>

definition validate_manual_approval ::
  "manual_approval \<Rightarrow> governance_decision \<Rightarrow> governance_request \<Rightarrow> fstring option" where
  "validate_manual_approval a d q =
     (if ma_decision_id a \<noteq> gd_decision_id d then
        Some [FLit ''approval.decision_id '', FRepr (ma_decision_id a), FLit '' does not match decision.decision_id '',
              FRepr (gd_decision_id d)]
      else if ma_request_id a \<noteq> gq_request_id q then
        Some [FLit ''approval.request_id '', FRepr (ma_request_id a), FLit '' does not match request.request_id '',
              FRepr (gq_request_id q)]
      else if gd_decision d = GD_denied then
        Some [FLit ''Cannot approve a denied decision (decision='', FRepr ''denied'',
              FLit ''). A new governance request is required.'']
      else None)"

definition make_manual_approval ::
  "governance_decision \<Rightarrow> governance_request \<Rightarrow> string \<Rightarrow> string \<Rightarrow> fstring + manual_approval" where
  "make_manual_approval d q approved_by notes =
     (let a = \<lparr>ma_decision_id = gd_decision_id d, ma_request_id = gq_request_id q, ma_approved_by = approved_by,
               ma_approval_notes = notes\<rparr>
      in if py_strip approved_by = [] then Inl [FLit ''approved_by must not be empty'']
         else case validate_manual_approval a d q of Some e \<Rightarrow> Inl e | None \<Rightarrow> Inr a)"

definition check_approval_request_id :: "manual_approval \<Rightarrow> governance_request \<Rightarrow> fstring option" where
  "check_approval_request_id a q =
     (if ma_request_id a \<noteq> gq_request_id q then
        Some [FLit ''approval.request_id '', FRepr (ma_request_id a), FLit '' does not match request.request_id '',
              FRepr (gq_request_id q)]
      else None)"

end
