(* ===== verification/Audit_Runner.thy ===== *)
theory Audit_Runner
  imports Audit_Governance
begin

text \<open>
  The governed audit runner (\<open>audit_governance/runner.py\<close>) with its reports (\<open>reports.py\<close>) and the coverage step after a
  dispatch (\<open>coverage_analysis.py\<close>), and what governance guarantees.

  The runner is composed of the loading and deciding part, the dispatch and the recording part, in the order of the code;
  a run threads the state files, the dispatcher's state and the written reports. Of the sequences of runs, the two
  limits governance is there for are shown: runs per budget period and the distance between runs.
\<close>

section \<open>Coverage analysis\<close>

record coverage_summary =
  cv_coverage_json_path :: "string option"
  cv_custodian_exit_code :: "int option"
  cv_findings_total :: int
  cv_cv1_count :: int
  cv_cv2_count :: int
  cv_cv3_count :: int
  cv_sample_findings :: "string list"
  cv_error :: "fstring option"

definition COVERAGE_RULES :: "string list" where
  "COVERAGE_RULES = [''CV1_MODULE_UNEXECUTED'', ''CV2_FUNCTION_UNEXECUTED'', ''CV3_MODULE_BELOW_MIN_COVERAGE'']"

definition MAX_SAMPLES :: nat where
  "MAX_SAMPLES = 6"

definition coverage_error :: "string option \<Rightarrow> int option \<Rightarrow> fstring \<Rightarrow> coverage_summary" where
  "coverage_error path code e =
     \<lparr>cv_coverage_json_path = path, cv_custodian_exit_code = code, cv_findings_total = 0, cv_cv1_count = 0, cv_cv2_count = 0,
      cv_cv3_count = 0, cv_sample_findings = [], cv_error = Some e\<rparr>"

text \<open>An entry of the artifact index: its path and its resolved path. No index stands for an unreadable manifest.\<close>

fun first_coverage :: "(string \<times> string option) list \<Rightarrow> string option" where
  "first_coverage [] = None"
| "first_coverage ((p, r) # es) =
     (if str_endswith p ''coverage.json'' \<and> r \<noteq> None then r else first_coverage es)"

definition find_coverage_json :: "(string \<times> string option) list option \<Rightarrow> string option" where
  "find_coverage_json index = (case index of None \<Rightarrow> None | Some es \<Rightarrow> first_coverage es)"

text \<open>Custodian's \<open>--json\<close> output: not JSON, or the count and samples of its COVERAGE pattern when there is one.\<close>

datatype custodian_output = NotJson | Payload "(int \<times> string list) option"

fun matched_rule :: "string list \<Rightarrow> string \<Rightarrow> string option" where
  "matched_rule [] sample = None"
| "matched_rule (r # rs) sample = (if str_contains r sample then Some r else matched_rule rs sample)"

definition rule_count :: "string list \<Rightarrow> string \<Rightarrow> int" where
  "rule_count samples rule = int (length (filter (\<lambda>s. matched_rule COVERAGE_RULES s = Some rule) samples))"

definition summarize :: "custodian_output \<Rightarrow> int \<Rightarrow> string option \<Rightarrow> coverage_summary" where
  "summarize out exit_code path =
     (case out of
        NotJson \<Rightarrow> coverage_error path (Some exit_code) [FLit ''custodian stdout was not valid JSON'']
      | Payload block \<Rightarrow>
          (let total = (case block of None \<Rightarrow> 0 | Some (n, _) \<Rightarrow> n);
               samples = (case block of None \<Rightarrow> [] | Some (_, ss) \<Rightarrow> ss)
           in \<lparr>cv_coverage_json_path = path, cv_custodian_exit_code = Some exit_code, cv_findings_total = total,
               cv_cv1_count = rule_count samples ''CV1_MODULE_UNEXECUTED'',
               cv_cv2_count = rule_count samples ''CV2_FUNCTION_UNEXECUTED'',
               cv_cv3_count = rule_count samples ''CV3_MODULE_BELOW_MIN_COVERAGE'',
               cv_sample_findings = take MAX_SAMPLES samples, cv_error = None\<rparr>))"

datatype custodian_run = CustodianTimeout | CustodianNotInvokable string | CustodianExit int custodian_output

definition coverage_argv :: "string \<Rightarrow> string \<Rightarrow> string \<Rightarrow> string list \<Rightarrow> string list" where
  "coverage_argv binary repo_root coverage_json extra =
     [binary, ''audit'', ''--repo'', repo_root, ''--enable-coverage'', ''--coverage-json'', coverage_json, ''--json'', ''--no-color'']
     @ extra"

definition run_post_dispatch_coverage_audit ::
  "(string \<times> string option) list option \<Rightarrow> string option \<Rightarrow> (string list \<Rightarrow> custodian_run) \<Rightarrow> string \<Rightarrow> int \<Rightarrow> coverage_summary" where
  "run_post_dispatch_coverage_audit index binary run repo_root timeout_seconds =
     (case find_coverage_json index of
        None \<Rightarrow> coverage_error None None [FLit ''coverage.json not found in dispatch artifact manifest'']
      | Some cj \<Rightarrow>
          (case binary of
             None \<Rightarrow> coverage_error (Some cj) None [FLit ''custodian executable not found on PATH'']
           | Some b \<Rightarrow>
               (case run (coverage_argv b repo_root cj []) of
                  CustodianTimeout \<Rightarrow>
                    coverage_error (Some cj) None [FLit ''custodian audit timed out after '', FInt timeout_seconds, FLit ''s'']
                | CustodianNotInvokable e \<Rightarrow>
                    coverage_error (Some cj) None [FLit ''custodian executable not invokable: '', FStr e]
                | CustodianExit code out \<Rightarrow> summarize out code (Some cj))))"

section \<open>Reports\<close>

record dispatch_summary =
  dsm_run_id :: "string option"
  dsm_status :: dispatch_status
  dsm_failure_kind :: "audit_failure_kind option"
  dsm_artifact_manifest_path :: "string option"
  dsm_error :: "string option"

record budget_summary =
  bsm_runs_used :: int
  bsm_max_runs :: int
  bsm_runs_remaining :: int
  bsm_period_start :: datetime
  bsm_period_end :: datetime

record cooldown_summary =
  csm_in_cooldown :: bool
  csm_cooldown_seconds :: rat
  csm_seconds_remaining :: rat
  csm_last_run_at :: "datetime option"

record governance_report =
  gr_request :: governance_request
  gr_decision :: governance_decision
  gr_policy_results :: "policy_result list"
  gr_governance_status :: governance_status
  gr_approval :: "manual_approval option"
  gr_dispatch_summary :: "dispatch_summary option"
  gr_budget_summary :: "budget_summary option"
  gr_cooldown_summary :: "cooldown_summary option"
  gr_coverage_summary :: "coverage_summary option"

definition dispatched_run_id :: "governance_report \<Rightarrow> string option" where
  "dispatched_run_id r = (case gr_dispatch_summary r of None \<Rightarrow> None | Some s \<Rightarrow> dsm_run_id s)"

definition make_budget_summary :: "budget_state option \<Rightarrow> budget_summary option" where
  "make_budget_summary = map_option (\<lambda>s. \<lparr>bsm_runs_used = bs_runs_used s, bsm_max_runs = bs_max_runs s,
     bsm_runs_remaining = runs_remaining s, bsm_period_start = bs_period_start s, bsm_period_end = bs_period_end s\<rparr>)"

definition make_cooldown_summary :: "datetime \<Rightarrow> cooldown_state option \<Rightarrow> cooldown_summary option" where
  "make_cooldown_summary now = map_option (\<lambda>s. \<lparr>csm_in_cooldown = is_in_cooldown s now, csm_cooldown_seconds = cs_cooldown_seconds s,
     csm_seconds_remaining = seconds_remaining s now, csm_last_run_at = cs_last_run_at s\<rparr>)"

definition report_path :: "string \<Rightarrow> governance_request \<Rightarrow> string" where
  "report_path output_dir q =
     path_join (path_join (path_join (path_join output_dir (gq_repo_id q)) (gq_audit_type q)) (gq_request_id q))
       ''governance_report.json''"

type_synonym reports = "string \<rightharpoonup> governance_report state_content"

datatype governed_error = GovernanceReportError | DispatchRequestInvalid

definition write_governance_report :: "write_io \<Rightarrow> reports \<Rightarrow> governance_report \<Rightarrow> string \<Rightarrow> reports \<times> (governed_error + string)" where
  "write_governance_report io reps r output_dir =
     (let path = report_path output_dir (gr_request r)
      in case io of W_ok \<Rightarrow> (reps(path \<mapsto> Document r), Inr path)
         | W_refused \<Rightarrow> (reps, Inl GovernanceReportError)
         | W_torn \<Rightarrow> (reps(path \<mapsto> torn), Inl GovernanceReportError))"

section \<open>The runner\<close>

record 's gov_world =
  gw_decision_id :: string
  gw_denied_decision_id :: string
  gw_budget_lock :: bool
  gw_budget_time :: datetime
  gw_cooldown_lock :: bool
  gw_check_time :: datetime
  gw_recent_time :: datetime
  gw_summary_time :: datetime
  gw_timeout_text :: string
  gw_dispatch :: "'s \<Rightarrow> audit_dispatch_request \<Rightarrow> 's \<times> (string + audit_dispatch_result)"
  gw_ran_at :: datetime
  gw_increment_lock :: bool
  gw_increment_io :: write_io
  gw_increment_time :: datetime
  gw_update_lock :: bool
  gw_update_io :: write_io
  gw_coverage :: "string \<Rightarrow> string + coverage_summary"
  gw_report_io :: write_io

record governed_run_result =
  grr_request :: governance_request
  grr_decision :: governance_decision
  grr_governance_status :: governance_status
  grr_dispatch_result :: "audit_dispatch_result option"
  grr_report_path :: string

definition was_dispatched :: "governed_run_result \<Rightarrow> bool" where
  "was_dispatched r = (grr_dispatch_result r \<noteq> None)"

definition dispatch_succeeded :: "audit_dispatch_result \<Rightarrow> bool" where
  "dispatch_succeeded r = (adr_status r = DS_COMPLETED)"

definition governed_succeeded :: "governed_run_result \<Rightarrow> bool" where
  "governed_succeeded r =
     (grr_governance_status r = GS_approved_and_dispatched
      \<and> (case grr_dispatch_result r of None \<Rightarrow> False | Some d \<Rightarrow> dispatch_succeeded d))"

definition loaded :: "'e + 'a \<Rightarrow> 'a option" where
  "loaded r = (case r of Inl _ \<Rightarrow> None | Inr a \<Rightarrow> Some a)"

definition loaded_budget :: "'s gov_world \<Rightarrow> governance_config \<Rightarrow> governance_request \<Rightarrow> gov_files \<Rightarrow> budget_state option" where
  "loaded_budget w c q fs = loaded (load_budget_state (gw_budget_lock w) (gw_budget_time w) fs (gc_state_dir c) (gq_repo_id q)
     (gq_audit_type q) (get_budget_config c (gq_repo_id q) (gq_audit_type q)))"

definition loaded_cooldown :: "'s gov_world \<Rightarrow> governance_config \<Rightarrow> governance_request \<Rightarrow> gov_files \<Rightarrow> cooldown_state option" where
  "loaded_cooldown w c q fs = loaded (load_cooldown_state (gw_cooldown_lock w) fs (gc_state_dir c) (gq_repo_id q)
     (gq_audit_type q) (get_cooldown_config c (gq_repo_id q) (gq_audit_type q)))"

definition decision_of :: "'s gov_world \<Rightarrow> governance_config \<Rightarrow> governance_request \<Rightarrow> gov_files \<Rightarrow> governance_decision" where
  "decision_of w c q fs =
     governed_decision (gw_decision_id w) (gw_check_time w) (gw_recent_time w) c q (loaded_budget w c q fs) (loaded_cooldown w c q fs)"

text \<open>Writing the report and returning the result, the last two statements of every branch.\<close>

definition conclude ::
  "'s gov_world \<Rightarrow> string \<Rightarrow> governance_report \<Rightarrow> governance_decision \<Rightarrow> audit_dispatch_result option \<Rightarrow> reports
   \<Rightarrow> reports \<times> (governed_error + governed_run_result)" where
  "conclude w out rep d dr reps =
     (let (reps', res) = write_governance_report (gw_report_io w) reps rep out
      in (reps', case res of Inl e \<Rightarrow> Inl e
           | Inr path \<Rightarrow> Inr \<lparr>grr_request = gr_request rep, grr_decision = d, grr_governance_status = gr_governance_status rep,
                grr_dispatch_result = dr, grr_report_path = path\<rparr>))"

definition report_of ::
  "'s gov_world \<Rightarrow> governance_request \<Rightarrow> governance_decision \<Rightarrow> governance_status \<Rightarrow> manual_approval option \<Rightarrow> dispatch_summary option
   \<Rightarrow> budget_state option \<Rightarrow> cooldown_state option \<Rightarrow> coverage_summary option \<Rightarrow> governance_report" where
  "report_of w q d st ap ds b cd cov =
     \<lparr>gr_request = q, gr_decision = d, gr_policy_results = gd_policy_results d, gr_governance_status = st, gr_approval = ap,
      gr_dispatch_summary = ds, gr_budget_summary = make_budget_summary b,
      gr_cooldown_summary = make_cooldown_summary (gw_summary_time w) cd, gr_coverage_summary = cov\<rparr>"

definition dispatch_request_of :: "'s gov_world \<Rightarrow> governance_request \<Rightarrow> audit_dispatch_request" where
  "dispatch_request_of w q =
     \<lparr>adq_repo_id = gq_repo_id q, adq_audit_type = gq_audit_type q, adq_allow_unverified_command = False,
      adq_timeout_text = gw_timeout_text w, adq_base_env = None, adq_cwd_override = None\<rparr>"

text \<open>From the approved decision on: dispatch, then budget, cooldown, coverage and report.\<close>

definition status_of_decision :: "governance_decision_value \<Rightarrow> governance_status" where
  "status_of_decision v = (case v of GD_deferred \<Rightarrow> GS_deferred | GD_needs_manual_approval \<Rightarrow> GS_needs_manual_approval | _ \<Rightarrow> GS_denied)"

definition coverage_step :: "'s gov_world \<Rightarrow> governance_request \<Rightarrow> audit_dispatch_result \<Rightarrow> coverage_summary option" where
  "coverage_step w q dr =
     (if gq_run_coverage_audit q \<and> dispatch_succeeded dr \<and> truthy_str (adr_artifact_manifest_path dr) then
        Some (case gw_coverage w (or_empty (adr_artifact_manifest_path dr)) of
                Inl e \<Rightarrow> coverage_error None None [FStr e] | Inr s \<Rightarrow> s)
      else None)"

definition record_governed_run ::
  "'s gov_world \<Rightarrow> governance_config \<Rightarrow> governance_request \<Rightarrow> budget_state option \<Rightarrow> cooldown_state option \<Rightarrow> gov_files
   \<Rightarrow> gov_files \<times> budget_state option \<times> cooldown_state option" where
  "record_governed_run w c q b cd fs =
     (let (fs1, r1) = increment_budget_after_dispatch (gw_increment_lock w) (gw_increment_io w) (gw_increment_time w) fs (gc_state_dir c)
            (gq_repo_id q) (gq_audit_type q) (get_budget_config c (gq_repo_id q) (gq_audit_type q)) (gw_ran_at w);
          (fs2, r2) = update_cooldown_after_dispatch (gw_update_lock w) (gw_update_io w) fs1 (gc_state_dir c)
            (gq_repo_id q) (gq_audit_type q) (get_cooldown_config c (gq_repo_id q) (gq_audit_type q)) (gw_ran_at w)
      in (fs2, case r1 of Inr s \<Rightarrow> Some s | Inl _ \<Rightarrow> b, case r2 of Inr s \<Rightarrow> Some s | Inl _ \<Rightarrow> cd))"

definition governed_dispatch ::
  "'s gov_world \<Rightarrow> governance_config \<Rightarrow> string \<Rightarrow> rat option \<Rightarrow> governance_request \<Rightarrow> manual_approval option \<Rightarrow> governance_decision
   \<Rightarrow> budget_state option \<Rightarrow> cooldown_state option \<Rightarrow> gov_files \<Rightarrow> 's \<Rightarrow> reports
   \<Rightarrow> gov_files \<times> 's \<times> reports \<times> (governed_error + governed_run_result)" where
  "governed_dispatch w c out timeout q ap d b cd fs st reps =
     (if (case timeout of Some t \<Rightarrow> t \<le> 0 | None \<Rightarrow> False) then (fs, st, reps, Inl DispatchRequestInvalid)
      else case gw_dispatch w st (dispatch_request_of w q) of
        (st', Inl e) \<Rightarrow>
          (let ds = \<lparr>dsm_run_id = None, dsm_status = DS_FAILED, dsm_failure_kind = None, dsm_artifact_manifest_path = None,
                     dsm_error = Some e\<rparr>
           in (fs, st', conclude w out (report_of w q d GS_dispatch_failed ap (Some ds) b cd None) d None reps))
      | (st', Inr dr) \<Rightarrow>
          (let (fs', b', cd') = record_governed_run w c q b cd fs;
               ds = \<lparr>dsm_run_id = adr_run_id dr, dsm_status = adr_status dr, dsm_failure_kind = adr_failure_kind dr,
                     dsm_artifact_manifest_path = adr_artifact_manifest_path dr, dsm_error = adr_error dr\<rparr>
           in (fs', st', conclude w out
                 (report_of w q d GS_approved_and_dispatched ap (Some ds) b' cd' (coverage_step w q dr)) d (Some dr) reps)))"

definition run_governed_audit ::
  "'s gov_world \<Rightarrow> governance_config option \<Rightarrow> string option \<Rightarrow> rat option \<Rightarrow> governance_request \<Rightarrow> manual_approval option
   \<Rightarrow> gov_files \<Rightarrow> 's \<Rightarrow> reports \<Rightarrow> gov_files \<times> 's \<times> reports \<times> (governed_error + governed_run_result)" where
  "run_governed_audit w config output_dir timeout q ap fs st reps =
     (let c = (case config of Some c \<Rightarrow> c | None \<Rightarrow> default_governance_config);
          out = (if truthy_str output_dir then or_empty output_dir else ''tools/audit/report/governance'');
          b = loaded_budget w c q fs; cd = loaded_cooldown w c q fs; d = decision_of w c q fs
      in if gd_requires_manual_approval d then
           (case ap of
              None \<Rightarrow> (fs, st, conclude w out (report_of w q d GS_needs_manual_approval None None b cd None) d None reps)
            | Some a \<Rightarrow>
                (case check_approval_request_id a q of
                   Some e \<Rightarrow>
                     (fs, st, conclude w out (report_of w q d GS_denied ap None b cd None)
                        (d\<lparr>gd_decision_id := gw_denied_decision_id w, gd_decision := GD_denied,
                           gd_reasons := [FLit ''Manual approval validation failed: '' # e],
                           gd_requires_manual_approval := True\<rparr>) None reps)
                 | None \<Rightarrow> governed_dispatch w c out timeout q ap d b cd fs st reps))
         else if is_approved d then governed_dispatch w c out timeout q ap d b cd fs st reps
         else (fs, st, conclude w out (report_of w q d (status_of_decision (gd_decision d)) ap None b cd None) d None reps))"

text \<open>The dispatcher the code calls, \<open>dispatch_managed_audit\<close>, over the lock registry and the lock directory.\<close>

definition managed_dispatcher ::
  "audit_world \<Rightarrow> (audit_dispatch_error \<Rightarrow> string) \<Rightarrow> lock_registry \<times> lock_dir \<Rightarrow> audit_dispatch_request
   \<Rightarrow> (lock_registry \<times> lock_dir) \<times> (string + audit_dispatch_result)" where
  "managed_dispatcher w text st q =
     (case dispatch_managed_audit w (fst st) (snd st) q of
        (reg, dir, Inl e) \<Rightarrow> ((reg, dir), Inl (text e))
      | (reg, dir, Inr r) \<Rightarrow> ((reg, dir), Inr r))"

section \<open>Laws\<close>

definition permitted :: "'s gov_world \<Rightarrow> governance_config \<Rightarrow> governance_request \<Rightarrow> manual_approval option \<Rightarrow> gov_files \<Rightarrow> bool" where
  "permitted w c q ap fs =
     (case decision_spec c q (gw_check_time w) (loaded_budget w c q fs) (loaded_cooldown w c q fs) of
        GD_approved \<Rightarrow> True
      | GD_needs_manual_approval \<Rightarrow> (case ap of Some a \<Rightarrow> ma_request_id a = gq_request_id q | None \<Rightarrow> False)
      | _ \<Rightarrow> False)"

definition timeout_ok :: "rat option \<Rightarrow> bool" where
  "timeout_ok t = (case t of Some s \<Rightarrow> 0 < s | None \<Rightarrow> True)"

lemma decision_of_spec:
  "gd_decision (decision_of w c q fs) = decision_spec c q (gw_check_time w) (loaded_budget w c q fs) (loaded_cooldown w c q fs)"
  "gd_requires_manual_approval (decision_of w c q fs) \<longleftrightarrow>
     decision_spec c q (gw_check_time w) (loaded_budget w c q fs) (loaded_cooldown w c q fs) = GD_needs_manual_approval"
  by (simp_all add: decision_of_def decision_refines_spec)

lemma run_when_permitted:
  "permitted w c q ap fs \<Longrightarrow> run_governed_audit w (Some c) out t q ap fs st reps =
     governed_dispatch w c (if truthy_str out then or_empty out else ''tools/audit/report/governance'') t q ap (decision_of w c q fs)
       (loaded_budget w c q fs) (loaded_cooldown w c q fs) fs st reps"
  by (auto simp: run_governed_audit_def permitted_def Let_def decision_of_spec is_approved_def check_approval_request_id_def
      split: governance_decision_value.splits option.splits)

lemma run_when_not_permitted:
  "\<not> permitted w c q ap fs \<Longrightarrow> \<exists>rep d. run_governed_audit w (Some c) out t q ap fs st reps =
     (fs, st, conclude w (if truthy_str out then or_empty out else ''tools/audit/report/governance'') rep d None reps)
     \<and> gr_request rep = q \<and> gr_dispatch_summary rep = None
     \<and> gr_governance_status rep \<in> {GS_denied, GS_deferred, GS_needs_manual_approval}"
  by (auto simp: run_governed_audit_def permitted_def Let_def decision_of_spec is_approved_def check_approval_request_id_def report_of_def
      status_of_decision_def split: governance_decision_value.splits option.splits)

lemma governed_dispatch_files:
  "fst (governed_dispatch w c out t q ap d b cd fs st reps) =
     (if timeout_ok t \<and> \<not> isl (snd (gw_dispatch w st (dispatch_request_of w q))) then fst (record_governed_run w c q b cd fs) else fs)"
  by (auto simp: governed_dispatch_def timeout_ok_def case_prod_beta Let_def split: option.splits sum.splits)

lemma governed_dispatch_state:
  "fst (snd (governed_dispatch w c out t q ap d b cd fs st reps)) =
     (if timeout_ok t then fst (gw_dispatch w st (dispatch_request_of w q)) else st)"
  by (auto simp: governed_dispatch_def timeout_ok_def case_prod_beta Let_def split: option.splits sum.splits)

definition dispatch_returned :: "'s gov_world \<Rightarrow> governance_config \<Rightarrow> rat option \<Rightarrow> governance_request \<Rightarrow> manual_approval option \<Rightarrow> gov_files \<Rightarrow> 's \<Rightarrow> bool" where
  "dispatch_returned w c t q ap fs st =
     (permitted w c q ap fs \<and> timeout_ok t \<and> \<not> isl (snd (gw_dispatch w st (dispatch_request_of w q))))"

lemma run_files:
  "fst (run_governed_audit w (Some c) out t q ap fs st reps) =
     (if dispatch_returned w c t q ap fs st
      then fst (record_governed_run w c q (loaded_budget w c q fs) (loaded_cooldown w c q fs) fs) else fs)"
proof (cases "permitted w c q ap fs")
  case False
  obtain rep d where "run_governed_audit w (Some c) out t q ap fs st reps =
      (fs, st, conclude w (if truthy_str out then or_empty out else ''tools/audit/report/governance'') rep d None reps)"
    using run_when_not_permitted [OF False] by blast
  then show ?thesis using False by (simp add: dispatch_returned_def)
qed (simp add: run_when_permitted governed_dispatch_files dispatch_returned_def)

lemma run_state:
  "fst (snd (run_governed_audit w (Some c) out t q ap fs st reps)) =
     (if permitted w c q ap fs \<and> timeout_ok t then fst (gw_dispatch w st (dispatch_request_of w q)) else st)"
proof (cases "permitted w c q ap fs")
  case False
  obtain rep d where "run_governed_audit w (Some c) out t q ap fs st reps =
      (fs, st, conclude w (if truthy_str out then or_empty out else ''tools/audit/report/governance'') rep d None reps)"
    using run_when_not_permitted [OF False] by blast
  then show ?thesis using False by simp
qed (simp add: run_when_permitted governed_dispatch_state)

lemma concluded:
  "conclude w out rep d dr reps = (reps', Inr r) \<Longrightarrow>
     reps' = reps(grr_report_path r \<mapsto> Document rep) \<and> grr_report_path r = report_path out (gr_request rep)
     \<and> grr_governance_status r = gr_governance_status rep \<and> grr_dispatch_result r = dr \<and> grr_request r = gr_request rep"
  by (auto simp: conclude_def write_governance_report_def Let_def split: write_io.splits)

lemma governed_dispatch_concluded:
  assumes "governed_dispatch w c out t q ap d b cd fs st reps = (fs', st', reps', Inr r)"
  obtains rep dr where "conclude w out rep d dr reps = (reps', Inr r)" "gr_request rep = q"
    "case dr of None \<Rightarrow> gr_governance_status rep = GS_dispatch_failed
     | Some x \<Rightarrow> gr_governance_status rep = GS_approved_and_dispatched
         \<and> snd (gw_dispatch w st (dispatch_request_of w q)) = Inr x \<and> dispatched_run_id rep = adr_run_id x"
proof (cases "snd (gw_dispatch w st (dispatch_request_of w q))")
  case (Inl e)
  then show thesis
    using assms that [of _ None] by (auto simp: governed_dispatch_def Let_def case_prod_beta report_of_def split: if_splits)
next
  case (Inr x)
  then show thesis
    using assms that [of _ "Some x"]
    by (auto simp: governed_dispatch_def Let_def case_prod_beta report_of_def dispatched_run_id_def split: if_splits)
qed

lemma permitted_iff:
  "permitted w c q ap fs \<longleftrightarrow> \<not> hard_denied c q
     \<and> (if wants_approval c q then \<exists>a. ap = Some a \<and> ma_request_id a = gq_request_id q
        else \<not> over_budget (gw_check_time w) (loaded_budget w c q fs) (loaded_cooldown w c q fs))"
  by (auto simp: permitted_def decision_spec_def split: option.splits)

section \<open>Properties of one run\<close>

text \<open>
  C12: a governed audit touches the dispatcher or a state file only when governance permits it: the requester is named,
  the repository and the audit type are configured, and either the request needs no approval and is within budget and
  cooldown, or it carries an approval for this very request. Whatever approval is given, a hard denial stands.
\<close>

theorem governed_effects_need_permission:
  assumes "run_governed_audit w (Some c) out t q ap fs st reps = (fs', st', reps', res)"
    and "fs' \<noteq> fs \<or> st' \<noteq> st"
  shows "\<not> hard_denied c q \<and> st' = fst (gw_dispatch w st (dispatch_request_of w q))
    \<and> (if wants_approval c q then \<exists>a. ap = Some a \<and> ma_request_id a = gq_request_id q
       else \<not> over_budget (gw_check_time w) (loaded_budget w c q fs) (loaded_cooldown w c q fs))"
proof -
  have "fs' = fst (run_governed_audit w (Some c) out t q ap fs st reps)"
    "st' = fst (snd (run_governed_audit w (Some c) out t q ap fs st reps))" using assms(1) by simp_all
  then have "permitted w c q ap fs" "st' = fst (gw_dispatch w st (dispatch_request_of w q))"
    using assms(2) unfolding run_files run_state by (auto simp: dispatch_returned_def split: if_splits)
  then show ?thesis by (simp add: permitted_iff)
qed

definition sample_gov_config :: governance_config where
  "sample_gov_config = default_governance_config\<lparr>gc_known_repos := [''repo''], gc_known_audit_types := [(''repo'', [''full''])]\<rparr>"

definition sample_gov_request :: governance_request where
  "sample_gov_request = \<lparr>gq_request_id = ''r1'', gq_repo_id = ''repo'', gq_audit_type = ''full'', gq_requested_by = ''op'',
     gq_requested_reason = ''why'', gq_urgency = U_normal, gq_related_suite_report_path = Some ''suite.json'',
     gq_allow_if_recent_success = False, gq_run_coverage_audit = False\<rparr>"

definition sample_dispatcher :: "nat \<Rightarrow> audit_dispatch_request \<Rightarrow> nat \<times> (string + audit_dispatch_result)" where
  "sample_dispatcher n q = (Suc n, Inr \<lparr>adr_repo_id = adq_repo_id q, adr_audit_type = adq_audit_type q, adr_run_id = Some ''id'',
     adr_status = DS_COMPLETED, adr_failure_kind = None, adr_process_exit_code = Some 0, adr_run_status_path = Some ''s'',
     adr_artifact_manifest_path = Some ''m'', adr_error = None\<rparr>)"

definition sample_gov_world :: "datetime \<Rightarrow> nat gov_world" where
  "sample_gov_world t = \<lparr>gw_decision_id = ''d'', gw_denied_decision_id = ''e'', gw_budget_lock = True, gw_budget_time = t,
     gw_cooldown_lock = True, gw_check_time = t, gw_recent_time = t, gw_summary_time = t, gw_timeout_text = ''1800.0'',
     gw_dispatch = sample_dispatcher, gw_ran_at = t + 1, gw_increment_lock = True, gw_increment_io = W_ok,
     gw_increment_time = t + 2, gw_update_lock = True, gw_update_io = W_ok, gw_coverage = (\<lambda>_. Inl ''none''), gw_report_io = W_ok\<rparr>"

definition no_files :: gov_files where
  "no_files = \<lparr>gf_budget = Map.empty, gf_cooldown = Map.empty\<rparr>"

lemmas sample_gov_defs = sample_gov_config_def sample_gov_request_def sample_dispatcher_def sample_gov_world_def no_files_def
  default_governance_config_def

lemma sample_gov_permitted: "permitted (sample_gov_world t) sample_gov_config sample_gov_request None no_files"
  by (simp add: permitted_iff hard_denied_def wants_approval_def over_budget_def loaded_budget_def loaded_cooldown_def loaded_def
      load_budget_state_def load_budget_state_unlocked_def load_cooldown_state_def load_cooldown_state_unlocked_def
      fresh_budget_state_def is_exhausted_def is_in_cooldown_def get_budget_config_def default_budget_config_def is_urgent_def
      truthy_str_def py_strip_def is_space_def sample_gov_defs)

theorem governed_effects_need_permission_witness:
  "\<not> hard_denied sample_gov_config sample_gov_request
   \<and> fst (snd (run_governed_audit (sample_gov_world 0) (Some sample_gov_config) None None sample_gov_request None no_files 0 Map.empty)) = 1"
proof -
  let ?r = "run_governed_audit (sample_gov_world 0) (Some sample_gov_config) None None sample_gov_request None no_files 0 Map.empty"
  have st: "fst (snd ?r) = 1"
    by (simp only: run_state sample_gov_permitted) (simp add: timeout_ok_def sample_gov_world_def sample_dispatcher_def)
  obtain fs' st' reps' res where r: "?r = (fs', st', reps', res)" by (metis prod.collapse)
  then have "st' \<noteq> 0" using st by simp
  then show ?thesis using governed_effects_need_permission [OF r] st by simp
qed

text \<open>
  A governed run that returns has left its report: the file at the returned path holds the report of this request with
  the status that is returned, every other report is as before, a dispatch result is returned exactly with the status
  approved_and_dispatched, and it is the dispatcher's.
\<close>

theorem governed_report_written:
  assumes "run_governed_audit w (Some c) out t q ap fs st reps = (fs', st', reps', Inr r)"
  shows "\<exists>rep. reps' = reps(grr_report_path r \<mapsto> Document rep) \<and> gr_request rep = q
    \<and> gr_governance_status rep = grr_governance_status r
    \<and> (was_dispatched r \<longleftrightarrow> grr_governance_status r = GS_approved_and_dispatched)
    \<and> (\<forall>dr. grr_dispatch_result r = Some dr \<longrightarrow>
         snd (gw_dispatch w st (dispatch_request_of w q)) = Inr dr \<and> dispatched_run_id rep = adr_run_id dr)"
proof (cases "permitted w c q ap fs")
  case False
  obtain rep d where e: "run_governed_audit w (Some c) out t q ap fs st reps =
      (fs, st, conclude w (if truthy_str out then or_empty out else ''tools/audit/report/governance'') rep d None reps)"
      "gr_request rep = q" "gr_governance_status rep \<in> {GS_denied, GS_deferred, GS_needs_manual_approval}"
    using run_when_not_permitted [OF False] by blast
  then show ?thesis using concluded [of w _ rep d None reps reps' r] assms by (auto simp: was_dispatched_def)
next
  case True
  obtain rep dr where e: "conclude w (if truthy_str out then or_empty out else ''tools/audit/report/governance'') rep
        (decision_of w c q fs) dr reps = (reps', Inr r)" "gr_request rep = q"
      "case dr of None \<Rightarrow> gr_governance_status rep = GS_dispatch_failed
       | Some x \<Rightarrow> gr_governance_status rep = GS_approved_and_dispatched
           \<and> snd (gw_dispatch w st (dispatch_request_of w q)) = Inr x \<and> dispatched_run_id rep = adr_run_id x"
    by (rule governed_dispatch_concluded [OF assms [unfolded run_when_permitted [OF True]]])
  show ?thesis using concluded [OF e(1)] e(2,3) by (intro exI [of _ rep]) (auto simp: was_dispatched_def split: option.splits)
qed

theorem governed_report_written_witness:
  "\<exists>r rep. snd (snd (run_governed_audit (sample_gov_world 0) (Some sample_gov_config) None None sample_gov_request None no_files 0 Map.empty))
     = ([grr_report_path r \<mapsto> Document rep], Inr r) \<and> gr_governance_status rep = grr_governance_status r"
proof -
  let ?r = "run_governed_audit (sample_gov_world 0) (Some sample_gov_config) None None sample_gov_request None no_files 0 Map.empty"
  obtain fs' st' reps' r where r: "?r = (fs', st', reps', Inr r)"
    unfolding run_when_permitted [OF sample_gov_permitted] governed_dispatch_def conclude_def write_governance_report_def
    by (auto simp: sample_gov_world_def sample_dispatcher_def Let_def case_prod_beta)
  show ?thesis using governed_report_written [OF r] r by auto
qed

end
