(* ===== verification/Audit_Runner_Safety.thy ===== *)
theory Audit_Runner_Safety
  imports Audit_Runner
begin

text \<open>
  Sequences of governed audits: the two limits that hold between runs, the wait for a state file's lock, and what an
  unreadable state file does to the limits.
\<close>

section \<open>Sequences of runs\<close>

text \<open>
  Runs without approvals, one after the other. Beside the state, the times are collected (newest first) at which a
  dispatch for the repository and audit type \<open>k\<close> has returned.
\<close>

fun governed_runs ::
  "governance_config \<Rightarrow> string \<times> string \<Rightarrow> ('s gov_world \<times> governance_request) list \<Rightarrow> gov_files \<times> 's \<times> reports \<Rightarrow> datetime list
   \<Rightarrow> (gov_files \<times> 's \<times> reports) \<times> datetime list" where
  "governed_runs c k [] s D = (s, D)"
| "governed_runs c k ((w, q) # xs) (fs, st, reps) D =
     (let r = run_governed_audit w (Some c) None None q None fs st reps
      in governed_runs c k xs (fst r, fst (snd r), fst (snd (snd r)))
           (if (gq_repo_id q, gq_audit_type q) = k \<and> dispatch_returned w c None q None fs st then gw_ran_at w # D else D))"

fun orderly :: "datetime \<Rightarrow> ('s gov_world \<times> governance_request) list \<Rightarrow> bool" where
  "orderly t [] = True"
| "orderly t ((w, q) # xs) =
     (t \<le> gw_budget_time w \<and> gw_budget_time w \<le> gw_check_time w \<and> gw_check_time w \<le> gw_ran_at w
      \<and> gw_ran_at w \<le> gw_increment_time w \<and> orderly (gw_increment_time w) xs)"

definition reliable :: "'s gov_world \<Rightarrow> bool" where
  "reliable w = (gw_budget_lock w \<and> gw_cooldown_lock w \<and> gw_increment_lock w \<and> gw_increment_io w = W_ok \<and> gw_update_lock w
     \<and> gw_update_io w = W_ok)"

definition own_files :: "governance_config \<Rightarrow> string \<times> string \<Rightarrow> governance_request \<Rightarrow> bool" where
  "own_files c k q =
     ((gq_repo_id q, gq_audit_type q) = k
      \<or> budget_state_path (gc_state_dir c) (gq_repo_id q) (gq_audit_type q) \<noteq> budget_state_path (gc_state_dir c) (fst k) (snd k)
        \<and> cooldown_state_path (gc_state_dir c) (gq_repo_id q) (gq_audit_type q) \<noteq> cooldown_state_path (gc_state_dir c) (fst k) (snd k))"

definition budget_ok :: "budget_config \<Rightarrow> budget_state state_content option \<Rightarrow> datetime list \<Rightarrow> bool" where
  "budget_ok bc content D =
     (case content of None \<Rightarrow> D = []
      | Some (Invalid _) \<Rightarrow> False
      | Some (Document s) \<Rightarrow> 0 \<le> bs_runs_used s \<and> bs_runs_used s \<le> bc_max_runs bc
          \<and> int (length (filter (\<lambda>d. bs_period_start s \<le> d) D)) \<le> bs_runs_used s \<and> (\<forall>d \<in> set D. d \<le> bs_period_end s))"

definition cooldown_ok :: "rat \<Rightarrow> cooldown_state state_content option \<Rightarrow> datetime list \<Rightarrow> bool" where
  "cooldown_ok seconds content D =
     ((case content of None \<Rightarrow> D = [] | Some (Invalid _) \<Rightarrow> False
       | Some (Document s) \<Rightarrow> (\<exists>l D'. D = l # D' \<and> cs_last_run_at s = Some l))
      \<and> sorted_wrt (\<lambda>later earlier. earlier \<le> later \<and> seconds \<le> total_seconds (later - earlier)) D)"

lemma total_seconds_mono: "a \<le> b \<Longrightarrow> total_seconds a \<le> total_seconds b"
  by (simp add: total_seconds_def divide_right_mono)

lemma budget_ok_increment:
  assumes ok: "budget_ok bc content D" and past: "\<forall>d \<in> set D. d \<le> ran_at" and "0 \<le> bc_period_days bc"
    and b: "load_budget_state_unlocked tb content repo ty bc = Inr b" "\<not> is_exhausted b"
    and s: "load_budget_state_unlocked ti content repo ty bc = Inr s" and t: "tb \<le> ti" "ran_at \<le> ti"
  shows "budget_ok bc (Some (Document (s\<lparr>bs_runs_used := bs_runs_used s + 1, bs_last_run_at := Some ran_at\<rparr>))) (ran_at # D)"
proof (cases content)
  case None
  then show ?thesis
    using assms by (auto simp: budget_ok_def load_budget_state_unlocked_def fresh_budget_state_def is_exhausted_def td_defs)
next
  case (Some x)
  then obtain u where u: "content = Some (Document u)" using ok by (cases x) (auto simp: budget_ok_def)
  note inv = ok [unfolded u budget_ok_def, simplified]
  show ?thesis
  proof (cases "bs_period_end u < ti")
    case True
    then have s': "s = fresh_budget_state ti repo ty bc" using s u by (simp add: load_budget_state_unlocked_def)
    have "filter (\<lambda>d. ti \<le> d) D = []" using inv True by (auto simp: filter_empty_conv)
    moreover have "1 \<le> bc_max_runs bc"
      using b u inv by (auto simp: load_budget_state_unlocked_def fresh_budget_state_def is_exhausted_def split: if_splits)
    moreover have "d \<le> ti + td_days (bc_period_days bc)" if "d \<in> set (ran_at # D)" for d
      using that past t(2) assms(3) by (force simp: td_defs)
    ultimately show ?thesis by (auto simp: s' budget_ok_def fresh_budget_state_def)
  next
    case False
    then have s': "s = u\<lparr>bs_max_runs := bc_max_runs bc\<rparr>" using s u by (simp add: load_budget_state_unlocked_def)
    have "bs_runs_used u < bc_max_runs bc"
      using b u False t(1) by (auto simp: load_budget_state_unlocked_def is_exhausted_def split: if_splits)
    then show ?thesis using inv False t(2) by (auto simp: s' budget_ok_def)
  qed
qed

lemma cooldown_ok_update:
  assumes "cooldown_ok seconds content D" "\<forall>d \<in> set D. d \<le> ran_at"
    and "load_cooldown_state_unlocked content repo ty seconds = Inr s" "\<not> is_in_cooldown s tc" "tc \<le> ran_at"
  shows "cooldown_ok seconds (Some (Document \<lparr>cs_repo_id = repo, cs_audit_type = ty, cs_cooldown_seconds = seconds,
     cs_last_run_at = Some ran_at\<rparr>)) (ran_at # D)"
proof -
  have "seconds \<le> total_seconds (ran_at - d)" if d: "d \<in> set D" for d
  proof -
    obtain u l D' where u: "content = Some (Document u)" "D = l # D'" "cs_last_run_at u = Some l"
      using assms(1) d by (auto simp: cooldown_ok_def split: option.splits state_content.splits)
    have "d \<le> l" using assms(1) d u(2) by (auto simp: cooldown_ok_def)
    then have "total_seconds (tc - l) \<le> total_seconds (ran_at - d)" using assms(5) by (intro total_seconds_mono) simp
    moreover have "seconds \<le> total_seconds (tc - l)"
      using assms(3,4) u by (auto simp: load_cooldown_state_unlocked_def is_in_cooldown_def)
    ultimately show ?thesis by simp
  qed
  then show ?thesis using assms(1,2) by (auto simp: cooldown_ok_def)
qed

lemma recorded_files:
  assumes "reliable w" "load_budget_state_unlocked (gw_increment_time w)
      (gf_budget fs (budget_state_path (gc_state_dir c) (gq_repo_id q) (gq_audit_type q))) (gq_repo_id q) (gq_audit_type q)
      (get_budget_config c (gq_repo_id q) (gq_audit_type q)) = Inr s"
  shows "fst (record_governed_run w c q b cd fs) =
    \<lparr>gf_budget = (gf_budget fs)(budget_state_path (gc_state_dir c) (gq_repo_id q) (gq_audit_type q) \<mapsto>
       Document (s\<lparr>bs_runs_used := bs_runs_used s + 1, bs_last_run_at := Some (gw_ran_at w)\<rparr>)),
     gf_cooldown = (gf_cooldown fs)(cooldown_state_path (gc_state_dir c) (gq_repo_id q) (gq_audit_type q) \<mapsto>
       Document \<lparr>cs_repo_id = gq_repo_id q, cs_audit_type = gq_audit_type q,
         cs_cooldown_seconds = get_cooldown_config c (gq_repo_id q) (gq_audit_type q), cs_last_run_at = Some (gw_ran_at w)\<rparr>)\<rparr>"
  using assms
  by (simp add: record_governed_run_def increment_budget_after_dispatch_def update_cooldown_after_dispatch_def reliable_def
      put_budget_def put_cooldown_def Let_def)

lemma recorded_other_budget:
  "path \<noteq> budget_state_path (gc_state_dir c) (gq_repo_id q) (gq_audit_type q) \<Longrightarrow>
     gf_budget (fst (record_governed_run w c q b cd fs)) path = gf_budget fs path"
  by (simp add: record_governed_run_def increment_budget_after_dispatch_def update_cooldown_after_dispatch_def put_budget_def
      put_cooldown_def Let_def case_prod_beta split: sum.split write_io.split)

lemma recorded_other_cooldown:
  "path \<noteq> cooldown_state_path (gc_state_dir c) (gq_repo_id q) (gq_audit_type q) \<Longrightarrow>
     gf_cooldown (fst (record_governed_run w c q b cd fs)) path = gf_cooldown fs path"
  by (simp add: record_governed_run_def increment_budget_after_dispatch_def update_cooldown_after_dispatch_def put_budget_def
      put_cooldown_def Let_def case_prod_beta split: sum.split write_io.split)

lemma load_budget_total: "budget_ok bc content D \<Longrightarrow> \<exists>s. load_budget_state_unlocked t content repo ty bc = Inr s"
  by (auto simp: budget_ok_def load_budget_state_unlocked_def split: option.splits state_content.splits)

lemma load_cooldown_total: "cooldown_ok sec content D \<Longrightarrow> \<exists>s. load_cooldown_state_unlocked content repo ty sec = Inr s"
  by (auto simp: cooldown_ok_def load_cooldown_state_unlocked_def split: option.splits state_content.splits)

definition limits :: "governance_config \<Rightarrow> string \<Rightarrow> string \<Rightarrow> gov_files \<Rightarrow> datetime list \<Rightarrow> bool" where
  "limits c repo ty fs D = (budget_ok (get_budget_config c repo ty) (gf_budget fs (budget_state_path (gc_state_dir c) repo ty)) D
     \<and> cooldown_ok (get_cooldown_config c repo ty) (gf_cooldown fs (cooldown_state_path (gc_state_dir c) repo ty)) D)"

lemma limits_step:
  assumes days: "0 \<le> bc_period_days (get_budget_config c repo ty)" and lim: "limits c repo ty fs D" and past: "\<forall>d \<in> set D. d \<le> t"
    and o: "orderly t [(w, q)]" and r: "reliable w" and own: "own_files c (repo, ty) q"
  shows "limits c repo ty (fst (run_governed_audit w (Some c) None None q None fs st reps))
    (if (gq_repo_id q, gq_audit_type q) = (repo, ty) \<and> dispatch_returned w c None q None fs st then gw_ran_at w # D else D)"
proof (cases "dispatch_returned w c None q None fs st")
  case False
  then show ?thesis unfolding run_files using lim by auto
next
  case ran: True
  show ?thesis
  proof (cases "(gq_repo_id q, gq_audit_type q) = (repo, ty)")
    case False
    then have "budget_state_path (gc_state_dir c) repo ty \<noteq> budget_state_path (gc_state_dir c) (gq_repo_id q) (gq_audit_type q)"
      "cooldown_state_path (gc_state_dir c) repo ty \<noteq> cooldown_state_path (gc_state_dir c) (gq_repo_id q) (gq_audit_type q)"
      using own unfolding own_files_def fst_conv snd_conv by metis+
    then show ?thesis
      unfolding run_files using ran lim False by (auto simp: limits_def recorded_other_budget recorded_other_cooldown)
  next
    case True
    let ?B = "gf_budget fs (budget_state_path (gc_state_dir c) repo ty)" and ?bc = "get_budget_config c repo ty"
    let ?C = "gf_cooldown fs (cooldown_state_path (gc_state_dir c) repo ty)" and ?sec = "get_cooldown_config c repo ty"
    obtain b where b: "load_budget_state_unlocked (gw_budget_time w) ?B repo ty ?bc = Inr b"
      using lim load_budget_total unfolding limits_def by blast
    obtain s where s: "load_budget_state_unlocked (gw_increment_time w) ?B repo ty ?bc = Inr s"
      using lim load_budget_total unfolding limits_def by blast
    obtain v where v: "load_cooldown_state_unlocked ?C repo ty ?sec = Inr v"
      using lim load_cooldown_total unfolding limits_def by blast
    have past': "\<forall>d \<in> set D. d \<le> gw_ran_at w" using past o by force
    have "permitted w c q None fs" using ran by (simp add: dispatch_returned_def)
    then have "\<not> over_budget (gw_check_time w) (loaded_budget w c q fs) (loaded_cooldown w c q fs)"
      by (simp add: permitted_iff split: if_splits)
    then have free: "\<not> is_exhausted b" "\<not> is_in_cooldown v (gw_check_time w)"
      using b v r True
      by (simp_all add: over_budget_def loaded_budget_def loaded_cooldown_def loaded_def load_budget_state_def
          load_cooldown_state_def reliable_def)
    have "budget_ok ?bc (Some (Document (s\<lparr>bs_runs_used := bs_runs_used s + 1, bs_last_run_at := Some (gw_ran_at w)\<rparr>))) (gw_ran_at w # D)"
      using lim o budget_ok_increment [OF _ past' days b free(1) s] by (simp add: limits_def)
    moreover have "cooldown_ok ?sec (Some (Document \<lparr>cs_repo_id = repo, cs_audit_type = ty, cs_cooldown_seconds = ?sec,
        cs_last_run_at = Some (gw_ran_at w)\<rparr>)) (gw_ran_at w # D)"
      using lim o cooldown_ok_update [OF _ past' v free(2)] by (simp add: limits_def)
    moreover have "fst (run_governed_audit w (Some c) None None q None fs st reps) =
        fst (record_governed_run w c q (loaded_budget w c q fs) (loaded_cooldown w c q fs) fs)" using ran by (simp add: run_files)
    ultimately show ?thesis using ran True s by (simp add: limits_def recorded_files [OF r])
  qed
qed

lemma limits_runs:
  assumes days: "0 \<le> bc_period_days (get_budget_config c repo ty)" and "limits c repo ty fs D" "\<forall>d \<in> set D. d \<le> t" "orderly t xs" "\<forall>(w, q) \<in> set xs. reliable w \<and> own_files c (repo, ty) q"
    and "governed_runs c (repo, ty) xs (fs, st, reps) D = ((fs', st', reps'), D')"
  shows "limits c repo ty fs' D'"
  using assms(2-)
proof (induction xs arbitrary: fs st reps D t)
  case Nil
  then show ?case by simp
next
  case (Cons x xs)
  obtain w q where x: "x = (w, q)" by fastforce
  let ?r = "run_governed_audit w (Some c) None None q None fs st reps"
  let ?D = "if (gq_repo_id q, gq_audit_type q) = (repo, ty) \<and> dispatch_returned w c None q None fs st then gw_ran_at w # D else D"
  have o: "orderly t [(w, q)]" "orderly (gw_increment_time w) xs" using Cons.prems(3) x by auto
  have "limits c repo ty (fst ?r) ?D" using Cons.prems(1,2,4) o(1) x by (intro limits_step [OF days, of fs D t w q]) auto
  moreover have "t \<le> gw_increment_time w" "gw_ran_at w \<le> gw_increment_time w" using o(1) by auto
  then have "\<forall>d \<in> set ?D. d \<le> gw_increment_time w" using Cons.prems(2) by (auto intro: order_trans)
  moreover have "governed_runs c (repo, ty) xs (fst ?r, fst (snd ?r), fst (snd (snd ?r))) ?D = ((fs', st', reps'), D')"
    using Cons.prems(5) x by (simp add: Let_def)
  ultimately show ?case using Cons.IH o(2) Cons.prems(4) by auto
qed

section \<open>Properties\<close>


definition sample_two_runs :: "(nat gov_world \<times> governance_request) list" where
  "sample_two_runs = [(sample_gov_world 0, sample_gov_request), (sample_gov_world (td_hours 2), sample_gov_request)]"

lemma sample_two_runs_dispatch:
  "snd (governed_runs sample_gov_config (''repo'', ''full'') sample_two_runs (no_files, 0, Map.empty) []) = [td_hours 2 + 1, 1]"
  by code_simp


text \<open>
  C21: waiting for the lock of a state file ends: when every attempt is followed by a sleep of at least 20 ms, the wait with
  a timeout of \<open>n\<close> seconds returns after at most \<open>50 n\<close> further attempts, with the lock or with the timeout, and it
  times out only if the lock was busy at every attempt up to the deadline.
\<close>

theorem lock_wait_terminates:
  assumes "start \<le> monotonic 0" "\<And>i. monotonic i + 1 / 50 \<le> monotonic (Suc i)" "0 \<le> n"
  shows "\<exists>k \<le> nat (50 * n). locked_state_file busy monotonic start (of_int n) = Some (LockAcquired k) \<and> \<not> busy k
     \<or> locked_state_file busy monotonic start (of_int n) = Some (LockTimedOut k) \<and> start + of_int n \<le> monotonic k
       \<and> (\<forall>j \<le> k. busy j)"
proof -
  let ?dl = "start + of_int n :: rat"
  have clock: "start + of_nat i / 50 \<le> monotonic i" for i
  proof (induction i)
    case (Suc i)
    then show ?case using assms(2) [of i] by (simp add: add_divide_distrib)
  qed (use assms(1) in simp)
  have "\<exists>k. i \<le> k \<and> k \<le> nat (50 * n) \<and> (lock_attempts busy monotonic ?dl i = Some (LockAcquired k) \<and> \<not> busy k
      \<or> lock_attempts busy monotonic ?dl i = Some (LockTimedOut k) \<and> ?dl \<le> monotonic k \<and> (\<forall>j. i \<le> j \<and> j \<le> k \<longrightarrow> busy j))"
    if "i \<le> nat (50 * n)" for i
    using that
  proof (induction "nat (50 * n) - i" arbitrary: i)
    case 0
    then have "(of_nat i :: rat) = 50 * of_int n" using assms(3) by (metis diff_is_0_eq le_antisym of_int_mult of_int_numeral of_nat_nat
          mult_nonneg_nonneg zero_le_numeral of_int_of_nat_eq)
    then have "?dl \<le> monotonic i" using clock [of i] by simp
    then show ?case using 0 by (intro exI [of _ i]) (auto simp: lock_attempts.simps [of _ _ _ i] le_antisym)
  next
    case (Suc m)
    show ?case
    proof (cases "busy i \<and> monotonic i < ?dl")
      case False
      then show ?thesis using Suc.prems by (intro exI [of _ i]) (auto simp: lock_attempts.simps [of _ _ _ i] le_antisym)
    next
      case True
      have e: "lock_attempts busy monotonic ?dl i = lock_attempts busy monotonic ?dl (Suc i)"
        using True by (subst lock_attempts.simps) simp
      have m: "m = nat (50 * n) - Suc i" "Suc i \<le> nat (50 * n)" using Suc.hyps(2) by simp_all
      obtain k where "Suc i \<le> k" "k \<le> nat (50 * n)" "lock_attempts busy monotonic ?dl (Suc i) = Some (LockAcquired k) \<and> \<not> busy k
        \<or> lock_attempts busy monotonic ?dl (Suc i) = Some (LockTimedOut k) \<and> ?dl \<le> monotonic k
          \<and> (\<forall>j. Suc i \<le> j \<and> j \<le> k \<longrightarrow> busy j)"
        using Suc.hyps(1) [OF m] by (elim exE conjE) (rule that)
      moreover have "busy j" if "\<forall>j. Suc i \<le> j \<and> j \<le> k \<longrightarrow> busy j" "i \<le> j" "j \<le> k" for j
        using that True by (cases "j = i") auto
      ultimately show ?thesis unfolding e by (intro exI [of _ k]) auto
    qed
  qed
  from this [of 0] show ?thesis unfolding locked_state_file_def by auto
qed

theorem lock_wait_terminates_witness:
  "\<exists>k \<le> 250. locked_state_file (\<lambda>i. i < 3) (\<lambda>i. of_nat i / 50) 0 5 = Some (LockAcquired k)"
proof -
  let ?clock = "\<lambda>i. of_nat i / 50 :: rat"
  have "\<And>i. ?clock i + 1 / 50 \<le> ?clock (Suc i)" by (simp add: add_divide_distrib)
  then obtain k where k: "k \<le> nat (50 * 5)"
      "locked_state_file (\<lambda>i. i < 3) ?clock 0 (of_int 5) = Some (LockAcquired k)
       \<or> (0 + of_int 5 \<le> ?clock k \<and> (\<forall>j \<le> k. j < 3))"
    using lock_wait_terminates [of 0 ?clock 5 "\<lambda>i. i < 3"] by auto
  moreover have "\<not> (0 + of_int 5 \<le> ?clock k)" if "k < 3" using that by (simp add: field_simps)
  ultimately show ?thesis by auto
qed

text \<open>
  An unreadable budget file switches the budget off for good: the run is decided as if no budget existed, the update
  after a dispatch fails silently, and the file is as unreadable as before, whatever the outcome of the run.
\<close>

theorem unreadable_budget_fails_open:
  assumes "gf_budget fs (budget_state_path (gc_state_dir c) (gq_repo_id q) (gq_audit_type q)) = Some (Invalid e)"
  shows "gd_decision (decision_of w c q fs) = decision_spec c q (gw_check_time w) None (loaded_cooldown w c q fs)
    \<and> gf_budget (fst (run_governed_audit w (Some c) out t q ap fs st reps))
        (budget_state_path (gc_state_dir c) (gq_repo_id q) (gq_audit_type q)) = Some (Invalid e)"
proof -
  have "loaded_budget w c q fs = None"
    using assms by (simp add: loaded_budget_def load_budget_state_def load_budget_state_unlocked_def loaded_def)
  moreover have "gf_budget (fst (record_governed_run w c q b cd fs))
      (budget_state_path (gc_state_dir c) (gq_repo_id q) (gq_audit_type q)) = Some (Invalid e)" for b cd
    using assms by (simp add: record_governed_run_def increment_budget_after_dispatch_def update_cooldown_after_dispatch_def
        load_budget_state_unlocked_def put_cooldown_def Let_def case_prod_beta split: write_io.split)
  ultimately show ?thesis using assms by (simp add: decision_of_spec run_files)
qed

definition corrupt_budget_files :: gov_files where
  "corrupt_budget_files = no_files\<lparr>gf_budget := [budget_state_path ''tools/audit/governance/state'' ''repo'' ''full'' \<mapsto> torn]\<rparr>"

theorem unreadable_budget_fails_open_witness:
  "gd_decision (decision_of (sample_gov_world 0) sample_gov_config sample_gov_request corrupt_budget_files) = GD_approved"
proof -
  have "gf_budget corrupt_budget_files (budget_state_path (gc_state_dir sample_gov_config) (gq_repo_id sample_gov_request)
      (gq_audit_type sample_gov_request)) = Some (Invalid [FLit ''truncated document''])"
    by (simp add: corrupt_budget_files_def torn_def sample_gov_defs)
  from unreadable_budget_fails_open [OF this, of "sample_gov_world 0"]
  show ?thesis
    by (simp add: decision_spec_def hard_denied_def wants_approval_def over_budget_def loaded_cooldown_def loaded_def
        load_cooldown_state_def load_cooldown_state_unlocked_def is_in_cooldown_def is_urgent_def truthy_str_def
        corrupt_budget_files_def py_strip_def is_space_def sample_gov_defs)
qed

section \<open>Two runners at once\<close>

text \<open>
  The check and the update are two critical sections. Two runners that both decide before either records are both
  approved on the last run of the budget, and both dispatches are counted: the file ends above its maximum.
\<close>

definition last_run_left :: gov_files where
  "last_run_left = no_files\<lparr>gf_budget := [budget_state_path ''tools/audit/governance/state'' ''repo'' ''full'' \<mapsto>
     Document \<lparr>bs_repo_id = ''repo'', bs_audit_type = ''full'', bs_period_start = 0, bs_period_end = td_days 7, bs_max_runs = 10,
       bs_runs_used = 9, bs_last_run_at = None\<rparr>]\<rparr>"

lemma concurrent_runners_exceed_budget:
  "permitted (sample_gov_world 5) sample_gov_config sample_gov_request None last_run_left
   \<and> (case gf_budget (fst (record_governed_run (sample_gov_world 5) sample_gov_config sample_gov_request None None
          (fst (record_governed_run (sample_gov_world 5) sample_gov_config sample_gov_request None None last_run_left))))
        (budget_state_path ''tools/audit/governance/state'' ''repo'' ''full'') of
      Some (Document s) \<Rightarrow> bs_max_runs s < bs_runs_used s | _ \<Rightarrow> False)"
proof
  show "permitted (sample_gov_world 5) sample_gov_config sample_gov_request None last_run_left"
    by (simp add: permitted_iff hard_denied_def wants_approval_def over_budget_def loaded_budget_def loaded_cooldown_def loaded_def
        load_budget_state_def load_budget_state_unlocked_def load_cooldown_state_def load_cooldown_state_unlocked_def
        is_exhausted_def is_in_cooldown_def get_budget_config_def default_budget_config_def is_urgent_def last_run_left_def
        truthy_str_def py_strip_def is_space_def td_defs sample_gov_defs)
qed (simp add: record_governed_run_def increment_budget_after_dispatch_def update_cooldown_after_dispatch_def put_budget_def
    put_cooldown_def load_budget_state_unlocked_def get_budget_config_def default_budget_config_def last_run_left_def td_defs
    Let_def sample_gov_defs)

text \<open>Two repository and type pairs may share one state file: the separator may occur in the names.\<close>

lemma state_paths_collide: "budget_state_path d ''a'' ''b__c'' = budget_state_path d ''a__b'' ''c''"
  by (simp add: budget_state_path_def)

end
