(* ===== verification/Propagation.thy ===== *)
theory Propagation
  imports OC_Prelude "HOL-Library.AList"
begin

text \<open>
  Contract change propagation (\<open>propagation/\<close>, \<open>impact_analysis.py\<close>): when the contracts of a repository change, a board task
  is filed for every repository that depends on them, if the policy says so and none was filed recently.

  The repository graph comes from the package \<open>platform_manifest\<close>, which is not part of the repository: its resolver and its
  impact query are the functions of the record \<open>repo_graph\<close>. The board client is a pair of functions on a board state. The
  deduplication file is what \<open>load\<close> can find in it. The text of a timestamp is the argument \<open>isoformat\<close>.
\<close>

section \<open>Policy\<close>

datatype prop_action = PA_SKIP | PA_BACKLOG | PA_READY_FOR_AI

primrec prop_action_value :: "prop_action \<Rightarrow> string" where
  "prop_action_value PA_SKIP = ''skip''"
| "prop_action_value PA_BACKLOG = ''backlog''"
| "prop_action_value PA_READY_FOR_AI = ''ready_for_ai''"

record prop_decision =
  pd_action :: prop_action
  pd_reason :: fstring

definition fires_task :: "prop_decision \<Rightarrow> bool" where
  "fires_task d = (pd_action d \<noteq> PA_SKIP)"

record pair_override =
  pov_target :: string
  pov_consumer :: string
  pov_action :: prop_action
  pov_reason :: fstring

record prop_settings =
  ps_enabled :: bool
  ps_auto_trigger_edge_types :: "string list"
  ps_dedup_window_hours :: int
  ps_pair_overrides :: "pair_override list"

definition default_prop_settings :: prop_settings where
  "default_prop_settings = \<lparr>ps_enabled = False, ps_auto_trigger_edge_types = [], ps_dedup_window_hours = 24, ps_pair_overrides = []\<rparr>"

fun find_override :: "pair_override list \<Rightarrow> string \<times> string \<Rightarrow> pair_override option" where
  "find_override [] k = None"
| "find_override (p # ps) k = (if (pov_target p, pov_consumer p) = k then Some p else find_override ps k)"

interpretation overrides: first_match "\<lambda>k p. (pov_target p, pov_consumer p) = k" find_override
  by unfold_locales simp_all

definition decide :: "prop_settings \<Rightarrow> string \<Rightarrow> string \<Rightarrow> string \<Rightarrow> prop_decision" where
  "decide s target consumer edge_type =
     (if \<not> ps_enabled s then \<lparr>pd_action = PA_SKIP, pd_reason = [FLit ''propagation disabled globally'']\<rparr>
      else case find_override (ps_pair_overrides s) (target, consumer) of
        Some p \<Rightarrow> \<lparr>pd_action = pov_action p, pd_reason = pov_reason p\<rparr>
      | None \<Rightarrow>
          if edge_type \<in> set (ps_auto_trigger_edge_types s)
          then \<lparr>pd_action = PA_BACKLOG, pd_reason = [FLit ''edge_type '', FRepr edge_type, FLit '' is auto-trigger'']\<rparr>
          else \<lparr>pd_action = PA_SKIP, pd_reason = [FLit ''edge_type '', FRepr edge_type, FLit '' not in auto_trigger_edge_types'']\<rparr>)"

section \<open>Deduplication\<close>

record dedup_key =
  dk_target_repo_id :: string
  dk_consumer_repo_id :: string
  dk_target_version :: string

definition serialize :: "dedup_key \<Rightarrow> string" where
  "serialize k = dk_target_repo_id k @ ''|'' @ dk_consumer_repo_id k @ ''|'' @ dk_target_version k"

text \<open>A stored value: a timestamp \<open>fromisoformat\<close> reads (a naive one is taken as UTC), or another text.\<close>

datatype stamp = Stamp datetime | NotIso string

datatype dedup_file = DF_Missing | DF_Unreadable | DF_NotObject | DF_NoEntries | DF_Entries "(string \<times> stamp) list"

fun dedup_load :: "dedup_file \<Rightarrow> (string \<times> stamp) list" where
  "dedup_load (DF_Entries es) = es"
| "dedup_load _ = []"

definition is_recent :: "dedup_file \<Rightarrow> dedup_key \<Rightarrow> int \<Rightarrow> datetime \<Rightarrow> bool" where
  "is_recent f k window_hours now =
     (case map_of (dedup_load f) (serialize k) of
        Some (Stamp t) \<Rightarrow> now - td_hours window_hours \<le> t
      | _ \<Rightarrow> False)"

definition dedup_record :: "dedup_file \<Rightarrow> dedup_key \<Rightarrow> datetime \<Rightarrow> dedup_file" where
  "dedup_record f k now = DF_Entries (AList.update (serialize k) (Stamp now) (dedup_load f))"

section \<open>Task templates\<close>

text \<open>
  \<open>str.format\<close> with keyword arguments, for replacement fields that are plain keys: doubled braces are literal, an unknown
  key or a stray brace raises. Conversions and format specifications are not among the documented substitution keys.
\<close>

function py_format :: "(string \<times> string) list \<Rightarrow> string \<Rightarrow> string option" where
  "py_format ctx [] = Some []"
| "py_format ctx (c # cs) =
     (if c = CHR ''{'' then
        (if cs \<noteq> [] \<and> hd cs = CHR ''{'' then map_option ((#) (CHR ''{'')) (py_format ctx (tl cs))
         else case dropWhile (\<lambda>x. x \<noteq> CHR ''}'') cs of
                [] \<Rightarrow> None
              | _ # rest \<Rightarrow>
                  (case map_of ctx (takeWhile (\<lambda>x. x \<noteq> CHR ''}'') cs) of
                     None \<Rightarrow> None
                   | Some v \<Rightarrow> map_option ((@) v) (py_format ctx rest)))
      else if c = CHR ''}'' then
        (if cs \<noteq> [] \<and> hd cs = CHR ''}'' then map_option ((#) (CHR ''}'')) (py_format ctx (tl cs)) else None)
      else map_option ((#) c) (py_format ctx cs))"
  by pat_completeness auto

termination
proof (relation "measure (\<lambda>(_, s). length s)", goal_cases)
  case (3 ctx c cs x rest)
  then have "length (x # rest) \<le> length cs" by (metis length_dropWhile_le)
  then show ?case by simp
qed (auto simp: neq_Nil_conv)

record task_template =
  tt_title :: string
  tt_body_prelude :: string
  tt_labels :: "string list"

definition default_template :: task_template where
  "default_template =
     \<lparr>tt_title = ''Re-validate {consumer} after {target} change'',
      tt_body_prelude = ''{consumer} depends on {target} via {edge_type}. {target} changed '' @
        ''(version: {target_version}); please re-run the consumer's validation '' @
        ''pipeline (tests, schema checks, sample fixtures) and confirm green.'',
      tt_labels = [''revalidation'', ''pending-review'']\<rparr>"

record rendered_task =
  rt_title :: string
  rt_body_prelude :: string
  rt_labels :: "string list"

definition render_context :: "string \<Rightarrow> string \<Rightarrow> string \<Rightarrow> string \<Rightarrow> string \<Rightarrow> string option \<Rightarrow> (string \<times> string) list" where
  "render_context target target_repo_id consumer consumer_repo_id edge_type target_version =
     [(''target'', target), (''target_repo_id'', target_repo_id), (''consumer'', consumer), (''consumer_repo_id'', consumer_repo_id),
      (''edge_type'', edge_type),
      (''target_version'', if truthy_str target_version then or_empty target_version else ''unspecified'')]"

definition render :: "task_template \<Rightarrow> (string \<times> string) list \<Rightarrow> rendered_task option" where
  "render t ctx =
     (case py_format ctx (tt_title t) of
        None \<Rightarrow> None
      | Some ti \<Rightarrow> map_option (\<lambda>b. \<lparr>rt_title = ti, rt_body_prelude = b, rt_labels = tt_labels t\<rparr>) (py_format ctx (tt_body_prelude t)))"

type_synonym prop_registry = "string \<times> string \<rightharpoonup> task_template"

fun first_template :: "prop_registry \<Rightarrow> (string \<times> string) list \<Rightarrow> task_template" where
  "first_template reg [] = default_template"
| "first_template reg (k # ks) = (case reg k of Some t \<Rightarrow> t | None \<Rightarrow> first_template reg ks)"

definition registry_lookup :: "prop_registry \<Rightarrow> string \<Rightarrow> string \<Rightarrow> task_template" where
  "registry_lookup reg target consumer = first_template reg [(target, consumer), (target, ''*''), (''*'', consumer)]"

definition registry_register :: "prop_registry \<Rightarrow> string \<Rightarrow> string \<Rightarrow> task_template \<Rightarrow> prop_registry" where
  "registry_register reg target consumer t = reg((target, consumer) \<mapsto> t)"

section \<open>Parent links\<close>

record parent_link =
  pl_target :: string
  pl_target_repo_id :: string
  pl_target_version :: string
  pl_edge_type :: string
  pl_triggered_at :: datetime
  pl_propagator_run_id :: string

definition render_link :: "(datetime \<Rightarrow> string) \<Rightarrow> parent_link \<Rightarrow> string" where
  "render_link isoformat l = py_join [CHR 0x0A]
     [''<!-- propagation:source -->'', ''target: '' @ pl_target l, ''target_repo_id: '' @ pl_target_repo_id l,
      ''target_version: '' @ pl_target_version l, ''edge_type: '' @ pl_edge_type l,
      ''triggered_at: '' @ isoformat (pl_triggered_at l), ''propagator_run_id: '' @ pl_propagator_run_id l,
      ''<!-- /propagation:source -->'']"

section \<open>Impact\<close>

datatype visibility = V_PUBLIC | V_PRIVATE

record repo_node =
  rn_repo_id :: string
  rn_canonical_name :: string
  rn_visibility :: visibility

record repo_graph =
  rg_resolve :: "string \<Rightarrow> repo_node option"
  rg_affected_by_contract_change :: "string \<Rightarrow> repo_node list"

record impact_summary =
  im_target :: repo_node
  im_affected :: "repo_node list"

definition public_affected :: "impact_summary \<Rightarrow> repo_node list" where
  "public_affected i = filter (\<lambda>n. rn_visibility n = V_PUBLIC) (im_affected i)"

definition private_affected :: "impact_summary \<Rightarrow> repo_node list" where
  "private_affected i = filter (\<lambda>n. rn_visibility n = V_PRIVATE) (im_affected i)"

definition has_impact :: "impact_summary \<Rightarrow> bool" where
  "has_impact i = (0 < length (im_affected i))"

definition render_summary :: "impact_summary \<Rightarrow> fstring" where
  "render_summary i =
     (if im_affected i = [] then
        [FLit ''contract change in '', FStr (rn_canonical_name (im_target i)), FLit '': no consumers'']
      else [FLit ''contract change in '', FStr (rn_canonical_name (im_target i)), FLit '' affects '',
            FInt (int (length (im_affected i))), FLit '' consumer(s): '',
            FStr (py_join '', '' (map rn_canonical_name (im_affected i)))])"

definition compute_contract_impact :: "repo_graph \<Rightarrow> string \<Rightarrow> impact_summary option" where
  "compute_contract_impact g target_name =
     (case rg_resolve g target_name of None \<Rightarrow> None
      | Some n \<Rightarrow> Some \<lparr>im_target = n, im_affected = rg_affected_by_contract_change g (rn_repo_id n)\<rparr>)"

section \<open>Creating a task\<close>

record board_issue =
  bi_title :: string
  bi_body :: string
  bi_labels :: "string list"
  bi_promote_to_ready :: bool

text \<open>
  The board client: creation answers with an exception's text or the \<open>id\<close> field of the response, if it has one; a
  transition succeeds or raises.
\<close>

record 'b board_client =
  cl_create :: "'b \<Rightarrow> string \<Rightarrow> string \<Rightarrow> string \<Rightarrow> string list \<Rightarrow> 'b \<times> (string + string option)"
  cl_transition :: "'b \<Rightarrow> string \<Rightarrow> string \<Rightarrow> 'b \<times> bool"

definition board_create_issue :: "'b board_client \<Rightarrow> string \<Rightarrow> string \<Rightarrow> 'b \<Rightarrow> board_issue \<Rightarrow> 'b \<times> (string + string)" where
  "board_create_issue cl backlog_state ready_state b i =
     (case cl_create cl b (bi_title i) (bi_body i) backlog_state (bi_labels i) of
        (b1, Inl e) \<Rightarrow> (b1, Inl e)
      | (b1, Inr r) \<Rightarrow>
          (let issue_id = or_empty r
           in (if bi_promote_to_ready i \<and> issue_id \<noteq> [] then fst (cl_transition cl b1 issue_id ready_state) else b1, Inr issue_id)))"

section \<open>The propagator\<close>

record prop_outcome =
  oc_consumer_repo_id :: string
  oc_consumer_canonical :: string
  oc_decision_action :: string
  oc_decision_reason :: fstring
  oc_issue_id :: "string option"
  oc_error :: "string option"

record prop_record =
  pr_run_id :: string
  pr_target_repo_id :: string
  pr_target_canonical :: string
  pr_target_version :: string
  pr_triggered_at :: datetime
  pr_outcomes :: "prop_outcome list"
  pr_affected_count :: nat
  pr_public_affected :: "string list"
  pr_private_affected :: "string list"

datatype prop_error = TemplateError | DedupWriteError | RecordWriteError

record 'b propagator =
  pp_settings :: prop_settings
  pp_registry :: prop_registry
  pp_create_issue :: "'b \<Rightarrow> board_issue \<Rightarrow> 'b \<times> (string + string)"
  pp_isoformat :: "datetime \<Rightarrow> string"
  pp_dedup_write_ok :: "dedup_key \<Rightarrow> bool"
  pp_record_write_ok :: bool

definition outcome_of :: "repo_node \<Rightarrow> string \<Rightarrow> fstring \<Rightarrow> string option \<Rightarrow> string option \<Rightarrow> prop_outcome" where
  "outcome_of n action reason issue err =
     \<lparr>oc_consumer_repo_id = rn_repo_id n, oc_consumer_canonical = rn_canonical_name n, oc_decision_action = action,
      oc_decision_reason = reason, oc_issue_id = issue, oc_error = err\<rparr>"

definition CONTRACT_EDGE :: string where
  "CONTRACT_EDGE = ''depends_on_contracts_from''"

definition propagate_one ::
  "'b propagator \<Rightarrow> repo_node \<Rightarrow> repo_node \<Rightarrow> string \<Rightarrow> string \<Rightarrow> datetime \<Rightarrow> dedup_file \<times> 'b
   \<Rightarrow> (dedup_file \<times> 'b) \<times> (prop_error + prop_outcome)" where
  "propagate_one p target consumer version run_id now s =
     (let d = decide (pp_settings p) (rn_repo_id target) (rn_repo_id consumer) CONTRACT_EDGE;
          action = prop_action_value (pd_action d);
          key = \<lparr>dk_target_repo_id = rn_repo_id target, dk_consumer_repo_id = rn_repo_id consumer, dk_target_version = version\<rparr>
      in if \<not> fires_task d then (s, Inr (outcome_of consumer action (pd_reason d) None None))
         else if is_recent (fst s) key (ps_dedup_window_hours (pp_settings p)) now then
           (s, Inr (outcome_of consumer ''skip'' [FLit ''dedup window not yet elapsed''] None None))
         else case render (registry_lookup (pp_registry p) (rn_repo_id target) (rn_repo_id consumer))
                     (render_context (rn_canonical_name target) (rn_repo_id target) (rn_canonical_name consumer) (rn_repo_id consumer)
                        CONTRACT_EDGE (Some version)) of
                None \<Rightarrow> (s, Inl TemplateError)
              | Some r \<Rightarrow>
                  (let link = \<lparr>pl_target = rn_canonical_name target, pl_target_repo_id = rn_repo_id target, pl_target_version = version,
                               pl_edge_type = CONTRACT_EDGE, pl_triggered_at = now, pl_propagator_run_id = run_id\<rparr>;
                       body = rt_body_prelude r @ [CHR 0x0A, CHR 0x0A] @ render_link (pp_isoformat p) link
                   in case pp_create_issue p (snd s) \<lparr>bi_title = rt_title r, bi_body = body, bi_labels = rt_labels r,
                              bi_promote_to_ready = (pd_action d = PA_READY_FOR_AI)\<rparr> of
                        (b, Inl e) \<Rightarrow>
                          ((fst s, b), Inr (outcome_of consumer action (pd_reason d) None (Some (''create_issue failed: '' @ e))))
                      | (b, Inr issue_id) \<Rightarrow>
                          if \<not> pp_dedup_write_ok p key then ((fst s, b), Inl DedupWriteError)
                          else ((dedup_record (fst s) key now, b), Inr (outcome_of consumer action (pd_reason d) (Some issue_id) None))))"

text \<open>The loop over the affected consumers; an exception ends it, with the outcomes so far.\<close>

fun propagate_all ::
  "'b propagator \<Rightarrow> repo_node \<Rightarrow> string \<Rightarrow> string \<Rightarrow> datetime \<Rightarrow> repo_node list \<Rightarrow> dedup_file \<times> 'b
   \<Rightarrow> (dedup_file \<times> 'b) \<times> prop_outcome list \<times> prop_error option" where
  "propagate_all p target version run_id now [] s = (s, [], None)"
| "propagate_all p target version run_id now (c # cs) s =
     (case propagate_one p target c version run_id now s of
        (s1, Inl e) \<Rightarrow> (s1, [], Some e)
      | (s1, Inr o1) \<Rightarrow>
          (let (s2, os, e) = propagate_all p target version run_id now cs s1 in (s2, o1 # os, e)))"

type_synonym prop_records = "string \<rightharpoonup> prop_record"

definition persist :: "'b propagator \<Rightarrow> prop_records \<Rightarrow> prop_record \<Rightarrow> prop_records \<times> (prop_error + prop_record)" where
  "persist p recs r =
     (if pp_record_write_ok p then (recs(pr_run_id r \<mapsto> r), Inr r) else (recs, Inl RecordWriteError))"

definition propagate ::
  "'b propagator \<Rightarrow> string \<Rightarrow> string \<Rightarrow> repo_graph \<Rightarrow> datetime \<Rightarrow> string \<Rightarrow> dedup_file \<times> 'b \<Rightarrow> prop_records
   \<Rightarrow> (dedup_file \<times> 'b) \<times> prop_records \<times> (prop_error + prop_record)" where
  "propagate p target_repo_id version g now run_id s recs =
     (let r0 = \<lparr>pr_run_id = run_id, pr_target_repo_id = target_repo_id, pr_target_canonical = '''', pr_target_version = version,
                pr_triggered_at = now, pr_outcomes = [], pr_affected_count = 0, pr_public_affected = [], pr_private_affected = []\<rparr>
      in case rg_resolve g target_repo_id of
           None \<Rightarrow> (s, persist p recs (r0\<lparr>pr_target_canonical := ''(unknown)''\<rparr>))
         | Some target \<Rightarrow>
             (let r1 = r0\<lparr>pr_target_canonical := rn_canonical_name target\<rparr>
              in case compute_contract_impact g target_repo_id of
                   None \<Rightarrow> (s, persist p recs r1)
                 | Some im \<Rightarrow>
                     if \<not> has_impact im then (s, persist p recs r1)
                     else
                       (let (s', os, e) = propagate_all p target version run_id now (im_affected im) s;
                            r2 = r1\<lparr>pr_affected_count := length (im_affected im),
                                    pr_public_affected := map rn_canonical_name (public_affected im),
                                    pr_private_affected := map rn_canonical_name (private_affected im), pr_outcomes := os\<rparr>
                        in case e of Some x \<Rightarrow> (s', recs, Inl x) | None \<Rightarrow> (s', persist p recs r2))))"

section \<open>Laws\<close>

lemma decide_disabled: "\<not> ps_enabled s \<Longrightarrow> pd_action (decide s t c e) = PA_SKIP"
  by (simp add: decide_def)

text \<open>The dedup entry of a key only ever moves forward, and a task is only created outside the window of its entry.\<close>

definition stamped_since :: "dedup_file \<Rightarrow> string \<Rightarrow> datetime \<Rightarrow> bool" where
  "stamped_since f k t = (\<exists>t'. map_of (dedup_load f) k = Some (Stamp t') \<and> t \<le> t')"

lemma map_of_record: "map_of (dedup_load (dedup_record f k now)) = (map_of (dedup_load f))(serialize k \<mapsto> Stamp now)"
  by (simp add: dedup_record_def update_conv')

definition key_of :: "repo_node \<Rightarrow> string \<Rightarrow> string \<Rightarrow> dedup_key" where
  "key_of target version consumer = \<lparr>dk_target_repo_id = rn_repo_id target, dk_consumer_repo_id = consumer, dk_target_version = version\<rparr>"

lemma propagate_one_cases:
  assumes "propagate_one p target c version run_id now s = (s', res)"
  obtains (quiet) "fst s' = fst s" "case res of Inr oc \<Rightarrow> oc_issue_id oc = None \<and> oc_consumer_repo_id oc = rn_repo_id c | Inl e \<Rightarrow> True"
      "res = Inl DedupWriteError \<Longrightarrow> \<not> pp_dedup_write_ok p (key_of target version (rn_repo_id c))"
  | (fired) oc i where "res = Inr oc" "oc_issue_id oc = Some i" "oc_consumer_repo_id oc = rn_repo_id c"
      "fst s' = dedup_record (fst s) (key_of target version (rn_repo_id c)) now"
      "\<not> is_recent (fst s) (key_of target version (rn_repo_id c)) (ps_dedup_window_hours (pp_settings p)) now"
      "fires_task (decide (pp_settings p) (rn_repo_id target) (rn_repo_id c) CONTRACT_EDGE)"
  using assms
  by (auto simp: propagate_one_def Let_def outcome_of_def key_of_def
      split: if_splits option.splits prod.splits sum.splits intro: that)

lemma propagate_one_silent:
  assumes "\<not> fires_task (decide (pp_settings p) (rn_repo_id target) (rn_repo_id c) CONTRACT_EDGE)"
  shows "fst (propagate_one p target c version run_id now s) = s"
  using assms by (simp add: propagate_one_def Let_def)

lemma propagate_all_consumers:
  "propagate_all p target version run_id now cs s = (s', os, None) \<Longrightarrow>
     map oc_consumer_repo_id os = map rn_repo_id cs
     \<and> (\<forall>oc \<in> set os. oc_issue_id oc \<noteq> None \<longrightarrow>
          fires_task (decide (pp_settings p) (rn_repo_id target) (oc_consumer_repo_id oc) CONTRACT_EDGE))"
proof (induction cs arbitrary: s os)
  case (Cons c cs)
  obtain s1 res where one: "propagate_one p target c version run_id now s = (s1, res)" by fastforce
  then obtain oc os' where o: "res = Inr oc" "os = oc # os'" "propagate_all p target version run_id now cs s1 = (s', os', None)"
    using Cons.prems by (auto split: sum.splits prod.splits)
  from one show ?case
  proof (cases rule: propagate_one_cases)
    case quiet
    then show ?thesis using Cons.IH [OF o(3)] o by simp
  next
    case (fired oc' i)
    then show ?thesis using Cons.IH [OF o(3)] o by simp
  qed
qed simp

lemma propagate_all_disabled:
  "\<not> ps_enabled (pp_settings p) \<Longrightarrow> \<exists>os. propagate_all p target version run_id now cs s = (s, os, None)
     \<and> (\<forall>oc \<in> set os. oc_issue_id oc = None \<and> oc_decision_action oc = ''skip'')"
proof (induction cs)
  case (Cons c cs)
  then show ?case by (auto simp: propagate_one_def Let_def fires_task_def decide_disabled outcome_of_def)
qed simp

section \<open>Runs\<close>

record prop_call =
  pc_target :: string
  pc_version :: string
  pc_graph :: repo_graph
  pc_now :: datetime
  pc_run_id :: string

text \<open>The keys and times of the tasks that a call creates, newest first, also those of a call that ends in an exception.\<close>

definition created_by :: "'b propagator \<Rightarrow> prop_call \<Rightarrow> dedup_file \<times> 'b \<Rightarrow> (string \<times> datetime) list" where
  "created_by p c s =
     (case rg_resolve (pc_graph c) (pc_target c) of
        None \<Rightarrow> []
      | Some t \<Rightarrow>
          rev (map (\<lambda>oc. (serialize (key_of t (pc_version c) (oc_consumer_repo_id oc)), pc_now c))
            (filter (\<lambda>oc. oc_issue_id oc \<noteq> None)
              (fst (snd (propagate_all p t (pc_version c) (pc_run_id c) (pc_now c)
                 (rg_affected_by_contract_change (pc_graph c) (rn_repo_id t)) s))))))"

fun propagations ::
  "'b propagator \<Rightarrow> prop_call list \<Rightarrow> dedup_file \<times> 'b \<Rightarrow> prop_records \<Rightarrow> (string \<times> datetime) list
   \<Rightarrow> (dedup_file \<times> 'b) \<times> (string \<times> datetime) list" where
  "propagations p [] s recs lg = (s, lg)"
| "propagations p (c # cs) s recs lg =
     (let r = propagate p (pc_target c) (pc_version c) (pc_graph c) (pc_now c) (pc_run_id c) s recs
      in propagations p cs (fst r) (fst (snd r)) (created_by p c s @ lg))"

definition spaced :: "int \<Rightarrow> (string \<times> datetime) list \<Rightarrow> bool" where
  "spaced window lg = sorted_wrt (\<lambda>l e. fst l = fst e \<longrightarrow> snd e + td_hours window < snd l) lg"

definition covered :: "dedup_file \<Rightarrow> (string \<times> datetime) list \<Rightarrow> bool" where
  "covered f lg = (\<forall>x \<in> set lg. stamped_since f (fst x) (snd x))"

lemma propagate_all_spaced:
  assumes "propagate_all p target version run_id now cs s = (s', os, e)"
    and "spaced (ps_dedup_window_hours (pp_settings p)) lg" "covered (fst s) lg" "\<forall>x \<in> set lg. snd x \<le> now"
    and "\<forall>k. pp_dedup_write_ok p k"
  shows "spaced (ps_dedup_window_hours (pp_settings p))
      (rev (map (\<lambda>oc. (serialize (key_of target version (oc_consumer_repo_id oc)), now)) (filter (\<lambda>oc. oc_issue_id oc \<noteq> None) os)) @ lg)
    \<and> covered (fst s')
      (rev (map (\<lambda>oc. (serialize (key_of target version (oc_consumer_repo_id oc)), now)) (filter (\<lambda>oc. oc_issue_id oc \<noteq> None) os)) @ lg)"
  using assms(1-4)
proof (induction cs arbitrary: s os lg)
  case Nil
  then show ?case by simp
next
  case (Cons c cs)
  obtain s1 res where one: "propagate_one p target c version run_id now s = (s1, res)" by fastforce
  from one show ?case
  proof (cases rule: propagate_one_cases)
    case quiet
    show ?thesis
    proof (cases res)
      case (Inl x)
      then show ?thesis using Cons.prems one quiet(1) by simp
    next
      case (Inr oc)
      then obtain os' where os: "os = oc # os'" "propagate_all p target version run_id now cs s1 = (s', os', e)"
        using Cons.prems(1) one by (auto split: prod.splits)
      then show ?thesis using Cons.IH [OF os(2)] Cons.prems quiet Inr by simp
    qed
  next
    case (fired oc i)
    let ?k = "serialize (key_of target version (rn_repo_id c))"
    obtain os' where os: "os = oc # os'" "propagate_all p target version run_id now cs s1 = (s', os', e)"
      using Cons.prems(1) one fired(1) by (auto split: prod.splits)
    have "snd x + td_hours (ps_dedup_window_hours (pp_settings p)) < now" if "x \<in> set lg" "fst x = ?k" for x
      using Cons.prems(3) that fired(5) by (auto simp: covered_def stamped_since_def is_recent_def)
    then have "spaced (ps_dedup_window_hours (pp_settings p)) ((?k, now) # lg)"
      using Cons.prems(2) by (auto simp: spaced_def)
    moreover have "covered (fst s1) ((?k, now) # lg)"
      using Cons.prems(3,4) by (auto simp: covered_def stamped_since_def fired(4) map_of_record)
    ultimately show ?thesis using Cons.IH [OF os(2)] Cons.prems(4) os(1) fired(2,3) by auto
  qed
qed

lemma propagate_state:
  "fst (fst (propagate p t v g now run_id s recs)) =
     (case rg_resolve g t of None \<Rightarrow> fst s
      | Some n \<Rightarrow> fst (fst (propagate_all p n v run_id now (rg_affected_by_contract_change g (rn_repo_id n)) s)))"
  by (auto simp: propagate_def Let_def compute_contract_impact_def has_impact_def case_prod_beta persist_def split: option.splits)

section \<open>Properties\<close>

text \<open>
  Propagation that is not enabled is inert: no task is created, the deduplication file and the board stay as they are,
  and every consumer's outcome is a skip.
\<close>

theorem disabled_propagation_inert:
  assumes "\<not> ps_enabled (pp_settings p)"
  shows "fst (propagate p t v g now run_id s recs) = s
    \<and> (\<forall>r. snd (snd (propagate p t v g now run_id s recs)) = Inr r \<longrightarrow>
         (\<forall>oc \<in> set (pr_outcomes r). oc_issue_id oc = None \<and> oc_decision_action oc = ''skip''))"
proof (cases "rg_resolve g t")
  case None
  then show ?thesis by (auto simp: propagate_def Let_def persist_def)
next
  case (Some n)
  obtain os where "propagate_all p n v run_id now (rg_affected_by_contract_change g (rn_repo_id n)) s = (s, os, None)"
    "\<forall>oc \<in> set os. oc_issue_id oc = None \<and> oc_decision_action oc = ''skip''"
    using propagate_all_disabled [OF assms] by blast
  then show ?thesis
    using Some by (auto simp: propagate_def Let_def compute_contract_impact_def persist_def split: if_splits)
qed

definition sample_node :: "string \<Rightarrow> repo_node" where
  "sample_node i = \<lparr>rn_repo_id = i, rn_canonical_name = i, rn_visibility = V_PUBLIC\<rparr>"

definition sample_graph :: repo_graph where
  "sample_graph = \<lparr>rg_resolve = (\<lambda>n. if n = ''cxrp'' then Some (sample_node n) else None),
     rg_affected_by_contract_change = (\<lambda>_. [sample_node ''a'', sample_node ''b''])\<rparr>"

definition sample_propagator :: "bool \<Rightarrow> nat propagator" where
  "sample_propagator on =
     \<lparr>pp_settings = default_prop_settings\<lparr>ps_enabled := on, ps_auto_trigger_edge_types := [''depends_on_contracts_from'']\<rparr>,
      pp_registry = Map.empty, pp_create_issue = (\<lambda>n _. (Suc n, Inr (show_nat n))), pp_isoformat = (\<lambda>_. ''t''),
      pp_dedup_write_ok = (\<lambda>_. True), pp_record_write_ok = True\<rparr>"

theorem disabled_propagation_inert_witness:
  "fst (propagate (sample_propagator False) ''cxrp'' ''v'' sample_graph 0 ''r'' (DF_Missing, 0) Map.empty) = (DF_Missing, 0)"
  using disabled_propagation_inert [of "sample_propagator False" "''cxrp''" "''v''" sample_graph 0 "''r''" "(DF_Missing, 0)" Map.empty]
  by (simp add: sample_propagator_def)

text \<open>
  C20: within any sequence of propagation runs in the order of time, no two tasks for the same target, consumer and version are
  created within the deduplication window of each other, also when a run ends early, as long as the deduplication
  file can be written.
\<close>

theorem at_most_one_task_per_window:
  assumes "propagations p cs (DF_Missing, b) recs [] = ((f, b'), lg)"
    and "sorted (map pc_now cs)" "\<forall>k. pp_dedup_write_ok p k"
  shows "spaced (ps_dedup_window_hours (pp_settings p)) lg \<and> covered f lg"
proof -
  have "spaced (ps_dedup_window_hours (pp_settings p)) lg' \<and> covered f' lg'"
    if "propagations p cs s recs lg = ((f', b'), lg')" "spaced (ps_dedup_window_hours (pp_settings p)) lg" "covered (fst s) lg"
      "sorted (map pc_now cs)" "\<forall>x \<in> set lg. \<forall>c \<in> set cs. snd x \<le> pc_now c" for s lg f' b' lg' recs
    using that
  proof (induction cs arbitrary: s recs lg)
    case (Cons c cs)
    let ?r = "propagate p (pc_target c) (pc_version c) (pc_graph c) (pc_now c) (pc_run_id c) s recs"
    have "spaced (ps_dedup_window_hours (pp_settings p)) (created_by p c s @ lg) \<and> covered (fst (fst ?r)) (created_by p c s @ lg)"
    proof (cases "rg_resolve (pc_graph c) (pc_target c)")
      case (Some n)
      obtain s1 os e where pa: "propagate_all p n (pc_version c) (pc_run_id c) (pc_now c)
          (rg_affected_by_contract_change (pc_graph c) (rn_repo_id n)) s = (s1, os, e)" by (metis prod_cases3)
      then show ?thesis
        using propagate_all_spaced [OF pa Cons.prems(2,3) _ assms(3)] Cons.prems(5) Some by (simp add: created_by_def propagate_state)
    qed (use Cons.prems in \<open>simp add: created_by_def propagate_state\<close>)
    moreover have "snd x \<le> pc_now d" if "x \<in> set (created_by p c s @ lg)" "d \<in> set cs" for x d
      using that Cons.prems(4,5) by (auto simp: created_by_def split: option.splits)
    ultimately show ?case using Cons.IH [of "fst ?r" "fst (snd ?r)" "created_by p c s @ lg"] Cons.prems(1,4) by (auto simp: Let_def)
  qed simp
  from this [OF assms(1)] show ?thesis using assms(2) by (simp add: spaced_def covered_def)
qed

definition sample_calls :: "prop_call list" where
  "sample_calls = map (\<lambda>h. \<lparr>pc_target = ''cxrp'', pc_version = ''v1'', pc_graph = sample_graph, pc_now = td_hours h, pc_run_id = ''r''\<rparr>)
     [0, 20, 40]"

lemma sample_calls_log:
  "snd (propagations (sample_propagator True) sample_calls (DF_Missing, 0) Map.empty []) =
     [(''cxrp|b|v1'', td_hours 40), (''cxrp|a|v1'', td_hours 40), (''cxrp|b|v1'', 0), (''cxrp|a|v1'', 0)]"
  by code_simp

theorem at_most_one_task_per_window_witness:
  "spaced 24 (snd (propagations (sample_propagator True) sample_calls (DF_Missing, 0) Map.empty []))
   \<and> length (snd (propagations (sample_propagator True) sample_calls (DF_Missing, 0) Map.empty [])) = 4"
proof -
  obtain f b' lg where r: "propagations (sample_propagator True) sample_calls (DF_Missing, 0) Map.empty [] = ((f, b'), lg)"
    by (metis prod.collapse)
  have "sorted (map pc_now sample_calls)" by (simp add: sample_calls_def td_defs)
  moreover have "ps_dedup_window_hours (pp_settings (sample_propagator True)) = 24"
    by (simp add: sample_propagator_def default_prop_settings_def)
  ultimately show ?thesis
    using at_most_one_task_per_window [OF r] sample_calls_log r by (simp add: sample_propagator_def)
qed

text \<open>
  A run that returns accounts for every affected consumer: its record is stored, it has exactly one outcome per affected
  repository, in the order of the graph, and a task was only filed for a pair the policy fires for.
\<close>

theorem every_consumer_accounted:
  assumes "propagate p t v g now run_id s recs = (s', recs', Inr r)"
  shows "recs' = recs(run_id \<mapsto> r)
    \<and> map oc_consumer_repo_id (pr_outcomes r) =
        (case rg_resolve g t of None \<Rightarrow> [] | Some n \<Rightarrow> map rn_repo_id (rg_affected_by_contract_change g (rn_repo_id n)))
    \<and> (\<forall>oc \<in> set (pr_outcomes r). oc_issue_id oc \<noteq> None \<longrightarrow>
         (\<exists>n. rg_resolve g t = Some n
            \<and> fires_task (decide (pp_settings p) (rn_repo_id n) (oc_consumer_repo_id oc) CONTRACT_EDGE)))"
proof (cases "rg_resolve g t")
  case None
  then show ?thesis using assms by (auto simp: propagate_def Let_def persist_def split: if_splits)
next
  case (Some n)
  obtain s1 os e where pa: "propagate_all p n v run_id now (rg_affected_by_contract_change g (rn_repo_id n)) s = (s1, os, e)"
    by (metis prod_cases3)
  show ?thesis
  proof (cases "rg_affected_by_contract_change g (rn_repo_id n) = []")
    case True
    then show ?thesis
      using assms Some by (auto simp: propagate_def Let_def persist_def compute_contract_impact_def has_impact_def split: if_splits)
  next
    case False
    then have e: "e = None" "recs' = recs(run_id \<mapsto> r)" "pr_outcomes r = os"
      using assms Some pa
      by (auto simp: propagate_def Let_def persist_def compute_contract_impact_def has_impact_def split: if_splits option.splits)
    show ?thesis using propagate_all_consumers [OF pa [unfolded e(1)]] e Some by auto
  qed
qed

theorem every_consumer_accounted_witness:
  "\<exists>r. snd (snd (propagate (sample_propagator True) ''cxrp'' ''v1'' sample_graph 0 ''r'' (DF_Missing, 0) Map.empty)) = Inr r
     \<and> map oc_consumer_repo_id (pr_outcomes r) = [''a'', ''b'']"
proof -
  let ?p = "propagate (sample_propagator True) ''cxrp'' ''v1'' sample_graph 0 ''r'' (DF_Missing, 0) Map.empty"
  have "\<not> isl (snd (snd ?p))" by code_simp
  then obtain s' recs' r where p: "?p = (s', recs', Inr r)" by (metis prod.collapse sum.collapse(2))
  show ?thesis using every_consumer_accounted [OF p] p by (simp add: sample_graph_def sample_node_def)
qed

section \<open>Where the code departs from its documentation\<close>

text \<open>The same version fires again once the window has passed: exact keys are not suppressed for good.\<close>

lemma same_version_fires_again:
  "length (filter (\<lambda>x. fst x = ''cxrp|a|v1'') (snd (propagations (sample_propagator True) sample_calls (DF_Missing, 0) Map.empty []))) = 2"
  unfolding sample_calls_log by simp

text \<open>Keys are joined with a bar that may occur in them, so a task for one pair can suppress the task of another.\<close>

lemma dedup_keys_collide:
  "is_recent (dedup_record f \<lparr>dk_target_repo_id = ''a'', dk_consumer_repo_id = ''b|c'', dk_target_version = v\<rparr> now)
     \<lparr>dk_target_repo_id = ''a|b'', dk_consumer_repo_id = ''c'', dk_target_version = v\<rparr> 24 now"
  by (simp add: is_recent_def map_of_record serialize_def td_defs)

text \<open>A template with an unknown key ends the whole run: the consumers after it get no outcome and no record is written.\<close>

lemma bad_template_ends_run:
  "snd (snd (propagate ((sample_propagator True)\<lparr>pp_registry := [(''cxrp'', ''a'') \<mapsto> default_template\<lparr>tt_title := ''{unknown}''\<rparr>]\<rparr>)
     ''cxrp'' ''v1'' sample_graph 0 ''r'' (DF_Missing, 0) Map.empty)) = Inl TemplateError"
  by code_simp

end
