(* ===== verification/Decision_Rules.thy ===== *)
theory Decision_Rules
  imports Json_Values "HOL-Library.List_Lexorder" "HOL-Library.Char_ord" "HOL-Library.Product_Lexorder"
begin

text \<open>
  The decision rules (\<open>decision/rules/\<close>): each turns the insights derived from the observations into candidate specs
  (\<open>decision/candidate_builder.py\<close>). The evidence of an insight is JSON; a conversion \<open>int(...)\<close> or \<open>float(...)\<close> of a value
  that does not allow it raises, so a rule returns an option. Of a spec everything the decision engine reads is kept; the
  human-readable evidence lines and the proposal outline are not. The text of a value that is neither a string nor an integer
  is the argument \<open>T\<close>.
\<close>

section \<open>Insights and candidate specs\<close>

record insight =
  in_dedup_key :: string
  in_kind :: string
  in_subject :: string
  in_status :: string
  in_evidence :: event

record candidate_spec =
  sp_family :: string
  sp_subject :: string
  sp_pattern_key :: string
  sp_evidence :: event
  sp_matched_rules :: "string list"
  sp_priority :: "int \<times> int \<times> string"
  sp_confidence :: string
  sp_risk_class :: string
  sp_expires_after_runs :: int
  sp_estimated_affected_files :: "int option"
  sp_validation_profile :: string

type_synonym decision_rule = "insight list \<Rightarrow> candidate_spec list option"

definition ev_get :: "event \<Rightarrow> string \<Rightarrow> json \<Rightarrow> json" where
  "ev_get e k d = (case map_of e k of Some v \<Rightarrow> v | None \<Rightarrow> d)"

definition trunc :: "rat \<Rightarrow> int" where
  "trunc x = (if 0 \<le> x then \<lfloor>x\<rfloor> else - \<lfloor>- x\<rfloor>)"

fun json_int :: "json \<Rightarrow> int option" where
  "json_int (JInt n) = Some n"
| "json_int (JBool b) = Some (if b then 1 else 0)"
| "json_int (JFloat x) = Some (trunc x)"
| "json_int (JStr s) = py_int s"
| "json_int _ = None"

text \<open>\<open>float(s)\<close>: spaces around, an optional sign and a decimal number; exponents, \<open>nan\<close> and \<open>inf\<close> are left out.\<close>

definition signed_float :: "string \<Rightarrow> rat option" where
  "signed_float s =
     (case py_strip s of
        [] \<Rightarrow> None
      | c # cs \<Rightarrow> if c = CHR ''-'' then map_option uminus (py_float cs) else if c = CHR ''+'' then py_float cs else py_float (c # cs))"

fun json_float :: "json \<Rightarrow> rat option" where
  "json_float (JInt n) = Some (of_int n)"
| "json_float (JBool b) = Some (if b then 1 else 0)"
| "json_float (JFloat x) = Some x"
| "json_float (JStr s) = signed_float s"
| "json_float _ = None"

definition json_str :: "(json \<Rightarrow> string) \<Rightarrow> json \<Rightarrow> string" where
  "json_str T v = (case v of JStr s \<Rightarrow> s | JInt n \<Rightarrow> show_int n | _ \<Rightarrow> T v)"

definition ev_int :: "event \<Rightarrow> string \<Rightarrow> int option" where
  "ev_int e k = json_int (ev_get e k (JInt 0))"

definition ev_str :: "(json \<Rightarrow> string) \<Rightarrow> event \<Rightarrow> string \<Rightarrow> string \<Rightarrow> string" where
  "ev_str T e k d = json_str T (ev_get e k (JStr d))"

text \<open>\<open>int(distinct_files) if distinct_files is not None else None\<close>; the outer option is the exception.\<close>

definition affected_files :: "event \<Rightarrow> int option option" where
  "affected_files e = (case ev_get e ''distinct_file_count'' JNull of JNull \<Rightarrow> Some None | v \<Rightarrow> map_option Some (json_int v))"

definition seen_before :: "string \<Rightarrow> string list" where
  "seen_before r = [r, ''candidate_not_seen_in_cooldown_window'']"

definition mk_spec ::
  "string \<Rightarrow> string \<Rightarrow> string \<Rightarrow> event \<Rightarrow> string list \<Rightarrow> string \<Rightarrow> string \<Rightarrow> int \<Rightarrow> int \<times> int \<times> string \<Rightarrow> candidate_spec" where
  "mk_spec family subject pattern_key evidence rules confidence risk expires priority =
     \<lparr>sp_family = family, sp_subject = subject, sp_pattern_key = pattern_key, sp_evidence = evidence, sp_matched_rules = rules,
      sp_priority = priority, sp_confidence = confidence, sp_risk_class = risk, sp_expires_after_runs = expires,
      sp_estimated_affected_files = None, sp_validation_profile = ''''\<rparr>"

lemma spec_family [simp]: "sp_family (mk_spec f s p e r c k x pr) = f"
  by (simp add: mk_spec_def)

text \<open>A rule that looks at one insight after the other.\<close>

definition per_insight :: "(insight \<Rightarrow> candidate_spec list option) \<Rightarrow> decision_rule" where
  "per_insight f is = map_option concat (those (map f is))"

definition high_from :: "int \<Rightarrow> int \<Rightarrow> string" where
  "high_from n limit = (if limit \<le> n then ''high'' else ''medium'')"

section \<open>Visibility and dependencies\<close>

definition observation_coverage_rule :: "(json \<Rightarrow> string) \<Rightarrow> int \<Rightarrow> decision_rule" where
  "observation_coverage_rule T min_consecutive_runs = per_insight (\<lambda>i.
     if in_kind i = ''observation_coverage'' \<and> str_endswith (in_dedup_key i) ''persistent_unavailable'' then
       (case ev_int (in_evidence i) ''consecutive_snapshots'' of
          None \<Rightarrow> None
        | Some n \<Rightarrow>
            if n < min_consecutive_runs then Some []
            else (let signal = ev_str T (in_evidence i) ''signal'' (in_subject i)
                  in Some [mk_spec ''observation_coverage'' signal ''repeated_unavailable'' (in_evidence i)
                             (seen_before ''observation_signal_repeated_unavailable'') (high_from n 3) ''logic'' 5
                             (0, 0, ''observation_coverage|'' @ signal @ ''|repeated_unavailable'')]))
     else Some [])"

definition test_status_specs :: "(json \<Rightarrow> string) \<Rightarrow> int \<Rightarrow> insight \<Rightarrow> candidate_spec list option" where
  "test_status_specs T min_consecutive_runs i =
     (if in_kind i = ''test_status_continuity'' \<and> in_subject i = ''test_signal'' then
        (let st = ev_str T (in_evidence i) ''current_status'' ''''
         in case ev_int (in_evidence i) ''consecutive_snapshots'' of
              None \<Rightarrow> None
            | Some n \<Rightarrow> Some
                ((if st = ''unknown'' \<and> str_endswith (in_dedup_key i) ''persistent'' \<and> min_consecutive_runs \<le> n then
                    [mk_spec ''test_visibility'' ''test_signal'' ''unknown_persistent''
                       [(''current_status'', JStr st), (''consecutive_snapshots'', JInt n)]
                       (seen_before ''test_unknown_persistence_min_consecutive_runs'') (high_from n 5) ''logic'' 5
                       (1, 1, ''test_visibility|unknown_persistent'')]
                  else [])
                 @ (if str_endswith (in_dedup_key i) ''transition'' \<and> st = ''failed''
                       \<and> map_of (in_evidence i) ''previous_status'' = Some (JStr ''passed'') then
                      [mk_spec ''test_visibility'' ''test_signal'' ''passing_to_failing''
                         [(''previous_status'', JStr ''passed''), (''current_status'', JStr ''failed'')]
                         (seen_before ''test_status_transition_failed'') ''high'' ''logic'' 3
                         (1, 2, ''test_visibility|passing_to_failing'')]
                    else [])))
      else Some [])"

definition test_coverage_specs :: "insight \<Rightarrow> candidate_spec list option" where
  "test_coverage_specs i =
     (if in_kind i = ''observation_coverage'' \<and> in_subject i = ''test_signal''
         \<and> str_endswith (in_dedup_key i) ''persistent_unavailable'' then
        map_option (\<lambda>n. [mk_spec ''test_visibility'' ''test_signal'' ''coverage_unavailable_persistent''
            [(''signal'', JStr ''test_signal''), (''consecutive_snapshots'', JInt n)]
            (seen_before ''test_signal_unavailable_repeated'') (high_from n 3) ''logic'' 5
            (1, 0, ''test_visibility|coverage_unavailable_persistent'')])
          (ev_int (in_evidence i) ''consecutive_snapshots'')
      else Some [])"

definition test_visibility_rule :: "(json \<Rightarrow> string) \<Rightarrow> int \<Rightarrow> decision_rule" where
  "test_visibility_rule T min_consecutive_runs = per_insight (\<lambda>i.
     case test_status_specs T min_consecutive_runs i of
       None \<Rightarrow> None
     | Some a \<Rightarrow> map_option ((@) a) (test_coverage_specs i))"

definition dependency_drift_rule :: "int \<Rightarrow> decision_rule" where
  "dependency_drift_rule min_consecutive_runs = per_insight (\<lambda>i.
     if in_kind i = ''dependency_drift_continuity'' \<and> in_subject i = ''dependency_drift''
        \<and> str_endswith (in_dedup_key i) ''present|persistent'' then
       (case ev_int (in_evidence i) ''consecutive_snapshots'' of
          None \<Rightarrow> None
        | Some n \<Rightarrow>
            if n < min_consecutive_runs then Some []
            else Some [mk_spec ''dependency_drift_followup'' ''dependency_drift'' ''present_persistent''
                         [(''consecutive_snapshots'', JInt n)] (seen_before ''dependency_drift_persistent_min_consecutive_runs'')
                         (high_from n 4) ''logic'' 5 (2, 0, ''dependency_drift_followup|present_persistent'')])
     else Some [])"

section \<open>Hotspots and TODO markers\<close>

text \<open>The two dictionaries of the hotspot rule, filled insight by insight; the last one of a subject counts.\<close>

fun hotspot_scan :: "insight list \<Rightarrow> (string \<times> int) list \<Rightarrow> (string \<times> event) list \<Rightarrow> ((string \<times> int) list \<times> (string \<times> event) list) option" where
  "hotspot_scan [] rep doms = Some (rep, doms)"
| "hotspot_scan (i # is) rep doms =
     (if in_kind i \<noteq> ''file_hotspot'' then hotspot_scan is rep doms
      else
        (let doms' = (if str_endswith (in_dedup_key i) ''dominant_current'' then AList.update (in_subject i) (in_evidence i) doms else doms)
         in if str_endswith (in_dedup_key i) ''repeated_presence'' then
              (case ev_int (in_evidence i) ''appears_in_recent_snapshots'' of
                 None \<Rightarrow> None
               | Some n \<Rightarrow> hotspot_scan is (AList.update (in_subject i) n rep) doms')
            else hotspot_scan is rep doms'))"

definition hotspot_concentration_rule :: "int \<Rightarrow> decision_rule" where
  "hotspot_concentration_rule min_repeated_runs is =
     (case hotspot_scan is [] [] of
        None \<Rightarrow> None
      | Some (rep, doms) \<Rightarrow> Some
          (map (\<lambda>(subject, n).
             mk_spec ''hotspot_concentration'' subject ''persistent''
               (AList.merge [(''appears_in_recent_snapshots'', JInt n)] (case map_of doms subject of Some e \<Rightarrow> e | None \<Rightarrow> []))
               (seen_before ''hotspot_repeated_presence_min_runs'') ''medium'' ''structural'' 5
               (3, 0, ''hotspot_concentration|'' @ subject @ ''|persistent''))
            (filter (\<lambda>(subject, n). min_repeated_runs \<le> n) (sort rep))))"

definition todo_accumulation_rule :: decision_rule where
  "todo_accumulation_rule = per_insight (\<lambda>i.
     if in_kind i \<noteq> ''todo_concentration'' then Some []
     else case ev_int (in_evidence i) ''current_total'' of
       None \<Rightarrow> None
     | Some current_total \<Rightarrow>
         (case ev_int (in_evidence i) ''previous_total'' of
            None \<Rightarrow> None
          | Some previous_total \<Rightarrow>
              (let a = (if str_endswith (in_dedup_key i) ''count_changed'' \<and> previous_total < current_total then
                          [mk_spec ''todo_accumulation'' ''todo_fixme_total'' ''count_increased'' (in_evidence i)
                             (seen_before ''todo_fixme_total_increased'') ''medium'' ''style'' 4
                             (4, 0, ''todo_accumulation|count_increased'')]
                        else [])
               in if str_endswith (in_dedup_key i) ''fixme|present'' then
                    (case ev_int (in_evidence i) ''fixme_count'' of
                       None \<Rightarrow> None
                     | Some _ \<Rightarrow> Some (a @ [mk_spec ''todo_accumulation'' ''fixme'' ''fixme_present'' (in_evidence i)
                             (seen_before ''fixme_present'') ''medium'' ''style'' 4 (4, 1, ''todo_accumulation|fixme_present'')]))
                  else Some a)))"

section \<open>Execution health and validation patterns\<close>

definition health_spec :: "string \<Rightarrow> string \<Rightarrow> event \<Rightarrow> string \<Rightarrow> int \<Rightarrow> int \<Rightarrow> candidate_spec" where
  "health_spec repo pat e confidence expires rank =
     mk_spec ''execution_health_followup'' repo pat e [''execution_health_'' @ pat] confidence ''logic'' expires
       (rank, 0, ''execution_health|'' @ repo @ ''|'' @ pat)"

definition execution_health_rule :: "(json \<Rightarrow> string) \<Rightarrow> decision_rule" where
  "execution_health_rule T = per_insight (\<lambda>i.
     if in_kind i \<noteq> ''execution_health'' then Some []
     else
       (let e = in_evidence i; repo = ev_str T e ''repo'' (in_subject i); pat = ev_str T e ''pattern'' ''''
        in if pat = ''high_no_op_rate'' then
             map_option (\<lambda>rate. [health_spec repo pat e (high_from (trunc (rate * 100)) 80) 5 1])
               (json_float (ev_get e ''no_op_rate'' (JInt 0)))
           else if pat = ''persistent_validation_failures'' then Some [health_spec repo pat e ''high'' 3 0]
           else if pat = ''repeated_unknown_failures'' then Some [health_spec repo pat e ''high'' 5 0]
           else Some []))"

definition validation_pattern_rule :: decision_rule where
  "validation_pattern_rule = per_insight (\<lambda>i.
     if in_kind i = ''validation_pattern'' \<and> in_status i = ''repeated_failures'' then
       (let e = in_evidence i
        in case ev_int e ''tasks_with_repeated_failures'' of
             None \<Rightarrow> None
           | Some count \<Rightarrow>
               if ev_int e ''worst_task_failure_count'' = None \<or> ev_int e ''worst_task_total_runs'' = None then None
               else Some [mk_spec ''validation_pattern_followup'' ''execution_tasks'' ''repeated_failures'' e
                            (seen_before ''validation_repeated_task_failures'') (high_from count 3) ''logic'' 5
                            (0, 1, ''validation_pattern|repeated_failures|'' @ show_int count)])
     else Some [])"

section \<open>Lint and types\<close>

definition signal_overlap :: "string \<Rightarrow> insight list \<Rightarrow> bool" where
  "signal_overlap subject is = list_ex (\<lambda>i. in_kind i = ''cross_signal'' \<and> in_subject i = subject) is"

text \<open>
  The lint and the type rule have the same shape: the family, the subjects and keys, the thresholds and lifetimes differ.
\<close>

definition fix_rule ::
  "string \<Rightarrow> string \<Rightarrow> string \<Rightarrow> string \<Rightarrow> string \<Rightarrow> string \<Rightarrow> string \<Rightarrow> int \<Rightarrow> string \<Rightarrow> int \<Rightarrow> int \<Rightarrow> bool \<Rightarrow> insight
   \<Rightarrow> candidate_spec list option" where
  "fix_rule kind family subject noun count_key present_rule worse_rule high risk expires min_count overlap i =
     (let e = in_evidence i
      in if in_kind i \<noteq> kind then Some []
         else if str_endswith (in_dedup_key i) ''present'' \<and> in_status i = ''present'' then
           (case ev_int e count_key of
              None \<Rightarrow> None
            | Some count \<Rightarrow>
                if count < min_count then Some []
                else case affected_files e of
                       None \<Rightarrow> None
                     | Some files \<Rightarrow>
                         Some [(mk_spec family subject (noun @ ''_present'') e
                                  (seen_before present_rule @
                                     (if overlap then [''cross_signal_'' @ takeWhile (\<lambda>c. c \<noteq> CHR ''_'') family @ ''_hotspot_overlap''] else []))
                                  (if high \<le> count \<or> overlap then ''high'' else ''medium'') risk expires
                                  (1, 5, family @ ''|'' @ noun @ ''_present|'' @ show_int count))
                                 \<lparr>sp_estimated_affected_files := files\<rparr>])
         else if str_endswith (in_dedup_key i) ''worsened'' then
           (case ev_int e ''delta'' of
              None \<Rightarrow> None
            | Some delta \<Rightarrow>
                if ev_int e ''current_count'' = None then None
                else case affected_files e of
                       None \<Rightarrow> None
                     | Some files \<Rightarrow>
                         Some [(mk_spec family subject (noun @ ''_worsened'') e (seen_before worse_rule) ''high'' risk expires
                                  (1, 4, family @ ''|'' @ noun @ ''_worsened|'' @ show_int delta))
                                 \<lparr>sp_estimated_affected_files := files\<rparr>])
         else Some [])"

definition lint_fix_rule :: "int \<Rightarrow> decision_rule" where
  "lint_fix_rule min_violations is =
     per_insight (fix_rule ''lint_drift'' ''lint_fix'' ''lint_violations'' ''violations'' ''violation_count''
       ''lint_violations_present_min_threshold'' ''lint_violations_count_increased'' 20 ''style'' 3 min_violations
       (signal_overlap ''lint_hotspot_overlap'' is)) is"

definition type_improvement_rule :: "int \<Rightarrow> decision_rule" where
  "type_improvement_rule min_errors is =
     per_insight (fix_rule ''type_health'' ''type_fix'' ''type_errors'' ''errors'' ''error_count''
       ''type_errors_present_min_threshold'' ''type_errors_count_increased'' 10 ''logic'' 4 min_errors
       (signal_overlap ''type_hotspot_overlap'' is)) is"

section \<open>CI, coverage and themes\<close>

fun json_len :: "json \<Rightarrow> nat option" where
  "json_len (JList xs) = Some (length xs)"
| "json_len (JStr s) = Some (length s)"
| "json_len (JObj kvs) = Some (length kvs)"
| "json_len _ = None"

definition ci_spec :: "string \<Rightarrow> string \<Rightarrow> string \<Rightarrow> int \<Rightarrow> int \<Rightarrow> event \<Rightarrow> string \<Rightarrow> candidate_spec list option" where
  "ci_spec st rule confidence expires rank e key =
     map_option (\<lambda>n. [mk_spec ''ci_pattern'' ''ci_checks'' (''checks_'' @ st) e (seen_before rule) confidence ''logic'' expires
         (1, rank, ''ci_pattern|'' @ st @ ''|'' @ show_nat n)]) (json_len (ev_get e key (JList [])))"

definition ci_pattern_rule :: decision_rule where
  "ci_pattern_rule = per_insight (\<lambda>i.
     if in_kind i \<noteq> ''ci_pattern'' then Some []
     else if in_status i = ''failing'' then ci_spec ''failing'' ''ci_checks_consistently_failing'' ''high'' 4 4 (in_evidence i) ''failing_checks''
     else if in_status i = ''flaky'' then ci_spec ''flaky'' ''ci_checks_intermittently_failing'' ''medium'' 5 5 (in_evidence i) ''flaky_checks''
     else Some [])"

definition coverage_gap_rule :: "(json \<Rightarrow> string) \<Rightarrow> decision_rule" where
  "coverage_gap_rule T = per_insight (\<lambda>i.
     if in_kind i = ''coverage_gap/low_overall'' then
       Some [mk_spec ''coverage_gap'' ''coverage'' ''low_overall'' (in_evidence i) [''coverage_gap_low_overall''] ''medium'' ''quality'' 5
               (2, 3, ''coverage_gap|low_overall|'' @ json_str T (ev_get (in_evidence i) ''total_coverage_pct'' (JInt 0)))]
     else if in_kind i = ''coverage_gap/uncovered_files'' then
       Some [mk_spec ''coverage_gap'' ''coverage'' ''uncovered_files'' (in_evidence i) [''coverage_gap_uncovered_files''] ''medium'' ''quality'' 5
               (2, 2, ''coverage_gap|uncovered_files|'' @ json_str T (ev_get (in_evidence i) ''uncovered_file_count'' (JInt 0)))]
     else Some [])"

definition cluster_spec :: "(json \<Rightarrow> string) \<Rightarrow> string \<Rightarrow> string \<Rightarrow> event \<Rightarrow> candidate_spec" where
  "cluster_spec T kind risk e =
     (let fpath = json_str T (ev_get e ''file'' (JStr ''unknown''))
      in mk_spec ''lint_cluster'' ''theme'' (kind @ ''_'' @ fpath) e [''theme_'' @ kind @ ''_persistent''] ''high'' risk 2
           (1, 6, kind @ ''|'' @ fpath @ ''|'' @ json_str T (ev_get e ''snapshot_appearances'' (JInt 0))))"

definition lint_cluster_rule :: "(json \<Rightarrow> string) \<Rightarrow> decision_rule" where
  "lint_cluster_rule T = per_insight (\<lambda>i.
     if in_kind i = ''theme/lint_cluster'' then Some [cluster_spec T ''lint_cluster'' ''style'' (in_evidence i)]
     else if in_kind i = ''theme/type_cluster'' then Some [cluster_spec T ''type_cluster'' ''quality'' (in_evidence i)]
     else Some [])"

section \<open>Backlog and architecture items\<close>

definition is_slug_char :: "char \<Rightarrow> bool" where
  "is_slug_char c = (is_digit c \<or> (let n = (of_char c :: nat) in 97 \<le> n \<and> n \<le> 122))"

text \<open>\<open>re.sub(r"[^a-z0-9]+", "_", s)\<close>; \<open>gap\<close> says that the run of other characters has been replaced.\<close>

fun squeeze :: "bool \<Rightarrow> string \<Rightarrow> string" where
  "squeeze gap [] = []"
| "squeeze gap (c # cs) =
     (if is_slug_char c then c # squeeze False cs else if gap then squeeze True cs else CHR ''_'' # squeeze True cs)"

definition strip_underscores :: "string \<Rightarrow> string" where
  "strip_underscores s = rev (dropWhile ((=) (CHR ''_'')) (rev (dropWhile ((=) (CHR ''_'')) s)))"

definition slug :: "string \<Rightarrow> string" where
  "slug title = take 60 (strip_underscores (squeeze False (py_lower title)))"

definition promotion_spec :: "(json \<Rightarrow> string) \<Rightarrow> string \<Rightarrow> string \<Rightarrow> int \<Rightarrow> insight \<Rightarrow> candidate_spec" where
  "promotion_spec T family risk expires i =
     (let title = ev_str T (in_evidence i) ''title'' (in_subject i); repo = ev_str T (in_evidence i) ''repo'' ''''
      in mk_spec family title (slug title) (in_evidence i) [family] ''medium'' risk expires (0, 0, family @ ''|'' @ repo @ ''|'' @ slug title))"

definition backlog_promotion_rule :: "(json \<Rightarrow> string) \<Rightarrow> decision_rule" where
  "backlog_promotion_rule T = per_insight (\<lambda>i.
     if in_kind i \<noteq> ''backlog_item'' then Some [] else Some [promotion_spec T ''backlog_promotion'' ''logic'' 7 i])"

definition arch_promotion_rule :: "(json \<Rightarrow> string) \<Rightarrow> decision_rule" where
  "arch_promotion_rule T = per_insight (\<lambda>i.
     if in_kind i \<noteq> ''arch_backlog_item'' then Some [] else Some [promotion_spec T ''arch_promotion'' ''arch'' 10 i])"

section \<open>The rule set\<close>

type_synonym tuning_config = "string \<Rightarrow> string \<rightharpoonup> json"

definition get_int :: "tuning_config \<Rightarrow> string \<Rightarrow> string \<Rightarrow> int \<Rightarrow> int" where
  "get_int c family key d = (case c family key of Some (JInt n) \<Rightarrow> n | Some (JBool b) \<Rightarrow> (if b then 1 else 0) | _ \<Rightarrow> d)"

definition tuned :: "tuning_config option \<Rightarrow> string \<Rightarrow> string \<Rightarrow> int \<Rightarrow> int" where
  "tuned c family key d = (case c of None \<Rightarrow> d | Some t \<Rightarrow> get_int t family key d)"

definition build_rules :: "(json \<Rightarrow> string) \<Rightarrow> tuning_config option \<Rightarrow> decision_rule list" where
  "build_rules T c =
     [observation_coverage_rule T (tuned c ''observation_coverage'' ''min_consecutive_runs'' 2),
      test_visibility_rule T (tuned c ''test_visibility'' ''min_consecutive_runs'' 3),
      dependency_drift_rule (tuned c ''dependency_drift'' ''min_consecutive_runs'' 2),
      hotspot_concentration_rule 2,
      todo_accumulation_rule,
      execution_health_rule T,
      lint_fix_rule (tuned c ''lint_fix'' ''min_violations'' 5),
      type_improvement_rule (tuned c ''type_fix'' ''min_errors'' 3),
      ci_pattern_rule,
      validation_pattern_rule,
      backlog_promotion_rule T,
      arch_promotion_rule T,
      coverage_gap_rule T,
      lint_cluster_rule T]"

text \<open>\<open>for rule in self.rules: candidate_specs.extend(rule.evaluate(insights))\<close>\<close>

definition evaluate_rules :: "decision_rule list \<Rightarrow> insight list \<Rightarrow> candidate_spec list option" where
  "evaluate_rules rules is = map_option concat (those (map (\<lambda>r. r is) rules))"

section \<open>Families\<close>

lemma per_insight_spec:
  "per_insight f is = Some xs \<Longrightarrow> x \<in> set xs \<Longrightarrow> \<exists>i ys. i \<in> set is \<and> f i = Some ys \<and> x \<in> set ys"
  unfolding per_insight_def
proof (induction "is" arbitrary: xs)
  case (Cons i "is")
  then obtain a b where "f i = Some a" "those (map f is) = Some b" "xs = a @ concat b"
    by (auto split: option.splits)
  then show ?case using Cons by auto
qed simp

text \<open>A rule is tied to its families: every spec it yields belongs to one of them.\<close>

definition yields :: "decision_rule \<Rightarrow> string list \<Rightarrow> bool" where
  "yields r fams \<longleftrightarrow> (\<forall>is xs. r is = Some xs \<longrightarrow> (\<forall>x \<in> set xs. sp_family x \<in> set fams))"

lemma yields_per_insight:
  "(\<And>i ys y. f i = Some ys \<Longrightarrow> y \<in> set ys \<Longrightarrow> sp_family y \<in> set fams) \<Longrightarrow> yields (per_insight f) fams"
  unfolding yields_def using per_insight_spec by metis

lemma yields_fix:
  assumes "\<And>is. r is = per_insight (fix_rule kind family subject noun count_key pr wr high risk expires mn (ov is)) is"
  shows "yields r [family]"
proof -
  have "sp_family y = family" if "fix_rule kind family subject noun count_key pr wr high risk expires mn o1 i = Some ys" "y \<in> set ys" for o1 i ys y
    using that by (auto simp: fix_rule_def Let_def split: if_splits option.splits)
  then show ?thesis unfolding yields_def assms using per_insight_spec by fastforce
qed

lemma rule_families:
  "yields (observation_coverage_rule T n) [''observation_coverage'']"
  "yields (test_visibility_rule T n) [''test_visibility'']"
  "yields (dependency_drift_rule n) [''dependency_drift_followup'']"
  "yields (hotspot_concentration_rule n) [''hotspot_concentration'']"
  "yields todo_accumulation_rule [''todo_accumulation'']"
  "yields (execution_health_rule T) [''execution_health_followup'']"
  "yields (lint_fix_rule n) [''lint_fix'']"
  "yields (type_improvement_rule n) [''type_fix'']"
  "yields ci_pattern_rule [''ci_pattern'']"
  "yields validation_pattern_rule [''validation_pattern_followup'']"
  "yields (backlog_promotion_rule T) [''backlog_promotion'']"
  "yields (arch_promotion_rule T) [''arch_promotion'']"
  "yields (coverage_gap_rule T) [''coverage_gap'']"
  "yields (lint_cluster_rule T) [''lint_cluster'']"
               apply (unfold observation_coverage_rule_def, rule yields_per_insight, fastforce simp: Let_def split: if_splits option.splits)
              apply (unfold test_visibility_rule_def, rule yields_per_insight,
      fastforce simp: test_status_specs_def test_coverage_specs_def Let_def split: if_splits option.splits)
             apply (unfold dependency_drift_rule_def, rule yields_per_insight, fastforce split: if_splits option.splits)
            apply (fastforce simp: yields_def hotspot_concentration_rule_def split: option.splits)
           apply (unfold todo_accumulation_rule_def, rule yields_per_insight, fastforce simp: Let_def split: if_splits option.splits)
          apply (unfold execution_health_rule_def, rule yields_per_insight, fastforce simp: Let_def health_spec_def split: if_splits)
         apply (rule yields_fix, rule lint_fix_rule_def)
        apply (rule yields_fix, rule type_improvement_rule_def)
       apply (unfold ci_pattern_rule_def, rule yields_per_insight, fastforce simp: ci_spec_def split: if_splits)
      apply (unfold validation_pattern_rule_def, rule yields_per_insight, fastforce simp: Let_def split: if_splits option.splits)
     apply (unfold backlog_promotion_rule_def, rule yields_per_insight, fastforce simp: promotion_spec_def Let_def split: if_splits)
    apply (unfold arch_promotion_rule_def, rule yields_per_insight, fastforce simp: promotion_spec_def Let_def split: if_splits)
   apply (unfold coverage_gap_rule_def, rule yields_per_insight, fastforce split: if_splits)
  apply (unfold lint_cluster_rule_def, rule yields_per_insight, fastforce simp: cluster_spec_def Let_def split: if_splits)
  done

definition rule_family_list :: "string list" where
  "rule_family_list = [''observation_coverage'', ''test_visibility'', ''dependency_drift_followup'', ''hotspot_concentration'',
     ''todo_accumulation'', ''execution_health_followup'', ''lint_fix'', ''type_fix'', ''ci_pattern'', ''validation_pattern_followup'',
     ''backlog_promotion'', ''arch_promotion'', ''coverage_gap'', ''lint_cluster'']"

lemma evaluate_rules_family:
  "evaluate_rules rules is = Some xs \<Longrightarrow> \<forall>r \<in> set rules. \<exists>f \<in> set fams. yields r [f] \<Longrightarrow> x \<in> set xs \<Longrightarrow> sp_family x \<in> set fams"
  unfolding evaluate_rules_def
proof (induction rules arbitrary: xs)
  case (Cons r rules)
  then obtain a b where ab: "r is = Some a" "those (map (\<lambda>r. r is) rules) = Some b" "xs = a @ concat b"
    by (auto split: option.splits)
  show ?case
  proof (cases "x \<in> set a")
    case True
    then show ?thesis using Cons.prems(2) ab(1) unfolding yields_def by fastforce
  qed (use Cons ab in auto)
qed simp

lemma built_rule_families:
  "evaluate_rules (build_rules T c) is = Some xs \<Longrightarrow> x \<in> set xs \<Longrightarrow> sp_family x \<in> set rule_family_list"
  by (erule evaluate_rules_family) (auto simp: build_rules_def rule_family_list_def rule_families)

end
