(* ===== verification/Decision.thy ===== *)
theory Decision
  imports Decision_Rules Usage_Decisions "HOL-Library.Multiset"
begin

text \<open>
  The decision engine (\<open>decision/\<close>): from the specs the rules yield to the candidates that are proposed. A spec passes
  family gating, the execution budget, the velocity cap, the staleness check, the chain policy and the decision policy; at
  each stage it goes on or is recorded as suppressed with the reason. The usage store is the one of \<open>Usage_Store\<close>; the JSON
  files of the proposer and of the feedback records are their parsed contents, \<^const>\<open>None\<close> where reading or parsing fails.
\<close>

section \<open>Candidates\<close>

definition FAMILY_PROFILES :: "(string \<times> string) list" where
  "FAMILY_PROFILES =
     [(''lint_fix'', ''ruff_clean''), (''type_fix'', ''ty_clean''), (''test_visibility'', ''tests_pass''),
      (''execution_health_followup'', ''tests_pass''), (''observation_coverage'', ''tests_pass''),
      (''dependency_drift_followup'', ''tests_pass''), (''ci_pattern'', ''ci_green''),
      (''validation_pattern_followup'', ''tests_pass''), (''hotspot_concentration'', ''tests_pass''),
      (''todo_accumulation'', ''tests_pass''), (''backlog_promotion'', ''tests_pass''), (''arch_promotion'', ''manual_review'')]"

definition profile_for_family :: "string \<Rightarrow> string" where
  "profile_for_family family = (case map_of FAMILY_PROFILES family of Some p \<Rightarrow> p | None \<Rightarrow> ''tests_pass'')"

record candidate =
  ca_candidate_id :: string
  ca_dedup_key :: string
  ca_family :: string
  ca_subject :: string
  ca_status :: string
  ca_evidence :: event
  ca_confidence :: string
  ca_risk_class :: string
  ca_expires_after_runs :: int
  ca_validation_profile :: string
  ca_matched_rules :: "string list"

record suppressed_candidate =
  su_dedup_key :: string
  su_family :: string
  su_subject :: string
  su_reason :: string
  su_evidence :: event

definition spec_dedup_key :: "candidate_spec \<Rightarrow> string" where
  "spec_dedup_key s = py_join ''|'' [''candidate'', sp_family s, sp_subject s, sp_pattern_key s]"

definition build_candidate :: "candidate_spec \<Rightarrow> candidate" where
  "build_candidate s =
     \<lparr>ca_candidate_id = py_replace ''|'' '':'' (spec_dedup_key s), ca_dedup_key = spec_dedup_key s, ca_family = sp_family s,
      ca_subject = sp_subject s, ca_status = ''emit'', ca_evidence = sp_evidence s, ca_confidence = sp_confidence s,
      ca_risk_class = sp_risk_class s, ca_expires_after_runs = sp_expires_after_runs s,
      ca_validation_profile = (if sp_validation_profile s \<noteq> [] then sp_validation_profile s else profile_for_family (sp_family s)),
      ca_matched_rules = sp_matched_rules s\<rparr>"

definition suppress :: "candidate_spec \<Rightarrow> string \<Rightarrow> event \<Rightarrow> suppressed_candidate" where
  "suppress s reason evidence =
     (let c = build_candidate s
      in \<lparr>su_dedup_key = ca_dedup_key c, su_family = ca_family c, su_subject = ca_subject c, su_reason = reason,
          su_evidence = evidence\<rparr>)"

record decision_artifact =
  da_run_id :: string
  da_generated_at :: datetime
  da_dry_run :: bool
  da_repo_name :: string
  da_repo_path :: string
  da_source_insight_run_id :: string
  da_candidates :: "candidate list"
  da_suppressed :: "suppressed_candidate list"

lemma build_candidate_fields [simp]:
  "ca_dedup_key (build_candidate s) = spec_dedup_key s" "ca_family (build_candidate s) = sp_family s"
  "ca_subject (build_candidate s) = sp_subject s" "ca_confidence (build_candidate s) = sp_confidence s"
  "ca_status (build_candidate s) = ''emit''"
  by (simp_all add: build_candidate_def)

lemma suppress_fields [simp]: "su_dedup_key (suppress s r e) = spec_dedup_key s" "su_family (suppress s r e) = sp_family s"
  "su_reason (suppress s r e) = r"
  by (simp_all add: suppress_def Let_def)

section \<open>Decision policy\<close>

definition CONFIDENCE_RANK :: "string \<Rightarrow> nat" where
  "CONFIDENCE_RANK c = (case map_of [(''low'', 0), (''medium'', 1), (''high'', 2)] c of Some n \<Rightarrow> n | None \<Rightarrow> 0)"

record decision_policy_config =
  dc_max_candidates :: int
  dc_max_candidates_per_family :: int
  dc_cooldown_minutes :: int
  dc_min_confidence :: string
  dc_max_changed_files :: int

definition td_minutes :: "int \<Rightarrow> timedelta" where
  "td_minutes n = td_seconds (n * 60)"

fun last_emitted_at :: "string \<Rightarrow> decision_artifact list \<Rightarrow> datetime option" where
  "last_emitted_at key [] = None"
| "last_emitted_at key (a # as) =
     (if list_ex (\<lambda>c. ca_dedup_key c = key) (da_candidates a) then Some (da_generated_at a) else last_emitted_at key as)"

record policy_state =
  pst_emitted :: "candidate list"
  pst_suppressed :: "suppressed_candidate list"
  pst_keys :: "string list"
  pst_per_family :: "string \<rightharpoonup> int"

definition family_count :: "policy_state \<Rightarrow> string \<Rightarrow> int" where
  "family_count st f = (case pst_per_family st f of Some n \<Rightarrow> n | None \<Rightarrow> 0)"

text \<open>The reason for which the policy suppresses a spec, in the order of the code; \<^const>\<open>None\<close> to emit it.\<close>

definition policy_reason ::
  "decision_policy_config \<Rightarrow> decision_artifact list \<Rightarrow> datetime \<Rightarrow> policy_state \<Rightarrow> candidate_spec \<Rightarrow> (string \<times> event) option" where
  "policy_reason cfg prior now st s =
     (let c = build_candidate s; last_at = last_emitted_at (ca_dedup_key c) prior
      in if CONFIDENCE_RANK (ca_confidence c) < CONFIDENCE_RANK (dc_min_confidence cfg) then
           Some (''confidence_below_threshold'',
             [(''candidate_confidence'', JStr (ca_confidence c)), (''min_confidence'', JStr (dc_min_confidence cfg))])
         else if (case sp_estimated_affected_files s of Some n \<Rightarrow> dc_max_changed_files cfg < n | None \<Rightarrow> False) then
           Some (''scope_too_broad'',
             [(''estimated_affected_files'', JInt (case sp_estimated_affected_files s of Some n \<Rightarrow> n | None \<Rightarrow> 0)),
              (''max_changed_files'', JInt (dc_max_changed_files cfg))])
         else if ca_dedup_key c \<in> set (pst_keys st) then Some (''duplicate_in_run'', [])
         else if (case last_at of Some t \<Rightarrow> now - td_minutes (dc_cooldown_minutes cfg) \<le> t | None \<Rightarrow> False) then
           Some (''cooldown_active'',
             [(''last_emitted_at'', case last_at of Some t \<Rightarrow> JTime t | None \<Rightarrow> JNull), (''cooldown_minutes'', JInt (dc_cooldown_minutes cfg))])
         else if dc_max_candidates_per_family cfg \<le> family_count st (ca_family c) then
           Some (''family_quota_exceeded'', [(''max_candidates_per_family'', JInt (dc_max_candidates_per_family cfg))])
         else if dc_max_candidates cfg \<le> int (length (pst_emitted st)) then
           Some (''quota_exceeded'', [(''max_candidates'', JInt (dc_max_candidates cfg))])
         else None)"

definition policy_step ::
  "decision_policy_config \<Rightarrow> decision_artifact list \<Rightarrow> datetime \<Rightarrow> candidate_spec \<Rightarrow> policy_state \<Rightarrow> policy_state" where
  "policy_step cfg prior now s st =
     (case policy_reason cfg prior now st s of
        Some (r, e) \<Rightarrow> st\<lparr>pst_suppressed := pst_suppressed st @ [suppress s r e]\<rparr>
      | None \<Rightarrow>
          (let c = build_candidate s
           in st\<lparr>pst_emitted := pst_emitted st @ [c], pst_keys := ca_dedup_key c # pst_keys st,
                 pst_per_family := (pst_per_family st)(ca_family c \<mapsto> family_count st (ca_family c) + 1)\<rparr>))"

definition apply_policy ::
  "decision_policy_config \<Rightarrow> candidate_spec list \<Rightarrow> decision_artifact list \<Rightarrow> datetime \<Rightarrow> candidate list \<times> suppressed_candidate list" where
  "apply_policy cfg specs prior now =
     (let st = fold (policy_step cfg prior now) (sort_key sp_priority specs)
                 \<lparr>pst_emitted = [], pst_suppressed = [], pst_keys = [], pst_per_family = Map.empty\<rparr>
      in (pst_emitted st, pst_suppressed st))"

section \<open>Chain policy\<close>

definition FAMILY_PREREQUISITES :: "(string \<times> string list) list" where
  "FAMILY_PREREQUISITES = [(''type_fix'', [''lint_fix'']), (''execution_health_followup'', [''test_visibility''])]"

definition recently_emitted_families :: "int \<Rightarrow> decision_artifact list \<Rightarrow> datetime \<Rightarrow> string list" where
  "recently_emitted_families cooldown_minutes prior now =
     concat (map (\<lambda>a. map ca_family (filter (\<lambda>c. ca_status c = ''emit'') (da_candidates a)))
       (filter (\<lambda>a. now - td_minutes cooldown_minutes \<le> da_generated_at a) prior))"

fun blocking_upstream :: "string list \<Rightarrow> string list \<Rightarrow> string list \<Rightarrow> (string \<times> string) option" where
  "blocking_upstream in_cycle recent [] = None"
| "blocking_upstream in_cycle recent (u # us) =
     (if u \<in> set in_cycle then Some (u, ''upstream_family_in_cycle'')
      else if u \<in> set recent then Some (u, ''upstream_family_recently_emitted'')
      else blocking_upstream in_cycle recent us)"

definition chain_block :: "string list \<Rightarrow> string list \<Rightarrow> candidate_spec \<Rightarrow> (string \<times> string) option" where
  "chain_block in_cycle recent s =
     blocking_upstream in_cycle recent (case map_of FAMILY_PREREQUISITES (sp_family s) of Some us \<Rightarrow> us | None \<Rightarrow> [])"

definition apply_chain ::
  "int \<Rightarrow> candidate_spec list \<Rightarrow> decision_artifact list \<Rightarrow> datetime \<Rightarrow> candidate_spec list \<times> suppressed_candidate list" where
  "apply_chain cooldown_minutes specs prior now =
     (let in_cycle = map sp_family specs; recent = recently_emitted_families cooldown_minutes prior now
      in (filter (\<lambda>s. chain_block in_cycle recent s = None) specs,
          concat (map (\<lambda>s. case chain_block in_cycle recent s of None \<Rightarrow> []
             | Some (up, r) \<Rightarrow> [suppress s r [(''upstream_family'', JStr up), (''downstream_family'', JStr (sp_family s))]]) specs)))"

section \<open>Loading\<close>

record insights_artifact =
  ia_run_id :: string
  ia_generated_at :: datetime
  ia_repo_name :: string
  ia_repo_path :: string
  ia_insights :: "insight list"

text \<open>\<open>xs[:n]\<close>.\<close>

definition slice_to :: "int \<Rightarrow> 'a list \<Rightarrow> 'a list" where
  "slice_to n xs = (if 0 \<le> n then take (nat n) xs else take (length xs - nat (- n)) xs)"

definition normalized :: "string \<Rightarrow> string" where
  "normalized s = py_lower (py_strip s)"

datatype load_error = InsightRunNotFound string | NoInsights

definition load_decision_inputs ::
  "insights_artifact list \<Rightarrow> decision_artifact list \<Rightarrow> string option \<Rightarrow> string option \<Rightarrow> int
   \<Rightarrow> load_error + insights_artifact \<times> decision_artifact list" where
  "load_decision_inputs insights decisions repo insight_run_id history_limit =
     (let all = newest_first ia_generated_at insights;
          mine = (if truthy_str repo then
                    filter (\<lambda>a. normalized (ia_repo_name a) = normalized (or_empty repo)
                                 \<or> normalized (ia_repo_path a) = normalized (or_empty repo)) all
                  else all);
          prior = (\<lambda>cur. slice_to history_limit
                     (filter (\<lambda>a. da_repo_path a = ia_repo_path cur \<and> da_source_insight_run_id a \<noteq> ia_run_id cur)
                        (newest_first da_generated_at decisions)))
      in if truthy_str insight_run_id then
           (case filter (\<lambda>a. ia_run_id a = or_empty insight_run_id) mine of
              [] \<Rightarrow> Inl (InsightRunNotFound (or_empty insight_run_id))
            | cur # _ \<Rightarrow> Inr (cur, prior cur))
         else (case mine of [] \<Rightarrow> Inl NoInsights | cur # _ \<Rightarrow> Inr (cur, prior cur)))"

section \<open>Velocity and staleness\<close>

text \<open>The contents of the proposer's result files; \<open>data.get\<close> on anything but an object raises.\<close>

definition counted_proposals :: "datetime \<Rightarrow> event \<Rightarrow> nat" where
  "counted_proposals cutoff d =
     (if truthy (map_of d ''dry_run'') then 0
      else case iso (map_of d ''generated_at'') of
        None \<Rightarrow> 0
      | Some t \<Rightarrow> (if t < cutoff then 0 else case map_of d ''created'' of Some (JList xs) \<Rightarrow> length xs | _ \<Rightarrow> 0))"

fun count_proposals_last_24h :: "datetime \<Rightarrow> json option list \<Rightarrow> nat option" where
  "count_proposals_last_24h now [] = Some 0"
| "count_proposals_last_24h now (None # fs) = count_proposals_last_24h now fs"
| "count_proposals_last_24h now (Some (JObj d) # fs) =
     map_option ((+) (counted_proposals (now - td_hours 24) d)) (count_proposals_last_24h now fs)"
| "count_proposals_last_24h now (Some _ # fs) = None"

text \<open>The first occurrence of each key in the prior decisions, with its time and lifetime.\<close>

fun proposed_keys :: "(string \<times> datetime \<times> int) list \<Rightarrow> (string \<times> datetime \<times> int) list \<Rightarrow> (string \<times> datetime \<times> int) list" where
  "proposed_keys [] acc = acc"
| "proposed_keys ((k, v) # xs) acc = proposed_keys xs (if map_of acc k = None then acc @ [(k, v)] else acc)"

definition all_proposed :: "decision_artifact list \<Rightarrow> (string \<times> datetime \<times> int) list" where
  "all_proposed prior =
     concat (map (\<lambda>a. map (\<lambda>c. (ca_dedup_key c, da_generated_at a, ca_expires_after_runs c)) (da_candidates a)) prior)"

definition issue_of_item :: "(json \<Rightarrow> string) \<Rightarrow> json \<Rightarrow> (string \<times> string) list" where
  "issue_of_item T v =
     (case v of
        JObj item \<Rightarrow>
          (let dk = ev_str T item ''dedup_key'' ''''; issue_id = ev_str T item ''plane_issue_id'' ''''
           in if dk \<noteq> [] \<and> issue_id \<noteq> [] then [(dk, issue_id)] else [])
      | _ \<Rightarrow> [])"

fun issue_pairs :: "(json \<Rightarrow> string) \<Rightarrow> json option list \<Rightarrow> (string \<times> string) list option" where
  "issue_pairs T [] = Some []"
| "issue_pairs T (None # fs) = issue_pairs T fs"
| "issue_pairs T (Some (JObj d) # fs) =
     map_option ((@) (case map_of d ''created'' of Some (JList xs) \<Rightarrow> concat (map (issue_of_item T) xs) | _ \<Rightarrow> [])) (issue_pairs T fs)"
| "issue_pairs T (Some _ # fs) = None"

fun resolved_issue_ids :: "(json \<Rightarrow> string) \<Rightarrow> json option list \<Rightarrow> string list option" where
  "resolved_issue_ids T [] = Some []"
| "resolved_issue_ids T (None # fs) = resolved_issue_ids T fs"
| "resolved_issue_ids T (Some (JObj d) # fs) =
     (let task_id = ev_str T d ''task_id'' ''''; outcome = ev_str T d ''outcome'' ''''
      in map_option ((@) (if task_id \<noteq> [] \<and> outcome \<in> {''merged'', ''escalated''} then [task_id] else [])) (resolved_issue_ids T fs))"
| "resolved_issue_ids T (Some _ # fs) = None"

definition stale_open_dedup_keys ::
  "(json \<Rightarrow> string) \<Rightarrow> datetime \<Rightarrow> decision_artifact list \<Rightarrow> json option list \<Rightarrow> json option list \<Rightarrow> string list option" where
  "stale_open_dedup_keys T now prior proposer_files feedback_files =
     (let proposed = proposed_keys (all_proposed prior) []
      in if proposed = [] then Some []
         else case issue_pairs T proposer_files of
           None \<Rightarrow> None
         | Some pairs \<Rightarrow>
             (case resolved_issue_ids T feedback_files of
                None \<Rightarrow> None
              | Some resolved \<Rightarrow>
                  Some (map fst (filter (\<lambda>(k, t, n). \<not> now \<le> t + td_days (n * 2)
                     \<and> (case map_of (rev pairs) k of None \<Rightarrow> False | Some issue \<Rightarrow> issue \<notin> set resolved)) proposed))))"

section \<open>The service\<close>

definition DEFAULT_ALLOWED_FAMILIES :: "string list" where
  "DEFAULT_ALLOWED_FAMILIES = [''observation_coverage'', ''test_visibility'', ''dependency_drift'', ''execution_health_followup'',
     ''lint_fix'', ''type_fix'', ''validation_pattern_followup'']"

definition ALL_FAMILIES :: "string list" where
  "ALL_FAMILIES = DEFAULT_ALLOWED_FAMILIES @ [''ci_pattern'', ''hotspot_concentration'', ''todo_accumulation'', ''backlog_promotion'',
     ''arch_promotion'', ''coverage_gap'', ''lint_cluster'']"

record decision_context =
  dx_run_id :: string
  dx_generated_at :: datetime
  dx_dry_run :: bool
  dx_max_candidates :: int
  dx_cooldown_minutes :: int
  dx_allowed_families :: "string list"
  dx_max_proposals_per_24h :: int
  dx_max_changed_files :: int

record decision_env =
  de_text :: "json \<Rightarrow> string"
  de_settings :: exec_settings
  de_min_remaining :: int
  de_free_mb :: "rat option"
  de_proposer_files :: "json option list"
  de_feedback_files :: "json option list"

datatype decide_error = RuleRaised | UsageStoreError os_error | MalformedHistory

text \<open>The stages before the chain policy, as pairs of the surviving specs and the suppressed records.\<close>

definition gate_families :: "string list \<Rightarrow> candidate_spec list \<Rightarrow> candidate_spec list \<times> suppressed_candidate list" where
  "gate_families fams specs =
     (filter (\<lambda>s. sp_family s \<in> set fams) specs,
      map (\<lambda>s. suppress s ''family_deferred_initial_gating'' [(''allowed_families'', JList (map JStr (sort (remdups fams))))])
        (filter (\<lambda>s. sp_family s \<notin> set fams) specs))"

definition suppress_all :: "string \<Rightarrow> event \<Rightarrow> candidate_spec list \<Rightarrow> candidate_spec list \<times> suppressed_candidate list" where
  "suppress_all reason e specs = ([], map (\<lambda>s. suppress s reason e) specs)"

definition gate_stale :: "string list \<Rightarrow> candidate_spec list \<Rightarrow> candidate_spec list \<times> suppressed_candidate list" where
  "gate_stale stale specs =
     (filter (\<lambda>s. spec_dedup_key s \<notin> set stale) specs,
      map (\<lambda>s. suppress s ''proposal_stale_open'' [(''stale_dedup_key'', JStr (spec_dedup_key s))])
        (filter (\<lambda>s. spec_dedup_key s \<in> set stale) specs))"

definition gate_budget :: "int \<Rightarrow> int \<Rightarrow> candidate_spec list \<Rightarrow> candidate_spec list \<times> suppressed_candidate list" where
  "gate_budget remaining min_remaining specs =
     (if remaining < min_remaining then
        suppress_all ''proposal_budget_too_low''
          [(''remaining_exec_capacity'', JInt remaining), (''min_required'', JInt min_remaining)] specs
      else (specs, []))"

definition gate_velocity :: "int \<Rightarrow> nat \<Rightarrow> candidate_spec list \<Rightarrow> candidate_spec list \<times> suppressed_candidate list" where
  "gate_velocity cap recent specs =
     (if cap \<le> int recent then
        suppress_all ''velocity_cap_reached''
          [(''proposals_last_24h'', JInt (int recent)), (''max_proposals_per_24h'', JInt cap)] specs
      else (specs, []))"

definition decision_config :: "decision_context \<Rightarrow> decision_policy_config" where
  "decision_config x =
     \<lparr>dc_max_candidates = dx_max_candidates x, dc_max_candidates_per_family = 1, dc_cooldown_minutes = dx_cooldown_minutes x,
      dc_min_confidence = ''low'', dc_max_changed_files = dx_max_changed_files x\<rparr>"

definition decide_specs ::
  "decision_context \<Rightarrow> decision_artifact list \<Rightarrow> int \<Rightarrow> int \<Rightarrow> nat \<Rightarrow> string list \<Rightarrow> candidate_spec list
   \<Rightarrow> candidate list \<times> suppressed_candidate list" where
  "decide_specs x prior remaining min_remaining recent stale specs =
     (let (l1, s1) = gate_families (dx_allowed_families x) specs;
          (l2, s2) = gate_budget remaining min_remaining l1;
          (l3, s3) = gate_velocity (dx_max_proposals_per_24h x) recent l2;
          (l4, s4) = (if stale \<noteq> [] then gate_stale stale l3 else (l3, []));
          (l5, s5) = apply_chain (dx_cooldown_minutes x) l4 prior (dx_generated_at x);
          (em, s6) = apply_policy (decision_config x) l5 prior (dx_generated_at x)
      in (em, s1 @ s2 @ s3 @ s4 @ s5 @ s6))"

definition decide_candidates ::
  "decision_env \<Rightarrow> decision_context \<Rightarrow> decision_rule list \<Rightarrow> insights_artifact \<Rightarrow> decision_artifact list \<Rightarrow> usage_file
   \<Rightarrow> usage_file \<times> (decide_error + decision_artifact)" where
  "decide_candidates env x rules current prior usage =
     (case evaluate_rules rules (ia_insights current) of
        None \<Rightarrow> (usage, Inl RuleRaised)
      | Some specs \<Rightarrow>
          (let now = dx_generated_at x;
               remaining = remaining_exec_capacity (de_settings env) usage now; need = de_min_remaining env;
               w = (if remaining < need then
                      record_proposal_budget_suppression (de_free_mb env) usage ''proposal_budget_too_low'' now
                        [(''remaining_exec_capacity'', JInt remaining), (''min_required'', JInt need)]
                    else Inr usage)
           in case w of
                Inl e \<Rightarrow> (usage, Inl (UsageStoreError e))
              | Inr usage' \<Rightarrow>
                  (case (count_proposals_last_24h now (de_proposer_files env),
                         stale_open_dedup_keys (de_text env) now prior (de_proposer_files env) (de_feedback_files env)) of
                     (Some recent, Some stale) \<Rightarrow>
                       (let (em, supp) = decide_specs x prior remaining need recent stale specs
                        in (usage', Inr \<lparr>da_run_id = dx_run_id x, da_generated_at = now, da_dry_run = dx_dry_run x,
                              da_repo_name = ia_repo_name current, da_repo_path = ia_repo_path current,
                              da_source_insight_run_id = ia_run_id current, da_candidates = em, da_suppressed = supp\<rparr>))
                   | _ \<Rightarrow> (usage', Inl MalformedHistory))))"

section \<open>Laws of the stages\<close>

text \<open>What every stage promises: it only passes specs on, and each spec goes on or is recorded, exactly once.\<close>

locale gating_stage =
  fixes stage :: "candidate_spec list \<Rightarrow> candidate_spec list \<times> suppressed_candidate list"
  assumes subset: "set (fst (stage specs)) \<subseteq> set specs"
    and accounts: "mset (map spec_dedup_key (fst (stage specs))) + mset (map su_dedup_key (snd (stage specs)))
      = mset (map spec_dedup_key specs)"
begin

lemma length_accounts: "length (fst (stage specs)) + length (snd (stage specs)) = length specs"
  using arg_cong [OF accounts [of specs], of size] by simp

lemma nothing_lost: "x \<in> set specs \<Longrightarrow> spec_dedup_key x \<in> spec_dedup_key ` set (fst (stage specs)) \<union> su_dedup_key ` set (snd (stage specs))"
  using arg_cong [OF accounts [of specs], of set_mset] by auto

end

lemma mset_filter_split: "mset (map f (filter P xs)) + mset (map f (filter (\<lambda>x. \<not> P x) xs)) = mset (map f xs)"
  by (induction xs) auto

lemmas image_filter_split = mset_filter_split [unfolded mset_map mset_filter]

interpretation families: gating_stage "gate_families fams" for fams
  by unfold_locales
    (auto simp: gate_families_def comp_def image_filter_split [of spec_dedup_key "\<lambda>s. sp_family s \<in> set fams"])

interpretation all_suppressed: gating_stage "suppress_all reason e" for reason e
  by unfold_locales (auto simp: suppress_all_def comp_def)

interpretation stale: gating_stage "gate_stale keys" for keys
  by unfold_locales (auto simp: gate_stale_def comp_def
      mset_filter_split [of spec_dedup_key "\<lambda>s. spec_dedup_key s \<notin> set keys", simplified])

interpretation budget: gating_stage "gate_budget remaining need" for remaining need
  by unfold_locales (use all_suppressed.accounts all_suppressed.subset in \<open>simp_all add: gate_budget_def\<close>)

interpretation velocity: gating_stage "gate_velocity cap recent" for cap recent
  by unfold_locales (use all_suppressed.accounts all_suppressed.subset in \<open>simp_all add: gate_velocity_def\<close>)

interpretation staleness: gating_stage "\<lambda>specs. if keys \<noteq> [] then gate_stale keys specs else (specs, [])" for keys
  by unfold_locales (use stale.accounts stale.subset in simp_all)

lemma chain_accounts:
  "mset (map spec_dedup_key (filter (\<lambda>s. chain_block ic rc s = None) xs))
   + mset (map su_dedup_key (concat (map (\<lambda>s. case chain_block ic rc s of None \<Rightarrow> []
       | Some (up, r) \<Rightarrow> [suppress s r [(''upstream_family'', JStr up), (''downstream_family'', JStr (sp_family s))]]) xs)))
   = mset (map spec_dedup_key xs)"
  by (induction xs) (auto split: option.split)

interpretation chain: gating_stage "\<lambda>specs. apply_chain m specs prior now" for m prior now
  by unfold_locales (auto simp: apply_chain_def Let_def chain_accounts [unfolded mset_map mset_filter])

definition policy_inv :: "decision_policy_config \<Rightarrow> decision_artifact list \<Rightarrow> datetime \<Rightarrow> policy_state \<Rightarrow> bool" where
  "policy_inv cfg prior now st \<longleftrightarrow>
     (pst_emitted st = [] \<or> int (length (pst_emitted st)) \<le> dc_max_candidates cfg)
     \<and> pst_keys st = rev (map ca_dedup_key (pst_emitted st)) \<and> distinct (pst_keys st)
     \<and> (\<forall>f. family_count st f = int (length (filter (\<lambda>c. ca_family c = f) (pst_emitted st))))
     \<and> (\<forall>f. int (length (filter (\<lambda>c. ca_family c = f) (pst_emitted st))) \<le> max 0 (dc_max_candidates_per_family cfg))
     \<and> (\<forall>c \<in> set (pst_emitted st). (case last_emitted_at (ca_dedup_key c) prior of
           Some t \<Rightarrow> t < now - td_minutes (dc_cooldown_minutes cfg) | None \<Rightarrow> True)
         \<and> CONFIDENCE_RANK (dc_min_confidence cfg) \<le> CONFIDENCE_RANK (ca_confidence c))"

lemma policy_reason_None:
  assumes "policy_reason cfg prior now st s = None"
  shows "spec_dedup_key s \<notin> set (pst_keys st)" "int (length (pst_emitted st)) < dc_max_candidates cfg"
    "family_count st (sp_family s) < dc_max_candidates_per_family cfg"
    "case last_emitted_at (spec_dedup_key s) prior of Some t \<Rightarrow> t < now - td_minutes (dc_cooldown_minutes cfg) | None \<Rightarrow> True"
    "CONFIDENCE_RANK (dc_min_confidence cfg) \<le> CONFIDENCE_RANK (sp_confidence s)"
    "case sp_estimated_affected_files s of Some n \<Rightarrow> n \<le> dc_max_changed_files cfg | None \<Rightarrow> True"
  using assms by (auto simp: policy_reason_def Let_def split: if_splits option.splits)

lemma policy_step_inv:
  assumes "policy_inv cfg prior now st"
  shows "policy_inv cfg prior now (policy_step cfg prior now s st)"
proof (cases "policy_reason cfg prior now st s")
  case (Some x)
  then show ?thesis using assms by (cases x) (auto simp: policy_step_def policy_inv_def family_count_def)
next
  case None
  note n = policy_reason_None [OF None]
  show ?thesis
    using assms n
    by (auto simp: policy_step_def None policy_inv_def Let_def family_count_def split: option.splits)
qed

lemma policy_fold_inv: "policy_inv cfg prior now st \<Longrightarrow> policy_inv cfg prior now (fold (policy_step cfg prior now) ss st)"
  by (induction ss arbitrary: st) (simp_all add: policy_step_inv)

lemma policy_fold_accounts:
  "mset (map ca_dedup_key (pst_emitted (fold (policy_step cfg prior now) ss st)))
   + mset (map su_dedup_key (pst_suppressed (fold (policy_step cfg prior now) ss st)))
   = mset (map ca_dedup_key (pst_emitted st)) + mset (map su_dedup_key (pst_suppressed st)) + mset (map spec_dedup_key ss)"
proof (induction ss arbitrary: st)
  case (Cons s ss)
  have "mset (map ca_dedup_key (pst_emitted (policy_step cfg prior now s st)))
      + mset (map su_dedup_key (pst_suppressed (policy_step cfg prior now s st)))
      = add_mset (spec_dedup_key s) (mset (map ca_dedup_key (pst_emitted st)) + mset (map su_dedup_key (pst_suppressed st)))"
    by (simp add: policy_step_def Let_def split: option.split)
  then show ?case using Cons.IH [of "policy_step cfg prior now s st"] by simp
qed simp

lemma policy_fold_mem:
  "c \<in> set (pst_emitted (fold (policy_step cfg prior now) ss st)) \<Longrightarrow>
     c \<in> set (pst_emitted st) \<or> (\<exists>s \<in> set ss. c = build_candidate s
       \<and> (case sp_estimated_affected_files s of Some n \<Rightarrow> n \<le> dc_max_changed_files cfg | None \<Rightarrow> True))"
proof (induction ss arbitrary: st)
  case (Cons s ss)
  then consider "c \<in> set (pst_emitted (policy_step cfg prior now s st))"
    | "\<exists>s \<in> set ss. c = build_candidate s
       \<and> (case sp_estimated_affected_files s of Some n \<Rightarrow> n \<le> dc_max_changed_files cfg | None \<Rightarrow> True)"
    by auto
  then show ?case
  proof cases
    case 1
    then show ?thesis
      using policy_reason_None(6) [of cfg prior now st s]
      by (auto simp: policy_step_def Let_def split: option.splits)
  qed auto
qed simp

lemma apply_policy_facts:
  assumes "apply_policy cfg specs prior now = (em, supp)"
  shows "em = [] \<or> int (length em) \<le> dc_max_candidates cfg" "distinct (map ca_dedup_key em)"
    "int (length (filter (\<lambda>c. ca_family c = f) em)) \<le> max 0 (dc_max_candidates_per_family cfg)"
    "c \<in> set em \<Longrightarrow> case last_emitted_at (ca_dedup_key c) prior of Some t \<Rightarrow> t < now - td_minutes (dc_cooldown_minutes cfg) | None \<Rightarrow> True"
    "c \<in> set em \<Longrightarrow> \<exists>s \<in> set specs. c = build_candidate s
       \<and> (case sp_estimated_affected_files s of Some n \<Rightarrow> n \<le> dc_max_changed_files cfg | None \<Rightarrow> True)"
    "mset (map ca_dedup_key em) + mset (map su_dedup_key supp) = mset (map spec_dedup_key specs)"
proof -
  let ?st0 = "\<lparr>pst_emitted = [], pst_suppressed = [], pst_keys = [], pst_per_family = Map.empty\<rparr>"
  define st where "st = fold (policy_step cfg prior now) (sort_key sp_priority specs) ?st0"
  have e: "em = pst_emitted st" "supp = pst_suppressed st" using assms by (simp_all add: apply_policy_def Let_def st_def)
  have "policy_inv cfg prior now ?st0" by (simp add: policy_inv_def family_count_def)
  then have i: "policy_inv cfg prior now st" unfolding st_def by (rule policy_fold_inv)
  show "em = [] \<or> int (length em) \<le> dc_max_candidates cfg" "distinct (map ca_dedup_key em)"
    "int (length (filter (\<lambda>c. ca_family c = f) em)) \<le> max 0 (dc_max_candidates_per_family cfg)"
    "c \<in> set em \<Longrightarrow> case last_emitted_at (ca_dedup_key c) prior of Some t \<Rightarrow> t < now - td_minutes (dc_cooldown_minutes cfg) | None \<Rightarrow> True"
    using i unfolding policy_inv_def e by (elim conjE; simp)+
  show "c \<in> set em \<Longrightarrow> \<exists>s \<in> set specs. c = build_candidate s
       \<and> (case sp_estimated_affected_files s of Some n \<Rightarrow> n \<le> dc_max_changed_files cfg | None \<Rightarrow> True)"
    using policy_fold_mem [of c cfg prior now "sort_key sp_priority specs" ?st0] by (simp add: e st_def)
  have "mset (map spec_dedup_key (sort_key sp_priority specs)) = mset (map spec_dedup_key specs)" by simp
  then show "mset (map ca_dedup_key em) + mset (map su_dedup_key supp) = mset (map spec_dedup_key specs)"
    using policy_fold_accounts [of cfg prior now "sort_key sp_priority specs" ?st0] by (simp add: e st_def)
qed

text \<open>With the newest decision first, as the loader orders them, the entry found is the latest one of the key.\<close>

lemma last_emitted_at_latest:
  assumes "sorted_wrt (\<lambda>a b. da_generated_at b \<le> da_generated_at a) prior" "a \<in> set prior" "c \<in> set (da_candidates a)"
  shows "\<exists>t. last_emitted_at (ca_dedup_key c) prior = Some t \<and> da_generated_at a \<le> t"
  using assms by (induction prior) (auto simp: list_ex_iff)

lemma loaded_newest_first:
  assumes "load_decision_inputs insights decisions repo run n = Inr (cur, prior)"
  shows "sorted_wrt (\<lambda>a b. da_generated_at b \<le> da_generated_at a) prior"
proof -
  have "sorted_wrt (\<lambda>a b. da_generated_at b \<le> da_generated_at a) (newest_first da_generated_at decisions)"
    using sorted_sort_key [of "\<lambda>a. - da_generated_at a" decisions] by (simp add: newest_first_def sorted_map)
  then have "sorted_wrt (\<lambda>a b. da_generated_at b \<le> da_generated_at a) (slice_to n (filter P (newest_first da_generated_at decisions)))" for P
    by (simp add: slice_to_def sorted_wrt_take sorted_wrt_filter)
  then show ?thesis using assms by (auto simp: load_decision_inputs_def Let_def split: if_splits list.splits)
qed

lemma distinct_by_count: "(\<And>g. length (filter (\<lambda>c. f c = g) xs) \<le> 1) \<Longrightarrow> distinct (map f xs)"
proof (induction xs)
  case (Cons x xs)
  have "length (filter (\<lambda>c. f c = g) xs) \<le> 1" for g
    using Cons.prems [of g] by (auto split: if_splits)
  moreover have "filter (\<lambda>c. f c = f x) xs = []" using Cons.prems [of "f x"] by simp
  ultimately show ?case using Cons.IH by (auto simp: filter_empty_conv)
qed simp

section \<open>The composed engine\<close>

text \<open>The survivors of the five gates, on which the policy decides.\<close>

definition surviving :: "decision_context \<Rightarrow> decision_artifact list \<Rightarrow> int \<Rightarrow> int \<Rightarrow> nat \<Rightarrow> string list \<Rightarrow> candidate_spec list \<Rightarrow> candidate_spec list" where
  "surviving x prior remaining need recent stale specs =
     (let l3 = fst (gate_velocity (dx_max_proposals_per_24h x) recent
            (fst (gate_budget remaining need (fst (gate_families (dx_allowed_families x) specs)))));
          l4 = fst (if stale \<noteq> [] then gate_stale stale l3 else (l3, []))
      in fst (apply_chain (dx_cooldown_minutes x) l4 prior (dx_generated_at x)))"

lemma decide_specs_policy:
  "fst (decide_specs x prior remaining need recent stale specs) =
     fst (apply_policy (decision_config x) (surviving x prior remaining need recent stale specs) prior (dx_generated_at x))"
  by (simp add: decide_specs_def surviving_def Let_def case_prod_beta)

lemma decide_specs_accounts:
  "mset (map ca_dedup_key (fst (decide_specs x prior remaining need recent stale specs)))
   + mset (map su_dedup_key (snd (decide_specs x prior remaining need recent stale specs))) = mset (map spec_dedup_key specs)"
proof -
  let ?p1 = "gate_families (dx_allowed_families x) specs"
  let ?p2 = "gate_budget remaining need (fst ?p1)"
  let ?p3 = "gate_velocity (dx_max_proposals_per_24h x) recent (fst ?p2)"
  let ?p4 = "if stale \<noteq> [] then gate_stale stale (fst ?p3) else (fst ?p3, [])"
  let ?p5 = "apply_chain (dx_cooldown_minutes x) (fst ?p4) prior (dx_generated_at x)"
  let ?p6 = "apply_policy (decision_config x) (fst ?p5) prior (dx_generated_at x)"
  have e: "decide_specs x prior remaining need recent stale specs =
      (fst ?p6, snd ?p1 @ snd ?p2 @ snd ?p3 @ snd ?p4 @ snd ?p5 @ snd ?p6)"
    unfolding decide_specs_def Let_def case_prod_beta ..
  note a = families.accounts [of "dx_allowed_families x" specs] budget.accounts [of remaining need "fst ?p1"]
    velocity.accounts [of "dx_max_proposals_per_24h x" recent "fst ?p2"] staleness.accounts [of stale "fst ?p3"]
    chain.accounts [of "dx_cooldown_minutes x" "fst ?p4" prior "dx_generated_at x"]
    apply_policy_facts(6) [OF prod.collapse [symmetric], of "decision_config x" "fst ?p5" prior "dx_generated_at x"]
  show ?thesis unfolding e fst_conv snd_conv map_append mset_append
    unfolding a [symmetric] by (simp only: ac_simps)
qed

lemma apply_chain_facts:
  assumes "s \<in> set (fst (apply_chain m xs prior now))"
  shows "s \<in> set xs" "sp_family s = ''type_fix'' \<Longrightarrow> \<forall>r \<in> set xs. sp_family r \<noteq> ''lint_fix''"
    "sp_family s = ''execution_health_followup'' \<Longrightarrow> \<forall>r \<in> set xs. sp_family r \<noteq> ''test_visibility''"
  using assms by (force simp: apply_chain_def Let_def chain_block_def FAMILY_PREREQUISITES_def split: if_splits)+

lemma surviving_facts:
  fixes x prior remaining need recent stale specs
  assumes s: "s \<in> set (surviving x prior remaining need recent stale specs)"
  shows "s \<in> set specs" "sp_family s \<in> set (dx_allowed_families x)" "need \<le> remaining"
    "int recent < dx_max_proposals_per_24h x" "spec_dedup_key s \<notin> set stale"
    "sp_family s = ''type_fix'' \<Longrightarrow> \<forall>r \<in> set (surviving x prior remaining need recent stale specs). sp_family r \<noteq> ''lint_fix''"
    "sp_family s = ''execution_health_followup'' \<Longrightarrow>
       \<forall>r \<in> set (surviving x prior remaining need recent stale specs). sp_family r \<noteq> ''test_visibility''"
proof -
  let ?l3 = "fst (gate_velocity (dx_max_proposals_per_24h x) recent
      (fst (gate_budget remaining need (fst (gate_families (dx_allowed_families x) specs)))))"
  let ?l4 = "fst (if stale \<noteq> [] then gate_stale stale ?l3 else (?l3, []))"
  note sv = s [unfolded surviving_def Let_def]
  have s4: "s \<in> set ?l4" using apply_chain_facts(1) [OF sv] .
  then have s3: "s \<in> set ?l3" "spec_dedup_key s \<notin> set stale" by (auto simp: gate_stale_def split: if_splits)
  then show "spec_dedup_key s \<notin> set stale" by simp
  show "s \<in> set specs" "sp_family s \<in> set (dx_allowed_families x)" "need \<le> remaining" "int recent < dx_max_proposals_per_24h x"
    using s3(1) by (auto simp: gate_families_def gate_budget_def gate_velocity_def suppress_all_def split: if_splits)
  show "\<forall>r \<in> set (surviving x prior remaining need recent stale specs). sp_family r \<noteq> ''lint_fix''" if "sp_family s = ''type_fix''"
    using apply_chain_facts(2) [OF sv that] apply_chain_facts(1) unfolding surviving_def Let_def by blast
  show "\<forall>r \<in> set (surviving x prior remaining need recent stale specs). sp_family r \<noteq> ''test_visibility''"
    if "sp_family s = ''execution_health_followup''"
    using apply_chain_facts(3) [OF sv that] apply_chain_facts(1) unfolding surviving_def Let_def by blast
qed

lemma decided:
  assumes "decide_candidates env x rules current prior usage = (usage', Inr a)"
  obtains specs recent stale where "evaluate_rules rules (ia_insights current) = Some specs"
    "count_proposals_last_24h (dx_generated_at x) (de_proposer_files env) = Some recent"
    "stale_open_dedup_keys (de_text env) (dx_generated_at x) prior (de_proposer_files env) (de_feedback_files env) = Some stale"
    "(da_candidates a, da_suppressed a) = decide_specs x prior (remaining_exec_capacity (de_settings env) usage (dx_generated_at x))
       (de_min_remaining env) recent stale specs"
    "da_generated_at a = dx_generated_at x"
  using assms
  by (auto simp: decide_candidates_def Let_def split: option.splits sum.splits prod.splits intro: that)

section \<open>Properties\<close>

text \<open>
  C17: what one decision may propose, whatever the rules yield: at most the configured number of candidates, no two of one
  family or with one key, only allowed families, no key within the cooldown of any earlier decision in the history, no
  key of a stale open proposal, no change beyond the file limit, no type fix beside a lint fix; and nothing at all when the
  execution budget is short or the daily cap is reached.
\<close>

theorem decision_within_limits:
  assumes "load_decision_inputs insights decisions repo run n = Inr (current, prior)"
    and "decide_candidates env x rules current prior usage = (usage', Inr a)"
  shows "(da_candidates a = [] \<or> int (length (da_candidates a)) \<le> dx_max_candidates x)
    \<and> distinct (map ca_dedup_key (da_candidates a)) \<and> distinct (map ca_family (da_candidates a))
    \<and> (\<forall>c \<in> set (da_candidates a). ca_family c \<in> set (dx_allowed_families x)
         \<and> (\<forall>p \<in> set prior. ca_dedup_key c \<in> ca_dedup_key ` set (da_candidates p) \<longrightarrow>
              da_generated_at p < dx_generated_at x - td_minutes (dx_cooldown_minutes x))
         \<and> (ca_family c = ''type_fix'' \<longrightarrow> (\<forall>d \<in> set (da_candidates a). ca_family d \<noteq> ''lint_fix'')))
    \<and> (remaining_exec_capacity (de_settings env) usage (dx_generated_at x) < de_min_remaining env \<longrightarrow> da_candidates a = [])
    \<and> (\<forall>k. count_proposals_last_24h (dx_generated_at x) (de_proposer_files env) = Some k \<and> dx_max_proposals_per_24h x \<le> int k
         \<longrightarrow> da_candidates a = [])
    \<and> (\<exists>specs stale. evaluate_rules rules (ia_insights current) = Some specs
         \<and> stale_open_dedup_keys (de_text env) (dx_generated_at x) prior (de_proposer_files env) (de_feedback_files env) = Some stale
         \<and> (\<forall>c \<in> set (da_candidates a). ca_dedup_key c \<notin> set stale
              \<and> (\<exists>s \<in> set specs. c = build_candidate s
                   \<and> (\<forall>n. sp_estimated_affected_files s = Some n \<longrightarrow> n \<le> dx_max_changed_files x))))"
proof -
  obtain specs recent stale where ev: "evaluate_rules rules (ia_insights current) = Some specs"
      "count_proposals_last_24h (dx_generated_at x) (de_proposer_files env) = Some recent"
      "stale_open_dedup_keys (de_text env) (dx_generated_at x) prior (de_proposer_files env) (de_feedback_files env) = Some stale"
    and d: "(da_candidates a, da_suppressed a) = decide_specs x prior (remaining_exec_capacity (de_settings env) usage (dx_generated_at x))
       (de_min_remaining env) recent stale specs"
    using decided [OF assms(2)] by metis
  let ?rem = "remaining_exec_capacity (de_settings env) usage (dx_generated_at x)"
  let ?l = "surviving x prior ?rem (de_min_remaining env) recent stale specs"
  obtain supp where p: "apply_policy (decision_config x) ?l prior (dx_generated_at x) = (da_candidates a, supp)"
    using d decide_specs_policy by (metis fst_conv prod.collapse)
  note f = apply_policy_facts [OF p]
  have quota: "int (length (filter (\<lambda>c. ca_family c = g) (da_candidates a))) \<le> 1" for g
    using f(3) [of g] by (simp add: decision_config_def)
  have "distinct (map ca_family (da_candidates a))" using quota by (intro distinct_by_count) auto
  moreover have "da_generated_at q < dx_generated_at x - td_minutes (dx_cooldown_minutes x)"
    if h: "c \<in> set (da_candidates a)" "q \<in> set prior" "ca_dedup_key c \<in> ca_dedup_key ` set (da_candidates q)" for c q
  proof -
    obtain e where "e \<in> set (da_candidates q)" "ca_dedup_key e = ca_dedup_key c" using h(3) by auto
    then obtain t where "last_emitted_at (ca_dedup_key c) prior = Some t" "da_generated_at q \<le> t"
      using last_emitted_at_latest [OF loaded_newest_first [OF assms(1)] h(2)] by metis
    then show ?thesis using f(4) [OF h(1)] by (simp add: decision_config_def)
  qed
  moreover have built: "\<exists>s \<in> set ?l. c = build_candidate s" if "c \<in> set (da_candidates a)" for c using f(5) [OF that] by auto
  then have "da_candidates a = []" if "?rem < de_min_remaining env"
    using that surviving_facts(3) by (metis last_in_set linorder_not_less)
  moreover have "ca_family c \<in> set (dx_allowed_families x)" if "c \<in> set (da_candidates a)" for c
    using built [OF that] surviving_facts(2) by fastforce
  moreover have "ca_family e \<noteq> ''lint_fix''" if "c \<in> set (da_candidates a)" "ca_family c = ''type_fix''" "e \<in> set (da_candidates a)" for c e
    using built [OF that(1)] built [OF that(3)] surviving_facts(6) that(2) by fastforce
  moreover have "da_candidates a = []" if "dx_max_proposals_per_24h x \<le> int recent"
    using that built surviving_facts(4) by (metis last_in_set linorder_not_less)
  moreover have "ca_dedup_key c \<notin> set stale \<and> (\<exists>s \<in> set specs. c = build_candidate s
      \<and> (\<forall>m. sp_estimated_affected_files s = Some m \<longrightarrow> m \<le> dx_max_changed_files x))" if c: "c \<in> set (da_candidates a)" for c
  proof -
    obtain s where s: "s \<in> set ?l" "c = build_candidate s"
      "case sp_estimated_affected_files s of Some m \<Rightarrow> m \<le> dc_max_changed_files (decision_config x) | None \<Rightarrow> True"
      using f(5) [OF c] by blast
    have "spec_dedup_key s \<notin> set stale" "s \<in> set specs" using surviving_facts(1,5) [OF s(1)] by simp_all
    moreover have "ca_dedup_key c = spec_dedup_key s" by (simp add: s(2) build_candidate_def)
    moreover have "\<forall>m. sp_estimated_affected_files s = Some m \<longrightarrow> m \<le> dx_max_changed_files x"
      using s(3) by (auto simp: decision_config_def)
    ultimately show ?thesis using s(2) by metis
  qed
  moreover have "da_candidates a = [] \<or> int (length (da_candidates a)) \<le> dx_max_candidates x"
    using f(1) by (simp add: decision_config_def)
  ultimately show ?thesis using f(2) ev by simp
qed

definition sample_insights :: "insight list" where
  "sample_insights =
     [\<lparr>in_dedup_key = ''lint|present'', in_kind = ''lint_drift'', in_subject = ''lint'', in_status = ''present'',
       in_evidence = [(''violation_count'', JInt 12)]\<rparr>,
      \<lparr>in_dedup_key = ''dep|present|persistent'', in_kind = ''dependency_drift_continuity'', in_subject = ''dependency_drift'',
       in_status = ''present'', in_evidence = [(''consecutive_snapshots'', JInt 4)]\<rparr>,
      \<lparr>in_dedup_key = ''type|present'', in_kind = ''type_health'', in_subject = ''types'', in_status = ''present'',
       in_evidence = [(''error_count'', JInt 12)]\<rparr>]"

definition sample_artifact :: insights_artifact where
  "sample_artifact = \<lparr>ia_run_id = ''i1'', ia_generated_at = 0, ia_repo_name = ''repo'', ia_repo_path = ''/repo'',
     ia_insights = sample_insights\<rparr>"

definition sample_context :: "string list \<Rightarrow> decision_context" where
  "sample_context fams = \<lparr>dx_run_id = ''d1'', dx_generated_at = 0, dx_dry_run = False, dx_max_candidates = 3,
     dx_cooldown_minutes = 120, dx_allowed_families = fams, dx_max_proposals_per_24h = 10, dx_max_changed_files = 30\<rparr>"

definition no_text :: "json \<Rightarrow> string" where
  "no_text v = []"

definition sample_env :: decision_env where
  "sample_env = \<lparr>de_text = no_text, de_settings = default_settings, de_min_remaining = 3, de_free_mb = None,
     de_proposer_files = [], de_feedback_files = []\<rparr>"

definition sample_decision :: "usage_file \<times> (decide_error + decision_artifact)" where
  "sample_decision = decide_candidates sample_env (sample_context ALL_FAMILIES) (build_rules no_text None) sample_artifact [] None"

lemma sample_decision_result:
  "case snd sample_decision of
     Inl _ \<Rightarrow> False
   | Inr a \<Rightarrow> map ca_family (da_candidates a) = [''lint_fix''] \<and> length (da_suppressed a) = 2"
  by code_simp

lemma sample_loaded: "load_decision_inputs [sample_artifact] [] None None 5 = Inr (sample_artifact, [])"
  by (simp add: load_decision_inputs_def newest_first_def truthy_str_def Let_def slice_to_def)

lemma sample_decided:
  obtains usage' a where "decide_candidates sample_env (sample_context ALL_FAMILIES) (build_rules no_text None) sample_artifact [] None
      = (usage', Inr a)" "map ca_family (da_candidates a) = [''lint_fix'']" "length (da_suppressed a) = 2"
  using sample_decision_result unfolding sample_decision_def
  by (cases "decide_candidates sample_env (sample_context ALL_FAMILIES) (build_rules no_text None) sample_artifact [] None")
    (auto split: sum.splits)

theorem decision_within_limits_witness:
  "\<exists>a. snd sample_decision = Inr a \<and> int (length (da_candidates a)) \<le> 3 \<and> da_candidates a \<noteq> []"
proof -
  obtain u a where d: "decide_candidates sample_env (sample_context ALL_FAMILIES) (build_rules no_text None) sample_artifact [] None
      = (u, Inr a)" "map ca_family (da_candidates a) = [''lint_fix'']" by (rule sample_decided)
  then show ?thesis
    using decision_within_limits [OF sample_loaded d(1)] by (auto simp: sample_decision_def sample_context_def)
qed

text \<open>
  C18: the decision loses nothing: every spec that the rules yield is either among the candidates or recorded as suppressed,
  with its key, exactly once.
\<close>

theorem decision_accounts_for_every_spec:
  assumes "decide_candidates env x rules current prior usage = (usage', Inr a)"
  shows "\<exists>specs. evaluate_rules rules (ia_insights current) = Some specs
    \<and> mset (map ca_dedup_key (da_candidates a)) + mset (map su_dedup_key (da_suppressed a)) = mset (map spec_dedup_key specs)"
proof -
  obtain specs recent stale where "evaluate_rules rules (ia_insights current) = Some specs"
    "(da_candidates a, da_suppressed a) = decide_specs x prior (remaining_exec_capacity (de_settings env) usage (dx_generated_at x))
       (de_min_remaining env) recent stale specs"
    using decided [OF assms] by metis
  then show ?thesis using decide_specs_accounts by (metis fst_conv snd_conv)
qed

theorem decision_accounts_for_every_spec_witness:
  "\<exists>a specs. snd sample_decision = Inr a \<and> evaluate_rules (build_rules no_text None) sample_insights = Some specs
     \<and> length specs = 3 \<and> mset (map ca_dedup_key (da_candidates a)) \<subseteq># mset (map spec_dedup_key specs)"
proof -
  obtain u a where d: "decide_candidates sample_env (sample_context ALL_FAMILIES) (build_rules no_text None) sample_artifact [] None
      = (u, Inr a)" "map ca_family (da_candidates a) = [''lint_fix'']" "length (da_suppressed a) = 2" by (rule sample_decided)
  then have "length (da_candidates a) = 1" by (metis length_map length_Cons list.size(3) One_nat_def)
  moreover obtain specs where s: "evaluate_rules (build_rules no_text None) sample_insights = Some specs"
      "mset (map ca_dedup_key (da_candidates a)) + mset (map su_dedup_key (da_suppressed a)) = mset (map spec_dedup_key specs)"
    using decision_accounts_for_every_spec [OF d(1)] by (auto simp: sample_artifact_def)
  moreover have "length (da_candidates a) + length (da_suppressed a) = length specs"
    using arg_cong [OF s(2), of size] by simp
  moreover have "mset (map ca_dedup_key (da_candidates a)) \<subseteq># mset (map spec_dedup_key specs)"
    using s(2) by (metis mset_subset_eq_add_left)
  ultimately show ?thesis using d by (auto simp: sample_decision_def)
qed

text \<open>
  Dependency drift is never proposed: the rule set yields the family \<open>dependency_drift_followup\<close>, the family gate only
  knows \<open>dependency_drift\<close>, so with any allowed families out of \<open>ALL_FAMILIES\<close> no candidate comes from that rule.
\<close>

theorem dependency_drift_never_proposed:
  assumes "decide_candidates env x (build_rules T c) current prior usage = (usage', Inr a)"
    and "set (dx_allowed_families x) \<subseteq> set ALL_FAMILIES"
  shows "\<forall>d \<in> set (da_candidates a). ca_family d \<in> set rule_family_list - {''dependency_drift'', ''dependency_drift_followup''}"
proof
  fix d
  assume m: "d \<in> set (da_candidates a)"
  obtain specs recent stale where r: "evaluate_rules (build_rules T c) (ia_insights current) = Some specs"
    and e: "(da_candidates a, da_suppressed a) = decide_specs x prior (remaining_exec_capacity (de_settings env) usage (dx_generated_at x))
       (de_min_remaining env) recent stale specs"
    using decided [OF assms(1)] by metis
  let ?l = "surviving x prior (remaining_exec_capacity (de_settings env) usage (dx_generated_at x)) (de_min_remaining env) recent stale specs"
  obtain supp where p: "apply_policy (decision_config x) ?l prior (dx_generated_at x) = (da_candidates a, supp)"
    using e decide_specs_policy by (metis fst_conv prod.collapse)
  obtain s where s: "s \<in> set ?l" "d = build_candidate s" using apply_policy_facts(5) [OF p m] by blast
  have "sp_family s \<in> set rule_family_list" using built_rule_families [OF r surviving_facts(1) [OF s(1)]] .
  moreover have "sp_family s \<in> set ALL_FAMILIES" using surviving_facts(2) [OF s(1)] assms(2) by blast
  ultimately show "ca_family d \<in> set rule_family_list - {''dependency_drift'', ''dependency_drift_followup''}"
    using s(2) by (auto simp: ALL_FAMILIES_def DEFAULT_ALLOWED_FAMILIES_def rule_family_list_def)
qed

theorem dependency_drift_never_proposed_witness:
  "\<exists>a. snd sample_decision = Inr a \<and> da_candidates a \<noteq> [] \<and> ''dependency_drift_followup'' \<notin> set (map ca_family (da_candidates a))"
proof -
  obtain u a where d: "decide_candidates sample_env (sample_context ALL_FAMILIES) (build_rules no_text None) sample_artifact [] None
      = (u, Inr a)" "map ca_family (da_candidates a) = [''lint_fix'']" by (rule sample_decided)
  then show ?thesis
    using dependency_drift_never_proposed [OF d(1)] by (auto simp: sample_decision_def sample_context_def)
qed

end
