(* ===== verification/Ci_Loop.thy ===== *)
theory Ci_Loop
  imports Decision_Rules
begin

text \<open>
  Continuous improvement: the evaluation of an attempt (\<open>execution/ci_evaluator.py\<close>), the refinement loop over attempts
  (\<open>execution/ci_coordinator.py\<close>) and its store (\<open>execution/ci_store.py\<close>), on the contract types of \<open>contracts/ci.py\<close>.

  What the operating system does with a command is the datatype \<open>ci_proc\<close>, with the parsed standard output; the results may
  differ from attempt to attempt. The backend is the argument \<open>execute\<close>, which threads a state of its own and may raise.
  A hash of a text and the readings of the clock that only end up in records are left out.
\<close>

section \<open>Contract types\<close>

datatype guardrail =
  NO_LOST_ESCALATIONS | CUSTODIAN_CLEAN | NO_ARCHITECTURE_VIOLATIONS | REGRESSION_FIXTURES_PASS | NO_RUNTIME_POLICY_WIDENING

primrec guardrail_value :: "guardrail \<Rightarrow> string" where
  "guardrail_value NO_LOST_ESCALATIONS = ''no_lost_escalations''"
| "guardrail_value CUSTODIAN_CLEAN = ''custodian_clean''"
| "guardrail_value NO_ARCHITECTURE_VIOLATIONS = ''no_architecture_violations''"
| "guardrail_value REGRESSION_FIXTURES_PASS = ''regression_fixtures_pass''"
| "guardrail_value NO_RUNTIME_POLICY_WIDENING = ''no_runtime_policy_widening''"

datatype evaluation_outcome = EO_IMPROVED | EO_NEUTRAL | EO_REGRESSED | EO_GUARDRAIL_VIOLATED | EO_INCONCLUSIVE

primrec evaluation_outcome_value :: "evaluation_outcome \<Rightarrow> string" where
  "evaluation_outcome_value EO_IMPROVED = ''improved''"
| "evaluation_outcome_value EO_NEUTRAL = ''neutral''"
| "evaluation_outcome_value EO_REGRESSED = ''regressed''"
| "evaluation_outcome_value EO_GUARDRAIL_VIOLATED = ''guardrail_violated''"
| "evaluation_outcome_value EO_INCONCLUSIVE = ''inconclusive''"

datatype refinement_decision = RD_ACCEPT | RD_RETRY | RD_ABANDON | RD_ESCALATE
datatype refinement_status = RF_NOT_STARTED | RF_IN_PROGRESS | RF_ACCEPTED | RF_BUDGET_EXHAUSTED | RF_ABANDONED | RF_ESCALATED
datatype branch_reason = BR_INITIAL | BR_RETRY_AFTER_FAILURE | BR_STRATEGY_VARIATION | BR_OPERATOR_RESTART
datatype command_source = OC_DERIVED | PROPOSER_SUGGESTED | VALIDATION_PROFILE

record improvement_strategy =
  is_principle :: string
  is_constraints :: "string list"
  is_variation_hint :: "string option"

definition valid_strategy :: "improvement_strategy \<Rightarrow> bool" where
  "valid_strategy s = (''fail_closed'' \<in> set (is_constraints s))"

record scoring_metric =
  sm_metric :: string
  sm_direction :: string
  sm_baseline_value :: "rat option"
  sm_target_delta :: "rat option"

record evaluation_spec =
  evs_primary_scoring :: scoring_metric
  evs_secondary_scoring :: "scoring_metric list"
  evs_guardrails :: "guardrail list"
  evs_evaluation_command_hint :: "string option"
  evs_evaluation_command :: "string option"

record refinement_policy =
  rfp_max_attempts :: int
  rfp_vary_strategy_on_retry :: bool
  rfp_failure_penalty :: int
  rfp_accept_on_neutral :: bool

text \<open>The field constraints of \<open>RefinementPolicy\<close>.\<close>

definition valid_refinement :: "refinement_policy \<Rightarrow> bool" where
  "valid_refinement p = (1 \<le> rfp_max_attempts p \<and> rfp_max_attempts p \<le> 10 \<and> 0 \<le> rfp_failure_penalty p)"

record ci_spec =
  cis_strategy :: improvement_strategy
  cis_evaluation :: evaluation_spec
  cis_refinement :: refinement_policy

record evaluation_score =
  sc_primary_value :: "rat option"
  sc_primary_delta :: "rat option"
  sc_secondary :: "(string \<times> rat) list"
  sc_guardrails_passed :: "guardrail list"
  sc_guardrails_failed :: "guardrail list"
  sc_outcome :: evaluation_outcome
  sc_command_used :: string

record lineage_attempt =
  la_attempt_number :: int
  la_run_id :: string
  la_branch_reason :: branch_reason
  la_strategy_used :: improvement_strategy
  la_score :: evaluation_score
  la_decision :: refinement_decision
  la_decision_reason :: fstring

record improvement_lineage =
  il_lineage_id :: string
  il_status :: refinement_status
  il_current_attempt_number :: int
  il_accepted_attempt_number :: "int option"
  il_attempts :: "lineage_attempt list"

record lineage_index_entry =
  ie_lineage_id :: string
  ie_proposal_id :: string
  ie_lineage_artifact_path :: string
  ie_status :: refinement_status
  ie_current_attempt_number :: int
  ie_accepted_attempt_number :: "int option"
  ie_last_updated_at :: datetime

record ci_state =
  st_proposal_id :: string
  st_lineage_index :: lineage_index_entry
  st_resolved_command :: "string option"
  st_resolved_source :: "command_source option"

section \<open>Store\<close>

record ci_data =
  cd_lineage_index :: "string \<rightharpoonup> lineage_index_entry"
  cd_ci_state :: "string \<rightharpoonup> ci_state"

text \<open>The store file: \<^const>\<open>None\<close> when it is missing or cannot be parsed. A lineage artifact that cannot be read is absent.\<close>

type_synonym ci_store = "ci_data option"
type_synonym lineage_files = "string \<rightharpoonup> improvement_lineage"

definition ci_load :: "ci_store \<Rightarrow> ci_data" where
  "ci_load s = (case s of Some d \<Rightarrow> d | None \<Rightarrow> \<lparr>cd_lineage_index = Map.empty, cd_ci_state = Map.empty\<rparr>)"

definition upsert_index_entry :: "ci_store \<Rightarrow> lineage_index_entry \<Rightarrow> ci_store" where
  "upsert_index_entry s e =
     (let d = ci_load s in Some (d\<lparr>cd_lineage_index := (cd_lineage_index d)(ie_lineage_id e \<mapsto> e)\<rparr>))"

definition get_index_entry :: "ci_store \<Rightarrow> string \<Rightarrow> lineage_index_entry option" where
  "get_index_entry s lineage_id = cd_lineage_index (ci_load s) lineage_id"

definition upsert_state :: "ci_store \<Rightarrow> ci_state \<Rightarrow> ci_store" where
  "upsert_state s x = (let d = ci_load s in Some (d\<lparr>cd_ci_state := (cd_ci_state d)(st_proposal_id x \<mapsto> x)\<rparr>))"

definition get_state :: "ci_store \<Rightarrow> string \<Rightarrow> ci_state option" where
  "get_state s proposal_id = cd_ci_state (ci_load s) proposal_id"

text \<open>\<open>rows\<close> are the values of the index in the order of the file.\<close>

definition list_index_entries ::
  "lineage_index_entry list \<Rightarrow> string option \<Rightarrow> refinement_status option \<Rightarrow> lineage_index_entry list" where
  "list_index_entries rows proposal_id status =
     (let a = (case proposal_id of None \<Rightarrow> rows | Some p \<Rightarrow> filter (\<lambda>e. ie_proposal_id e = p) rows);
          b = (case status of None \<Rightarrow> a | Some st \<Rightarrow> filter (\<lambda>e. ie_status e = st) a)
      in newest_first ie_last_updated_at b)"

section \<open>Evaluation\<close>

datatype ci_proc = ProcTimeout | ProcExit int string "json option"
datatype eval_file = NoEvalFile | BadEvalFile | EvalFile json
datatype custodian_proc = CustodianMissing | CustodianNoAnswer | CustodianDone int "json option"

record ci_env =
  ce_shell :: "int \<Rightarrow> string \<Rightarrow> ci_proc"
  ce_eval_file :: "int \<Rightarrow> eval_file"
  ce_custodian :: "int \<Rightarrow> bool \<Rightarrow> custodian_proc"

record evaluation_context =
  ec_attempt_number :: int
  ec_evaluation_command :: string
  ec_validation_commands :: "string list"
  ec_changed_file_paths :: "string list"
  ec_has_output_path :: bool

definition POLICY_FILE_PATTERNS :: "string list" where
  "POLICY_FILE_PATTERNS = [''.custodian'', ''custodian'', ''forbidden_paths'', ''policy'', ''allowed_paths'', ''.console/workers.yaml'']"

text \<open>A timeout of the evaluation command raises. Otherwise the output file counts, then standard output, then the exit code.\<close>

definition run_evaluation_command :: "ci_env \<Rightarrow> evaluation_context \<Rightarrow> json option" where
  "run_evaluation_command env ctx =
     (if py_strip (ec_evaluation_command ctx) = [] then Some (JObj [])
      else case ce_shell env (ec_attempt_number ctx)
                  (py_replace ''{n}'' (show_int (ec_attempt_number ctx)) (ec_evaluation_command ctx)) of
        ProcTimeout \<Rightarrow> None
      | ProcExit rc out parsed \<Rightarrow>
          (case (ec_has_output_path ctx, ce_eval_file env (ec_attempt_number ctx)) of
             (True, EvalFile j) \<Rightarrow> Some j
           | _ \<Rightarrow>
               (case (py_strip out \<noteq> [], parsed) of
                  (True, Some j) \<Rightarrow> Some j
                | _ \<Rightarrow> Some (JObj [(''exit_code'', JInt rc), (''stdout'', JStr (take 2000 out))]))))"

text \<open>
  \<open>name in output\<close>, then \<open>float(output[name])\<close> with the two caught exceptions; the outer option is the \<open>TypeError\<close> of \<open>in\<close>
  on an output that is no container.
\<close>

fun metric_of :: "json \<Rightarrow> string \<Rightarrow> rat option option" where
  "metric_of (JObj d) name = Some (case map_of d name of None \<Rightarrow> None | Some v \<Rightarrow> json_float v)"
| "metric_of (JList _) name = Some None"
| "metric_of (JStr _) name = Some None"
| "metric_of (JTime _) name = Some None"
| "metric_of _ name = None"

definition secondary_of :: "json \<Rightarrow> scoring_metric list \<Rightarrow> (string \<times> rat) list" where
  "secondary_of out sms = fold (\<lambda>sm acc. case metric_of out (sm_metric sm) of
      Some (Some v) \<Rightarrow> AList.update (sm_metric sm) v acc | _ \<Rightarrow> acc) sms []"

definition parse_eval_output :: "evaluation_spec \<Rightarrow> json \<Rightarrow> (rat option \<times> rat option \<times> (string \<times> rat) list) option" where
  "parse_eval_output spec out =
     (case metric_of out (sm_metric (evs_primary_scoring spec)) of
        None \<Rightarrow> None
      | Some v \<Rightarrow>
          Some (v, (case (v, sm_baseline_value (evs_primary_scoring spec)) of (Some x, Some b) \<Rightarrow> Some (x - b) | _ \<Rightarrow> None),
                secondary_of out (evs_secondary_scoring spec)))"

definition check_regression_fixtures :: "ci_env \<Rightarrow> evaluation_context \<Rightarrow> bool" where
  "check_regression_fixtures env ctx =
     list_all (\<lambda>cmd. case ce_shell env (ec_attempt_number ctx) cmd of ProcExit rc _ _ \<Rightarrow> rc = 0 | ProcTimeout \<Rightarrow> False)
       (ec_validation_commands ctx)"

definition check_custodian :: "ci_env \<Rightarrow> evaluation_context \<Rightarrow> bool \<Rightarrow> bool" where
  "check_custodian env ctx architecture =
     (case ce_custodian env (ec_attempt_number ctx) architecture of
        CustodianMissing \<Rightarrow> False
      | CustodianNoAnswer \<Rightarrow> False
      | CustodianDone rc parsed \<Rightarrow>
          (case parsed of
             Some (JObj d) \<Rightarrow> (case json_int (ev_get d ''total_findings'' (JInt 1)) of Some n \<Rightarrow> n = 0 | None \<Rightarrow> rc = 0)
           | _ \<Rightarrow> rc = 0))"

definition check_no_policy_widening :: "evaluation_context \<Rightarrow> bool" where
  "check_no_policy_widening ctx =
     list_all (\<lambda>path. \<not> list_ex (\<lambda>pat. str_contains pat (py_lower path)) POLICY_FILE_PATTERNS) (ec_changed_file_paths ctx)"

definition check_no_lost_escalations :: "json \<Rightarrow> bool" where
  "check_no_lost_escalations out =
     (case out of
        JObj d \<Rightarrow>
          (let b = ev_get d ''escalations_before'' JNull; a = ev_get d ''escalations_after'' JNull
           in if b = JNull \<or> a = JNull then True
              else case (json_int a, json_int b) of (Some x, Some y) \<Rightarrow> y \<le> x | _ \<Rightarrow> False)
      | _ \<Rightarrow> False)"

definition check_guardrail :: "ci_env \<Rightarrow> evaluation_context \<Rightarrow> json \<Rightarrow> guardrail \<Rightarrow> bool" where
  "check_guardrail env ctx out g =
     (case g of
        REGRESSION_FIXTURES_PASS \<Rightarrow> check_regression_fixtures env ctx
      | CUSTODIAN_CLEAN \<Rightarrow> check_custodian env ctx False
      | NO_ARCHITECTURE_VIOLATIONS \<Rightarrow> check_custodian env ctx True
      | NO_RUNTIME_POLICY_WIDENING \<Rightarrow> check_no_policy_widening ctx
      | NO_LOST_ESCALATIONS \<Rightarrow> check_no_lost_escalations out)"

definition determine_outcome :: "evaluation_spec \<Rightarrow> rat option \<Rightarrow> guardrail list \<Rightarrow> evaluation_outcome" where
  "determine_outcome spec primary_delta failed =
     (if failed \<noteq> [] then EO_GUARDRAIL_VIOLATED
      else case primary_delta of
        None \<Rightarrow> EO_INCONCLUSIVE
      | Some d \<Rightarrow>
          (let target = sm_target_delta (evs_primary_scoring spec);
               lower = (sm_direction (evs_primary_scoring spec) = ''lower_is_better'');
               improved = (if lower then d < 0 else 0 < d);
               meets_target = (case target of None \<Rightarrow> True | Some t \<Rightarrow> if lower then d \<le> t else t \<le> d)
           in if improved \<and> meets_target then EO_IMPROVED
              else if d = 0 \<or> (\<not> improved \<and> failed = []) then EO_NEUTRAL
              else EO_REGRESSED))"

definition ci_evaluate :: "ci_env \<Rightarrow> evaluation_spec \<Rightarrow> evaluation_context \<Rightarrow> evaluation_score option" where
  "ci_evaluate env spec ctx =
     (case run_evaluation_command env ctx of
        None \<Rightarrow> None
      | Some out \<Rightarrow>
          (case parse_eval_output spec out of
             None \<Rightarrow> None
           | Some (v, d, secondary) \<Rightarrow>
               (let passed = filter (check_guardrail env ctx out) (evs_guardrails spec);
                    failed = filter (\<lambda>g. \<not> check_guardrail env ctx out g) (evs_guardrails spec)
                in Some \<lparr>sc_primary_value = v, sc_primary_delta = d, sc_secondary = secondary, sc_guardrails_passed = passed,
                     sc_guardrails_failed = failed, sc_outcome = determine_outcome spec d failed,
                     sc_command_used = ec_evaluation_command ctx\<rparr>)))"

section \<open>The refinement loop\<close>

definition refine_decide :: "evaluation_score \<Rightarrow> refinement_policy \<Rightarrow> int \<Rightarrow> refinement_decision \<times> fstring" where
  "refine_decide score policy attempts_used =
     (if sc_guardrails_failed score \<noteq> [] then
        (RD_ABANDON, [FLit ''Hard guardrail(s) violated: '', FReprs (map guardrail_value (sc_guardrails_failed score))])
      else if sc_outcome score = EO_GUARDRAIL_VIOLATED then (RD_ABANDON, [FLit ''guardrail_violated outcome from evaluator''])
      else if sc_outcome score = EO_IMPROVED then
        (RD_ACCEPT, [FLit ''Primary metric improved (delta='', FFloat (case sc_primary_delta score of Some d \<Rightarrow> d | None \<Rightarrow> 0), FLit '')''])
      else if sc_outcome score = EO_NEUTRAL \<and> rfp_accept_on_neutral policy then (RD_ACCEPT, [FLit ''Neutral outcome accepted per policy''])
      else if sc_outcome score = EO_INCONCLUSIVE then
        (if rfp_max_attempts policy - attempts_used \<le> 0 then (RD_ESCALATE, [FLit ''Inconclusive after budget exhausted''])
         else (RD_ESCALATE, [FLit ''Inconclusive outcome requires operator decision'']))
      else
        (let remaining = rfp_max_attempts policy - attempts_used - rfp_failure_penalty policy
         in if remaining \<le> 0 then (RD_ABANDON, [FLit ''Budget exhausted after '', FInt attempts_used, FLit '' attempt(s)''])
            else (RD_RETRY, [FLit ''outcome='', FStr (evaluation_outcome_value (sc_outcome score)), FLit ''; '', FInt remaining,
                             FLit '' attempt(s) remaining''])))"

fun status_for_decision :: "refinement_decision \<Rightarrow> refinement_status" where
  "status_for_decision RD_ACCEPT = RF_ACCEPTED"
| "status_for_decision RD_ABANDON = RF_ABANDONED"
| "status_for_decision RD_ESCALATE = RF_ESCALATED"
| "status_for_decision RD_RETRY = RF_IN_PROGRESS"

definition append_attempt :: "improvement_lineage \<Rightarrow> lineage_attempt \<Rightarrow> improvement_lineage" where
  "append_attempt l a =
     l\<lparr>il_status := status_for_decision (la_decision a), il_current_attempt_number := la_attempt_number a,
       il_accepted_attempt_number := (if la_decision a = RD_ACCEPT then Some (la_attempt_number a) else il_accepted_attempt_number l),
       il_attempts := il_attempts l @ [a]\<rparr>"

definition strategy_for_attempt :: "ci_spec \<Rightarrow> int \<Rightarrow> improvement_strategy" where
  "strategy_for_attempt spec attempt_n =
     (if attempt_n = 1 \<or> \<not> rfp_vary_strategy_on_retry (cis_refinement spec) then cis_strategy spec
      else \<lparr>is_principle = is_principle (cis_strategy spec), is_constraints = is_constraints (cis_strategy spec),
            is_variation_hint = is_variation_hint (cis_strategy spec)\<rparr>)"

definition resolve_evaluation_command :: "ci_spec \<Rightarrow> string option \<times> command_source option" where
  "resolve_evaluation_command spec =
     (if truthy_str (evs_evaluation_command (cis_evaluation spec)) then (evs_evaluation_command (cis_evaluation spec), Some OC_DERIVED)
      else if truthy_str (evs_evaluation_command_hint (cis_evaluation spec)) then
        (evs_evaluation_command_hint (cis_evaluation spec), Some PROPOSER_SUGGESTED)
      else (None, None))"

record ci_run_context =
  rx_proposal_id :: string
  rx_repo_path :: string
  rx_lineage_id :: string
  rx_spec :: ci_spec
  rx_validation_commands :: "string list"
  rx_has_output_dir :: bool
  rx_now :: datetime

definition lineage_path :: "ci_run_context \<Rightarrow> string" where
  "lineage_path ctx = rx_repo_path ctx @ ''/.context/capsules/'' @ rx_lineage_id ctx @ ''/lineage.json''"

definition load_or_init_lineage :: "ci_run_context \<Rightarrow> lineage_files \<Rightarrow> improvement_lineage" where
  "load_or_init_lineage ctx fs =
     (case fs (lineage_path ctx) of
        Some l \<Rightarrow> l
      | None \<Rightarrow> \<lparr>il_lineage_id = rx_lineage_id ctx, il_status = RF_NOT_STARTED, il_current_attempt_number = 0,
                 il_accepted_attempt_number = None, il_attempts = []\<rparr>)"

definition load_or_init_state :: "ci_run_context \<Rightarrow> ci_store \<Rightarrow> ci_state" where
  "load_or_init_state ctx store =
     (case get_state store (rx_proposal_id ctx) of
        Some st \<Rightarrow> st
      | None \<Rightarrow> \<lparr>st_proposal_id = rx_proposal_id ctx,
          st_lineage_index = \<lparr>ie_lineage_id = rx_lineage_id ctx, ie_proposal_id = rx_proposal_id ctx,
            ie_lineage_artifact_path = lineage_path ctx, ie_status = RF_NOT_STARTED, ie_current_attempt_number = 0,
            ie_accepted_attempt_number = None, ie_last_updated_at = rx_now ctx\<rparr>,
          st_resolved_command = fst (resolve_evaluation_command (rx_spec ctx)),
          st_resolved_source = snd (resolve_evaluation_command (rx_spec ctx))\<rparr>)"

definition update_state :: "datetime \<Rightarrow> ci_state \<Rightarrow> improvement_lineage \<Rightarrow> ci_state" where
  "update_state now st l =
     st\<lparr>st_lineage_index := (st_lineage_index st)\<lparr>ie_proposal_id := st_proposal_id st, ie_status := il_status l,
          ie_current_attempt_number := il_current_attempt_number l,
          ie_accepted_attempt_number := il_accepted_attempt_number l, ie_last_updated_at := now\<rparr>\<rparr>"

text \<open>The state of a run: lineage artifacts, store and the backend's own state.\<close>

record 's ci_world =
  cw_lineages :: lineage_files
  cw_store :: ci_store
  cw_backend :: 's

text \<open>The three writes of \<open>_persist\<close>, in order; the first one that fails raises and the later ones do not happen.\<close>

datatype persist_io = P_ok | P_lineage_fails | P_index_fails | P_state_fails

definition ci_persist :: "persist_io \<Rightarrow> ci_run_context \<Rightarrow> improvement_lineage \<Rightarrow> ci_state \<Rightarrow> 's ci_world \<Rightarrow> 's ci_world \<times> bool" where
  "ci_persist io ctx l st w =
     (let w1 = w\<lparr>cw_lineages := (cw_lineages w)(lineage_path ctx \<mapsto> l)\<rparr>;
          w2 = w1\<lparr>cw_store := upsert_index_entry (cw_store w1) (st_lineage_index st)\<rparr>;
          w3 = w2\<lparr>cw_store := upsert_state (cw_store w2) st\<rparr>
      in case io of P_ok \<Rightarrow> (w3, True) | P_lineage_fails \<Rightarrow> (w, False) | P_index_fails \<Rightarrow> (w1, False) | P_state_fails \<Rightarrow> (w2, False))"

record ci_run_result =
  cr_lineage_id :: string
  cr_final_status :: refinement_status
  cr_accepted_attempt_number :: "int option"
  cr_total_attempts :: int
  cr_last_decision :: "refinement_decision option"
  cr_last_score :: "evaluation_score option"

datatype ci_error = BackendRaised string | EvaluatorRaised | PersistFailed

text \<open>The backend: attempt number and strategy to run id, changed files and success flag, or an exception.\<close>

type_synonym 's ci_execute = "'s \<Rightarrow> int \<Rightarrow> improvement_strategy \<Rightarrow> 's \<times> (string + string \<times> string list \<times> bool)"

definition ci_attempt ::
  "ci_env \<Rightarrow> ci_run_context \<Rightarrow> 's ci_execute \<Rightarrow> ci_state \<Rightarrow> int \<Rightarrow> 's \<Rightarrow> 's \<times> (ci_error + lineage_attempt)" where
  "ci_attempt env ctx execute st n b =
     (let strategy = strategy_for_attempt (rx_spec ctx) n
      in case execute b n strategy of
           (b', Inl e) \<Rightarrow> (b', Inl (BackendRaised e))
         | (b', Inr (run_id, changed, success)) \<Rightarrow>
             (b', case ci_evaluate env (cis_evaluation (rx_spec ctx))
                     \<lparr>ec_attempt_number = n, ec_evaluation_command = or_empty (st_resolved_command st),
                      ec_validation_commands = rx_validation_commands ctx, ec_changed_file_paths = changed,
                      ec_has_output_path = rx_has_output_dir ctx\<rparr> of
                None \<Rightarrow> Inl EvaluatorRaised
              | Some score \<Rightarrow>
                  (let (d, reason) = refine_decide score (cis_refinement (rx_spec ctx)) n
                   in Inr \<lparr>la_attempt_number = n, la_run_id = run_id,
                        la_branch_reason = (if n = 1 then BR_INITIAL else BR_RETRY_AFTER_FAILURE), la_strategy_used = strategy,
                        la_score = score, la_decision = d, la_decision_reason = reason\<rparr>)))"

lemma ci_attempt_number: "ci_attempt env ctx execute st n b = (b', Inr a) \<Longrightarrow> la_attempt_number a = n"
  by (auto simp: ci_attempt_def Let_def split: prod.splits sum.splits option.splits)

function ci_loop ::
  "ci_env \<Rightarrow> ci_run_context \<Rightarrow> 's ci_execute \<Rightarrow> (int \<Rightarrow> persist_io) \<Rightarrow> improvement_lineage \<Rightarrow> ci_state \<Rightarrow> 's ci_world
   \<Rightarrow> 's ci_world \<times> improvement_lineage \<times> ci_error option" where
  "ci_loop env ctx execute io l st w =
     (if il_current_attempt_number l < rfp_max_attempts (cis_refinement (rx_spec ctx)) then
        (case ci_attempt env ctx execute st (il_current_attempt_number l + 1) (cw_backend w) of
           (b, Inl e) \<Rightarrow> (w\<lparr>cw_backend := b\<rparr>, l, Some e)
         | (b, Inr a) \<Rightarrow>
             (let l' = append_attempt l a; st' = update_state (rx_now ctx) st l';
                  (w', ok) = ci_persist (io (la_attempt_number a)) ctx l' st' (w\<lparr>cw_backend := b\<rparr>)
              in if \<not> ok then (w', l', Some PersistFailed)
                 else if la_decision a \<in> {RD_ACCEPT, RD_ABANDON, RD_ESCALATE} then (w', l', None)
                 else ci_loop env ctx execute io l' st' w'))
      else (w, l, None))"
  by pat_completeness auto

termination
  by (relation "measure (\<lambda>(_, ctx, _, _, l, _, _). nat (rfp_max_attempts (cis_refinement (rx_spec ctx)) - il_current_attempt_number l))")
    (auto simp: append_attempt_def dest!: ci_attempt_number [OF sym])

declare ci_loop.simps [simp del]

definition ci_run ::
  "ci_env \<Rightarrow> ci_run_context \<Rightarrow> 's ci_execute \<Rightarrow> (int \<Rightarrow> persist_io) \<Rightarrow> 's ci_world \<Rightarrow> 's ci_world \<times> (ci_error + ci_run_result)" where
  "ci_run env ctx execute io w =
     (let l0 = load_or_init_lineage ctx (cw_lineages w);
          (w', l, err) = ci_loop env ctx execute io l0 (load_or_init_state ctx (cw_store w)) w;
          new = drop (length (il_attempts l0)) (il_attempts l)
      in (w', case err of Some e \<Rightarrow> Inl e
          | None \<Rightarrow> Inr \<lparr>cr_lineage_id = rx_lineage_id ctx, cr_final_status = il_status l,
              cr_accepted_attempt_number = il_accepted_attempt_number l, cr_total_attempts = il_current_attempt_number l,
              cr_last_decision = (if new = [] then None else Some (la_decision (last new))),
              cr_last_score = (if new = [] then None else Some (la_score (last new)))\<rparr>))"

section \<open>Laws of the loop\<close>

lemma strategy_never_varies: "strategy_for_attempt spec n = cis_strategy spec"
  by (simp add: strategy_for_attempt_def)

lemma ci_attempt_facts:
  assumes "ci_attempt env ctx execute st n b = (b', Inr a)"
  shows "la_attempt_number a = n" "la_strategy_used a = cis_strategy (rx_spec ctx)"
    "la_decision a = fst (refine_decide (la_score a) (cis_refinement (rx_spec ctx)) n)"
    "\<exists>ec. ec_attempt_number ec = n \<and> ci_evaluate env (cis_evaluation (rx_spec ctx)) ec = Some (la_score a)"
  using assms
  by (auto simp: ci_attempt_def strategy_never_varies Let_def split: prod.splits sum.splits option.splits
      intro!: exI [of _ "\<lparr>ec_attempt_number = n, ec_evaluation_command = or_empty (st_resolved_command st),
        ec_validation_commands = rx_validation_commands ctx, ec_changed_file_paths = x, ec_has_output_path = rx_has_output_dir ctx\<rparr>" for x])

text \<open>What a run may add to a lineage.\<close>

definition good_attempt :: "ci_env \<Rightarrow> ci_spec \<Rightarrow> lineage_attempt \<Rightarrow> bool" where
  "good_attempt env spec a \<longleftrightarrow>
     la_strategy_used a = cis_strategy spec
     \<and> la_decision a = fst (refine_decide (la_score a) (cis_refinement spec) (la_attempt_number a))
     \<and> (\<exists>ec. ec_attempt_number ec = la_attempt_number a \<and> ci_evaluate env (cis_evaluation spec) ec = Some (la_score a))"

definition extends :: "ci_env \<Rightarrow> ci_spec \<Rightarrow> improvement_lineage \<Rightarrow> improvement_lineage \<Rightarrow> lineage_attempt list \<Rightarrow> bool" where
  "extends env spec l l' new \<longleftrightarrow>
     il_attempts l' = il_attempts l @ new \<and> il_current_attempt_number l' = il_current_attempt_number l + int (length new)
     \<and> (new \<noteq> [] \<longrightarrow> il_current_attempt_number l' \<le> rfp_max_attempts (cis_refinement spec)
          \<and> il_status l' = status_for_decision (la_decision (last new))
          \<and> la_attempt_number (last new) = il_current_attempt_number l')
     \<and> (new = [] \<longrightarrow> l' = l)
     \<and> (\<forall>a \<in> set (butlast new). la_decision a = RD_RETRY) \<and> (\<forall>a \<in> set new. good_attempt env spec a)"

lemma ci_loop_extends:
  "ci_loop env ctx execute io l st w = (w', l', e) \<Longrightarrow> \<exists>new. extends env (rx_spec ctx) l l' new
     \<and> (e = None \<longrightarrow> new = [] \<and> rfp_max_attempts (cis_refinement (rx_spec ctx)) \<le> il_current_attempt_number l
          \<or> new \<noteq> [] \<and> (la_decision (last new) = RD_RETRY \<longrightarrow>
               rfp_max_attempts (cis_refinement (rx_spec ctx)) \<le> il_current_attempt_number l'))"
proof (induction env ctx execute io l st w rule: ci_loop.induct)
  case (1 env ctx execute io l st w)
  let ?max = "rfp_max_attempts (cis_refinement (rx_spec ctx))"
  show ?case
  proof (cases "il_current_attempt_number l < ?max")
    case False
    then show ?thesis using "1.prems" by (intro exI [of _ "[]"]) (auto simp: ci_loop.simps extends_def)
  next
    case True
    obtain b res where at: "ci_attempt env ctx execute st (il_current_attempt_number l + 1) (cw_backend w) = (b, res)" by fastforce
    show ?thesis
    proof (cases res)
      case (Inl x)
      then show ?thesis using "1.prems" True at by (intro exI [of _ "[]"]) (auto simp: ci_loop.simps [of env] extends_def)
    next
      case (Inr a)
      define l1 where "l1 = append_attempt l a"
      define st1 where "st1 = update_state (rx_now ctx) st l1"
      obtain w1 ok where per: "ci_persist (io (la_attempt_number a)) ctx l1 st1 (w\<lparr>cw_backend := b\<rparr>) = (w1, ok)" by fastforce
      note af = ci_attempt_facts [OF at [unfolded Inr]]
      have ga: "good_attempt env (rx_spec ctx) a" using af by (auto simp: good_attempt_def)
      have one: "extends env (rx_spec ctx) l l1 [a]"
        using True af(1) ga by (auto simp: extends_def l1_def append_attempt_def)
      have step: "ci_loop env ctx execute io l st w =
          (if \<not> ok then (w1, l1, Some PersistFailed)
           else if la_decision a \<in> {RD_ACCEPT, RD_ABANDON, RD_ESCALATE} then (w1, l1, None)
           else ci_loop env ctx execute io l1 st1 w1)"
        by (subst ci_loop.simps) (simp add: True at Inr per [unfolded st1_def l1_def] l1_def st1_def Let_def)
      show ?thesis
      proof (cases "ok \<and> la_decision a = RD_RETRY")
        case False
        then show ?thesis
          using "1.prems" one unfolding step by (intro exI [of _ "[a]"]) (cases "la_decision a"; auto split: if_splits)
      next
        case cont: True
        then have rest: "ci_loop env ctx execute io l1 st1 w1 = (w', l', e)" using "1.prems" unfolding step by simp
        obtain new where new: "extends env (rx_spec ctx) l1 l' new"
            "e = None \<longrightarrow> new = [] \<and> ?max \<le> il_current_attempt_number l1
               \<or> new \<noteq> [] \<and> (la_decision (last new) = RD_RETRY \<longrightarrow> ?max \<le> il_current_attempt_number l')"
          using "1.IH" [OF True at [symmetric] Inr l1_def st1_def per [symmetric]] cont rest by auto
        have "extends env (rx_spec ctx) l l' (a # new)"
          using one new(1) cont by (cases "new = []") (auto simp: extends_def)
        then show ?thesis using new(2) new(1) cont by (intro exI [of _ "a # new"]) (auto simp: extends_def)
      qed
    qed
  qed
qed

lemma accept_requires:
  assumes "fst (refine_decide score p n) = RD_ACCEPT"
  shows "sc_guardrails_failed score = []"
    "sc_outcome score = EO_IMPROVED \<or> sc_outcome score = EO_NEUTRAL \<and> rfp_accept_on_neutral p"
  using assms by (auto simp: refine_decide_def Let_def split: if_splits)

lemma last_retry_impossible: "0 \<le> rfp_failure_penalty p \<Longrightarrow> rfp_max_attempts p \<le> n \<Longrightarrow> fst (refine_decide score p n) \<noteq> RD_RETRY"
  by (auto simp: refine_decide_def Let_def)

section \<open>Properties\<close>


text \<open>
  What an evaluation makes of a measured difference, with all guardrails passed: a worse metric is NEUTRAL, never
  REGRESSED, so it is accepted where neutral outcomes are, and REGRESSED stands for an improvement short of its target.
\<close>

theorem worse_metric_counts_as_neutral:
  assumes "ci_evaluate env spec ec = Some score" "sc_primary_delta score = Some d" "sc_guardrails_failed score = []"
  shows "let better = (if sm_direction (evs_primary_scoring spec) = ''lower_is_better'' then d < 0 else 0 < d);
       enough = (case sm_target_delta (evs_primary_scoring spec) of None \<Rightarrow> True
         | Some t \<Rightarrow> if sm_direction (evs_primary_scoring spec) = ''lower_is_better'' then d \<le> t else t \<le> d)
     in (sc_outcome score = EO_IMPROVED \<longleftrightarrow> better \<and> enough) \<and> (sc_outcome score = EO_REGRESSED \<longleftrightarrow> better \<and> \<not> enough)
       \<and> (sc_outcome score = EO_NEUTRAL \<longleftrightarrow> \<not> better)
       \<and> (\<not> better \<and> rfp_accept_on_neutral p \<longrightarrow> fst (refine_decide score p n) = RD_ACCEPT)"
proof -
  define better where "better = (if sm_direction (evs_primary_scoring spec) = ''lower_is_better'' then d < 0 else 0 < d)"
  define enough where "enough = (case sm_target_delta (evs_primary_scoring spec) of None \<Rightarrow> True
      | Some t \<Rightarrow> if sm_direction (evs_primary_scoring spec) = ''lower_is_better'' then d \<le> t else t \<le> d)"
  have o: "sc_outcome score = determine_outcome spec (Some d) []"
    using assms(1,2,3) by (auto simp: ci_evaluate_def Let_def split: option.splits)
  have "sc_outcome score = (if better \<and> enough then EO_IMPROVED else if \<not> better then EO_NEUTRAL else EO_REGRESSED)"
    unfolding o determine_outcome_def better_def enough_def by (auto simp: Let_def split: option.splits)
  then show ?thesis unfolding Let_def better_def [symmetric] enough_def [symmetric]
    using assms(3) by (auto simp: refine_decide_def)
qed

definition sample_ci_spec :: ci_spec where
  "sample_ci_spec = \<lparr>cis_strategy = \<lparr>is_principle = ''p'', is_constraints = [''fail_closed''], is_variation_hint = None\<rparr>,
     cis_evaluation = \<lparr>evs_primary_scoring = \<lparr>sm_metric = ''rate'', sm_direction = ''lower_is_better'', sm_baseline_value = Some 1,
        sm_target_delta = None\<rparr>, evs_secondary_scoring = [], evs_guardrails = [NO_RUNTIME_POLICY_WIDENING],
        evs_evaluation_command_hint = None, evs_evaluation_command = Some ''measure''\<rparr>,
     cis_refinement = \<lparr>rfp_max_attempts = 3, rfp_vary_strategy_on_retry = False, rfp_failure_penalty = 0, rfp_accept_on_neutral = True\<rparr>\<rparr>"

text \<open>The metric goes from 1 to 2, which is worse.\<close>

definition sample_ci_env :: ci_env where
  "sample_ci_env = \<lparr>ce_shell = (\<lambda>_ _. ProcExit 0 ''x'' (Some (JObj [(''rate'', JInt 2)]))), ce_eval_file = (\<lambda>_. NoEvalFile),
     ce_custodian = (\<lambda>_ _. CustodianMissing)\<rparr>"

definition sample_ec :: evaluation_context where
  "sample_ec = \<lparr>ec_attempt_number = 1, ec_evaluation_command = ''measure'', ec_validation_commands = [],
     ec_changed_file_paths = [''a.py''], ec_has_output_path = False\<rparr>"

lemma sample_score:
  "case ci_evaluate sample_ci_env (cis_evaluation sample_ci_spec) sample_ec of None \<Rightarrow> False
   | Some s \<Rightarrow> sc_primary_delta s = Some 1 \<and> sc_guardrails_failed s = []"
  by code_simp

theorem worse_metric_counts_as_neutral_witness:
  "\<exists>s. ci_evaluate sample_ci_env (cis_evaluation sample_ci_spec) sample_ec = Some s \<and> sc_primary_delta s = Some 1
     \<and> fst (refine_decide s (cis_refinement sample_ci_spec) 1) = RD_ACCEPT"
proof -
  obtain s where s: "ci_evaluate sample_ci_env (cis_evaluation sample_ci_spec) sample_ec = Some s"
      "sc_primary_delta s = Some 1" "sc_guardrails_failed s = []"
    using sample_score by (auto split: option.splits)
  then show ?thesis
    using worse_metric_counts_as_neutral [OF s, of "cis_refinement sample_ci_spec" 1] by (auto simp: sample_ci_spec_def)
qed

definition sample_ci_ctx :: ci_run_context where
  "sample_ci_ctx = \<lparr>rx_proposal_id = ''p'', rx_repo_path = ''/r'', rx_lineage_id = ''l'', rx_spec = sample_ci_spec,
     rx_validation_commands = [], rx_has_output_dir = False, rx_now = 0\<rparr>"

text \<open>A backend that counts its calls.\<close>

definition sample_backend :: "nat ci_execute" where
  "sample_backend n k strategy = (Suc n, Inr (''run'', [''a.py''], True))"

definition sample_ci_world :: "improvement_lineage option \<Rightarrow> nat ci_world" where
  "sample_ci_world l = \<lparr>cw_lineages = (case l of None \<Rightarrow> Map.empty | Some x \<Rightarrow> [lineage_path sample_ci_ctx \<mapsto> x]), cw_store = None, cw_backend = 0\<rparr>"

definition all_written :: "int \<Rightarrow> persist_io" where
  "all_written n = P_ok"

lemma sample_ci_run:
  "case snd (ci_run sample_ci_env sample_ci_ctx sample_backend all_written (sample_ci_world None)) of Inl _ \<Rightarrow> False
   | Inr r \<Rightarrow> cr_final_status r = RF_ACCEPTED \<and> cr_total_attempts r = 1"
  by code_simp


section \<open>Where the code departs from its documentation\<close>

text \<open>Resuming a lineage that has been accepted runs the backend again, as long as attempts are left.\<close>

definition accepted_lineage :: improvement_lineage where
  "accepted_lineage = \<lparr>il_lineage_id = ''l'', il_status = RF_ACCEPTED, il_current_attempt_number = 1,
     il_accepted_attempt_number = Some 1, il_attempts = []\<rparr>"

lemma accepted_lineage_runs_again:
  "cw_backend (fst (ci_run sample_ci_env sample_ci_ctx sample_backend all_written (sample_ci_world (Some accepted_lineage)))) = 1"
  by code_simp

text \<open>No decision leads to BUDGET_EXHAUSTED; running out of attempts ends as ABANDONED.\<close>

lemma budget_exhausted_never: "status_for_decision d \<noteq> RF_BUDGET_EXHAUSTED"
  by (cases d) simp_all

end
