(* ===== verification/Inflight_Reconcile.thy ===== *)
theory Inflight_Reconcile
  imports Usage_Decisions "HOL-Library.AList"
begin

text \<open>
  Closing leaked in-flight slots (\<open>in_flight_reconcile.py\<close>): a dispatch whose process died has an \<open>execution_started\<close> event
  in the usage file that nothing closes, and it counts against the concurrency caps. The sweep asks the board for the task of
  every open slot and records the missing end for the tasks that are gone or finished.

  The slots are the dictionary of the code as an association list in insertion order. A backend is a text, as every
  writer of the usage file records it. The board is the function \<open>fetch\<close>; free disk space at the write of a slot is
  \<open>free\<close>.
\<close>

section \<open>Task states\<close>

definition TERMINAL_STATES :: "string list" where
  "TERMINAL_STATES = [''done'', ''cancelled'', ''cancelled by operator'', ''closed'']"

text \<open>\<open>rep\<close> is \<open>str\<close> of a JSON value that is not a text.\<close>

definition state_name :: "(json \<Rightarrow> string) \<Rightarrow> json option \<Rightarrow> string" where
  "state_name rep state =
     (case state of
        Some (JObj kvs) \<Rightarrow>
          py_strip (case map_of kvs ''name'' of None \<Rightarrow> [] | Some (JStr s) \<Rightarrow> s | Some v \<Rightarrow> rep v)
      | Some (JStr s) \<Rightarrow> py_strip s
      | Some v \<Rightarrow> if truthy (Some v) then py_strip (rep v) else []
      | None \<Rightarrow> [])"

definition is_terminal :: "string \<Rightarrow> bool" where
  "is_terminal state = (py_lower state \<in> set TERMINAL_STATES)"

section \<open>Open slots\<close>

type_synonym slot_id = "string \<times> string"

definition slot_key :: "event \<Rightarrow> slot_id option" where
  "slot_key e = map_option (\<lambda>tid. (or_empty (str_of (jget e ''backend'')), tid)) (str_of (jget e ''task_id''))"

definition open_step :: "datetime \<Rightarrow> event \<Rightarrow> (slot_id \<times> event) list \<Rightarrow> (slot_id \<times> event) list" where
  "open_step cutoff e slots =
     (if \<not> retained cutoff e then slots
      else case slot_key e of
             None \<Rightarrow> slots
           | Some k \<Rightarrow>
               if kind_is ''execution_started'' e then AList.update k e slots
               else if kind_is ''execution_finished'' e then AList.delete k slots
               else slots)"

definition open_in_flight :: "event list \<Rightarrow> datetime \<Rightarrow> (slot_id \<times> event) list" where
  "open_in_flight events cutoff = fold (open_step cutoff) events []"

text \<open>What the board answers: the issue's state, an HTTP error status, or another failure.\<close>

datatype fetch_result = Issue "json option" | HttpStatusError int | FetchFailed

record orphaned_slot =
  os_task_id :: string
  os_backend :: string
  os_started_at :: "datetime option"
  os_reason :: fstring

definition orphan_reason :: "(json \<Rightarrow> string) \<Rightarrow> string \<Rightarrow> fetch_result \<Rightarrow> fstring option" where
  "orphan_reason rep task_id r =
     (case r of
        Issue state \<Rightarrow>
          (let s = state_name rep state
           in if is_terminal s then Some [FLit ''task '', FStr task_id, FLit '' is in terminal state '', FRepr s] else None)
      | HttpStatusError code \<Rightarrow>
          if code = 404
          then Some [FLit ''task '', FStr task_id, FLit '' not found in Plane (404: deleted or never created)''] else None
      | FetchFailed \<Rightarrow> None)"

definition find_orphaned_in_flight ::
  "(json \<Rightarrow> string) \<Rightarrow> (string \<Rightarrow> fetch_result) \<Rightarrow> usage_file \<Rightarrow> datetime \<Rightarrow> int \<Rightarrow> orphaned_slot list" where
  "find_orphaned_in_flight rep fetch file now window_hours =
     List.map_filter
       (\<lambda>((backend, task_id), e).
          map_option (\<lambda>reason. \<lparr>os_task_id = task_id, os_backend = backend, os_started_at = timestamp_of e, os_reason = reason\<rparr>)
            (orphan_reason rep task_id (fetch task_id)))
       (open_in_flight (ud_events (load file)) (now - td_hours window_hours))"

section \<open>The sweep\<close>

datatype clear_action = CA_applied | CA_error os_error | CA_would_apply

fun clear_slots ::
  "(slot_id \<Rightarrow> rat option) \<Rightarrow> bool \<Rightarrow> datetime \<Rightarrow> orphaned_slot list \<Rightarrow> usage_file
   \<Rightarrow> usage_file \<times> (orphaned_slot \<times> clear_action) list" where
  "clear_slots free do_apply now [] file = (file, [])"
| "clear_slots free do_apply now (s # ss) file =
     (let (file1, action) =
            (if do_apply then
               (case record_execution_finished (free (os_backend s, os_task_id s)) file (os_task_id s) (os_backend s) now of
                  Inl err \<Rightarrow> (file, CA_error err) | Inr file' \<Rightarrow> (file', CA_applied))
             else (file, CA_would_apply));
          (file2, rest) = clear_slots free do_apply now ss file1
      in (file2, (s, action) # rest))"

definition clear_orphaned_in_flight ::
  "(json \<Rightarrow> string) \<Rightarrow> (string \<Rightarrow> fetch_result) \<Rightarrow> (slot_id \<Rightarrow> rat option) \<Rightarrow> usage_file \<Rightarrow> datetime \<Rightarrow> bool \<Rightarrow> int
   \<Rightarrow> usage_file \<times> (orphaned_slot \<times> clear_action) list" where
  "clear_orphaned_in_flight rep fetch free file now do_apply window_hours =
     clear_slots free do_apply now (find_orphaned_in_flight rep fetch file now window_hours) file"

text \<open>The lock around the sweep at startup: taken, not taken in time, or not available at all.\<close>

datatype startup_lock = SL_acquired | SL_timeout | SL_failed

definition reconcile_in_flight_on_startup ::
  "(json \<Rightarrow> string) \<Rightarrow> (string \<Rightarrow> fetch_result) \<Rightarrow> (slot_id \<Rightarrow> rat option) \<Rightarrow> startup_lock \<Rightarrow> usage_file \<Rightarrow> datetime
   \<Rightarrow> usage_file \<times> (orphaned_slot \<times> clear_action) list" where
  "reconcile_in_flight_on_startup rep fetch free lock file now =
     (case lock of
        SL_acquired \<Rightarrow> clear_orphaned_in_flight rep fetch free file now True 24
      | _ \<Rightarrow> (file, []))"

section \<open>Laws\<close>

text \<open>The slots are the runs of the concurrency account, with the events that opened them.\<close>

lemma open_slots_distinct: "distinct (map fst slots) \<Longrightarrow> distinct (map fst (fold (open_step c) es slots))"
  by (induction es arbitrary: slots)
    (auto simp: open_step_def distinct_update distinct_delete split: option.split)

lemma open_in_flight_distinct: "distinct (map fst (open_in_flight es c))"
  by (simp add: open_in_flight_def open_slots_distinct)

lemma alist_delete_keys: "fst ` set (AList.delete k xs) = fst ` set xs - {k}"
  by (force simp: AList.delete_eq)

lemma open_slot_keys: "fst ` set (fold (open_step c) es slots) = fold (inflight_step slot_key c) es (fst ` set slots)"
proof (induction es arbitrary: slots)
  case (Cons e es)
  have "fst ` set (open_step c e slots) = inflight_step slot_key c e (fst ` set slots)"
    by (simp add: open_step_def inflight_step_def dom_update alist_delete_keys split: option.split)
  then show ?case using Cons.IH [of "open_step c e slots"] by simp
qed simp

lemma fold_open_retained:
  "c' \<le> c \<Longrightarrow> fold (open_step c) (filter (retained c') es) slots = fold (open_step c) es slots"
  by (induction es arbitrary: slots) (auto simp: open_step_def retained_def split: option.splits)

lemma finished_slot_key: "slot_key (finished_event tid b t) = Some (b, tid)"
  by (simp add: slot_key_def finished_event_def jget_def or_empty_def)

lemma open_step_finished: "c \<le> t \<Longrightarrow> open_step c (finished_event tid b t) slots = AList.delete (b, tid) slots"
  by (simp add: open_step_def finished_slot_key retained_stamped)

text \<open>The backend's account is a section of the slots.\<close>

lemma backend_key_slot: "b \<noteq> [] \<Longrightarrow> backend_run_key b e = (case slot_key e of Some (b', tid) \<Rightarrow> if b' = b then Some tid else None | None \<Rightarrow> None)"
  by (cases "jget e ''backend''") (auto simp: backend_run_key_def slot_key_def or_empty_def split: option.split)

lemma account_section:
  assumes "b \<noteq> []" and "S = {tid. (b, tid) \<in> T}"
  shows "fold (inflight_step (backend_run_key b) c) es S = {tid. (b, tid) \<in> fold (inflight_step slot_key c) es T}"
  using assms(2)
proof (induction es arbitrary: S T)
  case (Cons e es)
  have "inflight_step (backend_run_key b) c e S = {tid. (b, tid) \<in> inflight_step slot_key c e T}"
    using Cons.prems by (auto simp: inflight_step_def backend_key_slot [OF assms(1)] split: option.split)
  then show ?case using Cons.IH by simp
qed simp

lemma inflight_runs_open:
  assumes "b \<noteq> []" "length (ud_events (load file)) \<le> 1000"
  shows "inflight_runs file b now = {tid. (b, tid) \<in> fst ` set (open_in_flight (ud_events (load file)) (now - td_hours 24))}"
proof -
  let ?c = "now - td_hours 24" and ?es = "filter (retained (now - td_days 7)) (ud_events (load file))"
  have p: "pruned_events file now = ?es" using assms(2) by (simp add: pruned_events_def prune_small)
  have "fold (open_step ?c) ?es [] = open_in_flight (ud_events (load file)) ?c"
    unfolding open_in_flight_def by (rule fold_open_retained) (simp add: td_defs)
  then show ?thesis
    using account_section [OF assms(1), of "{}" "{}" ?c ?es] open_slot_keys [of ?c ?es "[]"]
    by (simp add: inflight_runs_def p)
qed

lemma clear_slots_events:
  assumes "clear_slots free True now ss f = (f', acts)" "\<forall>a \<in> set acts. snd a = CA_applied"
    "length (ud_events (load f)) + length ss \<le> 1000"
  shows "filter (retained (now - td_days 7)) (ud_events (load f')) =
      filter (retained (now - td_days 7)) (ud_events (load f)) @ map (\<lambda>s. finished_event (os_task_id s) (os_backend s) now) ss
    \<and> length (ud_events (load f')) \<le> length (ud_events (load f)) + length ss \<and> map fst acts = ss"
  using assms
proof (induction ss arbitrary: f f' acts)
  case (Cons s ss)
  let ?R = "retained (now - td_days 7)"
  obtain f1 where f1: "record_execution_finished (free (os_backend s, os_task_id s)) f (os_task_id s) (os_backend s) now = Inr f1"
    using Cons.prems(1,2) by (auto split: sum.splits prod.splits)
  obtain rest where r: "clear_slots free True now ss f1 = (f', rest)" "acts = (s, CA_applied) # rest"
    using Cons.prems(1) f1 by (auto split: prod.splits)
  have e1: "ud_events (load f1) = filter ?R (ud_events (load f)) @ [finished_event (os_task_id s) (os_backend s) now]"
    using w_finished.appender_events [OF f1] Cons.prems(3) le_trans [OF length_filter_le] by (simp add: le_trans [OF length_filter_le])
  then have len: "length (ud_events (load f1)) \<le> length (ud_events (load f)) + 1" by simp
  have "filter ?R (ud_events (load f1)) = filter ?R (ud_events (load f)) @ [finished_event (os_task_id s) (os_backend s) now]"
    by (simp add: e1 retained_stamped td_defs)
  then show ?case using Cons.IH [OF r(1)] Cons.prems(2,3) len r(2) by simp
qed simp

lemma clear_slots_length: "clear_slots free do_apply now ss f = (f', acts) \<Longrightarrow> length acts = length ss"
  by (induction ss arbitrary: f f' acts) (auto split: prod.splits sum.splits if_splits)

lemma delete_all: "fold (\<lambda>k. AList.delete k) ks slots = filter (\<lambda>p. fst p \<notin> set ks) slots"
  by (induction ks arbitrary: slots) (auto simp: AList.delete_eq case_prod_beta intro!: filter_cong)

lemma orphan_keys:
  "map (\<lambda>s. (os_backend s, os_task_id s)) (find_orphaned_in_flight rep fetch file now h) =
     map fst (filter (\<lambda>p. orphan_reason rep (snd (fst p)) (fetch (snd (fst p))) \<noteq> None)
       (open_in_flight (ud_events (load file)) (now - td_hours h)))"
proof -
  have "map (\<lambda>s. (os_backend s, os_task_id s)) (List.map_filter
       (\<lambda>((backend, task_id), e).
          map_option (\<lambda>reason. \<lparr>os_task_id = task_id, os_backend = backend, os_started_at = timestamp_of e, os_reason = reason\<rparr>)
            (orphan_reason rep task_id (fetch task_id))) slots)
     = map fst (filter (\<lambda>p. orphan_reason rep (snd (fst p)) (fetch (snd (fst p))) \<noteq> None) slots)" for slots
    by (induction slots) (auto simp: List.map_filter_simps split: option.split)
  then show ?thesis by (simp only: find_orphaned_in_flight_def)
qed

section \<open>Properties\<close>

text \<open>
  The sweep closes exactly the leaked slots: with the writes going through and room in the event list, the slots that
  are open afterwards are those that were open before and whose task the board still has in a state that is not
  terminal, in the same order and with the same start events; a second sweep finds nothing; and the concurrency
  account of every backend counts exactly the runs that are left.
\<close>

theorem sweep_closes_exactly_orphans:
  assumes "clear_orphaned_in_flight rep fetch free file now True 24 = (file', acts)"
    and "\<forall>a \<in> set acts. snd a = CA_applied"
    and "length (ud_events (load file)) + length acts \<le> 1000"
  shows "open_in_flight (ud_events (load file')) (now - td_hours 24) =
      filter (\<lambda>(k, e). orphan_reason rep (snd k) (fetch (snd k)) = None) (open_in_flight (ud_events (load file)) (now - td_hours 24))
    \<and> find_orphaned_in_flight rep fetch file' now 24 = []
    \<and> (\<forall>b. b \<noteq> [] \<longrightarrow> concurrent_runs_for_backend file' b now =
         int (card {tid \<in> inflight_runs file b now. orphan_reason rep tid (fetch tid) = None}))"
proof -
  let ?c = "now - td_hours 24" and ?R = "retained (now - td_days 7)" and ?orphans = "find_orphaned_in_flight rep fetch file now 24"
  let ?keep = "\<lambda>p. orphan_reason rep (snd (fst p)) (fetch (snd (fst p))) = None"
  let ?old = "open_in_flight (ud_events (load file)) ?c"
  note cl = assms(1) [unfolded clear_orphaned_in_flight_def]
  have acts: "length acts = length ?orphans"
    using clear_slots_length [OF cl] .
  note ev = clear_slots_events [OF cl assms(2) assms(3) [unfolded acts]]
  have c: "now - td_days 7 \<le> ?c" by (simp add: td_defs)
  have "fold (open_step ?c) (map (\<lambda>s. finished_event (os_task_id s) (os_backend s) now) ss) slots =
      fold (\<lambda>k. AList.delete k) (map (\<lambda>s. (os_backend s, os_task_id s)) ss) slots" for ss slots
    by (induction ss arbitrary: slots) (simp_all add: open_step_finished td_defs)
  then have "open_in_flight (ud_events (load file')) ?c =
      filter (\<lambda>p. fst p \<notin> set (map (\<lambda>s. (os_backend s, os_task_id s)) ?orphans)) ?old"
    unfolding open_in_flight_def fold_open_retained [OF c, of "ud_events (load file')", symmetric]
    by (simp add: ev fold_open_retained [OF c] delete_all del: map_map)
  also have "\<dots> = filter ?keep ?old"
    unfolding orphan_keys by (rule filter_cong) auto
  finally have slots: "open_in_flight (ud_events (load file')) ?c = filter ?keep ?old" .
  moreover have "find_orphaned_in_flight rep fetch file' now 24 = []"
  proof -
    have "filter (\<lambda>p. \<not> ?keep p) (filter ?keep ?old) = []" by (auto simp: filter_empty_conv)
    then have "map (\<lambda>s. (os_backend s, os_task_id s)) (find_orphaned_in_flight rep fetch file' now 24) = []"
      unfolding orphan_keys slots by simp
    then show ?thesis by simp
  qed
  moreover have "inflight_runs file' b now = {tid \<in> inflight_runs file b now. orphan_reason rep tid (fetch tid) = None}"
    if b: "b \<noteq> []" for b
    using ev assms(3) acts by (auto simp: inflight_runs_open [OF b] slots intro: rev_image_eqI)
  ultimately show ?thesis
    by (simp add: concurrent_runs_for_backend_def inflight_runs_def case_prod_unfold)
qed

definition sample_usage :: usage_file where
  "sample_usage = Some (empty_data\<lparr>ud_events :=
     [started_event ''t1'' ''team_executor'' 10, started_event ''t2'' ''team_executor'' 20, started_event ''t3'' ''aider'' 30]\<rparr>)"

fun sample_board :: "string \<Rightarrow> fetch_result" where
  "sample_board task_id =
     (if task_id = ''t1'' then Issue (Some (JObj [(''name'', JStr '' Done'')]))
      else if task_id = ''t3'' then HttpStatusError 404 else Issue (Some (JStr ''Running'')))"

theorem sweep_closes_exactly_orphans_witness:
  "\<exists>file' acts. clear_orphaned_in_flight (\<lambda>_. []) sample_board (\<lambda>_. None) sample_usage 100 True 24 = (file', acts)
     \<and> map (\<lambda>a. os_task_id (fst a)) acts = [''t1'', ''t3'']
     \<and> map fst (open_in_flight (ud_events (load file')) (100 - td_hours 24)) = [(''team_executor'', ''t2'')]
     \<and> concurrent_runs_for_backend file' ''team_executor'' 100 = 1"
proof -
  obtain file' acts where r: "clear_orphaned_in_flight (\<lambda>_. []) sample_board (\<lambda>_. None) sample_usage 100 True 24 = (file', acts)"
    by force
  have a: "map (\<lambda>a. (os_task_id (fst a), snd a)) acts = [(''t1'', CA_applied), (''t3'', CA_applied)]"
  proof -
    have "map (\<lambda>a. (os_task_id (fst a), snd a)) (snd (clear_orphaned_in_flight (\<lambda>_. []) sample_board (\<lambda>_. None) sample_usage 100 True 24))
        = [(''t1'', CA_applied), (''t3'', CA_applied)]" by code_simp
    then show ?thesis by (simp add: r)
  qed
  have "length acts = 2" using arg_cong [OF a, of length] by simp
  then have "length (ud_events (load sample_usage)) + length acts \<le> 1000" by (simp add: sample_usage_def load_def)
  moreover have "map snd acts = [CA_applied, CA_applied]" using arg_cong [OF a, of "map snd"] by (simp add: comp_def)
  then have "snd ` set acts = {CA_applied}" unfolding set_map [symmetric] by simp
  then have "\<forall>a \<in> set acts. snd a = CA_applied" by blast
  moreover have "filter (\<lambda>(k, e). orphan_reason (\<lambda>_. []) (snd k) (sample_board (snd k)) = None)
      (open_in_flight (ud_events (load sample_usage)) (100 - td_hours 24)) = [((''team_executor'', ''t2''), started_event ''t2'' ''team_executor'' 20)]"
    by code_simp
  moreover have "inflight_runs sample_usage ''team_executor'' 100 = {''t1'', ''t2''}"
  proof -
    have "map fst (open_in_flight (ud_events (load sample_usage)) (100 - td_hours 24)) =
        [(''team_executor'', ''t1''), (''team_executor'', ''t2''), (''aider'', ''t3'')]" by code_simp
    from arg_cong [OF this, of set] have "fst ` set (open_in_flight (ud_events (load sample_usage)) (100 - td_hours 24)) =
        {(''team_executor'', ''t1''), (''team_executor'', ''t2''), (''aider'', ''t3'')}" by simp
    then show ?thesis
      by (subst inflight_runs_open) (auto simp: sample_usage_def load_def)
  qed
  moreover have "{tid \<in> {''t1'', ''t2''}. orphan_reason (\<lambda>_. []) tid (sample_board tid) = None} = {''t2''}"
  proof -
    have "orphan_reason (\<lambda>_. []) ''t1'' (sample_board ''t1'') \<noteq> None" "orphan_reason (\<lambda>_. []) ''t2'' (sample_board ''t2'') = None"
      by code_simp+
    then show ?thesis by auto
  qed
  moreover have "map (\<lambda>a. os_task_id (fst a)) acts = [''t1'', ''t3'']" using arg_cong [OF a, of "map fst"] by (simp add: comp_def)
  ultimately show ?thesis
    using r sweep_closes_exactly_orphans [OF r] by (intro exI [of _ file'] exI [of _ acts]) simp
qed

text \<open>A sweep that reports only, and a startup that does not get the lock, leave the file alone.\<close>

lemma report_only_inert: "fst (clear_orphaned_in_flight rep fetch free file now False h) = file"
proof -
  have "fst (clear_slots free False now ss f) = f" for ss f by (induction ss) (auto split: prod.split)
  then show ?thesis by (simp add: clear_orphaned_in_flight_def)
qed

lemma startup_without_lock: "lock \<noteq> SL_acquired \<Longrightarrow> reconcile_in_flight_on_startup rep fetch free lock file now = (file, [])"
  by (cases lock) (simp_all add: reconcile_in_flight_on_startup_def)

end
