(* ===== verification/Schedules.thy ===== *)
theory Schedules
  imports Json_Values
begin

text \<open>
  Recurring work: the scheduled-task seeder (\<open>scheduled_tasks/runner.py\<close>) and the maintenance windows that pause autonomous
  execution (\<open>maintenance_windows.py\<close>).

  Times of day and weekdays are computed from the microseconds since the epoch, whose first day was a Thursday. The
  digest behind a task's key is the argument \<open>digest\<close>; the board is a client with a state of its own. The state
  file holds what \<open>tick\<close> writes, or text that \<open>json\<close> rejects.
\<close>

section \<open>Calendar\<close>

definition day_start :: "datetime \<Rightarrow> datetime" where
  "day_start t = t - t mod td_days 1"

definition weekday :: "datetime \<Rightarrow> int" where
  "weekday t = (t div td_days 1 + 3) mod 7"

definition hour_of :: "datetime \<Rightarrow> int" where
  "hour_of t = (t mod td_days 1) div td_hours 1"

text \<open>\<open>now.replace(hour=h, minute=m, second=0, microsecond=0)\<close>\<close>

definition replace_time :: "datetime \<Rightarrow> int \<Rightarrow> int \<Rightarrow> datetime" where
  "replace_time t h m = day_start t + td_hours h + td_seconds (60 * m)"

lemma hour_range: "0 \<le> hour_of t" "hour_of t < 24"
proof -
  let ?x = "t mod td_days 1"
  have "0 \<le> ?x" "?x \<le> 24 * td_hours 1 - 1" by (simp_all add: td_defs)
  then have "0 \<le> ?x div td_hours 1" "?x div td_hours 1 \<le> (24 * td_hours 1 - 1) div td_hours 1"
    by (simp_all add: td_defs zdiv_mono1 pos_imp_zdiv_nonneg_iff)
  then show "0 \<le> hour_of t" "hour_of t < 24" by (simp_all add: hour_of_def td_defs)
qed

section \<open>Maintenance windows\<close>

record maintenance_window =
  mw_days :: "int list"
  mw_start_hour :: int
  mw_end_hour :: int

definition window_active :: "datetime \<Rightarrow> maintenance_window \<Rightarrow> bool" where
  "window_active t w =
     (if mw_days w \<noteq> [] \<and> weekday t \<notin> set (mw_days w) then False
      else if mw_start_hour w = mw_end_hour w then False
      else if mw_start_hour w < mw_end_hour w then mw_start_hour w \<le> hour_of t \<and> hour_of t < mw_end_hour w
      else mw_start_hour w \<le> hour_of t \<or> hour_of t < mw_end_hour w)"

fun in_maintenance_window :: "maintenance_window list \<Rightarrow> datetime \<Rightarrow> bool" where
  "in_maintenance_window [] t = False"
| "in_maintenance_window (w # ws) t = (if window_active t w then True else in_maintenance_window ws t)"

section \<open>Parsing\<close>

text \<open>\<open>^\s*(\d+)\s*([mhdw])\s*$\<close>, ignoring case; \<^const>\<open>None\<close> is \<open>ValueError\<close>.\<close>

definition unit_seconds :: "char \<Rightarrow> int option" where
  "unit_seconds c =
     (let u = to_lower c
      in if u = CHR ''m'' then Some 60 else if u = CHR ''h'' then Some 3600
         else if u = CHR ''d'' then Some 86400 else if u = CHR ''w'' then Some 604800 else None)"

definition parse_every :: "string \<Rightarrow> int option" where
  "parse_every s =
     (let body = py_strip s
      in if body = [] then None
         else case unit_seconds (last body) of
                None \<Rightarrow> None
              | Some k \<Rightarrow>
                  (let num = rev (dropWhile is_space (rev (butlast body)))
                   in if num \<noteq> [] \<and> list_all is_digit num then Some (digits_val 0 num * k) else None))"

text \<open>\<open>^\s*(\d{1,2}):(\d{2})\s*$\<close>\<close>

definition parse_at :: "string \<Rightarrow> (int \<times> int) option" where
  "parse_at s =
     (let body = py_strip s; hh = takeWhile (\<lambda>c. c \<noteq> CHR '':'') body; rest = drop (length hh) body
      in if list_all is_digit hh \<and> length hh \<in> {1, 2} \<and> rest \<noteq> [] \<and> length rest = 3 \<and> list_all is_digit (tl rest)
         then (let h = digits_val 0 hh; m = digits_val 0 (tl rest)
               in if 0 \<le> h \<and> h \<le> 23 \<and> 0 \<le> m \<and> m \<le> 59 then Some (h, m) else None)
         else None)"

section \<open>Due tasks\<close>

record scheduled_task =
  sk_title :: string
  sk_goal :: string
  sk_repo_key :: string
  sk_kind :: string
  sk_every :: string
  sk_at :: "string option"
  sk_on_days :: "string list"

definition task_key :: "(string \<Rightarrow> string) \<Rightarrow> scheduled_task \<Rightarrow> string" where
  "task_key digest t = take 16 (digest (sk_title t @ ''|'' @ sk_repo_key t))"

definition DAY_NAMES :: "(string \<times> int) list" where
  "DAY_NAMES = [(''mon'', 0), (''tue'', 1), (''wed'', 2), (''thu'', 3), (''fri'', 4), (''sat'', 5), (''sun'', 6)]"

definition normalized_days :: "string list \<Rightarrow> string list" where
  "normalized_days ds = map (\<lambda>d. take 3 (py_lower (py_strip d))) (filter (\<lambda>d. d \<noteq> []) ds)"

definition is_due :: "scheduled_task \<Rightarrow> datetime option \<Rightarrow> datetime \<Rightarrow> int \<Rightarrow> bool" where
  "is_due t last_run now slack_seconds =
     (case parse_every (sk_every t) of
        None \<Rightarrow> False
      | Some interval \<Rightarrow>
          if (case last_run of Some l \<Rightarrow> now - l < td_seconds interval | None \<Rightarrow> False) then False
          else if sk_on_days t \<noteq> [] \<and> weekday now \<notin> set (List.map_filter (map_of DAY_NAMES) (normalized_days (sk_on_days t))) then False
          else if truthy_str (sk_at t) then
            (case parse_at (or_empty (sk_at t)) of
               None \<Rightarrow> False
             | Some (h, m) \<Rightarrow> \<bar>now - replace_time now h m\<bar> \<le> td_seconds slack_seconds)
          else True)"

text \<open>An entry of the state file is the ISO text of a time, or a text that is none.\<close>

datatype run_stamp = RanAt datetime | NotATime string

datatype schedule_file = SF_missing | SF_unreadable | SF_entries "(string \<times> run_stamp) list"

fun last_run_map :: "schedule_file \<Rightarrow> (string \<times> run_stamp) list" where
  "last_run_map (SF_entries es) = es"
| "last_run_map _ = []"

definition last_run_of :: "(string \<times> run_stamp) list \<Rightarrow> string \<Rightarrow> datetime option" where
  "last_run_of es k = (case map_of es k of Some (RanAt t) \<Rightarrow> Some t | _ \<Rightarrow> None)"

definition due_tasks :: "(string \<Rightarrow> string) \<Rightarrow> scheduled_task list \<Rightarrow> schedule_file \<Rightarrow> datetime \<Rightarrow> scheduled_task list" where
  "due_tasks digest tasks f now =
     filter (\<lambda>t. is_due t (last_run_of (last_run_map f) (task_key digest t)) now 300) tasks"

section \<open>The tick\<close>

record task_issue =
  ti_name :: string
  ti_description :: string
  ti_state :: string
  ti_labels :: "string list"

definition nl :: string where
  "nl = [CHR 0x0A]"

definition scheduled_issue :: "scheduled_task \<Rightarrow> task_issue" where
  "scheduled_issue t =
     \<lparr>ti_name = sk_title t,
      ti_description = ''## Goal'' @ nl @ sk_goal t @ nl @ nl @ ''## Execution'' @ nl @ ''repo: '' @ sk_repo_key t @ nl
        @ ''mode: '' @ sk_kind t @ nl @ nl @ ''## Provenance'' @ nl @ ''source: scheduled_tasks'' @ nl @ ''every: '' @ sk_every t @ nl,
      ti_state = ''Ready for AI'',
      ti_labels = [''task-kind: '' @ sk_kind t, ''repo: '' @ sk_repo_key t, ''source: scheduled-task'', ''source: autonomy'']\<rparr>"

text \<open>Creating an issue gives its id, the empty text when the answer has none, or raises.\<close>

type_synonym 'b issue_creator = "'b \<Rightarrow> task_issue \<Rightarrow> 'b \<times> string option"

fun create_due ::
  "(string \<Rightarrow> string) \<Rightarrow> 'b issue_creator \<Rightarrow> datetime \<Rightarrow> scheduled_task list \<Rightarrow> 'b \<Rightarrow> (string \<times> run_stamp) list
   \<Rightarrow> 'b \<times> (string \<times> run_stamp) list \<times> (scheduled_task \<times> string) list" where
  "create_due digest create now [] b es = (b, es, [])"
| "create_due digest create now (t # ts) b es =
     (case create b (scheduled_issue t) of
        (b', None) \<Rightarrow> create_due digest create now ts b' es
      | (b', Some new_id) \<Rightarrow>
          if new_id = [] then create_due digest create now ts b' es
          else (let (b'', es'', created) = create_due digest create now ts b' (AList.update (task_key digest t) (RanAt now) es)
                in (b'', es'', (t, new_id) # created)))"

text \<open>\<open>persists\<close> is \<^const>\<open>False\<close> when writing the state file raises \<open>OSError\<close>, which is logged.\<close>

definition tick ::
  "(string \<Rightarrow> string) \<Rightarrow> scheduled_task list \<Rightarrow> 'b issue_creator \<Rightarrow> bool \<Rightarrow> datetime \<Rightarrow> schedule_file \<times> 'b
   \<Rightarrow> (schedule_file \<times> 'b) \<times> (scheduled_task \<times> string) list" where
  "tick digest tasks create persists now s =
     (let due = due_tasks digest tasks (fst s) now
      in if due = [] then (s, [])
         else (let (b, es, created) = create_due digest create now due (snd s) (last_run_map (fst s))
               in ((if created \<noteq> [] \<and> persists then SF_entries es else fst s, b), created)))"

section \<open>Laws\<close>

lemma create_due_facts:
  assumes "create_due digest create now due b es = (b', es', created)"
  shows "subseq (map fst created) due"
    "map_of es' k = (if k \<in> (\<lambda>x. task_key digest (fst x)) ` set created then Some (RanAt now) else map_of es k)"
  using assms
proof (induction due arbitrary: b es b' es' created)
  case (Cons t ts)
  { case 1 then show ?case using Cons.IH(1) by (auto split: prod.splits option.splits if_splits) }
  { case 2 then show ?case using Cons.IH(2) by (auto simp: update_conv' split: prod.splits option.splits if_splits) }
qed simp_all

lemma due_task_waited:
  assumes "is_due t (Some l) now slack"
  obtains k where "parse_every (sk_every t) = Some k" "td_seconds k \<le> now - l"
  using assms by (auto simp: is_due_def split: option.splits if_splits)

lemma tick_facts:
  assumes "tick digest tasks create persists now (f, b) = ((f', b'), created)"
  shows "subseq (map fst created) (due_tasks digest tasks f now)"
    and "persists \<Longrightarrow> last_run_of (last_run_map f') k =
      (if k \<in> (\<lambda>x. task_key digest (fst x)) ` set created then Some now else last_run_of (last_run_map f) k)"
proof -
  show "subseq (map fst created) (due_tasks digest tasks f now)"
    using assms create_due_facts(1) by (auto simp: tick_def Let_def split: if_splits prod.splits)
  show "last_run_of (last_run_map f') k = (if k \<in> (\<lambda>x. task_key digest (fst x)) ` set created then Some now else last_run_of (last_run_map f) k)"
    if wr: persists
  proof (cases "due_tasks digest tasks f now = [] \<or> created = []")
    case True
    then show ?thesis using assms by (auto simp: tick_def Let_def split: if_splits prod.splits)
  next
    case False
    then obtain es where "create_due digest create now (due_tasks digest tasks f now) b (last_run_map f) = (b', es, created)"
        "f' = SF_entries es"
      using assms wr by (auto simp: tick_def Let_def split: if_splits prod.splits)
    then show ?thesis using create_due_facts(2) [of digest create now _ b _ b' es created k] by (simp add: last_run_of_def)
  qed
qed

text \<open>A sequence of ticks, with the tasks created and when, newest first.\<close>

fun ticks ::
  "(string \<Rightarrow> string) \<Rightarrow> scheduled_task list \<Rightarrow> 'b issue_creator \<Rightarrow> (datetime \<times> bool) list \<Rightarrow> schedule_file \<times> 'b
   \<Rightarrow> (scheduled_task \<times> datetime) list \<Rightarrow> (schedule_file \<times> 'b) \<times> (scheduled_task \<times> datetime) list" where
  "ticks digest tasks create [] s lg = (s, lg)"
| "ticks digest tasks create ((now, persists) # cs) s lg =
     (let (s', created) = tick digest tasks create persists now s
      in ticks digest tasks create cs s' (map (\<lambda>(t, _). (t, now)) (rev created) @ lg))"

definition apart :: "(string \<Rightarrow> string) \<Rightarrow> scheduled_task \<times> datetime \<Rightarrow> scheduled_task \<times> datetime \<Rightarrow> bool" where
  "apart digest x y =
     (task_key digest (fst x) = task_key digest (fst y) \<longrightarrow>
        (case parse_every (sk_every (fst x)) of Some k \<Rightarrow> td_seconds k \<le> snd x - snd y | None \<Rightarrow> False))"

definition stamped_after :: "(string \<Rightarrow> string) \<Rightarrow> schedule_file \<Rightarrow> (scheduled_task \<times> datetime) list \<Rightarrow> bool" where
  "stamped_after digest f lg =
     (\<forall>x \<in> set lg. case last_run_of (last_run_map f) (task_key digest (fst x)) of Some u \<Rightarrow> snd x \<le> u | None \<Rightarrow> False)"

lemma subseq_distinct: "subseq xs ys \<Longrightarrow> distinct ys \<Longrightarrow> distinct xs"
  by (metis distinct_nthsI subseq_conv_nths)

lemma tick_apart:
  assumes tick: "tick digest tasks create True now (f, b) = ((f', b'), created)"
    and inv: "sorted_wrt (apart digest) lg" "stamped_after digest f lg" "\<forall>x \<in> set lg. snd x \<le> now"
    and keys: "distinct (map (task_key digest) tasks)"
  defines "lg' \<equiv> map (\<lambda>(t, _). (t, now)) (rev created) @ lg"
  shows "sorted_wrt (apart digest) lg'" "stamped_after digest f' lg'" "\<forall>x \<in> set lg'. snd x \<le> now"
proof -
  note sub = tick_facts(1) [OF tick] and stamps = tick_facts(2) [OF tick]
  have "subseq (map fst created) tasks"
    using sub subseq_filter_left [of _ tasks] unfolding due_tasks_def by (metis subseq_order.order_trans)
  then have "subseq (map (task_key digest) (map fst created)) (map (task_key digest) tasks)" by (rule subseq_map)
  then have "distinct (map (task_key digest) (map fst created))" using keys subseq_distinct by blast
  then have new: "sorted_wrt (apart digest) (map (\<lambda>(t, _). (t, now)) (rev created))"
    by (simp add: sorted_wrt_map case_prod_beta apart_def distinct_conv_nth sorted_wrt_iff_nth_less rev_nth comp_def)
  have "apart digest (t, now) x" if t: "t \<in> fst ` set created" and x: "x \<in> set lg" for t x
  proof (cases "task_key digest t = task_key digest (fst x)")
    case True
    then obtain u where u: "last_run_of (last_run_map f) (task_key digest t) = Some u" "snd x \<le> u"
      using inv(2) x by (auto simp: stamped_after_def split: option.splits)
    have "set (map fst created) \<subseteq> set (due_tasks digest tasks f now)"
      using sub by (metis set_nths_subset subseq_conv_nths)
    then have "t \<in> set (due_tasks digest tasks f now)" using t by auto
    then have "is_due t (Some u) now 300" by (simp add: due_tasks_def u(1))
    then show ?thesis using u(2) by (elim due_task_waited) (simp add: apart_def)
  qed (simp add: apart_def)
  then show "sorted_wrt (apart digest) lg'"
    using new inv(1) by (auto simp: lg'_def sorted_wrt_append) (metis fst_conv imageI)
  show "stamped_after digest f' lg'"
    unfolding stamped_after_def
  proof
    fix x assume x: "x \<in> set lg'"
    show "case last_run_of (last_run_map f') (task_key digest (fst x)) of Some u \<Rightarrow> snd x \<le> u | None \<Rightarrow> False"
    proof (cases "task_key digest (fst x) \<in> (\<lambda>x. task_key digest (fst x)) ` set created")
      case True
      then show ?thesis using x inv(3) by (auto simp: stamps lg'_def)
    next
      case False
      then have "x \<in> set lg" using x by (auto simp: lg'_def intro: rev_image_eqI)
      then show ?thesis using False inv(2) by (simp add: stamps stamped_after_def)
    qed
  qed
  show "\<forall>x \<in> set lg'. snd x \<le> now" using inv(3) by (auto simp: lg'_def)
qed

lemma ticks_apart:
  assumes "ticks digest tasks create cs s lg = (s', lg')"
    and "sorted_wrt (apart digest) lg" "stamped_after digest (fst s) lg" "\<forall>x \<in> set lg. \<forall>c \<in> set cs. snd x \<le> fst c"
    and "distinct (map (task_key digest) tasks)" "sorted (map fst cs)" "\<forall>c \<in> set cs. snd c"
  shows "sorted_wrt (apart digest) lg' \<and> stamped_after digest (fst s') lg'"
  using assms
proof (induction cs arbitrary: s lg)
  case (Cons c cs)
  obtain now where c: "c = (now, True)" using Cons.prems(7) by (cases c) auto
  obtain f b where s: "s = (f, b)" by (cases s)
  obtain f1 b1 created where t: "tick digest tasks create True now (f, b) = ((f1, b1), created)"
    by (metis prod.collapse)
  let ?lg = "map (\<lambda>(t, _). (t, now)) (rev created) @ lg"
  have "\<forall>x \<in> set lg. snd x \<le> now" using Cons.prems(4) c by auto
  note step = tick_apart [OF t Cons.prems(2) _ this Cons.prems(5)]
  have "ticks digest tasks create cs (f1, b1) ?lg = (s', lg')" using Cons.prems(1) by (simp add: c s t)
  moreover have "\<forall>x \<in> set ?lg. \<forall>c' \<in> set cs. snd x \<le> fst c'"
    using step(3) Cons.prems(3,6) by (fastforce simp: c s)
  ultimately show ?case
    using Cons.IH step(1,2) Cons.prems(3,5,6,7) by (simp add: s)
qed simp

section \<open>Properties\<close>

text \<open>
  Scheduled tasks are not created too often: over any sequence of ticks in the order of time whose state file can be written,
  for a configuration without two tasks of the same key, two creations of the same task are at least its interval apart,
  whatever state file the sequence starts from, and the file has a stamp of every created task that is not older.
\<close>

theorem creations_keep_interval:
  assumes "ticks digest tasks create cs s [] = (s', lg)"
    and "distinct (map (task_key digest) tasks)" "sorted (map fst cs)" "\<forall>c \<in> set cs. snd c"
  shows "sorted_wrt (apart digest) lg \<and> stamped_after digest (fst s') lg"
  by (rule ticks_apart [OF assms(1)]) (use assms in \<open>simp_all add: stamped_after_def\<close>)

definition sample_task :: scheduled_task where
  "sample_task = \<lparr>sk_title = ''audit'', sk_goal = ''check'', sk_repo_key = ''core'', sk_kind = ''goal'', sk_every = ''1d'',
     sk_at = Some ''09:00'', sk_on_days = []\<rparr>"

definition sample_creator :: "nat issue_creator" where
  "sample_creator b i = (b + 1, Some (show_nat b))"

definition clock_at :: "int \<Rightarrow> int \<Rightarrow> int \<Rightarrow> int \<Rightarrow> datetime" where
  "clock_at d h m s = td_days d + td_hours h + td_seconds (60 * m + s)"

definition sample_clocks :: "(datetime \<times> bool) list" where
  "sample_clocks = [(clock_at 0 9 0 0, True), (clock_at 0 9 2 0, True), (clock_at 1 9 1 0, True)]"

theorem creations_keep_interval_witness:
  "\<exists>s' lg. ticks id [sample_task] sample_creator sample_clocks (SF_missing, 0) [] = (s', lg)
     \<and> map snd lg = [clock_at 1 9 1 0, clock_at 0 9 0 0] \<and> sorted_wrt (apart id) lg"
proof -
  obtain s' lg where r: "ticks id [sample_task] sample_creator sample_clocks (SF_missing, 0) [] = (s', lg)" by (metis prod.collapse)
  have "map snd (snd (ticks id [sample_task] sample_creator sample_clocks (SF_missing, 0) [])) = [clock_at 1 9 1 0, clock_at 0 9 0 0]"
    by code_simp
  moreover have "sorted (map fst sample_clocks)" by code_simp
  moreover have "\<forall>c \<in> set sample_clocks. snd c" by (simp add: sample_clocks_def)
  ultimately show ?thesis using r creations_keep_interval [OF r] by simp
qed

text \<open>
  A daily task with an anchor loses the day it drifts out of: when it last ran \<open>d\<close> after its anchor, the interval gate lets
  it run on the next day only from \<open>d\<close> after the anchor on, and the anchor gate only until five minutes after it. So the window
  shrinks from day to day, and a loop that does not poll inside it skips the day.
\<close>

theorem daily_anchor_window_shrinks:
  assumes "parse_every (sk_every t) = Some 86400" "parse_at (or_empty (sk_at t)) = Some (h, m)" "sk_on_days t = []"
    and "day_start now = day_start l + td_days 1"
    and "replace_time l h m \<le> l"
  shows "is_due t (Some l) now 300 \<longleftrightarrow> l + td_days 1 \<le> now \<and> now \<le> replace_time now h m + td_seconds 300"
proof -
  have at: "truthy_str (sk_at t)"
    using assms(2) by (cases "sk_at t") (auto simp: truthy_str_def or_empty_def parse_at_def py_strip_def)
  have "replace_time now h m = replace_time l h m + td_days 1" using assms(4) by (simp add: replace_time_def)
  then show ?thesis using assms(1-3,5) at by (auto simp: is_due_def td_defs abs_le_iff)
qed

theorem daily_anchor_window_shrinks_witness:
  "\<not> is_due sample_task (Some (clock_at 0 9 4 30)) (clock_at 1 9 3 0) 300
   \<and> \<not> is_due sample_task (Some (clock_at 0 9 4 30)) (clock_at 1 9 6 0) 300
   \<and> is_due sample_task (Some (clock_at 0 9 4 30)) (clock_at 1 9 4 45) 300"
proof -
  have "parse_every (sk_every sample_task) = Some 86400" "parse_at (or_empty (sk_at sample_task)) = Some (9, 0)" by code_simp+
  moreover have "sk_on_days sample_task = []" by (simp add: sample_task_def)
  moreover have "day_start (clock_at 1 9 3 0) = day_start (clock_at 0 9 4 30) + td_days 1"
      "day_start (clock_at 1 9 6 0) = day_start (clock_at 0 9 4 30) + td_days 1"
      "day_start (clock_at 1 9 4 45) = day_start (clock_at 0 9 4 30) + td_days 1"
      "replace_time (clock_at 1 9 3 0) 9 0 = clock_at 1 9 0 0" "replace_time (clock_at 1 9 6 0) 9 0 = clock_at 1 9 0 0"
      "replace_time (clock_at 1 9 4 45) 9 0 = clock_at 1 9 0 0" by code_simp+
  moreover have "replace_time (clock_at 0 9 4 30) 9 0 \<le> clock_at 0 9 4 30" by code_simp
  ultimately show ?thesis
    using daily_anchor_window_shrinks [of sample_task 9 0 "clock_at 1 9 3 0" "clock_at 0 9 4 30"]
      daily_anchor_window_shrinks [of sample_task 9 0 "clock_at 1 9 6 0" "clock_at 0 9 4 30"]
      daily_anchor_window_shrinks [of sample_task 9 0 "clock_at 1 9 4 45" "clock_at 0 9 4 30"]
    by (simp add: clock_at_def td_defs)
qed

lemma arc_mod:
  fixes h a b :: int
  assumes "0 \<le> h" "h < 24" "0 \<le> a" "a < 24" "0 \<le> b" "b < 24"
  shows "(h - a) mod 24 < (b - a) mod 24 \<longleftrightarrow> (if a = b then False else if a < b then a \<le> h \<and> h < b else a \<le> h \<or> h < b)"
proof -
  have m: "(x - a) mod 24 = (if a \<le> x then x - a else x - a + 24)" if "0 \<le> x" "x < 24" for x
  proof (cases "a \<le> x")
    case False
    have "(x - a) mod 24 = (x - a + 24) mod 24" by simp
    also have "\<dots> = x - a + 24" by (rule mod_pos_pos_trivial) (use False that assms(3,4) in simp_all)
    finally show ?thesis using False by simp
  qed (use that assms(3,4) in \<open>simp add: mod_pos_pos_trivial\<close>)
  show ?thesis using assms by (auto simp: m)
qed

text \<open>
  With hours of the day from 0 to 23 a window is the arc of the clock from its start to its end, wrapping midnight or not, on the
  listed weekdays, and execution is paused exactly in the union of the windows.
\<close>

theorem maintenance_windows_are_arcs:
  assumes "\<forall>w \<in> set ws. 0 \<le> mw_start_hour w \<and> mw_start_hour w < 24 \<and> 0 \<le> mw_end_hour w \<and> mw_end_hour w < 24"
  shows "in_maintenance_window ws t \<longleftrightarrow>
    (\<exists>w \<in> set ws. (mw_days w = [] \<or> weekday t \<in> set (mw_days w))
       \<and> (hour_of t - mw_start_hour w) mod 24 < (mw_end_hour w - mw_start_hour w) mod 24)"
  using assms by (induction ws) (auto simp: window_active_def arc_mod hour_range)

theorem maintenance_windows_are_arcs_witness:
  "in_maintenance_window [\<lparr>mw_days = [3], mw_start_hour = 22, mw_end_hour = 4\<rparr>] (clock_at 0 23 0 0)
   \<and> \<not> in_maintenance_window [\<lparr>mw_days = [3], mw_start_hour = 22, mw_end_hour = 4\<rparr>] (clock_at 1 2 0 0)"
proof -
  have "weekday (clock_at 0 23 0 0) = 3" "weekday (clock_at 1 2 0 0) = 4" "hour_of (clock_at 0 23 0 0) = 23" by code_simp+
  then show ?thesis
    by (subst (1 2) maintenance_windows_are_arcs) simp_all
qed

end
