(* ===== verification/Board.thy ===== *)
theory Board
  imports OC_Prelude
begin

text \<open>
  The task board as its workers use it: issues with their labels (\<open>board_worker/labels.py\<close>), the calls of the board client,
  and the ceilings on fleet-created work (\<open>board_worker/work_ceiling.py\<close>).

  The board is a service: its state is a list of issues and comments, and its client's calls do what their names say or
  raise. Which calls raise is the function \<open>bd_fails\<close> of the running number of the call, and the ids it gives are
  \<open>bd_new_id\<close> of that number, so every pattern of failures is covered. An issue a worker holds is a copy: the functions
  return it with the labels they wrote. A label is a text or an object with an optional name.
\<close>

section \<open>Labels\<close>

datatype label = LabelText string | LabelObj "string option"

fun label_name :: "label \<Rightarrow> string" where
  "label_name (LabelText s) = py_strip s"
| "label_name (LabelObj n) = py_strip (or_empty n)"

text \<open>\<open>name.split('':'', 1)[1]\<close> of a name with a colon.\<close>

definition after_colon :: "string \<Rightarrow> string" where
  "after_colon name = tl (dropWhile (\<lambda>c. c \<noteq> CHR '':'') name)"

fun label_value :: "label list \<Rightarrow> string \<Rightarrow> string" where
  "label_value [] p = []"
| "label_value (l # ls) p =
     (if prefix (py_lower p @ '':'') (py_lower (label_name l)) then py_strip (after_colon (label_name l)) else label_value ls p)"

definition has_label :: "label list \<Rightarrow> string \<Rightarrow> bool" where
  "has_label ls v = list_ex (\<lambda>l. py_lower (label_name l) = py_lower v) ls"

text \<open>\<open>int(s)\<close>: an optional sign, digits, single underscores between digits; \<^const>\<open>None\<close> is \<open>ValueError\<close>.\<close>

fun underscores_ok :: "bool \<Rightarrow> string \<Rightarrow> bool" where
  "underscores_ok after_digit [] = after_digit"
| "underscores_ok after_digit (c # cs) =
     (if is_digit c then underscores_ok True cs else c = CHR ''_'' \<and> after_digit \<and> underscores_ok False cs)"

definition label_int :: "string \<Rightarrow> int option" where
  "label_int s =
     (let body = py_strip s; neg = (body \<noteq> [] \<and> hd body = CHR ''-'');
          ds = (if body \<noteq> [] \<and> hd body \<in> {CHR ''-'', CHR ''+''} then tl body else body)
      in if underscores_ok False ds
         then Some ((if neg then uminus else id) (digits_val 0 (filter is_digit ds))) else None)"

fun count_from_labels :: "label list \<Rightarrow> string \<Rightarrow> int" where
  "count_from_labels [] p = 0"
| "count_from_labels (l # ls) p =
     (let name = py_lower (label_name l)
      in if prefix (py_lower p) name then (case label_int (after_colon name) of Some n \<Rightarrow> n | None \<Rightarrow> 0)
         else count_from_labels ls p)"

definition retry_count_from_labels :: "label list \<Rightarrow> int" where
  "retry_count_from_labels ls = count_from_labels ls ''retry-count:''"

definition code_failure_count_from_labels :: "label list \<Rightarrow> int" where
  "code_failure_count_from_labels ls = count_from_labels ls ''code-fail-count:''"

section \<open>Issues\<close>

datatype issue_state = NoState | StateText string | StateObj "string option"

text \<open>A time of the board: the text of an aware time, or a text that is none. A creator: a text, an object, or absent.\<close>

datatype iso_text = Iso datetime | NotIso string

datatype actor = NoActor | ActorText string | ActorObj "string option list"

record issue =
  is_id :: string
  is_name :: string
  is_description :: string
  is_state :: issue_state
  is_labels :: "label list"
  is_priority :: "string option"
  is_created_at :: string
  is_updated_at :: iso_text
  is_actors :: "actor list"

text \<open>\<open>(st.get("name", "") if isinstance(st, dict) else str(st or "")).strip()\<close>\<close>

fun state_text :: "issue_state \<Rightarrow> string" where
  "state_text NoState = []"
| "state_text (StateText s) = py_strip s"
| "state_text (StateObj n) = py_strip (or_empty n)"

definition STATE_READY :: string where "STATE_READY = ''Ready for AI''"
definition STATE_RUNNING :: string where "STATE_RUNNING = ''Running''"
definition STATE_DONE :: string where "STATE_DONE = ''Done''"
definition STATE_BLOCKED :: string where "STATE_BLOCKED = ''Blocked''"
definition STATE_REVIEW :: string where "STATE_REVIEW = ''In Review''"

definition LIFECYCLE_EXPANDED :: string where "LIFECYCLE_EXPANDED = ''lifecycle: expanded''"

definition BLOCKED_REASON_LABELS :: "string list" where
  "BLOCKED_REASON_LABELS = [''blocked-reason: policy'', ''blocked-reason: backend-capacity'']"

definition ROLE_KINDS :: "string \<Rightarrow> string list" where
  "ROLE_KINDS role =
     (if role = ''goal'' then [''goal'']
      else if role = ''test'' then [''test'', ''test_campaign'']
      else if role = ''improve'' then [''improve'', ''improve_campaign'']
      else if role = ''spec-author'' then [''spec-author''] else [])"

definition issue_label_names :: "issue \<Rightarrow> string list" where
  "issue_label_names i = filter (\<lambda>n. n \<noteq> []) (map label_name (is_labels i))"

definition store_label_names :: "issue \<Rightarrow> string list \<Rightarrow> issue" where
  "store_label_names i names = i\<lparr>is_labels := map LabelText names\<rparr>"

fun actor_identities :: "actor \<Rightarrow> string list" where
  "actor_identities NoActor = []"
| "actor_identities (ActorText s) = [s]"
| "actor_identities (ActorObj vs) = map or_empty (filter truthy_str vs)"

definition issue_author_identities :: "issue \<Rightarrow> string list" where
  "issue_author_identities i = concat (map actor_identities (is_actors i))"

section \<open>The board client\<close>

record board =
  bd_issues :: "issue list"
  bd_comments :: "(string \<times> string) list"
  bd_calls :: nat
  bd_fails :: "nat \<Rightarrow> bool"
  bd_new_id :: "nat \<Rightarrow> string"

definition api_call :: "(board \<Rightarrow> board) \<Rightarrow> board \<Rightarrow> board \<times> bool" where
  "api_call effect b =
     (let b' = b\<lparr>bd_calls := bd_calls b + 1\<rparr> in if bd_fails b (bd_calls b) then (b', False) else (effect b', True))"

definition on_issue :: "string \<Rightarrow> (issue \<Rightarrow> issue) \<Rightarrow> board \<Rightarrow> board" where
  "on_issue task_id f b = b\<lparr>bd_issues := map (\<lambda>i. if is_id i = task_id then f i else i) (bd_issues b)\<rparr>"

definition transition_issue :: "board \<Rightarrow> string \<Rightarrow> string \<Rightarrow> board \<times> bool" where
  "transition_issue b task_id st = api_call (on_issue task_id (\<lambda>i. i\<lparr>is_state := StateObj (Some st)\<rparr>)) b"

definition comment_issue :: "board \<Rightarrow> string \<Rightarrow> string \<Rightarrow> board \<times> bool" where
  "comment_issue b task_id t = api_call (\<lambda>b. b\<lparr>bd_comments := bd_comments b @ [(task_id, t)]\<rparr>) b"

definition update_issue_labels :: "board \<Rightarrow> string \<Rightarrow> string list \<Rightarrow> board \<times> bool" where
  "update_issue_labels b task_id names = api_call (on_issue task_id (\<lambda>i. store_label_names i names)) b"

definition new_issue :: "string \<Rightarrow> string \<Rightarrow> string \<Rightarrow> string \<Rightarrow> string list \<Rightarrow> issue" where
  "new_issue new_id name description st names =
     \<lparr>is_id = new_id, is_name = name, is_description = description, is_state = StateObj (Some st),
      is_labels = map LabelText names, is_priority = None, is_created_at = [], is_updated_at = NotIso [], is_actors = []\<rparr>"

definition create_issue :: "board \<Rightarrow> string \<Rightarrow> string \<Rightarrow> string \<Rightarrow> string list \<Rightarrow> board \<times> string option" where
  "create_issue b name description st names =
     (let new_id = bd_new_id b (bd_calls b);
          (b', ok) = api_call (\<lambda>b. b\<lparr>bd_issues := bd_issues b @ [new_issue new_id name description st names]\<rparr>) b
      in (b', if ok then Some new_id else None))"

definition list_issues :: "board \<Rightarrow> board \<times> issue list option" where
  "list_issues b = (let (b', ok) = api_call id b in (b', if ok then Some (bd_issues b) else None))"

definition fetch_issue :: "board \<Rightarrow> string \<Rightarrow> board \<times> issue option" where
  "fetch_issue b task_id =
     (let (b', ok) = api_call id b in (b', if ok then List.find (\<lambda>i. is_id i = task_id) (bd_issues b) else None))"

section \<open>Writing labels\<close>

text \<open>The label helpers swallow the client's exception; the copy is only updated when the call went through.\<close>

definition write_labels :: "board \<Rightarrow> issue \<Rightarrow> string list \<Rightarrow> board \<times> issue" where
  "write_labels b i names =
     (let (b', ok) = update_issue_labels b (is_id i) names in (b', if ok then store_label_names i names else i))"

definition add_label :: "board \<Rightarrow> issue \<Rightarrow> string \<Rightarrow> board \<times> issue" where
  "add_label b i new_label =
     (let existing = issue_label_names i in if new_label \<in> set existing then (b, i) else write_labels b i (existing @ [new_label]))"

definition remove_labels :: "board \<Rightarrow> issue \<Rightarrow> string list \<Rightarrow> board \<times> issue" where
  "remove_labels b i labels_to_remove =
     (let existing = issue_label_names i;
          filtered = filter (\<lambda>l. py_lower l \<notin> py_lower ` set labels_to_remove) existing
      in if filtered = existing then (b, i) else write_labels b i filtered)"

definition clear_blocked_reason_labels :: "board \<Rightarrow> issue \<Rightarrow> board \<times> issue" where
  "clear_blocked_reason_labels b i = remove_labels b i BLOCKED_REASON_LABELS"

text \<open>The current count is that of the last counter label that parses.\<close>

definition counter_step :: "string \<Rightarrow> string \<Rightarrow> int \<Rightarrow> int" where
  "counter_step p l current =
     (if prefix (py_lower p) (py_lower l) then (case label_int (after_colon l) of Some n \<Rightarrow> n | None \<Rightarrow> current) else current)"

definition increment_count_label :: "board \<Rightarrow> issue \<Rightarrow> string \<Rightarrow> board \<times> issue" where
  "increment_count_label b i p =
     (let existing = issue_label_names i; current = fold (counter_step p) existing 0
      in write_labels b i (filter (\<lambda>l. \<not> prefix (py_lower p) (py_lower l)) existing @ [p @ '' '' @ show_int (current + 1)]))"

definition increment_retry_count :: "board \<Rightarrow> issue \<Rightarrow> board \<times> issue" where
  "increment_retry_count b i = increment_count_label b i ''retry-count:''"

definition increment_code_failure_count :: "board \<Rightarrow> issue \<Rightarrow> board \<times> issue" where
  "increment_code_failure_count b i = increment_count_label b i ''code-fail-count:''"

section \<open>Ceilings\<close>

definition FLEET_ORIGIN_PREFIXES :: "string list" where
  "FLEET_ORIGIN_PREFIXES = [''source: board_worker'', ''source: autonomy'', ''source: improve'']"

definition FLEET_ORIGIN_LABEL_KEYS :: "string list" where
  "FLEET_ORIGIN_LABEL_KEYS = [''original-task-id'', ''handoff-reason'', ''lineage-id'']"

definition is_fleet_created :: "issue \<Rightarrow> bool" where
  "is_fleet_created i =
     (list_ex (\<lambda>l. list_ex (\<lambda>p. prefix p (py_lower (label_name l))) FLEET_ORIGIN_PREFIXES) (is_labels i)
      \<or> list_ex (\<lambda>key. label_value (is_labels i) key \<noteq> []) FLEET_ORIGIN_LABEL_KEYS)"

definition is_open :: "issue \<Rightarrow> bool" where
  "is_open i = (py_lower (state_text (is_state i)) \<notin> {''done'', ''cancelled'', ''canceled''})"

definition fleet_open_work_count :: "issue list \<Rightarrow> int" where
  "fleet_open_work_count is = int (length (filter (\<lambda>i. is_open i \<and> is_fleet_created i) is))"

definition open_descendants_of_root :: "issue list \<Rightarrow> string \<Rightarrow> int" where
  "open_descendants_of_root is lineage =
     int (length (filter (\<lambda>i. is_open i
       \<and> list_ex (\<lambda>l. py_lower (label_name l) = py_lower (''lineage-root: '' @ lineage)) (is_labels i)) is))"

text \<open>Both ceilings are off at 0 and do not throttle when the board cannot be read.\<close>

definition root_descendant_cap_reached :: "board \<Rightarrow> int \<Rightarrow> string \<Rightarrow> board \<times> bool" where
  "root_descendant_cap_reached b cap lineage =
     (if cap \<le> 0 \<or> lineage = [] then (b, False)
      else case list_issues b of
             (b', None) \<Rightarrow> (b', False)
           | (b', Some is) \<Rightarrow> (b', cap \<le> open_descendants_of_root is lineage))"

definition ceiling_reached :: "board \<Rightarrow> int \<Rightarrow> board \<times> bool" where
  "ceiling_reached b cap =
     (if cap \<le> 0 then (b, False)
      else case list_issues b of
             (b', None) \<Rightarrow> (b', False)
           | (b', Some is) \<Rightarrow> (b', cap \<le> fleet_open_work_count is))"

section \<open>Laws\<close>

text \<open>Printing and reading a counter.\<close>

lemma is_digit_char: "n < 10 \<Longrightarrow> is_digit (char_of (48 + n)) \<and> digit_val (char_of (48 + n)) = int n"
  for n :: nat
proof -
  assume "n < 10"
  then have c: "(of_char (char_of (48 + n) :: char) :: nat) = 48 + n" by simp
  then have "(of_char (char_of (48 + n) :: char) :: int) = int (48 + n)" by (metis of_nat_of_char)
  then show ?thesis using \<open>n < 10\<close> c by (simp add: is_digit_def digit_val_def Let_def)
qed

lemma digits_val_append: "digits_val acc (xs @ ys) = digits_val (digits_val acc xs) ys"
  by (induction xs arbitrary: acc) simp_all

lemma show_nat_digits: "show_nat n \<noteq> [] \<and> list_all is_digit (show_nat n) \<and> digits_val 0 (show_nat n) = int n"
proof (induction n rule: show_nat.induct)
  case (1 n)
  have "char_of (48 + n mod 10) = (char_of (48 + n mod 10) :: char)" ..
  show ?case
  proof (cases "n < 10")
    case True
    then show ?thesis using is_digit_char [of n] by (simp add: show_nat.simps)
  next
    case False
    then have "int n = 10 * int (n div 10) + int (n mod 10)" by presburger
    then show ?thesis using 1 [OF False] False is_digit_char [of "n mod 10"]
      by (subst (1 2 3) show_nat.simps) (simp add: digits_val_append)
  qed
qed

lemma digit_no_space: "is_digit c \<Longrightarrow> \<not> is_space c \<and> c \<noteq> CHR ''-'' \<and> c \<noteq> CHR ''+'' \<and> to_lower c = c"
  by (auto simp: is_digit_def is_space_def to_lower_def Let_def)

lemma underscores_digits: "list_all is_digit ds \<Longrightarrow> underscores_ok True ds" "list_all is_digit ds \<Longrightarrow> ds \<noteq> [] \<Longrightarrow> underscores_ok False ds"
proof -
  show *: "underscores_ok True ds" if "list_all is_digit ds" for ds using that by (induction ds) auto
  show "underscores_ok False ds" if "list_all is_digit ds" "ds \<noteq> []" using that * by (cases ds) auto
qed

lemma strip_word: "xs \<noteq> [] \<Longrightarrow> \<not> is_space (hd xs) \<Longrightarrow> \<not> is_space (last xs) \<Longrightarrow> py_strip (CHR '' '' # xs) = xs \<and> py_strip xs = xs"
proof -
  assume a: "xs \<noteq> []" "\<not> is_space (hd xs)" "\<not> is_space (last xs)"
  then have "dropWhile is_space xs = xs" "dropWhile is_space (rev xs) = rev xs"
    by (cases xs, simp_all) (cases xs rule: rev_cases, simp_all)
  moreover have "is_space (CHR '' '')" by (simp add: is_space_def)
  ultimately show ?thesis by (simp add: py_strip_def)
qed

lemma show_int_word:
  "show_int n \<noteq> [] \<and> \<not> is_space (hd (show_int n)) \<and> \<not> is_space (last (show_int n)) \<and> py_lower (show_int n) = show_int n"
proof -
  have d: "\<not> is_space (hd (show_nat k)) \<and> \<not> is_space (last (show_nat k)) \<and> py_lower (show_nat k) = show_nat k \<and> show_nat k \<noteq> []" for k
    using show_nat_digits [of k] digit_no_space
    by (auto simp: py_lower_def list_all_iff map_idI)
  show ?thesis
  proof (cases "n < 0")
    case True
    have "\<not> is_space (CHR ''-'')" "to_lower (CHR ''-'') = CHR ''-''" by (simp_all add: is_space_def to_lower_def)
    then show ?thesis using True d [of "nat (- n)"] by (simp add: show_int_def py_lower_def)
  next
    case False
    then show ?thesis using d [of "nat n"] by (simp add: show_int_def)
  qed
qed

lemma label_int_show: "label_int (CHR '' '' # show_int n) = Some n"
proof -
  have s: "py_strip (CHR '' '' # show_int n) = show_int n" using show_int_word strip_word by blast
  have f: "filter is_digit (show_nat k) = show_nat k" for k
    using show_nat_digits [of k] by (simp add: list_all_iff)
  have u: "underscores_ok False (show_nat k)" for k using show_nat_digits [of k] underscores_digits by blast
  show ?thesis
  proof (cases "n < 0")
    case True
    then show ?thesis using show_nat_digits [of "nat (- n)"]
      by (simp add: label_int_def s Let_def) (simp add: show_int_def f u)
  next
    case False
    moreover have "hd (show_nat (nat n)) \<notin> {CHR ''-'', CHR ''+''}"
      using show_nat_digits [of "nat n"] digit_no_space by (cases "show_nat (nat n)") auto
    ultimately show ?thesis using show_nat_digits [of "nat n"]
      by (simp add: label_int_def s Let_def) (simp add: show_int_def f u)
  qed
qed

text \<open>A counter's label prefix: lower case, starting with a letter, with one colon, at its end.\<close>

definition counter_prefix :: "string \<Rightarrow> bool" where
  "counter_prefix p = (p \<noteq> [] \<and> \<not> is_space (hd p) \<and> py_lower p = p \<and> last p = CHR '':'' \<and> CHR '':'' \<notin> set (butlast p))"

lemma counter_prefixes [simp]: "counter_prefix ''retry-count:''" "counter_prefix ''code-fail-count:''"
  by (simp_all add: counter_prefix_def is_space_def py_lower_def to_lower_def)

lemma py_lower_append [simp]: "py_lower (a @ b) = py_lower a @ py_lower b"
  by (simp add: py_lower_def)

lemma py_lower_idem [simp]: "py_lower (py_lower s) = py_lower s"
proof -
  have "to_lower (to_lower c) = to_lower c" for c
    by (cases "65 \<le> (of_char c :: nat) \<and> (of_char c :: nat) \<le> 90") (auto simp: to_lower_def Let_def)
  then show ?thesis by (simp add: py_lower_def)
qed

lemma py_strip_ends: "py_strip s = [] \<or> \<not> is_space (hd (py_strip s)) \<and> \<not> is_space (last (py_strip s))"
proof (cases "py_strip s = []")
  case False
  let ?r = "rev (dropWhile is_space s)"
  have ne: "dropWhile is_space ?r \<noteq> []" using False by (simp add: py_strip_def)
  then have "\<not> is_space (hd (dropWhile is_space ?r))" by (rule hd_dropWhile)
  moreover have "hd (py_strip s) = hd (dropWhile is_space s)"
  proof -
    obtain u where "dropWhile is_space s = py_strip s @ u"
      unfolding py_strip_def by (metis rev_append rev_rev_ident takeWhile_dropWhile_id)
    then show ?thesis using False by (metis hd_append2)
  qed
  moreover have "dropWhile is_space s \<noteq> []" using ne by (metis dropWhile.simps(1) rev.simps(1))
  then have "\<not> is_space (hd (dropWhile is_space s))" by (rule hd_dropWhile)
  ultimately show ?thesis using ne by (simp add: py_strip_def last_rev)
qed simp

lemma py_strip_idem [simp]: "py_strip (py_strip s) = py_strip s"
proof (cases "py_strip s = []")
  case True
  then show ?thesis unfolding True by (simp add: py_strip_def)
qed (use py_strip_ends [of s] strip_word [of "py_strip s"] in blast)

lemma label_name_stripped [simp]: "py_strip (label_name l) = label_name l"
  by (cases l) simp_all

lemma label_name_counter:
  "p \<noteq> [] \<Longrightarrow> \<not> is_space (hd p) \<Longrightarrow> label_name (LabelText (p @ '' '' @ show_int n)) = p @ '' '' @ show_int n"
  using show_int_word [of n] strip_word [of "p @ '' '' @ show_int n"] by simp

lemma after_colon_counter: "counter_prefix p \<Longrightarrow> after_colon (p @ x) = x"
  by (cases p rule: rev_cases) (auto simp: counter_prefix_def after_colon_def dropWhile_append)

lemma count_new_label:
  assumes "counter_prefix p"
  shows "count_from_labels (LabelText (p @ '' '' @ show_int n) # ls) p = n"
proof -
  have "py_lower (label_name (LabelText (p @ '' '' @ show_int n))) = p @ '' '' @ show_int n"
    using assms show_int_word [of n] label_name_counter [of p n]
    by (simp add: counter_prefix_def) (simp add: py_lower_def to_lower_def)
  then show ?thesis using assms label_int_show [of n]
    by (simp add: Let_def after_colon_counter) (simp add: counter_prefix_def)
qed

lemma count_skip:
  "\<forall>l \<in> set xs. \<not> prefix (py_lower p) (py_lower (label_name l)) \<Longrightarrow> count_from_labels (xs @ ys) p = count_from_labels ys p"
  by (induction xs) (simp_all add: Let_def)

lemma count_incremented:
  assumes "counter_prefix p" "\<not> bd_fails b (bd_calls b)"
  shows "count_from_labels (is_labels (snd (increment_count_label b i p))) p = fold (counter_step p) (issue_label_names i) 0 + 1"
proof -
  let ?xs = "filter (\<lambda>l. \<not> prefix (py_lower p) (py_lower l)) (issue_label_names i)"
  have "\<forall>l \<in> set (map LabelText ?xs). \<not> prefix (py_lower p) (py_lower (label_name l))"
    by (auto simp: issue_label_names_def)
  then show ?thesis using assms count_skip count_new_label [OF assms(1), of _ "[]"]
    by (simp add: increment_count_label_def Let_def write_labels_def update_issue_labels_def api_call_def store_label_names_def
        del: append_Cons append_Nil)
qed

text \<open>What the calls leave alone.\<close>

definition issue_states :: "board \<Rightarrow> (string \<times> issue_state) list" where
  "issue_states b = map (\<lambda>i. (is_id i, is_state i)) (bd_issues b)"

lemma on_issue_states:
  "(\<And>i. is_id (f i) = is_id i \<and> is_state (f i) = is_state i) \<Longrightarrow> issue_states (on_issue task_id f b) = issue_states b"
  by (simp add: issue_states_def on_issue_def)

lemma write_labels_frame:
  "issue_states (fst (write_labels b i names)) = issue_states b"
  "is_id (snd (write_labels b i names)) = is_id i" "is_state (snd (write_labels b i names)) = is_state i"
  by (auto simp: write_labels_def update_issue_labels_def api_call_def store_label_names_def issue_states_def on_issue_def Let_def)

lemma label_writers_frame:
  "issue_states (fst (add_label b i l)) = issue_states b" "is_id (snd (add_label b i l)) = is_id i"
  "issue_states (fst (remove_labels b i ls)) = issue_states b" "is_id (snd (remove_labels b i ls)) = is_id i"
  "issue_states (fst (increment_count_label b i p)) = issue_states b" "is_id (snd (increment_count_label b i p)) = is_id i"
  by (simp_all add: add_label_def remove_labels_def increment_count_label_def Let_def write_labels_frame)

lemma comment_states [simp]: "issue_states (fst (comment_issue b task_id t)) = issue_states b"
  by (simp add: comment_issue_def api_call_def issue_states_def Let_def)

lemma list_issues_frame:
  "list_issues b = (b', r) \<Longrightarrow> bd_issues b' = bd_issues b \<and> bd_comments b' = bd_comments b \<and> (\<forall>is. r = Some is \<longrightarrow> is = bd_issues b)"
  by (auto simp: list_issues_def api_call_def Let_def split: if_splits)

end
