(* ===== verification/Board_Claim.thy ===== *)
theory Board_Claim
  imports Board "HOL-Library.Product_Lexorder" "HOL-Library.List_Lexorder" "HOL-Library.Char_ord"
begin

text \<open>
  Claiming a task (\<open>board_worker/claim.py\<close>, with the goal text of \<open>_text.py\<close> and the admission settings of
  \<open>config/settings.py\<close>): the worker of a role lists the board, filters what it may work on, takes the first in
  its order, refuses a thin goal or a repository with an open pull request, and moves the task to Running.

  The description of an issue is its plain text; a dash in a comment is written \<open>-\<close>. Clock readings and the answer of the code host are arguments; a list of pull
  requests that is \<^const>\<open>None\<close> is an exception of the host's client.
\<close>

section \<open>Settings\<close>

record repo_settings =
  rs_clone_url :: string
  rs_await_review :: bool
  rs_max_daily_executions :: "int option"
  rs_require_explicit_approval :: bool

record admission =
  ad_author_allowlist :: "string list"
  ad_reject_label :: string
  ad_trusted_label_authors :: "string list"

record worker_settings =
  ws_repos :: "string \<rightharpoonup> repo_settings"
  ws_admission :: "admission option"
  ws_max_open_fleet_tasks :: int
  ws_max_descendants_per_root :: int
  ws_open_pr_gate_stale_hours :: rat
  ws_has_git_token :: bool

definition normalized_allowlist :: "string list \<Rightarrow> string set" where
  "normalized_allowlist xs = (\<lambda>a. py_lower (py_strip a)) ` {a \<in> set xs. a \<noteq> [] \<and> py_strip a \<noteq> []}"

definition any_allowed :: "string set \<Rightarrow> string list \<Rightarrow> bool" where
  "any_allowed allow identities = list_ex (\<lambda>i. i \<noteq> [] \<and> py_lower (py_strip i) \<in> allow) identities"

definition enforced :: "admission \<Rightarrow> bool" where
  "enforced a = (ad_author_allowlist a \<noteq> [])"

definition allows :: "admission \<Rightarrow> string list \<Rightarrow> bool" where
  "allows a identities =
     (if \<not> enforced a then True else any_allowed (normalized_allowlist (ad_author_allowlist a)) identities)"

definition label_trust_allows :: "admission \<Rightarrow> string list \<Rightarrow> bool" where
  "label_trust_allows a identities =
     (let allow = normalized_allowlist (ad_trusted_label_authors a)
      in if allow = {} then False else any_allowed allow identities)"

section \<open>Goal text\<close>

fun upto_hashes :: "string \<Rightarrow> string" where
  "upto_hashes [] = []"
| "upto_hashes (c # cs) = (if prefix ''##'' (c # cs) then [] else c # upto_hashes cs)"

text \<open>
  A match of \<open>##\s+Goal\s*\n(.*?)(?=##|\Z)\<close> at the start of the text, its group stripped. The group starts after the last
  newline of the space behind the word, so stripped it is the text from the first character that is no space.
\<close>

definition goal_at :: "string \<Rightarrow> string option" where
  "goal_at s =
     (let r = drop 2 s; word = dropWhile is_space r; rest = drop 4 word
      in if prefix ''##'' s \<and> takeWhile is_space r \<noteq> [] \<and> length word \<ge> 4 \<and> py_lower (take 4 word) = ''goal''
            \<and> CHR 0x0A \<in> set (takeWhile is_space rest)
         then Some (py_strip (upto_hashes (dropWhile is_space rest))) else None)"

fun search_goal :: "string \<Rightarrow> string option" where
  "search_goal [] = None"
| "search_goal (c # cs) = (case goal_at (c # cs) of Some t \<Rightarrow> Some t | None \<Rightarrow> search_goal cs)"

definition extract_goal :: "string \<Rightarrow> string \<Rightarrow> string" where
  "extract_goal description title =
     (case search_goal description of Some t \<Rightarrow> if t \<noteq> [] then t else title | None \<Rightarrow> title)"

section \<open>Candidates\<close>

definition SPEC_AUTHOR_REPO_KEY :: string where
  "SPEC_AUTHOR_REPO_KEY = ''OperationsCenter''"

definition MIN_GOAL_TEXT_CHARS :: nat where
  "MIN_GOAL_TEXT_CHARS = 40"

definition daily_step :: "datetime \<Rightarrow> issue \<Rightarrow> (string \<Rightarrow> int) \<Rightarrow> string \<Rightarrow> int" where
  "daily_step now i counts =
     (if py_lower (state_text (is_state i)) \<notin> {''running'', ''in review'', ''done'', ''blocked''} then counts
      else case is_updated_at i of
             NotIso s \<Rightarrow> counts
           | Iso ts \<Rightarrow>
               if now - ts > td_seconds 86400 then counts
               else (let rk = label_value (is_labels i) ''repo'' in if rk \<noteq> [] then counts(rk := counts rk + 1) else counts))"

definition count_daily_executions :: "datetime \<Rightarrow> issue list \<Rightarrow> string \<Rightarrow> int" where
  "count_daily_executions now is = fold (daily_step now) is (\<lambda>_. 0)"

definition author_allowed :: "worker_settings \<Rightarrow> issue \<Rightarrow> bool" where
  "author_allowed ws i =
     (case ws_admission ws of
        None \<Rightarrow> True
      | Some a \<Rightarrow> if \<not> enforced a then True else allows a (issue_author_identities i))"

definition flag_unauthorized_author :: "worker_settings \<Rightarrow> board \<Rightarrow> issue \<Rightarrow> board" where
  "flag_unauthorized_author ws b i =
     (case ws_admission ws of
        None \<Rightarrow> b
      | Some a \<Rightarrow> if has_label (is_labels i) (ad_reject_label a) then b else fst (add_label b i (ad_reject_label a)))"

definition issue_kind :: "issue \<Rightarrow> string" where
  "issue_kind i = label_value (is_labels i) ''task-kind''"

definition candidate_repo :: "issue \<Rightarrow> string" where
  "candidate_repo i = (if issue_kind i = ''spec-author'' then SPEC_AUTHOR_REPO_KEY else label_value (is_labels i) ''repo'')"

text \<open>Ready, of a kind of the role, in a managed repository.\<close>

definition is_relevant :: "worker_settings \<Rightarrow> string \<Rightarrow> issue \<Rightarrow> bool" where
  "is_relevant ws role i =
     (state_text (is_state i) = STATE_READY \<and> issue_kind i \<in> set (ROLE_KINDS role) \<and> ws_repos ws (candidate_repo i) \<noteq> None)"

definition quota_reached :: "worker_settings \<Rightarrow> (string \<Rightarrow> int) \<Rightarrow> string \<Rightarrow> bool" where
  "quota_reached ws exec_today repo =
     (case ws_repos ws repo of
        None \<Rightarrow> False
      | Some r \<Rightarrow> (case rs_max_daily_executions r of None \<Rightarrow> False | Some cap \<Rightarrow> cap \<noteq> 0 \<and> cap \<le> exec_today repo))"

fun build_candidates ::
  "worker_settings \<Rightarrow> string \<Rightarrow> (string \<Rightarrow> int) \<Rightarrow> issue list \<Rightarrow> board \<Rightarrow> board \<times> issue list" where
  "build_candidates ws role exec_today [] b = (b, [])"
| "build_candidates ws role exec_today (i # is) b =
     (if \<not> is_relevant ws role i then build_candidates ws role exec_today is b
      else if \<not> author_allowed ws i then build_candidates ws role exec_today is (flag_unauthorized_author ws b i)
      else if quota_reached ws exec_today (candidate_repo i) then build_candidates ws role exec_today is b
      else (let (b', cs) = build_candidates ws role exec_today is b in (b', i # cs)))"

section \<open>Order\<close>

definition PRIORITY_ORDER :: "string \<Rightarrow> int" where
  "PRIORITY_ORDER p =
     (if p = ''urgent'' then 0 else if p = ''high'' then 1 else if p = ''medium'' then 2 else if p = ''low'' then 3 else 4)"

definition proposal_priority_rank :: "label list \<Rightarrow> int" where
  "proposal_priority_rank ls =
     (let raw = py_lower (py_strip (label_value ls ''priority''))
      in if raw = ''critical'' then 0 else if raw = ''high'' then 1 else if raw = ''low'' then 3 else 2)"

definition claim_key :: "issue \<Rightarrow> int \<times> int \<times> string \<times> int" where
  "claim_key i =
     (if list_ex (\<lambda>l. py_lower (label_name l) = ''source: improve-suggestion'') (is_labels i) then 0 else 1,
      PRIORITY_ORDER (py_lower (if truthy_str (is_priority i) then or_empty (is_priority i) else ''none'')),
      is_created_at i, proposal_priority_rank (is_labels i))"

section \<open>Gates\<close>

text \<open>Each step only happens when the call before it did not raise.\<close>

definition block_thin_task :: "board \<Rightarrow> issue \<Rightarrow> string \<Rightarrow> nat \<Rightarrow> board" where
  "block_thin_task b i role goal_len =
     (let (b1, ok1) = transition_issue b (is_id i) STATE_BLOCKED
      in if \<not> ok1 then b1
         else let (b2, ok2) = comment_issue b1 (is_id i)
                    (''board_worker['' @ role @ ''] refused to claim - goal text too thin ('' @ show_nat goal_len @ '' chars; minimum ''
                      @ show_nat MIN_GOAL_TEXT_CHARS @ ''). Add concrete description and re-promote to Ready for AI.'')
              in if \<not> ok2 then b2 else fst (add_label b2 i ''thin-goal''))"

record open_pr =
  opr_number :: int
  opr_ref :: string
  opr_mergeable_unknown :: bool
  opr_updated_at :: iso_text

definition pr_is_candidate :: "open_pr \<Rightarrow> bool" where
  "pr_is_candidate pr = (\<not> prefix ''spec-author/'' (opr_ref pr) \<and> \<not> opr_mergeable_unknown pr)"

definition pr_is_stale :: "rat \<Rightarrow> datetime \<Rightarrow> open_pr \<Rightarrow> bool" where
  "pr_is_stale stale_hours now pr =
     (if stale_hours \<le> 0 then False
      else case opr_updated_at pr of
             Iso t \<Rightarrow> of_int t < of_int now - stale_hours * of_int (td_hours 1) | NotIso s \<Rightarrow> False)"

definition blocking_prs :: "rat \<Rightarrow> datetime \<Rightarrow> open_pr list \<Rightarrow> open_pr list" where
  "blocking_prs stale_hours now prs = filter (\<lambda>pr. pr_is_candidate pr \<and> \<not> pr_is_stale stale_hours now pr) prs"

record claim_world =
  cl_now :: datetime
  cl_gate_now :: datetime
  cl_open_prs :: "string \<Rightarrow> open_pr list option"

definition open_pr_gate_clear :: "claim_world \<Rightarrow> worker_settings \<Rightarrow> board \<Rightarrow> issue \<Rightarrow> board \<times> issue \<times> bool" where
  "open_pr_gate_clear w ws b i =
     (let repo = label_value (is_labels i) ''repo''; cfg = (if repo \<noteq> [] then ws_repos ws repo else None)
      in case cfg of
           None \<Rightarrow> (b, i, True)
         | Some r \<Rightarrow>
             if \<not> ws_has_git_token ws \<or> rs_clone_url r = [] then (b, i, True)
             else case cl_open_prs w (rs_clone_url r) of
                    None \<Rightarrow> (b, i, True)
                  | Some prs \<Rightarrow>
                      if blocking_prs (ws_open_pr_gate_stale_hours ws) (cl_gate_now w) prs \<noteq> []
                      then (let (b', i') = add_label b i ''OPEN_PR_GATE'' in (b', i', False)) else (b, i, True))"

section \<open>The claim\<close>

definition candidate_goal :: "issue \<Rightarrow> string" where
  "candidate_goal i = py_strip (extract_goal (is_description i) (is_name i))"

definition is_thin :: "issue \<Rightarrow> bool" where
  "is_thin i = (issue_kind i \<noteq> ''spec-author'' \<and> length (candidate_goal i) < MIN_GOAL_TEXT_CHARS)"

text \<open>Up to the transition: the task that is chosen, if any.\<close>

definition select_next :: "claim_world \<Rightarrow> worker_settings \<Rightarrow> string \<Rightarrow> board \<Rightarrow> board \<times> issue option" where
  "select_next w ws role b =
     (case list_issues b of
        (b1, None) \<Rightarrow> (b1, None)
      | (b1, Some is) \<Rightarrow>
          (let (b2, cands) = build_candidates ws role (count_daily_executions (cl_now w) is) is b1
           in case sort_key claim_key cands of
                [] \<Rightarrow> (b2, None)
              | i # _ \<Rightarrow>
                  if is_thin i then (block_thin_task b2 i role (length (candidate_goal i)), None)
                  else if role = ''goal'' then
                    (let (b3, i', clear) = open_pr_gate_clear w ws b2 i in (b3, if clear then Some i' else None))
                  else (b2, Some i)))"

definition commit_claim :: "board \<Rightarrow> issue \<Rightarrow> board \<times> issue option" where
  "commit_claim b i =
     (let (b1, ok) = transition_issue b (is_id i) STATE_RUNNING
      in if ok then (let (b2, i') = clear_blocked_reason_labels b1 i in (b2, Some i')) else (b1, None))"

definition claim_next :: "claim_world \<Rightarrow> worker_settings \<Rightarrow> string \<Rightarrow> board \<Rightarrow> board \<times> issue option" where
  "claim_next w ws role b =
     (case select_next w ws role b of (b1, None) \<Rightarrow> (b1, None) | (b1, Some i) \<Rightarrow> commit_claim b1 i)"

section \<open>Laws\<close>

lemma build_candidates_states: "issue_states (fst (build_candidates ws role ex xs b)) = issue_states b"
  by (induction xs arbitrary: b)
    (auto simp: flag_unauthorized_author_def label_writers_frame case_prod_beta Let_def split: option.split)

lemma build_candidates_mem:
  "set (snd (build_candidates ws role ex xs b)) =
     {i \<in> set xs. is_relevant ws role i \<and> author_allowed ws i \<and> \<not> quota_reached ws ex (candidate_repo i)}"
  by (induction xs arbitrary: b) (auto simp: case_prod_beta Let_def)

lemma gate_frame:
  assumes "open_pr_gate_clear w ws b i = (b', i', clear)"
  shows "issue_states b' = issue_states b" "clear \<Longrightarrow> i' = i \<and> b' = b"
    "clear \<Longrightarrow> (\<forall>r prs. ws_repos ws (label_value (is_labels i) ''repo'') = Some r \<and> label_value (is_labels i) ''repo'' \<noteq> []
       \<and> ws_has_git_token ws \<and> rs_clone_url r \<noteq> [] \<and> cl_open_prs w (rs_clone_url r) = Some prs \<longrightarrow>
       blocking_prs (ws_open_pr_gate_stale_hours ws) (cl_gate_now w) prs = [])"
proof -
  have a: "issue_states (fst (add_label b i ''OPEN_PR_GATE'')) = issue_states b" by (rule label_writers_frame)
  then show "issue_states b' = issue_states b"
    using assms by (auto simp: open_pr_gate_clear_def Let_def split: option.splits if_splits prod.splits)
  show "i' = i \<and> b' = b" if clear
    using assms that by (auto simp: open_pr_gate_clear_def Let_def split: option.splits if_splits prod.splits)
  show "\<forall>r prs. ws_repos ws (label_value (is_labels i) ''repo'') = Some r \<and> label_value (is_labels i) ''repo'' \<noteq> []
       \<and> ws_has_git_token ws \<and> rs_clone_url r \<noteq> [] \<and> cl_open_prs w (rs_clone_url r) = Some prs \<longrightarrow>
       blocking_prs (ws_open_pr_gate_stale_hours ws) (cl_gate_now w) prs = []" if clear
    using assms that by (auto simp: open_pr_gate_clear_def Let_def split: option.splits if_splits prod.splits)
qed

lemma transition_states:
  "transition_issue b task_id st = (b', ok) \<Longrightarrow>
     issue_states b' = (if ok then map (\<lambda>(k, s). (k, if k = task_id then StateObj (Some st) else s)) (issue_states b) else issue_states b)"
  by (auto simp: transition_issue_def api_call_def issue_states_def on_issue_def Let_def split: if_splits)

text \<open>What a selected task satisfies, and what the selection leaves alone.\<close>

lemma selected:
  assumes "select_next w ws role b = (b', Some i)"
  shows "i \<in> set (bd_issues b)" "is_relevant ws role i" "author_allowed ws i"
    "\<not> quota_reached ws (count_daily_executions (cl_now w) (bd_issues b)) (candidate_repo i)" "\<not> is_thin i"
    "\<forall>j \<in> set (bd_issues b). is_relevant ws role j \<and> author_allowed ws j
       \<and> \<not> quota_reached ws (count_daily_executions (cl_now w) (bd_issues b)) (candidate_repo j) \<longrightarrow> claim_key i \<le> claim_key j"
    "role = ''goal'' \<Longrightarrow> snd (snd (open_pr_gate_clear w ws b' i))"
    "issue_states b' = issue_states b"
proof -
  let ?ex = "count_daily_executions (cl_now w) (bd_issues b)"
  obtain b1 r where lr: "list_issues b = (b1, r)" by (metis prod.collapse)
  then have "r \<noteq> None" using assms by (cases r) (simp_all add: select_next_def)
  then have l: "list_issues b = (b1, Some (bd_issues b))" "bd_issues b1 = bd_issues b"
    using lr list_issues_frame [OF lr] by (cases r; simp)+
  obtain b2 cands where c: "build_candidates ws role ?ex (bd_issues b) b1 = (b2, cands)" by (metis prod.collapse)
  obtain j rest where s: "sort_key claim_key cands = j # rest"
    using assms by (auto simp: select_next_def l(1) c split: list.splits)
  have n: "select_next w ws role b =
      (if is_thin j then (block_thin_task b2 j role (length (candidate_goal j)), None)
       else if role = ''goal'' then (let (b3, i', clear) = open_pr_gate_clear w ws b2 j in (b3, if clear then Some i' else None))
       else (b2, Some j))"
    by (simp only: select_next_def l(1) c s prod.case option.case Let_def list.case)
  have thin: "\<not> is_thin j" using assms unfolding n by (cases "is_thin j") simp_all
  have g: "(role = ''goal'' \<longrightarrow> open_pr_gate_clear w ws b2 j = (b', i, True)) \<and> (role \<noteq> ''goal'' \<longrightarrow> b' = b2 \<and> i = j)"
  proof (cases "role = ''goal''")
    case True
    obtain b3 i3 clear where o: "open_pr_gate_clear w ws b2 j = (b3, i3, clear)" by (metis prod.collapse)
    have "(b3, if clear then Some i3 else None) = (b', Some i)" using assms unfolding n o using thin True by simp
    then show ?thesis using o True by (cases clear) simp_all
  next
    case False
    have "(b2, Some j) = (b', Some i)" using assms unfolding n using thin False by (simp only: if_False)
    then show ?thesis using False by simp
  qed
  then have ij: "i = j \<and> b' = b2" using gate_frame(2) by (cases "role = ''goal''") fastforce+
  have mem: "j \<in> set cands" using arg_cong [OF s, of set] by simp
  have all: "set cands = {i \<in> set (bd_issues b). is_relevant ws role i \<and> author_allowed ws i \<and> \<not> quota_reached ws ?ex (candidate_repo i)}"
    using build_candidates_mem [of ws role ?ex "bd_issues b" b1] by (simp add: c)
  show "i \<in> set (bd_issues b)" "is_relevant ws role i" "author_allowed ws i" "\<not> quota_reached ws ?ex (candidate_repo i)"
    using mem ij by (simp_all add: all)
  show "\<not> is_thin i" using thin ij by simp
  have "sorted (map claim_key (j # rest))" using sorted_sort_key [of claim_key cands] by (simp only: s)
  then have "\<forall>k \<in> set (j # rest). claim_key j \<le> claim_key k" by auto
  moreover have "set (j # rest) = set cands" using arg_cong [OF s, of set] by simp
  ultimately show "\<forall>j \<in> set (bd_issues b). is_relevant ws role j \<and> author_allowed ws j
       \<and> \<not> quota_reached ws ?ex (candidate_repo j) \<longrightarrow> claim_key i \<le> claim_key j"
    using ij by (auto simp: all)
  show "snd (snd (open_pr_gate_clear w ws b' i))" if "role = ''goal''" using g ij that by simp
  have "issue_states b1 = issue_states b" using l(2) by (simp add: issue_states_def)
  then show "issue_states b' = issue_states b" using ij build_candidates_states [of ws role ?ex "bd_issues b" b1] by (simp add: c)
qed

section \<open>Properties\<close>

text \<open>
  C22: What a claim guarantees: the claimed task was in Ready for AI, of a kind of the worker's role, in a managed repository below its
  daily quota, by an allowed author and with a goal of at least 40 characters (a spec-author task aside); no other task the worker
  may take comes before it; for the goal role its repository has no blocking pull request; and afterwards exactly its state
  on the board has changed, to Running.
\<close>

theorem claim_is_admissible:
  assumes "claim_next w ws role b = (b', Some c)"
  shows "\<exists>i \<in> set (bd_issues b). is_id c = is_id i \<and> is_relevant ws role i \<and> author_allowed ws i \<and> \<not> is_thin i
    \<and> \<not> quota_reached ws (count_daily_executions (cl_now w) (bd_issues b)) (candidate_repo i)
    \<and> (\<forall>j \<in> set (bd_issues b). is_relevant ws role j \<and> author_allowed ws j
         \<and> \<not> quota_reached ws (count_daily_executions (cl_now w) (bd_issues b)) (candidate_repo j) \<longrightarrow> claim_key i \<le> claim_key j)
    \<and> (\<forall>r prs. role = ''goal'' \<and> label_value (is_labels i) ''repo'' \<noteq> [] \<and> ws_repos ws (label_value (is_labels i) ''repo'') = Some r
         \<and> ws_has_git_token ws \<and> rs_clone_url r \<noteq> [] \<and> cl_open_prs w (rs_clone_url r) = Some prs \<longrightarrow>
           blocking_prs (ws_open_pr_gate_stale_hours ws) (cl_gate_now w) prs = [])
    \<and> issue_states b' = map (\<lambda>(k, s). (k, if k = is_id i then StateObj (Some STATE_RUNNING) else s)) (issue_states b)"
proof -
  obtain b1 i where s: "select_next w ws role b = (b1, Some i)" and c: "commit_claim b1 i = (b', Some c)"
    using assms by (auto simp: claim_next_def split: prod.splits option.splits)
  note sel = selected [OF s]
  obtain b2 where t: "transition_issue b1 (is_id i) STATE_RUNNING = (b2, True)"
      and r: "clear_blocked_reason_labels b2 i = (b', c)"
    using c by (auto simp: commit_claim_def split: prod.splits if_splits)
  have "issue_states b' = issue_states b2" "is_id c = is_id i"
    using label_writers_frame(3,4) [of b2 i BLOCKED_REASON_LABELS] r by (simp_all add: clear_blocked_reason_labels_def)
  moreover have "issue_states b2 = map (\<lambda>(k, s). (k, if k = is_id i then StateObj (Some STATE_RUNNING) else s)) (issue_states b)"
    using transition_states [OF t] sel(8) by simp
  moreover have "blocking_prs (ws_open_pr_gate_stale_hours ws) (cl_gate_now w) prs = []"
    if h: "role = ''goal''" "label_value (is_labels i) ''repo'' \<noteq> []" "ws_repos ws (label_value (is_labels i) ''repo'') = Some r"
      "ws_has_git_token ws" "rs_clone_url r \<noteq> []" "cl_open_prs w (rs_clone_url r) = Some prs" for r prs
  proof -
    obtain b3 i3 where "open_pr_gate_clear w ws b1 i = (b3, i3, True)" using sel(7) [OF h(1)] by (metis prod.collapse)
    then show ?thesis using gate_frame(3) h by blast
  qed
  ultimately show ?thesis using sel(1-6) by (intro bexI [of _ i]) auto
qed

definition sample_issue :: "string \<Rightarrow> string list \<Rightarrow> string \<Rightarrow> issue" where
  "sample_issue task_id names created =
     \<lparr>is_id = task_id, is_name = ''Tidy'', is_description = ''## Goal'' @ [CHR 0x0A] @ ''Remove the dead branches of the parser module'' @ [CHR 0x0A],
      is_state = StateObj (Some ''Ready for AI''), is_labels = map LabelText names, is_priority = None, is_created_at = created,
      is_updated_at = NotIso [], is_actors = [ActorText ''ops'']\<rparr>"

definition sample_board :: board where
  "sample_board =
     \<lparr>bd_issues = [sample_issue ''b'' [''task-kind: goal'', ''repo: core''] ''2026-02'', sample_issue ''a'' [''task-kind: goal'', ''repo: core''] ''2026-01'',
        sample_issue ''c'' [''task-kind: test'', ''repo: core''] ''2025-12''],
      bd_comments = [], bd_calls = 0, bd_fails = (\<lambda>_. False), bd_new_id = (\<lambda>n. ''n'' @ show_nat n)\<rparr>"

definition sample_repo :: repo_settings where
  "sample_repo = \<lparr>rs_clone_url = ''https://host/core.git'', rs_await_review = False, rs_max_daily_executions = Some 3,
     rs_require_explicit_approval = False\<rparr>"

definition sample_settings :: worker_settings where
  "sample_settings = \<lparr>ws_repos = [''core'' \<mapsto> sample_repo],
     ws_admission = Some \<lparr>ad_author_allowlist = [''Ops''], ad_reject_label = ''unauthorized-author'', ad_trusted_label_authors = []\<rparr>,
     ws_max_open_fleet_tasks = 5, ws_max_descendants_per_root = 0, ws_open_pr_gate_stale_hours = 0, ws_has_git_token = True\<rparr>"

definition sample_claim_world :: claim_world where
  "sample_claim_world = \<lparr>cl_now = 0, cl_gate_now = 0, cl_open_prs = (\<lambda>_. Some [])\<rparr>"

theorem claim_is_admissible_witness:
  "\<exists>b' c. claim_next sample_claim_world sample_settings ''goal'' sample_board = (b', Some c) \<and> is_id c = ''a''
     \<and> map snd (issue_states b') = [StateObj (Some ''Ready for AI''), StateObj (Some ''Running''), StateObj (Some ''Ready for AI'')]"
proof -
  have a: "map_option is_id (snd (claim_next sample_claim_world sample_settings ''goal'' sample_board)) = Some ''a''" by code_simp
  obtain b' o' where p: "claim_next sample_claim_world sample_settings ''goal'' sample_board = (b', o')" by (metis prod.collapse)
  then obtain c where r: "claim_next sample_claim_world sample_settings ''goal'' sample_board = (b', Some c)" "is_id c = ''a''"
    using a by (cases o') (simp_all only: snd_conv option.map option.distinct option.inject)
  have "map snd (map (\<lambda>(k, s). (k, if k = ''a'' then StateObj (Some STATE_RUNNING) else s)) (issue_states sample_board))
      = [StateObj (Some ''Ready for AI''), StateObj (Some ''Running''), StateObj (Some ''Ready for AI'')]" by code_simp
  moreover have "\<exists>i :: issue. is_id c = is_id i
      \<and> issue_states b' = map (\<lambda>(k, s). (k, if k = is_id i then StateObj (Some STATE_RUNNING) else s)) (issue_states sample_board)"
    using claim_is_admissible [OF r(1)] by (elim bexE conjE) (intro exI conjI)
  ultimately have "map snd (issue_states b') = [StateObj (Some ''Ready for AI''), StateObj (Some ''Running''), StateObj (Some ''Ready for AI'')]"
    by (elim exE conjE) (simp only: r(2))
  then show ?thesis using r by (intro exI [of _ b'] exI [of _ c]) simp
qed

text \<open>
  The claim is no compare-and-swap: when a second worker has selected the same task before the first one's transition, its
  own transition goes through as well and both work on the task.
\<close>

lemma claim_not_exclusive:
  assumes "\<forall>n. \<not> bd_fails b n"
  shows "snd (commit_claim b i) \<noteq> None \<and> snd (commit_claim (fst (commit_claim b i)) i) \<noteq> None"
proof -
  have f: "bd_fails (fst (commit_claim b i)) = bd_fails b"
    by (auto simp: commit_claim_def transition_issue_def api_call_def clear_blocked_reason_labels_def remove_labels_def
        write_labels_def update_issue_labels_def on_issue_def Let_def split: prod.splits if_splits)
  have "snd (commit_claim c i) \<noteq> None" if "\<forall>n. \<not> bd_fails c n" for c
    using that by (auto simp: commit_claim_def transition_issue_def api_call_def Let_def split: prod.splits)
  then show ?thesis using assms f by simp
qed

end
