(* ===== verification/Board_Outcomes.thy ===== *)
theory Board_Outcomes
  imports Board_Claim "HOL-Library.Multiset"
begin

text \<open>
  What becomes of a task after its run (\<open>board_worker/outcomes.py\<close>): the transitions and comments of success and failure,
  the follow-up tasks, the split of a task whose change is too wide, and the closing of its parent.

  A step of a worker returns the board and whether it came through; an exception of the client skips the rest of its
  \<open>try\<close> block. The worker's copy of the issue is passed along with the labels it wrote. A dash in a comment is
  written \<open>-\<close>.
\<close>

section \<open>Steps\<close>

definition and_then :: "board \<times> bool \<Rightarrow> (board \<Rightarrow> board \<times> bool) \<Rightarrow> board \<times> bool" where
  "and_then r k = (let (b, ok) = r in if ok then k b else (b, False))"

definition NL :: string where
  "NL = [CHR 0x0A]"

definition MAX_FOLLOW_UP_RETRIES :: int where "MAX_FOLLOW_UP_RETRIES = 3"

definition CODE_FAILURE_CATEGORIES :: "string set" where
  "CODE_FAILURE_CATEGORIES = {''validation_failed'', ''no_changes''}"

definition TERMINAL_STATE_NAMES :: "string set" where
  "TERMINAL_STATE_NAMES = {''cancelled'', ''done''}"

definition BACKEND_CAPACITY_REASON_LABEL :: string where
  "BACKEND_CAPACITY_REASON_LABEL = ''blocked-reason: backend-capacity''"

definition BLOCKED_REASON_POLICY_LABEL :: string where
  "BLOCKED_REASON_POLICY_LABEL = ''blocked-reason: policy''"

definition BACKEND_CAPACITY_REASON_SNIPPETS :: "string list" where
  "BACKEND_CAPACITY_REASON_SNIPPETS = [''stage planner received non-json from agent'', ''session limit or error'']"

text \<open>The state's name as it is stored.\<close>

fun raw_state :: "issue_state \<Rightarrow> string" where
  "raw_state NoState = []"
| "raw_state (StateText s) = s"
| "raw_state (StateObj n) = or_empty n"

section \<open>Failing a task\<close>

definition fail_task :: "board \<Rightarrow> string \<Rightarrow> string \<Rightarrow> string \<Rightarrow> board" where
  "fail_task b task_id role reason =
     (let (b1, found) = fetch_issue b task_id;
          over = (case found of None \<Rightarrow> False | Some i \<Rightarrow> py_lower (raw_state (is_state i)) \<in> TERMINAL_STATE_NAMES)
      in if over then b1
         else fst (and_then (transition_issue b1 task_id STATE_BLOCKED)
                (\<lambda>b. comment_issue b task_id (''board_worker['' @ role @ ''] blocked - '' @ reason))))"

definition is_backend_capacity_failure :: "string \<Rightarrow> string \<Rightarrow> bool" where
  "is_backend_capacity_failure category reason =
     (if category \<noteq> ''backend_error'' then False
      else list_all (\<lambda>snippet. str_contains snippet (py_lower reason)) BACKEND_CAPACITY_REASON_SNIPPETS)"

section \<open>Suggestions of an improve run\<close>

text \<open>The texts of an entry; an element of its files that is no text is \<^const>\<open>None\<close>, and \<open>files\<close> that are no list are empty.\<close>

record suggestion =
  su_title :: string
  su_rationale :: string
  su_files :: "string option list"
  su_complexity :: string

text \<open>
  The \<open>suggestions\<close> of the output file: \<^const>\<open>None\<close> when the file is missing, malformed, or holds no list; an element that
  is no object is \<^const>\<open>None\<close>.
\<close>

definition read_improve_output :: "suggestion option list option \<Rightarrow> suggestion list" where
  "read_improve_output data =
     (case data of None \<Rightarrow> []
      | Some raw \<Rightarrow> filter (\<lambda>s. su_title s \<noteq> []) (List.map_filter id (take 5 raw)))"

section \<open>Follow-ups\<close>

text \<open>\<open>inherited_sources\<close>\<close>

definition inherited_sources :: "issue \<Rightarrow> string list" where
  "inherited_sources parent =
     filter (\<lambda>s. prefix ''source:'' (py_lower s) \<and> py_lower s \<noteq> ''source: board_worker'') (map label_name (is_labels parent))"

definition lineage_root :: "issue \<Rightarrow> string" where
  "lineage_root parent = (let l = label_value (is_labels parent) ''lineage-root'' in if l \<noteq> [] then l else is_id parent)"

text \<open>Both ceilings in turn; a ceiling that is reached ends the search.\<close>

definition ceilings_reached :: "worker_settings \<Rightarrow> board \<Rightarrow> issue \<Rightarrow> board \<times> bool" where
  "ceilings_reached ws b parent =
     (let (b1, full) = ceiling_reached b (ws_max_open_fleet_tasks ws)
      in if full then (b1, True) else root_descendant_cap_reached b1 (ws_max_descendants_per_root ws) (lineage_root parent))"

definition underscores_to_spaces :: "string \<Rightarrow> string" where
  "underscores_to_spaces = map (\<lambda>c. if c = CHR ''_'' then CHR '' '' else c)"

definition follow_up_description :: "issue \<Rightarrow> string \<Rightarrow> string \<Rightarrow> string" where
  "follow_up_description parent follow_kind reason =
     (let base_branch = label_value (is_labels parent) ''base-branch''
      in ''## Goal'' @ NL @ is_name parent @ '' - '' @ underscores_to_spaces reason @ NL @ NL @ ''## Execution'' @ NL @
         ''repo: '' @ label_value (is_labels parent) ''repo'' @ NL @ ''mode: '' @ follow_kind @ NL @
         (if base_branch \<noteq> [] then ''base_branch: '' @ base_branch @ NL else []))"

definition follow_up_labels :: "issue \<Rightarrow> string \<Rightarrow> string \<Rightarrow> string list" where
  "follow_up_labels parent follow_kind reason =
     [''task-kind: '' @ follow_kind, ''repo: '' @ label_value (is_labels parent) ''repo'', ''source: board_worker''] @
     inherited_sources parent @
     [''original-task-id: '' @ is_id parent, ''lineage-root: '' @ lineage_root parent, ''handoff-reason: '' @ reason,
      ''retry-count:'' @ '' '' @ show_int (retry_count_from_labels (is_labels parent) + 1)]"

text \<open>The new id, or no text when the follow-up is refused; \<^const>\<open>None\<close> is an exception of the client.\<close>

definition create_follow_up :: "worker_settings \<Rightarrow> board \<Rightarrow> issue \<Rightarrow> string \<Rightarrow> string \<Rightarrow> board \<times> string option" where
  "create_follow_up ws b parent follow_kind reason =
     (if retry_count_from_labels (is_labels parent) \<ge> MAX_FOLLOW_UP_RETRIES then (b, Some [])
      else (let (b1, full) = ceilings_reached ws b parent
            in if full then (b1, Some [])
               else create_issue b1 (''['' @ follow_kind @ ''] '' @ is_name parent) (follow_up_description parent follow_kind reason)
                      STATE_READY (follow_up_labels parent follow_kind reason)))"

definition improve_title :: "suggestion \<Rightarrow> string" where
  "improve_title s = (let t = take 80 (py_strip (su_title s)) in if t \<noteq> [] then t else ''Improve follow-up'')"

definition improve_files_block :: "suggestion \<Rightarrow> string" where
  "improve_files_block s =
     (if su_files s = [] then []
      else ''allowed_paths:'' @ NL @ py_join NL (map (\<lambda>f. ''  - '' @ f) (List.map_filter id (take 10 (su_files s)))) @ NL)"

definition improve_description :: "issue \<Rightarrow> suggestion \<Rightarrow> string" where
  "improve_description parent s =
     (let rationale = py_strip (su_rationale s)
      in ''## Goal'' @ NL @ improve_title s @ NL @ NL @ ''## Rationale'' @ NL @
         (if rationale \<noteq> [] then rationale else ''(none provided)'') @ NL @ NL @ ''## Execution'' @ NL @
         ''repo: '' @ label_value (is_labels parent) ''repo'' @ NL @ ''mode: goal'' @ NL @ improve_files_block s)"

definition improve_labels :: "issue \<Rightarrow> suggestion \<Rightarrow> string list" where
  "improve_labels parent s =
     (let complexity = py_lower (py_strip (su_complexity s))
      in [''task-kind: goal'', ''repo: '' @ label_value (is_labels parent) ''repo'', ''source: board_worker'',
          ''source: improve-suggestion''] @ inherited_sources parent @
         [''original-task-id: '' @ is_id parent, ''handoff-reason: improve_suggestion''] @
         (if complexity \<in> {''small'', ''medium'', ''large''} then [''complexity: '' @ complexity] else []))"

definition create_improve_follow_up :: "board \<Rightarrow> issue \<Rightarrow> suggestion \<Rightarrow> board \<times> string option" where
  "create_improve_follow_up b parent s =
     (let (b', new_id) = create_issue b (improve_title s) (improve_description parent s) STATE_READY (improve_labels parent s)
      in (b', if truthy_str new_id then new_id else None))"

fun create_improve_follow_ups :: "board \<Rightarrow> issue \<Rightarrow> suggestion list \<Rightarrow> board \<times> string list" where
  "create_improve_follow_ups b parent [] = (b, [])"
| "create_improve_follow_ups b parent (s # ss) =
     (let (b1, new_id) = create_improve_follow_up b parent s; (b2, ids) = create_improve_follow_ups b1 parent ss
      in (b2, (case new_id of None \<Rightarrow> ids | Some n \<Rightarrow> n # ids)))"

section \<open>Splitting a task\<close>

definition top_of :: "string \<Rightarrow> string" where
  "top_of f = (if CHR ''/'' \<in> set f then takeWhile (\<lambda>c. c \<noteq> CHR ''/'') f else ''.'')"

text \<open>\<open>by_top.setdefault(top, []).append(f)\<close>: groups in the order of their first file.\<close>

fun add_to_group :: "string \<Rightarrow> string \<Rightarrow> (string \<times> string list) list \<Rightarrow> (string \<times> string list) list" where
  "add_to_group k f [] = [(k, [f])]"
| "add_to_group k f ((t, fs) # gs) = (if t = k then (t, fs @ [f]) # gs else (t, fs) # add_to_group k f gs)"

definition by_top :: "string list \<Rightarrow> (string \<times> string list) list" where
  "by_top files = fold (\<lambda>f. add_to_group (top_of f) f) files []"

fun pieces :: "nat \<Rightarrow> 'a list \<Rightarrow> 'a list list" where
  "pieces n xs = (if xs = [] \<or> n = 0 then [] else take n xs # pieces n (drop n xs))"

declare pieces.simps [simp del]

function merge_chunks :: "nat \<Rightarrow> 'a list list \<Rightarrow> 'a list list" where
  "merge_chunks max_chunks chunks =
     (if max_chunks < length chunks \<and> 2 \<le> length chunks
      then (case sort_key length chunks of a # c # rest \<Rightarrow> merge_chunks max_chunks ((a @ c) # rest) | _ \<Rightarrow> chunks)
      else chunks)"
  by pat_completeness auto

termination
proof (relation "measure (\<lambda>(_, chunks). length chunks)")
  fix max_chunks :: nat and chunks :: "'a list list" and a rest c rest'
  assume "sort_key length chunks = a # rest" "rest = c # rest'"
  then have "length chunks = Suc (Suc (length rest'))" by (metis length_Cons length_sort)
  then show "((max_chunks, (a @ c) # rest'), max_chunks, chunks) \<in> measure (\<lambda>(_, chunks). length chunks)" by simp
qed simp

declare merge_chunks.simps [simp del]

definition split_files_into_chunks :: "nat \<Rightarrow> nat \<Rightarrow> string list \<Rightarrow> string list list" where
  "split_files_into_chunks chunk_size max_chunks files =
     (if files = [] then []
      else merge_chunks max_chunks
             (concat (map (pieces chunk_size) (sort_key (\<lambda>g. - int (length g)) (map snd (by_top files))))))"

definition split_title :: "issue \<Rightarrow> nat \<Rightarrow> nat \<Rightarrow> string" where
  "split_title parent idx n = take 80 (''[split '' @ show_nat idx @ ''/'' @ show_nat n @ ''] '' @ is_name parent)"

definition split_description :: "issue \<Rightarrow> nat \<Rightarrow> nat \<Rightarrow> string list \<Rightarrow> string" where
  "split_description parent idx n chunk =
     ''## Goal'' @ NL @ is_name parent @ NL @ NL @ ''This is split '' @ show_nat idx @ '' of '' @ show_nat n @
     '' from a scope_too_wide retry of task #'' @ is_id parent @ ''. Restrict changes to the listed files.'' @ NL @ NL @
     ''## Execution'' @ NL @ ''repo: '' @ label_value (is_labels parent) ''repo'' @ NL @ ''mode: goal'' @ NL @
     ''allowed_paths:'' @ NL @ py_join NL (map (\<lambda>f. ''  - '' @ f) chunk) @ NL"

definition split_labels :: "issue \<Rightarrow> string \<Rightarrow> string list" where
  "split_labels parent reason =
     [''task-kind: goal'', ''repo: '' @ label_value (is_labels parent) ''repo'', ''source: board_worker'', ''source: scope-split''] @
     inherited_sources parent @
     [''original-task-id: '' @ is_id parent, ''lineage-root: '' @ lineage_root parent, ''handoff-reason: '' @ reason,
      ''retry-count:'' @ '' '' @ show_int (retry_count_from_labels (is_labels parent) + 1)]"

text \<open>A chunk whose issue cannot be created is logged and passed over.\<close>

fun create_chunks :: "board \<Rightarrow> issue \<Rightarrow> string \<Rightarrow> nat \<Rightarrow> nat \<Rightarrow> string list list \<Rightarrow> board \<times> string list" where
  "create_chunks b parent reason idx n [] = (b, [])"
| "create_chunks b parent reason idx n (c # cs) =
     (let (b1, new_id) = create_issue b (split_title parent idx n) (split_description parent idx n c) STATE_READY (split_labels parent reason);
          (b2, ids) = create_chunks b1 parent reason (idx + 1) n cs
      in (b2, if truthy_str new_id then or_empty new_id # ids else ids))"

definition create_split_followups ::
  "worker_settings \<Rightarrow> board \<Rightarrow> issue \<Rightarrow> string list \<Rightarrow> string \<Rightarrow> (board \<times> issue) \<times> string list" where
  "create_split_followups ws b parent file_list reason =
     (if retry_count_from_labels (is_labels parent) \<ge> 2 then ((b, parent), [])
      else (let chunks = split_files_into_chunks 15 6 file_list
            in if chunks = [] then ((b, parent), [])
               else (let (b1, full) = ceilings_reached ws b parent
                     in if full then ((b1, parent), [])
                        else (let (b2, created) = create_chunks b1 parent reason 1 (length chunks) chunks
                              in (if created \<noteq> [] then add_label b2 parent LIFECYCLE_EXPANDED else (b2, parent), created)))))"

section \<open>Closing the parent of a split\<close>

text \<open>\<open>(st or {}).get(''name'', '''')\<close>: a state that is a text raises, which ends the check; so does \<^const>\<open>None\<close> here.\<close>

fun object_state :: "issue_state \<Rightarrow> string option" where
  "object_state NoState = Some []"
| "object_state (StateText s) = (if s = [] then Some [] else None)"
| "object_state (StateObj n) = Some (or_empty n)"

definition has_split_label :: "issue \<Rightarrow> bool" where
  "has_split_label i = (''source: scope-split'' \<in> set (map (\<lambda>l. py_lower (label_name l)) (is_labels i)))"

definition split_siblings :: "string \<Rightarrow> issue list \<Rightarrow> issue list" where
  "split_siblings parent_id is =
     filter (\<lambda>i. is_id i \<noteq> parent_id \<and> label_value (is_labels i) ''original-task-id'' = parent_id \<and> has_split_label i) is"

definition is_done :: "issue \<Rightarrow> bool" where
  "is_done i = (case object_state (is_state i) of None \<Rightarrow> False | Some s \<Rightarrow> py_lower (py_strip s) = ''done'')"

text \<open>Whether the parent is to be closed, given the issues of the board and the worker's copy of the completed one.\<close>

definition parent_ready :: "issue list \<Rightarrow> issue \<Rightarrow> string \<Rightarrow> bool" where
  "parent_ready is completed parent_id =
     (case List.find (\<lambda>i. is_id i = parent_id) (rev is) of
        None \<Rightarrow> False
      | Some parent \<Rightarrow>
          (case object_state (is_state parent) of None \<Rightarrow> False | Some s \<Rightarrow> py_lower s = ''blocked'')
          \<and> list_all is_done (filter (\<lambda>i. is_id i \<noteq> is_id completed) (split_siblings parent_id is))
          \<and> (case object_state (is_state completed) of
               None \<Rightarrow> False | Some s \<Rightarrow> py_lower (py_strip s) \<in> {[], ''done'', ''running'', ''ready for ai''}))"

definition maybe_close_split_parent :: "board \<Rightarrow> issue \<Rightarrow> board" where
  "maybe_close_split_parent b completed =
     (if \<not> has_split_label completed then b
      else (let parent_id = label_value (is_labels completed) ''original-task-id''
            in if parent_id = [] then b
               else case list_issues b of
                      (b1, None) \<Rightarrow> b1
                    | (b1, Some is) \<Rightarrow>
                        if \<not> parent_ready is completed parent_id then b1
                        else fst (and_then (transition_issue b1 parent_id STATE_DONE)
                               (\<lambda>b. comment_issue b parent_id (''Auto-closed: all '' @
                                      show_nat (length (split_siblings parent_id is) + 1) @ '' scope-split children completed.'')))))"

section \<open>Success\<close>

record delivery =
  dl_needs_verification :: bool
  dl_suggestions :: "suggestion list"
  dl_pr_url :: "string option"
  dl_branch_pushed :: bool
  dl_branch_name :: "string option"

definition await_review :: "worker_settings \<Rightarrow> issue \<Rightarrow> bool" where
  "await_review ws i =
     (let repo_key = label_value (is_labels i) ''repo''
      in if repo_key = [] then False else case ws_repos ws repo_key of None \<Rightarrow> False | Some r \<Rightarrow> rs_await_review r)"

definition delivered :: "delivery \<Rightarrow> string" where
  "delivered d =
     (if dl_branch_pushed d \<and> truthy_str (dl_branch_name d)
      then ''branch `'' @ or_empty (dl_branch_name d) @ ''` pushed'' @
        (if truthy_str (dl_pr_url d) then '', PR: '' @ or_empty (dl_pr_url d) else [])
      else ''no branch pushed - no new commits, nothing to review'')"

definition goal_success :: "worker_settings \<Rightarrow> board \<Rightarrow> issue \<Rightarrow> delivery \<Rightarrow> bool \<Rightarrow> board \<times> issue" where
  "goal_success ws b i d await =
     (if dl_needs_verification d
      then (case create_follow_up ws b i ''test'' ''verification_needed'' of
              (b1, None) \<Rightarrow> (b1, i)
            | (b1, Some follow_id) \<Rightarrow>
                (fst (and_then (comment_issue b1 (is_id i) (''Implementation complete ('' @ delivered d @
                         '') - created verification task #'' @ follow_id))
                       (\<lambda>b. transition_issue b (is_id i) STATE_DONE)), i))
      else if await
      then (let (b1, ok) = transition_issue b (is_id i) STATE_REVIEW
            in if \<not> ok then (b1, i)
               else (let (b2, i2) = (if truthy_str (dl_pr_url d) then add_label b1 i (''pr-url: '' @ or_empty (dl_pr_url d)) else (b1, i))
                     in (fst (comment_issue b2 (is_id i) (''Implementation complete ('' @ delivered d @ '') - moved to In Review'')), i2)))
      else (fst (and_then (transition_issue b (is_id i) STATE_DONE)
                  (\<lambda>b. comment_issue b (is_id i) (''Implementation complete ('' @ delivered d @ '')''))), i))"

definition improve_success :: "board \<Rightarrow> issue \<Rightarrow> suggestion list \<Rightarrow> board" where
  "improve_success b i suggestions =
     (let (b1, ok) = transition_issue b (is_id i) STATE_DONE
      in if \<not> ok then b1
         else if suggestions = []
         then fst (comment_issue b1 (is_id i)
                (''Improvement analysis complete - no actionable suggestions emitted (executor found nothing concrete, or '' @
                 ''improve-output.json was missing)''))
         else (let (b2, created) = create_improve_follow_ups b1 i suggestions
               in fst (comment_issue b2 (is_id i)
                    (if created \<noteq> []
                     then ''Improvement analysis complete - created '' @ show_nat (length created) @ '' focused follow-up task(s): '' @
                       py_join '', '' (map (\<lambda>n. ''#'' @ n) created)
                     else ''Improvement analysis complete - backend wrote suggestions but none could be enqueued''))))"

definition success_steps :: "worker_settings \<Rightarrow> board \<Rightarrow> issue \<Rightarrow> string \<Rightarrow> delivery \<Rightarrow> board \<times> issue" where
  "success_steps ws b issue0 role d =
     (let (b0, i) = clear_blocked_reason_labels b issue0
      in if role = ''goal'' then goal_success ws b0 i d (await_review ws issue0)
         else if role = ''test''
         then (fst (and_then (transition_issue b0 (is_id i) STATE_DONE) (\<lambda>b. comment_issue b (is_id i) ''Verification passed'')), i)
         else if role = ''improve'' then (improve_success b0 i (dl_suggestions d), i) else (b0, i))"

definition handle_success :: "worker_settings \<Rightarrow> board \<Rightarrow> issue \<Rightarrow> string \<Rightarrow> delivery \<Rightarrow> board" where
  "handle_success ws b issue0 role d =
     (let (b1, i) = success_steps ws b issue0 role d in maybe_close_split_parent b1 i)"

section \<open>Failure\<close>

text \<open>The result of a run as the outcome handlers read it; \<open>rr_branch_pushed\<close> is \<^const>\<open>None\<close> when the field is absent.\<close>

record run_result =
  rr_success :: bool
  rr_status :: string
  rr_needs_verification :: bool
  rr_failure_category :: "string option"
  rr_failure_reason :: "string option"
  rr_executor_exit_code :: "int option"
  rr_executor_signal :: "string option"
  rr_pull_request_url :: "string option"
  rr_branch_pushed :: "bool option"
  rr_branch_name :: "string option"

definition result_category :: "run_result \<Rightarrow> string" where
  "result_category r = (if truthy_str (rr_failure_category r) then or_empty (rr_failure_category r) else ''unknown'')"

definition result_reason :: "run_result \<Rightarrow> string" where
  "result_reason r = (if truthy_str (rr_failure_reason r) then or_empty (rr_failure_reason r) else ''(no reason provided)'')"

definition failure_facts :: "run_result \<Rightarrow> string" where
  "failure_facts r =
     NL @ NL @ ''- status: '' @ rr_status r @ NL @ ''- category: '' @ result_category r @ NL @ ''- reason: '' @ result_reason r"

definition exec_block :: "run_result \<Rightarrow> string" where
  "exec_block r =
     (case rr_executor_exit_code r of
        None \<Rightarrow> []
      | Some n \<Rightarrow> NL @ ''- executor-exit-code: '' @ show_int n @
          (if truthy_str (rr_executor_signal r) then NL @ ''- executor-signal: '' @ or_empty (rr_executor_signal r) else []))"

definition split_block :: "string list \<Rightarrow> string" where
  "split_block split_ids =
     (if split_ids = [] then []
      else NL @ NL @ ''Auto-split into '' @ show_nat (length split_ids) @ '' focused task(s): '' @
        py_join '', '' (map (\<lambda>n. ''#'' @ n) split_ids))"

text \<open>The transition and the comment.\<close>

definition block_failed :: "worker_settings \<Rightarrow> board \<Rightarrow> issue \<Rightarrow> string \<Rightarrow> run_result \<Rightarrow> string list \<Rightarrow> board \<times> bool" where
  "block_failed ws b i role r split_ids =
     (if role = ''test''
      then (case create_follow_up ws b i ''goal'' ''verification_failed'' of
              (b1, None) \<Rightarrow> (b1, False)
            | (b1, Some follow_id) \<Rightarrow>
                and_then (transition_issue b1 (is_id i) STATE_BLOCKED)
                  (\<lambda>b. comment_issue b (is_id i)
                    (''Verification failed - created follow-up goal task #'' @ follow_id @ failure_facts r)))
      else and_then (transition_issue b (is_id i) STATE_BLOCKED)
             (\<lambda>b. comment_issue b (is_id i)
               (''board_worker['' @ role @ ''] failed'' @ failure_facts r @ exec_block r @ split_block split_ids)))"

text \<open>The labels that the board's healing reads.\<close>

definition label_reason :: "board \<Rightarrow> issue \<Rightarrow> run_result \<Rightarrow> board \<times> issue" where
  "label_reason b i r =
     (let (b1, i1) = (case rr_executor_exit_code r of
                        None \<Rightarrow> (b, i) | Some n \<Rightarrow> add_label b i (''executor-exit-code: '' @ show_int n));
          (b2, i2) = remove_labels b1 i1 BLOCKED_REASON_LABELS
      in if result_category r = ''policy_blocked'' then add_label b2 i2 BLOCKED_REASON_POLICY_LABEL
         else if is_backend_capacity_failure (result_category r) (result_reason r) then add_label b2 i2 BACKEND_CAPACITY_REASON_LABEL
         else (b2, i2))"

definition label_failure :: "board \<Rightarrow> issue \<Rightarrow> run_result \<Rightarrow> board \<times> issue" where
  "label_failure b i r =
     (let (b1, i1) = label_reason b i r
      in if truthy_str (rr_executor_signal r)
         then (let (b2, i2) = add_label b1 i1 (''executor-signal: '' @ or_empty (rr_executor_signal r))
               in if str_contains ''sigkill'' (py_lower (or_empty (rr_executor_signal r))) then increment_retry_count b2 i2 else (b2, i2))
         else if result_category r \<in> CODE_FAILURE_CATEGORIES then increment_code_failure_count b1 i1 else (b1, i1))"

definition handle_failure ::
  "worker_settings \<Rightarrow> board \<Rightarrow> issue \<Rightarrow> string \<Rightarrow> run_result \<Rightarrow> string list \<Rightarrow> board \<times> issue" where
  "handle_failure ws b issue0 role r scope_files =
     (let ((b0, i), split_ids) =
            (if result_category r = ''scope_too_wide'' \<and> scope_files \<noteq> []
             then create_split_followups ws b issue0 scope_files ''scope_too_wide_split'' else ((b, issue0), []));
          (b1, ok) = block_failed ws b0 i role r split_ids
      in if ok then label_failure b1 i r else (b1, i))"

section \<open>Splitting keeps every file\<close>

lemma add_to_group_mset: "mset (concat (map snd (add_to_group k f gs))) = mset (concat (map snd gs)) + {#f#}"
  by (induction k f gs rule: add_to_group.induct) auto

lemma add_to_group_nonempty: "[] \<notin> snd ` set gs \<Longrightarrow> [] \<notin> snd ` set (add_to_group k f gs)"
  by (induction k f gs rule: add_to_group.induct) auto

lemma by_top_groups: "mset (concat (map snd (by_top files))) = mset files \<and> [] \<notin> snd ` set (by_top files)"
proof -
  have "mset (concat (map snd (fold (\<lambda>f. add_to_group (top_of f) f) files gs))) = mset (concat (map snd gs)) + mset files
      \<and> [] \<notin> snd ` set (fold (\<lambda>f. add_to_group (top_of f) f) files gs)" if "[] \<notin> snd ` set gs" for gs
    using that by (induction files arbitrary: gs) (simp_all add: add_to_group_mset add_to_group_nonempty)
  from this [of "[]"] show ?thesis by (simp add: by_top_def)
qed

lemma concat_pieces: "0 < n \<Longrightarrow> concat (pieces n xs) = xs \<and> [] \<notin> set (pieces n xs)"
  by (induction n xs rule: pieces.induct) (subst (1 2) pieces.simps, auto)

lemma mset_concat_perm: "mset xss = mset yss \<Longrightarrow> mset (concat xss) = mset (concat yss)"
  by (simp add: mset_concat sum_mset_sum_list [symmetric] del: sum_mset_sum_list)

lemma two_elements: "2 \<le> length xs \<Longrightarrow> \<exists>a c rest. xs = a # c # rest"
  by (cases xs; cases "tl xs") auto

lemma two_chunks: "2 \<le> length chunks \<Longrightarrow> \<exists>a c rest. sort_key length chunks = a # c # rest"
  using two_elements [of "sort_key length chunks"] by (simp only: length_sort)

text \<open>A property of the merged chunks follows from the two cases of the loop.\<close>

lemma merge_chunks_cases:
  assumes "\<And>chunks. \<not> (m < length chunks \<and> 2 \<le> length chunks) \<Longrightarrow> P chunks chunks"
    and "\<And>chunks a c rest r. sort_key length chunks = a # c # rest \<Longrightarrow> P ((a @ c) # rest) r \<Longrightarrow> P chunks r"
  shows "P chunks (merge_chunks m chunks)"
  using assms(1)
proof (induction m chunks rule: merge_chunks.induct)
  case (1 m chunks)
  show ?case
  proof (cases "m < length chunks \<and> 2 \<le> length chunks")
    case True
    then obtain a c rest where s: "sort_key length chunks = a # c # rest" using two_chunks by blast
    have "merge_chunks m chunks = merge_chunks m ((a @ c) # rest)"
      using True by (subst merge_chunks.simps) (simp only: s if_P list.case)
    then show ?thesis using 1(1) [OF True s refl 1(2)] assms(2) [OF s] by simp
  next
    case False
    then have "merge_chunks m chunks = chunks" by (subst merge_chunks.simps) (simp only: if_not_P if_False)
    then show ?thesis using 1(2) False by simp
  qed
qed

lemma merge_chunks_mset: "mset (concat (merge_chunks m chunks)) = mset (concat chunks)"
proof (rule merge_chunks_cases [where P = "\<lambda>c r. mset (concat r) = mset (concat c)"])
  fix chunks :: "'a list list" and a c rest r
  assume s: "sort_key length chunks = a # c # rest" and r: "mset (concat r) = mset (concat ((a @ c) # rest))"
  have "mset (concat (sort_key length chunks)) = mset (concat chunks)" by (rule mset_concat_perm) (rule mset_sort)
  then show "mset (concat r) = mset (concat chunks)" using r by (simp only: s) simp
qed simp

lemma merge_chunks_length: "length (merge_chunks m chunks) \<le> max m 1"
  by (rule merge_chunks_cases [where P = "\<lambda>c r. length r \<le> max m 1"]) auto

lemma split_length: "length (split_files_into_chunks 15 6 files) \<le> 6"
  using merge_chunks_length [of 6] by (auto simp: split_files_into_chunks_def)

lemma merge_chunks_nonempty: "[] \<notin> set chunks \<Longrightarrow> [] \<notin> set (merge_chunks m chunks)"
proof (rule merge_chunks_cases [where P = "\<lambda>c r. [] \<notin> set c \<longrightarrow> [] \<notin> set r", THEN mp])
  fix chunks :: "'a list list" and a c rest r
  assume s: "sort_key length chunks = a # c # rest" and r: "[] \<notin> set ((a @ c) # rest) \<longrightarrow> [] \<notin> set r"
  have "set (sort_key length chunks) = set chunks" by (rule set_sort)
  then show "[] \<notin> set chunks \<longrightarrow> [] \<notin> set r" using r by (auto simp only: s list.set append_is_Nil_conv)
qed simp_all

text \<open>
  Splitting a task loses and repeats no file: the chunks together are the files, none is empty, and there are at most six, whatever
  the merging of small chunks does.
\<close>

theorem split_partitions_files:
  "mset (concat (split_files_into_chunks 15 6 files)) = mset files \<and> [] \<notin> set (split_files_into_chunks 15 6 files)
     \<and> length (split_files_into_chunks 15 6 files) \<le> 6"
proof (cases "files = []")
  case True
  then show ?thesis by (simp add: split_files_into_chunks_def)
next
  case False
  let ?gs = "sort_key (\<lambda>g. - int (length g)) (map snd (by_top files))"
  let ?cs = "concat (map (pieces 15) ?gs)"
  have "concat (concat (map (pieces 15) xss)) = concat xss" for xss :: "string list list"
    by (induction xss) (simp_all add: concat_pieces)
  then have "mset (concat ?cs) = mset (concat ?gs)" by simp
  also have "\<dots> = mset (concat (map snd (by_top files)))" by (rule mset_concat_perm) simp
  finally have m: "mset (concat ?cs) = mset files" using by_top_groups by simp
  have "[] \<notin> set ?cs" using concat_pieces [of 15] by auto
  then show ?thesis using m False merge_chunks_length [of 6 ?cs] merge_chunks_nonempty [of ?cs 6]
    by (simp add: split_files_into_chunks_def merge_chunks_mset)
qed

section \<open>Follow-ups are bounded\<close>

text \<open>The name of a label that starts with a word and a colon.\<close>

lemma py_strip_prefix:
  assumes "p \<noteq> []" "\<not> is_space (hd p)" "\<not> is_space (last p)"
  shows "\<exists>t. py_strip (p @ s) = p @ t"
proof -
  have d: "dropWhile is_space (p @ s) = p @ s" using assms by (cases p) simp_all
  have "dropWhile is_space (xs @ rev p) = dropWhile is_space xs @ rev p" for xs
    using assms by (induction xs) (cases "rev p", auto simp: hd_rev [symmetric])
  then show ?thesis using assms by (simp add: py_strip_def d)
qed

definition label_word :: "string \<Rightarrow> bool" where
  "label_word p = (p \<noteq> [] \<and> \<not> is_space (hd p) \<and> \<not> is_space (last p))"

lemma label_name_word: "label_word p \<Longrightarrow> \<exists>t. label_name (LabelText (p @ s)) = p @ t"
  using py_strip_prefix by (simp add: label_word_def)

lemma other_label:
  assumes "label_word p" "take (length q) (py_lower p) \<noteq> take (length p) q"
  shows "\<not> prefix q (py_lower (label_name (LabelText (p @ s))))"
proof
  assume h: "prefix q (py_lower (label_name (LabelText (p @ s))))"
  obtain t where "label_name (LabelText (p @ s)) = p @ t" using label_name_word [OF assms(1)] by blast
  then obtain u where "py_lower p @ py_lower t = q @ u" using h by (auto simp: prefix_def)
  then have "take (length q) (py_lower p) = take (length p) q"
    by (cases "length q \<le> length p") (metis append_eq_conv_conj length_map py_lower_def take_append take_take min.absorb1 min.absorb2 take_all nle_le)+
  then show False using assms(2) by simp
qed

lemma counted_after:
  assumes "counter_prefix p" "\<forall>l \<in> set xs. \<not> prefix p (py_lower (label_name (LabelText l)))"
  shows "count_from_labels (map LabelText (xs @ (p @ '' '' @ show_int n) # ys)) p = n"
proof -
  have l: "py_lower p = p" using assms(1) by (simp add: counter_prefix_def)
  show ?thesis using assms(2) count_skip [of "map LabelText xs" p] count_new_label [OF assms(1), of n "map LabelText ys"] l
    by (simp del: label_name.simps append_Cons)
qed

lemma inherited_no_counter: "l \<in> set (inherited_sources parent) \<Longrightarrow> \<not> prefix ''retry-count:'' (py_lower (label_name (LabelText l)))"
  by (auto simp: inherited_sources_def prefix_def)

lemma no_counter:
  "\<not> prefix ''retry-count:'' (py_lower (label_name (LabelText (''task-kind: '' @ x))))"
  "\<not> prefix ''retry-count:'' (py_lower (label_name (LabelText (''repo: '' @ x))))"
  "\<not> prefix ''retry-count:'' (py_lower (label_name (LabelText (''original-task-id: '' @ x))))"
  "\<not> prefix ''retry-count:'' (py_lower (label_name (LabelText (''lineage-root: '' @ x))))"
  "\<not> prefix ''retry-count:'' (py_lower (label_name (LabelText (''handoff-reason: '' @ x))))"
  using other_label [of "''task-kind:''" "''retry-count:''" "'' '' @ x"] other_label [of "''repo:''" "''retry-count:''" "'' '' @ x"]
    other_label [of "''original-task-id:''" "''retry-count:''" "'' '' @ x"]
    other_label [of "''lineage-root:''" "''retry-count:''" "'' '' @ x"]
    other_label [of "''handoff-reason:''" "''retry-count:''" "'' '' @ x"]
  by (simp_all add: label_word_def is_space_def py_lower_def to_lower_def del: label_name.simps)

lemma follow_up_retry_count:
  "retry_count_from_labels (map LabelText (follow_up_labels parent kind reason)) = retry_count_from_labels (is_labels parent) + 1"
  "retry_count_from_labels (map LabelText (split_labels parent reason)) = retry_count_from_labels (is_labels parent) + 1"
proof -
  let ?xs = "[''task-kind: '' @ kind, ''repo: '' @ label_value (is_labels parent) ''repo'', ''source: board_worker''] @ inherited_sources parent @
      [''original-task-id: '' @ is_id parent, ''lineage-root: '' @ lineage_root parent, ''handoff-reason: '' @ reason]"
  let ?ys = "[''task-kind: goal'', ''repo: '' @ label_value (is_labels parent) ''repo'', ''source: board_worker'', ''source: scope-split''] @
      inherited_sources parent @
      [''original-task-id: '' @ is_id parent, ''lineage-root: '' @ lineage_root parent, ''handoff-reason: '' @ reason]"
  define Q where "Q l \<longleftrightarrow> \<not> prefix ''retry-count:'' (py_lower (label_name (LabelText l)))" for l
  have c: "Q ''source: board_worker''" "Q ''source: scope-split''" "Q ''task-kind: goal''" unfolding Q_def by code_simp+
  have q: "Q (''task-kind: '' @ x)" "Q (''repo: '' @ x)" "Q (''original-task-id: '' @ x)" "Q (''lineage-root: '' @ x)"
    "Q (''handoff-reason: '' @ x)" for x unfolding Q_def by (rule no_counter)+
  have i: "\<forall>l \<in> set (inherited_sources parent). Q l" unfolding Q_def using inherited_no_counter by blast
  have "\<forall>l \<in> set ?xs. Q l" using c q i by (simp del: append_Cons append_Nil)
  from counted_after [OF counter_prefixes(1) this [unfolded Q_def], of _ "[]"]
  show "retry_count_from_labels (map LabelText (follow_up_labels parent kind reason)) = retry_count_from_labels (is_labels parent) + 1"
    by (simp add: retry_count_from_labels_def follow_up_labels_def del: count_from_labels.simps)
  have "\<forall>l \<in> set ?ys. Q l" using c q i by (simp del: append_Cons append_Nil)
  from counted_after [OF counter_prefixes(1) this [unfolded Q_def], of _ "[]"]
  show "retry_count_from_labels (map LabelText (split_labels parent reason)) = retry_count_from_labels (is_labels parent) + 1"
    by (simp add: retry_count_from_labels_def split_labels_def del: count_from_labels.simps)
qed


text \<open>What the creators do to the board.\<close>

lemma ceiling_frame:
  assumes "ceiling_reached b cap = (b', full)"
  shows "bd_issues b' = bd_issues b \<and> bd_fails b' = bd_fails b \<and> bd_new_id b' = bd_new_id b
    \<and> bd_calls b' = bd_calls b + (if 0 < cap then 1 else 0)"
    "\<not> full \<Longrightarrow> 0 < cap \<Longrightarrow> \<not> bd_fails b (bd_calls b) \<Longrightarrow> fleet_open_work_count (bd_issues b) < cap"
  using assms by (auto simp: ceiling_reached_def list_issues_def api_call_def Let_def split: if_splits)

lemma root_cap_frame:
  assumes "root_descendant_cap_reached b cap r = (b', full)"
  shows "bd_issues b' = bd_issues b \<and> bd_fails b' = bd_fails b \<and> bd_new_id b' = bd_new_id b"
    "\<not> full \<Longrightarrow> 0 < cap \<Longrightarrow> r \<noteq> [] \<Longrightarrow> \<not> bd_fails b (bd_calls b) \<Longrightarrow> open_descendants_of_root (bd_issues b) r < cap"
  using assms by (auto simp: root_descendant_cap_reached_def list_issues_def api_call_def Let_def split: if_splits)

lemma ceilings_frame:
  assumes "ceilings_reached ws b parent = (b', full)"
  shows "bd_issues b' = bd_issues b \<and> bd_fails b' = bd_fails b \<and> bd_new_id b' = bd_new_id b"
    "\<not> full \<Longrightarrow> 0 < ws_max_open_fleet_tasks ws \<Longrightarrow> \<not> bd_fails b (bd_calls b)
       \<Longrightarrow> fleet_open_work_count (bd_issues b) < ws_max_open_fleet_tasks ws"
    "\<not> full \<Longrightarrow> 0 < ws_max_descendants_per_root ws \<Longrightarrow> lineage_root parent \<noteq> []
       \<Longrightarrow> \<not> bd_fails b (bd_calls b + (if 0 < ws_max_open_fleet_tasks ws then 1 else 0))
       \<Longrightarrow> open_descendants_of_root (bd_issues b) (lineage_root parent) < ws_max_descendants_per_root ws"
proof -
  obtain b1 f1 where c: "ceiling_reached b (ws_max_open_fleet_tasks ws) = (b1, f1)" by fastforce
  obtain b2 f2 where d: "root_descendant_cap_reached b1 (ws_max_descendants_per_root ws) (lineage_root parent) = (b2, f2)" by fastforce
  note cf = ceiling_frame [OF c] and df = root_cap_frame [OF d]
  have e: "(b', full) = (if f1 then (b1, True) else (b2, f2))" using assms by (cases f1) (simp_all add: ceilings_reached_def c d)
  show "bd_issues b' = bd_issues b \<and> bd_fails b' = bd_fails b \<and> bd_new_id b' = bd_new_id b" using e cf(1) df(1) by (auto split: if_splits)
  show "fleet_open_work_count (bd_issues b) < ws_max_open_fleet_tasks ws"
    if "\<not> full" "0 < ws_max_open_fleet_tasks ws" "\<not> bd_fails b (bd_calls b)"
    using that e cf(2) by (auto split: if_splits)
  show "open_descendants_of_root (bd_issues b) (lineage_root parent) < ws_max_descendants_per_root ws"
    if "\<not> full" "0 < ws_max_descendants_per_root ws" "lineage_root parent \<noteq> []"
      "\<not> bd_fails b (bd_calls b + (if 0 < ws_max_open_fleet_tasks ws then 1 else 0))"
    using that e cf(1) df(2) by (auto split: if_splits)
qed

lemma create_issue_cases:
  assumes "create_issue b name d st names = (b', r)"
  shows "(\<exists>n. r = Some n \<and> bd_issues b' = bd_issues b @ [new_issue n name d st names]) \<or> r = None \<and> bd_issues b' = bd_issues b"
  using assms by (auto simp: create_issue_def api_call_def Let_def split: if_splits)

lemma create_follow_up_cases:
  assumes "create_follow_up ws b parent kind reason = (b', r)"
  shows "bd_issues b' = bd_issues b
    \<or> (\<exists>n d title. bd_issues b' = bd_issues b @ [new_issue n title d STATE_READY (follow_up_labels parent kind reason)]
         \<and> retry_count_from_labels (is_labels parent) < 3 \<and> (\<exists>b1. ceilings_reached ws b parent = (b1, False)))"
proof (cases "retry_count_from_labels (is_labels parent) \<ge> MAX_FOLLOW_UP_RETRIES")
  case True
  then show ?thesis using assms by (simp add: create_follow_up_def)
next
  case False
  obtain b1 full where c: "ceilings_reached ws b parent = (b1, full)" by fastforce
  have i: "bd_issues b1 = bd_issues b" using ceilings_frame(1) [OF c] by simp
  show ?thesis
  proof (cases full)
    case True
    then show ?thesis using assms False c i by (auto simp: create_follow_up_def)
  next
    case full: False
    then have "create_issue b1 (''['' @ kind @ ''] '' @ is_name parent) (follow_up_description parent kind reason) STATE_READY
        (follow_up_labels parent kind reason) = (b', r)"
      using assms False c by (simp add: create_follow_up_def)
    from create_issue_cases [OF this] show ?thesis using i c full False by (auto simp: MAX_FOLLOW_UP_RETRIES_def)
  qed
qed

lemma create_chunks_cases:
  assumes "create_chunks b parent reason idx n cs = (b', ids)"
  shows "\<exists>new. bd_issues b' = bd_issues b @ new \<and> length new \<le> length cs
    \<and> (\<forall>i \<in> set new. is_labels i = map LabelText (split_labels parent reason))"
  using assms
proof (induction cs arbitrary: b idx b' ids)
  case (Cons c cs)
  obtain b1 r where i: "create_issue b (split_title parent idx n) (split_description parent idx n c) STATE_READY (split_labels parent reason) = (b1, r)"
    by fastforce
  obtain b2 ids2 where rec: "create_chunks b1 parent reason (idx + 1) n cs = (b2, ids2)" by fastforce
  have e: "b' = b2" using Cons.prems i rec by simp
  obtain new where "bd_issues b2 = bd_issues b1 @ new" "length new \<le> length cs"
      "\<forall>i \<in> set new. is_labels i = map LabelText (split_labels parent reason)"
    using Cons.IH [OF rec] by blast
  with create_issue_cases [OF i] show ?case unfolding e
    by (elim disjE exE conjE) (rule exI [of _ "new_issue _ _ _ _ _ # new"], auto simp: new_issue_def)+
qed simp


lemma split_followups_cases:
  assumes "create_split_followups ws b parent files reason = ((b', parent'), ids)"
  shows "issue_states b' = issue_states b \<or>
    (\<exists>new b2. bd_issues b2 = bd_issues b @ new \<and> length new \<le> 6 \<and> (b' = b2 \<or> b' = fst (add_label b2 parent LIFECYCLE_EXPANDED))
       \<and> (\<forall>i \<in> set new. is_labels i = map LabelText (split_labels parent reason))
       \<and> retry_count_from_labels (is_labels parent) < 2 \<and> (\<exists>b1. ceilings_reached ws b parent = (b1, False)))"
proof -
  let ?cs = "split_files_into_chunks 15 6 files"
  obtain b1 full where c: "ceilings_reached ws b parent = (b1, full)" by fastforce
  have i: "bd_issues b1 = bd_issues b" using ceilings_frame(1) [OF c] by simp
  obtain b2 created where k: "create_chunks b1 parent reason 1 (length ?cs) ?cs = (b2, created)" by fastforce
  obtain new where n: "bd_issues b2 = bd_issues b @ new" "length new \<le> length ?cs"
      "\<forall>j \<in> set new. is_labels j = map LabelText (split_labels parent reason)"
    using create_chunks_cases [OF k] i by auto
  have len: "length new \<le> 6" using n(2) split_length [of files] by linarith
  let ?stop = "retry_count_from_labels (is_labels parent) \<ge> 2 \<or> ?cs = [] \<or> full"
  have e: "create_split_followups ws b parent files reason =
      (if full then ((b1, parent), []) else (if created \<noteq> [] then add_label b2 parent LIFECYCLE_EXPANDED else (b2, parent), created))"
    if "\<not> 2 \<le> retry_count_from_labels (is_labels parent)" "?cs \<noteq> []"
    using that by (simp only: create_split_followups_def Let_def c k prod.case if_False simp_thms)
  have e0: "create_split_followups ws b parent files reason = ((b, parent), [])"
    if "2 \<le> retry_count_from_labels (is_labels parent) \<or> ?cs = []"
    using that by (auto simp: create_split_followups_def)
  have u1: "b' = b \<or> b' = b1" if h: ?stop
  proof (cases "2 \<le> retry_count_from_labels (is_labels parent) \<or> ?cs = []")
    case True
    have "((b', parent'), ids) = ((b, parent), [])" using e0 [OF True] assms by (rule trans [OF sym, rotated])
    then show ?thesis by simp
  next
    case False
    then have "full" using h by blast
    then have "create_split_followups ws b parent files reason = ((b1, parent), [])" using e False by simp
    with assms show ?thesis by (metis prod.inject)
  qed
  have u2: "b' = (if created \<noteq> [] then fst (add_label b2 parent LIFECYCLE_EXPANDED) else b2)" if "\<not> ?stop"
  proof -
    have "create_split_followups ws b parent files reason =
        ((if created \<noteq> [] then add_label b2 parent LIFECYCLE_EXPANDED else (b2, parent)), created)" using e that by argo
    with assms have "((b', parent'), ids) = ((if created \<noteq> [] then add_label b2 parent LIFECYCLE_EXPANDED else (b2, parent)), created)"
      by (rule trans [OF sym])
    from arg_cong [OF this, of "\<lambda>p. fst (fst p)"] show ?thesis by (cases "created = []") (simp_all only: fst_conv simp_thms if_True if_False)
  qed
  show ?thesis
  proof (cases "retry_count_from_labels (is_labels parent) \<ge> 2 \<or> ?cs = [] \<or> full")
    case True
    then have "b' = b \<or> b' = b1" by (rule u1)
    then show ?thesis using i by (auto simp: issue_states_def)
  next
    case False
    then have "b' = (if created \<noteq> [] then fst (add_label b2 parent LIFECYCLE_EXPANDED) else b2)"
      by (rule u2)
    then show ?thesis using n(1,3) len False c by (intro disjI2 exI [of _ new] exI [of _ b2]) auto
  qed
qed

section \<open>Properties\<close>

text \<open>
  An issue that a worker creates from another with a retry counter: a follow-up or a part of a split. Afterwards its labels
  may change as long as the counter does not go down.
\<close>

inductive child_of :: "issue \<Rightarrow> issue \<Rightarrow> bool" where
  follow_up: "create_follow_up ws b p kind reason = (b', r) \<Longrightarrow> n \<in> set (bd_issues b') \<Longrightarrow> is_id n \<notin> is_id ` set (bd_issues b) \<Longrightarrow>
    retry_count_from_labels (is_labels n) \<le> retry_count_from_labels (is_labels c) \<Longrightarrow> child_of p c"
| part: "create_split_followups ws b p files reason = ((b', p'), ids) \<Longrightarrow> n \<in> set (bd_issues b') \<Longrightarrow> is_id n \<notin> is_id ` set (bd_issues b) \<Longrightarrow>
    is_id n \<noteq> is_id p \<Longrightarrow>
    retry_count_from_labels (is_labels n) \<le> retry_count_from_labels (is_labels c) \<Longrightarrow> child_of p c"

lemma child_count:
  assumes "child_of p c"
  shows "retry_count_from_labels (is_labels p) < 3 \<and> retry_count_from_labels (is_labels p) + 1 \<le> retry_count_from_labels (is_labels c)"
  using assms
proof cases
  case (follow_up ws b kind reason b' r n)
  from create_follow_up_cases [OF follow_up(1)] show ?thesis
    using follow_up follow_up_retry_count(1) [of p kind reason] by (auto simp: new_issue_def)
next
  case (part ws b files reason b' p' ids n)
  from split_followups_cases [OF part(1)] show ?thesis
  proof
    assume "issue_states b' = issue_states b"
    then have "fst ` set (issue_states b') = fst ` set (issue_states b)" by simp
    then have "is_id ` set (bd_issues b') = is_id ` set (bd_issues b)" by (simp add: issue_states_def image_image)
    then show ?thesis using part by blast
  next
    assume "\<exists>new b2. bd_issues b2 = bd_issues b @ new \<and> length new \<le> 6 \<and> (b' = b2 \<or> b' = fst (add_label b2 p LIFECYCLE_EXPANDED))
       \<and> (\<forall>i \<in> set new. is_labels i = map LabelText (split_labels p reason))
       \<and> retry_count_from_labels (is_labels p) < 2 \<and> (\<exists>b1. ceilings_reached ws b p = (b1, False))"
    then obtain new b2 where h: "bd_issues b2 = bd_issues b @ new" "b' = b2 \<or> b' = fst (add_label b2 p LIFECYCLE_EXPANDED)"
        "\<forall>i \<in> set new. is_labels i = map LabelText (split_labels p reason)" "retry_count_from_labels (is_labels p) < 2"
      by blast
    have "n \<in> set (bd_issues b2)"
      using h(2) part(2,4)
      by (auto simp: add_label_def write_labels_def update_issue_labels_def api_call_def on_issue_def store_label_names_def Let_def
          split: if_splits)
    then have "n \<in> set new" using h(1) part(3) by auto
    then show ?thesis using h(3,4) part follow_up_retry_count(2) [of p reason] by simp
  qed
qed


definition sample_parent :: issue where
  "sample_parent = sample_issue ''p'' [''task-kind: goal'', ''repo: core'', ''retry-count: 2''] ''2026-03''"


text \<open>
  Follow-ups respect the ceilings: after a follow-up was created, and with the board readable, the open work of the fleet and the
  open descendants of the lineage are at most their ceilings; a split may overshoot each by five.
\<close>

theorem follow_ups_within_ceilings:
  assumes "create_follow_up ws b p kind reason = (b', r) \<and> extra = 0 \<or> create_split_followups ws b p files reason = ((b', p'), ids) \<and> extra = 5"
    and "length (bd_issues b') \<noteq> length (bd_issues b)"
    and "lineage_root p \<noteq> []" "0 < ws_max_open_fleet_tasks ws" "0 < ws_max_descendants_per_root ws"
    and "\<not> bd_fails b (bd_calls b)" "\<not> bd_fails b (bd_calls b + 1)"
  shows "fleet_open_work_count (bd_issues b) < ws_max_open_fleet_tasks ws
    \<and> open_descendants_of_root (bd_issues b) (lineage_root p) < ws_max_descendants_per_root ws
    \<and> int (length (bd_issues b')) \<le> int (length (bd_issues b)) + 1 + extra"
proof -
  have len: "length (bd_issues (fst (add_label d i l))) = length (bd_issues d)" for d i l
    by (simp add: add_label_def write_labels_def update_issue_labels_def api_call_def on_issue_def Let_def)
  have "(\<exists>b1. ceilings_reached ws b p = (b1, False)) \<and> int (length (bd_issues b')) \<le> int (length (bd_issues b)) + 1 + extra"
    using assms(1)
  proof
    assume h: "create_follow_up ws b p kind reason = (b', r) \<and> extra = 0"
    from create_follow_up_cases [OF h [THEN conjunct1]] show ?thesis using assms(2) h by auto
  next
    assume h: "create_split_followups ws b p files reason = ((b', p'), ids) \<and> extra = 5"
    have "issue_states b' \<noteq> issue_states b"
      using assms(2) by (auto simp: issue_states_def dest: map_eq_imp_length_eq)
    with split_followups_cases [OF h [THEN conjunct1]] show ?thesis using h by (auto simp: len)
  qed
  then show ?thesis using ceilings_frame(2,3) [of ws b p _ False] assms(3-7) by auto
qed


theorem follow_ups_within_ceilings_witness:
  "\<exists>b' r. create_follow_up (sample_settings\<lparr>ws_max_descendants_per_root := 4\<rparr>) sample_board sample_parent ''test'' ''verification_needed'' = (b', r)
     \<and> length (bd_issues b') = 4 \<and> fleet_open_work_count (bd_issues sample_board) < 5"
proof -
  let ?ws = "sample_settings\<lparr>ws_max_descendants_per_root := 4\<rparr>"
  obtain b' r where e: "create_follow_up ?ws sample_board sample_parent ''test'' ''verification_needed'' = (b', r)"
    by (metis prod.collapse)
  have "length (bd_issues (fst (create_follow_up ?ws sample_board sample_parent ''test'' ''verification_needed''))) = 4" by code_simp
  then have l: "length (bd_issues b') = 4" by (simp add: e)
  have "length (bd_issues sample_board) = 3" "\<And>n. \<not> bd_fails sample_board n" by (simp_all add: sample_board_def)
  moreover have "lineage_root sample_parent \<noteq> []" by code_simp
  moreover have "0 < ws_max_open_fleet_tasks ?ws" "0 < ws_max_descendants_per_root ?ws" "ws_max_open_fleet_tasks ?ws = 5"
    by (simp_all add: sample_settings_def)
  ultimately have "fleet_open_work_count (bd_issues sample_board) < 5"
    using follow_ups_within_ceilings [of ?ws sample_board sample_parent "''test''" "''verification_needed''" b' r 0 "[]" sample_parent "[]"] e l
    by simp
  then show ?thesis using e l by blast
qed

text \<open>
  The parent of a split is only closed when every other part on the board is done, and then its state is the only one that changes.
\<close>

theorem split_parent_closed_after_parts:
  assumes "issue_states (maybe_close_split_parent b completed) \<noteq> issue_states b"
  shows "has_split_label completed
    \<and> list_all is_done (filter (\<lambda>i. is_id i \<noteq> is_id completed) (split_siblings (label_value (is_labels completed) ''original-task-id'') (bd_issues b)))
    \<and> issue_states (maybe_close_split_parent b completed) =
        map (\<lambda>(k, s). (k, if k = label_value (is_labels completed) ''original-task-id'' then StateObj (Some STATE_DONE) else s)) (issue_states b)"
proof -
  let ?p = "label_value (is_labels completed) ''original-task-id''"
  obtain b1 r where l: "list_issues b = (b1, r)" by fastforce
  note fr = list_issues_frame [OF l]
  have s1: "issue_states b1 = issue_states b" using fr by (simp add: issue_states_def)
  have split: "has_split_label completed" "?p \<noteq> []" using assms by (auto simp: maybe_close_split_parent_def Let_def split: if_splits)
  have r: "r = Some (bd_issues b)" using assms fr s1 split by (cases r) (auto simp: maybe_close_split_parent_def l Let_def)
  have ready: "parent_ready (bd_issues b) completed ?p"
    using assms s1 split by (cases "parent_ready (bd_issues b) completed ?p") (simp_all add: maybe_close_split_parent_def l r Let_def)
  obtain b2 ok where t: "transition_issue b1 ?p STATE_DONE = (b2, ok)" by fastforce
  have m: "issue_states (maybe_close_split_parent b completed) = issue_states b2"
    using split ready by (cases ok) (simp_all add: maybe_close_split_parent_def l r Let_def and_then_def t)
  then have "ok" using assms transition_states [OF t] s1 by (cases ok) simp_all
  then show ?thesis using split(1) ready transition_states [OF t] s1 m
    by (auto simp: parent_ready_def split: option.splits)
qed

definition sample_split_board :: "issue_state \<Rightarrow> board" where
  "sample_split_board s =
     sample_board\<lparr>bd_issues :=
       [(sample_issue ''p'' [''task-kind: goal''] ''2026-03'')\<lparr>is_state := StateObj (Some ''Blocked'')\<rparr>,
        (sample_issue ''x'' [''source: scope-split'', ''original-task-id: p''] ''2026-04'')\<lparr>is_state := StateObj (Some ''Done'')\<rparr>,
        (sample_issue ''y'' [''source: scope-split'', ''original-task-id: p''] ''2026-04'')\<lparr>is_state := s\<rparr>]\<rparr>"

definition sample_part :: issue where
  "sample_part = (sample_issue ''y'' [''source: scope-split'', ''original-task-id: p''] ''2026-04'')\<lparr>is_state := StateObj (Some ''Running'')\<rparr>"

theorem split_parent_closed_after_parts_witness:
  "map snd (issue_states (maybe_close_split_parent (sample_split_board (StateObj (Some ''Done''))) sample_part)) =
     [StateObj (Some ''Done''), StateObj (Some ''Done''), StateObj (Some ''Done'')]"
proof -
  let ?b = "sample_split_board (StateObj (Some ''Done''))"
  have "issue_states (maybe_close_split_parent ?b sample_part) \<noteq> issue_states ?b" by code_simp
  moreover have "map snd (map (\<lambda>(k, s). (k, if k = label_value (is_labels sample_part) ''original-task-id'' then StateObj (Some STATE_DONE) else s))
      (issue_states ?b)) = [StateObj (Some ''Done''), StateObj (Some ''Done''), StateObj (Some ''Done'')]" by code_simp
  ultimately show ?thesis using split_parent_closed_after_parts [of ?b sample_part] by simp
qed

text \<open>
  Of the completed part itself only the worker's copy is looked at, which says Running: a part that was moved to In Review, or
  whose own transition failed, closes the parent as well, and the comment counts it twice.
\<close>

lemma parent_closed_early:
  "map snd (issue_states (maybe_close_split_parent (sample_split_board (StateObj (Some ''In Review''))) sample_part)) =
     [StateObj (Some ''Done''), StateObj (Some ''Done''), StateObj (Some ''In Review'')]
   \<and> bd_comments (maybe_close_split_parent (sample_split_board (StateObj (Some ''In Review''))) sample_part) =
     [(''p'', ''Auto-closed: all 3 scope-split children completed.'')]"
proof -
  have "map snd (issue_states (maybe_close_split_parent (sample_split_board (StateObj (Some ''In Review''))) sample_part)) =
     [StateObj (Some ''Done''), StateObj (Some ''Done''), StateObj (Some ''In Review'')]" by code_simp
  moreover have "bd_comments (maybe_close_split_parent (sample_split_board (StateObj (Some ''In Review''))) sample_part) =
     [(''p'', ''Auto-closed: all 3 scope-split children completed.'')]" by code_simp
  ultimately show ?thesis by blast
qed

text \<open>Suggestions of an improve run become tasks without a look at the ceilings.\<close>

lemma improve_ignores_ceilings:
  assumes "\<forall>n. \<not> bd_fails b n" "\<forall>n. bd_new_id b n \<noteq> []"
  shows "length (bd_issues (fst (create_improve_follow_ups b parent ss))) = length (bd_issues b) + length ss"
  using assms
proof (induction ss arbitrary: b)
  case (Cons s ss)
  obtain b1 r where c: "create_improve_follow_up b parent s = (b1, r)" by fastforce
  then have "bd_fails b1 = bd_fails b \<and> bd_new_id b1 = bd_new_id b \<and> length (bd_issues b1) = Suc (length (bd_issues b))"
    using Cons.prems by (auto simp: create_improve_follow_up_def create_issue_def api_call_def Let_def)
  then show ?case using Cons.IH [of b1] Cons.prems by (simp add: c case_prod_unfold Let_def)
qed simp


section \<open>When every call goes through\<close>

definition reliable :: "board \<Rightarrow> bool" where
  "reliable b = (\<forall>n. \<not> bd_fails b n)"

lemma reliable_calls:
  assumes "reliable b"
  shows "\<exists>b'. transition_issue b t st = (b', True) \<and> reliable b' \<and> bd_comments b' = bd_comments b \<and> map is_id (bd_issues b') = map is_id (bd_issues b)
      \<and> issue_states b' = map (\<lambda>(k, s). (k, if k = t then StateObj (Some st) else s)) (issue_states b)"
    "\<exists>b'. comment_issue b t x = (b', True) \<and> reliable b' \<and> bd_issues b' = bd_issues b \<and> bd_comments b' = bd_comments b @ [(t, x)]"
  using assms by (auto simp: transition_issue_def comment_issue_def api_call_def on_issue_def reliable_def issue_states_def Let_def)

lemma write_labels_reliable:
  assumes "reliable b"
  shows "snd (write_labels b i names) = store_label_names i names" "reliable (fst (write_labels b i names))"
    "bd_comments (fst (write_labels b i names)) = bd_comments b"
    "map is_id (bd_issues (fst (write_labels b i names))) = map is_id (bd_issues b)"
  using assms by (auto simp: write_labels_def update_issue_labels_def api_call_def reliable_def on_issue_def store_label_names_def Let_def)

lemma label_writers_reliable:
  assumes "reliable b"
  shows "reliable (fst (add_label b i l))" "reliable (fst (remove_labels b i ls))" "reliable (fst (increment_count_label b i p))"
    "bd_comments (fst (remove_labels b i ls)) = bd_comments b"
    "map is_id (bd_issues (fst (remove_labels b i ls))) = map is_id (bd_issues b)"
  using assms write_labels_reliable [OF assms] by (simp_all add: add_label_def remove_labels_def increment_count_label_def Let_def)

lemma stored_names: "issue_label_names (store_label_names i names) = filter (\<lambda>n. n \<noteq> []) (map py_strip names)"
  by (simp add: issue_label_names_def store_label_names_def comp_def)

lemma names_strip: "n \<in> set (issue_label_names i) \<Longrightarrow> py_strip n = n \<and> n \<noteq> []"
  by (auto simp: issue_label_names_def)

lemma names_restrip: "set xs \<subseteq> set (issue_label_names i) \<Longrightarrow> filter (\<lambda>n. n \<noteq> []) (map py_strip xs) = xs"
  by (induction xs) (auto dest: names_strip)

lemma names_add:
  assumes "reliable b" "py_strip l = l" "l \<noteq> []"
  shows "issue_label_names (snd (add_label b i l)) = (if l \<in> set (issue_label_names i) then issue_label_names i else issue_label_names i @ [l])"
  using assms names_restrip [of "issue_label_names i" i]
  by (simp add: add_label_def Let_def write_labels_reliable stored_names)

lemma names_add_any:
  assumes "reliable b"
  shows "set (issue_label_names (snd (add_label b i l))) - {py_strip l} = set (issue_label_names i) - {py_strip l}"
  using assms names_restrip [of "issue_label_names i" i]
  by (auto simp: add_label_def Let_def write_labels_reliable stored_names dest: names_strip)

lemma names_remove:
  assumes "reliable b"
  shows "issue_label_names (snd (remove_labels b i ls)) = filter (\<lambda>l. py_lower l \<notin> py_lower ` set ls) (issue_label_names i)"
proof (cases "filter (\<lambda>l. py_lower l \<notin> py_lower ` set ls) (issue_label_names i) = issue_label_names i")
  case True
  then show ?thesis by (simp add: remove_labels_def Let_def)
next
  case False
  have "set (filter (\<lambda>l. py_lower l \<notin> py_lower ` set ls) (issue_label_names i)) \<subseteq> set (issue_label_names i)" by auto
  from names_restrip [OF this] show ?thesis using False assms
    by (simp add: remove_labels_def Let_def write_labels_reliable stored_names)
qed

lemma lower_names: "s \<noteq> [] \<Longrightarrow> s \<in> set (map (\<lambda>l. py_lower (label_name l)) (is_labels i)) \<longleftrightarrow> s \<in> py_lower ` set (issue_label_names i)"
  by (auto simp: issue_label_names_def image_iff py_lower_def)

lemma count_filtered:
  assumes "\<And>l. prefix (py_lower p) (py_lower l) \<Longrightarrow> Q l" "p \<noteq> []"
  shows "count_from_labels (map LabelText (filter Q (filter (\<lambda>n. n \<noteq> []) (map label_name ls)))) p = count_from_labels ls p"
proof (induction ls)
  case (Cons l ls)
  show ?case
  proof (cases "prefix (py_lower p) (py_lower (label_name l))")
    case True
    then have "Q (label_name l)" "label_name l \<noteq> []" using assms by (auto simp: py_lower_def)
    then show ?thesis using True by (simp add: Let_def)
  next
    case False
    then show ?thesis using Cons by (simp add: Let_def)
  qed
qed simp

lemma clear_keeps_retry_count:
  assumes "reliable b"
  shows "retry_count_from_labels (is_labels (snd (clear_blocked_reason_labels b i))) = retry_count_from_labels (is_labels i)"
proof -
  let ?Q = "\<lambda>l. py_lower l \<notin> py_lower ` set BLOCKED_REASON_LABELS"
  have lits: "\<not> prefix (py_lower ''retry-count:'') (py_lower ''blocked-reason: policy'')"
    "\<not> prefix (py_lower ''retry-count:'') (py_lower ''blocked-reason: backend-capacity'')" by code_simp+
  have q: "prefix (py_lower ''retry-count:'') (py_lower l) \<Longrightarrow> ?Q l" for l
    using lits by (auto simp only: BLOCKED_REASON_LABELS_def list.set image_insert image_empty insert_iff empty_iff)
  have "is_labels (snd (remove_labels b i BLOCKED_REASON_LABELS)) =
      (if filter ?Q (issue_label_names i) = issue_label_names i then is_labels i else map LabelText (filter ?Q (issue_label_names i)))"
    using assms by (auto simp: remove_labels_def Let_def write_labels_reliable store_label_names_def)
  then show ?thesis using count_filtered [of "''retry-count:''" ?Q "is_labels i", OF q]
    by (simp add: clear_blocked_reason_labels_def retry_count_from_labels_def issue_label_names_def)
qed

text \<open>
  A refused verification is lost: when a goal task succeeds, needs verification and its follow-up is refused because of its
  retry counter, the task goes to Done with no test task on the board, and the comment says one was created.
\<close>

theorem refused_verification_is_done:
  assumes "reliable b" "dl_needs_verification d" "3 \<le> retry_count_from_labels (is_labels i)" "\<not> has_split_label i"
  shows "issue_states (handle_success ws b i ''goal'' d) =
      map (\<lambda>(k, s). (k, if k = is_id i then StateObj (Some STATE_DONE) else s)) (issue_states b)
    \<and> bd_comments (handle_success ws b i ''goal'' d) = bd_comments b @
        [(is_id i, ''Implementation complete ('' @ delivered d @ '') - created verification task #'')]"
proof -
  obtain b0 j where c: "clear_blocked_reason_labels b i = (b0, j)" by fastforce
  have c': "remove_labels b i BLOCKED_REASON_LABELS = (b0, j)" using c by (simp add: clear_blocked_reason_labels_def)
  have b0: "reliable b0" "bd_comments b0 = bd_comments b" "issue_states b0 = issue_states b" "is_id j = is_id i"
    using label_writers_reliable(2,4) [OF assms(1), of i BLOCKED_REASON_LABELS] label_writers_frame(3,4) [of b i BLOCKED_REASON_LABELS]
    by (simp_all add: c')
  have "3 \<le> retry_count_from_labels (is_labels j)" using clear_keeps_retry_count [OF assms(1), of i] assms(3) by (simp add: c)
  then have f: "create_follow_up ws b0 j ''test'' ''verification_needed'' = (b0, Some [])"
    by (simp add: create_follow_up_def MAX_FOLLOW_UP_RETRIES_def)
  have "set (issue_label_names j) \<subseteq> set (issue_label_names i)"
    using names_remove [OF assms(1), of i BLOCKED_REASON_LABELS] by (auto simp: c')
  moreover have "has_split_label k \<longleftrightarrow> ''source: scope-split'' \<in> py_lower ` set (issue_label_names k)" for k
    using lower_names [of "''source: scope-split''" k] by (simp add: has_split_label_def)
  ultimately have ns: "\<not> has_split_label j" using assms(4) by blast
  obtain b1 where m: "comment_issue b0 (is_id j) (''Implementation complete ('' @ delivered d @ '') - created verification task #'' @ []) = (b1, True)"
      "reliable b1" "bd_issues b1 = bd_issues b0"
      "bd_comments b1 = bd_comments b0 @ [(is_id j, ''Implementation complete ('' @ delivered d @ '') - created verification task #'' @ [])]"
    using reliable_calls(2) [OF b0(1)] by blast
  obtain b2 where t: "transition_issue b1 (is_id j) STATE_DONE = (b2, True)" "bd_comments b2 = bd_comments b1"
      "issue_states b2 = map (\<lambda>(k, s). (k, if k = is_id j then StateObj (Some STATE_DONE) else s)) (issue_states b1)"
    using reliable_calls(1) [OF m(2)] by blast
  have "success_steps ws b i ''goal'' d = (b2, j)"
    using assms(2) m(1) t(1) by (simp add: success_steps_def c goal_success_def f and_then_def)
  then have "handle_success ws b i ''goal'' d = b2" using ns by (simp add: handle_success_def maybe_close_split_parent_def)
  moreover have "issue_states b1 = issue_states b0" using m(3) by (simp add: issue_states_def)
  ultimately show ?thesis using t(2,3) m(4) b0 by simp
qed

definition sample_delivery :: delivery where
  "sample_delivery = \<lparr>dl_needs_verification = True, dl_suggestions = [], dl_pr_url = None, dl_branch_pushed = True, dl_branch_name = Some ''goal/a''\<rparr>"

theorem refused_verification_is_done_witness:
  "map fst (issue_states (handle_success sample_settings sample_board (sample_issue ''a'' [''retry-count: 3''] ''2026-01'') ''goal'' sample_delivery)) =
     [''b'', ''a'', ''c'']"
proof -
  let ?i = "sample_issue ''a'' [''retry-count: 3''] ''2026-01''"
  have "reliable sample_board" "dl_needs_verification sample_delivery" by (simp_all add: reliable_def sample_board_def sample_delivery_def)
  moreover have "3 \<le> retry_count_from_labels (is_labels ?i)" "\<not> has_split_label ?i" by code_simp+
  moreover have "map fst (map (\<lambda>(k, s). (k, if k = is_id ?i then StateObj (Some STATE_DONE) else s)) (issue_states sample_board)) = [''b'', ''a'', ''c'']"
    by code_simp
  ultimately show ?thesis using refused_verification_is_done [of sample_board sample_delivery ?i sample_settings] by simp
qed


section \<open>The labels of a failure\<close>

text \<open>The count that an increment reads: that of the last counter label that parses.\<close>

definition last_count :: "string \<Rightarrow> issue \<Rightarrow> int" where
  "last_count p i = fold (counter_step p) (issue_label_names i) 0"

lemma names_add_list:
  assumes "reliable b"
  shows "issue_label_names (snd (add_label b i l)) =
    (if l \<in> set (issue_label_names i) then issue_label_names i else issue_label_names i @ filter (\<lambda>n. n \<noteq> []) [py_strip l])"
  using assms names_restrip [of "issue_label_names i" i] by (simp add: add_label_def Let_def write_labels_reliable stored_names)

lemma last_count_add:
  "reliable b \<Longrightarrow> \<not> prefix (py_lower p) (py_lower (py_strip l)) \<Longrightarrow> last_count p (snd (add_label b i l)) = last_count p i"
  by (simp add: last_count_def names_add_list counter_step_def)

lemma fold_counter_filter:
  "(\<And>l. \<not> Q l \<Longrightarrow> \<not> prefix (py_lower p) (py_lower l)) \<Longrightarrow> fold (counter_step p) (filter Q xs) n = fold (counter_step p) xs n"
  by (induction xs arbitrary: n) (auto simp: counter_step_def)

lemma last_count_remove:
  assumes "reliable b" "\<forall>l \<in> set ls. \<not> prefix (py_lower p) (py_lower l)"
  shows "last_count p (snd (remove_labels b i ls)) = last_count p i"
proof -
  have "\<not> prefix (py_lower p) (py_lower l)" if "\<not> py_lower l \<notin> py_lower ` set ls" for l using that assms(2) by auto
  from fold_counter_filter [of "\<lambda>l. py_lower l \<notin> py_lower ` set ls", OF this] show ?thesis
    by (simp add: last_count_def names_remove [OF assms(1)])
qed

lemma names_increment:
  assumes "reliable b" "counter_prefix p"
  shows "issue_label_names (snd (increment_count_label b i p)) =
    filter (\<lambda>l. \<not> prefix (py_lower p) (py_lower l)) (issue_label_names i) @ [p @ '' '' @ show_int (last_count p i + 1)]"
proof -
  let ?xs = "filter (\<lambda>l. \<not> prefix (py_lower p) (py_lower l)) (issue_label_names i)"
  have "py_strip (p @ '' '' @ show_int n) = p @ '' '' @ show_int n" for n
    using label_name_counter [of p n] assms(2) by (simp add: counter_prefix_def)
  moreover have "filter (\<lambda>n. n \<noteq> []) (map py_strip ?xs) = ?xs" by (rule names_restrip [of _ i]) auto
  ultimately show ?thesis using assms
    by (simp add: increment_count_label_def Let_def write_labels_reliable stored_names last_count_def del: filter_filter)
qed

lemma count_after_increment:
  "reliable b \<Longrightarrow> counter_prefix p \<Longrightarrow> count_from_labels (is_labels (snd (increment_count_label b i p))) p = last_count p i + 1"
  by (simp add: count_incremented reliable_def last_count_def)

lemma failure_words:
  "\<not> prefix ''retry-count:'' (py_lower (py_strip (''executor-exit-code: '' @ x)))" "\<not> prefix ''code-fail-count:'' (py_lower (py_strip (''executor-exit-code: '' @ x)))"
  "\<not> prefix ''retry-count:'' (py_lower (py_strip (''executor-signal: '' @ x)))" "\<not> prefix ''code-fail-count:'' (py_lower (py_strip (''executor-signal: '' @ x)))"
  "\<not> prefix ''blocked-reason:'' (py_lower (py_strip (''executor-exit-code: '' @ x)))" "\<not> prefix ''blocked-reason:'' (py_lower (py_strip (''executor-signal: '' @ x)))"
  using other_label [of "''executor-exit-code:''" "''retry-count:''" "'' '' @ x"] other_label [of "''executor-exit-code:''" "''code-fail-count:''" "'' '' @ x"]
    other_label [of "''executor-signal:''" "''retry-count:''" "'' '' @ x"] other_label [of "''executor-signal:''" "''code-fail-count:''" "'' '' @ x"]
    other_label [of "''executor-exit-code:''" "''blocked-reason:''" "'' '' @ x"] other_label [of "''executor-signal:''" "''blocked-reason:''" "'' '' @ x"]
  by (simp_all add: label_word_def is_space_def py_lower_def to_lower_def)

lemma reason_literals:
  "py_lower BLOCKED_REASON_POLICY_LABEL = BLOCKED_REASON_POLICY_LABEL" "py_strip BLOCKED_REASON_POLICY_LABEL = BLOCKED_REASON_POLICY_LABEL"
  "py_strip BACKEND_CAPACITY_REASON_LABEL = BACKEND_CAPACITY_REASON_LABEL" "BACKEND_CAPACITY_REASON_LABEL \<noteq> BLOCKED_REASON_POLICY_LABEL"
  "BLOCKED_REASON_POLICY_LABEL \<noteq> []" "prefix ''blocked-reason:'' BLOCKED_REASON_POLICY_LABEL"
  "\<not> prefix ''retry-count:'' (py_lower BLOCKED_REASON_POLICY_LABEL)" "\<not> prefix ''code-fail-count:'' (py_lower BLOCKED_REASON_POLICY_LABEL)"
  "\<not> prefix ''retry-count:'' (py_lower BACKEND_CAPACITY_REASON_LABEL)" "\<not> prefix ''code-fail-count:'' (py_lower BACKEND_CAPACITY_REASON_LABEL)"
  "py_lower ''retry-count:'' = ''retry-count:''" "py_lower ''code-fail-count:'' = ''code-fail-count:''"
  "\<not> prefix ''retry-count:'' BLOCKED_REASON_POLICY_LABEL" "\<not> prefix ''code-fail-count:'' BLOCKED_REASON_POLICY_LABEL"
  by code_simp+

lemma blocked_reasons:
  "BLOCKED_REASON_POLICY_LABEL \<in> set BLOCKED_REASON_LABELS"
  "\<forall>l \<in> set BLOCKED_REASON_LABELS. \<not> prefix (py_lower ''retry-count:'') (py_lower l)"
  "\<forall>l \<in> set BLOCKED_REASON_LABELS. \<not> prefix (py_lower ''code-fail-count:'') (py_lower l)"
proof -
  have l: "BLOCKED_REASON_LABELS = [BLOCKED_REASON_POLICY_LABEL, BACKEND_CAPACITY_REASON_LABEL]" by code_simp
  show "BLOCKED_REASON_POLICY_LABEL \<in> set BLOCKED_REASON_LABELS"
    "\<forall>l \<in> set BLOCKED_REASON_LABELS. \<not> prefix (py_lower ''retry-count:'') (py_lower l)"
    "\<forall>l \<in> set BLOCKED_REASON_LABELS. \<not> prefix (py_lower ''code-fail-count:'') (py_lower l)"
    unfolding l by (simp_all only: list.set ball_simps reason_literals) (simp_all add: reason_literals)
qed

text \<open>Adding a label that is no counter and not the policy label.\<close>

lemma add_neutral:
  assumes "reliable b" "py_strip l \<noteq> BLOCKED_REASON_POLICY_LABEL"
    and "\<not> prefix ''retry-count:'' (py_lower (py_strip l))" "\<not> prefix ''code-fail-count:'' (py_lower (py_strip l))"
    and "add_label b i l = (b', i')"
  shows "reliable b'" "BLOCKED_REASON_POLICY_LABEL \<in> set (issue_label_names i') \<longleftrightarrow> BLOCKED_REASON_POLICY_LABEL \<in> set (issue_label_names i)"
    "last_count ''retry-count:'' i' = last_count ''retry-count:'' i" "last_count ''code-fail-count:'' i' = last_count ''code-fail-count:'' i"
    "issue_states b' = issue_states b"
  using label_writers_reliable(1) [OF assms(1), of i l] names_add_list [OF assms(1), of i l] assms(2-4)
    last_count_add [OF assms(1), of "''retry-count:''" l i] last_count_add [OF assms(1), of "''code-fail-count:''" l i]
    label_writers_frame(1) [of b i l]
  by (auto simp: assms(5) reason_literals)


lemma label_reason_spec:
  assumes "reliable b" "label_reason b i r = (b', i')"
  shows "reliable b'" "BLOCKED_REASON_POLICY_LABEL \<in> set (issue_label_names i') \<longleftrightarrow> result_category r = ''policy_blocked''"
    "last_count ''retry-count:'' i' = last_count ''retry-count:'' i" "last_count ''code-fail-count:'' i' = last_count ''code-fail-count:'' i"
    "issue_states b' = issue_states b"
proof -
  obtain b1 i1 where e: "(case rr_executor_exit_code r of None \<Rightarrow> (b, i) | Some n \<Rightarrow> add_label b i (''executor-exit-code: '' @ show_int n)) = (b1, i1)"
    by (metis prod.collapse)
  have one: "reliable b1 \<and> last_count ''retry-count:'' i1 = last_count ''retry-count:'' i
      \<and> last_count ''code-fail-count:'' i1 = last_count ''code-fail-count:'' i \<and> issue_states b1 = issue_states b"
  proof (cases "rr_executor_exit_code r")
    case (Some n)
    let ?l = "''executor-exit-code: '' @ show_int n"
    have "py_strip ?l \<noteq> BLOCKED_REASON_POLICY_LABEL"
      using failure_words(5) [of "show_int n"] reason_literals(1,6) by (metis (no_types, lifting))
    from add_neutral [OF assms(1) this failure_words(1,2)] show ?thesis using e Some by simp
  qed (use e assms(1) in simp)
  obtain b2 i2 where m: "remove_labels b1 i1 BLOCKED_REASON_LABELS = (b2, i2)" by fastforce
  have two: "reliable b2" "last_count ''retry-count:'' i2 = last_count ''retry-count:'' i1"
      "last_count ''code-fail-count:'' i2 = last_count ''code-fail-count:'' i1" "issue_states b2 = issue_states b1"
      "BLOCKED_REASON_POLICY_LABEL \<notin> set (issue_label_names i2)"
    using label_writers_reliable(2) [of b1 i1 BLOCKED_REASON_LABELS] last_count_remove [OF _ blocked_reasons(2), of b1 i1]
      last_count_remove [OF _ blocked_reasons(3), of b1 i1] label_writers_frame(3) [of b1 i1 BLOCKED_REASON_LABELS]
      names_remove [of b1 i1 BLOCKED_REASON_LABELS] one blocked_reasons(1)
    by (simp_all add: m)
  have u: "(if result_category r = ''policy_blocked'' then add_label b2 i2 BLOCKED_REASON_POLICY_LABEL
      else if is_backend_capacity_failure (result_category r) (result_reason r) then add_label b2 i2 BACKEND_CAPACITY_REASON_LABEL
      else (b2, i2)) = (b', i')"
    using assms(2) by (simp add: label_reason_def e m)
  have pol: "BLOCKED_REASON_POLICY_LABEL \<in> set (issue_label_names (snd (add_label b2 i2 BLOCKED_REASON_POLICY_LABEL)))"
    using names_add_list [OF two(1)] by (simp add: reason_literals)
  have polc: "last_count p (snd (add_label b2 i2 BLOCKED_REASON_POLICY_LABEL)) = last_count p i2" if "p \<in> {''retry-count:'', ''code-fail-count:''}" for p
    using that last_count_add [OF two(1), of p BLOCKED_REASON_POLICY_LABEL i2] by (auto simp: reason_literals)
  have polf: "issue_states (fst (add_label b2 i2 BLOCKED_REASON_POLICY_LABEL)) = issue_states b2"
    "reliable (fst (add_label b2 i2 BLOCKED_REASON_POLICY_LABEL))" using label_writers_frame(1) label_writers_reliable(1) [OF two(1)] by auto
  have cap: "add_label b2 i2 BACKEND_CAPACITY_REASON_LABEL = (b', i') \<Longrightarrow> reliable b'
      \<and> BLOCKED_REASON_POLICY_LABEL \<notin> set (issue_label_names i') \<and> last_count ''retry-count:'' i' = last_count ''retry-count:'' i2
      \<and> last_count ''code-fail-count:'' i' = last_count ''code-fail-count:'' i2 \<and> issue_states b' = issue_states b2"
    using add_neutral [OF two(1), of BACKEND_CAPACITY_REASON_LABEL i2 b' i'] two(5) by (simp add: reason_literals)
  have "reliable b' \<and> (BLOCKED_REASON_POLICY_LABEL \<in> set (issue_label_names i') \<longleftrightarrow> result_category r = ''policy_blocked'')
      \<and> last_count ''retry-count:'' i' = last_count ''retry-count:'' i2 \<and> last_count ''code-fail-count:'' i' = last_count ''code-fail-count:'' i2
      \<and> issue_states b' = issue_states b2"
  proof (cases "result_category r = ''policy_blocked''")
    case True
    then have "add_label b2 i2 BLOCKED_REASON_POLICY_LABEL = (b', i')" using u by simp
    then show ?thesis using pol polc polf True by simp
  next
    case False
    then show ?thesis using u cap two by (cases "is_backend_capacity_failure (result_category r) (result_reason r)") auto
  qed
  then show "reliable b'" "BLOCKED_REASON_POLICY_LABEL \<in> set (issue_label_names i') \<longleftrightarrow> result_category r = ''policy_blocked''"
    "last_count ''retry-count:'' i' = last_count ''retry-count:'' i" "last_count ''code-fail-count:'' i' = last_count ''code-fail-count:'' i"
    "issue_states b' = issue_states b" using one two by simp_all
qed

lemma policy_kept:
  assumes "reliable b" "p = ''retry-count:'' \<or> p = ''code-fail-count:''"
  shows "BLOCKED_REASON_POLICY_LABEL \<in> set (issue_label_names (snd (increment_count_label b i p))) \<longleftrightarrow>
    BLOCKED_REASON_POLICY_LABEL \<in> set (issue_label_names i)"
proof -
  have "counter_prefix p" using assms(2) by auto
  moreover have "BLOCKED_REASON_POLICY_LABEL \<noteq> p @ x" for x
    using assms(2) by (auto simp: BLOCKED_REASON_POLICY_LABEL_def)
  moreover have "\<not> prefix (py_lower p) (py_lower BLOCKED_REASON_POLICY_LABEL)" using assms(2) reason_literals by auto
  ultimately show ?thesis by (simp add: names_increment [OF assms(1)])
qed

text \<open>
  A failed goal or improve task is blocked and labelled for the healing of the board: it carries the policy label exactly when
  the policy stopped it, its retry counter goes up by one after a kill, its code-failure counter by one after a failure
  of the code without a signal.
\<close>

theorem failure_is_labelled:
  assumes "reliable b" "role \<noteq> ''test''" "handle_failure ws b i role r [] = (b', i')"
  shows "issue_states b' = map (\<lambda>(k, s). (k, if k = is_id i then StateObj (Some STATE_BLOCKED) else s)) (issue_states b)
    \<and> (BLOCKED_REASON_POLICY_LABEL \<in> set (issue_label_names i') \<longleftrightarrow> result_category r = ''policy_blocked'')
    \<and> (truthy_str (rr_executor_signal r) \<and> str_contains ''sigkill'' (py_lower (or_empty (rr_executor_signal r))) \<longrightarrow>
        retry_count_from_labels (is_labels i') = last_count ''retry-count:'' i + 1)
    \<and> (\<not> truthy_str (rr_executor_signal r) \<and> result_category r \<in> CODE_FAILURE_CATEGORIES \<longrightarrow>
        code_failure_count_from_labels (is_labels i') = last_count ''code-fail-count:'' i + 1)"
proof -
  obtain b1 where t: "transition_issue b (is_id i) STATE_BLOCKED = (b1, True)" "reliable b1"
      "issue_states b1 = map (\<lambda>(k, s). (k, if k = is_id i then StateObj (Some STATE_BLOCKED) else s)) (issue_states b)"
    using reliable_calls(1) [OF assms(1)] by blast
  let ?text = "''board_worker['' @ role @ ''] failed'' @ failure_facts r @ exec_block r @ split_block []"
  obtain b2 where m: "comment_issue b1 (is_id i) ?text = (b2, True)" "reliable b2" "bd_issues b2 = bd_issues b1"
    using reliable_calls(2) [OF t(2)] by blast
  have "block_failed ws b i role r [] = (b2, True)" using assms(2) t(1) m(1) by (simp add: block_failed_def and_then_def)
  then have f: "label_failure b2 i r = (b', i')" using assms(3) by (simp add: handle_failure_def)
  obtain b3 i3 where e: "label_reason b2 i r = (b3, i3)" by fastforce
  note lr = label_reason_spec [OF m(2) e]
  have s3: "issue_states b3 = issue_states b1" using lr(5) m(3) by (simp add: issue_states_def)
  let ?sig = "or_empty (rr_executor_signal r)"
  show ?thesis
  proof (cases "truthy_str (rr_executor_signal r)")
    case True
    obtain b4 i4 where a: "add_label b3 i3 (''executor-signal: '' @ ?sig) = (b4, i4)" by fastforce
    have "py_strip (''executor-signal: '' @ ?sig) \<noteq> BLOCKED_REASON_POLICY_LABEL"
      using failure_words(6) [of ?sig] reason_literals(1,6) by (metis (no_types, lifting))
    note an = add_neutral [OF lr(1) this failure_words(3,4) a]
    show ?thesis
    proof (cases "str_contains ''sigkill'' (py_lower ?sig)")
      case kill: True
      then have "increment_retry_count b4 i4 = (b', i')" using f True by (simp add: label_failure_def e a del: append_Cons append_Nil)
      then show ?thesis
        using True kill an lr s3 t(3) count_after_increment [OF an(1), of "''retry-count:''" i4] policy_kept [OF an(1), of "''retry-count:''" i4]
          label_writers_frame(5) [of b4 i4 "''retry-count:''"]
        by (simp add: increment_retry_count_def retry_count_from_labels_def)
    next
      case False
      then have "b' = b4 \<and> i' = i4" using f True by (simp add: label_failure_def e a del: append_Cons append_Nil)
      then show ?thesis using True False an lr s3 t(3) by simp
    qed
  next
    case False
    show ?thesis
    proof (cases "result_category r \<in> CODE_FAILURE_CATEGORIES")
      case code: True
      then have "increment_code_failure_count b3 i3 = (b', i')" using f False by (simp add: label_failure_def e)
      then show ?thesis
        using False lr s3 t(3) count_after_increment [OF lr(1), of "''code-fail-count:''" i3] policy_kept [OF lr(1), of "''code-fail-count:''" i3]
          label_writers_frame(5) [of b3 i3 "''code-fail-count:''"]
        by (simp add: increment_code_failure_count_def code_failure_count_from_labels_def)
    next
      case nocode: False
      then have "b' = b3 \<and> i' = i3" using f False by (simp add: label_failure_def e)
      then show ?thesis using False nocode lr s3 t(3) by simp
    qed
  qed
qed

definition sample_result :: "string \<Rightarrow> string option \<Rightarrow> run_result" where
  "sample_result category signal =
     \<lparr>rr_success = False, rr_status = ''failed'', rr_needs_verification = False, rr_failure_category = Some category,
      rr_failure_reason = Some ''tests failed'', rr_executor_exit_code = Some 1, rr_executor_signal = signal,
      rr_pull_request_url = None, rr_branch_pushed = Some False, rr_branch_name = None\<rparr>"

theorem failure_is_labelled_witness:
  "\<exists>b' i'. handle_failure sample_settings sample_board (sample_issue ''a'' [''code-fail-count: 2''] ''2026-01'') ''goal''
       (sample_result ''validation_failed'' None) [] = (b', i')
     \<and> code_failure_count_from_labels (is_labels i') = 3"
proof -
  let ?i = "sample_issue ''a'' [''code-fail-count: 2''] ''2026-01''" and ?r = "sample_result ''validation_failed'' None"
  obtain b' i' where h: "handle_failure sample_settings sample_board ?i ''goal'' ?r [] = (b', i')" by fastforce
  have "reliable sample_board" by (simp add: reliable_def sample_board_def)
  moreover have "\<not> truthy_str (rr_executor_signal ?r)" by (simp add: sample_result_def truthy_str_def)
  moreover have "result_category ?r \<in> CODE_FAILURE_CATEGORIES"
    by (simp add: sample_result_def result_category_def truthy_str_def or_empty_def CODE_FAILURE_CATEGORIES_def)
  moreover have "last_count ''code-fail-count:'' ?i = 2" by code_simp
  ultimately show ?thesis using failure_is_labelled [OF _ _ h] h by simp
qed

end
