(* ===== verification/Forgejo_Board.thy ===== *)
theory Forgejo_Board
  imports Board_Claim
begin

text \<open>
  The board's adapter (\<open>adapters/forgejo/client.py\<close>): states of tasks kept as labels of Forgejo issues.

  Forgejo is a service: a server answers each request with a reply and changes its own state, of any type. What the
  theorems assume of it (that labels written are the labels read) is \<open>forge_ok\<close>. An operation returns the client's
  label cache, the server's state and an error or a value. Waiting between attempts is left out.
\<close>

section \<open>Requests\<close>

record fj_issue =
  fj_id :: int
  fj_number :: int
  fj_title :: string
  fj_body :: string
  fj_closed :: bool
  fj_labels :: "string list"
  fj_created_at :: string
  fj_updated_at :: iso_text

datatype request =
  GetIssue string | ListIssues nat nat | GetRepo | ListLabels nat nat | ListComments string nat nat
| PostLabel string | PutLabels string "string list" | PostIssue string string "string list"
| PatchBody string string | PostComment string string

datatype body = B_issue fj_issue | B_issues "fj_issue list" | B_labels "string list" | B_texts "string list" | B_none

datatype reply = ConnError | Reply nat body

type_synonym 's server = "'s \<Rightarrow> request \<Rightarrow> 's \<times> reply"

datatype fj_error = ConnectionError | HTTPStatusError nat | BadBody | MultipleStatesError "string list" | UnknownStateError string

text \<open>\<open>_request\<close>: with \<open>n\<close> attempts left after this one.\<close>

fun request_loop :: "'s server \<Rightarrow> nat \<Rightarrow> 's \<Rightarrow> request \<Rightarrow> 's \<times> reply" where
  "request_loop srv n s q =
     (let (s', r) = srv s q
      in case n of
           0 \<Rightarrow> (s', r)
         | Suc k \<Rightarrow>
             (case r of
                ConnError \<Rightarrow> request_loop srv k s' q
              | Reply st b \<Rightarrow> if st \<in> {429, 502, 503, 504} then request_loop srv k s' q else (s', r)))"

declare request_loop.simps [simp del]

definition do_request :: "'s server \<Rightarrow> 's \<Rightarrow> request \<Rightarrow> 's \<times> (fj_error + nat \<times> body)" where
  "do_request srv s q =
     (let (s', r) = request_loop srv 3 s q
      in (s', case r of ConnError \<Rightarrow> Inl ConnectionError | Reply st b \<Rightarrow> Inr (st, b)))"

definition is_success :: "nat \<Rightarrow> bool" where
  "is_success st = (200 \<le> st \<and> st < 300)"

text \<open>A request followed by \<open>raise_for_status\<close>.\<close>

definition checked :: "'s server \<Rightarrow> 's \<Rightarrow> request \<Rightarrow> 's \<times> (fj_error + body)" where
  "checked srv s q =
     (let (s', r) = do_request srv s q
      in (s', case r of Inl e \<Rightarrow> Inl e | Inr (st, b) \<Rightarrow> if is_success st then Inr b else Inl (HTTPStatusError st)))"

section \<open>Reading every page\<close>

definition PAGE_SIZE :: nat where "PAGE_SIZE = 50"
definition MAX_PAGES :: nat where "MAX_PAGES = 200"

text \<open>\<open>items\<close> reads the list out of a page's body.\<close>

fun paginate_from ::
  "'s server \<Rightarrow> (body \<Rightarrow> 'a list option) \<Rightarrow> (nat \<Rightarrow> nat \<Rightarrow> request) \<Rightarrow> nat \<Rightarrow> nat \<Rightarrow> 's \<Rightarrow> 'a list \<Rightarrow> 's \<times> (fj_error + 'a list)" where
  "paginate_from srv items q 0 page s acc = (s, Inr acc)"
| "paginate_from srv items q (Suc n) page s acc =
     (let (s', r) = checked srv s (q page PAGE_SIZE)
      in case r of
           Inl e \<Rightarrow> (s', Inl e)
         | Inr b \<Rightarrow>
             (case items b of
                None \<Rightarrow> (s', Inl BadBody)
              | Some batch \<Rightarrow>
                  if length batch < PAGE_SIZE then (s', Inr (acc @ batch))
                  else paginate_from srv items q n (page + 1) s' (acc @ batch)))"

definition paginate ::
  "'s server \<Rightarrow> (body \<Rightarrow> 'a list option) \<Rightarrow> (nat \<Rightarrow> nat \<Rightarrow> request) \<Rightarrow> 's \<Rightarrow> 's \<times> (fj_error + 'a list)" where
  "paginate srv items q s = paginate_from srv items q MAX_PAGES 1 s []"

fun issues_of :: "body \<Rightarrow> fj_issue list option" where
  "issues_of (B_issues is) = Some is"
| "issues_of _ = None"

fun label_names_of :: "body \<Rightarrow> string list option" where
  "label_names_of (B_labels ls) = Some ls"
| "label_names_of _ = None"

fun texts_of :: "body \<Rightarrow> string list option" where
  "texts_of (B_texts ts) = Some ts"
| "texts_of _ = None"

definition fj_list_issues :: "'s server \<Rightarrow> 's \<Rightarrow> 's \<times> (fj_error + fj_issue list)" where
  "fj_list_issues srv s = paginate srv issues_of ListIssues s"

definition fj_list_comments :: "'s server \<Rightarrow> 's \<Rightarrow> string \<Rightarrow> 's \<times> (fj_error + string list)" where
  "fj_list_comments srv s task_id = paginate srv texts_of (ListComments task_id) s"

definition fj_fetch_issue :: "'s server \<Rightarrow> 's \<Rightarrow> string \<Rightarrow> 's \<times> (fj_error + fj_issue)" where
  "fj_fetch_issue srv s task_id =
     (let (s', r) = checked srv s (GetIssue task_id)
      in (s', case r of Inl e \<Rightarrow> Inl e | Inr b \<Rightarrow> (case b of B_issue i \<Rightarrow> Inr i | _ \<Rightarrow> Inl BadBody)))"

section \<open>States and labels\<close>

definition STATE_LABEL_PREFIX :: string where "STATE_LABEL_PREFIX = ''state: ''"
definition PRIORITY_LABEL_PREFIX :: string where "PRIORITY_LABEL_PREFIX = ''priority: ''"

definition KNOWN_STATES :: "string list" where
  "KNOWN_STATES = [''Backlog'', ''Ready for AI'', ''Blocked'', ''Awaiting Input'', ''Done'', ''Cancelled'']"

definition state_label :: "string \<Rightarrow> string" where
  "state_label st = STATE_LABEL_PREFIX @ st"

definition is_state_label :: "string \<Rightarrow> bool" where
  "is_state_label n = prefix STATE_LABEL_PREFIX n"

definition states_of :: "string list \<Rightarrow> string list" where
  "states_of names = map (drop (length STATE_LABEL_PREFIX)) (filter is_state_label names)"

definition state_of :: "fj_issue \<Rightarrow> fj_error + string" where
  "state_of i =
     (case states_of (fj_labels i) of
        [] \<Rightarrow> Inr ''Unknown''
      | [st] \<Rightarrow> Inr st
      | sts \<Rightarrow> Inl (MultipleStatesError sts))"

section \<open>Writes\<close>

type_synonym cache = "string list option"

definition list_labels :: "'s server \<Rightarrow> bool \<Rightarrow> cache \<Rightarrow> 's \<Rightarrow> (cache \<times> 's) \<times> (fj_error + string list)" where
  "list_labels srv force_refresh c s =
     (case c of
        Some ls \<Rightarrow> if \<not> force_refresh then ((c, s), Inr ls)
          else (let (s', r) = paginate srv label_names_of ListLabels s in
                  ((case r of Inl e \<Rightarrow> c | Inr ls' \<Rightarrow> Some ls', s'), r))
      | None \<Rightarrow> (let (s', r) = paginate srv label_names_of ListLabels s in
                   ((case r of Inl e \<Rightarrow> None | Inr ls \<Rightarrow> Some ls, s'), r)))"

definition ensure_label :: "'s server \<Rightarrow> cache \<Rightarrow> 's \<Rightarrow> string \<Rightarrow> (cache \<times> 's) \<times> (fj_error + unit)" where
  "ensure_label srv c s name =
     (let ((c1, s1), r) = list_labels srv False c s
      in case r of
           Inl e \<Rightarrow> ((c1, s1), Inl e)
         | Inr existing \<Rightarrow>
             if name \<in> set existing then ((c1, s1), Inr ())
             else (let (s2, p) = do_request srv s1 (PostLabel name)
                   in case p of
                        Inl e \<Rightarrow> ((c1, s2), Inl e)
                      | Inr (st, b) \<Rightarrow>
                          if st \<notin> {200, 201, 422} \<and> \<not> is_success st then ((c1, s2), Inl (HTTPStatusError st))
                          else ((None, s2), Inr ())))"

fun ensure_labels :: "'s server \<Rightarrow> cache \<Rightarrow> 's \<Rightarrow> string list \<Rightarrow> (cache \<times> 's) \<times> (fj_error + unit)" where
  "ensure_labels srv c s [] = ((c, s), Inr ())"
| "ensure_labels srv c s (n # ns) =
     (let ((c1, s1), r) = ensure_label srv c s n
      in case r of Inl e \<Rightarrow> ((c1, s1), Inl e) | Inr _ \<Rightarrow> ensure_labels srv c1 s1 ns)"

definition set_labels :: "'s server \<Rightarrow> cache \<Rightarrow> 's \<Rightarrow> string \<Rightarrow> string list \<Rightarrow> (cache \<times> 's) \<times> (fj_error + unit)" where
  "set_labels srv c s task_id names =
     (let ((c1, s1), r) = ensure_labels srv c s names
      in case r of
           Inl e \<Rightarrow> ((c1, s1), Inl e)
         | Inr _ \<Rightarrow> (let (s2, p) = checked srv s1 (PutLabels task_id names)
                     in ((c1, s2), case p of Inl e \<Rightarrow> Inl e | Inr _ \<Rightarrow> Inr ())))"

text \<open>A write that reads the issue first and sends the labels \<open>f\<close> makes of those it has.\<close>

definition rewrite_labels ::
  "(string list \<Rightarrow> string list) \<Rightarrow> 's server \<Rightarrow> cache \<Rightarrow> 's \<Rightarrow> string \<Rightarrow> (cache \<times> 's) \<times> (fj_error + unit)" where
  "rewrite_labels f srv c s task_id =
     (let (s1, r) = fj_fetch_issue srv s task_id
      in case r of Inl e \<Rightarrow> ((c, s1), Inl e) | Inr i \<Rightarrow> set_labels srv c s1 task_id (f (fj_labels i)))"

definition transition_labels :: "string \<Rightarrow> string list \<Rightarrow> string list" where
  "transition_labels st current = filter (\<lambda>n. \<not> is_state_label n) current @ [state_label st]"

definition fj_transition_issue :: "'s server \<Rightarrow> cache \<Rightarrow> 's \<Rightarrow> string \<Rightarrow> string \<Rightarrow> (cache \<times> 's) \<times> (fj_error + unit)" where
  "fj_transition_issue srv c s task_id st =
     (if st \<notin> set KNOWN_STATES then ((c, s), Inl (UnknownStateError st))
      else rewrite_labels (transition_labels st) srv c s task_id)"

definition fj_create_issue ::
  "'s server \<Rightarrow> cache \<Rightarrow> 's \<Rightarrow> string \<Rightarrow> string \<Rightarrow> string option \<Rightarrow> string list \<Rightarrow> (cache \<times> 's) \<times> (fj_error + body)" where
  "fj_create_issue srv c s name description st label_names =
     (if truthy_str st \<and> or_empty st \<notin> set KNOWN_STATES then ((c, s), Inl (UnknownStateError (or_empty st)))
      else (let labels = (if truthy_str st then label_names @ [state_label (or_empty st)] else label_names);
                ((c1, s1), r) = ensure_labels srv c s labels
            in case r of
                 Inl e \<Rightarrow> ((c1, s1), Inl e)
               | Inr _ \<Rightarrow> (let (s2, p) = checked srv s1 (PostIssue name description labels) in ((c1, s2), p))))"

definition fj_update_issue_description :: "'s server \<Rightarrow> 's \<Rightarrow> string \<Rightarrow> string \<Rightarrow> 's \<times> (fj_error + body)" where
  "fj_update_issue_description srv s task_id description = checked srv s (PatchBody task_id description)"

definition updated_labels :: "string list \<Rightarrow> string list \<Rightarrow> string list" where
  "updated_labels names current = names @ filter is_state_label current"

definition fj_update_issue_labels ::
  "'s server \<Rightarrow> cache \<Rightarrow> 's \<Rightarrow> string \<Rightarrow> string list \<Rightarrow> (cache \<times> 's) \<times> (fj_error + unit)" where
  "fj_update_issue_labels srv c s task_id names = rewrite_labels (updated_labels names) srv c s task_id"

definition fj_comment_issue :: "'s server \<Rightarrow> 's \<Rightarrow> string \<Rightarrow> string \<Rightarrow> 's \<times> (fj_error + body)" where
  "fj_comment_issue srv s task_id comment = checked srv s (PostComment task_id comment)"

definition priority_labels :: "string \<Rightarrow> string list \<Rightarrow> string list" where
  "priority_labels priority current =
     filter (\<lambda>n. \<not> prefix PRIORITY_LABEL_PREFIX n) current @ [PRIORITY_LABEL_PREFIX @ priority]"

definition fj_set_priority :: "'s server \<Rightarrow> cache \<Rightarrow> 's \<Rightarrow> string \<Rightarrow> string \<Rightarrow> (cache \<times> 's) \<times> (fj_error + unit)" where
  "fj_set_priority srv c s task_id priority = rewrite_labels (priority_labels priority) srv c s task_id"

text \<open>What the workers read of an issue of this client: its \<open>state\<close> is open or closed, and it has no \<open>name\<close>, \<open>description\<close> or \<open>created_by\<close>.\<close>

definition raw_issue :: "fj_issue \<Rightarrow> issue" where
  "raw_issue i =
     \<lparr>is_id = show_int (fj_id i), is_name = [], is_description = [],
      is_state = StateText (if fj_closed i then ''closed'' else ''open''), is_labels = map (\<lambda>n. LabelObj (Some n)) (fj_labels i),
      is_priority = None, is_created_at = fj_created_at i, is_updated_at = fj_updated_at i, is_actors = []\<rparr>"

section \<open>Laws\<close>

text \<open>
  A view \<open>labels_of\<close> of the server: reading a task answers with its labels, if it answers; a write of labels that is confirmed
  has replaced them, as a set, and one that is not confirmed has or has not; nothing else changes them.
\<close>

definition forge_ok :: "'s server \<Rightarrow> ('s \<Rightarrow> string \<Rightarrow> string list) \<Rightarrow> bool" where
  "forge_ok srv labels_of =
     (\<forall>s q s' r. srv s q = (s', r) \<longrightarrow>
        (case q of
           PutLabels t names \<Rightarrow>
             (labels_of s' = (labels_of s)(t := remdups names) \<or>
              labels_of s' = labels_of s \<and> (\<forall>st b. r = Reply st b \<longrightarrow> \<not> is_success st))
         | GetIssue t \<Rightarrow> labels_of s' = labels_of s
             \<and> (\<forall>st i. r = Reply st (B_issue i) \<longrightarrow> is_success st \<longrightarrow> fj_labels i = labels_of s t)
         | _ \<Rightarrow> labels_of s' = labels_of s))"


lemma forge_okD:
  assumes "forge_ok srv labels_of" "srv s q = (s', r)"
  shows "(case q of PutLabels t names \<Rightarrow> False | _ \<Rightarrow> True) \<Longrightarrow> labels_of s' = labels_of s"
    "q = GetIssue t \<Longrightarrow> r = Reply st (B_issue i) \<Longrightarrow> is_success st \<Longrightarrow> fj_labels i = labels_of s t"
    "q = PutLabels t names \<Longrightarrow> labels_of s' = (labels_of s)(t := remdups names)
       \<or> labels_of s' = labels_of s \<and> (\<forall>st b. r = Reply st b \<longrightarrow> \<not> is_success st)"
proof -
  note a = assms(1) [unfolded forge_ok_def, rule_format, OF assms(2)]
  show "(case q of PutLabels t names \<Rightarrow> False | _ \<Rightarrow> True) \<Longrightarrow> labels_of s' = labels_of s"
    using a by (cases q) simp_all
  show "q = GetIssue t \<Longrightarrow> r = Reply st (B_issue i) \<Longrightarrow> is_success st \<Longrightarrow> fj_labels i = labels_of s t"
    using a by simp
  show "q = PutLabels t names \<Longrightarrow> labels_of s' = (labels_of s)(t := remdups names)
       \<or> labels_of s' = labels_of s \<and> (\<forall>st b. r = Reply st b \<longrightarrow> \<not> is_success st)"
    using a by simp
qed

lemma loop_frame:
  assumes f: "forge_ok srv labels_of" and q: "case q of PutLabels t names \<Rightarrow> False | _ \<Rightarrow> True"
  shows "request_loop srv n s q = (s', r) \<Longrightarrow> labels_of s' = labels_of s
    \<and> (\<forall>t st i. q = GetIssue t \<longrightarrow> r = Reply st (B_issue i) \<longrightarrow> is_success st \<longrightarrow> fj_labels i = labels_of s t)"
proof (induction n arbitrary: s)
  case 0
  then have "srv s q = (s', r)" by (subst (asm) request_loop.simps) (simp add: case_prod_unfold prod_eq_iff)
  then show ?case using forge_okD(1) [OF f _ q] forge_okD(2) [OF f] by blast
next
  case (Suc n)
  obtain s1 r1 where c: "srv s q = (s1, r1)" by fastforce
  then have l: "labels_of s1 = labels_of s" using forge_okD(1) [OF f _ q] by blast
  have d: "\<forall>t st i. q = GetIssue t \<longrightarrow> r1 = Reply st (B_issue i) \<longrightarrow> is_success st \<longrightarrow> fj_labels i = labels_of s t"
    using forge_okD(2) [OF f c] by blast
  have "request_loop srv n s1 q = (s', r) \<or> (s1, r1) = (s', r)"
    using Suc.prems by (subst (asm) request_loop.simps) (auto simp: c split: reply.splits if_splits)
  then show ?case
  proof
    assume "request_loop srv n s1 q = (s', r)"
    from Suc.IH [OF this] show ?thesis using l by simp
  next
    assume "(s1, r1) = (s', r)"
    then show ?thesis using l d by simp
  qed
qed

lemma loop_put:
  assumes f: "forge_ok srv labels_of"
  shows "request_loop srv n s (PutLabels t names) = (s', r) \<Longrightarrow> labels_of s' = (labels_of s)(t := remdups names)
    \<or> labels_of s' = labels_of s \<and> (\<forall>st b. r = Reply st b \<longrightarrow> \<not> is_success st)"
proof (induction n arbitrary: s)
  case 0
  then have "srv s (PutLabels t names) = (s', r)" by (subst (asm) request_loop.simps) (simp add: case_prod_unfold prod_eq_iff)
  then show ?case using forge_okD(3) [OF f] by blast
next
  case (Suc n)
  obtain s1 r1 where c: "srv s (PutLabels t names) = (s1, r1)" by fastforce
  note d = forge_okD(3) [OF f c refl]
  have "request_loop srv n s1 (PutLabels t names) = (s', r) \<or> (s1, r1) = (s', r)"
    using Suc.prems by (subst (asm) request_loop.simps) (auto simp: c split: reply.splits if_splits)
  then show ?case
  proof
    assume "request_loop srv n s1 (PutLabels t names) = (s', r)"
    from Suc.IH [OF this] show ?thesis using d by (metis fun_upd_upd)
  next
    assume "(s1, r1) = (s', r)"
    then have "s1 = s'" "r1 = r" by simp_all
    then show ?thesis using d by blast
  qed
qed

lemma checked_frame:
  assumes "forge_ok srv labels_of" "case q of PutLabels t names \<Rightarrow> False | _ \<Rightarrow> True"
  shows "labels_of (fst (checked srv s q)) = labels_of s" "labels_of (fst (do_request srv s q)) = labels_of s"
proof -
  obtain s' r where l: "request_loop srv 3 s q = (s', r)" by fastforce
  then show "labels_of (fst (checked srv s q)) = labels_of s" "labels_of (fst (do_request srv s q)) = labels_of s"
    using loop_frame [OF assms l] by (simp_all add: checked_def do_request_def)
qed

lemma paginate_frame:
  assumes f: "forge_ok srv labels_of" and q: "\<And>p k. case q p k of PutLabels t names \<Rightarrow> False | _ \<Rightarrow> True"
  shows "labels_of (fst (paginate_from srv items q n page s acc)) = labels_of s"
proof (induction n arbitrary: page s acc)
  case (Suc n)
  obtain s' r where c: "checked srv s (q page PAGE_SIZE) = (s', r)" by fastforce
  then have "labels_of s' = labels_of s" using checked_frame(1) [OF f q, of s page PAGE_SIZE] by simp
  then show ?case using Suc.IH by (simp add: c split: sum.split option.split)
qed simp

lemma list_labels_frame:
  assumes "forge_ok srv labels_of" "list_labels srv refresh c s = ((c', s'), r)"
  shows "labels_of s' = labels_of s"
proof -
  have "labels_of (fst (paginate srv label_names_of ListLabels s)) = labels_of s"
    unfolding paginate_def by (rule paginate_frame [OF assms(1)]) simp
  then show ?thesis using assms(2) by (auto simp: list_labels_def Let_def case_prod_unfold split: option.splits if_splits)
qed

lemma ensure_labels_frame:
  assumes "forge_ok srv labels_of"
  shows "ensure_labels srv c s names = ((c', s'), r) \<Longrightarrow> labels_of s' = labels_of s"
proof (induction names arbitrary: c s)
  case (Cons n ns)
  obtain c1 s1 r1 where e: "ensure_label srv c s n = ((c1, s1), r1)" by (metis prod.collapse)
  obtain c0 s0 r0 where l: "list_labels srv False c s = ((c0, s0), r0)" by (metis prod.collapse)
  have s0: "labels_of s0 = labels_of s" by (rule list_labels_frame [OF assms l])
  have "labels_of (fst (do_request srv s0 (PostLabel n))) = labels_of s0" using checked_frame(2) [OF assms, of "PostLabel n"] by simp
  then have "labels_of s1 = labels_of s" using e s0
    by (auto simp: ensure_label_def l case_prod_unfold Let_def split: sum.splits if_splits)
  then show ?case using Cons.prems Cons.IH by (auto simp: e split: sum.splits)
qed simp

lemma rewrite_spec:
  assumes f: "forge_ok srv labels_of" and r: "rewrite_labels g srv c s t = ((c', s'), r)"
  shows "r = Inr () \<Longrightarrow> labels_of s' = (labels_of s)(t := remdups (g (labels_of s t)))"
    "labels_of s' = labels_of s \<or> labels_of s' = (labels_of s)(t := remdups (g (labels_of s t)))"
proof -
  obtain s1 r1 where l: "request_loop srv 3 s (GetIssue t) = (s1, r1)" by fastforce
  note d = loop_frame [OF f _ l, simplified]
  obtain r2 where i: "fj_fetch_issue srv s t = (s1, r2)" by (simp add: fj_fetch_issue_def checked_def do_request_def l)
  have lab: "fj_labels j = labels_of s t" if "r2 = Inr j" for j
    using d i that by (auto simp: fj_fetch_issue_def checked_def do_request_def l split: reply.splits if_splits body.splits sum.splits)
  have *: "(r = Inr () \<longrightarrow> labels_of s' = (labels_of s)(t := remdups (g (labels_of s t))))
    \<and> (labels_of s' = labels_of s \<or> labels_of s' = (labels_of s)(t := remdups (g (labels_of s t))))"
  proof (cases r2)
    case (Inl e)
    then show ?thesis using r d by (auto simp: rewrite_labels_def i)
  next
    case (Inr j)
    let ?names = "g (labels_of s t)"
    have r': "set_labels srv c s1 t ?names = ((c', s'), r)" using r by (simp add: rewrite_labels_def i Inr lab)
    obtain c2 s2 r3 where e: "ensure_labels srv c s1 ?names = ((c2, s2), r3)" by (metis prod.collapse)
    have s2: "labels_of s2 = labels_of s" using ensure_labels_frame [OF f e] d by simp
    obtain s3 r4 where p: "request_loop srv 3 s2 (PutLabels t ?names) = (s3, r4)" by fastforce
    show ?thesis
      using r' loop_put [OF f p] s2
      by (auto simp: set_labels_def e checked_def do_request_def p split: sum.splits reply.splits if_splits)
  qed
  then show "r = Inr () \<Longrightarrow> labels_of s' = (labels_of s)(t := remdups (g (labels_of s t)))"
    "labels_of s' = labels_of s \<or> labels_of s' = (labels_of s)(t := remdups (g (labels_of s t)))" by blast+
qed

lemma states_transition: "states_of (remdups (transition_labels st current)) = [st]"
proof -
  have f: "is_state_label (state_label x)" for x by (simp add: is_state_label_def state_label_def)
  have "filter is_state_label (remdups (filter (\<lambda>n. \<not> is_state_label n) current @ [state_label st])) =
      remdups (filter is_state_label (filter (\<lambda>n. \<not> is_state_label n) current @ [state_label st]))" by (rule remdups_filter [symmetric])
  also have "\<dots> = [state_label st]" by (simp add: f)
  finally show ?thesis by (simp add: states_of_def transition_labels_def) (simp add: state_label_def)
qed

lemma fleet_transition:
  "filter (\<lambda>n. \<not> is_state_label n) (remdups (transition_labels st current)) = remdups (filter (\<lambda>n. \<not> is_state_label n) current)"
  by (simp add: remdups_filter [symmetric] transition_labels_def) (simp add: is_state_label_def state_label_def)


section \<open>Properties\<close>

text \<open>
  C24: A transition of the adapter is all or nothing: once it went through the task has exactly the new state, and when it raised, at any
  request and after any retries, the task has either its old states or exactly the new one; the other labels and the other tasks are
  as before.
\<close>

theorem forgejo_transition_atomic:
  assumes "forge_ok srv labels_of" "fj_transition_issue srv c s task_id st = ((c', s'), r)"
  shows "(r = Inr () \<longrightarrow> states_of (labels_of s' task_id) = [st])
    \<and> states_of (labels_of s' task_id) \<in> {states_of (labels_of s task_id), [st]}
    \<and> set (filter (\<lambda>n. \<not> is_state_label n) (labels_of s' task_id)) = set (filter (\<lambda>n. \<not> is_state_label n) (labels_of s task_id))
    \<and> (\<forall>t. t \<noteq> task_id \<longrightarrow> labels_of s' t = labels_of s t)"
proof (cases "st \<in> set KNOWN_STATES")
  case False
  then show ?thesis using assms(2) by (auto simp: fj_transition_issue_def)
next
  case True
  then have r: "rewrite_labels (transition_labels st) srv c s task_id = ((c', s'), r)" using assms(2) by (simp add: fj_transition_issue_def)
  note sp = rewrite_spec [OF assms(1) r]
  have fl: "set (filter (\<lambda>n. \<not> is_state_label n) (remdups (transition_labels st current))) = set (filter (\<lambda>n. \<not> is_state_label n) current)"
    for current unfolding fleet_transition by (rule set_remdups)
  have "r = Inr () \<longrightarrow> states_of (labels_of s' task_id) = [st]" using sp(1) by (simp add: states_transition)
  moreover have "states_of (labels_of s' task_id) \<in> {states_of (labels_of s task_id), [st]}
      \<and> set (filter (\<lambda>n. \<not> is_state_label n) (labels_of s' task_id)) = set (filter (\<lambda>n. \<not> is_state_label n) (labels_of s task_id))
      \<and> (\<forall>t. t \<noteq> task_id \<longrightarrow> labels_of s' t = labels_of s t)"
    using sp(2)
  proof
    assume "labels_of s' = labels_of s"
    then show ?thesis by simp
  next
    assume h: "labels_of s' = (labels_of s)(task_id := remdups (transition_labels st (labels_of s task_id)))"
    show ?thesis unfolding h fun_upd_same using fl by (simp add: states_transition)
  qed
  ultimately show ?thesis by simp
qed

text \<open>A server with one task, whose third request fails once.\<close>

definition sample_server :: "(nat \<times> string list) server" where
  "sample_server s q =
     (let (n, ls) = s
      in case q of
           PutLabels t names \<Rightarrow> if n = 2 then ((3, ls), Reply 503 B_none)
             else if t = ''7'' then ((n + 1, remdups names), Reply 200 B_none) else ((n + 1, ls), Reply 404 B_none)
         | GetIssue t \<Rightarrow> if t = ''7''
             then ((n + 1, ls), Reply 200 (B_issue \<lparr>fj_id = 70, fj_number = 7, fj_title = ''Tidy'', fj_body = [], fj_closed = False,
                    fj_labels = ls, fj_created_at = [], fj_updated_at = NotIso []\<rparr>))
             else ((n + 1, ls), Reply 404 B_none)
         | ListLabels p k \<Rightarrow> ((n + 1, ls), Reply 200 (B_labels [''state: Blocked'', ''state: Ready for AI'', ''repo: core'', ''x'']))
         | _ \<Rightarrow> ((n + 1, ls), Reply 404 B_none))"

definition sample_view :: "nat \<times> string list \<Rightarrow> string \<Rightarrow> string list" where
  "sample_view s t = (if t = ''7'' then snd s else [])"

lemma sample_server_ok: "forge_ok sample_server sample_view"
  unfolding forge_ok_def sample_server_def sample_view_def
  by (auto simp: Let_def is_success_def fun_eq_iff split: request.splits prod.splits if_splits)

theorem forgejo_transition_atomic_witness:
  "\<exists>c' s'. fj_transition_issue sample_server None (0, [''repo: core'', ''state: Blocked'']) ''7'' ''Ready for AI'' = ((c', s'), Inr ())
     \<and> states_of (sample_view s' ''7'') = [''Ready for AI'']"
proof -
  obtain c' s' r where e: "fj_transition_issue sample_server None (0, [''repo: core'', ''state: Blocked'']) ''7'' ''Ready for AI'' = ((c', s'), r)"
    by (metis prod.collapse)
  have "snd (fj_transition_issue sample_server None (0, [''repo: core'', ''state: Blocked'']) ''7'' ''Ready for AI'') = Inr ()" by code_simp
  then have "r = Inr ()" by (simp add: e)
  then show ?thesis using e forgejo_transition_atomic [OF sample_server_ok e] by simp
qed

text \<open>
  The workers write labels from the copy of an issue they read before, and this copy has the task's state of that time among its
  labels. Written after a transition it brings the old state back beside the new one, and from then on the adapter refuses to say the
  task's state.
\<close>

theorem stale_copy_brings_state_back:
  assumes "forge_ok srv labels_of" "fj_update_issue_labels srv c s task_id names = ((c', s'), Inr ())"
    and "state_label old \<in> set names" "state_label current \<in> set (labels_of s task_id)" "old \<noteq> current"
  shows "{old, current} \<subseteq> set (states_of (labels_of s' task_id))
    \<and> (\<forall>i. fj_labels i = labels_of s' task_id \<longrightarrow> state_of i = Inl (MultipleStatesError (states_of (labels_of s' task_id))))"
proof -
  have l: "labels_of s' task_id = remdups (updated_labels names (labels_of s task_id))"
    using rewrite_spec(1) [OF assms(1) assms(2) [unfolded fj_update_issue_labels_def] refl] by simp
  have m: "x \<in> set (states_of ls) \<longleftrightarrow> state_label x \<in> set ls" for x ls
    by (auto simp: states_of_def is_state_label_def state_label_def prefix_def image_iff)
  have "is_state_label (state_label current)" by (simp add: is_state_label_def state_label_def)
  then have two: "{old, current} \<subseteq> set (states_of (labels_of s' task_id))"
    using assms(3,4) by (auto simp: m l updated_labels_def)
  have "\<nexists>x. states_of (labels_of s' task_id) = [x]" "states_of (labels_of s' task_id) \<noteq> []" using two assms(5) by auto
  then have "state_of i = Inl (MultipleStatesError (states_of (labels_of s' task_id)))" if "fj_labels i = labels_of s' task_id" for i
    using that by (auto simp: state_of_def split: list.splits)
  then show ?thesis using two by blast
qed

theorem stale_copy_brings_state_back_witness:
  "\<exists>c' s'. fj_update_issue_labels sample_server None (9, [''repo: core'', ''state: Blocked'']) ''7''
        [''repo: core'', ''state: Ready for AI'', ''x''] = ((c', s'), Inr ())
     \<and> {''Ready for AI'', ''Blocked''} \<subseteq> set (states_of (sample_view s' ''7''))"
proof -
  obtain c' s' r where e: "fj_update_issue_labels sample_server None (9, [''repo: core'', ''state: Blocked'']) ''7''
        [''repo: core'', ''state: Ready for AI'', ''x''] = ((c', s'), r)"
    by (metis prod.collapse)
  have "snd (fj_update_issue_labels sample_server None (9, [''repo: core'', ''state: Blocked'']) ''7''
        [''repo: core'', ''state: Ready for AI'', ''x'']) = Inr ()" by code_simp
  then have r: "r = Inr ()" by (simp add: e)
  have "state_label ''Ready for AI'' \<in> set [''repo: core'', ''state: Ready for AI'', ''x'']"
    "state_label ''Blocked'' \<in> set (sample_view (9, [''repo: core'', ''state: Blocked'']) ''7'')" by code_simp+
  then show ?thesis using e [unfolded r] stale_copy_brings_state_back [OF sample_server_ok e [unfolded r]] by blast
qed

text \<open>
  C25: With this adapter, the only one there is, the board worker never claims a task: what it reads as the state of an issue is open or
  closed, so no issue is ready, and its two working states are not known to the adapter, so the transition raises without a request.
\<close>

theorem forgejo_board_never_claimed:
  assumes "set (bd_issues b) \<subseteq> range raw_issue"
  shows "snd (claim_next w ws role b) = None \<and> issue_states (fst (claim_next w ws role b)) = issue_states b
    \<and> (\<forall>srv c s t. fj_transition_issue srv c s t STATE_RUNNING = ((c, s), Inl (UnknownStateError STATE_RUNNING))
         \<and> fj_transition_issue srv c s t STATE_REVIEW = ((c, s), Inl (UnknownStateError STATE_REVIEW)))"
proof -
  have n: "\<not> is_relevant ws role i" if h: "i \<in> set (bd_issues b)" for i
  proof -
    have "state_text (is_state i) \<in> {''open'', ''closed''}"
    proof -
      obtain j where "i = raw_issue j" using h assms by blast
      then show ?thesis by (cases "fj_closed j") (simp_all add: raw_issue_def py_strip_def is_space_def)
    qed
    moreover have "STATE_READY \<notin> {''open'', ''closed''}" by (simp add: STATE_READY_def)
    ultimately show ?thesis unfolding is_relevant_def by metis
  qed
  obtain b1 r where l: "list_issues b = (b1, r)" by fastforce
  note fr = list_issues_frame [OF l]
  have c: "build_candidates ws role ex is b1 = (b1, [])" if "set is \<subseteq> set (bd_issues b)" for ex "is"
    using that n by (induction "is") auto
  have "select_next w ws role b = (b1, None)"
    using fr c [of "bd_issues b"] by (cases r) (simp_all add: select_next_def l)
  moreover have "issue_states b1 = issue_states b" using fr by (simp add: issue_states_def)
  moreover have "STATE_RUNNING \<notin> set KNOWN_STATES" "STATE_REVIEW \<notin> set KNOWN_STATES" by code_simp+
  ultimately show ?thesis by (simp add: claim_next_def fj_transition_issue_def)
qed

definition sample_forgejo_issue :: fj_issue where
  "sample_forgejo_issue =
     \<lparr>fj_id = 70, fj_number = 7, fj_title = ''Remove the dead branches of the parser module'', fj_body = [], fj_closed = False,
      fj_labels = [''task-kind: goal'', ''repo: core'', ''state: Ready for AI''], fj_created_at = ''2026-01'', fj_updated_at = NotIso []\<rparr>"

theorem forgejo_board_never_claimed_witness:
  "snd (claim_next sample_claim_world sample_settings ''goal'' (sample_board\<lparr>bd_issues := [raw_issue sample_forgejo_issue]\<rparr>)) = None"
proof -
  have "set (bd_issues (sample_board\<lparr>bd_issues := [raw_issue sample_forgejo_issue]\<rparr>)) \<subseteq> range raw_issue" by simp
  from forgejo_board_never_claimed [OF this] show ?thesis by blast
qed

end
