(* ===== verification/Board_Dispatch.thy ===== *)
theory Board_Dispatch
  imports Board_Outcomes Fnmatch Ci_Loop
begin

text \<open>
  From the claimed task to its outcome: \<open>board_worker/dispatch.py\<close>, with the scope check of the pushed branch
  (\<open>scope_check.py\<close>, \<open>application/scope_policy.py\<close>), the refinement loop's glue (\<open>run_ci_loop\<close>), what decides on a retry
  (\<open>_subprocess.py\<close>) and one cycle of \<open>main.py\<close>.

  What the subprocesses answer is the record \<open>dispatch_world\<close>; the plan's bundle is read as its allowed paths and whether it
  carries a refinement spec. An exception that leaves the dispatch is the outcome \<open>Raised\<close>.
\<close>

section \<open>The scope of a change\<close>

fun split_path :: "char \<Rightarrow> string \<Rightarrow> string list" where
  "split_path c [] = [[]]"
| "split_path c (x # xs) = (if x = c then [] # split_path c xs else (x # hd (split_path c xs)) # tl (split_path c xs))"

definition lstrip_dots :: "string \<Rightarrow> string" where
  "lstrip_dots s = dropWhile (\<lambda>c. c = CHR ''.'' \<or> c = CHR ''/'') s"

definition slashes :: "string \<Rightarrow> string" where
  "slashes s = map (\<lambda>c. if c = CHR 92 then CHR ''/'' else c) s"

text \<open>\<open>str(Path(s))\<close> of a relative path.\<close>

definition path_str :: "string \<Rightarrow> string" where
  "path_str s =
     (let comps = filter (\<lambda>p. p \<noteq> [] \<and> p \<noteq> ''.'') (split_path CHR ''/'' s) in if comps = [] then ''.'' else py_join ''/'' comps)"

definition normalize_pattern :: "string \<Rightarrow> string" where
  "normalize_pattern path =
     (let cleaned = lstrip_dots (slashes (py_strip path))
      in if cleaned \<noteq> [] \<and> last cleaned = CHR ''/'' then cleaned @ ''*'' else slashes (path_str cleaned))"

text \<open>\<open>os.path.normpath\<close>: the components kept so far, in reverse.\<close>

fun norm_comps :: "bool \<Rightarrow> string list \<Rightarrow> string list \<Rightarrow> string list" where
  "norm_comps rooted acc [] = rev acc"
| "norm_comps rooted acc (p # ps) =
     (if p = [] \<or> p = ''.'' then norm_comps rooted acc ps
      else if p \<noteq> ''..'' \<or> (\<not> rooted \<and> acc = []) \<or> (acc \<noteq> [] \<and> hd acc = ''..'') then norm_comps rooted (p # acc) ps
      else norm_comps rooted (tl acc) ps)"

definition normpath :: "string \<Rightarrow> string" where
  "normpath s =
     (let lead = (if prefix ''//'' s \<and> \<not> prefix ''///'' s then ''//'' else if prefix ''/'' s then ''/'' else []);
          body = lead @ py_join ''/'' (norm_comps (lead \<noteq> []) [] (split_path CHR ''/'' s))
      in if body = [] then ''.'' else body)"

definition normalize_changed_path :: "string \<Rightarrow> string" where
  "normalize_changed_path path =
     (let p = py_strip path;
          q = (case str_find '' -> '' p of None \<Rightarrow> p | Some k \<Rightarrow> drop (k + 4) p)
      in lstrip_dots (slashes (normpath q)))"

definition in_scope :: "string list \<Rightarrow> string \<Rightarrow> bool" where
  "in_scope allowed_paths changed =
     list_ex (\<lambda>pat. fnmatch changed pat \<or> prefix (pat @ ''/'') changed) (map normalize_pattern allowed_paths)"

definition find_violations :: "string list \<Rightarrow> string list \<Rightarrow> string list" where
  "find_violations changed_files allowed_paths =
     (if allowed_paths = [] then []
      else sort (remdups (filter (\<lambda>c. \<not> in_scope allowed_paths c) (map normalize_changed_path changed_files))))"

text \<open>What git answers: its output, an error, or the expiry of its time limit.\<close>

datatype git_answer = GitOutput "string list" | GitFails string | GitTimeout

datatype scope_verdict = ScopeOk | ScopeError string | ScopeRaises

definition verify_pushed_scope :: "run_result \<Rightarrow> string list \<Rightarrow> git_answer \<Rightarrow> scope_verdict" where
  "verify_pushed_scope r allowed git =
     (if rr_branch_pushed r \<noteq> Some True \<or> allowed = [] then ScopeOk
      else case git of
             GitTimeout \<Rightarrow> ScopeRaises
           | GitFails e \<Rightarrow> ScopeError (''pushed-branch scope verification failed: '' @ e)
           | GitOutput lines \<Rightarrow>
               (let violations = find_violations (filter (\<lambda>l. l \<noteq> []) (map py_strip lines)) allowed
                in if violations \<noteq> []
                   then ScopeError (''pushed branch touches paths outside the task allowlist: '' @ py_join '', '' (take 20 violations))
                   else ScopeOk))"

section \<open>Transient failures\<close>

definition TRANSIENT_REASON_PATTERNS :: "string list" where
  "TRANSIENT_REASON_PATTERNS =
     [''connection refused'', ''connection reset'', ''timed out'', ''timeout'', ''502'', ''503'', ''504'', ''bad gateway'', ''gateway timeout'',
      ''service unavailable'', ''remote disconnected'', ''network is unreachable'', ''temporary failure'', ''bad owner or permissions'',
      ''could not read from remote repository'']"

definition is_transient_failure :: "run_result \<Rightarrow> bool" where
  "is_transient_failure r =
     (if py_lower (or_empty (rr_failure_category r)) \<notin> {''backend_error'', ''timeout''} then False
      else list_ex (\<lambda>p. str_contains p (py_lower (or_empty (rr_failure_reason r)))) TRANSIENT_REASON_PATTERNS)"

text \<open>The path of the diagnostics file and the tail of the output; \<^const>\<open>None\<close> when the file cannot be written.\<close>

definition persist_failure_diagnostics :: "(string \<times> string) option \<Rightarrow> run_result \<Rightarrow> run_result" where
  "persist_failure_diagnostics diag r =
     (case diag of
        None \<Rightarrow> r
      | Some (path, tail) \<Rightarrow>
          (let base = (if truthy_str (rr_failure_reason r) then or_empty (rr_failure_reason r)
                       else if rr_status r \<noteq> [] then rr_status r else ''execution failed'')
           in r\<lparr>rr_failure_reason := Some (base @ '' [diagnostics: '' @ path @ '']'' @
                (if tail \<noteq> [] then NL @ ''--- executor tail ---'' @ NL @ tail else []))\<rparr>))"

definition task_type_from_kind :: "string \<Rightarrow> string" where
  "task_type_from_kind k =
     (if k = ''goal'' then ''feature'' else if k = ''test'' \<or> k = ''test_campaign'' then ''test''
      else if k = ''improve'' \<or> k = ''improve_campaign'' then ''refactor'' else ''chore'')"

section \<open>Dispatch\<close>

text \<open>\<open>Raises\<close> carries the text of a containment error, or \<^const>\<open>None\<close> for any other exception.\<close>

datatype plan_run = PlanRaises "string option" | PlanNoJson | PlanFailed string | PlanBundle "string list" bool

text \<open>The result file of a run: missing, empty, no JSON, or an outcome that says whether it was retried.\<close>

datatype result_file = NoResult | EmptyResult | MalformedResult | Outcome bool run_result

datatype exec_run = ExecRaises "string option" | ExecDone int result_file

text \<open>\<open>CiNoLocalPath\<close>: the repository is configured without a local path, and the constructor of its path raises.\<close>

datatype ci_run_end = CiInvalidSpec string | CiNoLocalPath | CiCoordinatorRaises string | CiEnded refinement_status nat "run_result option"

datatype dispatch_end = Returned bool | Raised "string option"

record dispatch_world =
  dw_plan :: plan_run
  dw_exec :: exec_run
  dw_retry :: exec_run
  dw_git :: git_answer
  dw_scope_files :: "string list"
  dw_suggestions :: "suggestion option list option"
  dw_diagnostics :: "(string \<times> string) option"
  dw_ci :: ci_run_end

fun refinement_status_text :: "refinement_status \<Rightarrow> string" where
  "refinement_status_text RF_NOT_STARTED = ''not_started''"
| "refinement_status_text RF_IN_PROGRESS = ''in_progress''"
| "refinement_status_text RF_ACCEPTED = ''accepted''"
| "refinement_status_text RF_BUDGET_EXHAUSTED = ''budget_exhausted''"
| "refinement_status_text RF_ABANDONED = ''abandoned''"
| "refinement_status_text RF_ESCALATED = ''escalated''"

definition no_delivery :: delivery where
  "no_delivery = \<lparr>dl_needs_verification = False, dl_suggestions = [], dl_pr_url = None, dl_branch_pushed = False, dl_branch_name = None\<rparr>"

text \<open>
  \<open>failure_result\<close>: the last attempt's result, or an empty dictionary, with defaults for a missing status or reason. A result
  that was read has a status; its reason may be missing.
\<close>

definition ci_failure_result :: "refinement_status \<Rightarrow> nat \<Rightarrow> run_result option \<Rightarrow> run_result" where
  "ci_failure_result st attempts r =
     (let reason = ''CI refinement loop ended with status='' @ refinement_status_text st @ '' after '' @ show_nat attempts @ '' attempt(s)''
      in case r of
           None \<Rightarrow> \<lparr>rr_success = False, rr_status = refinement_status_text st, rr_needs_verification = False, rr_failure_category = None,
              rr_failure_reason = Some reason, rr_executor_exit_code = None, rr_executor_signal = None, rr_pull_request_url = None,
              rr_branch_pushed = None, rr_branch_name = None\<rparr>
         | Some x \<Rightarrow> x\<lparr>rr_failure_reason := (case rr_failure_reason x of None \<Rightarrow> Some reason | Some y \<Rightarrow> Some y)\<rparr>)"

definition run_ci_loop :: "worker_settings \<Rightarrow> board \<Rightarrow> issue \<Rightarrow> string \<Rightarrow> ci_run_end \<Rightarrow> board \<times> dispatch_end" where
  "run_ci_loop ws b i role ci =
     (case ci of
        CiInvalidSpec e \<Rightarrow> (fail_task b (is_id i) role (''invalid continuous_improvement spec: '' @ e), Returned False)
      | CiNoLocalPath \<Rightarrow> (b, Raised None)
      | CiCoordinatorRaises e \<Rightarrow> (fail_task b (is_id i) role (''CI coordinator error: '' @ e), Returned False)
      | CiEnded st attempts last_result \<Rightarrow>
          (let (b1, i1) = add_label b i (''ci-status: '' @ refinement_status_text st);
               (b2, i2) = add_label b1 i1 (''ci-attempts: '' @ show_nat attempts)
           in if st = RF_ACCEPTED then (handle_success ws b2 i2 role no_delivery, Returned True)
              else if st = RF_ESCALATED
              then (fail_task b2 (is_id i) role (''CI loop escalated after '' @ show_nat attempts @
                      '' attempt(s) - inconclusive outcome requires operator decision''), Returned False)
              else (fst (handle_failure ws b2 i2 role (ci_failure_result st attempts last_result) []), Returned False)))"

definition scope_too_wide :: "run_result \<Rightarrow> bool" where
  "scope_too_wide r = (rr_success r \<and> rr_branch_pushed r = Some False \<and> rr_failure_category r = Some ''scope_too_wide'')"

definition delivery_of :: "dispatch_world \<Rightarrow> string \<Rightarrow> run_result \<Rightarrow> delivery" where
  "delivery_of w role r =
     \<lparr>dl_needs_verification = rr_needs_verification r,
      dl_suggestions = (if role = ''improve'' then read_improve_output (dw_suggestions w) else []),
      dl_pr_url = (if truthy_str (rr_pull_request_url r) then rr_pull_request_url r else None),
      dl_branch_pushed = (rr_branch_pushed r = Some True),
      dl_branch_name = (if truthy_str (rr_branch_name r) then rr_branch_name r else None)\<rparr>"

text \<open>From the final result of the run on.\<close>

definition conclude_dispatch ::
  "dispatch_world \<Rightarrow> worker_settings \<Rightarrow> board \<Rightarrow> issue \<Rightarrow> string \<Rightarrow> string list \<Rightarrow> run_result \<Rightarrow> board \<times> dispatch_end" where
  "conclude_dispatch w ws b i role allowed r =
     (let wide = scope_too_wide r
      in case (if rr_success r \<and> \<not> wide then verify_pushed_scope r allowed (dw_git w) else ScopeOk) of
           ScopeRaises \<Rightarrow> (b, Raised None)
         | ScopeError e \<Rightarrow> (fail_task b (is_id i) role e, Returned False)
         | ScopeOk \<Rightarrow>
             if rr_success r \<and> \<not> wide then (handle_success ws b i role (delivery_of w role r), Returned True)
             else (fst (handle_failure ws b i role (if wide then r else persist_failure_diagnostics (dw_diagnostics w) r)
                     (if wide then dw_scope_files w else [])), Returned False))"

text \<open>One retry on a network blip; the result of the first run stands when the second leaves none.\<close>

definition retried_result :: "dispatch_world \<Rightarrow> bool \<Rightarrow> run_result \<Rightarrow> (string option + run_result)" where
  "retried_result w was_retried r =
     (if \<not> rr_success r \<and> is_transient_failure r \<and> \<not> was_retried
      then (case dw_retry w of
              ExecRaises e \<Rightarrow> Inl e
            | ExecDone rc f \<Rightarrow> (case f of NoResult \<Rightarrow> Inr r | EmptyResult \<Rightarrow> Inl None | MalformedResult \<Rightarrow> Inl None | Outcome _ r' \<Rightarrow> Inr r'))
      else Inr r)"

definition execute_task ::
  "dispatch_world \<Rightarrow> worker_settings \<Rightarrow> board \<Rightarrow> issue \<Rightarrow> string \<Rightarrow> string list \<Rightarrow> board \<times> dispatch_end" where
  "execute_task w ws b i role allowed =
     (case dw_exec w of
        ExecRaises e \<Rightarrow> (b, Raised e)
      | ExecDone rc f \<Rightarrow>
          (case f of
             NoResult \<Rightarrow> (fail_task b (is_id i) role ''execute produced no result file'', Returned False)
           | EmptyResult \<Rightarrow>
               (let (b1, i1) = add_label b i (''executor-exit-code: '' @ show_int rc);
                    (b2, i2) = add_label b1 i1 ''executor-signal: SIGKILL'';
                    (b3, i3) = increment_retry_count b2 i2
                in (fail_task b3 (is_id i) role (''execute wrote empty result.json (returncode='' @ show_int rc @
                      '') - treated as executor kill''), Returned False))
           | MalformedResult \<Rightarrow> (b, Raised None)
           | Outcome was_retried r \<Rightarrow>
               (case retried_result w was_retried r of
                  Inl e \<Rightarrow> (b, Raised e)
                | Inr r' \<Rightarrow> conclude_dispatch w ws b i role allowed r')))"

text \<open>For every kind of task but spec-author.\<close>

definition dispatch_issue :: "dispatch_world \<Rightarrow> worker_settings \<Rightarrow> board \<Rightarrow> issue \<Rightarrow> string \<Rightarrow> board \<times> dispatch_end" where
  "dispatch_issue w ws b i role =
     (case dw_plan w of
        PlanRaises e \<Rightarrow> (b, Raised e)
      | PlanNoJson \<Rightarrow> (fail_task b (is_id i) role ''planning produced no JSON output'', Returned False)
      | PlanFailed msg \<Rightarrow> (fail_task b (is_id i) role (''planning failed: '' @ msg), Returned False)
      | PlanBundle allowed has_ci_spec \<Rightarrow>
          if has_ci_spec \<and> issue_kind i = ''improve_campaign''
          then run_ci_loop ws b i role (dw_ci w)
          else execute_task w ws b i role allowed)"

text \<open>One pass of the worker's loop, up to the heartbeat: the board and whether the cycle counts as a success.\<close>

definition worker_cycle :: "claim_world \<Rightarrow> dispatch_world \<Rightarrow> worker_settings \<Rightarrow> string \<Rightarrow> board \<Rightarrow> board \<times> bool" where
  "worker_cycle cw w ws role b =
     (case claim_next cw ws role b of
        (b1, None) \<Rightarrow> (b1, True)
      | (b1, Some i) \<Rightarrow>
          (case dispatch_issue w ws b1 i role of
             (b2, Returned ok) \<Rightarrow> (b2, ok)
           | (b2, Raised (Some e)) \<Rightarrow> (fail_task b2 (is_id i) role (''containment required but unavailable: '' @ e), False)
           | (b2, Raised None) \<Rightarrow> (b2, False)))"


section \<open>The task leaves Running\<close>

definition not_running :: "board \<Rightarrow> string \<Rightarrow> bool" where
  "not_running b t = (\<forall>s. (t, s) \<in> set (issue_states b) \<longrightarrow> state_text s \<noteq> STATE_RUNNING)"

lemma not_running_cong: "issue_states b' = issue_states b \<Longrightarrow> not_running b' t = not_running b t"
  by (simp add: not_running_def)

lemma known_texts: "py_strip STATE_DONE \<noteq> STATE_RUNNING" "py_strip STATE_BLOCKED \<noteq> STATE_RUNNING" "py_strip STATE_REVIEW \<noteq> STATE_RUNNING"
  "py_strip STATE_READY \<noteq> STATE_RUNNING"
  by code_simp+

lemma transition_not_running:
  assumes "transition_issue b k st = (b', ok)" "py_strip st \<noteq> STATE_RUNNING"
  shows "not_running b t \<Longrightarrow> not_running b' t" "ok \<Longrightarrow> not_running b' k"
  using transition_states [OF assms(1)] assms(2) by (auto simp: not_running_def or_empty_def split: if_splits)

lemma create_not_running:
  assumes "create_issue b name d STATE_READY ls = (b', r)" "not_running b t"
  shows "not_running b' t"
  using create_issue_cases [OF assms(1)] assms(2) known_texts(4) by (auto simp: not_running_def issue_states_def new_issue_def or_empty_def)

lemma create_reliable: "create_issue b name d st ls = (b', r) \<Longrightarrow> reliable b \<Longrightarrow> reliable b' \<and> r \<noteq> None"
  by (auto simp: create_issue_def api_call_def reliable_def Let_def)

lemma follow_up_reliable:
  assumes "reliable b" "create_follow_up ws b p kind reason = (b', r)"
  shows "reliable b'" "r \<noteq> None" "not_running b t \<Longrightarrow> not_running b' t"
proof -
  obtain b1 full where c: "ceilings_reached ws b p = (b1, full)" by fastforce
  have b1: "reliable b1" "issue_states b1 = issue_states b"
    using ceilings_frame(1) [OF c] assms(1) by (simp_all add: reliable_def issue_states_def)
  consider "b' = b \<and> r = Some []" | "b' = b1 \<and> r = Some []"
    | "create_issue b1 (''['' @ kind @ ''] '' @ is_name p) (follow_up_description p kind reason) STATE_READY (follow_up_labels p kind reason) = (b', r)"
  proof (cases "MAX_FOLLOW_UP_RETRIES \<le> retry_count_from_labels (is_labels p)")
    case True
    then have "b' = b \<and> r = Some []" using assms(2) by (simp add: create_follow_up_def)
    then show ?thesis by (rule that(1))
  next
    case False
    show ?thesis
    proof (cases full)
      case True
      then have "b' = b1 \<and> r = Some []" using assms(2) False by (simp add: create_follow_up_def c)
      then show ?thesis by (rule that(2))
    next
      case nf: False
      then show ?thesis using assms(2) False by (intro that(3)) (simp add: create_follow_up_def c)
    qed
  qed
  then have "reliable b' \<and> r \<noteq> None \<and> (not_running b t \<longrightarrow> not_running b' t)"
  proof cases
    case 3
    then show ?thesis using create_reliable [OF 3 b1(1)] create_not_running [OF 3] not_running_cong [OF b1(2)] by blast
  qed (use assms(1) b1 not_running_cong [OF b1(2)] in auto)
  then show "reliable b'" "r \<noteq> None" "not_running b t \<Longrightarrow> not_running b' t" by auto
qed

lemma comment_not_running: "comment_issue b k x = (b', ok) \<Longrightarrow> not_running b' t = not_running b t"
  using not_running_cong [of b' b t] comment_states [of b k x] by simp

lemma improve_not_running:
  "not_running b t \<Longrightarrow> not_running (fst (create_improve_follow_ups b i ss)) t"
proof (induction ss arbitrary: b)
  case (Cons s ss)
  obtain b1 r where c: "create_issue b (improve_title s) (improve_description i s) STATE_READY (improve_labels i s) = (b1, r)" by fastforce
  then have "fst (create_improve_follow_up b i s) = b1" by (simp add: create_improve_follow_up_def)
  moreover have "not_running b1 t" by (rule create_not_running [OF c Cons.prems])
  ultimately show ?case using Cons.IH [of b1] by (simp add: case_prod_unfold Let_def)
qed simp

lemma and_then_not_running:
  assumes "transition_issue b k st = (b', ok)" "ok" "py_strip st \<noteq> STATE_RUNNING"
  shows "not_running (fst (and_then (transition_issue b k st) (\<lambda>b. comment_issue b j x))) k"
proof -
  obtain b2 ok2 where c: "comment_issue b' j x = (b2, ok2)" by fastforce
  have "not_running b' k" by (rule transition_not_running(2) [OF assms(1,3,2)])
  then show ?thesis using assms(2) comment_not_running [OF c] by (simp add: and_then_def assms(1) c)
qed

lemma close_not_running: "not_running b t \<Longrightarrow> not_running (maybe_close_split_parent b c) t"
proof -
  assume h: "not_running b t"
  let ?p = "label_value (is_labels c) ''original-task-id''"
  obtain b1 r where l: "list_issues b = (b1, r)" by fastforce
  have "issue_states b1 = issue_states b" using list_issues_frame [OF l] by (simp add: issue_states_def)
  then have h1: "not_running b1 t" using h not_running_cong by blast
  obtain b2 ok where tr: "transition_issue b1 ?p STATE_DONE = (b2, ok)" by fastforce
  have h2: "not_running b2 t" by (rule transition_not_running(1) [OF tr known_texts(1) h1])
  have h3: "not_running (fst (and_then (transition_issue b1 ?p STATE_DONE) (\<lambda>b. comment_issue b ?p x))) t" for x
  proof -
    obtain b3 ok3 where c: "comment_issue b2 ?p x = (b3, ok3)" by fastforce
    show ?thesis using h2 comment_not_running [OF c] by (cases ok) (simp_all add: and_then_def tr c)
  qed
  show ?thesis using h h1 h3 by (cases r) (simp_all add: maybe_close_split_parent_def l Let_def)
qed

lemma transition_goes: "reliable b \<Longrightarrow> \<exists>b'. transition_issue b k st = (b', True) \<and> reliable b'"
  using reliable_calls(1) by blast

lemma comment_goes: "reliable b \<Longrightarrow> \<exists>b'. comment_issue b k x = (b', True) \<and> reliable b'"
  using reliable_calls(2) by blast

lemma goal_success_not_running:
  assumes "reliable b"
  shows "not_running (fst (goal_success ws b i d await)) (is_id i)"
proof -
  consider "dl_needs_verification d" | "\<not> dl_needs_verification d" "await" | "\<not> dl_needs_verification d" "\<not> await" by blast
  then show ?thesis
  proof cases
    case 1
    obtain b1 f where c: "create_follow_up ws b i ''test'' ''verification_needed'' = (b1, Some f)"
      using follow_up_reliable(2) [OF assms] by (metis not_None_eq prod.collapse)
    let ?x = "''Implementation complete ('' @ delivered d @ '') - created verification task #'' @ f"
    obtain b2 where m: "comment_issue b1 (is_id i) ?x = (b2, True)" "reliable b2"
      using comment_goes [OF follow_up_reliable(1) [OF assms c]] by blast
    obtain b3 where t: "transition_issue b2 (is_id i) STATE_DONE = (b3, True)" using transition_goes [OF m(2)] by blast
    show ?thesis using 1 m(1) transition_not_running(2) [OF t known_texts(1)] by (simp add: goal_success_def c and_then_def t)
  next
    case 2
    obtain b1 where t: "transition_issue b (is_id i) STATE_REVIEW = (b1, True)" using transition_goes [OF assms] by blast
    obtain b2 i2 where a: "(if truthy_str (dl_pr_url d) then add_label b1 i (''pr-url: '' @ or_empty (dl_pr_url d)) else (b1, i)) = (b2, i2)"
      by (metis prod.collapse)
    then have "issue_states b2 = issue_states b1" using label_writers_frame(1) by (auto split: if_splits) (metis fst_conv)
    then have "not_running b2 (is_id i)" using transition_not_running(2) [OF t known_texts(3)] not_running_cong by blast
    then show ?thesis using 2 by (simp add: goal_success_def t a not_running_cong [OF comment_states])
  next
    case 3
    obtain b1 where t: "transition_issue b (is_id i) STATE_DONE = (b1, True)" using transition_goes [OF assms] by blast
    show ?thesis using 3 and_then_not_running [OF t _ known_texts(1)] by (simp add: goal_success_def)
  qed
qed

lemma success_not_running:
  assumes "reliable b" "role \<in> {''goal'', ''test'', ''improve''}"
  shows "not_running (handle_success ws b i role d) (is_id i)"
proof -
  obtain b0 j where c: "clear_blocked_reason_labels b i = (b0, j)" by fastforce
  have b0: "reliable b0" "is_id j = is_id i"
    using label_writers_reliable(2) [OF assms(1), of i BLOCKED_REASON_LABELS] label_writers_frame(4) [of b i BLOCKED_REASON_LABELS] c
    by (simp_all add: clear_blocked_reason_labels_def)
  obtain b1 where t: "transition_issue b0 (is_id j) STATE_DONE = (b1, True)" using transition_goes [OF b0(1)] by blast
  have t': "not_running b1 (is_id j)" by (rule transition_not_running(2) [OF t known_texts(1)]) simp
  have imp: "not_running (improve_success b0 j ss) (is_id j)" for ss
    using t' improve_not_running [OF t', of j ss]
    by (simp add: improve_success_def t case_prod_unfold Let_def not_running_cong [OF comment_states])
  have "not_running (fst (success_steps ws b i role d)) (is_id j)"
    using assms(2) goal_success_not_running [OF b0(1)] and_then_not_running [OF t _ known_texts(1)] imp
    by (auto simp: success_steps_def c)
  then show ?thesis using close_not_running b0(2) by (simp add: handle_success_def case_prod_unfold Let_def)
qed


lemma chunks_reliable: "reliable b \<Longrightarrow> reliable (fst (create_chunks b p reason idx n cs))"
proof (induction cs arbitrary: b idx)
  case (Cons c cs)
  obtain b1 r where i: "create_issue b (split_title p idx n) (split_description p idx n c) STATE_READY (split_labels p reason) = (b1, r)"
    by fastforce
  then have "reliable b1" using create_reliable Cons.prems by blast
  then show ?case using Cons.IH [of b1 "idx + 1"] by (simp add: i case_prod_unfold Let_def)
qed simp

lemma split_reliable:
  assumes "reliable b" "create_split_followups ws b p files reason = ((b', p'), ids)"
  shows "reliable b' \<and> is_id p' = is_id p"
proof -
  let ?cs = "split_files_into_chunks 15 6 files"
  obtain b1 full where c: "ceilings_reached ws b p = (b1, full)" by fastforce
  have b1: "reliable b1" using ceilings_frame(1) [OF c] assms(1) by (simp add: reliable_def)
  obtain b2 created where k: "create_chunks b1 p reason 1 (length ?cs) ?cs = (b2, created)" by fastforce
  have b2: "reliable b2" using chunks_reliable [OF b1, of p reason 1 "length ?cs" ?cs] unfolding k by simp
  have a: "reliable (fst (add_label b2 p LIFECYCLE_EXPANDED)) \<and> is_id (snd (add_label b2 p LIFECYCLE_EXPANDED)) = is_id p"
    using label_writers_reliable(1) [OF b2] label_writers_frame(2) by blast
  have "fst (create_split_followups ws b p files reason) \<in> {(b, p), (b1, p), (b2, p), add_label b2 p LIFECYCLE_EXPANDED}"
    by (simp add: create_split_followups_def Let_def c k del: One_nat_def)
  then have "(b', p') \<in> {(b, p), (b1, p), (b2, p), add_label b2 p LIFECYCLE_EXPANDED}" using assms(2) by simp
  then show ?thesis using assms(1) b1 b2 a by (elim insertE emptyE) (auto, (metis fst_conv snd_conv)+)
qed

lemma block_failed_not_running:
  assumes "reliable b"
  shows "\<exists>b'. block_failed ws b i role r ids = (b', True) \<and> reliable b' \<and> not_running b' (is_id i)"
proof -
  have block: "\<exists>b'. and_then (transition_issue c (is_id i) STATE_BLOCKED) (\<lambda>b. comment_issue b (is_id i) x) = (b', True)
      \<and> reliable b' \<and> not_running b' (is_id i)" if "reliable c" for c x
  proof -
    obtain b1 where t: "transition_issue c (is_id i) STATE_BLOCKED = (b1, True)" "reliable b1" using transition_goes [OF \<open>reliable c\<close>] by blast
    obtain b2 where m: "comment_issue b1 (is_id i) x = (b2, True)" "reliable b2" using comment_goes [OF t(2)] by blast
    have "not_running b1 (is_id i)" by (rule transition_not_running(2) [OF t(1) known_texts(2)]) simp
    then show ?thesis using comment_not_running [OF m(1)] m by (simp add: and_then_def t(1))
  qed
  show ?thesis
  proof (cases "role = ''test''")
    case True
    obtain b1 f where c: "create_follow_up ws b i ''goal'' ''verification_failed'' = (b1, Some f)"
      using follow_up_reliable(2) [OF assms] by (metis not_None_eq prod.collapse)
    show ?thesis using block [OF follow_up_reliable(1) [OF assms c]] True by (simp add: block_failed_def c)
  next
    case False
    then show ?thesis using block [OF assms] by (simp add: block_failed_def)
  qed
qed

lemma label_failure_frame: "issue_states (fst (label_failure b i r)) = issue_states b"
proof -
  have "issue_states (fst (label_reason b i r)) = issue_states b"
    by (auto simp: label_reason_def Let_def case_prod_unfold label_writers_frame split: option.splits)
  then show ?thesis
    by (auto simp: label_failure_def Let_def case_prod_unfold label_writers_frame increment_retry_count_def
        increment_code_failure_count_def)
qed

lemma failure_not_running:
  assumes "reliable b"
  shows "not_running (fst (handle_failure ws b i role r files)) (is_id i)"
proof -
  obtain b0 j ids where s: "(if result_category r = ''scope_too_wide'' \<and> files \<noteq> []
      then create_split_followups ws b i files ''scope_too_wide_split'' else ((b, i), [])) = ((b0, j), ids)" by (metis prod.collapse)
  have b0: "reliable b0" "is_id j = is_id i"
    using s split_reliable [OF assms] assms by (cases "result_category r = ''scope_too_wide'' \<and> files \<noteq> []"; force)+
  obtain b1 where b1: "block_failed ws b0 j role r ids = (b1, True)" "not_running b1 (is_id j)"
    using block_failed_not_running [OF b0(1)] by blast
  have "handle_failure ws b i role r files = label_failure b1 j r" unfolding handle_failure_def s by (simp add: b1(1))
  then show ?thesis using b1(2) b0(2) not_running_cong [OF label_failure_frame [of b1 j r]] by simp
qed

lemma py_lower_strip: "py_lower (py_strip x) = py_strip (py_lower x)"
proof -
  have "is_space (to_lower c) = is_space c" for c
  proof (cases "65 \<le> (of_char c :: nat) \<and> (of_char c :: nat) \<le> 90")
    case True
    then have "(of_char (to_lower c) :: nat) = of_char c + 32" by (simp add: to_lower_def Let_def)
    then show ?thesis using True by (simp add: is_space_def)
  qed (auto simp: to_lower_def Let_def)
  then have d: "dropWhile is_space (map to_lower xs) = map to_lower (dropWhile is_space xs)" for xs
    by (simp add: dropWhile_map comp_def)
  show ?thesis by (simp add: py_lower_def py_strip_def d rev_map)
qed

lemma fail_task_not_running:
  assumes "reliable b" "distinct (map fst (issue_states b))"
  shows "not_running (fail_task b t role reason) t"
proof -
  obtain b1 found where f: "fetch_issue b t = (b1, found)" by fastforce
  have b1: "issue_states b1 = issue_states b" "reliable b1" "found = List.find (\<lambda>i. is_id i = t) (bd_issues b)"
    using f assms(1) by (auto simp: fetch_issue_def api_call_def issue_states_def reliable_def Let_def)
  let ?over = "case found of None \<Rightarrow> False | Some i \<Rightarrow> py_lower (raw_state (is_state i)) \<in> TERMINAL_STATE_NAMES"
  show ?thesis
  proof (cases ?over)
    case True
    then obtain i where i: "found = Some i" "py_lower (raw_state (is_state i)) \<in> TERMINAL_STATE_NAMES" by (cases found) auto
    have mem: "i \<in> set (bd_issues b)" "is_id i = t" using i(1) b1(3) by (auto simp: find_Some_iff)
    have "state_text (is_state i) \<noteq> STATE_RUNNING"
    proof
      assume h: "state_text (is_state i) = STATE_RUNNING"
      have st: "state_text (is_state i) = py_strip (raw_state (is_state i))" by (cases "is_state i") (simp_all add: py_strip_def)
      have "py_lower STATE_RUNNING = py_strip (py_lower (raw_state (is_state i)))"
        using h st py_lower_strip [of "raw_state (is_state i)"] by simp
      moreover have "py_strip ''cancelled'' = ''cancelled''" "py_strip ''done'' = ''done''" "py_lower STATE_RUNNING = ''running''" by code_simp+
      ultimately show False using i(2) by (auto simp: TERMINAL_STATE_NAMES_def)
    qed
    moreover have "s = is_state i" if "(t, s) \<in> set (issue_states b)" for s
    proof -
      have "(t, is_state i) \<in> set (issue_states b)" using mem by (auto simp: issue_states_def)
      then show ?thesis using that assms(2) by (meson eq_key_imp_eq_value)
    qed
    ultimately have "not_running b t" by (auto simp: not_running_def)
    then show ?thesis using True f not_running_cong [OF b1(1)] by (simp add: fail_task_def)
  next
    case False
    obtain b2 where t: "transition_issue b1 t STATE_BLOCKED = (b2, True)" using transition_goes [OF b1(2)] by blast
    have "fail_task b t role reason = fst (and_then (transition_issue b1 t STATE_BLOCKED)
        (\<lambda>b. comment_issue b t (''board_worker['' @ role @ ''] blocked - '' @ reason)))"
      unfolding fail_task_def Let_def f prod.case using False by (simp only: if_False)
    then show ?thesis using and_then_not_running [OF t _ known_texts(2)] by simp
  qed
qed


lemma increment_retry_frame: "issue_states (fst (increment_retry_count b i)) = issue_states b" "is_id (snd (increment_retry_count b i)) = is_id i"
  by (simp_all add: increment_retry_count_def label_writers_frame)

text \<open>Whatever a dispatch that returns has done, the task is not Running.\<close>

lemma returned_not_running:
  assumes "reliable b" "distinct (map fst (issue_states b))" "role \<in> {''goal'', ''test'', ''improve''}"
    and "dispatch_issue w ws b i role = (b', Returned ok)"
  shows "not_running b' (is_id i)"
proof -
  note ft = fail_task_not_running [OF assms(1,2), of "is_id i" role]
  have ci: "not_running (fst (run_ci_loop ws b i role c)) (is_id i)" if h: "snd (run_ci_loop ws b i role c) = Returned ok" for c
  proof (cases c)
    case (CiEnded st n r)
    obtain b1 i1 where a1: "add_label b i (''ci-status: '' @ refinement_status_text st) = (b1, i1)" by fastforce
    obtain b2 i2 where a2: "add_label b1 i1 (''ci-attempts: '' @ show_nat n) = (b2, i2)" by fastforce
    have b2: "reliable b2" "is_id i2 = is_id i" "issue_states b2 = issue_states b"
      using label_writers_reliable(1) [OF assms(1), of i "''ci-status: '' @ refinement_status_text st"]
        label_writers_reliable(1) [of b1 i1 "''ci-attempts: '' @ show_nat n"]
        label_writers_frame(1,2) [of b i "''ci-status: '' @ refinement_status_text st"]
        label_writers_frame(1,2) [of b1 i1 "''ci-attempts: '' @ show_nat n"] unfolding a1 a2 by simp_all
    have "fst (run_ci_loop ws b i role c) =
      (if st = RF_ACCEPTED then handle_success ws b2 i2 role no_delivery
       else if st = RF_ESCALATED then fail_task b2 (is_id i) role (''CI loop escalated after '' @ show_nat n @
                      '' attempt(s) - inconclusive outcome requires operator decision'')
       else fst (handle_failure ws b2 i2 role (ci_failure_result st n r) []))"
      unfolding run_ci_loop_def CiEnded ci_run_end.case Let_def a1 prod.case a2 by (simp split: if_splits)
    then show ?thesis
      using success_not_running [OF b2(1) assms(3), of ws i2 no_delivery] failure_not_running [OF b2(1), of ws i2 role _ "[]"]
        fail_task_not_running [OF b2(1), of "is_id i" role] assms(2) b2(2,3) by simp
  qed (use h in \<open>simp_all add: run_ci_loop_def ft\<close>)
  have conc: "not_running (fst (conclude_dispatch w ws b i role allowed r)) (is_id i)"
    if "snd (conclude_dispatch w ws b i role allowed r) = Returned ok" for allowed r
    using that ft success_not_running [OF assms(1,3)] failure_not_running [OF assms(1)]
    by (auto simp: conclude_dispatch_def Let_def split: scope_verdict.splits)
  have exec: "not_running (fst (execute_task w ws b i role allowed)) (is_id i)"
    if h: "snd (execute_task w ws b i role allowed) = Returned ok" for allowed
  proof (cases "dw_exec w")
    case (ExecRaises e)
    then show ?thesis using h by (simp add: execute_task_def)
  next
    case (ExecDone rc f)
    show ?thesis
    proof (cases f)
      case EmptyResult
      obtain b1 i1 where a1: "add_label b i (''executor-exit-code: '' @ show_int rc) = (b1, i1)" by fastforce
      obtain b2 i2 where a2: "add_label b1 i1 ''executor-signal: SIGKILL'' = (b2, i2)" by fastforce
      obtain b3 i3 where a3: "increment_retry_count b2 i2 = (b3, i3)" by fastforce
      have "reliable b3" "issue_states b3 = issue_states b"
        using label_writers_reliable(1) [OF assms(1), of i "''executor-exit-code: '' @ show_int rc"]
          label_writers_reliable(1) [of b1 i1 "''executor-signal: SIGKILL''"] label_writers_reliable(3) [of b2 i2 "''retry-count:''"]
          label_writers_frame(1) [of b i "''executor-exit-code: '' @ show_int rc"] label_writers_frame(1) [of b1 i1 "''executor-signal: SIGKILL''"]
          increment_retry_frame(1) [of b2 i2] a3 unfolding a1 a2 increment_retry_count_def by simp_all
      then have "not_running (fail_task b3 (is_id i) role x) (is_id i)" for x using fail_task_not_running assms(2) by simp
      then show ?thesis unfolding execute_task_def ExecDone EmptyResult exec_run.case result_file.case Let_def a1 a2 a3 prod.case by simp
    next
      case (Outcome was r)
      then show ?thesis using h conc by (auto simp: execute_task_def ExecDone split: sum.splits)
    qed (use h ft ExecDone in \<open>simp_all add: execute_task_def\<close>)
  qed
  show ?thesis
  proof (cases "dw_plan w")
    case (PlanBundle allowed ci_spec)
    then show ?thesis using assms(4) ci [of "dw_ci w"] exec [of allowed]
      by (cases "ci_spec \<and> issue_kind i = ''improve_campaign''") (auto simp: dispatch_issue_def case_prod_unfold Let_def)
  qed (use assms(4) ft in \<open>auto simp: dispatch_issue_def\<close>)
qed

lemma ci_raised_frame: "run_ci_loop ws b i role c = (b', Raised e) \<Longrightarrow> b' = b"
  by (cases c) (auto simp: run_ci_loop_def Let_def case_prod_unfold split: if_splits)

lemma raised_frame: "dispatch_issue w ws b i role = (b', Raised e) \<Longrightarrow> b' = b"
  by (auto dest: ci_raised_frame simp: dispatch_issue_def execute_task_def conclude_dispatch_def Let_def case_prod_unfold
      split: plan_run.splits exec_run.splits result_file.splits sum.splits scope_verdict.splits if_splits)

text \<open>What a claim does to the board.\<close>

lemma writers_fails:
  "bd_fails (fst (add_label b i l)) = bd_fails b" "bd_fails (fst (remove_labels b i ls)) = bd_fails b"
  by (simp_all add: add_label_def remove_labels_def write_labels_def update_issue_labels_def api_call_def on_issue_def Let_def)

lemma candidates_fails: "bd_fails (fst (build_candidates ws role ex xs b)) = bd_fails b"
  by (induction xs arbitrary: b)
    (auto simp: flag_unauthorized_author_def writers_fails case_prod_beta Let_def split: option.split)

lemma gate_fails: "bd_fails (fst (open_pr_gate_clear w ws b i)) = bd_fails b"
  by (auto simp: open_pr_gate_clear_def Let_def case_prod_unfold writers_fails split: option.split)

lemma calls_fails:
  "bd_fails (fst (list_issues b)) = bd_fails b" "bd_fails (fst (transition_issue b t st)) = bd_fails b"
  "bd_fails (fst (comment_issue b t x)) = bd_fails b"
  by (simp_all add: list_issues_def transition_issue_def comment_issue_def api_call_def on_issue_def Let_def)

lemma select_fails: "bd_fails (fst (select_next cw ws role b)) = bd_fails b"
proof -
  obtain b1 r where l: "list_issues b = (b1, r)" by fastforce
  have f1: "bd_fails b1 = bd_fails b" using calls_fails(1) [of b] by (simp add: l)
  have thin: "bd_fails (block_thin_task c j role n) = bd_fails c" for c j n
    using calls_fails(2) [of c "is_id j" STATE_BLOCKED] calls_fails(3) writers_fails(1)
    by (auto simp: block_thin_task_def Let_def case_prod_unfold)
  show ?thesis
  proof (cases r)
    case None
    then show ?thesis using f1 by (simp add: select_next_def l)
  next
    case (Some xs)
    obtain b2 cands where c: "build_candidates ws role (count_daily_executions (cl_now cw) xs) xs b1 = (b2, cands)" by fastforce
    have f2: "bd_fails b2 = bd_fails b" using candidates_fails [of ws role _ xs b1] c f1 by (metis fst_conv)
    show ?thesis
    proof (cases "sort_key claim_key cands")
      case Nil
      then show ?thesis using f2 by (simp add: select_next_def l Some c)
    next
      case (Cons j rest)
      have "select_next cw ws role b =
          (if is_thin j then (block_thin_task b2 j role (length (candidate_goal j)), None)
           else if role = ''goal'' then (let (b3, i', clear) = open_pr_gate_clear cw ws b2 j in (b3, if clear then Some i' else None))
           else (b2, Some j))"
        by (simp only: select_next_def l Some c Cons prod.case option.case Let_def list.case)
      then show ?thesis using f2 thin gate_fails [of cw ws b2 j] by (auto simp: case_prod_unfold Let_def)
    qed
  qed
qed

lemma claim_frame:
  assumes "claim_next cw ws role b = (b', Some c)"
  shows "bd_fails b' = bd_fails b"
    "issue_states b' = map (\<lambda>(k, s). (k, if k = is_id c then StateObj (Some STATE_RUNNING) else s)) (issue_states b)"
proof -
  obtain b1 i where s: "select_next cw ws role b = (b1, Some i)" and k: "commit_claim b1 i = (b', Some c)"
    using assms by (auto simp: claim_next_def split: prod.splits option.splits)
  obtain b2 where t: "transition_issue b1 (is_id i) STATE_RUNNING = (b2, True)" and r: "clear_blocked_reason_labels b2 i = (b', c)"
    using k by (auto simp: commit_claim_def split: prod.splits if_splits)
  have "bd_fails b1 = bd_fails b" using select_fails [of cw ws role b] by (simp add: s)
  moreover have "bd_fails b2 = bd_fails b1" using calls_fails(2) [of b1 "is_id i" STATE_RUNNING] by (simp add: t)
  moreover have "bd_fails b' = bd_fails b2" using writers_fails(2) [of b2 i BLOCKED_REASON_LABELS] r by (simp add: clear_blocked_reason_labels_def)
  ultimately show "bd_fails b' = bd_fails b" by simp
  have "issue_states b' = issue_states b2" "is_id c = is_id i"
    using label_writers_frame(3,4) [of b2 i BLOCKED_REASON_LABELS] r by (simp_all add: clear_blocked_reason_labels_def)
  then show "issue_states b' = map (\<lambda>(k, s). (k, if k = is_id c then StateObj (Some STATE_RUNNING) else s)) (issue_states b)"
    using transition_states [OF t] selected(8) [OF s] by simp
qed

section \<open>Properties\<close>


definition sample_run_result :: "bool \<Rightarrow> bool option \<Rightarrow> run_result" where
  "sample_run_result ok pushed =
     \<lparr>rr_success = ok, rr_status = (if ok then ''succeeded'' else ''failed''), rr_needs_verification = False, rr_failure_category = None,
      rr_failure_reason = None, rr_executor_exit_code = None, rr_executor_signal = None, rr_pull_request_url = None,
      rr_branch_pushed = pushed, rr_branch_name = Some ''goal/a''\<rparr>"

definition sample_dispatch_world :: "exec_run \<Rightarrow> git_answer \<Rightarrow> dispatch_world" where
  "sample_dispatch_world run git =
     \<lparr>dw_plan = PlanBundle [''src''] False, dw_exec = run, dw_retry = run, dw_git = git, dw_scope_files = [], dw_suggestions = None,
      dw_diagnostics = None, dw_ci = CiInvalidSpec []\<rparr>"

definition sample_run :: "string list \<Rightarrow> dispatch_world" where
  "sample_run lines = sample_dispatch_world (ExecDone 0 (Outcome False (sample_run_result True (Some True)))) (GitOutput lines)"

lemma sample_dispatches:
  "dispatch_issue (sample_run [''src/x.py'']) ws b i role =
     (handle_success ws b i role (delivery_of (sample_run [''src/x.py'']) role (sample_run_result True (Some True))), Returned True)"
  "dispatch_issue (sample_dispatch_world (ExecDone 0 (Outcome False (sample_run_result True (Some True)))) GitTimeout) ws b i role = (b, Raised None)"
proof -
  have v: "verify_pushed_scope (sample_run_result True (Some True)) [''src''] (GitOutput [''src/x.py'']) = ScopeOk"
    "verify_pushed_scope (sample_run_result True (Some True)) [''src''] GitTimeout = ScopeRaises" by code_simp+
  have r: "rr_success (sample_run_result True (Some True))" "\<not> scope_too_wide (sample_run_result True (Some True))"
    by (simp_all add: sample_run_result_def scope_too_wide_def)
  show "dispatch_issue (sample_run [''src/x.py'']) ws b i role =
     (handle_success ws b i role (delivery_of (sample_run [''src/x.py'']) role (sample_run_result True (Some True))), Returned True)"
    "dispatch_issue (sample_dispatch_world (ExecDone 0 (Outcome False (sample_run_result True (Some True)))) GitTimeout) ws b i role = (b, Raised None)"
    using v r by (simp_all add: dispatch_issue_def sample_run_def sample_dispatch_world_def execute_task_def retried_result_def conclude_dispatch_def)
qed

lemma sample_claim:
  "\<exists>b1 i. claim_next sample_claim_world sample_settings ''goal'' sample_board = (b1, Some i) \<and> is_id i = ''a''"
proof -
  have a: "map_option is_id (snd (claim_next sample_claim_world sample_settings ''goal'' sample_board)) = Some ''a''" by code_simp
  show ?thesis
  proof (cases "snd (claim_next sample_claim_world sample_settings ''goal'' sample_board)")
    case None
    then show ?thesis using a by (simp only: option.map option.distinct)
  next
    case (Some i)
    then have "claim_next sample_claim_world sample_settings ''goal'' sample_board
        = (fst (claim_next sample_claim_world sample_settings ''goal'' sample_board), Some i)" by (metis prod.collapse)
    moreover have "is_id i = ''a''" using a unfolding Some by (simp only: option.map option.inject)
    ultimately show ?thesis by blast
  qed
qed




text \<open>What the check of the pushed branch lets through.\<close>

lemma unverified_when_not_reported_pushed: "rr_branch_pushed r \<noteq> Some True \<Longrightarrow> verify_pushed_scope r allowed git = ScopeOk"
  by (simp add: verify_pushed_scope_def)

lemma normalized_samples:
  "normalize_pattern ''github'' = ''github''" "normalize_pattern ''./.github'' = ''github''"
  "normalize_changed_path ''.github/x'' = ''github/x''" "normalize_changed_path ''github/x'' = ''github/x''"
  by code_simp+

lemma hidden_directory_admitted:
  "in_scope [''github''] (normalize_changed_path ''.github/x'')" "in_scope [''./.github''] (normalize_changed_path ''github/x'')"
  by (simp_all add: in_scope_def normalized_samples)

lemma git_timeout_strands_the_task:
  "\<exists>b1 i. claim_next sample_claim_world sample_settings ''goal'' sample_board = (b1, Some i)
     \<and> (is_id i, StateObj (Some STATE_RUNNING)) \<in> set (issue_states b1)
     \<and> worker_cycle sample_claim_world (sample_dispatch_world (ExecDone 0 (Outcome False (sample_run_result True (Some True)))) GitTimeout)
         sample_settings ''goal'' sample_board = (b1, False)"
proof -
  obtain b1 i where c: "claim_next sample_claim_world sample_settings ''goal'' sample_board = (b1, Some i)" "is_id i = ''a''"
    using sample_claim by blast
  have "(''a'', StateObj (Some STATE_RUNNING)) \<in> set (issue_states b1)"
    using claim_frame(2) [OF c(1)] c(2) by (simp add: issue_states_def sample_board_def sample_issue_def)
  then show ?thesis using c by (simp add: worker_cycle_def sample_dispatches(2))
qed

end
