(* ===== verification/Board_Unblock.thy ===== *)
theory Board_Unblock
  imports Board_Outcomes Inflight_Reconcile Usage_Cooldown
begin

text \<open>
  Unblocking the board without an operator (\<open>entrypoints/maintenance/board_unblock.py\<close>) and the maintenance task around it
  (\<open>board_unblock_task.py\<close>): thirteen rules look at every issue and propose transitions, which are then applied one by one.

  A rule is a function from the sweep's environment and an issue to a list of actions; \<open>issue_actions\<close> composes them with the
  code's early exits. Dashes and the sign for at least in texts are written \<open>-\<close> and \<open>>=\<close>; the text of an amount of memory and
  of a time, and the reading of an ISO text, are arguments. An issue carries its description as one text.
\<close>

section \<open>Reading an issue\<close>

fun raw_label_name :: "label \<Rightarrow> string option" where
  "raw_label_name (LabelText s) = (if s = [] then None else Some (py_strip s))"
| "raw_label_name (LabelObj n) = (case n of None \<Rightarrow> None | Some s \<Rightarrow> if s = [] then None else Some (py_strip s))"

definition unblock_labels :: "issue \<Rightarrow> string list" where
  "unblock_labels i = List.map_filter raw_label_name (is_labels i)"

definition named_value :: "string list \<Rightarrow> string \<Rightarrow> string option" where
  "named_value ls p =
     map_option (\<lambda>l. py_strip (drop (length p) l)) (List.find (\<lambda>l. prefix (py_lower p) (py_lower l)) ls)"

definition has_named :: "string list \<Rightarrow> string \<Rightarrow> bool" where
  "has_named ls target = list_ex (\<lambda>l. py_lower l = py_lower target) ls"

definition has_named_prefix :: "string list \<Rightarrow> string \<Rightarrow> bool" where
  "has_named_prefix ls p = list_ex (\<lambda>l. prefix (py_lower p) (py_lower l)) ls"

definition named_count :: "string list \<Rightarrow> string \<Rightarrow> int" where
  "named_count ls p =
     (case named_value ls p of None \<Rightarrow> 0 | Some raw \<Rightarrow> (case label_int raw of None \<Rightarrow> 0 | Some n \<Rightarrow> n))"

definition retry_count_of :: "string list \<Rightarrow> int" where
  "retry_count_of ls = named_count ls ''retry-count:''"

definition code_fail_count_of :: "string list \<Rightarrow> int" where
  "code_fail_count_of ls = named_count ls ''code-fail-count:''"

definition blocker_task_id :: "string list \<Rightarrow> string option" where
  "blocker_task_id ls = named_value ls ''blocked-by:''"

definition description_blob :: "issue \<Rightarrow> string" where
  "description_blob i = py_lower (is_description i)"

definition is_spec_campaign_implement_goal :: "issue \<Rightarrow> string list \<Rightarrow> bool" where
  "is_spec_campaign_implement_goal i ls =
     (has_named ls ''task-kind: goal'' \<and> has_named ls ''source: spec-campaign''
      \<and> str_contains ''task_phase: implement'' (description_blob i))"

text \<open>\<open>updated_at\<close>, or \<open>created_at\<close> when it is empty; \<open>parse\<close> reads an ISO text.\<close>

definition parse_updated_at :: "(string \<Rightarrow> datetime option) \<Rightarrow> issue \<Rightarrow> datetime option" where
  "parse_updated_at parse i =
     (case is_updated_at i of
        Iso t \<Rightarrow> Some t
      | NotIso s \<Rightarrow> if s \<noteq> [] then None else if is_created_at i = [] then None else parse (is_created_at i))"

text \<open>The dictionary from ids to states: of two issues with an id the last counts; an unknown id has the state ''''.\<close>

definition build_id_state_map :: "issue list \<Rightarrow> string \<Rightarrow> string" where
  "build_id_state_map is t =
     (case List.find (\<lambda>i. is_id i = t) (rev is) of None \<Rightarrow> [] | Some i \<Rightarrow> state_text (is_state i))"

section \<open>Gates\<close>

text \<open>Repositories whose goal lane an open pull request blocks; \<open>open_prs\<close> is the code host's answer for a clone URL.\<close>

definition repo_blocked :: "worker_settings \<Rightarrow> datetime \<Rightarrow> (string \<Rightarrow> open_pr list option) \<Rightarrow> string \<Rightarrow> bool" where
  "repo_blocked ws now open_prs repo =
     (case ws_repos ws repo of
        None \<Rightarrow> False
      | Some r \<Rightarrow> rs_clone_url r \<noteq> [] \<and>
          (case open_prs (rs_clone_url r) of
             None \<Rightarrow> False | Some prs \<Rightarrow> blocking_prs (ws_open_pr_gate_stale_hours ws) now prs \<noteq> []))"

definition open_pr_gate_blocked_repos ::
  "worker_settings \<Rightarrow> datetime \<Rightarrow> (string \<Rightarrow> open_pr list option) \<Rightarrow> issue list \<Rightarrow> string \<Rightarrow> bool" where
  "open_pr_gate_blocked_repos ws now open_prs is repo =
     (ws_has_git_token ws \<and> repo \<noteq> []
      \<and> list_ex (\<lambda>i. has_named (unblock_labels i) ''task-kind: goal'' \<and> named_value (unblock_labels i) ''repo:'' = Some repo) is
      \<and> repo_blocked ws now open_prs repo)"

fun split_comma :: "string \<Rightarrow> string list" where
  "split_comma [] = [[]]"
| "split_comma (c # cs) = (if c = CHR '','' then [] # split_comma cs else (c # hd (split_comma cs)) # tl (split_comma cs))"

definition PROVIDER_TO_WORKER_BACKEND_sweep :: "string \<Rightarrow> string option" where
  "PROVIDER_TO_WORKER_BACKEND_sweep p =
     (if p = ''claude'' \<or> p = ''anthropic'' then Some ''claude_code''
      else if p = ''codex'' \<or> p = ''openai'' then Some ''codex_cli'' else None)"

text \<open>The set in sorted order; \<open>raw\<close> is the environment variable's text.\<close>

definition allowed_worker_backends :: "string \<Rightarrow> string list" where
  "allowed_worker_backends raw =
     (let named = set (List.map_filter (\<lambda>p. PROVIDER_TO_WORKER_BACKEND_sweep (py_lower (py_strip p))) (split_comma raw));
          ordered = filter (\<lambda>b. b \<in> named) [''claude_code'', ''codex_cli'']
      in if ordered = [] then [''claude_code''] else ordered)"

definition cooling :: "usage_file \<Rightarrow> datetime \<Rightarrow> string \<Rightarrow> backend_cooldown option" where
  "cooling file now backend =
     (case map_of (current_worker_backend_cooldowns file now) backend of
        None \<Rightarrow> None | Some c \<Rightarrow> if bc_cooling_down c then Some c else None)"

text \<open>\<open>refresh\<close> is the probe of the live backends on the usage file; \<^const>\<open>None\<close> when it raises.\<close>

definition dispatch_cooldown_reason ::
  "(datetime \<Rightarrow> string) \<Rightarrow> (usage_file \<Rightarrow> usage_file option) \<Rightarrow> string \<Rightarrow> usage_file \<Rightarrow> datetime \<Rightarrow> string option" where
  "dispatch_cooldown_reason show_time refresh raw file now =
     (let allowed = allowed_worker_backends raw;
          file' = (if list_all (\<lambda>b. cooling file now b \<noteq> None) allowed
                   then (case refresh file of None \<Rightarrow> file | Some f \<Rightarrow> f) else file)
      in if list_all (\<lambda>b. cooling file' now b \<noteq> None) allowed
         then Some (''all allowed worker backends cooling down (''
           @ py_join '', '' (map (\<lambda>b. b @ (case bc_reset_at (the (cooling file' now b)) of None \<Rightarrow> [] | Some t \<Rightarrow> '' until '' @ show_time t)) allowed)
           @ ''); Ready-for-AI promotion deferred to avoid re-dispatch into a session-limited backend (self-heals on cooldown reset)'')
         else None)"

section \<open>Rules\<close>

datatype unblock_rule = DEAD_REMEDIATION_CANCEL | INVESTIGATE_DEPRIORITISE | OPEN_PR_GATE_PARK | IMPROVE_UNBLOCK | SELF_MODIFY_REQUEUE
  | STALE_IN_REVIEW | STALE_RUNNING_REQUEUE | OPEN_PR_GATE_REQUEUE | GOAL_BACKLOG_PROMOTE | CLEAN_BLOCKED_RETRY
  | BACKEND_CAPACITY_PARK | SPEC_AUTHOR_BACKLOG_PROMOTE | SPEC_CAMPAIGN_BACKLOG_PROMOTE | PR_MERGED_RECONCILE

fun rule_name :: "unblock_rule \<Rightarrow> string" where
  "rule_name DEAD_REMEDIATION_CANCEL = ''DEAD_REMEDIATION_CANCEL''"
| "rule_name INVESTIGATE_DEPRIORITISE = ''INVESTIGATE_DEPRIORITISE''"
| "rule_name OPEN_PR_GATE_PARK = ''OPEN_PR_GATE_PARK''"
| "rule_name IMPROVE_UNBLOCK = ''IMPROVE_UNBLOCK''"
| "rule_name SELF_MODIFY_REQUEUE = ''SELF_MODIFY_REQUEUE''"
| "rule_name STALE_IN_REVIEW = ''STALE_IN_REVIEW''"
| "rule_name STALE_RUNNING_REQUEUE = ''STALE_RUNNING_REQUEUE''"
| "rule_name OPEN_PR_GATE_REQUEUE = ''OPEN_PR_GATE_REQUEUE''"
| "rule_name GOAL_BACKLOG_PROMOTE = ''GOAL_BACKLOG_PROMOTE''"
| "rule_name CLEAN_BLOCKED_RETRY = ''CLEAN_BLOCKED_RETRY''"
| "rule_name BACKEND_CAPACITY_PARK = ''BACKEND_CAPACITY_PARK''"
| "rule_name SPEC_AUTHOR_BACKLOG_PROMOTE = ''SPEC_AUTHOR_BACKLOG_PROMOTE''"
| "rule_name SPEC_CAMPAIGN_BACKLOG_PROMOTE = ''SPEC_CAMPAIGN_BACKLOG_PROMOTE''"
| "rule_name PR_MERGED_RECONCILE = ''PR_MERGED_RECONCILE''"

text \<open>\<open>ac_labels\<close> is the copy of the issue's labels an action carries, empty where it carries none.\<close>

record unblock_action =
  ac_task :: string
  ac_title :: string
  ac_rule :: unblock_rule
  ac_from :: string
  ac_to :: string
  ac_reason :: string
  ac_add :: "string list"
  ac_remove :: "string list"
  ac_labels :: "string list"
  ac_skipped :: bool

definition action_of :: "issue \<Rightarrow> unblock_rule \<Rightarrow> string \<Rightarrow> string \<Rightarrow> unblock_action" where
  "action_of i rule to reason =
     \<lparr>ac_task = is_id i, ac_title = is_name i, ac_rule = rule, ac_from = state_text (is_state i), ac_to = to, ac_reason = reason,
      ac_add = [], ac_remove = [], ac_labels = [], ac_skipped = False\<rparr>"

definition skip_of :: "issue \<Rightarrow> unblock_rule \<Rightarrow> string \<Rightarrow> unblock_action" where
  "skip_of i rule reason = (action_of i rule STATE_READY (''SKIPPED - '' @ reason))\<lparr>ac_skipped := True\<rparr>"

definition relabelled :: "issue \<Rightarrow> string list \<Rightarrow> string list \<Rightarrow> unblock_action \<Rightarrow> unblock_action" where
  "relabelled i add remove a = a\<lparr>ac_add := add, ac_remove := remove, ac_labels := unblock_labels i\<rparr>"

text \<open>The amount of memory is \<^const>\<open>None\<close> when it cannot be read and then above every threshold.\<close>

record unblock_env =
  ue_now :: datetime
  ue_stale_blocked_hours :: int
  ue_stale_running_hours :: int
  ue_clean_blocked_min_minutes :: int
  ue_mem_gb :: "rat option"
  ue_mem_text :: string
  ue_cooldown_skip :: "string option"
  ue_code_failure_retry_cap :: int
  ue_blocked_repos :: "string \<Rightarrow> bool"
  ue_id_state :: "string \<Rightarrow> string"
  ue_parse :: "string \<Rightarrow> datetime option"

definition below_gb :: "rat option \<Rightarrow> rat \<Rightarrow> bool" where
  "below_gb mem t = (case mem of None \<Rightarrow> False | Some m \<Rightarrow> m < t)"

definition MEM_SKIP_THRESHOLD_GB :: rat where "MEM_SKIP_THRESHOLD_GB = 17 / 10"
definition MEM_R4AI_THRESHOLD_GB :: rat where "MEM_R4AI_THRESHOLD_GB = 8"

definition mem_low :: "unblock_env \<Rightarrow> bool" where
  "mem_low e = below_gb (ue_mem_gb e) MEM_R4AI_THRESHOLD_GB"

text \<open>Older than a duration, strictly and not; an issue without a readable time is not.\<close>

definition older_than :: "unblock_env \<Rightarrow> issue \<Rightarrow> timedelta \<Rightarrow> bool" where
  "older_than e i d = (case parse_updated_at (ue_parse e) i of None \<Rightarrow> False | Some t \<Rightarrow> ue_now e - t > d)"

definition aged :: "unblock_env \<Rightarrow> issue \<Rightarrow> timedelta \<Rightarrow> bool" where
  "aged e i d = (case parse_updated_at (ue_parse e) i of None \<Rightarrow> False | Some t \<Rightarrow> ue_now e - t \<ge> d)"

definition in_state :: "issue \<Rightarrow> string \<Rightarrow> bool" where
  "in_state i s = (py_lower (state_text (is_state i)) = s)"

definition in_blocked_repo :: "unblock_env \<Rightarrow> string list \<Rightarrow> bool" where
  "in_blocked_repo e ls = (case named_value ls ''repo:'' of None \<Rightarrow> False | Some r \<Rightarrow> ue_blocked_repos e r)"

text \<open>The fixed parts of the reasons.\<close>

definition sigkill_exhausted_reason :: string where "sigkill_exhausted_reason = ''>=3 SIGKILL retries with no safe path''"
definition investigate_reason :: string where "investigate_reason = ''task-kind:investigate has no board_worker consumer; starving R4AI slot''"
definition park_reason :: string where "park_reason = '' has active non-spec open PRs; task is non-consumable until the OPEN_PR_GATE clears''"
definition policy_block_reason :: string where "policy_block_reason = ''blocked-reason:policy present; deterministic policy gate (e.g. review.required) requires operator review, self-modify:approved does not override it''"
definition sigkill_reason :: string where "sigkill_reason = ''executor-signal:SIGKILL present; triage review required before requeue''"
definition exit_zero_reason :: string where "exit_zero_reason = ''executor-exit-code:0 with no signal label; empty result.json pattern requires execute.main fix before retry''"
definition approved_reason :: string where "approved_reason = ''no blocking dependency; operator approval already granted''"
definition review_reason :: string where "review_reason = ''h - PR likely never created or already closed''"
definition running_reason :: string where "running_reason = ''h - executor likely died (OOM/SIGKILL/watcher restart) without updating Plane state''"
definition gate_clear_reason :: string where "gate_clear_reason = '' no longer has blocking non-spec open PRs; restore task to Ready for AI''"
definition promote_reason :: string where "promote_reason = ''; promote for goal board_worker dispatch''"
definition clean_reason :: string where "clean_reason = ''no executor-signal/exit-code/blocked-by labels - pre-execution failure (workspace prep or infra config); safe to retry after ''"
definition capacity_reason :: string where "capacity_reason = ''backend-capacity/session-limit failure; park in Backlog so cooldown-aware promotion can retry after the backend resets''"
definition spec_author_reason :: string where "spec_author_reason = ''spec-author task in Backlog; promoting for board_worker dispatch''"
definition campaign_reason :: string where "campaign_reason = ''spec-campaign implement task parked in Backlog after backend-capacity failure; restoring to Ready for AI''"

text \<open>Rule 1.\<close>

definition dead_remediation :: "unblock_env \<Rightarrow> issue \<Rightarrow> unblock_action option" where
  "dead_remediation e i =
     (let ls = unblock_labels i;
          dead = has_named ls ''dead-remediation'';
          sigkill = (str_contains ''sigkill'' (py_lower (or_empty (named_value ls ''executor-signal:''))) \<and> 3 \<le> retry_count_of ls);
          cap = ue_code_failure_retry_cap e;
          code_fail = (0 < cap \<and> cap \<le> code_fail_count_of ls)
      in if is_terminal (state_text (is_state i)) then None
         else if dead \<or> sigkill \<or> code_fail
         then Some (action_of i DEAD_REMEDIATION_CANCEL ''Cancelled''
                (if dead then ''labelled dead-remediation''
                 else if sigkill then sigkill_exhausted_reason
                 else ''>='' @ show_int cap @ '' clean code failures (code-fail-count='' @ show_int (code_fail_count_of ls)
                      @ '') - approach not converging''))
         else None)"

text \<open>Rules 2 and 2.5.\<close>

definition investigate_deprioritise :: "issue \<Rightarrow> unblock_action option" where
  "investigate_deprioritise i =
     (if in_state i ''ready for ai'' \<and> has_named (unblock_labels i) ''task-kind: investigate''
      then Some (action_of i INVESTIGATE_DEPRIORITISE ''Backlog'' investigate_reason)
      else None)"

definition open_pr_gate_park :: "unblock_env \<Rightarrow> issue \<Rightarrow> unblock_action option" where
  "open_pr_gate_park e i =
     (let ls = unblock_labels i
      in if in_state i ''ready for ai'' \<and> has_named ls ''task-kind: goal'' \<and> in_blocked_repo e ls
         then Some (relabelled i [''OPEN_PR_GATE''] []
                (action_of i OPEN_PR_GATE_PARK ''Backlog''
                   (''repo '' @ or_empty (named_value ls ''repo:'') @ park_reason)))
         else None)"

text \<open>Rule 3.\<close>

definition improve_unblock :: "unblock_env \<Rightarrow> issue \<Rightarrow> unblock_action option" where
  "improve_unblock e i =
     (let ls = unblock_labels i; blocker = or_empty (blocker_task_id ls)
      in if in_state i ''blocked'' \<and> (has_named ls ''task-kind: improve'' \<or> has_named ls ''task-kind: goal'')
            \<and> \<not> has_named ls ''self-modify: approved''
         then (if blocker \<noteq> [] \<and> is_terminal (ue_id_state e blocker)
               then Some (relabelled i [] BLOCKED_REASON_LABELS
                      (action_of i IMPROVE_UNBLOCK ''Backlog'' (''blocker '' @ blocker @ '' is now '' @ ue_id_state e blocker)))
               else if older_than e i (td_hours (ue_stale_blocked_hours e))
               then Some (relabelled i [] BLOCKED_REASON_LABELS
                      (action_of i IMPROVE_UNBLOCK ''Backlog''
                         (''stale in Blocked >'' @ show_int (ue_stale_blocked_hours e) @ ''h with no executor progress'')))
               else None)
         else None)"

text \<open>Rule 4.\<close>

definition self_modify_requeue :: "unblock_env \<Rightarrow> issue \<Rightarrow> unblock_action list" where
  "self_modify_requeue e i =
     (let ls = unblock_labels i; sig = or_empty (named_value ls ''executor-signal:'');
          exit_zero = (py_strip (or_empty (named_value ls ''executor-exit-code:'')) = ''0'' \<and> sig = [])
      in if in_state i ''blocked'' \<and> has_named ls ''self-modify: approved''
         then (if has_named ls ''blocked-reason: policy''
               then [skip_of i SELF_MODIFY_REQUEUE policy_block_reason]
               else if str_contains ''sigkill'' (py_lower sig)
               then [skip_of i SELF_MODIFY_REQUEUE sigkill_reason]
               else if exit_zero
               then [skip_of i SELF_MODIFY_REQUEUE exit_zero_reason]
               else if mem_low e
               then [skip_of i SELF_MODIFY_REQUEUE (''mem '' @ ue_mem_text e @ ''GB < 8.0GB threshold'')]
               else if ue_cooldown_skip e \<noteq> None then [skip_of i SELF_MODIFY_REQUEUE (or_empty (ue_cooldown_skip e))]
               else (case blocker_task_id ls of
                       None \<Rightarrow> [relabelled i [] BLOCKED_REASON_LABELS
                         (action_of i SELF_MODIFY_REQUEUE STATE_READY approved_reason)]
                     | Some b \<Rightarrow>
                         if is_terminal (ue_id_state e b)
                         then [relabelled i [] BLOCKED_REASON_LABELS
                           (action_of i SELF_MODIFY_REQUEUE STATE_READY (''blocker '' @ b @ '' is now '' @ ue_id_state e b))]
                         else []))
         else [])"

text \<open>Rules 5 and 6.\<close>

definition stale_in_review :: "unblock_env \<Rightarrow> issue \<Rightarrow> unblock_action list" where
  "stale_in_review e i =
     (if in_state i ''in review'' \<and> \<not> has_named_prefix (unblock_labels i) ''pr-url:''
         \<and> older_than e i (td_hours (ue_stale_blocked_hours e))
      then [action_of i STALE_IN_REVIEW ''Backlog''
              (''stale in In Review >'' @ show_int (ue_stale_blocked_hours e) @ review_reason)]
      else [])"

definition stale_running_requeue :: "unblock_env \<Rightarrow> issue \<Rightarrow> unblock_action list" where
  "stale_running_requeue e i =
     (if in_state i ''running'' \<and> older_than e i (td_hours (ue_stale_running_hours e))
      then (if ue_cooldown_skip e \<noteq> None then [skip_of i STALE_RUNNING_REQUEUE (or_empty (ue_cooldown_skip e))]
            else [action_of i STALE_RUNNING_REQUEUE STATE_READY
                    (''stale in Running >'' @ show_int (ue_stale_running_hours e)
                     @ running_reason)])
      else [])"

text \<open>A promotion into Ready for AI is deferred while every backend is cooling down.\<close>

definition promotion :: "unblock_env \<Rightarrow> issue \<Rightarrow> unblock_rule \<Rightarrow> string list \<Rightarrow> string \<Rightarrow> unblock_action" where
  "promotion e i rule remove reason =
     (if ue_cooldown_skip e \<noteq> None then skip_of i rule (or_empty (ue_cooldown_skip e))
      else relabelled i [] remove (action_of i rule STATE_READY reason))"

text \<open>Rule 10 of the description, which the code runs with rule 7.\<close>

definition open_pr_gate_requeue :: "unblock_env \<Rightarrow> issue \<Rightarrow> unblock_action option" where
  "open_pr_gate_requeue e i =
     (let ls = unblock_labels i
      in if in_state i ''backlog'' \<and> has_named ls ''task-kind: goal'' \<and> has_named ls ''OPEN_PR_GATE'' \<and> \<not> in_blocked_repo e ls
            \<and> \<not> has_named ls ''thin-goal'' \<and> \<not> has_named_prefix ls ''executor-signal:'' \<and> \<not> mem_low e
         then Some (promotion e i OPEN_PR_GATE_REQUEUE [''OPEN_PR_GATE'']
                (''repo '' @ (case named_value ls ''repo:'' of None \<Rightarrow> ''None'' | Some r \<Rightarrow> r)
                 @ gate_clear_reason))
         else None)"

definition follows_improvement :: "string list \<Rightarrow> bool" where
  "follows_improvement ls =
     ((has_named ls ''source: autonomy'' \<and> has_named ls ''source: improve-suggestion'')
      \<or> (has_named ls ''source: board_worker'' \<and> has_named ls ''handoff-reason: improvement_applied''))"

text \<open>Rule 7.\<close>

definition goal_backlog_promote :: "unblock_env \<Rightarrow> issue \<Rightarrow> unblock_action list" where
  "goal_backlog_promote e i =
     (let ls = unblock_labels i; parent = or_empty (named_value ls ''original-task-id:''); parent_state = ue_id_state e parent
      in if in_state i ''backlog'' \<and> has_named ls ''task-kind: goal'' \<and> follows_improvement ls \<and> \<not> in_blocked_repo e ls
            \<and> \<not> has_named ls ''thin-goal'' \<and> \<not> has_named_prefix ls ''executor-signal:'' \<and> \<not> mem_low e
            \<and> parent \<noteq> [] \<and> is_terminal parent_state
         then [promotion e i GOAL_BACKLOG_PROMOTE BLOCKED_REASON_LABELS
                 (''parent improve task '' @ parent @ '' is '' @ parent_state @ promote_reason)]
         else [])"

text \<open>Rules 8 and 8.5.\<close>

definition never_ran :: "string list \<Rightarrow> bool" where
  "never_ran ls =
     (\<not> has_named ls ''self-modify: approved'' \<and> \<not> has_named ls ''thin-goal'' \<and> \<not> has_named_prefix ls ''executor-signal:''
      \<and> \<not> has_named_prefix ls ''executor-exit-code:'' \<and> \<not> has_named_prefix ls ''blocked-by:'')"

definition clean_blocked_retry :: "unblock_env \<Rightarrow> issue \<Rightarrow> unblock_action list" where
  "clean_blocked_retry e i =
     (let ls = unblock_labels i
      in if in_state i ''blocked''
            \<and> (has_named ls ''task-kind: improve'' \<or> has_named ls ''task-kind: goal'' \<or> has_named ls ''task-kind: spec-author'')
            \<and> never_ran ls \<and> \<not> has_named ls ''blocked-reason: policy'' \<and> \<not> has_named ls ''blocked-reason: backend-capacity''
            \<and> aged e i (td_seconds (ue_clean_blocked_min_minutes e * 60))
         then [relabelled i [] BLOCKED_REASON_LABELS
                 (action_of i CLEAN_BLOCKED_RETRY ''Backlog''
                    (clean_reason
                     @ show_int (ue_clean_blocked_min_minutes e) @ ''m min age''))]
         else [])"

definition has_repromotion_path :: "issue \<Rightarrow> bool" where
  "has_repromotion_path i =
     (let ls = unblock_labels i
      in has_named ls ''task-kind: spec-author''
         \<or> (has_named ls ''task-kind: goal'' \<and> follows_improvement ls \<and> or_empty (named_value ls ''original-task-id:'') \<noteq> [])
         \<or> is_spec_campaign_implement_goal i ls)"

definition backend_capacity_park :: "unblock_env \<Rightarrow> issue \<Rightarrow> unblock_action list" where
  "backend_capacity_park e i =
     (let ls = unblock_labels i
      in if in_state i ''blocked'' \<and> (has_named ls ''task-kind: goal'' \<or> has_named ls ''task-kind: spec-author'')
            \<and> never_ran ls \<and> has_named ls ''blocked-reason: backend-capacity''
            \<and> has_repromotion_path i \<and> aged e i (td_seconds (ue_clean_blocked_min_minutes e * 60))
         then [action_of i BACKEND_CAPACITY_PARK ''Backlog''
                 capacity_reason]
         else [])"

text \<open>Rules 9 and 9.5.\<close>

definition spec_author_backlog_promote :: "unblock_env \<Rightarrow> issue \<Rightarrow> unblock_action list" where
  "spec_author_backlog_promote e i =
     (if in_state i ''backlog'' \<and> has_named (unblock_labels i) ''task-kind: spec-author'' \<and> \<not> mem_low e
      then [promotion e i SPEC_AUTHOR_BACKLOG_PROMOTE BLOCKED_REASON_LABELS
              spec_author_reason]
      else [])"

definition spec_campaign_backlog_promote :: "unblock_env \<Rightarrow> issue \<Rightarrow> unblock_action list" where
  "spec_campaign_backlog_promote e i =
     (if in_state i ''backlog'' \<and> is_spec_campaign_implement_goal i (unblock_labels i) \<and> \<not> mem_low e
      then [promotion e i SPEC_CAMPAIGN_BACKLOG_PROMOTE BLOCKED_REASON_LABELS
              campaign_reason]
      else [])"

text \<open>The rules that end the loop's body for the issue, in order; then the others.\<close>

definition exclusive_action :: "unblock_env \<Rightarrow> issue \<Rightarrow> unblock_action option" where
  "exclusive_action e i =
     (case dead_remediation e i of Some a \<Rightarrow> Some a | None \<Rightarrow>
      (case investigate_deprioritise i of Some a \<Rightarrow> Some a | None \<Rightarrow>
       (case open_pr_gate_park e i of Some a \<Rightarrow> Some a | None \<Rightarrow> improve_unblock e i)))"

definition issue_actions :: "unblock_env \<Rightarrow> issue \<Rightarrow> unblock_action list" where
  "issue_actions e i =
     (case exclusive_action e i of
        Some a \<Rightarrow> [a]
      | None \<Rightarrow>
          (let early = self_modify_requeue e i @ stale_in_review e i @ stale_running_requeue e i;
               late = goal_backlog_promote e i @ clean_blocked_retry e i @ backend_capacity_park e i
                      @ spec_author_backlog_promote e i @ spec_campaign_backlog_promote e i
           in case open_pr_gate_requeue e i of
                None \<Rightarrow> early @ late
              | Some a \<Rightarrow> if ac_skipped a then early @ [a] @ late else early @ [a]))"

definition apply_rules :: "unblock_env \<Rightarrow> issue list \<Rightarrow> unblock_action list" where
  "apply_rules e is = concat (map (issue_actions (e\<lparr>ue_id_state := build_id_state_map is\<rparr>)) is)"

section \<open>Applying the actions\<close>

datatype applied = WasSkipped | WouldApply | Applied | ApplyError

definition rewritten_labels :: "unblock_action \<Rightarrow> string list" where
  "rewritten_labels a =
     fold (\<lambda>new ls. if has_named ls new then ls else ls @ [new]) (ac_add a)
       (filter (\<lambda>l. py_lower l \<notin> py_lower ` set (ac_remove a)) (ac_labels a))"

definition action_comment :: "unblock_action \<Rightarrow> string" where
  "action_comment a =
     ''Board unblock (autonomous): '' @ rule_name (ac_rule a) @ '' - '' @ ac_reason a @ ''. Transitioned '' @ ac_from a @ '' -> '' @ ac_to a @ ''.''"

definition relabel_call :: "board \<Rightarrow> unblock_action \<Rightarrow> board \<times> bool" where
  "relabel_call b a =
     (if ac_labels a \<noteq> [] \<and> (ac_add a \<noteq> [] \<or> ac_remove a \<noteq> []) \<and> rewritten_labels a \<noteq> ac_labels a
      then update_issue_labels b (ac_task a) (rewritten_labels a) else (b, True))"

definition apply_action :: "bool \<Rightarrow> board \<Rightarrow> unblock_action \<Rightarrow> board \<times> applied" where
  "apply_action do_apply b a =
     (if ac_skipped a then (b, WasSkipped)
      else if \<not> do_apply then (b, WouldApply)
      else (let (b', ok) = and_then (transition_issue b (ac_task a) (ac_to a))
                             (\<lambda>b. and_then (relabel_call b a) (\<lambda>b. comment_issue b (ac_task a) (action_comment a)))
            in (b', if ok then Applied else ApplyError)))"

fun apply_board_actions :: "bool \<Rightarrow> board \<Rightarrow> unblock_action list \<Rightarrow> board \<times> (unblock_action \<times> applied) list" where
  "apply_board_actions do_apply b [] = (b, [])"
| "apply_board_actions do_apply b (a # as) =
     (let (b1, r) = apply_action do_apply b a; (b2, rs) = apply_board_actions do_apply b1 as in (b2, (a, r) # rs))"

section \<open>The command and the maintenance task\<close>

record unblock_options =
  uo_apply :: bool
  uo_stale_blocked_hours :: int
  uo_stale_running_hours :: int
  uo_clean_blocked_min_minutes :: int

record unblock_world =
  uw_now :: datetime
  uw_mem_gb :: "rat option"
  uw_mem_text :: string
  uw_parse :: "string \<Rightarrow> datetime option"
  uw_open_prs :: "string \<Rightarrow> open_pr list option"
  uw_show_time :: "datetime \<Rightarrow> string"
  uw_refresh :: "usage_file \<Rightarrow> usage_file option"
  uw_providers :: string
  uw_usage :: usage_file
  uw_fetch_fails :: "string \<Rightarrow> bool"
  uw_free :: "slot_id \<Rightarrow> rat option"
  uw_rep :: "json \<Rightarrow> string"
  uw_merged_pr :: "string \<Rightarrow> string \<Rightarrow> (int \<times> string) option"
  uw_has_gh :: bool
  uw_owner_ok :: bool

definition sweep_env ::
  "unblock_options \<Rightarrow> unblock_world \<Rightarrow> string option \<Rightarrow> int \<Rightarrow> worker_settings \<Rightarrow> issue list \<Rightarrow> unblock_env" where
  "sweep_env opts w skip cap ws is =
     \<lparr>ue_now = uw_now w, ue_stale_blocked_hours = uo_stale_blocked_hours opts, ue_stale_running_hours = uo_stale_running_hours opts,
      ue_clean_blocked_min_minutes = uo_clean_blocked_min_minutes opts, ue_mem_gb = uw_mem_gb w, ue_mem_text = uw_mem_text w,
      ue_cooldown_skip = skip, ue_code_failure_retry_cap = cap,
      ue_blocked_repos = open_pr_gate_blocked_repos ws (uw_now w) (uw_open_prs w) is,
      ue_id_state = build_id_state_map is, ue_parse = uw_parse w\<rparr>"

definition state_json :: "issue_state \<Rightarrow> json option" where
  "state_json s =
     (case s of NoState \<Rightarrow> None | StateText t \<Rightarrow> Some (JStr t) | StateObj None \<Rightarrow> Some (JObj []) | StateObj (Some t) \<Rightarrow> Some (JObj [(''name'', JStr t)]))"

definition board_fetch :: "(string \<Rightarrow> bool) \<Rightarrow> board \<Rightarrow> string \<Rightarrow> fetch_result" where
  "board_fetch fails b t =
     (if fails t then FetchFailed
      else case List.find (\<lambda>i. is_id i = t) (bd_issues b) of None \<Rightarrow> HttpStatusError 404 | Some i \<Rightarrow> Issue (state_json (is_state i)))"

datatype sweep_end = SweepSkipped | SweepNoOwner | SweepFetchFailed | SweepDone "(unblock_action \<times> applied) list"

text \<open>
  The command: the board, the usage file and how it ended. The cap on clean code failures is not among its arguments; the file
  the slots are cleared in is the one the probe left.
\<close>

definition refreshed :: "unblock_world \<Rightarrow> usage_file" where
  "refreshed w =
     (if list_all (\<lambda>b. cooling (uw_usage w) (uw_now w) b \<noteq> None) (allowed_worker_backends (uw_providers w))
      then (case uw_refresh w (uw_usage w) of None \<Rightarrow> uw_usage w | Some f \<Rightarrow> f) else uw_usage w)"

definition command_env :: "unblock_options \<Rightarrow> unblock_world \<Rightarrow> worker_settings \<Rightarrow> issue list \<Rightarrow> unblock_env" where
  "command_env opts w ws is =
     sweep_env opts w (dispatch_cooldown_reason (uw_show_time w) (uw_refresh w) (uw_providers w) (uw_usage w) (uw_now w)) 0 ws is"

definition unblock_main ::
  "unblock_options \<Rightarrow> unblock_world \<Rightarrow> worker_settings \<Rightarrow> board \<Rightarrow> board \<times> usage_file \<times> sweep_end" where
  "unblock_main opts w ws b =
     (if below_gb (uw_mem_gb w) MEM_SKIP_THRESHOLD_GB then (b, uw_usage w, SweepSkipped)
      else case list_issues b of
             (b1, None) \<Rightarrow> (b1, uw_usage w, SweepFetchFailed)
           | (b1, Some is) \<Rightarrow>
               (let (b2, results) = apply_board_actions (uo_apply opts) b1 (apply_rules (command_env opts w ws is) is);
                    (file, cleared) = clear_orphaned_in_flight (uw_rep w) (board_fetch (uw_fetch_fails w) b2) (uw_free w)
                      (refreshed w) (uw_now w) (uo_apply opts) 24
                in (b2, file, SweepDone results)))"

definition head_candidates :: "string \<Rightarrow> string list \<Rightarrow> string list" where
  "head_candidates task_id ls =
     (let primary = (if has_named ls ''task-kind: goal'' then [''goal''] else [])
            @ (if has_named ls ''task-kind: improve'' then [''improve''] else [])
            @ (if has_named ls ''task-kind: spec-author'' then [''spec-author''] else [])
      in map (\<lambda>p. p @ ''/'' @ take 8 task_id) (primary @ filter (\<lambda>p. p \<notin> set primary) [''goal'', ''improve'', ''test'', ''spec-author'']))"

text \<open>\<open>merged\<close> is the number and time of the merged pull request with a head in the repository of a clone URL, if there is one.\<close>

definition merged_action :: "worker_settings \<Rightarrow> (string \<Rightarrow> string \<Rightarrow> (int \<times> string) option) \<Rightarrow> issue \<Rightarrow> unblock_action option" where
  "merged_action ws merged i =
     (let ls = unblock_labels i; repo = or_empty (named_value ls ''repo:'')
      in if \<not> (in_state i ''in review'' \<or> in_state i ''blocked'') \<or> repo = [] then None
         else case ws_repos ws repo of
                None \<Rightarrow> None
              | Some r \<Rightarrow>
                  (case List.find (\<lambda>h. merged (rs_clone_url r) h \<noteq> None) (head_candidates (is_id i) ls) of
                     None \<Rightarrow> None
                   | Some h \<Rightarrow>
                       (let (number, at_time) = the (merged (rs_clone_url r) h)
                        in Some (action_of i PR_MERGED_RECONCILE STATE_DONE
                             (''PR #'' @ show_int number @ '' ('' @ h @ '') merged at '' @ at_time @ '' - work landed; reconciling to Done'')))))"

definition reconcile_merged_pr_tasks ::
  "worker_settings \<Rightarrow> (string \<Rightarrow> string \<Rightarrow> (int \<times> string) option) \<Rightarrow> issue list \<Rightarrow> unblock_action list" where
  "reconcile_merged_pr_tasks ws merged is = List.map_filter (merged_action ws merged) is"

text \<open>The task asks for no cooldown and clears no slots.\<close>

definition unblock_run_once ::
  "unblock_options \<Rightarrow> int \<Rightarrow> unblock_world \<Rightarrow> worker_settings \<Rightarrow> board \<Rightarrow> board \<times> sweep_end" where
  "unblock_run_once opts cap w ws b =
     (if below_gb (uw_mem_gb w) MEM_SKIP_THRESHOLD_GB then (b, SweepSkipped)
      else if \<not> uw_owner_ok w then (b, SweepNoOwner)
      else case list_issues b of
             (b1, None) \<Rightarrow> (b1, SweepFetchFailed)
           | (b1, Some is) \<Rightarrow>
               (let merged = (if uw_has_gh w then reconcile_merged_pr_tasks ws (uw_merged_pr w) is else []);
                    rules = filter (\<lambda>a. ac_task a \<notin> ac_task ` set merged) (apply_rules (sweep_env opts w None cap ws is) is);
                    (b2, results) = apply_board_actions (uo_apply opts) b1 (merged @ rules)
                in (b2, SweepDone results)))"

section \<open>What the rules propose\<close>

lemma action_fields:
  "ac_task (action_of i r to x) = is_id i" "ac_from (action_of i r to x) = state_text (is_state i)" "ac_to (action_of i r to x) = to"
  "ac_rule (action_of i r to x) = r" "\<not> ac_skipped (action_of i r to x)"
  "ac_task (skip_of i r x) = is_id i" "ac_skipped (skip_of i r x)"
  "ac_task (relabelled i as rs a) = ac_task a" "ac_to (relabelled i as rs a) = ac_to a" "ac_rule (relabelled i as rs a) = ac_rule a"
  "ac_skipped (relabelled i as rs a) = ac_skipped a" "ac_labels (relabelled i as rs a) = unblock_labels i"
  "ac_task (promotion e i r rs x) = is_id i" "ac_skipped (promotion e i r rs x) = (ue_cooldown_skip e \<noteq> None)"
  "ue_cooldown_skip e = None \<Longrightarrow> ac_to (promotion e i r rs x) = STATE_READY"
  "ue_cooldown_skip e = None \<Longrightarrow> ac_rule (promotion e i r rs x) = r"
  by (simp_all add: action_of_def skip_of_def relabelled_def promotion_def)

definition proposals :: "unblock_env \<Rightarrow> issue \<Rightarrow> unblock_action set" where
  "proposals e i =
     set (self_modify_requeue e i) \<union> set (stale_in_review e i) \<union> set (stale_running_requeue e i) \<union> set_option (open_pr_gate_requeue e i)
     \<union> set (goal_backlog_promote e i) \<union> set (clean_blocked_retry e i) \<union> set (backend_capacity_park e i)
     \<union> set (spec_author_backlog_promote e i) \<union> set (spec_campaign_backlog_promote e i)"

lemma proposed: "a \<in> set (issue_actions e i) \<Longrightarrow> exclusive_action e i = Some a \<or> exclusive_action e i = None \<and> a \<in> proposals e i"
  by (auto simp: issue_actions_def proposals_def Let_def split: option.splits if_splits)

lemmas rule_defs = self_modify_requeue_def stale_in_review_def stale_running_requeue_def open_pr_gate_requeue_def
  goal_backlog_promote_def clean_blocked_retry_def backend_capacity_park_def spec_author_backlog_promote_def
  spec_campaign_backlog_promote_def

lemma in_state_unique: "in_state i s \<Longrightarrow> in_state i t \<longleftrightarrow> s = t"
  by (auto simp: in_state_def)

definition proposed_target :: "issue \<Rightarrow> string" where
  "proposed_target i =
     (if in_state i ''blocked'' then (if has_named (unblock_labels i) ''self-modify: approved'' then STATE_READY else ''Backlog'')
      else if in_state i ''in review'' then ''Backlog'' else STATE_READY)"

lemma proposal_targets:
  "a \<in> set (self_modify_requeue e i) \<Longrightarrow> \<not> ac_skipped a \<Longrightarrow> ac_to a = proposed_target i"
  "a \<in> set (stale_in_review e i) \<Longrightarrow> \<not> ac_skipped a \<Longrightarrow> ac_to a = proposed_target i"
  "a \<in> set (stale_running_requeue e i) \<Longrightarrow> \<not> ac_skipped a \<Longrightarrow> ac_to a = proposed_target i"
  "open_pr_gate_requeue e i = Some a \<Longrightarrow> \<not> ac_skipped a \<Longrightarrow> ac_to a = proposed_target i"
  "a \<in> set (goal_backlog_promote e i) \<Longrightarrow> \<not> ac_skipped a \<Longrightarrow> ac_to a = proposed_target i"
  "a \<in> set (clean_blocked_retry e i) \<Longrightarrow> \<not> ac_skipped a \<Longrightarrow> ac_to a = proposed_target i"
  "a \<in> set (backend_capacity_park e i) \<Longrightarrow> \<not> ac_skipped a \<Longrightarrow> ac_to a = proposed_target i"
  "a \<in> set (spec_author_backlog_promote e i) \<Longrightarrow> \<not> ac_skipped a \<Longrightarrow> ac_to a = proposed_target i"
  "a \<in> set (spec_campaign_backlog_promote e i) \<Longrightarrow> \<not> ac_skipped a \<Longrightarrow> ac_to a = proposed_target i"
proof -
  note [simp del] = append_Cons append_Nil
  note simps = proposed_target_def Let_def action_fields never_ran_def in_state_def
  show "a \<in> set (self_modify_requeue e i) \<Longrightarrow> \<not> ac_skipped a \<Longrightarrow> ac_to a = proposed_target i"
    by (auto simp: self_modify_requeue_def simps split: if_splits option.splits)
  show "a \<in> set (stale_in_review e i) \<Longrightarrow> \<not> ac_skipped a \<Longrightarrow> ac_to a = proposed_target i"
    by (auto simp: stale_in_review_def simps split: if_splits)
  show "a \<in> set (stale_running_requeue e i) \<Longrightarrow> \<not> ac_skipped a \<Longrightarrow> ac_to a = proposed_target i"
    by (auto simp: stale_running_requeue_def simps split: if_splits)
  show "open_pr_gate_requeue e i = Some a \<Longrightarrow> \<not> ac_skipped a \<Longrightarrow> ac_to a = proposed_target i"
    by (auto simp: open_pr_gate_requeue_def simps split: if_splits)
  show "a \<in> set (goal_backlog_promote e i) \<Longrightarrow> \<not> ac_skipped a \<Longrightarrow> ac_to a = proposed_target i"
    by (auto simp: goal_backlog_promote_def simps split: if_splits)
  show "a \<in> set (clean_blocked_retry e i) \<Longrightarrow> \<not> ac_skipped a \<Longrightarrow> ac_to a = proposed_target i"
    by (auto simp: clean_blocked_retry_def simps split: if_splits)
  show "a \<in> set (backend_capacity_park e i) \<Longrightarrow> \<not> ac_skipped a \<Longrightarrow> ac_to a = proposed_target i"
    by (auto simp: backend_capacity_park_def simps split: if_splits)
  show "a \<in> set (spec_author_backlog_promote e i) \<Longrightarrow> \<not> ac_skipped a \<Longrightarrow> ac_to a = proposed_target i"
    by (auto simp: spec_author_backlog_promote_def simps split: if_splits)
  show "a \<in> set (spec_campaign_backlog_promote e i) \<Longrightarrow> \<not> ac_skipped a \<Longrightarrow> ac_to a = proposed_target i"
    by (auto simp: spec_campaign_backlog_promote_def simps split: if_splits)
qed

lemma proposal_target: "a \<in> proposals e i \<Longrightarrow> \<not> ac_skipped a \<Longrightarrow> ac_to a = proposed_target i"
  unfolding proposals_def using proposal_targets by (elim UnE) (auto simp: elem_set)

lemma exclusive_fields:
  assumes "exclusive_action e i = Some a"
  shows "\<not> ac_skipped a" "ac_task a = is_id i" "ac_to a \<in> {''Cancelled'', ''Backlog''}"
    "ac_to a = ''Cancelled'' \<longleftrightarrow> dead_remediation e i \<noteq> None"
proof -
  note [simp del] = append_Cons append_Nil
  have d: "\<not> ac_skipped a \<and> ac_task a = is_id i \<and> ac_to a = ''Cancelled''" if "dead_remediation e i = Some a" for a
    using that by (auto simp: dead_remediation_def Let_def action_fields split: if_splits)
  have n: "\<not> ac_skipped a \<and> ac_task a = is_id i \<and> ac_to a = ''Backlog''" if "investigate_deprioritise i = Some a" for a
    using that by (auto simp: investigate_deprioritise_def action_fields split: if_splits)
  have p: "\<not> ac_skipped a \<and> ac_task a = is_id i \<and> ac_to a = ''Backlog''" if "open_pr_gate_park e i = Some a" for a
    using that by (auto simp: open_pr_gate_park_def Let_def action_fields split: if_splits)
  have m: "\<not> ac_skipped a \<and> ac_task a = is_id i \<and> ac_to a = ''Backlog''" if "improve_unblock e i = Some a" for a
    using that by (auto simp: improve_unblock_def Let_def action_fields split: if_splits)
  have "\<not> ac_skipped a \<and> ac_task a = is_id i \<and> (ac_to a = ''Cancelled'' \<and> dead_remediation e i \<noteq> None
      \<or> ac_to a = ''Backlog'' \<and> dead_remediation e i = None)"
    using assms d n p m unfolding exclusive_action_def by (auto split: option.splits)
  then show "\<not> ac_skipped a" "ac_task a = is_id i" "ac_to a \<in> {''Cancelled'', ''Backlog''}"
    "ac_to a = ''Cancelled'' \<longleftrightarrow> dead_remediation e i \<noteq> None"
    by auto
qed

lemma proposal_task: "a \<in> proposals e i \<Longrightarrow> ac_task a = is_id i"
  unfolding proposals_def rule_defs Let_def
  by (elim UnE) (auto simp: action_fields elem_set split: if_splits option.splits)

lemma action_task: "a \<in> set (issue_actions e i) \<Longrightarrow> ac_task a = is_id i"
  using proposed exclusive_fields(2) proposal_task by blast

text \<open>The state a sweep moves an issue to.\<close>

definition sweep_target :: "unblock_env \<Rightarrow> issue \<Rightarrow> string option" where
  "sweep_target e i = (case filter (\<lambda>a. \<not> ac_skipped a) (issue_actions e i) of [] \<Rightarrow> None | a # _ \<Rightarrow> Some (ac_to a))"

lemma effective_agree:
  assumes "a \<in> set (issue_actions e i)" "\<not> ac_skipped a"
  shows "sweep_target e i = Some (ac_to a)"
proof -
  obtain a0 as where f: "filter (\<lambda>a. \<not> ac_skipped a) (issue_actions e i) = a0 # as"
    using assms by (cases "filter (\<lambda>a. \<not> ac_skipped a) (issue_actions e i)") (auto simp: filter_empty_conv)
  then have a0: "a0 \<in> set (issue_actions e i)" "\<not> ac_skipped a0" using filter_eq_ConsD [OF f] by auto
  have "ac_to a0 = ac_to a"
    using proposed [OF assms(1)] proposed [OF a0(1)] proposal_target assms(2) a0(2) by (metis option.distinct(1) option.inject)
  then show ?thesis by (simp add: sweep_target_def f)
qed

lemma target_None: "sweep_target e i = None \<longleftrightarrow> (\<forall>a \<in> set (issue_actions e i). ac_skipped a)"
  by (auto simp: sweep_target_def filter_empty_conv split: list.splits dest: filter_eq_ConsD)

lemma terminal_states:
  assumes "is_terminal (state_text (is_state i))"
  shows "\<not> in_state i ''blocked''" "\<not> in_state i ''backlog''" "\<not> in_state i ''running''" "\<not> in_state i ''in review''"
    "\<not> in_state i ''ready for ai''"
  using assms by (auto simp: is_terminal_def TERMINAL_STATES_def in_state_def)

lemma terminal_untouched:
  assumes "is_terminal (state_text (is_state i))"
  shows "sweep_target e i = None"
proof -
  have "exclusive_action e i = None"
    using assms terminal_states [OF assms]
    by (simp add: exclusive_action_def dead_remediation_def investigate_deprioritise_def open_pr_gate_park_def improve_unblock_def Let_def)
  moreover have "open_pr_gate_requeue e i = None" "self_modify_requeue e i = []" "stale_in_review e i = []" "stale_running_requeue e i = []"
    "goal_backlog_promote e i = []" "clean_blocked_retry e i = []" "backend_capacity_park e i = []"
    "spec_author_backlog_promote e i = []" "spec_campaign_backlog_promote e i = []"
    using terminal_states [OF assms] by (simp_all add: rule_defs Let_def)
  ultimately show ?thesis by (simp add: sweep_target_def issue_actions_def)
qed

section \<open>What the sweep does to the board\<close>

lemma relabel_goes:
  assumes "reliable b"
  shows "\<exists>b'. relabel_call b a = (b', True) \<and> reliable b' \<and> issue_states b' = issue_states b"
  using assms
  by (auto simp: relabel_call_def update_issue_labels_def api_call_def reliable_def Let_def on_issue_def issue_states_def store_label_names_def)

lemma apply_action_states:
  assumes "reliable b"
  shows "\<exists>b' r. apply_action True b a = (b', r) \<and> reliable b'
    \<and> issue_states b' = map (\<lambda>(k, s). (k, if k = ac_task a \<and> \<not> ac_skipped a then StateObj (Some (ac_to a)) else s)) (issue_states b)"
proof (cases "ac_skipped a")
  case True
  then show ?thesis using assms by (simp add: apply_action_def case_prod_unfold)
next
  case False
  obtain b1 where b1: "transition_issue b (ac_task a) (ac_to a) = (b1, True)" "reliable b1" using reliable_calls(1) [OF assms] by blast
  obtain b2 where b2: "relabel_call b1 a = (b2, True)" "reliable b2" "issue_states b2 = issue_states b1" using relabel_goes [OF b1(2)] by blast
  obtain b3 where b3: "comment_issue b2 (ac_task a) (action_comment a) = (b3, True)" "reliable b3" using reliable_calls(2) [OF b2(2)] by blast
  have "issue_states b3 = issue_states b2" using comment_states [of b2] b3(1) by (metis fst_conv)
  then show ?thesis using transition_states [OF b1(1)] b2 b3 False
    by (simp add: apply_action_def and_then_def b1(1) b2(1) b3(1))
qed

definition final_to :: "unblock_action list \<Rightarrow> string \<Rightarrow> string option" where
  "final_to as k = fold (\<lambda>a acc. if ac_task a = k \<and> \<not> ac_skipped a then Some (ac_to a) else acc) as None"

lemma final_to_fold:
  "fold (\<lambda>a acc. if ac_task a = k \<and> \<not> ac_skipped a then Some (ac_to a) else acc) as acc
     = (case final_to as k of Some t \<Rightarrow> Some t | None \<Rightarrow> acc)"
proof (induction as arbitrary: acc)
  case (Cons x xs)
  have "final_to (x # xs) k = (case final_to xs k of Some t \<Rightarrow> Some t
      | None \<Rightarrow> if ac_task x = k \<and> \<not> ac_skipped x then Some (ac_to x) else None)"
    unfolding final_to_def using Cons.IH [of "if ac_task x = k \<and> \<not> ac_skipped x then Some (ac_to x) else None"]
    by (simp add: final_to_def)
  then show ?case using Cons.IH [of "if ac_task x = k \<and> \<not> ac_skipped x then Some (ac_to x) else acc"]
    by (cases "final_to xs k") simp_all
qed (simp add: final_to_def)

lemma final_to_cons:
  "final_to (a # as) k = (case final_to as k of Some t \<Rightarrow> Some t
     | None \<Rightarrow> if ac_task a = k \<and> \<not> ac_skipped a then Some (ac_to a) else None)"
  using final_to_fold [of k as "if ac_task a = k \<and> \<not> ac_skipped a then Some (ac_to a) else None"] by (simp add: final_to_def)

lemma final_to_None: "\<not> (\<exists>a \<in> set as. ac_task a = k \<and> \<not> ac_skipped a) \<Longrightarrow> final_to as k = None"
  by (induction as) (simp_all add: final_to_cons, simp add: final_to_def)

lemma apply_actions_states:
  "reliable b \<Longrightarrow> issue_states (fst (apply_board_actions True b as))
     = map (\<lambda>(k, s). (k, case final_to as k of None \<Rightarrow> s | Some t \<Rightarrow> StateObj (Some t))) (issue_states b)"
proof (induction as arbitrary: b)
  case Nil
  then show ?case by (simp add: final_to_def case_prod_unfold)
next
  case (Cons a as)
  obtain b1 r where b1: "apply_action True b a = (b1, r)" "reliable b1"
    "issue_states b1 = map (\<lambda>(k, s). (k, if k = ac_task a \<and> \<not> ac_skipped a then StateObj (Some (ac_to a)) else s)) (issue_states b)"
    using apply_action_states [OF Cons.prems] by blast
  show ?case using Cons.IH [OF b1(2)]
    by (auto simp: b1(1) b1(3) case_prod_unfold Let_def final_to_cons comp_def split: option.split)
qed

lemma final_to_only:
  assumes "\<And>a. a \<in> set as \<Longrightarrow> ac_task a = k \<Longrightarrow> \<not> ac_skipped a \<Longrightarrow> t = Some (ac_to a)"
    and "t \<noteq> None \<Longrightarrow> \<exists>a \<in> set as. ac_task a = k \<and> \<not> ac_skipped a"
  shows "final_to as k = t"
  using assms
proof (induction as)
  case (Cons a as)
  show ?case
  proof (cases "\<exists>a \<in> set as. ac_task a = k \<and> \<not> ac_skipped a")
    case True
    then have "final_to as k = t" using Cons.IH Cons.prems(1) by (meson list.set_intros(2))
    moreover obtain u where "t = Some u" using True Cons.prems(1) by (meson list.set_intros(2))
    ultimately show ?thesis by (simp add: final_to_cons)
  next
    case False
    have n: "final_to as k = None" by (rule final_to_None [OF False])
    show ?thesis
    proof (cases "ac_task a = k \<and> \<not> ac_skipped a")
      case True
      then have "t = Some (ac_to a)" using Cons.prems(1) [of a] by simp
      then show ?thesis using True n by (simp add: final_to_cons)
    next
      case no: False
      have "t = None"
      proof (rule ccontr)
        assume "t \<noteq> None"
        then obtain x where "x \<in> set (a # as)" "ac_task x = k" "\<not> ac_skipped x" using Cons.prems(2) by blast
        then show False using False no by auto
      qed
      then show ?thesis using no n by (simp add: final_to_cons)
    qed
  qed
qed (cases t, auto simp: final_to_def)

lemma rules_final:
  assumes "distinct (map is_id is)" "i \<in> set is"
  shows "final_to (concat (map (issue_actions e) is)) (is_id i) = sweep_target e i"
proof (rule final_to_only)
  fix a assume a: "a \<in> set (concat (map (issue_actions e) is))" "ac_task a = is_id i" "\<not> ac_skipped a"
  then obtain j where j: "j \<in> set is" "a \<in> set (issue_actions e j)" by auto
  then have "j = i" using action_task [OF j(2)] a(2) assms by (auto simp: distinct_map inj_on_def)
  then show "sweep_target e i = Some (ac_to a)" using effective_agree j(2) a(3) by blast
next
  assume "sweep_target e i \<noteq> None"
  then obtain a where "a \<in> set (issue_actions e i)" "\<not> ac_skipped a" by (auto simp: target_None)
  then show "\<exists>a \<in> set (concat (map (issue_actions e) is)). ac_task a = is_id i \<and> \<not> ac_skipped a"
    using assms(2) action_task by auto
qed

lemma rules_final_other: "k \<notin> is_id ` set is \<Longrightarrow> final_to (concat (map (issue_actions e) is)) k = None"
  by (rule final_to_None) (use action_task in fastforce)

text \<open>Promotions: what must hold for an effective action into Ready for AI.\<close>

lemma ready_from_blocked:
  assumes "a \<in> set (self_modify_requeue e i)" "\<not> ac_skipped a"
  shows "in_state i ''blocked''" "has_named (unblock_labels i) ''self-modify: approved''" "\<not> has_named (unblock_labels i) ''blocked-reason: policy''"
    "\<not> str_contains ''sigkill'' (py_lower (or_empty (named_value (unblock_labels i) ''executor-signal:'')))"
    "ue_cooldown_skip e = None" "\<not> mem_low e"
    "blocker_task_id (unblock_labels i) = None \<or> is_terminal (ue_id_state e (the (blocker_task_id (unblock_labels i))))"
  using assms by (auto simp: self_modify_requeue_def Let_def action_fields split: if_splits option.splits)

lemma ready_from_running:
  assumes "a \<in> set (stale_running_requeue e i)" "\<not> ac_skipped a"
  shows "in_state i ''running''" "older_than e i (td_hours (ue_stale_running_hours e))" "ue_cooldown_skip e = None"
  using assms by (auto simp: stale_running_requeue_def action_fields split: if_splits)

lemma ready_from_backlog:
  assumes "open_pr_gate_requeue e i = Some a \<or> a \<in> set (goal_backlog_promote e i) \<or> a \<in> set (spec_author_backlog_promote e i)
      \<or> a \<in> set (spec_campaign_backlog_promote e i)" "\<not> ac_skipped a"
  shows "in_state i ''backlog''" "ue_cooldown_skip e = None" "\<not> mem_low e"
  using assms
  by (auto simp: open_pr_gate_requeue_def goal_backlog_promote_def spec_author_backlog_promote_def spec_campaign_backlog_promote_def Let_def
      action_fields split: if_splits)

lemma demotions:
  "a \<in> set (stale_in_review e i) \<or> a \<in> set (clean_blocked_retry e i) \<or> a \<in> set (backend_capacity_park e i) \<Longrightarrow> ac_to a = ''Backlog''"
  by (auto simp: stale_in_review_def clean_blocked_retry_def backend_capacity_park_def Let_def action_fields split: if_splits)

lemma target_action:
  "sweep_target e i = Some t \<Longrightarrow> \<exists>a \<in> set (issue_actions e i). \<not> ac_skipped a \<and> ac_to a = t"
  by (auto simp: sweep_target_def split: list.splits dest: filter_eq_ConsD)


text \<open>
  C30: One run of the command with a board that answers and distinct ids moves every issue exactly where \<open>sweep_target\<close> says and
  leaves the others; an issue in a terminal state is never moved, and all rules that fire for an issue agree on its target.
\<close>

theorem sweep_moves_to_targets:
  assumes "reliable b" "distinct (map is_id (bd_issues b))" "\<not> below_gb (uw_mem_gb w) MEM_SKIP_THRESHOLD_GB" "uo_apply opts"
    and "e = command_env opts w ws (bd_issues b)"
  shows "issue_states (fst (unblock_main opts w ws b)) =
      map (\<lambda>i. (is_id i, case sweep_target e i of None \<Rightarrow> is_state i | Some s \<Rightarrow> StateObj (Some s))) (bd_issues b)
    \<and> (\<forall>i. is_terminal (state_text (is_state i)) \<longrightarrow> sweep_target e i = None)
    \<and> (\<forall>i. \<forall>a \<in> set (issue_actions e i). \<not> ac_skipped a \<longrightarrow> ac_task a = is_id i \<and> sweep_target e i = Some (ac_to a))"
proof (intro conjI allI ballI impI)
  obtain b1 where l: "list_issues b = (b1, Some (bd_issues b))" "reliable b1" "bd_issues b1 = bd_issues b"
    using assms(1) by (auto simp: list_issues_def api_call_def reliable_def Let_def)
  have env: "e\<lparr>ue_id_state := build_id_state_map (bd_issues b)\<rparr> = e" by (simp add: assms(5) command_env_def sweep_env_def)
  have "fst (unblock_main opts w ws b) = fst (apply_board_actions True b1 (apply_rules e (bd_issues b)))"
    using assms(3,4) by (simp add: unblock_main_def l(1) Let_def case_prod_unfold assms(5))
  then have "issue_states (fst (unblock_main opts w ws b))
      = map (\<lambda>(k, s). (k, case final_to (concat (map (issue_actions e) (bd_issues b))) k of None \<Rightarrow> s | Some t \<Rightarrow> StateObj (Some t))) (issue_states b)"
    using apply_actions_states [OF l(2), of "apply_rules e (bd_issues b)"] l(3) by (simp add: apply_rules_def env issue_states_def)
  then show "issue_states (fst (unblock_main opts w ws b)) =
      map (\<lambda>i. (is_id i, case sweep_target e i of None \<Rightarrow> is_state i | Some s \<Rightarrow> StateObj (Some s))) (bd_issues b)"
    using rules_final [OF assms(2)] by (simp add: issue_states_def)
qed (use terminal_untouched action_task effective_agree in auto)

definition sample_stuck :: "string \<Rightarrow> string list \<Rightarrow> string \<Rightarrow> issue" where
  "sample_stuck st names text =
     \<lparr>is_id = ''s'', is_name = ''Tidy'', is_description = text, is_state = StateObj (Some st), is_labels = map LabelText names,
      is_priority = None, is_created_at = [], is_updated_at = Iso 0, is_actors = []\<rparr>"

definition sample_stuck_board :: board where
  "sample_stuck_board =
     \<lparr>bd_issues = [sample_stuck ''Running'' [''task-kind: goal'', ''repo: core''] []], bd_comments = [], bd_calls = 0,
      bd_fails = (\<lambda>_. False), bd_new_id = (\<lambda>n. [])\<rparr>"

definition sample_options :: unblock_options where
  "sample_options = \<lparr>uo_apply = True, uo_stale_blocked_hours = 4, uo_stale_running_hours = 2, uo_clean_blocked_min_minutes = 5\<rparr>"

definition sample_unblock_world :: unblock_world where
  "sample_unblock_world =
     \<lparr>uw_now = td_hours 5, uw_mem_gb = Some 16, uw_mem_text = ''16.00'', uw_parse = (\<lambda>_. None), uw_open_prs = (\<lambda>_. Some []),
      uw_show_time = (\<lambda>_. []), uw_refresh = (\<lambda>_. None), uw_providers = [], uw_usage = None, uw_fetch_fails = (\<lambda>_. True),
      uw_free = (\<lambda>_. None), uw_rep = (\<lambda>_. []), uw_merged_pr = (\<lambda>_ _. None), uw_has_gh = False, uw_owner_ok = True\<rparr>"

definition sample_sweep_env :: "(string \<Rightarrow> bool) \<Rightarrow> unblock_env" where
  "sample_sweep_env held =
     \<lparr>ue_now = td_hours 5, ue_stale_blocked_hours = 4, ue_stale_running_hours = 2, ue_clean_blocked_min_minutes = 5, ue_mem_gb = Some 16,
      ue_mem_text = [], ue_cooldown_skip = None, ue_code_failure_retry_cap = 0, ue_blocked_repos = held, ue_id_state = (\<lambda>_. []),
      ue_parse = (\<lambda>_. None)\<rparr>"

theorem sweep_moves_to_targets_witness:
  "issue_states (fst (unblock_main sample_options sample_unblock_world sample_settings sample_stuck_board))
     = [(''s'', StateObj (Some STATE_READY))]"
proof -
  let ?e = "command_env sample_options sample_unblock_world sample_settings (bd_issues sample_stuck_board)"
  have i: "map (sweep_target ?e) (bd_issues sample_stuck_board) = [Some STATE_READY]" by code_simp
  have "reliable sample_stuck_board" "distinct (map is_id (bd_issues sample_stuck_board))"
    by (simp_all add: reliable_def sample_stuck_board_def)
  moreover have "\<not> below_gb (uw_mem_gb sample_unblock_world) MEM_SKIP_THRESHOLD_GB" "uo_apply sample_options"
    by (simp_all add: below_gb_def MEM_SKIP_THRESHOLD_GB_def sample_unblock_world_def sample_options_def)
  ultimately show ?thesis
    using sweep_moves_to_targets [of sample_stuck_board sample_unblock_world sample_options ?e sample_settings] i
    by (simp add: sample_stuck_board_def sample_stuck_def)
qed


section \<open>Settling\<close>

text \<open>How far an issue is from rest: finished, ready, in the backlog, elsewhere.\<close>

definition unrest :: "issue \<Rightarrow> nat" where
  "unrest i =
     (if is_terminal (state_text (is_state i)) then 0 else if in_state i ''ready for ai'' then 1 else if in_state i ''backlog'' then 2 else 3)"

definition unparked :: "unblock_env \<Rightarrow> issue \<Rightarrow> bool" where
  "unparked e i =
     (\<not> has_named (unblock_labels i) ''task-kind: investigate''
      \<and> \<not> (has_named (unblock_labels i) ''task-kind: goal'' \<and> in_blocked_repo e (unblock_labels i)))"

text \<open>A sweep moves \<open>i\<close>; \<open>j\<close> is the issue it leaves, with any labels.\<close>

inductive moved :: "issue \<Rightarrow> issue \<Rightarrow> bool" where
  "unparked e i \<Longrightarrow> sweep_target e i = Some t \<Longrightarrow> is_state j = StateObj (Some t) \<Longrightarrow> moved i j"

inductive_cases movedE: "moved i j"

lemma proposal_state:
  "a \<in> proposals e i \<Longrightarrow> in_state i ''blocked'' \<or> in_state i ''in review'' \<or> in_state i ''running'' \<or> in_state i ''backlog''"
  unfolding proposals_def rule_defs Let_def by (elim UnE) (auto simp: elem_set split: if_splits)

lemma state_words:
  "state_text (StateObj (Some ''Cancelled'')) = ''Cancelled''" "state_text (StateObj (Some ''Backlog'')) = ''Backlog''"
  "state_text (StateObj (Some STATE_READY)) = ''Ready for AI''" "is_terminal ''Cancelled''" "\<not> is_terminal ''Backlog''"
  "\<not> is_terminal ''Ready for AI''" "py_lower ''Backlog'' = ''backlog''" "py_lower ''Ready for AI'' = ''ready for ai''"
  by code_simp+

lemma unrest_target:
  "is_state j = StateObj (Some ''Cancelled'') \<Longrightarrow> unrest j = 0" "is_state j = StateObj (Some ''Backlog'') \<Longrightarrow> unrest j = 2"
  "is_state j = StateObj (Some STATE_READY) \<Longrightarrow> unrest j = 1"
  by (simp_all add: unrest_def in_state_def state_words del: state_text.simps)

lemma moved_rests:
  assumes "moved i j"
  shows "unrest j < unrest i"
proof -
  obtain e t where 1: "unparked e i" "sweep_target e i = Some t" "is_state j = StateObj (Some t)" using assms by (auto elim: movedE)
  obtain a where a: "a \<in> set (issue_actions e i)" "\<not> ac_skipped a" "ac_to a = t" using target_action [OF 1(2)] by blast
  have live: "\<not> is_terminal (state_text (is_state i))" using terminal_untouched 1(2) by fastforce
  show ?thesis
  proof (cases "exclusive_action e i")
    case (Some x)
    then have x: "x = a" using proposed [OF a(1)] by simp
    show ?thesis
    proof (cases "t = ''Cancelled''")
      case True
      then show ?thesis using 1(3) unrest_target(1) live by (simp add: unrest_def)
    next
      case False
      then have d: "dead_remediation e i = None" "t = ''Backlog''" using exclusive_fields(3,4) [OF Some] x a(3) by auto
      have "investigate_deprioritise i = None" "open_pr_gate_park e i = None"
        using 1(1) by (simp_all add: unparked_def investigate_deprioritise_def open_pr_gate_park_def Let_def)
      then have "improve_unblock e i = Some x" using Some d(1) by (simp add: exclusive_action_def)
      then have "in_state i ''blocked''" by (simp add: improve_unblock_def Let_def split: if_splits)
      then show ?thesis using 1(3) d(2) unrest_target(2) live by (simp add: unrest_def in_state_def)
    qed
  next
    case None
    then have p: "a \<in> proposals e i" using proposed [OF a(1)] by simp
    have "unrest j \<le> 2" "in_state i ''backlog'' \<longrightarrow> unrest j = 1"
      using proposal_target [OF p a(2)] a(3) 1(3) unrest_target(2,3) by (auto simp: proposed_target_def in_state_def split: if_splits)
    then show ?thesis using proposal_state [OF p] live by (auto simp: unrest_def in_state_def)
  qed
qed

text \<open>
  C32: Sweeps come to rest: a task that is neither parked behind an open pull request nor of the investigate kind is moved at most
  three times in a row by sweeps, whatever the environment of each sweep and whatever labels change in between; it ends Ready,
  finished, or where no rule applies.
\<close>

theorem sweeps_settle:
  assumes "(moved ^^ n) i j"
  shows "n + unrest j \<le> unrest i \<and> n \<le> 3"
proof -
  have *: "n + unrest j \<le> unrest i" using assms
  proof (induction n arbitrary: j)
    case (Suc n)
    then obtain k where "(moved ^^ n) i k" "moved k j" by auto
    then show ?case using Suc.IH moved_rests by fastforce
  qed simp
  have "unrest i \<le> 3" by (simp add: unrest_def)
  then show ?thesis using * by simp
qed

theorem sweeps_settle_witness:
  "\<exists>j. (moved ^^ 1) (sample_stuck ''Running'' [''task-kind: goal''] []) j \<and> 1 + unrest j \<le> 3"
proof -
  let ?e = "sample_sweep_env (\<lambda>_. False)" and ?i = "sample_stuck ''Running'' [''task-kind: goal''] []"
  have t: "sweep_target ?e ?i = Some STATE_READY" "unparked ?e ?i" "unrest ?i = 3" by code_simp+
  have m: "(moved ^^ 1) ?i (?i\<lparr>is_state := StateObj (Some STATE_READY)\<rparr>)"
    unfolding relpowp_1 by (rule moved.intros [OF t(2,1)]) simp
  show ?thesis using sweeps_settle [OF m] m t(3) by (metis)
qed

section \<open>The gate of the sweep and the gate of the worker\<close>

lemma lower_colon: "to_lower c = CHR '':'' \<longleftrightarrow> c = CHR '':''"
proof
  assume h: "to_lower c = CHR '':''"
  show "c = CHR '':''"
  proof (cases "65 \<le> (of_char c :: nat) \<and> (of_char c :: nat) \<le> 90")
    case True
    then have "(of_char (to_lower c) :: nat) = of_char c + 32" by (simp add: to_lower_def Let_def)
    then show ?thesis using True h by simp
  next
    case False
    then show ?thesis using h by (auto simp: to_lower_def Let_def split: if_splits)
  qed
qed (simp add: to_lower_def)

lemma colon_lower: "CHR '':'' = to_lower c \<longleftrightarrow> c = CHR '':''"
  using lower_colon [of c] by auto

lemma after_colon_prefix:
  "prefix (p @ '':'') (py_lower n) \<Longrightarrow> CHR '':'' \<notin> set p \<Longrightarrow> after_colon n = drop (Suc (length p)) n"
proof (induction p arbitrary: n)
  case Nil
  then show ?case by (cases n) (auto simp: after_colon_def py_lower_def lower_colon colon_lower)
next
  case (Cons x p)
  then obtain c cs where n: "n = c # cs" "to_lower c = x" "prefix (p @ '':'') (py_lower cs)" by (cases n) (auto simp: py_lower_def)
  have "c \<noteq> CHR '':''" using n(2) Cons.prems(2) lower_colon [of c] by auto
  then show ?case using Cons.IH [OF n(3)] Cons.prems(2) n(1) by (simp add: after_colon_def)
qed

lemma values_agree:
  assumes "CHR '':'' \<notin> set (py_lower p)"
  shows "label_value ls p = or_empty (named_value (List.map_filter raw_label_name ls) (p @ '':''))"
proof (induction ls)
  case (Cons l ls)
  have low: "py_lower (p @ '':'') = py_lower p @ '':''" by (simp add: py_lower_def to_lower_def)
  have len: "length (py_lower p) = length p" by (simp add: py_lower_def)
  show ?case
  proof (cases "raw_label_name l")
    case None
    then have "label_name l = []" by (cases l) (auto simp: py_strip_def or_empty_def split: option.splits if_splits)
    then show ?thesis using Cons None by (simp add: py_lower_def List.map_filter_simps)
  next
    case (Some n)
    then have n: "label_name l = n" by (cases l) (auto simp: or_empty_def split: option.splits if_splits)
    show ?thesis
    proof (cases "prefix (py_lower p @ '':'') (py_lower n)")
      case True
      then show ?thesis using after_colon_prefix [OF True assms] n Some low len
        by (simp add: List.map_filter_simps named_value_def or_empty_def)
    next
      case False
      then show ?thesis using Cons n Some low by (simp add: List.map_filter_simps named_value_def)
    qed
  qed
qed (simp add: named_value_def List.map_filter_simps or_empty_def)



section \<open>Departures\<close>

text \<open>A goal of a spec campaign behind an open pull request is parked and promoted in turn.\<close>

lemma parked_campaign_goal_bounces:
  "let e = sample_sweep_env (\<lambda>_. True); ls = [''task-kind: goal'', ''repo: core'', ''source: spec-campaign''];
       i = sample_stuck ''Ready for AI'' ls ''task_phase: implement'';
       j = sample_stuck ''Backlog'' (ls @ [''OPEN_PR_GATE'']) ''task_phase: implement''
   in sweep_target e i = Some ''Backlog'' \<and> rewritten_labels (the (open_pr_gate_park e i)) = ls @ [''OPEN_PR_GATE'']
      \<and> sweep_target e j = Some STATE_READY"
  by code_simp

text \<open>Four hours after a deterministic policy gate blocked it, a goal task is recycled and its policy label removed.\<close>

lemma policy_block_recycled:
  "let e = sample_sweep_env (\<lambda>_. False); i = sample_stuck ''Blocked'' [''task-kind: goal'', ''blocked-reason: policy''] []
   in map ac_rule (issue_actions e i) = [IMPROVE_UNBLOCK] \<and> sweep_target e i = Some ''Backlog''
      \<and> rewritten_labels (hd (issue_actions e i)) = [''task-kind: goal'']"
  by code_simp

text \<open>The maintenance task promotes whatever cooldowns the usage file records.\<close>

lemma task_ignores_cooldowns:
  "unblock_run_once opts cap (w\<lparr>uw_usage := file, uw_providers := raw\<rparr>) ws b = unblock_run_once opts cap w ws b"
proof -
  let ?v = "w\<lparr>uw_usage := file, uw_providers := raw\<rparr>"
  have f: "uw_now ?v = uw_now w" "uw_mem_gb ?v = uw_mem_gb w" "uw_mem_text ?v = uw_mem_text w" "uw_parse ?v = uw_parse w"
    "uw_open_prs ?v = uw_open_prs w" "uw_merged_pr ?v = uw_merged_pr w" "uw_has_gh ?v = uw_has_gh w" "uw_owner_ok ?v = uw_owner_ok w"
    by simp_all
  show ?thesis by (simp only: unblock_run_once_def sweep_env_def f)
qed

text \<open>Low memory does not hold back the promotion of a stale running task.\<close>

lemma stale_running_ignores_memory:
  "sweep_target ((sample_sweep_env (\<lambda>_. False))\<lparr>ue_mem_gb := Some 2\<rparr>) (sample_stuck ''Running'' [] []) = Some STATE_READY"
  by code_simp

end
