(* ===== verification/Queue_Healing.thy ===== *)
theory Queue_Healing
  imports Board_Unblock
begin

text \<open>
  Healing the blocked queue: the rules of \<open>queue_healing/\<close>, the scans of \<open>entrypoints/maintenance/triage_scan.py\<close> and
  \<open>priority_scans.py\<close> that feed and apply them, the per-kind limits of \<open>reconcile_running.py\<close>, the recovery budgets of
  \<open>recovery_policies/\<close> and the parked state of \<open>recovery/\<close> with its task \<open>parked_unpark_task.py\<close>.

  Rational scores stand for floats; \<open>parse\<close> reads an ISO text and the fingerprint of the evidence is a parameter.
\<close>

section \<open>Decisions\<close>

datatype queue_transition = QT_NONE | QT_BLOCKED_TO_BACKLOG | QT_BLOCKED_TO_READY_FOR_AI | QT_STALE_LOCK_CLEANUP | QT_ESCALATE

fun transition_value :: "queue_transition \<Rightarrow> string" where
  "transition_value QT_NONE = ''none''"
| "transition_value QT_BLOCKED_TO_BACKLOG = ''blocked_to_backlog''"
| "transition_value QT_BLOCKED_TO_READY_FOR_AI = ''blocked_to_ready_for_ai''"
| "transition_value QT_STALE_LOCK_CLEANUP = ''stale_lock_cleanup''"
| "transition_value QT_ESCALATE = ''escalate''"

record queue_task =
  qt_task_id :: string
  qt_title :: string
  qt_state :: string
  qt_duplicate_key :: "string option"
  qt_duplicate_exists_in_blocked :: bool
  qt_retry_safe :: bool
  qt_blocked_reason :: "string option"
  qt_blocked_by_backend :: "string option"
  qt_backend_dependency :: "string option"
  qt_retry_lineage_id :: "string option"
  qt_retry_count :: int
  qt_recovery_attempt_count :: int
  qt_updated_at :: "datetime option"
  qt_labels :: "string list"

record queue_decision =
  qd_task_id :: string
  qd_transition :: queue_transition
  qd_reason :: string
  qd_retry_lineage_id :: "string option"
  qd_safe :: bool
  qd_escalate :: bool

record healing_engine =
  he_stale_blocked_seconds :: int
  he_max_retry_count :: int
  he_max_recovery_attempts :: int

definition default_healing_engine :: healing_engine where
  "default_healing_engine = \<lparr>he_stale_blocked_seconds = 3600, he_max_retry_count = 2, he_max_recovery_attempts = 5\<rparr>"

definition queue_is_stale :: "healing_engine \<Rightarrow> queue_task \<Rightarrow> datetime \<Rightarrow> bool" where
  "queue_is_stale en t now =
     (case qt_updated_at t of None \<Rightarrow> False | Some u \<Rightarrow> now - u \<ge> td_seconds (he_stale_blocked_seconds en))"

definition decision_for :: "queue_task \<Rightarrow> queue_transition \<Rightarrow> string \<Rightarrow> queue_decision" where
  "decision_for t tr reason =
     \<lparr>qd_task_id = qt_task_id t, qd_transition = tr, qd_reason = reason, qd_retry_lineage_id = qt_retry_lineage_id t,
      qd_safe = (tr = QT_BLOCKED_TO_READY_FOR_AI \<or> tr = QT_BLOCKED_TO_BACKLOG), qd_escalate = (tr = QT_ESCALATE)\<rparr>"

definition heal_decide :: "healing_engine \<Rightarrow> queue_task \<Rightarrow> bool \<Rightarrow> datetime \<Rightarrow> queue_decision" where
  "heal_decide en t no_consumer now =
     (if py_lower (py_strip (qt_state t)) \<noteq> ''blocked''
      then (decision_for t QT_NONE ''task is not blocked'')\<lparr>qd_retry_lineage_id := None\<rparr>
      else if he_max_recovery_attempts en \<le> qt_recovery_attempt_count t
      then decision_for t QT_ESCALATE ''recovery attempt budget exhausted''
      else if he_max_retry_count en \<le> qt_retry_count t then decision_for t QT_ESCALATE ''retry replay budget exhausted''
      else if qt_duplicate_exists_in_blocked t \<and> no_consumer \<and> qt_retry_safe t
      then decision_for t QT_BLOCKED_TO_READY_FOR_AI ''duplicate suppression deadlock is retry-safe''
      else if queue_is_stale en t now \<and> qt_retry_safe t
      then decision_for t QT_BLOCKED_TO_BACKLOG ''stale blocked task is retry-safe''
      else decision_for t QT_NONE ''no safe queue-healing rule matched'')"

section \<open>From issues to decisions\<close>

definition named_value_any :: "string list \<Rightarrow> string list \<Rightarrow> string option" where
  "named_value_any ls ps = (case List.map_filter (named_value ls) ps of [] \<Rightarrow> None | v # _ \<Rightarrow> Some v)"

definition parse_count :: "string option \<Rightarrow> int" where
  "parse_count raw = (case raw of None \<Rightarrow> 0 | Some s \<Rightarrow> (case label_int s of None \<Rightarrow> 0 | Some n \<Rightarrow> n))"

definition duplicate_key_of :: "issue \<Rightarrow> string option" where
  "duplicate_key_of i = named_value_any (unblock_labels i) [''duplicate:'', ''dedup:'']"

definition queue_task_from_issue :: "(string \<Rightarrow> datetime option) \<Rightarrow> string set \<Rightarrow> issue \<Rightarrow> queue_task \<times> bool" where
  "queue_task_from_issue parse duplicate_keys i =
     (let ls = unblock_labels i; k = duplicate_key_of i
      in (\<lparr>qt_task_id = is_id i, qt_title = is_name i, qt_state = state_text (is_state i), qt_duplicate_key = k,
           qt_duplicate_exists_in_blocked = (k \<noteq> None \<and> the k \<in> duplicate_keys),
           qt_retry_safe = list_ex (\<lambda>l. py_lower l = ''retry_safe'' \<or> py_lower l = ''retry-safe'') ls,
           qt_blocked_reason = named_value ls ''blocked-reason:'', qt_blocked_by_backend = named_value ls ''blocked-by-backend:'',
           qt_backend_dependency = named_value ls ''backend:'',
           qt_retry_lineage_id = named_value_any ls [''retry-lineage:'', ''lineage:''],
           qt_retry_count = parse_count (named_value ls ''retry-count:''),
           qt_recovery_attempt_count = parse_count (named_value ls ''recovery-attempts:''),
           qt_updated_at = parse_updated_at parse i, qt_labels = ls\<rparr>,
          list_ex (\<lambda>l. py_lower l \<in> {''queue_deadlock'', ''queue-deadlock'', ''no_consumer'', ''no-consumer''}) ls))"

definition duplicate_blocked_keys :: "issue list \<Rightarrow> string set" where
  "duplicate_blocked_keys is =
     (let keys = List.map_filter duplicate_key_of (filter (\<lambda>i. in_state i ''blocked'') is)
      in {k \<in> set keys. k \<noteq> [] \<and> 1 < count_list keys k})"

definition healing_of :: "(string \<Rightarrow> datetime option) \<Rightarrow> string set \<Rightarrow> datetime \<Rightarrow> issue \<Rightarrow> (queue_task \<times> queue_decision) option" where
  "healing_of parse keys now i =
     (if \<not> in_state i ''blocked'' then None
      else (let (t, no_consumer) = queue_task_from_issue parse keys i; d = heal_decide default_healing_engine t no_consumer now
            in if qd_transition d \<noteq> QT_NONE \<or> qd_escalate d then Some (t, d) else None))"

definition queue_healing_actions :: "(string \<Rightarrow> datetime option) \<Rightarrow> issue list \<Rightarrow> datetime \<Rightarrow> (queue_task \<times> queue_decision) list" where
  "queue_healing_actions parse is now = List.map_filter (healing_of parse (duplicate_blocked_keys is) now) is"

section \<open>Applying the decisions\<close>

datatype healing_result = HealNone | HealEscalate | HealCommented | HealTransitioned | HealWouldTransition | HealError

definition lineage_text :: "queue_decision \<Rightarrow> string" where
  "lineage_text d = (if truthy_str (qd_retry_lineage_id d) then or_empty (qd_retry_lineage_id d) else ''unknown'')"

definition heal_target :: "queue_decision \<Rightarrow> string" where
  "heal_target d = (if qd_transition d = QT_BLOCKED_TO_READY_FOR_AI then STATE_READY else ''Backlog'')"

definition apply_decision :: "bool \<Rightarrow> board \<Rightarrow> queue_decision \<Rightarrow> board \<times> healing_result" where
  "apply_decision do_apply b d =
     (if qd_transition d = QT_NONE then (b, HealNone)
      else if qd_escalate d
      then (if do_apply
            then (let (b', ok) = comment_issue b (qd_task_id d)
                        (''Queue healing escalation: '' @ qd_reason d @ '' (lineage='' @ lineage_text d @ '').'')
                  in (b', if ok then HealCommented else HealError))
            else (b, HealEscalate))
      else if do_apply \<and> qd_safe d
      then (let (b', ok) = and_then (transition_issue b (qd_task_id d) (heal_target d))
                  (\<lambda>b. comment_issue b (qd_task_id d)
                     (''Queue healing applied: '' @ transition_value (qd_transition d) @ '' because '' @ qd_reason d
                      @ '' (lineage='' @ lineage_text d @ '').''))
            in (b', if ok then HealTransitioned else HealError))
      else (b, HealWouldTransition))"

fun apply_queue_healing_actions :: "bool \<Rightarrow> board \<Rightarrow> (queue_task \<times> queue_decision) list \<Rightarrow> board \<times> healing_result list" where
  "apply_queue_healing_actions do_apply b [] = (b, [])"
| "apply_queue_healing_actions do_apply b ((t, d) # ds) =
     (let (b1, r) = apply_decision do_apply b d; (b2, rs) = apply_queue_healing_actions do_apply b1 ds in (b2, r # rs))"

definition healing_run_once :: "bool \<Rightarrow> (string \<Rightarrow> datetime option) \<Rightarrow> board \<Rightarrow> datetime \<Rightarrow> board \<times> healing_result list option" where
  "healing_run_once do_apply parse b now =
     (case list_issues b of
        (b1, None) \<Rightarrow> (b1, None)
      | (b1, Some is) \<Rightarrow>
          (let (b2, rs) = apply_queue_healing_actions do_apply b1 (queue_healing_actions parse is now) in (b2, Some rs)))"

section \<open>Limits of running tasks by kind\<close>

definition default_ttls :: "string \<rightharpoonup> int" where
  "default_ttls = [''goal'' \<mapsto> 240, ''test'' \<mapsto> 45, ''test_campaign'' \<mapsto> 60, ''improve'' \<mapsto> 90, ''improve_campaign'' \<mapsto> 90]"

record stale_running =
  sr_task_id :: string
  sr_title :: string
  sr_task_kind :: string
  sr_age_minutes :: int
  sr_ttl_minutes :: int

text \<open>\<open>int(seconds / 60)\<close>, towards zero.\<close>

definition minutes_of :: "timedelta \<Rightarrow> int" where
  "minutes_of d = (if d \<ge> 0 then d div td_seconds 60 else - ((- d) div td_seconds 60))"

definition stale_candidate :: "(string \<Rightarrow> datetime option) \<Rightarrow> (string \<rightharpoonup> int) \<Rightarrow> int \<Rightarrow> datetime \<Rightarrow> issue \<Rightarrow> stale_running option" where
  "stale_candidate parse ttls fallback now i =
     (if \<not> in_state i ''running'' then None
      else case parse_updated_at parse i of
             None \<Rightarrow> None
           | Some t \<Rightarrow>
               (let k = label_value (is_labels i) ''task-kind''; kind = (if k = [] then ''goal'' else k);
                    age = minutes_of (now - t);
                    ttl = (case (default_ttls ++ ttls) kind of None \<Rightarrow> fallback | Some n \<Rightarrow> n)
                in if ttl \<le> age
                   then Some \<lparr>sr_task_id = is_id i, sr_title = take 80 (is_name i), sr_task_kind = kind, sr_age_minutes = age, sr_ttl_minutes = ttl\<rparr>
                   else None))"

definition reconcile_stale_running_issues ::
  "(string \<Rightarrow> datetime option) \<Rightarrow> (string \<rightharpoonup> int) \<Rightarrow> int \<Rightarrow> datetime \<Rightarrow> issue list \<Rightarrow> stale_running list" where
  "reconcile_stale_running_issues parse ttls fallback now is = List.map_filter (stale_candidate parse ttls fallback now) is"

section \<open>Priorities and awaited input\<close>

definition retry_boost :: "string list \<Rightarrow> rat" where
  "retry_boost lower_labels =
     (case List.find (\<lambda>l. prefix ''retry-count:'' l) lower_labels of
        None \<Rightarrow> 0
      | Some l \<Rightarrow> (case label_int (after_colon l) of None \<Rightarrow> 0 | Some n \<Rightarrow> if 1 \<le> n then of_int (min n 3) / 10 else 0))"

text \<open>The age runs from the creation, or the last update of an issue without one. The score before rounding to three digits.\<close>

definition scored_at :: "(string \<Rightarrow> datetime option) \<Rightarrow> issue \<Rightarrow> datetime option" where
  "scored_at parse i =
     (if is_created_at i \<noteq> [] then parse (is_created_at i) else case is_updated_at i of Iso t \<Rightarrow> Some t | NotIso s \<Rightarrow> None)"

definition raw_urgency :: "(string \<Rightarrow> datetime option) \<Rightarrow> datetime \<Rightarrow> issue \<Rightarrow> rat" where
  "raw_urgency parse now i =
     (let lower_labels = map (\<lambda>l. py_lower (label_name l)) (is_labels i);
          age = (case scored_at parse i of None \<Rightarrow> 0 | Some t \<Rightarrow> min (6 / 10) (of_int (now - t) / of_int (td_days 30)))
      in min 1 (age + (if ''lifecycle: escalated'' \<in> set lower_labels then 3 / 10 else 0) + retry_boost lower_labels))"

text \<open>\<open>score\<close> is the rounded score.\<close>

definition proposed_priority :: "rat \<Rightarrow> string \<Rightarrow> string" where
  "proposed_priority score cur =
     (if 6 / 10 \<le> score \<and> cur \<in> {''low'', ''none'', ''medium''} then ''high''
      else if score \<le> 2 / 10 \<and> cur \<in> {''high'', ''urgent''} then ''low'' else cur)"

definition current_priority :: "issue \<Rightarrow> string" where
  "current_priority i = py_lower (if truthy_str (is_priority i) then or_empty (is_priority i) else ''none'')"

definition handle_priority_rescore_scan ::
  "(rat \<Rightarrow> rat) \<Rightarrow> (string \<Rightarrow> datetime option) \<Rightarrow> datetime \<Rightarrow> issue list \<Rightarrow> (string \<times> string) list" where
  "handle_priority_rescore_scan round3 parse now is =
     List.map_filter
       (\<lambda>i. let cur = current_priority i; p = proposed_priority (round3 (raw_urgency parse now i)) cur
            in if in_state i ''backlog'' \<and> p \<noteq> cur then Some (is_id i, p) else None) is"

text \<open>Comments of an issue; a comment of the fleet is recognised by its first characters.\<close>

definition operator_comments :: "board \<Rightarrow> string \<Rightarrow> string list" where
  "operator_comments b task_id =
     filter (\<lambda>c. \<not> prefix ''<!-- operations-center'' (py_lower c)) (map snd (filter (\<lambda>(t, _). t = task_id) (bd_comments b)))"

definition handle_awaiting_input_scan :: "(string \<Rightarrow> bool) \<Rightarrow> string \<Rightarrow> board \<Rightarrow> issue list \<Rightarrow> (string \<times> nat) list" where
  "handle_awaiting_input_scan fetch_fails state b is =
     List.map_filter
       (\<lambda>i. if in_state i (py_lower state) \<and> \<not> fetch_fails (is_id i) \<and> operator_comments b (is_id i) \<noteq> []
            then Some (is_id i, length (operator_comments b (is_id i))) else None) is"

fun apply_awaiting :: "board \<Rightarrow> (string \<times> nat) list \<Rightarrow> board" where
  "apply_awaiting b [] = b"
| "apply_awaiting b ((t, n) # as) =
     apply_awaiting (fst (and_then (transition_issue b t STATE_READY)
       (\<lambda>b. comment_issue b t (''Triage scan: '' @ show_nat n @ '' new operator comment(s) - re-promoted to Ready for AI for another executor pass.'')))) as"

section \<open>Budgets\<close>

record recovery_budget =
  rb_max_cycles_before_escalation :: int
  rb_max_equivalent_retries :: int
  rb_max_recovery_attempts :: int

definition default_recovery_budget :: recovery_budget where
  "default_recovery_budget = \<lparr>rb_max_cycles_before_escalation = 3, rb_max_equivalent_retries = 2, rb_max_recovery_attempts = 5\<rparr>"

record budget_tracker =
  bt_budget :: recovery_budget
  bt_cycles :: int
  bt_equivalent_retries :: int
  bt_recovery_attempts :: int

definition new_tracker :: "recovery_budget \<Rightarrow> budget_tracker" where
  "new_tracker rb = \<lparr>bt_budget = rb, bt_cycles = 0, bt_equivalent_retries = 0, bt_recovery_attempts = 0\<rparr>"

record recovery_budget_decision =
  rbd_allowed :: bool
  rbd_reason :: string
  rbd_escalate :: bool

definition budget_verdict :: "bool \<Rightarrow> string \<Rightarrow> string \<Rightarrow> recovery_budget_decision" where
  "budget_verdict exceeded no yes = \<lparr>rbd_allowed = (\<not> exceeded), rbd_reason = (if exceeded then no else yes), rbd_escalate = exceeded\<rparr>"

definition record_cycle :: "budget_tracker \<Rightarrow> bool \<Rightarrow> budget_tracker \<times> recovery_budget_decision" where
  "record_cycle t evidence_changed =
     (let n = (if evidence_changed then 0 else bt_cycles t + 1)
      in (t\<lparr>bt_cycles := n\<rparr>,
          budget_verdict (rb_max_cycles_before_escalation (bt_budget t) < n) ''max unchanged recovery cycles exceeded'' ''cycle budget available''))"

definition record_retry :: "budget_tracker \<Rightarrow> bool \<Rightarrow> budget_tracker \<times> recovery_budget_decision" where
  "record_retry t equivalent =
     (let n = (if equivalent then bt_equivalent_retries t + 1 else 0)
      in (t\<lparr>bt_equivalent_retries := n\<rparr>,
          budget_verdict (rb_max_equivalent_retries (bt_budget t) < n) ''max equivalent retries exceeded'' ''retry budget available''))"

definition record_recovery_attempt :: "budget_tracker \<Rightarrow> budget_tracker \<times> recovery_budget_decision" where
  "record_recovery_attempt t =
     (let n = bt_recovery_attempts t + 1
      in (t\<lparr>bt_recovery_attempts := n\<rparr>,
          budget_verdict (rb_max_recovery_attempts (bt_budget t) < n) ''max recovery attempts exceeded'' ''recovery attempt budget available''))"

section \<open>The parked state\<close>

record parked_state =
  pk_root_cause_signature :: string
  pk_parked_reason :: string
  pk_parked_at :: datetime
  pk_unchanged_cycles :: int
  pk_last_evidence_hash :: "string option"
  pk_unpark_conditions :: "string list"

record parked_decision =
  pd_parked :: bool
  pd_reason :: string
  pd_unchanged_cycles :: int

definition should_unpark :: "parked_state \<Rightarrow> string \<Rightarrow> string list \<Rightarrow> parked_decision" where
  "should_unpark p current_hash triggered =
     (let matched = filter (\<lambda>c. c \<in> set (pk_unpark_conditions p)) (sort (remdups triggered))
      in if Some current_hash \<noteq> pk_last_evidence_hash p
         then \<lparr>pd_parked = False, pd_reason = ''semantic evidence changed'', pd_unchanged_cycles = 0\<rparr>
         else if matched \<noteq> []
         then \<lparr>pd_parked = False, pd_reason = ''unpark condition met: '' @ py_join '','' matched, pd_unchanged_cycles = 0\<rparr>
         else \<lparr>pd_parked = True, pd_reason = ''no unpark condition met'', pd_unchanged_cycles = pk_unchanged_cycles p + 1\<rparr>)"

text \<open>The sidecar file: missing, unreadable, or a state.\<close>

datatype parked_file = NoParkedFile | BadParkedFile | ParkedFile parked_state

datatype parked_end = ParkFailed | NothingParked | ParkFetchFailed | ParkEvaluated parked_decision recovery_budget_decision

definition board_evidence :: "issue list \<Rightarrow> string list" where
  "board_evidence is = map is_id (filter (\<lambda>i. in_state i ''blocked'') is)"

text \<open>\<open>fingerprint\<close> hashes the ids of the blocked issues.\<close>

definition parked_run_once :: "(string list \<Rightarrow> string) \<Rightarrow> board \<Rightarrow> parked_file \<Rightarrow> parked_file \<times> parked_end" where
  "parked_run_once fingerprint b f =
     (case f of
        BadParkedFile \<Rightarrow> (f, ParkFailed)
      | NoParkedFile \<Rightarrow> (f, NothingParked)
      | ParkedFile p \<Rightarrow>
          (case snd (list_issues b) of
             None \<Rightarrow> (f, ParkFetchFailed)
           | Some is \<Rightarrow>
               (let current = fingerprint (board_evidence is); d = should_unpark p current [];
                    budget = snd (record_cycle (new_tracker default_recovery_budget) (Some current \<noteq> pk_last_evidence_hash p))
                in (if pd_parked d
                    then ParkedFile (p\<lparr>pk_unchanged_cycles := pd_unchanged_cycles d, pk_last_evidence_hash := Some current\<rparr>)
                    else NoParkedFile,
                    ParkEvaluated d budget))))"

section \<open>Healing\<close>

lemma decision_fields:
  "qd_task_id (heal_decide en t c now) = qt_task_id t"
  "qd_transition (heal_decide en t c now) \<noteq> QT_STALE_LOCK_CLEANUP"
  "qd_safe (heal_decide en t c now) \<longleftrightarrow> qd_transition (heal_decide en t c now) \<in> {QT_BLOCKED_TO_READY_FOR_AI, QT_BLOCKED_TO_BACKLOG}"
  "qd_escalate (heal_decide en t c now) \<longleftrightarrow> qd_transition (heal_decide en t c now) = QT_ESCALATE"
  by (simp_all add: heal_decide_def decision_for_def)

lemma comment_ok: "reliable b \<Longrightarrow> \<exists>b'. comment_issue b t x = (b', True) \<and> reliable b' \<and> issue_states b' = issue_states b"
  using reliable_calls(2) [of b t x] by (auto simp: issue_states_def)

lemma apply_decision_states:
  assumes "reliable b" "qd_safe d \<longrightarrow> qd_transition d \<noteq> QT_NONE \<and> \<not> qd_escalate d"
  shows "\<exists>b' r. apply_decision True b d = (b', r) \<and> reliable b'
    \<and> issue_states b' = map (\<lambda>(k, s). (k, if k = qd_task_id d \<and> qd_safe d then StateObj (Some (heal_target d)) else s)) (issue_states b)"
proof (cases "qd_safe d")
  case False
  let ?x = "''Queue healing escalation: '' @ qd_reason d @ '' (lineage='' @ lineage_text d @ '').''"
  obtain b1 where b1: "comment_issue b (qd_task_id d) ?x = (b1, True)" "reliable b1" "issue_states b1 = issue_states b"
    using comment_ok [OF assms(1)] by blast
  consider "apply_decision True b d = (b, HealNone)" | "apply_decision True b d = (b1, HealCommented)"
    | "apply_decision True b d = (b, HealWouldTransition)"
    using False by (cases "qd_transition d = QT_NONE"; cases "qd_escalate d")
      (simp_all add: apply_decision_def b1(1) del: append_Cons append_Nil)
  then show ?thesis using False assms(1) b1(2,3) by cases (simp_all add: case_prod_unfold)
next
  case True
  obtain b1 where b1: "transition_issue b (qd_task_id d) (heal_target d) = (b1, True)" "reliable b1" using reliable_calls(1) [OF assms(1)] by blast
  obtain b2 where b2: "comment_issue b1 (qd_task_id d) (''Queue healing applied: '' @ transition_value (qd_transition d) @ '' because ''
      @ qd_reason d @ '' (lineage='' @ lineage_text d @ '').'') = (b2, True)" "reliable b2" "issue_states b2 = issue_states b1"
    using comment_ok [OF b1(2)] by blast
  have "apply_decision True b d = (b2, HealTransitioned)"
    using True assms(2) by (simp add: apply_decision_def and_then_def b1(1) b2(1) del: append_Cons append_Nil)
  then show ?thesis using True b2 transition_states [OF b1(1)] by simp
qed

definition decided_state :: "(queue_task \<times> queue_decision) list \<Rightarrow> string \<Rightarrow> issue_state \<Rightarrow> issue_state" where
  "decided_state ds k s =
     (case map_of (map (\<lambda>(t, d). (qd_task_id d, d)) ds) k of
        None \<Rightarrow> s | Some d \<Rightarrow> if qd_safe d then StateObj (Some (heal_target d)) else s)"

lemma apply_decisions_states:
  assumes "reliable b" "distinct (map (\<lambda>(t, d). qd_task_id d) ds)"
    and "\<forall>(t, d) \<in> set ds. qd_safe d \<longrightarrow> qd_transition d \<noteq> QT_NONE \<and> \<not> qd_escalate d"
  shows "issue_states (fst (apply_queue_healing_actions True b ds)) = map (\<lambda>(k, s). (k, decided_state ds k s)) (issue_states b)"
  using assms
proof (induction ds arbitrary: b)
  case (Cons x ds)
  obtain t d where x: "x = (t, d)" by fastforce
  obtain b1 r where b1: "apply_decision True b d = (b1, r)" "reliable b1"
    "issue_states b1 = map (\<lambda>(k, s). (k, if k = qd_task_id d \<and> qd_safe d then StateObj (Some (heal_target d)) else s)) (issue_states b)"
    using apply_decision_states [OF Cons.prems(1), of d] Cons.prems(3) x by auto
  have "map_of (map (\<lambda>(t, d). (qd_task_id d, d)) ds) (qd_task_id d) = None"
    using Cons.prems(2) by (force simp: x map_of_eq_None_iff case_prod_unfold)
  then have "decided_state ds k (if k = qd_task_id d \<and> qd_safe d then StateObj (Some (heal_target d)) else s) = decided_state (x # ds) k s" for k s
    by (auto simp: decided_state_def x)
  then show ?case using Cons.IH [OF b1(2)] Cons.prems(2,3) by (simp add: x b1(1) b1(3) case_prod_unfold Let_def comp_def)
qed (simp add: decided_state_def case_prod_unfold)

definition heal_decision :: "(string \<Rightarrow> datetime option) \<Rightarrow> issue list \<Rightarrow> datetime \<Rightarrow> issue \<Rightarrow> queue_decision" where
  "heal_decision parse is now i =
     (let (t, no_consumer) = queue_task_from_issue parse (duplicate_blocked_keys is) i in heal_decide default_healing_engine t no_consumer now)"

lemma decision_of_issue:
  "qd_task_id (heal_decision parse is now i) = is_id i"
  by (simp add: heal_decision_def queue_task_from_issue_def Let_def decision_fields(1))

lemma healing_list:
  fixes parse keys now
  assumes "distinct (map is_id js)"
  defines "f \<equiv> healing_of parse keys now"
  shows "distinct (map (\<lambda>(t, d). qd_task_id d) (List.map_filter f js))"
    and "i \<in> set js \<Longrightarrow> map_of (map (\<lambda>(t, d). (qd_task_id d, d)) (List.map_filter f js)) (is_id i) = map_option snd (f i)"
    and "(t, d) \<in> set (List.map_filter f js) \<Longrightarrow> qd_safe d \<longrightarrow> qd_transition d \<noteq> QT_NONE \<and> \<not> qd_escalate d"
proof -
  have k: "qd_task_id (snd td) = is_id j \<and> (qd_safe (snd td) \<longrightarrow> qd_transition (snd td) \<noteq> QT_NONE \<and> \<not> qd_escalate (snd td))"
    if "f j = Some td" for j td
    using that decision_fields [of default_healing_engine]
    by (auto simp: f_def healing_of_def queue_task_from_issue_def Let_def split: if_splits)
  have mem: "x \<in> set (List.map_filter f js) \<longleftrightarrow> (\<exists>j \<in> set js. f j = Some x)" for x js
    by (induction js) (auto simp: List.map_filter_simps split: option.splits)
  show "distinct (map (\<lambda>(t, d). qd_task_id d) (List.map_filter f js))" using assms(1)
  proof (induction js)
    case (Cons j js)
    then have d: "distinct (map (\<lambda>(t, d). qd_task_id d) (List.map_filter f js))" and n: "is_id j \<notin> is_id ` set js" by simp_all
    have "qd_task_id (snd td) \<notin> set (map (\<lambda>(t, d). qd_task_id d) (List.map_filter f js))" if h: "f j = Some td" for td
    proof
      assume "qd_task_id (snd td) \<in> set (map (\<lambda>(t, d). qd_task_id d) (List.map_filter f js))"
      then obtain x where "x \<in> set (List.map_filter f js)" "qd_task_id (snd x) = qd_task_id (snd td)" by auto
      then obtain j' where "j' \<in> set js" "is_id j' = is_id j" using mem k h by metis
      then show False using n by (metis imageI)
    qed
    then show ?case using d by (cases "f j") (auto simp: List.map_filter_simps)
  qed (simp add: List.map_filter_simps)
  show "i \<in> set js \<Longrightarrow> map_of (map (\<lambda>(t, d). (qd_task_id d, d)) (List.map_filter f js)) (is_id i) = map_option snd (f i)" using assms(1)
  proof (induction js)
    case (Cons j js)
    have none: "map_of (map (\<lambda>(t, d). (qd_task_id d, d)) (List.map_filter f js)) (is_id j) = None"
    proof (rule ccontr)
      assume "\<not> ?thesis"
      then obtain x where "x \<in> set (List.map_filter f js)" "qd_task_id (snd x) = is_id j" by (auto simp: map_of_eq_None_iff)
      then obtain j' where "j' \<in> set js" "is_id j' = is_id j" using mem k by metis
      then show False using Cons.prems(2) by (metis distinct.simps(2) image_eqI list.simps(9) set_map)
    qed
    show ?case
    proof (cases "i = j")
      case True
      then show ?thesis using none k [of j] by (cases "f j") (simp_all add: List.map_filter_simps case_prod_unfold)
    next
      case False
      then have "i \<in> set js" "is_id i \<noteq> is_id j" using Cons.prems by (auto, metis imageI)
      then show ?thesis using Cons k [of j] by (cases "f j") (simp_all add: List.map_filter_simps case_prod_unfold)
    qed
  qed simp
  show "(t, d) \<in> set (List.map_filter f js) \<Longrightarrow> qd_safe d \<longrightarrow> qd_transition d \<noteq> QT_NONE \<and> \<not> qd_escalate d"
    using mem k by fastforce
qed


definition sample_heal_board :: board where
  "sample_heal_board =
     \<lparr>bd_issues = [sample_stuck ''Blocked'' [''retry-safe'', ''retry-count: 1''] []], bd_comments = [], bd_calls = 0,
      bd_fails = (\<lambda>_. False), bd_new_id = (\<lambda>n. [])\<rparr>"


text \<open>
  The healer writes no label, whatever calls fail: the counters its budgets are read from never move, so the same task is
  recycled whenever it is blocked again, and an exhausted task gets a comment in every run.
\<close>

lemma on_issue_labels: "(\<And>i. is_labels (f i) = is_labels i) \<Longrightarrow> map is_labels (bd_issues (on_issue t f b)) = map is_labels (bd_issues b)"
  by (simp add: on_issue_def)

lemma call_labels:
  "map is_labels (bd_issues (fst (transition_issue b t st))) = map is_labels (bd_issues b)"
  "map is_labels (bd_issues (fst (comment_issue b t x))) = map is_labels (bd_issues b)"
  "map is_labels (bd_issues (fst (list_issues b))) = map is_labels (bd_issues b)"
  by (simp_all add: transition_issue_def comment_issue_def list_issues_def api_call_def Let_def on_issue_def)

lemma apply_decision_labels: "map is_labels (bd_issues (fst (apply_decision True b d))) = map is_labels (bd_issues b)"
proof -
  have "map is_labels (bd_issues (fst (and_then (transition_issue b t st) (\<lambda>b. comment_issue b t x)))) = map is_labels (bd_issues b)" for t st x
    using call_labels(1) [of b t st] call_labels(2) by (auto simp: and_then_def case_prod_unfold Let_def)
  then show ?thesis by (simp add: apply_decision_def case_prod_unfold Let_def call_labels(2) del: append_Cons append_Nil)
qed

lemma healing_writes_no_label: "map is_labels (bd_issues (fst (healing_run_once True parse b now))) = map is_labels (bd_issues b)"
proof -
  have a: "map is_labels (bd_issues (fst (apply_queue_healing_actions True b ds))) = map is_labels (bd_issues b)" for b ds
  proof (induction ds arbitrary: b)
    case (Cons x ds)
    then show ?case using apply_decision_labels [of b "snd x"] by (cases x) (simp add: case_prod_unfold Let_def)
  qed simp
  obtain b1 r where l: "list_issues b = (b1, r)" by fastforce
  then show ?thesis using call_labels(3) [of b] a by (cases r) (simp_all add: healing_run_once_def case_prod_unfold Let_def)
qed

section \<open>Budgets and the parked state\<close>

text \<open>The cycles of a tracker are the unchanged cycles since the last change.\<close>

fun cycles_of :: "budget_tracker \<Rightarrow> bool list \<Rightarrow> budget_tracker \<times> recovery_budget_decision list" where
  "cycles_of t [] = (t, [])"
| "cycles_of t (c # cs) = (let (t1, d) = record_cycle t c; (t2, ds) = cycles_of t1 cs in (t2, d # ds))"

lemma tracker_counts_unchanged:
  "bt_cycles (fst (cycles_of t (cs @ True # replicate n False))) = int n"
  "rbd_allowed (snd (record_cycle (fst (cycles_of t (cs @ True # replicate n False))) False))
     \<longleftrightarrow> int n + 1 \<le> rb_max_cycles_before_escalation (bt_budget t)"
proof -
  have r: "bt_cycles (fst (cycles_of t (replicate n False))) = bt_cycles t + int n" for t
    by (induction n arbitrary: t) (simp_all add: case_prod_unfold Let_def record_cycle_def)
  have app: "fst (cycles_of t (xs @ ys)) = fst (cycles_of (fst (cycles_of t xs)) ys)" for t xs ys
    by (induction xs arbitrary: t) (simp_all add: case_prod_unfold Let_def)
  have b: "bt_budget (fst (cycles_of t xs)) = bt_budget t" for t xs
    by (induction xs arbitrary: t) (simp_all add: case_prod_unfold Let_def record_cycle_def)
  show c: "bt_cycles (fst (cycles_of t (cs @ True # replicate n False))) = int n"
    by (simp add: app r case_prod_unfold Let_def) (simp add: record_cycle_def Let_def)
  show "rbd_allowed (snd (record_cycle (fst (cycles_of t (cs @ True # replicate n False))) False))
     \<longleftrightarrow> int n + 1 \<le> rb_max_cycles_before_escalation (bt_budget t)"
    using c b [of t "cs @ True # replicate n False"] by (auto simp: record_cycle_def Let_def budget_verdict_def)
qed

text \<open>The task starts every run with a new tracker, so its budget is never exhausted.\<close>

lemma parked_budget_never_exceeded: "parked_run_once fp b f = (f', ParkEvaluated d budget) \<Longrightarrow> rbd_allowed budget"
  by (auto simp: parked_run_once_def Let_def record_cycle_def budget_verdict_def new_tracker_def default_recovery_budget_def
      split: parked_file.splits option.splits)

definition parked_runs :: "(string list \<Rightarrow> string) \<Rightarrow> board list \<Rightarrow> parked_file \<Rightarrow> parked_file" where
  "parked_runs fp bs f = fold (\<lambda>b f. fst (parked_run_once fp b f)) bs f"

lemma unparked_stays: "parked_runs fp bs NoParkedFile = NoParkedFile"
  by (induction bs) (simp_all add: parked_runs_def parked_run_once_def)

text \<open>
  A root cause that was parked with the fingerprint of its evidence stays parked exactly as long as every board read since has
  that fingerprint, and its unchanged cycles count these runs; the first board with another fingerprint unparks it for good.
\<close>

theorem parked_until_evidence_changes:
  assumes "\<forall>b \<in> set bs. \<not> bd_fails b (bd_calls b)" "pk_last_evidence_hash p = Some h"
  shows "parked_runs fp bs (ParkedFile p) =
    (if \<forall>b \<in> set bs. fp (board_evidence (bd_issues b)) = h
     then ParkedFile (p\<lparr>pk_unchanged_cycles := pk_unchanged_cycles p + int (length bs)\<rparr>) else NoParkedFile)"
  using assms
proof (induction bs arbitrary: p)
  case (Cons b bs)
  have l: "snd (list_issues b) = Some (bd_issues b)" using Cons.prems(1) by (simp add: list_issues_def api_call_def Let_def)
  show ?case
  proof (cases "fp (board_evidence (bd_issues b)) = h")
    case True
    let ?q = "p\<lparr>pk_unchanged_cycles := pk_unchanged_cycles p + 1, pk_last_evidence_hash := Some h\<rparr>"
    have q: "?q = p\<lparr>pk_unchanged_cycles := pk_unchanged_cycles p + 1\<rparr>" using Cons.prems(2) by (cases p) simp
    have "fst (parked_run_once fp b (ParkedFile p)) = ParkedFile ?q"
      using True Cons.prems(2) by (simp add: parked_run_once_def l Let_def should_unpark_def)
    then have "parked_runs fp (b # bs) (ParkedFile p) = parked_runs fp bs (ParkedFile ?q)" by (simp add: parked_runs_def)
    then show ?thesis using Cons.IH [of ?q] Cons.prems True unfolding q by simp
  next
    case False
    then have "fst (parked_run_once fp b (ParkedFile p)) = NoParkedFile"
      using Cons.prems(2) by (simp add: parked_run_once_def l Let_def should_unpark_def)
    then have "parked_runs fp (b # bs) (ParkedFile p) = parked_runs fp bs NoParkedFile" by (simp add: parked_runs_def)
    then show ?thesis using False unparked_stays by simp
  qed
qed (simp add: parked_runs_def)

definition sample_parked :: parked_state where
  "sample_parked = \<lparr>pk_root_cause_signature = ''oom'', pk_parked_reason = ''unchanged'', pk_parked_at = 0, pk_unchanged_cycles = 1,
     pk_last_evidence_hash = Some ''s'', pk_unpark_conditions = []\<rparr>"

theorem parked_until_evidence_changes_witness:
  "parked_runs concat [sample_heal_board, sample_heal_board] (ParkedFile sample_parked) = ParkedFile (sample_parked\<lparr>pk_unchanged_cycles := 3\<rparr>)
   \<and> parked_runs concat [sample_heal_board, Board_Claim.sample_board, sample_heal_board] (ParkedFile sample_parked) = NoParkedFile"
proof -
  have e: "concat (board_evidence (bd_issues sample_heal_board)) = ''s''" "concat (board_evidence (bd_issues Board_Claim.sample_board)) = []" by code_simp+
  have "pk_last_evidence_hash sample_parked = Some ''s''" "pk_unchanged_cycles sample_parked = 1" by (simp_all add: sample_parked_def)
  moreover have "\<not> bd_fails sample_heal_board n" "\<not> bd_fails Board_Claim.sample_board n" for n by (simp_all add: sample_heal_board_def sample_board_def)
  ultimately show ?thesis
    using parked_until_evidence_changes [of "[sample_heal_board, sample_heal_board]" sample_parked "''s''" concat]
      parked_until_evidence_changes [of "[sample_heal_board, Board_Claim.sample_board, sample_heal_board]" sample_parked "''s''" concat] e
    by simp
qed

text \<open>A state parked without a fingerprint is unparked by the first run, whatever the board shows.\<close>

lemma parked_without_hash:
  "\<not> bd_fails b (bd_calls b) \<Longrightarrow> pk_last_evidence_hash p = None \<Longrightarrow> fst (parked_run_once fp b (ParkedFile p)) = NoParkedFile"
  by (simp add: parked_run_once_def list_issues_def api_call_def Let_def should_unpark_def)

section \<open>Departures\<close>

text \<open>
  A task that awaits input is promoted again each time, once it has a comment: comments are never marked as read, and the comment of
  the promotion itself counts as one of an operator.
\<close>

lemma promotion_answers_itself:
  "operator_comments (fst (comment_issue b t (''Triage scan: '' @ x))) t = operator_comments b t @ (if bd_fails b (bd_calls b) then [] else [''Triage scan: '' @ x])"
proof -
  have "\<not> prefix ''<!-- operations-center'' (py_lower (''Triage scan: '' @ x))" by (simp add: py_lower_def to_lower_def)
  then show ?thesis by (simp add: comment_issue_def api_call_def Let_def operator_comments_def del: append_Cons append_Nil)
qed

text \<open>Three hours into a goal its own limit has not passed, but the sweep of the board already puts it back to Ready for AI.\<close>

lemma running_limits_disagree:
  "let i = sample_stuck ''Running'' [''task-kind: goal''] []
   in stale_candidate (\<lambda>_. None) Map.empty 240 (td_hours 3) i = None
      \<and> sweep_target ((sample_sweep_env (\<lambda>_. False))\<lparr>ue_now := td_hours 3\<rparr>) i = Some STATE_READY"
  by code_simp

end
