(* ===== verification/Maintenance.thy ===== *)
theory Maintenance
  imports OC_Prelude
begin

text \<open>
  The registry of maintenance tasks (\<open>maintenance/registry.py\<close>): per cycle every enabled task runs whose interval has passed since
  its last run; a task that raises is a failed result and the others still run. The times of the last runs are kept in a file.

  A task acts on a state of any type; \<^const>\<open>None\<close> as its result is an exception. Times are instants; the file's numbers are
  those of the save.
\<close>

datatype maintenance_status = MS_ok | MS_skipped | MS_failed

record 's maintenance_task =
  mt_name :: string
  mt_interval_seconds :: int
  mt_enabled :: bool
  mt_run_once :: "datetime \<Rightarrow> 's \<Rightarrow> 's \<times> maintenance_status option"

text \<open>
  The file: missing, unreadable (an operating-system error or no JSON), no object, an object whose \<open>last_run\<close> is none, or the
  entries with their values, \<^const>\<open>None\<close> for one that is no number.
\<close>

datatype maintenance_file = MF_missing | MF_unreadable | MF_no_object | MF_malformed | MF_runs "(string \<times> datetime option) list"

type_synonym last_runs = "string \<rightharpoonup> datetime"

definition load_state :: "maintenance_file \<Rightarrow> last_runs option" where
  "load_state f =
     (case f of
        MF_malformed \<Rightarrow> None
      | MF_runs kvs \<Rightarrow> Some (map_of (rev (List.map_filter (\<lambda>(k, v). map_option (Pair k) v) kvs)))
      | _ \<Rightarrow> Some Map.empty)"

definition save_state :: "last_runs \<Rightarrow> string list \<Rightarrow> bool \<Rightarrow> maintenance_file \<Rightarrow> maintenance_file" where
  "save_state runs keys writable f =
     (if writable then MF_runs (List.map_filter (\<lambda>k. map_option (\<lambda>t. (k, Some t)) (runs k)) keys) else f)"

definition register_task :: "'s maintenance_task list \<Rightarrow> 's maintenance_task \<Rightarrow> 's maintenance_task list option" where
  "register_task tasks t = (if list_ex (\<lambda>u. mt_name u = mt_name t) tasks then None else Some (tasks @ [t]))"

fun register_many :: "'s maintenance_task list \<Rightarrow> 's maintenance_task list \<Rightarrow> 's maintenance_task list option" where
  "register_many tasks [] = Some tasks"
| "register_many tasks (t # ts) = (case register_task tasks t of None \<Rightarrow> None | Some tasks' \<Rightarrow> register_many tasks' ts)"

definition maintenance_due :: "last_runs \<Rightarrow> 's maintenance_task \<Rightarrow> datetime \<Rightarrow> bool" where
  "maintenance_due runs t now =
     (mt_enabled t \<and> (case runs (mt_name t) of None \<Rightarrow> True | Some l \<Rightarrow> now - l \<ge> td_seconds (mt_interval_seconds t)))"

fun run_due :: "'s maintenance_task list \<Rightarrow> datetime \<Rightarrow> last_runs \<Rightarrow> 's \<Rightarrow> last_runs \<times> 's \<times> (string \<times> maintenance_status) list" where
  "run_due [] now runs s = (runs, s, [])"
| "run_due (t # ts) now runs s =
     (if \<not> maintenance_due runs t now then run_due ts now runs s
      else (let (s1, r) = mt_run_once t now s;
                (runs', s2, rs) = run_due ts now (runs(mt_name t \<mapsto> now)) s1
            in (runs', s2, (mt_name t, case r of None \<Rightarrow> MS_failed | Some st \<Rightarrow> st) # rs)))"

section \<open>A cycle\<close>

lemma due_other: "n \<noteq> mt_name t \<Longrightarrow> maintenance_due (runs(n \<mapsto> now)) t now = maintenance_due runs t now"
  by (simp add: maintenance_due_def)

lemma run_due_facts:
  assumes "distinct (map mt_name ts)"
  shows "map fst (snd (snd (run_due ts now runs s))) = map mt_name (filter (\<lambda>t. maintenance_due runs t now) ts)"
    and "fst (run_due ts now runs s) n = (if n \<in> mt_name ` set (filter (\<lambda>t. maintenance_due runs t now) ts) then Some now else runs n)"
proof -
  have "map fst (snd (snd (run_due ts now runs s))) = map mt_name (filter (\<lambda>t. maintenance_due runs t now) ts)
      \<and> (\<forall>n. fst (run_due ts now runs s) n = (if n \<in> mt_name ` set (filter (\<lambda>t. maintenance_due runs t now) ts) then Some now else runs n))"
    using assms
  proof (induction ts arbitrary: runs s)
    case (Cons t ts)
    show ?case
    proof (cases "maintenance_due runs t now")
      case False
      then show ?thesis using Cons.IH [of runs s] Cons.prems by simp
    next
      case True
      define r' where "r' = runs(mt_name t \<mapsto> now)"
      define s' where "s' = fst (mt_run_once t now s)"
      have due: "filter (\<lambda>u. maintenance_due r' u now) ts = filter (\<lambda>u. maintenance_due runs u now) ts"
        unfolding r'_def using Cons.prems by (intro filter_cong refl due_other) auto
      have run: "fst (run_due (t # ts) now runs s) = fst (run_due ts now r' s')"
        "map fst (snd (snd (run_due (t # ts) now runs s))) = mt_name t # map fst (snd (snd (run_due ts now r' s')))"
        using True by (simp_all add: case_prod_unfold Let_def r'_def s'_def)
      have "r' (mt_name t) = Some now" "\<And>n. n \<noteq> mt_name t \<Longrightarrow> r' n = runs n" by (simp_all add: r'_def)
      then show ?thesis using Cons.IH [of r' s'] Cons.prems True unfolding run due by auto
    qed
  qed simp
  then show "map fst (snd (snd (run_due ts now runs s))) = map mt_name (filter (\<lambda>t. maintenance_due runs t now) ts)"
    "fst (run_due ts now runs s) n = (if n \<in> mt_name ` set (filter (\<lambda>t. maintenance_due runs t now) ts) then Some now else runs n)"
    by auto
qed

lemma register_many_distinct:
  "register_many tasks ts = Some tasks' \<Longrightarrow> distinct (map mt_name tasks) \<Longrightarrow> distinct (map mt_name tasks')"
proof (induction ts arbitrary: tasks)
  case (Cons t ts)
  have r: "register_task tasks t = Some (tasks @ [t])" and n: "mt_name t \<notin> set (map mt_name tasks)"
    using Cons.prems(1) by (auto simp: register_task_def list_ex_iff split: if_splits)
  then have "register_many (tasks @ [t]) ts = Some tasks'" using Cons.prems(1) by simp
  then show ?case using Cons.IH [of "tasks @ [t]"] Cons.prems(2) n by simp
qed simp

section \<open>Cycles and restarts\<close>

text \<open>\<open>runs\<close>, the file, the state, and the log of runs, newest first; a restart reads the file.\<close>

datatype maintenance_event = Cycle datetime | Restart

fun maintenance_step ::
  "'s maintenance_task list \<Rightarrow> maintenance_event \<Rightarrow> last_runs \<times> maintenance_file \<times> 's \<times> (string \<times> datetime) list
   \<Rightarrow> last_runs \<times> maintenance_file \<times> 's \<times> (string \<times> datetime) list" where
  "maintenance_step tasks (Cycle now) (runs, f, s, lg) =
     (let (runs', s', rs) = run_due tasks now runs s
      in (runs', save_state runs' (map mt_name tasks) True f, s', rev (map (\<lambda>r. (fst r, now)) rs) @ lg))"
| "maintenance_step tasks Restart (runs, f, s, lg) = ((case load_state f of None \<Rightarrow> Map.empty | Some m \<Rightarrow> m), f, s, lg)"

definition maintenance_runs where
  "maintenance_runs tasks es st = fold (maintenance_step tasks) es st"

definition spaced :: "'s maintenance_task list \<Rightarrow> string \<times> datetime \<Rightarrow> string \<times> datetime \<Rightarrow> bool" where
  "spaced tasks newer older =
     (fst newer = fst older \<longrightarrow>
       (\<forall>t \<in> set tasks. mt_name t = fst newer \<longrightarrow> snd newer - snd older \<ge> td_seconds (mt_interval_seconds t)))"

definition remembered :: "last_runs \<Rightarrow> (string \<times> datetime) list \<Rightarrow> bool" where
  "remembered runs lg = (\<forall>(n, t) \<in> set lg. \<exists>l. runs n = Some l \<and> t \<le> l)"

lemma saved_runs: "n \<in> set keys \<Longrightarrow> the (load_state (save_state runs keys True f)) n = runs n"
proof -
  assume n: "n \<in> set keys"
  have e: "List.map_filter (\<lambda>(k, v). map_option (Pair k) v) (List.map_filter (\<lambda>k. map_option (\<lambda>t. (k, Some t)) (runs k)) keys)
      = List.map_filter (\<lambda>k. map_option (Pair k) (runs k)) keys"
    by (induction keys) (auto simp: List.map_filter_simps split: option.split)
  have m: "(k, v) \<in> set (List.map_filter (\<lambda>k. map_option (Pair k) (runs k)) keys) \<longleftrightarrow> k \<in> set keys \<and> runs k = Some v" for k v
    by (induction keys) (auto simp: List.map_filter_simps split: option.splits)
  have "map_of (rev (List.map_filter (\<lambda>k. map_option (Pair k) (runs k)) keys)) n = runs n"
  proof (cases "runs n")
    case None
    then show ?thesis using m by (auto simp: map_of_eq_None_iff)
  next
    case (Some v)
    then obtain w where "map_of (rev (List.map_filter (\<lambda>k. map_option (Pair k) (runs k)) keys)) n = Some w"
      using m [of n v] n by (cases "map_of (rev (List.map_filter (\<lambda>k. map_option (Pair k) (runs k)) keys)) n") (force simp: map_of_eq_None_iff)+
    then show ?thesis using m [of n w] Some by (auto dest: map_of_SomeD)
  qed
  then show ?thesis by (simp add: load_state_def save_state_def e)
qed

lemma step_spaced:
  assumes "distinct (map mt_name tasks)" "maintenance_step tasks ev (runs, f, s, lg) = (runs', f', s', lg')"
    and "\<forall>n \<in> mt_name ` set tasks. the (load_state f) n = runs n" "load_state f \<noteq> None" "fst ` set lg \<subseteq> mt_name ` set tasks"
    and "sorted_wrt (spaced tasks) lg" "remembered runs lg" "\<forall>now. ev = Cycle now \<longrightarrow> (\<forall>x \<in> set lg. snd x \<le> now)"
  shows "\<forall>n \<in> mt_name ` set tasks. the (load_state f') n = runs' n" "load_state f' \<noteq> None" "fst ` set lg' \<subseteq> mt_name ` set tasks"
    and "sorted_wrt (spaced tasks) lg'" "remembered runs' lg'"
    and "\<forall>x \<in> set lg'. x \<in> set lg \<or> ev = Cycle (snd x)"
proof -
  have "(\<forall>n \<in> mt_name ` set tasks. the (load_state f') n = runs' n) \<and> load_state f' \<noteq> None \<and> fst ` set lg' \<subseteq> mt_name ` set tasks
      \<and> sorted_wrt (spaced tasks) lg' \<and> remembered runs' lg' \<and> (\<forall>x \<in> set lg'. x \<in> set lg \<or> ev = Cycle (snd x))"
  proof (cases ev)
    case Restart
    then have "runs' = the (load_state f)" "f' = f" "lg' = lg" using assms(2,4) by (auto split: option.splits)
    moreover have "remembered (the (load_state f)) lg"
      unfolding remembered_def
    proof (intro ballI, clarify)
      fix n t assume h: "(n, t) \<in> set lg"
      then have "n \<in> mt_name ` set tasks" using assms(5) by force
      then show "\<exists>l. the (load_state f) n = Some l \<and> t \<le> l" using assms(3,7) h by (fastforce simp: remembered_def)
    qed
    ultimately show ?thesis using assms(4-6) by simp
  next
    case (Cycle now)
    let ?due = "filter (\<lambda>t. maintenance_due runs t now) tasks"
    obtain rs where r: "run_due tasks now runs s = (runs', s', rs)" "lg' = rev (map (\<lambda>r. (fst r, now)) rs) @ lg"
      "f' = save_state runs' (map mt_name tasks) True f"
      using assms(2) Cycle by (auto simp: case_prod_unfold Let_def) (metis prod.collapse)
    have names: "map fst rs = map mt_name ?due" and runs': "\<And>n. runs' n = (if n \<in> mt_name ` set ?due then Some now else runs n)"
      using run_due_facts [OF assms(1), of now runs s] r(1) by simp_all
    have new: "map (\<lambda>r. (fst r, now)) rs = map (\<lambda>t. (mt_name t, now)) ?due"
    proof -
      have "map (\<lambda>r. (fst r, now)) rs = map (\<lambda>n. (n, now)) (map fst rs)" by simp
      then show ?thesis by (simp only: names) simp
    qed
    have dist: "distinct (map mt_name ?due)" using assms(1) by (simp add: distinct_map inj_on_def)
    have far: "spaced tasks (mt_name t, now) (n, u)" if td: "t \<in> set ?due" and nu: "(n, u) \<in> set lg" for t n u
    proof -
      obtain l where "runs n = Some l" "u \<le> l" using assms(7) nu by (auto simp: remembered_def)
      then show ?thesis using td assms(1) by (auto simp: spaced_def maintenance_due_def distinct_map inj_on_def)
    qed
    have "sorted_wrt (spaced tasks) (rev (map (\<lambda>t. (mt_name t, now)) ts))" if "distinct (map mt_name ts)" for ts
      using that by (induction ts) (auto simp: sorted_wrt_append spaced_def image_iff)
    note this [OF dist]
    with assms(6) far have "sorted_wrt (spaced tasks) lg'" by (auto simp: r(2) new sorted_wrt_append)
    moreover have "remembered runs' lg'"
      using assms(7,8) Cycle by (fastforce simp: remembered_def r(2) new runs')
    moreover have "\<forall>n \<in> mt_name ` set tasks. the (load_state f') n = runs' n" "load_state f' \<noteq> None"
      using saved_runs [of _ "map mt_name tasks" runs' f] by (auto simp: r(3)) (simp add: load_state_def save_state_def)
    moreover have "fst ` set lg' \<subseteq> mt_name ` set tasks" "\<forall>x \<in> set lg'. x \<in> set lg \<or> ev = Cycle (snd x)"
      using assms(5) Cycle by (auto simp: r(2) new)
    ultimately show ?thesis by blast
  qed
  then show "\<forall>n \<in> mt_name ` set tasks. the (load_state f') n = runs' n" "load_state f' \<noteq> None" "fst ` set lg' \<subseteq> mt_name ` set tasks"
    "sorted_wrt (spaced tasks) lg'" "remembered runs' lg'" "\<forall>x \<in> set lg'. x \<in> set lg \<or> ev = Cycle (snd x)" by blast+
qed

fun event_times :: "maintenance_event list \<Rightarrow> datetime list" where
  "event_times [] = []"
| "event_times (Cycle now # es) = now # event_times es"
| "event_times (Restart # es) = event_times es"

lemma runs_spaced:
  assumes "distinct (map mt_name tasks)" "maintenance_runs tasks es (runs, f, s, lg) = (runs', f', s', lg')"
    and "\<forall>n \<in> mt_name ` set tasks. the (load_state f) n = runs n" "load_state f \<noteq> None" "fst ` set lg \<subseteq> mt_name ` set tasks"
    and "sorted_wrt (spaced tasks) lg" "remembered runs lg" "sorted (event_times es)"
    and "\<forall>x \<in> set lg. \<forall>now \<in> set (event_times es). snd x \<le> now"
  shows "sorted_wrt (spaced tasks) lg'"
  using assms
proof (induction es arbitrary: runs f s lg)
  case (Cons ev es)
  obtain runs1 f1 s1 lg1 where st: "maintenance_step tasks ev (runs, f, s, lg) = (runs1, f1, s1, lg1)" by (metis prod.collapse)
  have "\<forall>now. ev = Cycle now \<longrightarrow> (\<forall>x \<in> set lg. snd x \<le> now)" using Cons.prems(9) by auto
  note step = step_spaced [OF Cons.prems(1) st Cons.prems(3-7) this]
  have "maintenance_runs tasks es (runs1, f1, s1, lg1) = (runs', f', s', lg')" using Cons.prems(2) st by (simp add: maintenance_runs_def)
  moreover have "sorted (event_times es)" using Cons.prems(8) by (cases ev) simp_all
  moreover have "\<forall>x \<in> set lg1. \<forall>now \<in> set (event_times es). snd x \<le> now"
  proof (intro ballI)
    fix x now assume x: "x \<in> set lg1" and now: "now \<in> set (event_times es)"
    then consider "x \<in> set lg" | "ev = Cycle (snd x)" using step(6) by blast
    then show "snd x \<le> now"
    proof cases
      case 1
      then show ?thesis using Cons.prems(9) now by (cases ev) auto
    next
      case 2
      then show ?thesis using Cons.prems(8) now by simp
    qed
  qed
  ultimately show ?case using Cons.IH Cons.prems(1) step(1-5) by blast
qed (simp add: maintenance_runs_def)

text \<open>
  C35: Whatever the tasks do, over any sequence of cycles in the order of time and restarts of the process with a state file that can
  be written, two runs of a task are at least its interval apart; a cycle runs exactly the enabled tasks that are due, in order,
  also after one of them raised.
\<close>

theorem maintenance_keeps_intervals:
  assumes "register_many [] ts = Some tasks" "load_state f = Some runs" "sorted (event_times es)"
    and "maintenance_runs tasks es (runs, f, s, []) = (runs', f', s', lg)"
  shows "sorted_wrt (spaced tasks) lg
    \<and> map fst (snd (snd (run_due tasks now runs s))) = map mt_name (filter (\<lambda>t. maintenance_due runs t now) tasks)"
proof
  have d: "distinct (map mt_name tasks)" using register_many_distinct [OF assms(1)] by simp
  show "sorted_wrt (spaced tasks) lg"
    by (rule runs_spaced [OF d assms(4)]) (use assms(2,3) in \<open>simp_all add: remembered_def\<close>)
  show "map fst (snd (snd (run_due tasks now runs s))) = map mt_name (filter (\<lambda>t. maintenance_due runs t now) tasks)"
    by (rule run_due_facts(1) [OF d])
qed

definition sample_maintenance :: "nat maintenance_task list" where
  "sample_maintenance =
     [\<lparr>mt_name = ''unblock'', mt_interval_seconds = 600, mt_enabled = True, mt_run_once = (\<lambda>now n. (n, None))\<rparr>,
      \<lparr>mt_name = ''drift'', mt_interval_seconds = 60, mt_enabled = True, mt_run_once = (\<lambda>now n. (n + 1, Some MS_ok))\<rparr>,
      \<lparr>mt_name = ''heal'', mt_interval_seconds = 60, mt_enabled = False, mt_run_once = (\<lambda>now n. (n, None))\<rparr>]"

definition sample_events :: "maintenance_event list" where
  "sample_events = [Cycle 0, Restart, Cycle (td_seconds 60), Cycle (td_seconds 600)]"

theorem maintenance_keeps_intervals_witness:
  "\<exists>runs' f' s' lg. maintenance_runs sample_maintenance sample_events (Map.empty, MF_missing, 0, []) = (runs', f', s', lg)
     \<and> lg = [(''drift'', td_seconds 600), (''unblock'', td_seconds 600), (''drift'', td_seconds 60), (''drift'', 0), (''unblock'', 0)]
     \<and> sorted_wrt (spaced sample_maintenance) lg"
proof -
  obtain runs' f' s' lg where r: "maintenance_runs sample_maintenance sample_events (Map.empty, MF_missing, 0, []) = (runs', f', s', lg)"
    by (metis prod.collapse)
  have "snd (snd (snd (maintenance_runs sample_maintenance sample_events (Map.empty, MF_missing, 0, []))))
      = [(''drift'', td_seconds 600), (''unblock'', td_seconds 600), (''drift'', td_seconds 60), (''drift'', 0), (''unblock'', 0)]"
    by code_simp
  then have l: "lg = [(''drift'', td_seconds 600), (''unblock'', td_seconds 600), (''drift'', td_seconds 60), (''drift'', 0), (''unblock'', 0)]"
    by (simp add: r)
  have "register_many [] sample_maintenance = Some sample_maintenance"
    by (simp add: sample_maintenance_def register_task_def)
  moreover have "load_state MF_missing = Some Map.empty" by (simp add: load_state_def)
  moreover have "sorted (event_times sample_events)" by code_simp
  ultimately have "sorted_wrt (spaced sample_maintenance) lg" using maintenance_keeps_intervals [OF _ _ _ r] by blast
  then show ?thesis using r l by blast
qed

text \<open>A state file whose \<open>last_run\<close> is no object stops the registry from being built, although a bad file should count as empty.\<close>

lemma malformed_state_raises: "load_state MF_malformed = None \<and> load_state MF_unreadable = Some Map.empty"
  by (simp add: load_state_def)

end
