(* ===== verification/Github_Pr.thy ===== *)
theory Github_Pr
  imports Board
begin

text \<open>
  The code host's adapter (\<open>adapters/github_pr.py\<close>): requests with their retries, what the client reads of a pull request,
  its checks, its files and its diff, and the writes the review watcher makes.

  GitHub is a service: \<open>fg_server\<close> answers the request with the running number \<open>fg_calls\<close>, or gives no answer; a theorem
  holds for every server. Every request that is sent is kept in \<open>fg_log\<close>, newest first, with its answer. A body has the
  shape the API documents for the request or is \<open>G_other\<close>, on which reading it raises. Waiting between attempts and the
  log lines are left out. \<^const>\<open>None\<close> as a result of an operation is an exception.
\<close>

section \<open>Requests\<close>

record check_run =
  cr_name :: string
  cr_id :: int
  cr_status :: string
  cr_conclusion :: string
  cr_title :: string

record pull_request =
  pr_number :: int
  pr_title :: string
  pr_draft :: bool
  pr_head_sha :: string
  pr_head_ref :: string
  pr_base_ref :: string
  pr_labels :: "label list"
  pr_mergeable :: "bool option"

record protection =
  bp_contexts :: "string list"
  bp_checks :: "string list"
  bp_enforce_admins :: bool

datatype gh_query =
  GetPr int | GetDiff int | GetFiles int | GetCheckRuns string | GetProtection string | GetComments int | GetOpenPrs
| PutMerge int string | PatchClosed int | DeleteRef string | PostIssueComment int string | PatchComment int string
| PostStatus string string string

datatype gh_body =
  G_pr pull_request | G_prs "pull_request list" | G_checks "check_run list" | G_files "string list" | G_text string
| G_protection protection | G_comments "(int \<times> string) list" | G_id "int option" | G_other

record gh_response =
  gr_status :: nat
  gr_body :: gh_body

type_synonym gh_call = "gh_query \<times> gh_response option"

record forge =
  fg_calls :: nat
  fg_server :: "nat \<Rightarrow> gh_query \<Rightarrow> gh_response option"
  fg_log :: "gh_call list"

definition gh_exchange :: "forge \<Rightarrow> gh_query \<Rightarrow> forge \<times> gh_response option" where
  "gh_exchange f q =
     (let a = fg_server f (fg_calls f) q in (f\<lparr>fg_calls := fg_calls f + 1, fg_log := (q, a) # fg_log f\<rparr>, a))"

definition GH_RATE_LIMIT_MAX_RETRIES :: nat where "GH_RATE_LIMIT_MAX_RETRIES = 3"

text \<open>\<open>_request\<close>, with \<open>n\<close> attempts left after this one; no answer is an exception at once.\<close>

fun gh_retry :: "nat \<Rightarrow> forge \<Rightarrow> gh_query \<Rightarrow> forge \<times> gh_response option" where
  "gh_retry n f q =
     (let (f', a) = gh_exchange f q
      in case a of
           None \<Rightarrow> (f', None)
         | Some r \<Rightarrow> if gr_status r \<noteq> 429 then (f', Some r) else (case n of 0 \<Rightarrow> (f', Some r) | Suc k \<Rightarrow> gh_retry k f' q))"

declare gh_retry.simps [simp del]

definition gh_request :: "forge \<Rightarrow> gh_query \<Rightarrow> forge \<times> gh_response option" where
  "gh_request f q = gh_retry GH_RATE_LIMIT_MAX_RETRIES f q"

text \<open>A request followed by \<open>raise_for_status\<close>; the result is the body.\<close>

definition gh_ok :: "gh_response option \<Rightarrow> bool" where
  "gh_ok a = (case a of None \<Rightarrow> False | Some r \<Rightarrow> 200 \<le> gr_status r \<and> gr_status r < 300)"

definition gh_checked :: "forge \<Rightarrow> gh_query \<Rightarrow> forge \<times> gh_body option" where
  "gh_checked f q = (let (f', a) = gh_request f q in (f', if gh_ok a then Some (gr_body (the a)) else None))"

section \<open>Reading\<close>

fun body_pr :: "gh_body \<Rightarrow> pull_request option" where
  "body_pr (G_pr p) = Some p" | "body_pr _ = None"

fun body_prs :: "gh_body \<Rightarrow> pull_request list option" where
  "body_prs (G_prs ps) = Some ps" | "body_prs _ = None"

fun body_checks :: "gh_body \<Rightarrow> check_run list option" where
  "body_checks (G_checks cs) = Some cs" | "body_checks _ = None"

fun body_files :: "gh_body \<Rightarrow> string list option" where
  "body_files (G_files fs) = Some fs" | "body_files _ = None"

fun body_comments :: "gh_body \<Rightarrow> (int \<times> string) list option" where
  "body_comments (G_comments cs) = Some cs" | "body_comments _ = None"

definition gh_get_pr :: "forge \<Rightarrow> int \<Rightarrow> forge \<times> pull_request option" where
  "gh_get_pr f n = (let (f', b) = gh_checked f (GetPr n) in (f', Option.bind b body_pr))"

definition gh_list_open_prs :: "forge \<Rightarrow> forge \<times> pull_request list option" where
  "gh_list_open_prs f = (let (f', b) = gh_checked f GetOpenPrs in (f', Option.bind b body_prs))"

definition gh_list_pr_comments :: "forge \<Rightarrow> int \<Rightarrow> forge \<times> (int \<times> string) list option" where
  "gh_list_pr_comments f n = (let (f', b) = gh_checked f (GetComments n) in (f', Option.bind b body_comments))"

text \<open>A missing branch or protection is a value, any other failure an exception.\<close>

definition gh_get_branch_protection :: "forge \<Rightarrow> string \<Rightarrow> forge \<times> protection option option" where
  "gh_get_branch_protection f branch =
     (let (f', a) = gh_request f (GetProtection branch)
      in (f', case a of
                None \<Rightarrow> None
              | Some r \<Rightarrow> if gr_status r = 404 then Some None
                          else if gh_ok a then (case gr_body r of G_protection p \<Rightarrow> Some (Some p) | _ \<Rightarrow> None) else None))"

definition gh_get_mergeable :: "forge \<Rightarrow> int \<Rightarrow> forge \<times> bool option" where
  "gh_get_mergeable f n = (let (f', p) = gh_get_pr f n in (f', Option.bind p pr_mergeable))"

definition gh_list_pr_files :: "forge \<Rightarrow> int \<Rightarrow> forge \<times> string list" where
  "gh_list_pr_files f n =
     (let (f', b) = gh_checked f (GetFiles n) in (f', case Option.bind b body_files of None \<Rightarrow> [] | Some fs \<Rightarrow> fs))"

definition too_large_head :: string where "too_large_head = ''[DIFF_TOO_LARGE''"

text \<open>\<open>summary\<close> is the text of the file list that stands for a diff the host refuses with 406. The diff itself is asked for once, without retries.\<close>

definition gh_pr_diff :: "(string list \<Rightarrow> string) \<Rightarrow> forge \<Rightarrow> int \<Rightarrow> forge \<times> string" where
  "gh_pr_diff summary f n =
     (let (f', a) = gh_exchange f (GetDiff n)
      in case a of
           None \<Rightarrow> (f', [])
         | Some r \<Rightarrow>
             if gr_status r = 406
             then (let (f'', b) = gh_checked f' (GetFiles n)
                   in (f'', case Option.bind b body_files of None \<Rightarrow> [] | Some fs \<Rightarrow> too_large_head @ summary fs))
             else if gh_ok a then (f', case gr_body r of G_text t \<Rightarrow> t | _ \<Rightarrow> []) else (f', []))"

section \<open>Checks\<close>

text \<open>The newest run of each name, in the order of the names' first appearance; runs without a positive id do not count.\<close>

definition note_run :: "check_run \<Rightarrow> (string \<times> check_run) list \<Rightarrow> (string \<times> check_run) list" where
  "note_run c latest =
     (if (case map_of latest (cr_name c) of None \<Rightarrow> 0 | Some d \<Rightarrow> cr_id d) < cr_id c
      then (if map_of latest (cr_name c) = None then latest @ [(cr_name c, c)]
            else map (\<lambda>(k, d). (k, if k = cr_name c then c else d)) latest)
      else latest)"

definition latest_runs :: "check_run list \<Rightarrow> check_run list" where
  "latest_runs cs = map snd (fold note_run cs [])"

definition ignored_run :: "string list \<Rightarrow> check_run \<Rightarrow> bool" where
  "ignored_run ignored c = list_ex (\<lambda>pat. str_contains (py_lower pat) (py_lower (cr_name c))) ignored"

definition failed_run :: "check_run \<Rightarrow> bool" where
  "failed_run c = (cr_conclusion c \<in> {''failure'', ''timed_out'', ''cancelled''})"

definition failed_name :: "check_run \<Rightarrow> string" where
  "failed_name c = cr_name c @ '': '' @ (if cr_title c \<noteq> [] then cr_title c else cr_conclusion c)"

text \<open>The runs of the head, empty when they cannot be read.\<close>

definition runs_of_head :: "forge \<Rightarrow> pull_request \<Rightarrow> string list \<Rightarrow> forge \<times> check_run list" where
  "runs_of_head f p ignored =
     (if pr_head_sha p = [] then (f, [])
      else let (f', b) = gh_checked f (GetCheckRuns (pr_head_sha p))
           in (f', case Option.bind b body_checks of None \<Rightarrow> [] | Some cs \<Rightarrow> filter (\<lambda>c. \<not> ignored_run ignored c) (latest_runs cs)))"

definition gh_get_failed_checks :: "forge \<Rightarrow> pull_request \<Rightarrow> string list \<Rightarrow> forge \<times> string list" where
  "gh_get_failed_checks f p ignored = (let (f', cs) = runs_of_head f p ignored in (f', map failed_name (filter failed_run cs)))"

definition gh_get_incomplete_checks :: "forge \<Rightarrow> pull_request \<Rightarrow> string list \<Rightarrow> forge \<times> string list" where
  "gh_get_incomplete_checks f p ignored =
     (let (f', cs) = runs_of_head f p ignored in (f', map cr_name (filter (\<lambda>c. cr_status c \<noteq> ''completed'') cs)))"

definition gh_get_completed_checks :: "forge \<Rightarrow> pull_request \<Rightarrow> string list \<Rightarrow> forge \<times> string list" where
  "gh_get_completed_checks f p ignored =
     (let (f', cs) = runs_of_head f p ignored in (f', map cr_name (filter (\<lambda>c. cr_status c = ''completed'') cs)))"

section \<open>Writing\<close>

definition gh_merge_pr :: "forge \<Rightarrow> int \<Rightarrow> string \<Rightarrow> forge \<times> bool" where
  "gh_merge_pr f n meth = (let (f', b) = gh_checked f (PutMerge n meth) in (f', b \<noteq> None))"

definition gh_close_pr :: "forge \<Rightarrow> int \<Rightarrow> forge \<times> bool" where
  "gh_close_pr f n = (let (f', b) = gh_checked f (PatchClosed n) in (f', b \<noteq> None))"

definition gh_delete_branch :: "forge \<Rightarrow> string \<Rightarrow> forge \<times> bool" where
  "gh_delete_branch f branch = (let (f', b) = gh_checked f (DeleteRef branch) in (f', b \<noteq> None))"

text \<open>The result is the id of the new comment, if the answer has one.\<close>

definition gh_post_comment :: "forge \<Rightarrow> int \<Rightarrow> string \<Rightarrow> forge \<times> int option option" where
  "gh_post_comment f n text =
     (let (f', b) = gh_checked f (PostIssueComment n text) in (f', map_option (\<lambda>b. case b of G_id i \<Rightarrow> i | _ \<Rightarrow> None) b))"

definition gh_update_comment :: "forge \<Rightarrow> int \<Rightarrow> string \<Rightarrow> forge \<times> bool" where
  "gh_update_comment f c text = (let (f', b) = gh_checked f (PatchComment c text) in (f', b \<noteq> None))"

definition gh_set_commit_status :: "forge \<Rightarrow> string \<Rightarrow> string \<Rightarrow> string \<Rightarrow> forge \<times> bool" where
  "gh_set_commit_status f sha st description =
     (let (f', b) = gh_checked f (PostStatus sha st (take 140 description)) in (f', b \<noteq> None))"

section \<open>What a call sends\<close>

text \<open>\<open>f'\<close> comes after \<open>f\<close>, and every exchange made in between satisfies \<open>Q\<close>.\<close>

definition adds :: "(gh_call \<Rightarrow> bool) \<Rightarrow> forge \<Rightarrow> forge \<Rightarrow> bool" where
  "adds Q f f' \<longleftrightarrow> fg_server f' = fg_server f \<and> (\<exists>l. fg_log f' = l @ fg_log f \<and> fg_calls f' = fg_calls f + length l \<and> (\<forall>x \<in> set l. Q x))"

definition sends :: "(gh_query \<Rightarrow> bool) \<Rightarrow> forge \<Rightarrow> forge \<Rightarrow> bool" where
  "sends P f f' \<longleftrightarrow> adds (\<lambda>x. P (fst x)) f f'"

lemma adds_refl [simp, intro!]: "adds Q f f" by (simp add: adds_def)

lemma adds_trans [trans]: "adds Q f g \<Longrightarrow> adds Q g h \<Longrightarrow> adds Q f h"
  unfolding adds_def
proof (elim conjE exE)
  fix l m
  assume a: "fg_server g = fg_server f" "fg_server h = fg_server g" "fg_log g = l @ fg_log f" "fg_calls g = fg_calls f + length l"
    "\<forall>x \<in> set l. Q x" "fg_log h = m @ fg_log g" "fg_calls h = fg_calls g + length m" "\<forall>x \<in> set m. Q x"
  show "fg_server h = fg_server f \<and> (\<exists>l. fg_log h = l @ fg_log f \<and> fg_calls h = fg_calls f + length l \<and> (\<forall>x \<in> set l. Q x))"
    by (intro conjI exI [of _ "m @ l"]) (use a in auto)
qed

lemma adds_mono: "adds P f g \<Longrightarrow> (\<And>x. P x \<Longrightarrow> Q x) \<Longrightarrow> adds Q f g"
  unfolding adds_def by blast

lemma sends_refl [simp, intro!]: "sends P f f" by (simp add: sends_def)

lemma sends_trans [trans]: "sends P f g \<Longrightarrow> sends P g h \<Longrightarrow> sends P f h" unfolding sends_def by (rule adds_trans)

lemma sends_mono: "sends P f g \<Longrightarrow> (\<And>q. P q \<Longrightarrow> Q q) \<Longrightarrow> sends Q f g"
  unfolding sends_def by (rule adds_mono)

lemma adds_exchange: "Q (q, fg_server f (fg_calls f) q) \<Longrightarrow> adds Q f (fst (gh_exchange f q))"
  by (auto simp: adds_def gh_exchange_def Let_def)

lemma adds_retry: "(\<And>a. Q (q, a)) \<Longrightarrow> adds Q f (fst (gh_retry n f q))"
proof (induction n arbitrary: f)
  case 0
  then show ?case by (subst gh_retry.simps) (simp add: adds_exchange case_prod_unfold Let_def split: option.splits)
next
  case (Suc n)
  have "adds Q (fst (gh_exchange f q)) (fst (gh_retry n (fst (gh_exchange f q)) q))" by (rule Suc.IH [OF Suc.prems])
  moreover have "adds Q f (fst (gh_exchange f q))" by (rule adds_exchange) (rule Suc.prems)
  ultimately show ?case by (subst gh_retry.simps) (auto simp: case_prod_unfold Let_def split: option.splits intro: adds_trans)
qed

lemma sends_request: "P q \<Longrightarrow> sends P f (fst (gh_request f q))" by (simp add: sends_def gh_request_def adds_retry)

lemma sends_checked: "P q \<Longrightarrow> sends P f (fst (gh_checked f q))" by (simp add: gh_checked_def case_prod_unfold Let_def sends_request)

lemma retry_answered: "(q, snd (gh_retry n f q)) \<in> set (fg_log (fst (gh_retry n f q)))"
proof (induction n arbitrary: f)
  case 0
  show ?case by (simp add: gh_retry.simps [of 0] gh_exchange_def case_prod_unfold Let_def split: option.splits)
next
  case (Suc n)
  show ?case using Suc.IH [of "fst (gh_exchange f q)"]
    by (cases "fg_server f (fg_calls f) q") (auto simp: gh_retry.simps [of "Suc n"] gh_exchange_def case_prod_unfold Let_def)
qed

text \<open>The operations send only requests of their own kind.\<close>

lemma sends_reads [simp]:
  "P (GetPr n) \<Longrightarrow> sends P f (fst (gh_get_pr f n))"
  "P (GetPr n) \<Longrightarrow> sends P f (fst (gh_get_mergeable f n))"
  "P (GetFiles n) \<Longrightarrow> sends P f (fst (gh_list_pr_files f n))"
  "P (GetComments n) \<Longrightarrow> sends P f (fst (gh_list_pr_comments f n))"
  "P (GetProtection s) \<Longrightarrow> sends P f (fst (gh_get_branch_protection f s))"
  "P (GetCheckRuns (pr_head_sha p)) \<Longrightarrow> sends P f (fst (runs_of_head f p ignored))"
  by (simp_all add: gh_get_pr_def gh_get_mergeable_def gh_list_pr_files_def gh_list_pr_comments_def gh_get_branch_protection_def
      runs_of_head_def case_prod_unfold Let_def sends_checked sends_request)

lemma sends_checks [simp]:
  assumes "P (GetCheckRuns (pr_head_sha p))"
  shows "sends P f (fst (gh_get_failed_checks f p ignored))" "sends P f (fst (gh_get_incomplete_checks f p ignored))"
    "sends P f (fst (gh_get_completed_checks f p ignored))"
  using assms by (simp_all add: gh_get_failed_checks_def gh_get_incomplete_checks_def gh_get_completed_checks_def case_prod_unfold Let_def)

lemma sends_diff [simp]:
  assumes "P (GetDiff n)" "P (GetFiles n)"
  shows "sends P f (fst (gh_pr_diff summary f n))"
proof -
  have "sends P f (fst (gh_exchange f (GetDiff n)))" using assms(1) by (simp add: sends_def adds_exchange)
  moreover have "sends P g (fst (gh_checked g (GetFiles n)))" for g using assms(2) by (rule sends_checked)
  ultimately show ?thesis
    by (auto simp: gh_pr_diff_def case_prod_unfold Let_def split: option.splits intro: sends_trans)
qed

lemma sends_writes [simp]:
  "P (PutMerge n m) \<Longrightarrow> sends P f (fst (gh_merge_pr f n m))"
  "P (PatchClosed n) \<Longrightarrow> sends P f (fst (gh_close_pr f n))"
  "P (DeleteRef s) \<Longrightarrow> sends P f (fst (gh_delete_branch f s))"
  "P (PostIssueComment n t) \<Longrightarrow> sends P f (fst (gh_post_comment f n t))"
  "P (PatchComment n t) \<Longrightarrow> sends P f (fst (gh_update_comment f n t))"
  "P (PostStatus sha st (take 140 d)) \<Longrightarrow> sends P f (fst (gh_set_commit_status f sha st d))"
  by (simp_all add: gh_merge_pr_def gh_close_pr_def gh_delete_branch_def gh_post_comment_def gh_update_comment_def
      gh_set_commit_status_def case_prod_unfold Let_def sends_checked)

section \<open>Laws of the checks\<close>

text \<open>The runs kept so far: one per name, the newest of those seen with a positive id.\<close>

definition newest_of :: "(string \<times> check_run) list \<Rightarrow> check_run set \<Rightarrow> bool" where
  "newest_of latest seen \<longleftrightarrow> distinct (map fst latest)
     \<and> (\<forall>k d. (k, d) \<in> set latest \<longrightarrow> cr_name d = k \<and> 0 < cr_id d \<and> d \<in> seen)
     \<and> (\<forall>c \<in> seen. 0 < cr_id c \<longrightarrow> (\<exists>d. (cr_name c, d) \<in> set latest \<and> cr_id c \<le> cr_id d))"

lemma newest_of_step:
  assumes "newest_of latest seen"
  shows "newest_of (note_run c latest) (insert c seen)"
proof (cases "map_of latest (cr_name c)")
  case None
  then have "cr_name c \<notin> fst ` set latest" by (simp add: map_of_eq_None_iff)
  then show ?thesis using assms None by (auto simp: note_run_def newest_of_def)
next
  case (Some d)
  then have m: "(cr_name c, d) \<in> set latest" by (rule map_of_SomeD)
  then have u: "\<And>e. (cr_name c, e) \<in> set latest \<Longrightarrow> e = d" using assms by (metis newest_of_def eq_key_imp_eq_value)
  have pos: "0 < cr_id d" using assms m by (simp add: newest_of_def)
  show ?thesis
  proof (cases "cr_id d < cr_id c")
    case True
    let ?new = "map (\<lambda>(k, e). (k, if k = cr_name c then c else e)) latest"
    have mem: "(k, e) \<in> set ?new \<longleftrightarrow> (if k = cr_name c then e = c else (k, e) \<in> set latest)" for k e using m by force
    have fsts: "map fst ?new = map fst latest" by (simp add: case_prod_unfold)
    have dom: "\<exists>e. (cr_name x, e) \<in> set ?new \<and> cr_id x \<le> cr_id e" if x: "x \<in> insert c seen" "0 < cr_id x" for x
    proof (cases "cr_name x = cr_name c")
      case same: True
      then have "cr_id x \<le> cr_id c" using x u assms True by (fastforce simp: newest_of_def)
      then show ?thesis using same mem by auto
    next
      case False
      then show ?thesis using x assms mem by (auto simp: newest_of_def)
    qed
    have "newest_of ?new (insert c seen)"
      unfolding newest_of_def fsts using assms True pos dom by (auto simp: newest_of_def mem simp del: set_map split: if_splits)
    then show ?thesis using Some True by (simp add: note_run_def)
  next
    case False
    then show ?thesis using assms Some m by (auto simp: note_run_def newest_of_def)
  qed
qed

lemma newest_of_fold: "newest_of latest seen \<Longrightarrow> newest_of (fold note_run cs latest) (seen \<union> set cs)"
proof (induction cs arbitrary: latest seen)
  case (Cons c cs)
  then show ?case using Cons.IH [OF newest_of_step [OF Cons.prems]] by simp
qed simp

lemma latest_run_newest:
  assumes "d \<in> set (latest_runs cs)"
  shows "d \<in> set cs \<and> 0 < cr_id d \<and> (\<forall>c \<in> set cs. cr_name c = cr_name d \<longrightarrow> cr_id c \<le> cr_id d)"
proof -
  have n: "newest_of (fold note_run cs []) (set cs)" using newest_of_fold [of "[]" "{}" cs] by (simp add: newest_of_def)
  obtain k where m: "(k, d) \<in> set (fold note_run cs [])" using assms by (auto simp: latest_runs_def)
  then have k: "cr_name d = k" "0 < cr_id d" "d \<in> set cs" using n by (auto simp: newest_of_def)
  have "cr_id c \<le> cr_id d" if c: "c \<in> set cs" "cr_name c = cr_name d" for c
  proof (cases "0 < cr_id c")
    case True
    then obtain e where "(k, e) \<in> set (fold note_run cs [])" "cr_id c \<le> cr_id e" using n c k(1) by (auto simp: newest_of_def)
    then show ?thesis using n m by (metis newest_of_def eq_key_imp_eq_value)
  qed (use k(2) in simp)
  then show ?thesis using k by auto
qed

text \<open>An answer of the host that cannot be read is a head without failing and without running checks.\<close>

lemma unread_checks_are_clean:
  assumes "\<And>n. fg_server f n (GetCheckRuns (pr_head_sha p)) = None"
  shows "snd (gh_get_failed_checks f p ignored) = []" "snd (gh_get_incomplete_checks f p ignored) = []"
    "snd (gh_get_completed_checks f p ignored) = []"
proof -
  have "snd (gh_checked f (GetCheckRuns (pr_head_sha p))) = None"
    by (simp add: gh_checked_def gh_request_def GH_RATE_LIMIT_MAX_RETRIES_def case_prod_unfold Let_def gh_ok_def gh_retry.simps [of "3"]
        gh_exchange_def assms)
  then have "snd (runs_of_head f p ignored) = []" by (simp add: runs_of_head_def case_prod_unfold Let_def)
  then show "snd (gh_get_failed_checks f p ignored) = []" "snd (gh_get_incomplete_checks f p ignored) = []"
    "snd (gh_get_completed_checks f p ignored) = []"
    by (simp_all add: gh_get_failed_checks_def gh_get_incomplete_checks_def gh_get_completed_checks_def case_prod_unfold Let_def)
qed

end
