(* ===== verification/Review_Verdict.thy ===== *)
theory Review_Verdict
  imports Json_Values Fnmatch
begin

text \<open>
  The reviewer's verdict (\<open>entrypoints/pr_review_watcher/verdict.py\<close>): the model reports a status for each check of a fixed
  list, and code computes LGTM or CONCERNS from it; a council aggregates the verdicts of its members.

  What the model wrote is a JSON document. \<^const>\<open>None\<close> as a verdict is a \<open>TypeError\<close>: an unhashable id or status is looked up
  in a set. The text of a time, which only occurs in reports, is the parameter \<open>show_time\<close>; prompts are left out.
\<close>

section \<open>The checks\<close>

record review_check =
  rk_check_id :: string
  rk_optional :: bool

definition REVIEW_CHECKS :: "review_check list" where
  "REVIEW_CHECKS =
     [\<lparr>rk_check_id = ''spec_compliance'', rk_optional = True\<rparr>, \<lparr>rk_check_id = ''custodian_findings'', rk_optional = True\<rparr>,
      \<lparr>rk_check_id = ''code_quality'', rk_optional = False\<rparr>, \<lparr>rk_check_id = ''no_tooling_artifacts'', rk_optional = False\<rparr>]"

definition VALID_STATUS :: "string list" where "VALID_STATUS = [''pass'', ''fail'', ''n/a'']"

definition LGTM :: string where "LGTM = ''LGTM''"
definition CONCERNS :: string where "CONCERNS = ''CONCERNS''"

definition required_ids :: "string list" where
  "required_ids = map rk_check_id (filter (\<lambda>c. \<not> rk_optional c) REVIEW_CHECKS)"

definition optional_ids :: "string list" where
  "optional_ids = map rk_check_id (filter rk_optional REVIEW_CHECKS)"

definition known_ids :: "string list" where
  "known_ids = map rk_check_id REVIEW_CHECKS"

section \<open>The verdict\<close>

fun hashable :: "json option \<Rightarrow> bool" where
  "hashable (Some (JList xs)) = False"
| "hashable (Some (JObj kvs)) = False"
| "hashable _ = True"

text \<open>The id and the status an entry reports for a known check; \<^const>\<open>None\<close> raises, \<open>Some None\<close> is passed over.\<close>

definition entry_status :: "json \<Rightarrow> (string \<times> string) option option" where
  "entry_status entry =
     (case entry of
        JObj d \<Rightarrow>
          if \<not> hashable (map_of d ''check_id'') then None
          else (case map_of d ''check_id'' of
                  Some (JStr cid) \<Rightarrow>
                    if cid \<notin> set known_ids then Some None
                    else if \<not> hashable (map_of d ''status'') then None
                    else Some (Some (cid, case map_of d ''status'' of
                           Some (JStr s) \<Rightarrow> if s \<in> set VALID_STATUS then s else ''fail'' | _ \<Rightarrow> ''fail''))
                | _ \<Rightarrow> Some None)
      | _ \<Rightarrow> Some None)"

fun status_by_id :: "json list \<Rightarrow> (string \<rightharpoonup> string) \<Rightarrow> (string \<rightharpoonup> string) option" where
  "status_by_id [] st = Some st"
| "status_by_id (e # es) st =
     (case entry_status e of
        None \<Rightarrow> None
      | Some None \<Rightarrow> status_by_id es st
      | Some (Some (cid, s)) \<Rightarrow> status_by_id es (st(cid \<mapsto> s)))"

definition failing_ids :: "(string \<rightharpoonup> string) \<Rightarrow> string list" where
  "failing_ids st =
     filter (\<lambda>cid. st cid \<noteq> Some ''pass'') required_ids @ filter (\<lambda>cid. st cid = Some ''fail'') optional_ids"

definition compute_verdict :: "json option \<Rightarrow> (string \<times> string list) option" where
  "compute_verdict checks =
     (case checks of
        Some (JList es) \<Rightarrow>
          (case status_by_id es Map.empty of
             None \<Rightarrow> None
           | Some st \<Rightarrow> Some (if failing_ids st = [] then (LGTM, []) else (CONCERNS, failing_ids st)))
      | _ \<Rightarrow> Some (CONCERNS, [''malformed_no_checks'']))"

definition sensitive_paths_in_diff :: "string list \<Rightarrow> string list \<Rightarrow> string list" where
  "sensitive_paths_in_diff files patterns = filter (\<lambda>f. list_ex (\<lambda>p. fnmatch f p) patterns) files"

section \<open>Reports\<close>

fun json_text :: "(datetime \<Rightarrow> string) \<Rightarrow> json option \<Rightarrow> string option" where
  "json_text show_time (Some (JStr s)) = Some s"
| "json_text show_time (Some (JTime t)) = Some (show_time t)"
| "json_text show_time _ = None"

fun evidence_spans :: "(datetime \<Rightarrow> string) \<Rightarrow> json list \<Rightarrow> (string \<rightharpoonup> string) \<Rightarrow> (string \<rightharpoonup> string)" where
  "evidence_spans show_time [] spans = spans"
| "evidence_spans show_time (JObj d # es) spans =
     evidence_spans show_time es
       (case (json_text show_time (map_of d ''check_id''), json_text show_time (map_of d ''evidence_span'')) of
          (Some cid, Some quote) \<Rightarrow> spans(cid \<mapsto> py_strip quote) | _ \<Rightarrow> spans)"
| "evidence_spans show_time (e # es) spans = evidence_spans show_time es spans"

definition failing_summary :: "(datetime \<Rightarrow> string) \<Rightarrow> json option \<Rightarrow> string list \<Rightarrow> string" where
  "failing_summary show_time checks failing =
     (let spans = (case checks of Some (JList es) \<Rightarrow> evidence_spans show_time es Map.empty | _ \<Rightarrow> Map.empty);
          line = (\<lambda>cid. let ev = or_empty (spans cid)
                         in ''- '' @ cid @ (if ev \<noteq> [] then '': '' @ take 300 ev else []))
      in ''Failed checks:'' @ [CHR 0x0A] @ py_join [CHR 0x0A] (map line failing))"

section \<open>The council\<close>

record seat =
  se_backend :: string
  se_model :: string
  se_lens :: string

definition COUNCIL_PANEL :: "seat list" where
  "COUNCIL_PANEL =
     [\<lparr>se_backend = ''claude_code'', se_model = ''claude-opus-5'', se_lens = ''correctness''\<rparr>,
      \<lparr>se_backend = ''claude_code'', se_model = ''claude-opus-4-8'', se_lens = ''security-capability''\<rparr>,
      \<lparr>se_backend = ''claude_code'', se_model = ''claude-opus-4-7'', se_lens = ''convergence-operational''\<rparr>]"

text \<open>A member's verdict; absent fields are empty.\<close>

record member_verdict =
  mv_result :: string
  mv_failing :: "string list"
  mv_summary :: string

type_synonym member_result = "seat \<times> member_verdict"

definition member_label :: "seat \<Rightarrow> string" where
  "member_label m =
     (if se_backend m = [] then ''?'' else se_backend m) @ ''/'' @ (if se_model m = [] then ''?'' else se_model m)
     @ '' ('' @ (if se_lens m = [] then ''?'' else se_lens m) @ '')''"

definition member_outcome :: "member_verdict \<Rightarrow> string" where
  "member_outcome v = py_upper (if mv_result v = [] then CONCERNS else mv_result v)"

fun union_failing :: "member_result list \<Rightarrow> string list \<Rightarrow> string list" where
  "union_failing [] acc = acc"
| "union_failing ((m, v) # rs) acc =
     union_failing rs
       (if member_outcome v = LGTM then acc else fold (\<lambda>f acc. if f \<in> set acc then acc else acc @ [f]) (mv_failing v) acc)"

definition concern_line :: "member_result \<Rightarrow> string" where
  "concern_line r =
     (case r of (m, v) \<Rightarrow>
        ''- '' @ member_label m @ '': ''
        @ (if mv_failing v \<noteq> [] then py_join '', '' (mv_failing v) else if mv_summary v \<noteq> [] then mv_summary v else CONCERNS))"

definition aggregate_council :: "member_result list \<Rightarrow> member_verdict" where
  "aggregate_council rs =
     (let against = filter (\<lambda>(m, v). member_outcome v \<noteq> LGTM) rs
      in if rs \<noteq> [] \<and> against = []
         then \<lparr>mv_result = LGTM, mv_failing = [],
               mv_summary = ''Council unanimous LGTM ('' @ py_join '', '' (map (member_label \<circ> fst) rs) @ '').''\<rparr>
         else \<lparr>mv_result = CONCERNS, mv_failing = union_failing rs [],
               mv_summary = ''Council concerns (attributed by member):'' @ [CHR 0x0A] @ py_join [CHR 0x0A] (map concern_line against)\<rparr>)"

section \<open>A verdict on standard output\<close>

text \<open>
  \<open>decode\<close> is \<open>JSONDecoder.raw_decode\<close> at the brace a text starts with: the value and how many characters behind the brace it took.
\<close>

function last_object_from :: "(string \<Rightarrow> (json \<times> nat) option) \<Rightarrow> string \<Rightarrow> json option \<Rightarrow> json option" where
  "last_object_from decode s best =
     (let rest = dropWhile (\<lambda>c. c \<noteq> CHR ''{'') s
      in if rest = [] then best
         else case decode rest of
                None \<Rightarrow> last_object_from decode (tl rest) best
              | Some (obj, taken) \<Rightarrow>
                  last_object_from decode (drop taken (tl rest)) (case obj of JObj kvs \<Rightarrow> Some obj | _ \<Rightarrow> best))"
  by pat_completeness auto
termination
proof (relation "measure (\<lambda>(d, s, b). length s)")
  fix s x assume x: "x = dropWhile (\<lambda>c. c \<noteq> CHR ''{'') s" "x \<noteq> []"
  have "length x \<le> length s" unfolding x(1) by (rule length_dropWhile_le)
  then have "length (tl x) < length s" using x(2) by (cases x) auto
  then show "((d, tl x, b), d, s, b) \<in> measure (\<lambda>(d, s, b). length s)"
    "((d, drop k (tl x), b'), d, s, b) \<in> measure (\<lambda>(d, s, b). length s)" for d b b' k by auto
qed simp

declare last_object_from.simps [simp del]

definition last_json_object :: "(string \<Rightarrow> (json \<times> nat) option) \<Rightarrow> string \<Rightarrow> json option" where
  "last_json_object decode s = (if CHR ''{'' \<notin> set s then None else last_object_from decode s None)"

section \<open>Laws\<close>

lemma check_ids [simp]:
  "required_ids = [''code_quality'', ''no_tooling_artifacts'']" "optional_ids = [''spec_compliance'', ''custodian_findings'']"
  "known_ids = [''spec_compliance'', ''custodian_findings'', ''code_quality'', ''no_tooling_artifacts'']"
  by (simp_all add: required_ids_def optional_ids_def known_ids_def REVIEW_CHECKS_def)

lemma verdict_words [simp]: "LGTM \<noteq> CONCERNS" "CONCERNS \<noteq> LGTM" "LGTM \<noteq> []" "CONCERNS \<noteq> []" "py_upper LGTM = LGTM" "py_upper CONCERNS = CONCERNS"
  by (simp add: LGTM_def CONCERNS_def, simp add: LGTM_def CONCERNS_def, simp add: LGTM_def, simp add: CONCERNS_def, code_simp, code_simp)

text \<open>What the entries report of a check: the status of the last entry for it.\<close>

definition reported :: "json list \<Rightarrow> string \<Rightarrow> string option" where
  "reported es cid = map_of (rev (List.map_filter (\<lambda>e. case entry_status e of Some p \<Rightarrow> p | None \<Rightarrow> None) es)) cid"

lemma status_by_id_reported:
  "status_by_id es st = (if list_ex (\<lambda>e. entry_status e = None) es then None else Some (st ++ reported es))"
proof (induction es arbitrary: st)
  case Nil
  have "reported [] = Map.empty" by (simp add: reported_def fun_eq_iff List.map_filter_simps)
  then show ?case by simp
next
  case (Cons e es)
  have "entry_status e = Some None \<Longrightarrow> reported (e # es) = reported es"
    by (simp add: reported_def fun_eq_iff List.map_filter_simps)
  moreover have "entry_status e = Some (Some (cid, s)) \<Longrightarrow> st ++ reported (e # es) = st(cid \<mapsto> s) ++ reported es" for cid s
    by (rule ext) (simp add: reported_def List.map_filter_simps map_add_def split: option.splits)
  ultimately show ?case by (auto simp: Cons.IH split: option.splits)
qed

text \<open>A status is \<open>pass\<close>, \<open>fail\<close> or \<open>n/a\<close>: whatever else was written counts as a failure.\<close>

lemma entry_status_valid: "entry_status e = Some (Some (cid, s)) \<Longrightarrow> cid \<in> set known_ids \<and> s \<in> set VALID_STATUS"
  by (auto simp: entry_status_def VALID_STATUS_def split: json.splits option.splits if_splits)

definition clean_report :: "(string \<Rightarrow> string option) \<Rightarrow> bool" where
  "clean_report r \<longleftrightarrow> (\<forall>cid \<in> set required_ids. r cid = Some ''pass'') \<and> (\<forall>cid \<in> set optional_ids. r cid \<noteq> Some ''fail'')"

lemma failing_ids_clean: "failing_ids st = [] \<longleftrightarrow> clean_report st"
  by (auto simp: failing_ids_def clean_report_def filter_empty_conv)

lemma verdict_LGTM_iff:
  "compute_verdict checks = Some (LGTM, fs) \<longleftrightarrow>
     (\<exists>es. checks = Some (JList es) \<and> fs = [] \<and> (\<forall>e \<in> set es. entry_status e \<noteq> None) \<and> clean_report (reported es))"
proof -
  have mp: "Map.empty ++ m = m" for m :: "string \<rightharpoonup> string" by simp
  have v: "compute_verdict (Some (JList es)) = (if list_ex (\<lambda>e. entry_status e = None) es then None
      else Some (if clean_report (reported es) then (LGTM, []) else (CONCERNS, failing_ids (reported es))))" for es
    by (simp add: compute_verdict_def status_by_id_reported failing_ids_clean)
  show ?thesis
  proof (cases "\<exists>es. checks = Some (JList es)")
    case True
    then obtain es where "checks = Some (JList es)" by blast
    then show ?thesis by (auto simp: v list_ex_iff)
  next
    case False
    then have "compute_verdict checks = Some (CONCERNS, [''malformed_no_checks''])"
      by (auto simp: compute_verdict_def split: option.splits json.splits)
    then show ?thesis using False by (metis option.inject prod.inject verdict_words(1))
  qed
qed

lemma verdict_is_LGTM_or_CONCERNS: "compute_verdict checks = Some (r, fs) \<Longrightarrow> r = LGTM \<and> fs = [] \<or> r = CONCERNS \<and> fs \<noteq> []"
  by (auto simp: compute_verdict_def failing_ids_def split: option.splits json.splits if_splits)

text \<open>A council approves exactly when it has members and all of them do.\<close>

lemma council_LGTM_iff:
  "mv_result (aggregate_council rs) = LGTM \<longleftrightarrow> rs \<noteq> [] \<and> (\<forall>(m, v) \<in> set rs. member_outcome v = LGTM)"
proof -
  have c: "CONCERNS \<noteq> LGTM" using verdict_words(1) by metis
  show ?thesis using c by (auto simp: aggregate_council_def Let_def filter_empty_conv)
qed

text \<open>What the scan finds is an object.\<close>

lemma last_object_is_object:
  "last_object_from decode s best = Some j \<Longrightarrow> (\<forall>b. best = Some b \<longrightarrow> (\<exists>kvs. b = JObj kvs)) \<Longrightarrow> \<exists>kvs. j = JObj kvs"
proof (induction decode s best rule: last_object_from.induct)
  case (1 decode s best)
  let ?rest = "dropWhile (\<lambda>c. c \<noteq> CHR ''{'') s"
  show ?case
  proof (cases "?rest = []")
    case True
    then show ?thesis using "1.prems" by (simp add: last_object_from.simps [of decode s] Let_def)
  next
    case False
    show ?thesis
    proof (cases "decode ?rest")
      case None
      then show ?thesis using "1.prems" False "1.IH"(1) [OF refl False None]
        by (simp only: last_object_from.simps [of decode s] Let_def if_False option.case) 
    next
      case (Some p)
      obtain obj taken where p: "p = (obj, taken)" by (cases p)
      show ?thesis using "1.prems" False Some p "1.IH"(2) [OF refl False, of "(obj, taken)" obj taken]
        by (simp only: last_object_from.simps [of decode s] Let_def if_False option.case prod.case)
          (auto split: json.splits)
    qed
  qed
qed

end
