(* ===== verification/Review_Watch.thy ===== *)
theory Review_Watch
  imports Github_Pr Review_Verdict Policy_Models Worker_Backend Coordinator
begin

text \<open>
  The review watcher (\<open>entrypoints/pr_review_watcher/main.py\<close>), its state and the steps it ends a pull request with: the
  state of a pull request and its file, flags and their retraction, the status of CI, the gates of a merge, the rebase, the
  escalation to a human, closing and re-queuing.

  A run is a \<open>watch\<close>: the state dictionary in memory, the file, the code host, the board, a number of readings of the clock
  and the runs it started. What lies outside (clock, processes, git, opening the board's client, the task parser) is a
  record \<open>surround\<close> of answers, indexed by the number of the reading where they can change. An absent field of the state
  that the code reads with a default is that default, and fields nothing reads (times of a check's sightings, text and count of a
  concern) are left out. Saving the state is taken to succeed. Log lines and the metrics of the
  instrumenter are left out.
\<close>

section \<open>State\<close>

text \<open>A time in the state file: absent, the text of a time, or a text that is none.\<close>

datatype time_stamp = NoStamp | At datetime | BadStamp

fun stamp_time :: "time_stamp \<Rightarrow> datetime option" where
  "stamp_time (At t) = Some t" | "stamp_time _ = None"

record concern_note =
  cn_head_sha :: string
  cn_raised_at :: time_stamp

record check_seen =
  ch_last_seen_sha :: string
  ch_times_passed :: int
  ch_times_failed :: int

record review_state =
  rv_pr_number :: int
  rv_repo_key :: string
  rv_phase :: string
  rv_plane_task_id :: "string option"
  rv_head_ref :: string
  rv_ci_fix_attempts :: int
  rv_ci_fix_last_push_at :: time_stamp
  rv_ci_settle_cycles :: int
  rv_ci_wait_cycles :: int
  rv_ci_check_history :: "(string \<times> check_seen) list"
  rv_ci_green_retraction_count :: int
  rv_self_review_loops :: int
  rv_no_verdict_passes :: int
  rv_no_verdict_backoff_level :: int
  rv_no_verdict_escalation_count :: int
  rv_env_unclean_passes :: int
  rv_backend_error_passes :: int
  rv_fix_attempts :: int
  rv_fix_strategy_level :: int
  rv_last_concerns_head_sha :: string
  rv_last_concerns_summary :: string
  rv_last_fix_pass_pushed :: "bool option"
  rv_last_fix_push_sha :: string
  rv_concern_history :: "(string \<times> concern_note) list"
  rv_concerns_comment_id :: "int option"
  rv_escalation_comment_id :: "int option"
  rv_escalated_needs_human :: bool
  rv_escalated_head_sha :: string
  rv_escalated_reason :: string
  rv_escalated_at :: time_stamp
  rv_council_park :: bool
  rv_council_park_started_at :: time_stamp
  rv_council_available_members :: int
  rv_rebase_attempts :: int
  rv_last_rebase_at :: time_stamp

definition new_state :: "string \<Rightarrow> int \<Rightarrow> review_state" where
  "new_state repo_key n =
     \<lparr>rv_pr_number = n, rv_repo_key = repo_key, rv_phase = ''ci_fix'', rv_plane_task_id = None, rv_head_ref = [],
      rv_ci_fix_attempts = 0, rv_ci_fix_last_push_at = NoStamp, rv_ci_settle_cycles = 0, rv_ci_wait_cycles = 0,
      rv_ci_check_history = [], rv_ci_green_retraction_count = 0, rv_self_review_loops = 0, rv_no_verdict_passes = 0,
      rv_no_verdict_backoff_level = 0, rv_no_verdict_escalation_count = 0, rv_env_unclean_passes = 0,
      rv_backend_error_passes = 0, rv_fix_attempts = 0, rv_fix_strategy_level = 0, rv_last_concerns_head_sha = [],
      rv_last_concerns_summary = [], rv_last_fix_pass_pushed = None, rv_last_fix_push_sha = [], rv_concern_history = [],
      rv_concerns_comment_id = None, rv_escalation_comment_id = None, rv_escalated_needs_human = False,
      rv_escalated_head_sha = [], rv_escalated_reason = [], rv_escalated_at = NoStamp, rv_council_park = False,
      rv_council_park_started_at = NoStamp, rv_council_available_members = 0, rv_rebase_attempts = 0,
      rv_last_rebase_at = NoStamp\<rparr>"

definition state_key :: "review_state \<Rightarrow> string" where
  "state_key st = rv_repo_key st @ ''-'' @ show_int (rv_pr_number st)"

section \<open>Settings\<close>

record council_settings =
  cs_guardrail_paths :: "string list"
  cs_max_council_park_hours :: int
  cs_min_council_members :: int

record reviewer_settings =
  rw_max_self_review_loops :: int
  rw_max_fix_attempts :: int
  rw_max_fix_strategy_level :: int
  rw_bot_comment_marker :: string
  rw_require_branch_protection :: bool
  rw_require_sensitive_path_ack :: bool
  rw_council :: council_settings

definition default_guardrail_paths :: "string list" where
  "default_guardrail_paths =
     [''.console/workers.yaml'', ''.console/guidelines.md'', ''tools/loop/oc_session_prompt.txt'', ''.hooks/**'',
      ''scripts/operations-center.sh'', ''eval/**'', ''src/operations_center/entrypoints/pr_review_watcher/**'',
      ''src/operations_center/entrypoints/loop_bridge/**'', ''config/operations_center.local.yaml'',
      ''docs/design/COUNCIL_VERDICT.md'']"

definition default_council :: council_settings where
  "default_council =
     \<lparr>cs_guardrail_paths = default_guardrail_paths, cs_max_council_park_hours = 24, cs_min_council_members = 3\<rparr>"

definition default_reviewer :: reviewer_settings where
  "default_reviewer =
     \<lparr>rw_max_self_review_loops = 3, rw_max_fix_attempts = 6, rw_max_fix_strategy_level = 2,
      rw_bot_comment_marker = ''<!-- operations-center:bot -->'', rw_require_branch_protection = True,
      rw_require_sensitive_path_ack = False, rw_council = default_council\<rparr>"

record watched_repo =
  wr_await_review :: bool
  wr_auto_merge_on_ci_green :: bool
  wr_ci_ignored_checks :: "string list"
  wr_required_checks :: "string list"
  wr_has_local_path :: bool

record watch_settings =
  wsg_repos :: "string \<rightharpoonup> watched_repo"
  wsg_reviewer :: reviewer_settings
  wsg_autofix_audit :: bool
  wsg_dynamic_worker_backend :: bool

section \<open>Surroundings\<close>

text \<open>What one rebase meets: a clone, an exception of a step, the merge and the push.\<close>

record rebase_git =
  rg_has_clone :: bool
  rg_raises :: bool
  rg_merge_rc :: int
  rg_up_to_date :: bool
  rg_unmerged :: bool
  rg_push_rc :: int

text \<open>What one automatic fix of the linter meets.\<close>

record ruff_git =
  ru_raises :: bool
  ru_changed :: bool
  ru_push_rc :: int

text \<open>A run of one review member: the tree it starts from, the process, and what it left behind.\<close>

datatype member_exit = MemberTimeout | MemberExit int

record member_run =
  mr_tree_conflicted :: bool
  mr_exit :: member_exit
  mr_verdict_file :: "json option"
  mr_stdout :: string

text \<open>A fix pass: the source tree is unclean, containment is required and missing, another exception, or the result of the pipeline.\<close>

datatype fix_outcome = FixUnclean | FixContainment | FixRaises | FixResult bool

record surround =
  en_now :: "nat \<Rightarrow> datetime"
  en_prose :: "string \<Rightarrow> review_state \<Rightarrow> string"
  en_hash :: "string \<Rightarrow> string"
  en_sanitize :: "string \<Rightarrow> string"
  en_show_time :: "datetime \<Rightarrow> string"
  en_decode :: "string \<Rightarrow> (json \<times> nat) option"
  en_file_summary :: "string list \<Rightarrow> string"
  en_plane_opens :: "nat \<Rightarrow> bool"
  en_spec_file :: "issue \<Rightarrow> string"
  en_merge_override :: "string option"
  en_rebase :: "nat \<Rightarrow> rebase_git"
  en_ruff :: "nat \<Rightarrow> ruff_git"
  en_audit_findings :: "nat \<Rightarrow> string list"
  en_member :: "nat \<Rightarrow> string \<Rightarrow> string \<Rightarrow> member_run"
  en_fix :: "nat \<Rightarrow> fix_outcome"
  en_usage :: "nat \<Rightarrow> usage_file option"
  en_allowed_backends :: string
  en_others_write :: "nat \<Rightarrow> review_state \<Rightarrow> review_state"

text \<open>What the watcher starts: a review member, a fix pass with the rung of the ladder, a rebase, a run of the linter.\<close>

datatype watch_run = RunMember string string | RunFix string string int | RunRebase string | RunRuff string

record watch =
  wt_st :: review_state
  wt_file :: "review_state option"
  wt_forge :: forge
  wt_board :: board
  wt_tick :: nat
  wt_runs :: "watch_run list"

definition on_st :: "(review_state \<Rightarrow> review_state) \<Rightarrow> watch \<Rightarrow> watch" where
  "on_st f w = w\<lparr>wt_st := f (wt_st w)\<rparr>"

definition clock_tick :: "watch \<Rightarrow> watch" where
  "clock_tick w = w\<lparr>wt_tick := wt_tick w + 1\<rparr>"

definition note_runs :: "watch_run \<Rightarrow> watch \<Rightarrow> watch" where
  "note_runs r w = w\<lparr>wt_runs := r # wt_runs w\<rparr>"

definition save_review :: "watch \<Rightarrow> watch" where
  "save_review w = w\<lparr>wt_file := Some (wt_st w)\<rparr>"

definition unlink_state :: "watch \<Rightarrow> watch" where
  "unlink_state w = w\<lparr>wt_file := None\<rparr>"

definition now_of :: "surround \<Rightarrow> watch \<Rightarrow> datetime" where
  "now_of e w = en_now e (wt_tick w)"

section \<open>Texts\<close>

definition nl2 :: string where "nl2 = [CHR 0x0A, CHR 0x0A]"

text \<open>\<open>str.splitlines\<close>.\<close>

definition line_end :: "char \<Rightarrow> bool" where
  "line_end c \<longleftrightarrow> c \<in> {CHR 0x0A, CHR 0x0B, CHR 0x0C, CHR 0x0D, CHR 0x1C, CHR 0x1D, CHR 0x1E}"

fun splitlines_acc :: "bool \<Rightarrow> string \<Rightarrow> string \<Rightarrow> string list" where
  "splitlines_acc after_cr acc [] = (if acc = [] then [] else [rev acc])"
| "splitlines_acc after_cr acc (c # cs) =
     (if after_cr \<and> c = CHR 0x0A then splitlines_acc False acc cs
      else if line_end c then rev acc # splitlines_acc (c = CHR 0x0D) [] cs
      else splitlines_acc False (c # acc) cs)"

definition splitlines :: "string \<Rightarrow> string list" where
  "splitlines s = splitlines_acc False [] s"

text \<open>The item behind a bullet or an ordinal at the start of a line.\<close>

definition bullet_item :: "string \<Rightarrow> string option" where
  "bullet_item line =
     (let body = dropWhile is_space line;
          digits = takeWhile is_digit body; after = dropWhile is_digit body;
          marked = (if body \<noteq> [] \<and> hd body \<in> {CHR ''-'', CHR ''*'', CHR ''+''} then Some (tl body)
                    else if digits \<noteq> [] \<and> after \<noteq> [] \<and> hd after \<in> {CHR ''.'', CHR '')''} then Some (tl after) else None)
      in case marked of
           Some (c # cs) \<Rightarrow> if is_space c then Some (dropWhile is_space cs) else None
         | _ \<Rightarrow> None)"

text \<open>Items found so far, newest first, and the lines of the current one, newest first.\<close>

fun concern_items :: "string list \<Rightarrow> string list \<Rightarrow> string list \<Rightarrow> string list" where
  "concern_items [] items current =
     rev (if current \<noteq> [] then py_strip (py_join [CHR 0x0A] (rev current)) # items else items)"
| "concern_items (line # lines) items current =
     (case bullet_item line of
        Some item \<Rightarrow>
          concern_items lines (if current \<noteq> [] then py_strip (py_join [CHR 0x0A] (rev current)) # items else items) [item]
      | None \<Rightarrow> concern_items lines items (if current \<noteq> [] then py_strip line # current else current))"

text \<open>\<open>re.split\<close> at a blank line: a newline, space, and the last newline of that space. \<open>acc\<close> is the paragraph so far, reversed.\<close>

fun paragraphs_acc :: "nat \<Rightarrow> string \<Rightarrow> string \<Rightarrow> string list" where
  "paragraphs_acc 0 acc s = [rev acc @ s]"
| "paragraphs_acc (Suc n) acc [] = [rev acc]"
| "paragraphs_acc (Suc n) acc (c # cs) =
     (let gap = takeWhile is_space cs;
          upto = rev (dropWhile (\<lambda>c. c \<noteq> CHR 0x0A) (rev gap))
      in if c = CHR 0x0A \<and> upto \<noteq> [] then rev acc # paragraphs_acc n [] (drop (length upto) cs)
         else paragraphs_acc n (c # acc) cs)"

definition structure_concerns :: "string \<Rightarrow> string list" where
  "structure_concerns summary =
     (let s = py_strip summary; lines = splitlines s;
          out = filter (\<lambda>i. i \<noteq> []) (concern_items lines [] []);
          paras = filter (\<lambda>p. p \<noteq> []) (map py_strip (paragraphs_acc (length s) [] s))
      in if s = [] then []
         else if list_ex (\<lambda>l. bullet_item l \<noteq> None) lines \<and> out \<noteq> [] then out
         else if length paras > 1 then paras else [s])"

definition normalize_concerns_summary :: "string \<Rightarrow> string" where
  "normalize_concerns_summary s = py_join '' '' (py_split s)"

text \<open>\<open>re.sub(r''\d+'', ''N'', s)\<close>; \<open>inside\<close> a number.\<close>

fun mask_digits :: "bool \<Rightarrow> string \<Rightarrow> string" where
  "mask_digits inside [] = []"
| "mask_digits inside (c # cs) =
     (if is_digit c then (if inside then mask_digits True cs else CHR ''N'' # mask_digits True cs) else c # mask_digits False cs)"

definition concerns_signature :: "surround \<Rightarrow> string \<Rightarrow> string" where
  "concerns_signature e summary =
     (if py_strip summary = [] then [] else take 16 (en_hash e (mask_digits False (py_strip summary))))"

section \<open>Flags\<close>

definition flag_words :: "string list" where
  "flag_words = [''**Needs human attention**'', ''**Self-review concerns**'']"

text \<open>The leftmost flag in bold, struck through.\<close>

fun strike_flag :: "string \<Rightarrow> string" where
  "strike_flag [] = []"
| "strike_flag (c # cs) =
     (case List.find (\<lambda>p. prefix p (c # cs)) flag_words of
        Some p \<Rightarrow> ''~~'' @ p @ ''~~'' @ drop (length p) (c # cs)
      | None \<Rightarrow> c # strike_flag cs)"

definition resolved_text :: "string \<Rightarrow> string \<Rightarrow> string" where
  "resolved_text resolution body = ''> **Resolved**: '' @ resolution @ nl2 @ strike_flag body"

definition retract_comment :: "string \<Rightarrow> int option \<Rightarrow> watch \<Rightarrow> watch" where
  "retract_comment resolution cid w =
     (case cid of
        None \<Rightarrow> w
      | Some c \<Rightarrow>
          if c = 0 then w
          else let (f, comments) = gh_list_pr_comments (wt_forge w) (rv_pr_number (wt_st w))
               in case Option.bind comments (\<lambda>cs. map_of cs c) of
                    None \<Rightarrow> w\<lparr>wt_forge := f\<rparr>
                  | Some body \<Rightarrow> w\<lparr>wt_forge := fst (gh_update_comment f c (resolved_text resolution body))\<rparr>)"

definition retract_flag :: "string \<Rightarrow> watch \<Rightarrow> watch" where
  "retract_flag resolution w =
     (let esc = rv_escalation_comment_id (wt_st w); con = rv_concerns_comment_id (wt_st w);
          w1 = retract_comment resolution esc (on_st (\<lambda>s. s\<lparr>rv_escalation_comment_id := None\<rparr>) w)
      in retract_comment resolution con (on_st (\<lambda>s. s\<lparr>rv_concerns_comment_id := None\<rparr>) w1))"

definition needs_human_text :: "surround \<Rightarrow> watch_settings \<Rightarrow> string \<Rightarrow> string \<Rightarrow> string" where
  "needs_human_text e s reason detail =
     rw_bot_comment_marker (wsg_reviewer s) @ [CHR 0x0A] @ ''**Needs human attention** (reason=`'' @ reason
     @ ''`). Left open '' @ em_dash @ '' not merged (unresolved) and not closed (work preserved).'' @ nl2 @ en_sanitize e detail"

definition escalate_needs_human ::
    "surround \<Rightarrow> watch_settings \<Rightarrow> string \<Rightarrow> string \<Rightarrow> string \<Rightarrow> watch \<Rightarrow> watch" where
  "escalate_needs_human e s reason detail sha w =
     (let w1 = clock_tick (on_st (\<lambda>st. st\<lparr>rv_escalated_head_sha := (if sha \<noteq> [] then sha else rv_escalated_head_sha st),
                                rv_escalated_reason := reason, rv_escalated_at := At (now_of e w)\<rparr>) w);
          w2 = (if rv_escalated_needs_human (wt_st w1) then w1
                else let (f, posted) = gh_post_comment (wt_forge w1) (rv_pr_number (wt_st w1)) (needs_human_text e s reason detail)
                     in on_st (\<lambda>st. (case posted of None \<Rightarrow> st | Some cid \<Rightarrow> st\<lparr>rv_escalation_comment_id := cid\<rparr>)
                                 \<lparr>rv_escalated_needs_human := True\<rparr>) (w1\<lparr>wt_forge := f\<rparr>))
      in save_review w2)"

section \<open>CI\<close>

record ci_status =
  ci_failed :: "string list"
  ci_pending :: "string list"
  ci_completed :: "string list"
  ci_missing_required :: "string list"

definition green :: "ci_status \<Rightarrow> bool" where
  "green c \<longleftrightarrow> ci_failed c = [] \<and> ci_pending c = [] \<and> ci_missing_required c = [] \<and> ci_completed c \<noteq> []"

definition missing_checks :: "string list \<Rightarrow> string list \<Rightarrow> string list" where
  "missing_checks required completed =
     filter (\<lambda>rc. \<not> list_ex (\<lambda>n. str_contains (py_lower rc) (py_lower n)) completed) required"

text \<open>The client's check queries do not raise, so the error of the code's status is never set.\<close>

definition ci_status_of :: "watched_repo \<Rightarrow> pull_request \<Rightarrow> watch \<Rightarrow> watch \<times> ci_status" where
  "ci_status_of r p w =
     (let (f1, failed) = gh_get_failed_checks (wt_forge w) p (wr_ci_ignored_checks r);
          (f2, pending) = gh_get_incomplete_checks f1 p (wr_ci_ignored_checks r);
          (f3, completed) = gh_get_completed_checks f2 p (wr_ci_ignored_checks r)
      in (w\<lparr>wt_forge := f3\<rparr>,
          \<lparr>ci_failed = failed, ci_pending = pending, ci_completed = completed,
           ci_missing_required = missing_checks (wr_required_checks r) completed\<rparr>))"

section \<open>Gates of a merge\<close>

definition REVIEWER_VERDICT_STATUS_CONTEXT :: string where "REVIEWER_VERDICT_STATUS_CONTEXT = ''reviewer-verdict''"

definition verdict_protects :: "protection \<Rightarrow> bool" where
  "verdict_protects bp \<longleftrightarrow>
     REVIEWER_VERDICT_STATUS_CONTEXT \<in> set (bp_contexts bp @ filter (\<lambda>c. c \<noteq> []) (bp_checks bp)) \<and> bp_enforce_admins bp"

definition branch_protection_ok :: "watch_settings \<Rightarrow> string \<Rightarrow> watch \<Rightarrow> watch \<times> bool" where
  "branch_protection_ok s base_branch w =
     (if \<not> rw_require_branch_protection (wsg_reviewer s) then (w, True)
      else let (f, answer) = gh_get_branch_protection (wt_forge w) base_branch
           in (w\<lparr>wt_forge := f\<rparr>, case answer of Some (Some bp) \<Rightarrow> verdict_protects bp | _ \<Rightarrow> False))"

definition raw_name :: "label \<Rightarrow> string" where
  "raw_name l = (case l of LabelText s \<Rightarrow> s | LabelObj n \<Rightarrow> or_empty n)"

definition sensitive_path_ack_ok :: "watch_settings \<Rightarrow> pull_request \<Rightarrow> watch \<Rightarrow> watch \<times> bool" where
  "sensitive_path_ack_ok s p w =
     (if \<not> rw_require_sensitive_path_ack (wsg_reviewer s) then (w, True)
      else if list_ex (\<lambda>l. prefix ''risk-reviewed'' (raw_name l)) (pr_labels p) then (w, True)
      else let (f, files) = gh_list_pr_files (wt_forge w) (rv_pr_number (wt_st w))
           in (w\<lparr>wt_forge := f\<rparr>, sensitive_paths_in_diff files sensitive_path_patterns = []))"

definition publish_reviewer_verdict :: "string \<Rightarrow> string \<Rightarrow> string \<Rightarrow> watch \<Rightarrow> watch" where
  "publish_reviewer_verdict sha result description w =
     (if sha = [] then w else w\<lparr>wt_forge := fst (gh_set_commit_status (wt_forge w) sha result description)\<rparr>)"

text \<open>GitHub's client has no \<open>commit_parent_count\<close>, so the number of parents is unknown.\<close>

definition merge_method_for :: "surround \<Rightarrow> string" where
  "merge_method_for e = (if truthy_str (en_merge_override e) then or_empty (en_merge_override e) else ''squash'')"

definition pr_head_sha_of :: "pull_request \<Rightarrow> string" where
  "pr_head_sha_of p = py_strip (pr_head_sha p)"

section \<open>Rebase\<close>

definition attempt_auto_rebase :: "rebase_git \<Rightarrow> string" where
  "attempt_auto_rebase g =
     (if \<not> rg_has_clone g then ''unavailable''
      else if rg_raises g then ''error''
      else if rg_merge_rc g = 0
      then (if rg_up_to_date g then ''noop'' else if rg_unmerged g then ''conflict''
            else if rg_push_rc g = 0 then ''clean'' else ''push_rejected'')
      else ''conflict'')"

definition MAX_REBASE_ATTEMPTS :: int where "MAX_REBASE_ATTEMPTS = 3"
definition REBASE_GRACE_SECONDS :: int where "REBASE_GRACE_SECONDS = 120"

definition rebase_exhausted_detail :: string where
  "rebase_exhausted_detail =
     ''PR is CONFLICTING and '' @ show_int MAX_REBASE_ATTEMPTS @ '' auto-rebase attempts did not yield a mergeable branch (base ''
     @ ''may be moving faster than CI/review, or the conflict recurs). Needs a manual rebase.''"

definition rebase_conflict_detail :: string where
  "rebase_conflict_detail =
     ''Auto-rebase onto the base branch hit a real code conflict (beyond the union-merged journal). Manual rebase required.''"

definition auto_rebase_or_escalate :: "surround \<Rightarrow> watch_settings \<Rightarrow> watch \<Rightarrow> watch" where
  "auto_rebase_or_escalate e s w =
     (let recent = (case stamp_time (rv_last_rebase_at (wt_st w)) of
                      None \<Rightarrow> False | Some t \<Rightarrow> now_of e w - t < td_seconds REBASE_GRACE_SECONDS);
          head_ref = py_strip (rv_head_ref (wt_st w))
      in if recent then w
         else if rv_rebase_attempts (wt_st w) \<ge> MAX_REBASE_ATTEMPTS
         then escalate_needs_human e s ''rebase_attempts_exhausted'' rebase_exhausted_detail [] w
         else if head_ref = [] then w
         else
           let outcome = attempt_auto_rebase (en_rebase e (wt_tick w));
               w1 = clock_tick (note_runs (RunRebase head_ref) w);
               w2 = on_st (\<lambda>st. st\<lparr>rv_last_rebase_at := At (now_of e w1)\<rparr>) w1
           in if outcome = ''clean'' then save_review (on_st (\<lambda>st. st\<lparr>rv_rebase_attempts := rv_rebase_attempts st + 1\<rparr>) w2)
              else if outcome = ''conflict'' then escalate_needs_human e s ''rebase_conflict'' rebase_conflict_detail [] w2
              else save_review w2)"

section \<open>Merging\<close>

definition plane_done :: "surround \<Rightarrow> string \<Rightarrow> watch \<Rightarrow> watch" where
  "plane_done e reason w =
     (case rv_plane_task_id (wt_st w) of
        None \<Rightarrow> w
      | Some task \<Rightarrow>
          if task = [] then w
          else if \<not> en_plane_opens e (wt_tick w) then clock_tick w
          else let (b1, ok) = transition_issue (wt_board w) task STATE_DONE
               in if \<not> ok then clock_tick (w\<lparr>wt_board := b1\<rparr>)
                  else clock_tick (w\<lparr>wt_board := fst (comment_issue b1 task
                         (''PR #'' @ show_int (rv_pr_number (wt_st w)) @ '' merged ('' @ reason @ '')''))\<rparr>))"

definition base_branch_of :: "pull_request \<Rightarrow> string" where
  "base_branch_of p = (if pr_base_ref p = [] then ''main'' else pr_base_ref p)"

definition merge_and_done :: "surround \<Rightarrow> watch_settings \<Rightarrow> pull_request \<Rightarrow> string \<Rightarrow> watch \<Rightarrow> watch" where
  "merge_and_done e s p reason w0 =
     (let (f, mergeable) = gh_get_mergeable (wt_forge w0) (rv_pr_number (wt_st w0));
          w = w0\<lparr>wt_forge := f\<rparr>
      in if mergeable = Some False then auto_rebase_or_escalate e s w
         else
           let w1 = on_st (\<lambda>st. st\<lparr>rv_rebase_attempts := 0\<rparr>) w;
               (w2, protected) = branch_protection_ok s (base_branch_of p) w1
           in if \<not> protected then w2
              else
                let (w3, acked) = sensitive_path_ack_ok s p w2
                in if \<not> acked then w3
                   else
                     let ignored = (case wsg_repos s (rv_repo_key (wt_st w3)) of None \<Rightarrow> [] | Some r \<Rightarrow> wr_ci_ignored_checks r);
                         (f4, failed) = gh_get_failed_checks (wt_forge w3) p ignored;
                         (f5, pending) = gh_get_incomplete_checks f4 p ignored;
                         w5 = w3\<lparr>wt_forge := f5\<rparr>
                     in if failed \<noteq> [] \<or> pending \<noteq> [] then w5
                        else
                          let w6 = publish_reviewer_verdict (pr_head_sha_of p) ''success'' (''reviewer approved ('' @ reason @ '')'') w5;
                              (f7, merged) = gh_merge_pr (wt_forge w6) (rv_pr_number (wt_st w6)) (merge_method_for e);
                              w7 = w6\<lparr>wt_forge := f7\<rparr>
                          in if \<not> merged then w7
                             else unlink_state (plane_done e reason (retract_flag ''PR merged'' w7)))"

section \<open>Re-queuing\<close>

definition MAX_REQUEUES :: int where "MAX_REQUEUES = 3"
definition REQUEUE_LABEL_PREFIX :: string where "REQUEUE_LABEL_PREFIX = ''reviewer-requeue-count''"

definition requeue_count :: "label list \<Rightarrow> int" where
  "requeue_count ls = (case label_int (label_value ls REQUEUE_LABEL_PREFIX) of None \<Rightarrow> 0 | Some n \<Rightarrow> n)"

definition before_colon :: "string \<Rightarrow> string" where
  "before_colon n = py_lower (py_strip (takeWhile (\<lambda>c. c \<noteq> CHR '':'') n))"

definition labels_with_requeue_count :: "label list \<Rightarrow> int \<Rightarrow> string list \<Rightarrow> string list" where
  "labels_with_requeue_count ls count extra =
     filter (\<lambda>n. before_colon n \<notin> insert (py_lower REQUEUE_LABEL_PREFIX) (py_lower ` set extra))
       (filter (\<lambda>n. n \<noteq> []) (map label_name ls))
     @ [REQUEUE_LABEL_PREFIX @ '': '' @ show_int count] @ extra"

fun numbered :: "nat \<Rightarrow> string list \<Rightarrow> string list" where
  "numbered n [] = []"
| "numbered n (c # cs) = (show_nat n @ ''. '' @ c) # numbered (Suc n) cs"

definition scope_block :: "surround \<Rightarrow> string \<Rightarrow> string" where
  "scope_block e concerns =
     (let items = structure_concerns concerns
      in if items = [] then []
         else nl2 @ ''**Unresolved review concerns to address in the next attempt** (the previous PR could not resolve these ''
              @ em_dash @ '' scope the fresh attempt to them, do not start blind):'' @ nl2
              @ en_sanitize e (py_join [CHR 0x0A] (numbered 1 items)))"

text \<open>Three writes, each of which may fail; the result says that all were made.\<close>

definition requeue_writes :: "string \<Rightarrow> string list \<Rightarrow> string \<Rightarrow> string \<Rightarrow> board \<Rightarrow> board \<times> bool" where
  "requeue_writes task names st text b =
     (let (b1, ok1) = update_issue_labels b task names
      in if \<not> ok1 then (b1, False)
         else let (b2, ok2) = transition_issue b1 task st
              in if \<not> ok2 then (b2, False) else comment_issue b2 task text)"

definition requeue_note :: "surround \<Rightarrow> int \<Rightarrow> string \<Rightarrow> string \<Rightarrow> int \<Rightarrow> string" where
  "requeue_note e pr reason concerns n =
     ''PR #'' @ show_int pr @ '' closed ('' @ reason @ ''); ''
     @ (if n \<ge> MAX_REQUEUES
        then ''re-queue limit ('' @ show_int MAX_REQUEUES @ '') reached '' @ em_dash @ '' blocked for human review.''
        else ''re-queued for a fresh attempt (#'' @ show_int (n + 1) @ '' of '' @ show_int MAX_REQUEUES @ '').'')
     @ scope_block e concerns"

definition requeue_plane_task :: "surround \<Rightarrow> string \<Rightarrow> string \<Rightarrow> string \<Rightarrow> watch \<Rightarrow> watch \<times> bool" where
  "requeue_plane_task e task reason concerns w =
     (if \<not> en_plane_opens e (wt_tick w) then (clock_tick w, False)
      else let (b1, issue) = fetch_issue (wt_board w) task
           in case issue of
                None \<Rightarrow> (clock_tick (w\<lparr>wt_board := b1\<rparr>), False)
              | Some i \<Rightarrow>
                  let n = requeue_count (is_labels i);
                      note = requeue_note e (rv_pr_number (wt_st w)) reason concerns n;
                      (b2, ok) =
                        (if n \<ge> MAX_REQUEUES
                         then requeue_writes task (labels_with_requeue_count (is_labels i) n [''needs-human'']) STATE_BLOCKED note b1
                         else requeue_writes task (labels_with_requeue_count (is_labels i) (n + 1) []) STATE_READY note b1)
                  in (clock_tick (w\<lparr>wt_board := b2\<rparr>), ok))"

section \<open>Closing\<close>

definition durable_pr_head_ref :: "int \<Rightarrow> string" where
  "durable_pr_head_ref n = ''refs/pull/'' @ show_int n @ ''/head''"

text \<open>\<^const>\<open>None\<close> is an exception; the result is the campaign's spec file, empty without one.\<close>

definition record_close_receipt :: "surround \<Rightarrow> string \<Rightarrow> pull_request \<Rightarrow> string \<Rightarrow> watch \<Rightarrow> watch \<times> string option" where
  "record_close_receipt e task p reason w =
     (if \<not> en_plane_opens e (wt_tick w) then (clock_tick w, None)
      else let (b1, issue) = fetch_issue (wt_board w) task
           in case issue of
                None \<Rightarrow> (clock_tick (w\<lparr>wt_board := b1\<rparr>), None)
              | Some i \<Rightarrow>
                  let spec_file = en_spec_file e i; n = rv_pr_number (wt_st w);
                      branch_ref = py_strip (pr_head_ref p);
                      lines = [''Close receipt for PR #'' @ show_int n @ '' (`'' @ reason @ ''`)'',
                               ''durable_head_ref: `'' @ durable_pr_head_ref n @ ''`'', ''spec_file: `'' @ spec_file @ ''`'']
                              @ (if branch_ref \<noteq> [] then [''closed_branch: `'' @ branch_ref @ ''`''] else [])
                  in if spec_file = [] then (clock_tick (w\<lparr>wt_board := b1\<rparr>), Some [])
                     else let (b2, ok) = comment_issue b1 task (py_join [CHR 0x0A] lines)
                          in (clock_tick (w\<lparr>wt_board := b2\<rparr>), if ok then Some spec_file else None))"

definition PRESERVED_WORK_PATTERNS :: "string list" where
  "PRESERVED_WORK_PATTERNS =
     [''work preserved'', ''preserved on branch'', ''preserved in the branch'', ''preserved on it'', ''preserved on origin'',
      ''preserved in branch'']"

definition close_comment_claims_preserved_work :: "string \<Rightarrow> bool" where
  "close_comment_claims_preserved_work text = list_ex (\<lambda>p. str_contains p (py_lower text)) PRESERVED_WORK_PATTERNS"

definition branch_delete_allowed_after_close :: "string \<Rightarrow> bool \<Rightarrow> bool" where
  "branch_delete_allowed_after_close text durable_receipt_recorded =
     (durable_receipt_recorded \<and> \<not> close_comment_claims_preserved_work text)"

definition close_text :: "surround \<Rightarrow> watch_settings \<Rightarrow> string \<Rightarrow> string \<Rightarrow> string \<Rightarrow> string \<Rightarrow> int \<Rightarrow> string" where
  "close_text e s reason detail task spec_file n =
     rw_bot_comment_marker (wsg_reviewer s) @ [CHR 0x0A] @ ''**Closing without merge** (reason=`'' @ reason
     @ ''`). A PR is never merged with unresolved review concerns '' @ em_dash
     @ '' the issue has been re-queued for a fresh attempt. Durable receipt recorded on Plane task `'' @ task
     @ ''` for `'' @ durable_pr_head_ref n @ ''` and `'' @ spec_file @ ''`.'' @ nl2 @ en_sanitize e detail"

definition delete_head_branch :: "pull_request \<Rightarrow> string \<Rightarrow> watch \<Rightarrow> watch" where
  "delete_head_branch p text w =
     (if pr_head_ref p \<noteq> [] \<and> branch_delete_allowed_after_close text True
      then w\<lparr>wt_forge := fst (gh_delete_branch (wt_forge w) (pr_head_ref p))\<rparr> else w)"

definition close_and_requeue ::
    "surround \<Rightarrow> watch_settings \<Rightarrow> pull_request \<Rightarrow> string \<Rightarrow> string \<Rightarrow> string \<Rightarrow> watch \<Rightarrow> watch" where
  "close_and_requeue e s p reason detail concerns w =
     (let task = or_empty (rv_plane_task_id (wt_st w)); n = rv_pr_number (wt_st w)
      in if task = [] then escalate_needs_human e s (reason @ '':no_task'') detail [] w
         else
           let (w1, requeued) = requeue_plane_task e task reason concerns w
           in if \<not> requeued then save_review w1
              else
                let (w2, receipt) = record_close_receipt e task p reason w1
                in case receipt of
                     None \<Rightarrow> save_review w2
                   | Some spec_file \<Rightarrow>
                       if spec_file = [] then save_review w2
                       else
                         let text = close_text e s reason detail task spec_file n;
                             w3 = w2\<lparr>wt_forge := fst (gh_post_comment (wt_forge w2) n text)\<rparr>;
                             (f4, closed) = gh_close_pr (wt_forge w3) n;
                             w4 = w3\<lparr>wt_forge := f4\<rparr>
                         in if \<not> closed then save_review w4
                            else unlink_state (retract_flag ''PR closed and re-queued'' (delete_head_branch p text w4)))"

end
