(* ===== verification/Review_Phases.thy ===== *)
theory Review_Phases
  imports Review_Watch "HOL-Library.Product_Lexorder"
begin

text \<open>
  The phases of the review watcher (\<open>entrypoints/pr_review_watcher/main.py\<close>): the repair of a red CI (phase 0), the
  self-review with its holds and preconditions (phase 1), the council, the outcome of a verdict with the ladder of fix
  passes, and one poll over the watched repositories.

  Prompts (and the campaign spec and static findings that only go into them) and the council's audit record are left out; the explanatory part of a comment is the parameter
  \<open>en_prose\<close>, except where something reads it back.
\<close>

section \<open>Ends of a step\<close>

text \<open>An exception is either missing containment, which skips the pull request, or any other, which leaves the poll.\<close>

datatype step_end = Finished | NoContainment | Crashed

datatype review_end = TreeUnclean | BackendError | ReviewCrashed | Verdict "member_verdict option"

definition autonomy_ref :: "pull_request \<Rightarrow> bool" where
  "autonomy_ref p = list_ex (\<lambda>x. prefix x (py_lower (pr_head_ref p))) [''goal/'', ''test/'', ''improve/'', ''spec-author/'']"

definition merging_repo :: "watch_settings \<Rightarrow> review_state \<Rightarrow> pull_request \<Rightarrow> watched_repo option" where
  "merging_repo s st p =
     (case wsg_repos s (rv_repo_key st) of
        Some r \<Rightarrow> if wr_auto_merge_on_ci_green r \<and> autonomy_ref p then Some r else None
      | None \<Rightarrow> None)"

section \<open>One review member\<close>

definition knows_member :: "string \<Rightarrow> bool" where
  "knows_member backend \<longleftrightarrow> backend \<in> {''claude_code'', ''codex_cli''}"

definition verdict_of_document :: "surround \<Rightarrow> json \<Rightarrow> member_verdict option" where
  "verdict_of_document e raw =
     (let checks = (case raw of JObj d \<Rightarrow> map_of d ''checks'' | _ \<Rightarrow> None)
      in case compute_verdict checks of
           None \<Rightarrow> None
         | Some (result, failing) \<Rightarrow>
             Some \<lparr>mv_result = result, mv_failing = failing,
                   mv_summary =
                     (if result = CONCERNS then failing_summary (en_show_time e) checks failing
                      else case raw of JObj d \<Rightarrow> or_empty (json_text (en_show_time e) (map_of d ''summary'')) | _ \<Rightarrow> [])\<rparr>)"

definition raw_verdict :: "surround \<Rightarrow> member_run \<Rightarrow> json option" where
  "raw_verdict e m =
     (case mr_verdict_file m of
        Some j \<Rightarrow> if j = JNull then last_json_object (en_decode e) (mr_stdout m) else Some j
      | None \<Rightarrow> last_json_object (en_decode e) (mr_stdout m))"

definition run_member_review :: "surround \<Rightarrow> string \<Rightarrow> string \<Rightarrow> watch \<Rightarrow> watch \<times> review_end" where
  "run_member_review e backend model w =
     (let m = en_member e (wt_tick w) backend model
      in if mr_tree_conflicted m then (clock_tick w, TreeUnclean)
         else if \<not> knows_member backend then (clock_tick w, BackendError)
         else
           let w1 = clock_tick (note_runs (RunMember backend model) w)
           in case mr_exit m of
                MemberTimeout \<Rightarrow> (w1, BackendError)
              | MemberExit rc \<Rightarrow>
                  (case raw_verdict e m of
                     Some raw \<Rightarrow> (w1, case verdict_of_document e raw of None \<Rightarrow> ReviewCrashed | Some v \<Rightarrow> Verdict (Some v))
                   | None \<Rightarrow> if rc \<noteq> 0 then (w1, BackendError) else (w1, Verdict None)))"

section \<open>Fix passes\<close>

text \<open>\<open>Inl\<close> is an exception; \<open>Inr\<close> says whether the pass pushed.\<close>

definition run_fix_pass :: "surround \<Rightarrow> string \<Rightarrow> string \<Rightarrow> int \<Rightarrow> watch \<Rightarrow> watch \<times> (step_end + bool)" where
  "run_fix_pass e head_ref concerns level w =
     (let w1 = clock_tick (note_runs (RunFix head_ref concerns level) w)
      in (w1, case en_fix e (wt_tick w) of
                FixUnclean \<Rightarrow> Inr False
              | FixContainment \<Rightarrow> Inl NoContainment
              | FixRaises \<Rightarrow> Inl Crashed
              | FixResult pushed \<Rightarrow> Inr pushed))"

section \<open>Phase 0: a red CI\<close>

definition MAX_CI_FIX_ATTEMPTS :: int where "MAX_CI_FIX_ATTEMPTS = 3"
definition CI_FIX_WAIT_SECONDS :: int where "CI_FIX_WAIT_SECONDS = 120"
definition MAX_CI_SETTLE_CYCLES :: int where "MAX_CI_SETTLE_CYCLES = 10"

definition AUTOFIX_CHECK_NAMES :: "string list" where "AUTOFIX_CHECK_NAMES = [''lint (ruff)'', ''ruff'', ''lint'']"

definition check_base :: "string \<Rightarrow> string" where
  "check_base n = py_strip (takeWhile (\<lambda>c. c \<noteq> CHR '':'') (py_lower n))"

definition is_audit_check :: "string \<Rightarrow> bool" where
  "is_audit_check n = prefix ''audit'' (check_base n)"

definition is_fixable :: "string \<Rightarrow> bool" where
  "is_fixable n = list_ex (\<lambda>k. prefix k (check_base n)) AUTOFIX_CHECK_NAMES"

definition to_self_review :: "watch \<Rightarrow> watch" where
  "to_self_review w = save_review (on_st (\<lambda>st. st\<lparr>rv_phase := ''self_review''\<rparr>) w)"

definition format_audit_concerns :: "surround \<Rightarrow> review_state \<Rightarrow> string list \<Rightarrow> string" where
  "format_audit_concerns e st findings =
     en_prose e ''audit_concerns'' st @ nl2 @ py_join [CHR 0x0A] (map (\<lambda>f. ''- '' @ f) findings)"

definition phase0_audit_autofix :: "surround \<Rightarrow> watch_settings \<Rightarrow> pull_request \<Rightarrow> int \<Rightarrow> watch \<Rightarrow> watch" where
  "phase0_audit_autofix e s p attempts w0 =
     (let head_ref = py_strip (pr_head_ref p);
          findings = en_audit_findings e (wt_tick w0); w = clock_tick w0
      in if attempts \<ge> MAX_CI_FIX_ATTEMPTS
         then to_self_review
                (if findings = [] then w
                 else w\<lparr>wt_forge := fst (gh_post_comment (wt_forge w) (rv_pr_number (wt_st w))
                        (rw_bot_comment_marker (wsg_reviewer s) @ [CHR 0x0A] @ en_prose e ''audit_exhausted'' (wt_st w) @ nl2
                         @ en_sanitize e (py_join [CHR 0x0A] (map (\<lambda>f. ''- '' @ f) findings))))\<rparr>)
         else if head_ref = [] \<or> findings = [] then to_self_review w
         else
           let w1 = clock_tick (save_review (on_st (\<lambda>st. st\<lparr>rv_ci_fix_attempts := attempts + 1, rv_ci_fix_last_push_at := At (now_of e w)\<rparr>) w));
               (w2, outcome) = run_fix_pass e head_ref (format_audit_concerns e (wt_st w) findings) 0 w1
           in case outcome of Inl _ \<Rightarrow> to_self_review w2 | Inr pushed \<Rightarrow> w2)"

definition phase0_ruff :: "surround \<Rightarrow> pull_request \<Rightarrow> int \<Rightarrow> watch \<Rightarrow> watch" where
  "phase0_ruff e p attempts w =
     (let head_ref = py_strip (pr_head_ref p); g = en_ruff e (wt_tick w); w1 = clock_tick (note_runs (RunRuff head_ref) w)
      in if ru_raises g \<or> \<not> ru_changed g \<or> ru_push_rc g \<noteq> 0 then to_self_review w1
         else clock_tick (save_review (on_st (\<lambda>st. st\<lparr>rv_ci_fix_attempts := attempts + 1,
                                               rv_ci_fix_last_push_at := At (now_of e w1)\<rparr>) w1)))"

definition phase0_failed :: "surround \<Rightarrow> watch_settings \<Rightarrow> watched_repo \<Rightarrow> pull_request \<Rightarrow> string list \<Rightarrow> watch \<Rightarrow> watch" where
  "phase0_failed e s r p failed w =
     (let attempts = rv_ci_fix_attempts (wt_st w)
      in if list_ex is_audit_check failed \<and> wsg_autofix_audit s then phase0_audit_autofix e s p attempts w
         else if attempts \<ge> MAX_CI_FIX_ATTEMPTS then to_self_review w
         else if \<not> list_ex is_fixable failed \<and> failed \<noteq> [] then to_self_review w
         else if \<not> wr_has_local_path r \<or> py_strip (pr_head_ref p) = [] then to_self_review w
         else phase0_ruff e p attempts w)"

definition phase0_ci_fix :: "surround \<Rightarrow> watch_settings \<Rightarrow> pull_request \<Rightarrow> watch \<Rightarrow> watch \<times> step_end" where
  "phase0_ci_fix e s p w =
     (case wsg_repos s (rv_repo_key (wt_st w)) of
        None \<Rightarrow> (to_self_review w, Finished)
      | Some r \<Rightarrow>
          let (w1, ci) = ci_status_of r p w
          in if green ci then (to_self_review (on_st (\<lambda>st. st\<lparr>rv_ci_settle_cycles := 0\<rparr>) w1), Finished)
             else if ci_failed ci = []
             then let cycles = rv_ci_settle_cycles (wt_st w1) + 1
                  in if cycles < MAX_CI_SETTLE_CYCLES
                     then (save_review (on_st (\<lambda>st. st\<lparr>rv_ci_settle_cycles := cycles\<rparr>) w1), Finished)
                     else (to_self_review (on_st (\<lambda>st. st\<lparr>rv_ci_settle_cycles := 0\<rparr>) w1), Finished)
             else
               let w2 = on_st (\<lambda>st. st\<lparr>rv_ci_settle_cycles := 0\<rparr>) w1
               in case rv_ci_fix_last_push_at (wt_st w2) of
                    BadStamp \<Rightarrow> (w2, Crashed)
                  | NoStamp \<Rightarrow> (phase0_failed e s r p (ci_failed ci) w2, Finished)
                  | At t \<Rightarrow>
                      if now_of e w2 - t < td_seconds CI_FIX_WAIT_SECONDS then (clock_tick w2, Finished)
                      else (phase0_failed e s r p (ci_failed ci) (clock_tick w2), Finished))"

section \<open>Phase 1: holds\<close>

definition fix_dispatch_unrecorded :: "review_state \<Rightarrow> bool" where
  "fix_dispatch_unrecorded st \<longleftrightarrow> 0 < rv_fix_attempts st \<and> rv_last_fix_pass_pushed st = None"

definition is_our_fix_push :: "review_state \<Rightarrow> string \<Rightarrow> bool" where
  "is_our_fix_push st sha \<longleftrightarrow>
     py_strip (rv_last_fix_push_sha st) \<noteq> [] \<and> sha = py_strip (rv_last_fix_push_sha st) \<or> fix_dispatch_unrecorded st"

definition has_comment_id :: "int option \<Rightarrow> bool" where
  "has_comment_id c \<longleftrightarrow> c \<noteq> None \<and> c \<noteq> Some 0"

definition reset_on_external_push :: "string \<Rightarrow> watch \<Rightarrow> watch" where
  "reset_on_external_push sha w =
     (let st = wt_st w; previous = py_strip (rv_last_concerns_head_sha st)
      in if has_comment_id (rv_concerns_comment_id st) \<and> sha \<noteq> [] \<and> previous \<noteq> [] \<and> sha \<noteq> previous \<and> \<not> is_our_fix_push st sha
         then save_review (on_st (\<lambda>st. st\<lparr>rv_fix_attempts := 0, rv_last_concerns_summary := [], rv_last_concerns_head_sha := [],
                rv_last_fix_pass_pushed := None, rv_last_fix_push_sha := [], rv_fix_strategy_level := 0\<rparr>)
                (retract_flag (''superseded by new push '' @ em_dash @ '' re-review resumed'') w))
         else w)"

definition BACKEND_UNAVAILABLE_RESUME_S :: int where "BACKEND_UNAVAILABLE_RESUME_S = 3600"

definition reviewer_backend_unavailable :: string where "reviewer_backend_unavailable = ''reviewer_backend_unavailable''"

definition park_started :: "review_state \<Rightarrow> datetime option" where
  "park_started st =
     (case rv_council_park_started_at st of
        NoStamp \<Rightarrow> stamp_time (rv_escalated_at st)
      | At t \<Rightarrow> Some t
      | BadStamp \<Rightarrow> stamp_time (rv_escalated_at st))"

definition expire_backend_park :: "surround \<Rightarrow> watch_settings \<Rightarrow> string \<Rightarrow> watch \<Rightarrow> watch" where
  "expire_backend_park e s sha w =
     (let st = wt_st w; cap_hours = cs_max_council_park_hours (rw_council (wsg_reviewer s))
      in if \<not> (rv_escalated_needs_human st \<and> rv_escalated_reason st = reviewer_backend_unavailable) then w
         else if rv_council_park st \<and> (case park_started st of None \<Rightarrow> False | Some t \<Rightarrow> now_of e w - t \<ge> td_seconds (cap_hours * 3600))
         then escalate_needs_human e s ''council_unavailable_capped'' (en_prose e ''council_unavailable_capped'' st) sha
                (on_st (\<lambda>st. st\<lparr>rv_escalated_needs_human := False\<rparr>) (clock_tick w))
         else if (case stamp_time (rv_escalated_at st) of
                    None \<Rightarrow> True | Some t \<Rightarrow> now_of e w - t \<ge> td_seconds BACKEND_UNAVAILABLE_RESUME_S)
         then save_review (on_st (\<lambda>st. st\<lparr>rv_escalated_needs_human := False, rv_escalated_head_sha := [], rv_escalated_reason := [],
                rv_escalated_at := NoStamp, rv_backend_error_passes := 0, rv_council_park := False,
                rv_council_park_started_at := NoStamp\<rparr>)
                (retract_flag (''backend cooldown elapsed '' @ em_dash @ '' automated review resumed'') (clock_tick w)))
         else clock_tick w)"

definition MAX_CI_GREEN_RETRACTIONS :: int where "MAX_CI_GREEN_RETRACTIONS = 3"

definition recent_concern :: "datetime \<Rightarrow> string \<Rightarrow> concern_note \<Rightarrow> bool" where
  "recent_concern now escalated_head c \<longleftrightarrow>
     cn_head_sha c \<noteq> [] \<and> (case stamp_time (cn_raised_at c) of
        None \<Rightarrow> False | Some t \<Rightarrow> cn_head_sha c = escalated_head \<or> now - t < td_seconds 86400)"

definition unfixed_concerns :: "datetime \<Rightarrow> review_state \<Rightarrow> string \<Rightarrow> bool" where
  "unfixed_concerns now st sha \<longleftrightarrow>
     sha \<noteq> [] \<and> sha = py_strip (rv_last_concerns_head_sha st)
     \<or> list_ex (\<lambda>(k, c). recent_concern now (py_strip (rv_escalated_head_sha st)) c) (rv_concern_history st)"

definition green_retraction_text :: string where
  "green_retraction_text =
     ''CI green on unchanged head '' @ em_dash @ '' test suite validates implementation; automated review resumed''"

text \<open>The hold of an escalated pull request; the result says whether the review goes on.\<close>

definition hold_unchanged :: "surround \<Rightarrow> watch_settings \<Rightarrow> pull_request \<Rightarrow> string \<Rightarrow> watch \<Rightarrow> watch \<times> bool" where
  "hold_unchanged e s p sha w =
     (let n = rv_ci_green_retraction_count (wt_st w)
      in if unfixed_concerns (now_of e w) (wt_st w) sha \<or> n \<ge> MAX_CI_GREEN_RETRACTIONS then (clock_tick w, False)
         else case merging_repo s (wt_st w) p of
                None \<Rightarrow> (clock_tick w, False)
              | Some r \<Rightarrow>
                  let (w1, ci) = ci_status_of r p (clock_tick w)
                  in if \<not> green ci then (w1, False)
                     else (save_review (on_st (\<lambda>st. st\<lparr>rv_escalated_needs_human := False, rv_escalated_head_sha := [],
                             rv_no_verdict_passes := 0, rv_fix_attempts := 0, rv_last_concerns_summary := [],
                             rv_last_concerns_head_sha := [], rv_last_fix_pass_pushed := None,
                             rv_ci_green_retraction_count := n + 1\<rparr>) (retract_flag green_retraction_text w1)), True))"

definition hold_escalated :: "surround \<Rightarrow> watch_settings \<Rightarrow> pull_request \<Rightarrow> string \<Rightarrow> watch \<Rightarrow> watch \<times> bool" where
  "hold_escalated e s p sha w =
     (let escalated_sha = py_strip (rv_escalated_head_sha (wt_st w))
      in if \<not> rv_escalated_needs_human (wt_st w) then (w, True)
         else if escalated_sha = []
         then (if sha \<noteq> [] then (save_review (on_st (\<lambda>st. st\<lparr>rv_escalated_head_sha := sha\<rparr>) w), False)
               else (save_review (on_st (\<lambda>st. st\<lparr>rv_escalated_needs_human := False, rv_no_verdict_passes := 0\<rparr>) w), True))
         else if sha \<noteq> [] \<and> sha \<noteq> escalated_sha
         then (save_review (on_st (\<lambda>st. st\<lparr>rv_escalated_needs_human := False, rv_escalated_head_sha := [], rv_no_verdict_passes := 0\<rparr>)
                 (retract_flag (''new push '' @ em_dash @ '' automated review resumed'') w)), True)
         else hold_unchanged e s p sha w)"

section \<open>Phase 1: CI as a precondition\<close>

definition see_check :: "string list \<Rightarrow> string \<Rightarrow> string \<Rightarrow> (string \<times> check_seen) list \<Rightarrow> (string \<times> check_seen) list" where
  "see_check failed sha c history =
     (let old = (case map_of history c of
                   Some h \<Rightarrow> h | None \<Rightarrow> \<lparr>ch_last_seen_sha = sha, ch_times_passed = 0, ch_times_failed = 0\<rparr>)
      in AList.update c
           (if c \<notin> set failed then old\<lparr>ch_last_seen_sha := sha, ch_times_passed := ch_times_passed old + 1\<rparr>
            else old\<lparr>ch_last_seen_sha := sha, ch_times_failed := ch_times_failed old + 1\<rparr>) history)"

definition update_check_history :: "string list \<Rightarrow> string list \<Rightarrow> string \<Rightarrow> review_state \<Rightarrow> review_state" where
  "update_check_history failed completed sha st =
     st\<lparr>rv_ci_check_history := fold (see_check failed sha) completed (rv_ci_check_history st)\<rparr>"

definition dense_failure :: "check_seen \<Rightarrow> bool" where
  "dense_failure h \<longleftrightarrow>
     (let total = ch_times_passed h + ch_times_failed h
      in 0 < total \<and> 30 * of_int total \<le> (100 * of_int (ch_times_failed h) :: rat))"

definition should_escalate_ci_wait :: "review_state \<Rightarrow> string list \<Rightarrow> string list \<Rightarrow> string option" where
  "should_escalate_ci_wait st missing required =
     (let history = map_of (rv_ci_check_history st); wait = rv_ci_wait_cycles st;
          never_seen = filter (\<lambda>c. history c = None) missing;
          already_seen = filter (\<lambda>c. history c \<noteq> None) missing
      in if never_seen \<noteq> []
         then (if list_ex (\<lambda>c. c \<notin> set required) never_seen \<and> wait \<ge> 20 then Some ''ci_misconfigured_check''
               else if list_ex (\<lambda>c. c \<in> set required) never_seen \<and> wait \<ge> 60 then Some ''ci_never_settled_late_registration''
               else None)
         else if list_ex (\<lambda>c. dense_failure (the (history c))) already_seen \<and> wait \<ge> 40 then Some ''ci_persistently_red_dense_failure''
         else if wait \<ge> 40 then Some ''ci_never_settled_threshold_exceeded'' else None)"

text \<open>Waiting with a limit on the polls, then the escalation.\<close>

definition wait_or_escalate :: "surround \<Rightarrow> watch_settings \<Rightarrow> int \<Rightarrow> string \<Rightarrow> string \<Rightarrow> watch \<Rightarrow> watch" where
  "wait_or_escalate e s limit reason sha w =
     (if rv_ci_wait_cycles (wt_st w) < limit then save_review w
      else escalate_needs_human e s reason (en_prose e reason (wt_st w)) sha w)"

definition count_wait :: "watch \<Rightarrow> watch" where
  "count_wait w = on_st (\<lambda>st. st\<lparr>rv_ci_wait_cycles := rv_ci_wait_cycles st + 1\<rparr>) w"

definition ci_red :: "surround \<Rightarrow> watch_settings \<Rightarrow> watched_repo \<Rightarrow> pull_request \<Rightarrow> string \<Rightarrow> string list \<Rightarrow> watch \<Rightarrow> watch" where
  "ci_red e s r p sha failed w =
     (let w1 = count_wait w;
          (f, completed) = gh_get_completed_checks (wt_forge w1) p (wr_ci_ignored_checks r);
          w2 = on_st (update_check_history failed completed sha) (w1\<lparr>wt_forge := f\<rparr>)
      in case should_escalate_ci_wait (wt_st w2) failed (wr_required_checks r) of
           Some reason \<Rightarrow> escalate_needs_human e s reason (en_prose e reason (wt_st w2)) sha w2
         | None \<Rightarrow> save_review w2)"

definition ci_unsettled ::
    "surround \<Rightarrow> watch_settings \<Rightarrow> watched_repo \<Rightarrow> string \<Rightarrow> string list \<Rightarrow> string list \<Rightarrow> string list \<Rightarrow> watch \<Rightarrow> watch" where
  "ci_unsettled e s r sha pending completed missing w =
     (let w1 = on_st (update_check_history [] completed sha) (count_wait w);
          history = map_of (rv_ci_check_history (wt_st w1));
          never_reg = filter (\<lambda>c. history c = None \<and> c \<notin> set (wr_required_checks r)) missing;
          late_reg = filter (\<lambda>c. history c = None \<and> c \<in> set (wr_required_checks r)) missing;
          stuck = filter (\<lambda>c. history c \<noteq> None) missing
      in if pending \<noteq> [] then wait_or_escalate e s 40 ''ci_never_settled_pending'' sha w1
         else if completed = [] then wait_or_escalate e s 60 ''ci_never_settled_no_checks'' sha w1
         else if never_reg \<noteq> [] then escalate_needs_human e s ''ci_misconfigured_check'' (en_prose e ''ci_misconfigured_check'' (wt_st w1)) sha w1
         else if late_reg \<noteq> [] then wait_or_escalate e s 60 ''ci_never_settled_late_registration'' sha w1
         else if stuck \<noteq> [] then wait_or_escalate e s 40 ''ci_never_settled_stuck_check'' sha w1
         else save_review w1)"

definition ci_precondition :: "surround \<Rightarrow> watch_settings \<Rightarrow> pull_request \<Rightarrow> string \<Rightarrow> watch \<Rightarrow> watch \<times> bool" where
  "ci_precondition e s p sha w =
     (case merging_repo s (wt_st w) p of
        None \<Rightarrow> (w, True)
      | Some r \<Rightarrow>
          let (f1, failed) = gh_get_failed_checks (wt_forge w) p (wr_ci_ignored_checks r)
          in if failed \<noteq> [] then (ci_red e s r p sha failed (w\<lparr>wt_forge := f1\<rparr>), False)
             else
               let (f2, pending) = gh_get_incomplete_checks f1 p (wr_ci_ignored_checks r);
                   (f3, completed) = gh_get_completed_checks f2 p (wr_ci_ignored_checks r);
                   missing = missing_checks (wr_required_checks r) completed;
                   w3 = w\<lparr>wt_forge := f3\<rparr>
               in if pending \<noteq> [] \<or> completed = [] \<or> missing \<noteq> []
                  then (ci_unsettled e s r sha pending completed missing w3, False)
                  else (on_st (\<lambda>st. st\<lparr>rv_ci_wait_cycles := 0\<rparr>) w3, True))"

section \<open>The files of a change\<close>

definition DIFF_LIMIT :: nat where "DIFF_LIMIT = 60000"

text \<open>The path behind the first \<open>" b/"\<close> of each header line.\<close>

definition header_path :: "string \<Rightarrow> string option" where
  "header_path line =
     (if prefix ''diff --git '' line
      then case str_find '' b/'' line of
             None \<Rightarrow> None
           | Some i \<Rightarrow> (let path = py_strip (drop (i + 3) line) in if path = [] then None else Some path)
      else None)"

definition files_from_diff :: "string \<Rightarrow> string list" where
  "files_from_diff diff = List.map_filter header_path (splitlines diff)"

definition no_content_diff :: string where
  "no_content_diff =
     ''(This pull request changes no files.'' @ [CHR 0x0A]
     @ ''It is a no-content change -- typically a merge that reconciles history'' @ [CHR 0x0A]
     @ ''without moving content. Judge it on its title, description and commit'' @ [CHR 0x0A]
     @ ''structure rather than on a diff.)'' @ [CHR 0x0A]"

definition pr_files_of :: "surround \<Rightarrow> watch \<Rightarrow> watch \<times> string list" where
  "pr_files_of e w =
     (let n = rv_pr_number (wt_st w);
          (f, raw) = gh_pr_diff (en_file_summary e) (wt_forge w) n;
          diff = (if raw = [] then no_content_diff else raw)
      in if DIFF_LIMIT < length diff
         then let (f', files) = gh_list_pr_files f n in (w\<lparr>wt_forge := f'\<rparr>, files)
         else (w\<lparr>wt_forge := f\<rparr>, files_from_diff diff))"

definition council_exempt_self_fix :: "pull_request \<Rightarrow> bool" where
  "council_exempt_self_fix p = prefix ''review/'' (py_lower (py_strip (pr_head_ref p)))"

definition needs_council :: "watch_settings \<Rightarrow> pull_request \<Rightarrow> string list \<Rightarrow> bool" where
  "needs_council s p files \<longleftrightarrow>
     sensitive_paths_in_diff files (cs_guardrail_paths (rw_council (wsg_reviewer s))) \<noteq> [] \<and> \<not> council_exempt_self_fix p"

section \<open>The outcome of a verdict\<close>

definition track_concern_raised :: "surround \<Rightarrow> datetime \<Rightarrow> string \<Rightarrow> string \<Rightarrow> review_state \<Rightarrow> review_state" where
  "track_concern_raised e now summary sha st =
     (let sig = concerns_signature e summary; history = rv_concern_history st;
          known = (case map_of history sig of Some c \<Rightarrow> cn_head_sha c = sha | None \<Rightarrow> False)
      in st\<lparr>rv_concern_history :=
              (if sig \<noteq> [] \<and> \<not> known then AList.update sig \<lparr>cn_head_sha = sha, cn_raised_at = At now\<rparr> history else history),
            rv_last_concerns_head_sha := sha, rv_last_concerns_summary := summary\<rparr>)"

definition repeated_no_progress :: "review_state \<Rightarrow> string \<Rightarrow> bool" where
  "repeated_no_progress st sha \<longleftrightarrow>
     0 < rv_fix_attempts st \<and> rv_last_fix_pass_pushed st = Some False \<and> sha \<noteq> [] \<and> sha = py_strip (rv_last_concerns_head_sha st)"

definition exhausted_detail :: "review_state \<Rightarrow> string \<Rightarrow> string" where
  "exhausted_detail st summary =
     ''Could not resolve review concerns after '' @ show_int (rv_fix_attempts st) @ '' fix attempts. Last concerns:'' @ nl2 @ summary"

definition no_head_ref_detail :: string where
  "no_head_ref_detail = ''The PR head branch could not be determined, so concerns cannot be auto-fixed.''"

definition concern_body :: "surround \<Rightarrow> watch_settings \<Rightarrow> string \<Rightarrow> string" where
  "concern_body e s summary =
     rw_bot_comment_marker (wsg_reviewer s) @ [CHR 0x0A] @ ''**Self-review concerns** '' @ em_dash @ '' auto-fixing (up to ''
     @ show_int (rw_max_fix_attempts (wsg_reviewer s)) @ '' attempts; re-queued if still unresolved):'' @ nl2 @ en_sanitize e summary"

text \<open>After a fix pass: the new head, and the escalation another process may have written meanwhile.\<close>

definition note_fix_push :: "bool \<Rightarrow> watch \<Rightarrow> watch" where
  "note_fix_push pushed w =
     (if \<not> pushed then w
      else let (f, p) = gh_get_pr (wt_forge w) (rv_pr_number (wt_st w))
           in on_st (\<lambda>st. st\<lparr>rv_last_fix_push_sha := (case p of None \<Rightarrow> [] | Some p \<Rightarrow> pr_head_sha_of p)\<rparr>) (w\<lparr>wt_forge := f\<rparr>))"

definition take_disk_escalation :: "surround \<Rightarrow> watch \<Rightarrow> watch" where
  "take_disk_escalation e w =
     (case wt_file w of
        None \<Rightarrow> w
      | Some file \<Rightarrow>
          let disk = en_others_write e (wt_tick w) file
          in clock_tick (if rv_escalated_needs_human disk \<and> \<not> rv_escalated_needs_human (wt_st w)
                   then on_st (\<lambda>st. st\<lparr>rv_escalated_needs_human := True, rv_escalated_head_sha :=
                          (if rv_escalated_head_sha disk \<noteq> [] then rv_escalated_head_sha disk else rv_escalated_head_sha st)\<rparr>) w
                   else w))"

definition dispatch_fix :: "surround \<Rightarrow> pull_request \<Rightarrow> string \<Rightarrow> string \<Rightarrow> watch \<Rightarrow> watch \<times> step_end" where
  "dispatch_fix e p sha summary w =
     (let w1 = save_review (on_st (\<lambda>st. st\<lparr>rv_fix_attempts := rv_fix_attempts st + 1, rv_last_concerns_head_sha := sha,
                                     rv_last_fix_pass_pushed := None\<rparr>) w);
          (w2, outcome) = run_fix_pass e (pr_head_ref p) summary (rv_fix_strategy_level (wt_st w1)) w1
      in case outcome of
           Inl x \<Rightarrow> (w2, x)
         | Inr pushed \<Rightarrow>
             let w3 = note_fix_push pushed (on_st (\<lambda>st. st\<lparr>rv_last_concerns_summary := normalize_concerns_summary summary,
                                                     rv_last_fix_pass_pushed := Some pushed\<rparr>) w2)
             in (save_review (take_disk_escalation e w3), Finished))"

definition resolve_concerns :: "surround \<Rightarrow> watch_settings \<Rightarrow> pull_request \<Rightarrow> string \<Rightarrow> string \<Rightarrow> watch \<Rightarrow> watch \<times> step_end" where
  "resolve_concerns e s p sha summary w =
     (if rv_fix_attempts (wt_st w) \<ge> rw_max_fix_attempts (wsg_reviewer s)
      then (close_and_requeue e s p ''fix_attempts_exhausted'' (exhausted_detail (wt_st w) summary) summary w, Finished)
      else
        let w1 = (if rv_fix_attempts (wt_st w) = 0
                  then let (f, posted) = gh_post_comment (wt_forge w) (rv_pr_number (wt_st w)) (concern_body e s summary)
                       in on_st (\<lambda>st. case posted of None \<Rightarrow> st | Some cid \<Rightarrow> st\<lparr>rv_concerns_comment_id := cid\<rparr>) (w\<lparr>wt_forge := f\<rparr>)
                  else w)
        in if pr_head_ref p = [] then (close_and_requeue e s p ''no_head_ref'' no_head_ref_detail [] w1, Finished)
           else dispatch_fix e p sha summary w1)"

definition ci_validates :: "watch_settings \<Rightarrow> pull_request \<Rightarrow> watch \<Rightarrow> watch \<times> bool" where
  "ci_validates s p w =
     (if rv_ci_green_retraction_count (wt_st w) < MAX_CI_GREEN_RETRACTIONS then (w, False)
      else case merging_repo s (wt_st w) p of
             None \<Rightarrow> (w, False)
           | Some r \<Rightarrow> (let (w1, ci) = ci_status_of r p w in (w1, green ci)))"

definition dispatch_verdict_outcome ::
    "surround \<Rightarrow> watch_settings \<Rightarrow> pull_request \<Rightarrow> string \<Rightarrow> string \<Rightarrow> string \<Rightarrow> watch \<Rightarrow> watch \<times> step_end" where
  "dispatch_verdict_outcome e s p result summary sha w =
     (let w1 = (if result = CONCERNS \<and> sha \<noteq> []
                then clock_tick (on_st (track_concern_raised e (now_of e w) summary sha) w) else w);
          w2 = publish_reviewer_verdict sha (if result = LGTM then ''success'' else ''failure'')
                 (if result = LGTM then ''reviewer LGTM'' else ''reviewer concerns '' @ em_dash @ '' auto-fixing'') w1
      in if result = LGTM then (merge_and_done e s p ''self_review_lgtm'' w2, Finished)
         else if \<not> repeated_no_progress (wt_st w2) sha then resolve_concerns e s p sha summary w2
         else
           let (w3, validated) = ci_validates s p w2; level = rv_fix_strategy_level (wt_st w3)
           in if validated then (merge_and_done e s p ''ci_validated_after_retraction'' w3, Finished)
              else if level + 1 \<le> rw_max_fix_strategy_level (wsg_reviewer s)
              then resolve_concerns e s p sha summary (save_review (on_st (\<lambda>st. st\<lparr>rv_fix_strategy_level := level + 1\<rparr>) w3))
              else (escalate_needs_human e s ''fix_pass_no_progress'' (en_prose e ''fix_pass_no_progress'' (wt_st w3)) sha w3, Finished))"

end
