(* ===== verification/Review_Poll.thy ===== *)
theory Review_Poll
  imports Review_Phases
begin

text \<open>
  The review watcher (\<open>entrypoints/pr_review_watcher/main.py\<close>), from the council and the self-review to a poll: which
  backend reviews, what a run without a verdict does to the state, and the order in which one poll visits the open pull
  requests of a repository.
\<close>

section \<open>The council\<close>

text \<open>\<open>detect_model(x, default=x)\<close> of a value, where it is a text.\<close>

definition family_of :: "string \<Rightarrow> string option" where
  "family_of x = detect_model (Some x) (Some x)"

definition cools_member :: "string \<Rightarrow> cooldown_detail \<Rightarrow> bool" where
  "cools_member model d \<longleftrightarrow>
     (if cd_limit_kind d = JStr MODEL_WEEKLY then (case cd_model d of JStr x \<Rightarrow> family_of x = family_of model | _ \<Rightarrow> False) else True)"

definition member_on_cooldown :: "usage_file option \<Rightarrow> datetime \<Rightarrow> seat \<Rightarrow> bool" where
  "member_on_cooldown usage now m =
     (case usage of
        None \<Rightarrow> False
      | Some file \<Rightarrow> list_ex (cools_member (se_model m)) (worker_backend_cooldown_details file (se_backend m) now))"

datatype seats_end = SeatsFailed review_end | Seats "member_result list"

fun run_seats :: "surround \<Rightarrow> seat list \<Rightarrow> member_result list \<Rightarrow> watch \<Rightarrow> watch \<times> seats_end" where
  "run_seats e [] results w = (w, Seats results)"
| "run_seats e (m # ms) results w =
     (let (w1, r) = run_member_review e (se_backend m) (se_model m) w
      in case r of
           Verdict None \<Rightarrow>
             run_seats e ms (results @ [(m, \<lparr>mv_result = CONCERNS, mv_failing = [''no_verdict''],
               mv_summary = se_backend m @ ''/'' @ se_model m @ '' produced no parseable verdict''\<rparr>)]) w1
         | Verdict (Some v) \<Rightarrow> run_seats e ms (results @ [(m, v)]) w1
         | failed \<Rightarrow> (w1, SeatsFailed failed))"

definition review_skipped :: "surround \<Rightarrow> watch_settings \<Rightarrow> string \<Rightarrow> review_end \<Rightarrow> watch \<Rightarrow> watch \<times> step_end" where
  "review_skipped e s sha r w =
     (let cap = rw_max_self_review_loops (wsg_reviewer s)
      in case r of
           TreeUnclean \<Rightarrow>
             let w1 = on_st (\<lambda>st. st\<lparr>rv_env_unclean_passes := rv_env_unclean_passes st + 1\<rparr>) w
             in (save_review (if rv_env_unclean_passes (wt_st w1) \<ge> cap
                   then on_st (\<lambda>st. st\<lparr>rv_env_unclean_passes := 0\<rparr>)
                          (escalate_needs_human e s ''oc_source_tree_unclean'' (en_prose e ''oc_source_tree_unclean'' (wt_st w1)) sha w1)
                   else w1), Finished)
         | BackendError \<Rightarrow>
             let w1 = on_st (\<lambda>st. st\<lparr>rv_backend_error_passes := rv_backend_error_passes st + 1\<rparr>) w
             in (save_review (if rv_backend_error_passes (wt_st w1) \<ge> cap
                   then on_st (\<lambda>st. st\<lparr>rv_backend_error_passes := 0\<rparr>)
                          (escalate_needs_human e s reviewer_backend_unavailable (en_prose e ''backend_error'' (wt_st w1)) sha w1)
                   else w1), Finished)
         | _ \<Rightarrow> (w, Crashed))"

definition park_council :: "surround \<Rightarrow> watch_settings \<Rightarrow> string \<Rightarrow> nat \<Rightarrow> datetime \<Rightarrow> watch \<Rightarrow> watch" where
  "park_council e s sha available now w =
     (let w1 = on_st (\<lambda>st. st\<lparr>rv_council_park := True,
                rv_council_park_started_at := (if rv_council_park_started_at st = NoStamp then At now else rv_council_park_started_at st),
                rv_council_available_members := int available\<rparr>) w
      in escalate_needs_human e s reviewer_backend_unavailable (en_prose e ''council_quorum'' (wt_st w1)) sha w1)"

definition available_seats :: "surround \<Rightarrow> watch \<Rightarrow> seat list" where
  "available_seats e w = filter (\<lambda>m. \<not> member_on_cooldown (en_usage e (wt_tick w)) (now_of e w) m) COUNCIL_PANEL"

definition run_council :: "surround \<Rightarrow> watch_settings \<Rightarrow> pull_request \<Rightarrow> string \<Rightarrow> watch \<Rightarrow> watch \<times> step_end" where
  "run_council e s p sha w0 =
     (let available = available_seats e w0; now = now_of e w0; w = clock_tick w0
      in if int (length available) < cs_min_council_members (rw_council (wsg_reviewer s))
         then (park_council e s sha (length available) now w, Finished)
         else
           let w1 = on_st (\<lambda>st. st\<lparr>rv_council_park := False, rv_council_park_started_at := NoStamp\<rparr>) w;
               (w2, seats) = run_seats e available [] w1
           in case seats of
                SeatsFailed r \<Rightarrow> review_skipped e s sha r w2
              | Seats results \<Rightarrow>
                  let w3 = on_st (\<lambda>st. st\<lparr>rv_env_unclean_passes := 0, rv_backend_error_passes := 0\<rparr>) w2;
                      verdict = aggregate_council results;
                      w4 = w3\<lparr>wt_forge := fst (gh_post_comment (wt_forge w3) (rv_pr_number (wt_st w3))
                              (rw_bot_comment_marker (wsg_reviewer s) @ [CHR 0x0A] @ ''**Council review: '' @ mv_result verdict @ ''** ''
                               @ en_prose e ''council_review'' (wt_st w3) @ nl2 @ en_sanitize e (mv_summary verdict)))\<rparr>
                  in dispatch_verdict_outcome e s p (mv_result verdict) (mv_summary verdict) sha w4)"

section \<open>The single review\<close>

definition REVIEW_FALLBACK_MODELS :: "string \<rightharpoonup> string" where
  "REVIEW_FALLBACK_MODELS = [''codex_cli'' \<mapsto> ''codex'']"

text \<open>The backend and model that review, or \<^const>\<open>None\<close> when the review is deferred.\<close>

definition review_backend :: "surround \<Rightarrow> watch_settings \<Rightarrow> watch \<Rightarrow> (string \<times> string) option" where
  "review_backend e s w =
     (case en_usage e (wt_tick w) of
        None \<Rightarrow> Some (''claude_code'', ''haiku'')
      | Some file \<Rightarrow>
          (let selected = ws_selected_backend
             (select_worker_backend (en_allowed_backends e) file ''claude_code'' (wsg_dynamic_worker_backend s) (now_of e w))
           in if selected = Some ''claude_code'' then Some (''claude_code'', ''haiku'')
              else case selected of
                     None \<Rightarrow> None
                   | Some b \<Rightarrow> map_option (\<lambda>m. (b, m)) (REVIEW_FALLBACK_MODELS b)))"

definition no_verdict :: "surround \<Rightarrow> watch_settings \<Rightarrow> string \<Rightarrow> watch \<Rightarrow> watch" where
  "no_verdict e s sha w =
     (let w1 = on_st (\<lambda>st. st\<lparr>rv_no_verdict_passes := rv_no_verdict_passes st + 1\<rparr>) w
      in if rv_no_verdict_passes (wt_st w1) < rw_max_self_review_loops (wsg_reviewer s)
         then save_review (on_st (\<lambda>st. st\<lparr>rv_no_verdict_backoff_level := min 4 (rv_no_verdict_backoff_level st + 1)\<rparr>) w1)
         else
           let w2 = on_st (\<lambda>st. st\<lparr>rv_no_verdict_escalation_count := rv_no_verdict_escalation_count st + 1,
                               rv_no_verdict_backoff_level := 0\<rparr>) w1
           in save_review (on_st (\<lambda>st. st\<lparr>rv_no_verdict_passes := 0\<rparr>)
                (escalate_needs_human e s ''no_verdict_unreviewable'' (en_prose e ''no_verdict_unreviewable'' (wt_st w2)) sha w2)))"

definition verdict_result :: "member_verdict \<Rightarrow> string" where
  "verdict_result v = member_outcome v"

definition verdict_summary :: "member_verdict \<Rightarrow> string" where
  "verdict_summary v =
     (let composed = py_strip (mv_summary v)
      in if composed \<noteq> [] then composed
         else if verdict_result v = CONCERNS \<and> mv_failing v \<noteq> [] then ''Failed checks: '' @ py_join '', '' (mv_failing v)
         else ''(no summary)'')"

definition single_review :: "surround \<Rightarrow> watch_settings \<Rightarrow> pull_request \<Rightarrow> string \<Rightarrow> watch \<Rightarrow> watch \<times> step_end" where
  "single_review e s p sha w =
     (case review_backend e s w of
        None \<Rightarrow> (clock_tick w, Finished)
      | Some (backend, model) \<Rightarrow>
          let (w1, r) = run_member_review e backend model (clock_tick w)
          in case r of
               Verdict v \<Rightarrow>
                 let w2 = on_st (\<lambda>st. st\<lparr>rv_self_review_loops := rv_self_review_loops st + 1, rv_env_unclean_passes := 0,
                                     rv_backend_error_passes := 0\<rparr>) w1
                 in (case v of
                       None \<Rightarrow> (no_verdict e s sha w2, Finished)
                     | Some v \<Rightarrow>
                         dispatch_verdict_outcome e s p (verdict_result v) (verdict_summary v) sha
                           (on_st (\<lambda>st. st\<lparr>rv_no_verdict_passes := 0, rv_no_verdict_backoff_level := 0\<rparr>) w2))
             | failed \<Rightarrow> review_skipped e s sha failed w1)"

section \<open>Phase 1\<close>

definition review_change :: "surround \<Rightarrow> watch_settings \<Rightarrow> pull_request \<Rightarrow> string \<Rightarrow> watch \<Rightarrow> watch \<times> step_end" where
  "review_change e s p sha w =
     (let (w1, files) = pr_files_of e w
      in if needs_council s p files then run_council e s p sha w1 else single_review e s p sha w1)"

definition phase1 :: "surround \<Rightarrow> watch_settings \<Rightarrow> pull_request \<Rightarrow> watch \<Rightarrow> watch \<times> step_end" where
  "phase1 e s p w =
     (let sha = pr_head_sha_of p;
          (w1, go) = hold_escalated e s p sha (expire_backend_park e s sha (reset_on_external_push sha w))
      in if \<not> go then (w1, Finished)
         else let (w2, ready) = ci_precondition e s p sha w1
              in if \<not> ready then (w2, Finished) else review_change e s p sha w2)"

section \<open>A poll\<close>

text \<open>
  The watcher between two pull requests: the state files, the services, the clock's readings and the runs. A file is missing,
  holds a state, or cannot be parsed.
\<close>

datatype state_file = NoFile | BadFile | StateFile review_state

record fleet =
  fl_files :: "(string \<times> int) \<Rightarrow> state_file"
  fl_forge :: forge
  fl_board :: board
  fl_tick :: nat
  fl_runs :: "watch_run list"

definition enter :: "fleet \<Rightarrow> (string \<times> int) \<Rightarrow> review_state \<Rightarrow> watch" where
  "enter fl k st =
     \<lparr>wt_st = st, wt_file = (case fl_files fl k of StateFile f \<Rightarrow> Some f | _ \<Rightarrow> None), wt_forge = fl_forge fl, wt_board = fl_board fl, wt_tick = fl_tick fl, wt_runs = fl_runs fl\<rparr>"

definition leave :: "fleet \<Rightarrow> (string \<times> int) \<Rightarrow> watch \<Rightarrow> fleet" where
  "leave fl k w =
     \<lparr>fl_files = (fl_files fl)(k := (case wt_file w of None \<Rightarrow> NoFile | Some f \<Rightarrow> StateFile f)), fl_forge = wt_forge w, fl_board = wt_board w, fl_tick = wt_tick w, fl_runs = wt_runs w\<rparr>"

definition prune_orphan_state_files :: "string \<Rightarrow> int set \<Rightarrow> fleet \<Rightarrow> fleet" where
  "prune_orphan_state_files repo_key open_numbers fl =
     fl\<lparr>fl_files := (\<lambda>(r, n). if r = repo_key \<and> n \<notin> open_numbers then NoFile else fl_files fl (r, n))\<rparr>"

definition mentions_pr :: "int \<Rightarrow> string \<Rightarrow> bool" where
  "mentions_pr n text = (str_contains (''#'' @ show_int n) text \<or> str_contains (''/'' @ show_int n) text)"

definition review_task_of :: "string \<Rightarrow> int \<Rightarrow> issue \<Rightarrow> bool" where
  "review_task_of repo_key n i \<longleftrightarrow>
     (case is_state i of StateObj name \<Rightarrow> py_strip (or_empty name) = ''In Review'' | _ \<Rightarrow> False)
     \<and> label_value (is_labels i) ''repo'' = repo_key \<and> mentions_pr n (is_description i)"

definition find_plane_task_id :: "surround \<Rightarrow> string \<Rightarrow> int \<Rightarrow> fleet \<Rightarrow> fleet \<times> string option" where
  "find_plane_task_id e repo_key n fl =
     (if \<not> en_plane_opens e (fl_tick fl) then (fl\<lparr>fl_tick := fl_tick fl + 1\<rparr>, None)
      else let (b, issues) = list_issues (fl_board fl)
           in (fl\<lparr>fl_board := b, fl_tick := fl_tick fl + 1\<rparr>,
               case issues of None \<Rightarrow> None | Some is \<Rightarrow> map_option is_id (List.find (review_task_of repo_key n) is)))"

text \<open>The state a pull request is visited with; an unreadable file leaves it out.\<close>

definition discover :: "surround \<Rightarrow> string \<Rightarrow> pull_request \<Rightarrow> fleet \<Rightarrow> fleet \<times> review_state option" where
  "discover e repo_key p fl =
     (let k = (repo_key, pr_number p);
          refresh = (\<lambda>st. if pr_head_ref p = [] then st else st\<lparr>rv_head_ref := pr_head_ref p\<rparr>)
      in case fl_files fl k of
           StateFile st \<Rightarrow> (fl, Some (refresh st))
         | BadFile \<Rightarrow> (fl, None)
         | NoFile \<Rightarrow>
             let (fl1, task) = find_plane_task_id e repo_key (pr_number p) fl;
                 st = (new_state repo_key (pr_number p))\<lparr>rv_plane_task_id := task\<rparr>
             in (fl1\<lparr>fl_files := (fl_files fl1)(k := StateFile st)\<rparr>, Some (refresh st)))"

fun discover_all :: "surround \<Rightarrow> string \<Rightarrow> pull_request list \<Rightarrow> fleet \<Rightarrow> fleet \<times> (pull_request \<times> review_state) list" where
  "discover_all e repo_key [] fl = (fl, [])"
| "discover_all e repo_key (p # ps) fl =
     (if pr_draft p then discover_all e repo_key ps fl
      else let (fl1, found) = discover e repo_key p fl; (fl2, rest) = discover_all e repo_key ps fl1
           in (fl2, case found of None \<Rightarrow> rest | Some st \<Rightarrow> (p, st) # rest))"

definition review_priority :: "review_state \<Rightarrow> int \<times> int \<times> int" where
  "review_priority st =
     (let tier = (if rv_phase st = ''self_review'' \<and> rv_fix_attempts st = 0 then 0 else if rv_phase st = ''ci_fix'' then 1 else 2)
      in (tier, rv_fix_attempts st, rv_pr_number st))"

definition work_on_pr :: "surround \<Rightarrow> watch_settings \<Rightarrow> pull_request \<Rightarrow> watch \<Rightarrow> watch \<times> step_end" where
  "work_on_pr e s p w0 =
     (let w = (if rv_phase (wt_st w0) = ''human_review'' then on_st (\<lambda>st. st\<lparr>rv_phase := ''self_review''\<rparr>) w0 else w0)
      in if rv_phase (wt_st w) = ''ci_fix'' then phase0_ci_fix e s p w
         else if rv_phase (wt_st w) = ''self_review'' then phase1 e s p w else (w, Finished))"

definition visit :: "surround \<Rightarrow> watch_settings \<Rightarrow> pull_request \<Rightarrow> review_state \<Rightarrow> fleet \<Rightarrow> fleet \<times> step_end" where
  "visit e s p st fl =
     (let k = (rv_repo_key st, rv_pr_number st); (w, r) = work_on_pr e s p (enter fl k st) in (leave fl k w, r))"

text \<open>A visit that meets missing containment is skipped; any other exception ends the poll.\<close>

fun visit_all :: "surround \<Rightarrow> watch_settings \<Rightarrow> (pull_request \<times> review_state) list \<Rightarrow> fleet \<Rightarrow> fleet \<times> step_end" where
  "visit_all e s [] fl = (fl, Finished)"
| "visit_all e s ((p, st) # rest) fl =
     (let (fl1, r) = visit e s p st fl in if r = Crashed then (fl1, Crashed) else visit_all e s rest fl1)"

definition poll_repo :: "surround \<Rightarrow> watch_settings \<Rightarrow> string \<Rightarrow> fleet \<Rightarrow> fleet \<times> step_end" where
  "poll_repo e s repo_key fl =
     (let (f, prs) = gh_list_open_prs (fl_forge fl); fl0 = fl\<lparr>fl_forge := f\<rparr>
      in case prs of
           None \<Rightarrow> (fl0, Finished)
         | Some ps \<Rightarrow>
             let (fl1, worklist) = discover_all e repo_key ps (prune_orphan_state_files repo_key (pr_number ` set ps) fl0)
             in visit_all e s (sort_key (\<lambda>(p, st). review_priority st) worklist) fl1)"

text \<open>The watched repositories, in the order of the settings.\<close>

fun poll_once :: "surround \<Rightarrow> watch_settings \<Rightarrow> string list \<Rightarrow> fleet \<Rightarrow> fleet \<times> step_end" where
  "poll_once e s [] fl = (fl, Finished)"
| "poll_once e s (k # ks) fl =
     (let (fl1, r) = (if (case wsg_repos s k of None \<Rightarrow> False | Some r \<Rightarrow> wr_await_review r) then poll_repo e s k fl else (fl, Finished))
      in if r = Crashed then (fl1, Crashed) else poll_once e s ks fl1)"

end
