(* ===== verification/Review_Safety.thy ===== *)
theory Review_Safety
  imports Review_Poll
begin

text \<open>
  What the steps of the review watcher leave alone, the gates of a merge, and the stages of a visit through which a verdict
  reaches a merge.
\<close>

section \<open>Merges and closes among the requests\<close>

definition is_merge :: "gh_query \<Rightarrow> bool" where
  "is_merge q = (case q of PutMerge n m \<Rightarrow> True | _ \<Rightarrow> False)"

definition is_close :: "gh_query \<Rightarrow> bool" where
  "is_close q = (case q of PatchClosed n \<Rightarrow> True | _ \<Rightarrow> False)"

definition merges :: "forge \<Rightarrow> nat" where
  "merges f = length (filter (\<lambda>x. is_merge (fst x)) (fg_log f))"

definition closes :: "forge \<Rightarrow> nat" where
  "closes f = length (filter (\<lambda>x. is_close (fst x)) (fg_log f))"

lemma quiet_retry: "\<not> is_merge q \<Longrightarrow> merges (fst (gh_retry n f q)) = merges f" "\<not> is_close q \<Longrightarrow> closes (fst (gh_retry n f q)) = closes f"
proof (induction n arbitrary: f)
  case 0
  { case 1 then show ?case by (simp add: gh_retry.simps [of 0] gh_exchange_def merges_def case_prod_unfold Let_def split: option.splits) }
  { case 2 then show ?case by (simp add: gh_retry.simps [of 0] gh_exchange_def closes_def case_prod_unfold Let_def split: option.splits) }
next
  case (Suc n)
  { case 1 then show ?case using Suc.IH(1) [OF 1, of "fst (gh_exchange f q)"]
      by (cases "fg_server f (fg_calls f) q") (auto simp: gh_retry.simps [of "Suc n"] gh_exchange_def merges_def case_prod_unfold Let_def) }
  { case 2 then show ?case using Suc.IH(2) [OF 2, of "fst (gh_exchange f q)"]
      by (cases "fg_server f (fg_calls f) q") (auto simp: gh_retry.simps [of "Suc n"] gh_exchange_def closes_def case_prod_unfold Let_def) }
qed

lemma quiet_checked:
  "\<not> is_merge q \<Longrightarrow> merges (fst (gh_checked f q)) = merges f" "\<not> is_close q \<Longrightarrow> closes (fst (gh_checked f q)) = closes f"
  "\<not> is_merge q \<Longrightarrow> merges (fst (gh_request f q)) = merges f" "\<not> is_close q \<Longrightarrow> closes (fst (gh_request f q)) = closes f"
  by (simp_all add: gh_checked_def gh_request_def case_prod_unfold Let_def quiet_retry)

lemma quiet_exchange:
  "\<not> is_merge q \<Longrightarrow> merges (fst (gh_exchange f q)) = merges f" "\<not> is_close q \<Longrightarrow> closes (fst (gh_exchange f q)) = closes f"
  by (simp_all add: gh_exchange_def merges_def closes_def Let_def)

lemma request_kinds [simp]:
  "\<not> is_merge (GetPr n)" "\<not> is_merge (GetDiff n)" "\<not> is_merge (GetFiles n)" "\<not> is_merge (GetCheckRuns sha)"
  "\<not> is_merge (GetProtection b)" "\<not> is_merge (GetComments n)" "\<not> is_merge GetOpenPrs" "\<not> is_merge (PatchClosed n)"
  "\<not> is_merge (DeleteRef b)" "\<not> is_merge (PostIssueComment n t)" "\<not> is_merge (PatchComment c t)" "\<not> is_merge (PostStatus sha st d)"
  "\<not> is_close (GetPr n)" "\<not> is_close (GetDiff n)" "\<not> is_close (GetFiles n)" "\<not> is_close (GetCheckRuns sha)"
  "\<not> is_close (GetProtection b)" "\<not> is_close (GetComments n)" "\<not> is_close GetOpenPrs" "\<not> is_close (PutMerge n m)"
  "\<not> is_close (DeleteRef b)" "\<not> is_close (PostIssueComment n t)" "\<not> is_close (PatchComment c t)" "\<not> is_close (PostStatus sha st d)"
  by (simp_all add: is_merge_def is_close_def)

lemmas forge_ops = gh_get_pr_def gh_list_open_prs_def gh_list_pr_comments_def gh_get_branch_protection_def gh_get_mergeable_def
  gh_list_pr_files_def runs_of_head_def gh_get_failed_checks_def gh_get_incomplete_checks_def gh_get_completed_checks_def
  gh_close_pr_def gh_delete_branch_def gh_post_comment_def gh_update_comment_def gh_set_commit_status_def gh_merge_pr_def

lemma quiet_reads [simp]:
  "merges (fst (gh_get_pr f n)) = merges f" "merges (fst (gh_list_pr_comments f n)) = merges f"
  "merges (fst (gh_get_branch_protection f b)) = merges f" "merges (fst (gh_get_mergeable f n)) = merges f"
  "merges (fst (gh_list_pr_files f n)) = merges f" "merges (fst (gh_get_failed_checks f p ig)) = merges f"
  "merges (fst (gh_get_incomplete_checks f p ig)) = merges f" "merges (fst (gh_get_completed_checks f p ig)) = merges f"
  "merges (fst (gh_list_open_prs f)) = merges f"
  "closes (fst (gh_get_pr f n)) = closes f" "closes (fst (gh_list_pr_comments f n)) = closes f"
  "closes (fst (gh_get_branch_protection f b)) = closes f" "closes (fst (gh_get_mergeable f n)) = closes f"
  "closes (fst (gh_list_pr_files f n)) = closes f" "closes (fst (gh_get_failed_checks f p ig)) = closes f"
  "closes (fst (gh_get_incomplete_checks f p ig)) = closes f" "closes (fst (gh_get_completed_checks f p ig)) = closes f"
  "closes (fst (gh_list_open_prs f)) = closes f"
  by (simp_all add: forge_ops case_prod_unfold Let_def quiet_checked)

lemma quiet_writes [simp]:
  "merges (fst (gh_close_pr f n)) = merges f" "merges (fst (gh_delete_branch f b)) = merges f"
  "merges (fst (gh_post_comment f n t)) = merges f" "merges (fst (gh_update_comment f c t)) = merges f"
  "merges (fst (gh_set_commit_status f sha st d)) = merges f"
  "closes (fst (gh_merge_pr f n m)) = closes f" "closes (fst (gh_delete_branch f b)) = closes f"
  "closes (fst (gh_post_comment f n t)) = closes f" "closes (fst (gh_update_comment f c t)) = closes f"
  "closes (fst (gh_set_commit_status f sha st d)) = closes f"
  by (simp_all add: forge_ops case_prod_unfold Let_def quiet_checked)

lemma quiet_diff [simp]: "merges (fst (gh_pr_diff sm f n)) = merges f" "closes (fst (gh_pr_diff sm f n)) = closes f"
  by (simp_all add: gh_pr_diff_def case_prod_unfold Let_def quiet_checked quiet_exchange split: option.splits)

section \<open>What the steps leave alone\<close>

lemma watch_basics [simp]:
  "wt_forge (on_st g w) = wt_forge w" "wt_forge (clock_tick w) = wt_forge w" "wt_forge (note_runs r w) = wt_forge w"
  "wt_forge (save_review w) = wt_forge w" "wt_forge (unlink_state w) = wt_forge w"
  "wt_st (on_st g w) = g (wt_st w)" "wt_st (clock_tick w) = wt_st w" "wt_st (note_runs r w) = wt_st w"
  "wt_st (save_review w) = wt_st w" "wt_st (unlink_state w) = wt_st w"
  "wt_runs (on_st g w) = wt_runs w" "wt_runs (clock_tick w) = wt_runs w" "wt_runs (note_runs r w) = r # wt_runs w"
  "wt_runs (save_review w) = wt_runs w" "wt_runs (unlink_state w) = wt_runs w"
  "wt_board (on_st g w) = wt_board w" "wt_board (clock_tick w) = wt_board w" "wt_board (note_runs r w) = wt_board w"
  "wt_board (save_review w) = wt_board w" "wt_board (unlink_state w) = wt_board w"
  "wt_file (on_st g w) = wt_file w" "wt_file (clock_tick w) = wt_file w" "wt_file (note_runs r w) = wt_file w"
  "wt_file (save_review w) = Some (wt_st w)" "wt_file (unlink_state w) = None"
  by (simp_all add: on_st_def clock_tick_def note_runs_def save_review_def unlink_state_def)

lemma retract_frame [simp]:
  "wt_st (retract_flag t w) = (wt_st w)\<lparr>rv_concerns_comment_id := None, rv_escalation_comment_id := None\<rparr>"
  "wt_runs (retract_flag t w) = wt_runs w" "wt_board (retract_flag t w) = wt_board w" "wt_file (retract_flag t w) = wt_file w"
  "merges (wt_forge (retract_flag t w)) = merges (wt_forge w)" "closes (wt_forge (retract_flag t w)) = closes (wt_forge w)"
proof -
  have c: "wt_st (retract_comment t c w) = wt_st w" "wt_runs (retract_comment t c w) = wt_runs w"
    "wt_board (retract_comment t c w) = wt_board w" "wt_file (retract_comment t c w) = wt_file w"
    "merges (wt_forge (retract_comment t c w)) = merges (wt_forge w)" "closes (wt_forge (retract_comment t c w)) = closes (wt_forge w)"
    for c w
    by (simp_all add: retract_comment_def case_prod_unfold Let_def split: option.splits)
  show "wt_st (retract_flag t w) = (wt_st w)\<lparr>rv_concerns_comment_id := None, rv_escalation_comment_id := None\<rparr>"
    "wt_runs (retract_flag t w) = wt_runs w" "wt_board (retract_flag t w) = wt_board w" "wt_file (retract_flag t w) = wt_file w"
    "merges (wt_forge (retract_flag t w)) = merges (wt_forge w)" "closes (wt_forge (retract_flag t w)) = closes (wt_forge w)"
    by (simp_all add: retract_flag_def Let_def c)
qed

lemma escalate_frame [simp]:
  "wt_runs (escalate_needs_human e s r d sha w) = wt_runs w" "wt_board (escalate_needs_human e s r d sha w) = wt_board w"
  "merges (wt_forge (escalate_needs_human e s r d sha w)) = merges (wt_forge w)"
  "closes (wt_forge (escalate_needs_human e s r d sha w)) = closes (wt_forge w)"
  "wt_file (escalate_needs_human e s r d sha w) = Some (wt_st (escalate_needs_human e s r d sha w))"
  "rv_fix_attempts (wt_st (escalate_needs_human e s r d sha w)) = rv_fix_attempts (wt_st w)"
  "rv_ci_green_retraction_count (wt_st (escalate_needs_human e s r d sha w)) = rv_ci_green_retraction_count (wt_st w)"
  "rv_pr_number (wt_st (escalate_needs_human e s r d sha w)) = rv_pr_number (wt_st w)"
  "rv_repo_key (wt_st (escalate_needs_human e s r d sha w)) = rv_repo_key (wt_st w)"
  "rv_escalated_needs_human (wt_st (escalate_needs_human e s r d sha w))"
  "rv_plane_task_id (wt_st (escalate_needs_human e s r d sha w)) = rv_plane_task_id (wt_st w)"
  by (simp_all add: escalate_needs_human_def case_prod_unfold Let_def split: option.splits)

lemma ci_status_frame [simp]:
  "wt_st (fst (ci_status_of r p w)) = wt_st w" "wt_runs (fst (ci_status_of r p w)) = wt_runs w"
  "wt_board (fst (ci_status_of r p w)) = wt_board w" "wt_file (fst (ci_status_of r p w)) = wt_file w"
  "merges (wt_forge (fst (ci_status_of r p w))) = merges (wt_forge w)" "closes (wt_forge (fst (ci_status_of r p w))) = closes (wt_forge w)"
  by (simp_all add: ci_status_of_def case_prod_unfold Let_def)

lemma gate_frames [simp]:
  "wt_st (fst (branch_protection_ok s b w)) = wt_st w" "wt_runs (fst (branch_protection_ok s b w)) = wt_runs w"
  "wt_board (fst (branch_protection_ok s b w)) = wt_board w" "wt_file (fst (branch_protection_ok s b w)) = wt_file w"
  "merges (wt_forge (fst (branch_protection_ok s b w))) = merges (wt_forge w)"
  "closes (wt_forge (fst (branch_protection_ok s b w))) = closes (wt_forge w)"
  "wt_st (fst (sensitive_path_ack_ok s p w)) = wt_st w" "wt_runs (fst (sensitive_path_ack_ok s p w)) = wt_runs w"
  "wt_board (fst (sensitive_path_ack_ok s p w)) = wt_board w" "wt_file (fst (sensitive_path_ack_ok s p w)) = wt_file w"
  "merges (wt_forge (fst (sensitive_path_ack_ok s p w))) = merges (wt_forge w)"
  "closes (wt_forge (fst (sensitive_path_ack_ok s p w))) = closes (wt_forge w)"
  "wt_st (publish_reviewer_verdict sha r d w) = wt_st w" "wt_runs (publish_reviewer_verdict sha r d w) = wt_runs w"
  "wt_board (publish_reviewer_verdict sha r d w) = wt_board w" "wt_file (publish_reviewer_verdict sha r d w) = wt_file w"
  "merges (wt_forge (publish_reviewer_verdict sha r d w)) = merges (wt_forge w)"
  "closes (wt_forge (publish_reviewer_verdict sha r d w)) = closes (wt_forge w)"
  by (simp_all add: branch_protection_ok_def sensitive_path_ack_ok_def publish_reviewer_verdict_def case_prod_unfold Let_def)

lemma plane_done_frame [simp]:
  "wt_st (plane_done e r w) = wt_st w" "wt_runs (plane_done e r w) = wt_runs w" "wt_forge (plane_done e r w) = wt_forge w"
  "wt_file (plane_done e r w) = wt_file w"
  by (simp_all add: plane_done_def case_prod_unfold Let_def split: option.splits)

lemma rebase_frame [simp]:
  "merges (wt_forge (auto_rebase_or_escalate e s w)) = merges (wt_forge w)"
  "closes (wt_forge (auto_rebase_or_escalate e s w)) = closes (wt_forge w)"
  "wt_board (auto_rebase_or_escalate e s w) = wt_board w"
  "rv_fix_attempts (wt_st (auto_rebase_or_escalate e s w)) = rv_fix_attempts (wt_st w)"
  "rv_ci_green_retraction_count (wt_st (auto_rebase_or_escalate e s w)) = rv_ci_green_retraction_count (wt_st w)"
  by (simp_all add: auto_rebase_or_escalate_def Let_def)

section \<open>When it merges\<close>

text \<open>
  The gates of a merge, on what the host answers from \<open>w\<close> on: no known conflict, a branch protection that binds the fleet,
  the acknowledgement of sensitive paths, and no failing or running check in the listings of the head.
\<close>

definition ignored_of :: "watch_settings \<Rightarrow> review_state \<Rightarrow> string list" where
  "ignored_of s st = (case wsg_repos s (rv_repo_key st) of None \<Rightarrow> [] | Some r \<Rightarrow> wr_ci_ignored_checks r)"

definition merge_gates :: "watch_settings \<Rightarrow> pull_request \<Rightarrow> watch \<Rightarrow> bool" where
  "merge_gates s p w \<longleftrightarrow>
     (\<exists>f mergeable w1 w2 f3 f4.
        gh_get_mergeable (wt_forge w) (rv_pr_number (wt_st w)) = (f, mergeable) \<and> mergeable \<noteq> Some False
        \<and> branch_protection_ok s (base_branch_of p) (on_st (\<lambda>st. st\<lparr>rv_rebase_attempts := 0\<rparr>) (w\<lparr>wt_forge := f\<rparr>)) = (w1, True)
        \<and> sensitive_path_ack_ok s p w1 = (w2, True)
        \<and> gh_get_failed_checks (wt_forge w2) p (ignored_of s (wt_st w)) = (f3, [])
        \<and> gh_get_incomplete_checks f3 p (ignored_of s (wt_st w)) = (f4, []))"

lemma merge_and_done_merges:
  assumes "merges (wt_forge w) < merges (wt_forge (merge_and_done e s p reason w))"
  shows "merge_gates s p w"
proof -
  let ?m = "gh_get_mergeable (wt_forge w) (rv_pr_number (wt_st w))"
  let ?w1 = "on_st (\<lambda>st. st\<lparr>rv_rebase_attempts := 0\<rparr>) (w\<lparr>wt_forge := fst ?m\<rparr>)"
  let ?b = "branch_protection_ok s (base_branch_of p) ?w1"
  let ?a = "sensitive_path_ack_ok s p (fst ?b)"
  let ?ig = "ignored_of s (wt_st w)"
  let ?f = "gh_get_failed_checks (wt_forge (fst ?a)) p ?ig"
  let ?i = "gh_get_incomplete_checks (fst ?f) p ?ig"
  have ig: "(case wsg_repos s (rv_repo_key (wt_st (fst ?a))) of None \<Rightarrow> [] | Some r \<Rightarrow> wr_ci_ignored_checks r) = ?ig" by (simp add: ignored_of_def)
  note body = merge_and_done_def [of e s p reason w] case_prod_unfold Let_def
  have m: "snd ?m \<noteq> Some False"
  proof
    assume "snd ?m = Some False"
    then show False using assms by (simp add: body)
  qed
  have b: "snd ?b"
  proof (rule ccontr)
    assume "\<not> snd ?b"
    then show False using assms m by (simp add: body)
  qed
  have a: "snd ?a"
  proof (rule ccontr)
    assume "\<not> snd ?a"
    then show False using assms m b by (simp add: body)
  qed
  have "snd ?f = [] \<and> snd ?i = []"
  proof (rule ccontr)
    assume n: "\<not> ?thesis"
    have "merges (wt_forge (merge_and_done e s p reason w)) = merges (wt_forge w)"
      using m b a n ig by (simp add: body)
    then show False using assms by simp
  qed
  moreover have "?m = (fst ?m, snd ?m)" "?b = (fst ?b, True)" "?a = (fst ?a, True)" "?f = (fst ?f, snd ?f)" "?i = (fst ?i, snd ?i)"
    using b a by (metis prod.collapse)+
  ultimately show ?thesis using m unfolding merge_gates_def by metis
qed

lemma merge_and_done_closes [simp]: "closes (wt_forge (merge_and_done e s p reason w)) = closes (wt_forge w)"
  by (simp add: merge_and_done_def case_prod_unfold Let_def)

text \<open>The rest of a visit sends no merge.\<close>

lemma requeue_frame [simp]:
  "wt_st (fst (requeue_plane_task e task r c w)) = wt_st w" "wt_forge (fst (requeue_plane_task e task r c w)) = wt_forge w"
  "wt_file (fst (requeue_plane_task e task r c w)) = wt_file w" "wt_runs (fst (requeue_plane_task e task r c w)) = wt_runs w"
  "wt_st (fst (record_close_receipt e task p r w)) = wt_st w" "wt_forge (fst (record_close_receipt e task p r w)) = wt_forge w"
  "wt_file (fst (record_close_receipt e task p r w)) = wt_file w" "wt_runs (fst (record_close_receipt e task p r w)) = wt_runs w"
  by (simp_all add: requeue_plane_task_def record_close_receipt_def case_prod_unfold Let_def split: option.splits)

lemma delete_branch_frame [simp]:
  "merges (wt_forge (delete_head_branch p t w)) = merges (wt_forge w)" "closes (wt_forge (delete_head_branch p t w)) = closes (wt_forge w)"
  "wt_st (delete_head_branch p t w) = wt_st w" "wt_runs (delete_head_branch p t w) = wt_runs w"
  "wt_board (delete_head_branch p t w) = wt_board w"
  by (simp_all add: delete_head_branch_def)

lemma close_frame [simp]:
  "merges (wt_forge (close_and_requeue e s p r d c w)) = merges (wt_forge w)"
  "wt_runs (close_and_requeue e s p r d c w) = wt_runs w"
  "rv_fix_attempts (wt_st (close_and_requeue e s p r d c w)) = rv_fix_attempts (wt_st w)"
  "rv_ci_green_retraction_count (wt_st (close_and_requeue e s p r d c w)) = rv_ci_green_retraction_count (wt_st w)"
  by (simp_all add: close_and_requeue_def case_prod_unfold Let_def split: option.splits)

lemma fix_pass_frame [simp]:
  "wt_forge (fst (run_fix_pass e h c l w)) = wt_forge w" "wt_st (fst (run_fix_pass e h c l w)) = wt_st w"
  "wt_board (fst (run_fix_pass e h c l w)) = wt_board w" "wt_file (fst (run_fix_pass e h c l w)) = wt_file w"
  "wt_runs (fst (run_fix_pass e h c l w)) = RunFix h c l # wt_runs w"
  by (simp_all add: run_fix_pass_def Let_def)

lemma note_push_frame [simp]:
  "merges (wt_forge (note_fix_push b w)) = merges (wt_forge w)" "closes (wt_forge (note_fix_push b w)) = closes (wt_forge w)"
  "wt_runs (note_fix_push b w) = wt_runs w" "wt_file (note_fix_push b w) = wt_file w" "wt_board (note_fix_push b w) = wt_board w"
  "rv_fix_attempts (wt_st (note_fix_push b w)) = rv_fix_attempts (wt_st w)"
  "rv_ci_green_retraction_count (wt_st (note_fix_push b w)) = rv_ci_green_retraction_count (wt_st w)"
  by (simp_all add: note_fix_push_def case_prod_unfold Let_def)

lemma take_disk_frame [simp]:
  "wt_forge (take_disk_escalation e w) = wt_forge w" "wt_runs (take_disk_escalation e w) = wt_runs w"
  "wt_file (take_disk_escalation e w) = wt_file w" "wt_board (take_disk_escalation e w) = wt_board w"
  "rv_fix_attempts (wt_st (take_disk_escalation e w)) = rv_fix_attempts (wt_st w)"
  "rv_ci_green_retraction_count (wt_st (take_disk_escalation e w)) = rv_ci_green_retraction_count (wt_st w)"
  by (simp_all add: take_disk_escalation_def Let_def split: option.splits)

lemma dispatch_fix_frame [simp]:
  "merges (wt_forge (fst (dispatch_fix e p sha c w))) = merges (wt_forge w)"
  "closes (wt_forge (fst (dispatch_fix e p sha c w))) = closes (wt_forge w)"
  "wt_board (fst (dispatch_fix e p sha c w)) = wt_board w"
  "wt_runs (fst (dispatch_fix e p sha c w)) = RunFix (pr_head_ref p) c (rv_fix_strategy_level (wt_st w)) # wt_runs w"
  "rv_fix_attempts (wt_st (fst (dispatch_fix e p sha c w))) = rv_fix_attempts (wt_st w) + 1"
  "rv_ci_green_retraction_count (wt_st (fst (dispatch_fix e p sha c w))) = rv_ci_green_retraction_count (wt_st w)"
  by (simp_all add: dispatch_fix_def case_prod_unfold Let_def split: sum.splits)

lemma resolve_merges [simp]: "merges (wt_forge (fst (resolve_concerns e s p sha c w))) = merges (wt_forge w)"
  by (simp add: resolve_concerns_def case_prod_unfold Let_def)

lemma validates_frame [simp]:
  "wt_st (fst (ci_validates s p w)) = wt_st w" "wt_runs (fst (ci_validates s p w)) = wt_runs w"
  "wt_board (fst (ci_validates s p w)) = wt_board w" "wt_file (fst (ci_validates s p w)) = wt_file w"
  "merges (wt_forge (fst (ci_validates s p w))) = merges (wt_forge w)" "closes (wt_forge (fst (ci_validates s p w))) = closes (wt_forge w)"
  by (simp_all add: ci_validates_def case_prod_unfold Let_def split: option.splits)

lemma track_frame [simp]:
  "rv_fix_attempts (track_concern_raised e n c sha st) = rv_fix_attempts st"
  "rv_ci_green_retraction_count (track_concern_raised e n c sha st) = rv_ci_green_retraction_count st"
  "rv_repo_key (track_concern_raised e n c sha st) = rv_repo_key st"
  "rv_last_fix_pass_pushed (track_concern_raised e n c sha st) = rv_last_fix_pass_pushed st"
  "rv_pr_number (track_concern_raised e n c sha st) = rv_pr_number st"
  "rv_plane_task_id (track_concern_raised e n c sha st) = rv_plane_task_id st"
  by (simp_all add: track_concern_raised_def Let_def)

text \<open>Without LGTM only a pull request whose CI was trusted over the verdict is merged.\<close>

definition trusted_ci :: "watch_settings \<Rightarrow> pull_request \<Rightarrow> review_state \<Rightarrow> bool" where
  "trusted_ci s p st \<longleftrightarrow>
     rv_ci_green_retraction_count st \<ge> MAX_CI_GREEN_RETRACTIONS \<and> merging_repo s st p \<noteq> None
     \<and> 0 < rv_fix_attempts st \<and> rv_last_fix_pass_pushed st = Some False"

lemma merging_repo_cong: "rv_repo_key st = rv_repo_key st' \<Longrightarrow> merging_repo s st p = merging_repo s st' p"
  by (simp add: merging_repo_def)

lemma dispatch_merges:
  assumes "merges (wt_forge w) < merges (wt_forge (fst (dispatch_verdict_outcome e s p result c sha w)))"
  shows "result = LGTM \<or> trusted_ci s p (wt_st w)"
proof (rule ccontr)
  assume n: "\<not> ?thesis"
  let ?w1 = "if result = CONCERNS \<and> sha \<noteq> [] then clock_tick (on_st (track_concern_raised e (now_of e w) c sha) w) else w"
  let ?w2 = "publish_reviewer_verdict sha ''failure'' (''reviewer concerns '' @ em_dash @ '' auto-fixing'') ?w1"
  have same: "rv_fix_attempts (wt_st ?w2) = rv_fix_attempts (wt_st w)" "rv_repo_key (wt_st ?w2) = rv_repo_key (wt_st w)"
    "rv_ci_green_retraction_count (wt_st ?w2) = rv_ci_green_retraction_count (wt_st w)"
    "rv_last_fix_pass_pushed (wt_st ?w2) = rv_last_fix_pass_pushed (wt_st w)" "merges (wt_forge ?w2) = merges (wt_forge w)" by simp_all
  have nv: "\<not> snd (ci_validates s p ?w2)" if "repeated_no_progress (wt_st ?w2) sha"
  proof
    assume "snd (ci_validates s p ?w2)"
    then have "trusted_ci s p (wt_st w)" using that same merging_repo_cong [OF same(2)]
      by (auto simp: ci_validates_def trusted_ci_def repeated_no_progress_def split: if_splits option.splits)
    then show False using n by simp
  qed
  have "merges (wt_forge (fst (dispatch_verdict_outcome e s p result c sha w))) = merges (wt_forge ?w2)"
  proof (cases "repeated_no_progress (wt_st ?w2) sha")
    case True
    then show ?thesis using n nv [OF True] by (simp add: dispatch_verdict_outcome_def case_prod_unfold Let_def)
  next
    case False
    then show ?thesis using n by (simp add: dispatch_verdict_outcome_def case_prod_unfold Let_def)
  qed
  then show False using assms same(5) by simp
qed

definition merged_by_rule :: "surround \<Rightarrow> watch_settings \<Rightarrow> pull_request \<Rightarrow> bool \<Rightarrow> watch \<Rightarrow> watch \<Rightarrow> bool" where
  "merged_by_rule e s p approved w w' \<longleftrightarrow>
     (\<exists>w2 reason. w' = merge_and_done e s p reason w2 \<and> merges (wt_forge w2) = merges (wt_forge w) \<and> merge_gates s p w2
        \<and> (reason = ''self_review_lgtm'' \<and> approved \<or> reason = ''ci_validated_after_retraction'' \<and> trusted_ci s p (wt_st w)))"

lemma merged_by_rule_mono:
  assumes "merged_by_rule e s p A w w'" "A \<Longrightarrow> B" "merges (wt_forge w) = merges (wt_forge u)"
    and "trusted_ci s p (wt_st w) \<Longrightarrow> trusted_ci s p (wt_st u)"
  shows "merged_by_rule e s p B u w'"
  using assms unfolding merged_by_rule_def by auto

text \<open>A merge is the last thing a dispatch does to the state it found.\<close>

lemma dispatch_merge_is_gated:
  assumes "merges (wt_forge w) < merges (wt_forge (fst (dispatch_verdict_outcome e s p result c sha w)))"
  shows "merged_by_rule e s p (result = LGTM) w (fst (dispatch_verdict_outcome e s p result c sha w))"
proof -
  let ?w1 = "if result = CONCERNS \<and> sha \<noteq> [] then clock_tick (on_st (track_concern_raised e (now_of e w) c sha) w) else w"
  let ?w2 = "publish_reviewer_verdict sha (if result = LGTM then ''success'' else ''failure'')
    (if result = LGTM then ''reviewer LGTM'' else ''reviewer concerns '' @ em_dash @ '' auto-fixing'') ?w1"
  have same: "merges (wt_forge ?w2) = merges (wt_forge w)" by simp
  have gated: ?thesis
    if "fst (dispatch_verdict_outcome e s p result c sha w) = merge_and_done e s p reason w2" "merges (wt_forge w2) = merges (wt_forge w)"
      "reason = ''self_review_lgtm'' \<and> result = LGTM \<or> reason = ''ci_validated_after_retraction'' \<and> trusted_ci s p (wt_st w)"
    for reason w2
    using that merge_and_done_merges [of w2 e s p reason] assms unfolding merged_by_rule_def by metis
  show ?thesis
  proof (cases "result = LGTM")
    case True
    show ?thesis
      by (rule gated [of "''self_review_lgtm''" ?w2]) (use True same in \<open>simp_all add: dispatch_verdict_outcome_def Let_def\<close>)
  next
    case False
    then have t: "trusted_ci s p (wt_st w)" using dispatch_merges [OF assms] by blast
    have v: "repeated_no_progress (wt_st ?w2) sha \<and> snd (ci_validates s p ?w2)"
    proof (rule ccontr)
      assume n: "\<not> ?thesis"
      have "merges (wt_forge (fst (dispatch_verdict_outcome e s p result c sha w))) = merges (wt_forge ?w2)"
        using False n by (cases "repeated_no_progress (wt_st ?w2) sha") (simp_all add: dispatch_verdict_outcome_def case_prod_unfold Let_def)
      then show False using assms same by simp
    qed
    show ?thesis
      by (rule gated [of "''ci_validated_after_retraction''" "fst (ci_validates s p ?w2)"])
        (use False t v same in \<open>simp_all add: dispatch_verdict_outcome_def case_prod_unfold Let_def\<close>)
  qed
qed

text \<open>A member whose document reports every required check as passed and no optional one as failed.\<close>

definition approves :: "surround \<Rightarrow> nat \<Rightarrow> string \<Rightarrow> string \<Rightarrow> bool" where
  "approves e t backend model \<longleftrightarrow>
     (\<exists>d es. raw_verdict e (en_member e t backend model) = Some (JObj d) \<and> map_of d ''checks'' = Some (JList es)
        \<and> clean_report (reported es))"

lemma verdict_of_document_LGTM:
  assumes "verdict_of_document e raw = Some v" "member_outcome v = LGTM"
  shows "\<exists>d es. raw = JObj d \<and> map_of d ''checks'' = Some (JList es) \<and> clean_report (reported es)"
proof -
  let ?checks = "case raw of JObj d \<Rightarrow> map_of d ''checks'' | _ \<Rightarrow> None"
  obtain result failing where c: "compute_verdict ?checks = Some (result, failing)" "mv_result v = result"
    using assms(1) by (auto simp: verdict_of_document_def Let_def split: option.splits)
  have "result = LGTM" using verdict_is_LGTM_or_CONCERNS [OF c(1)] c(2) assms(2) by (auto simp: member_outcome_def)
  then obtain es where "?checks = Some (JList es)" "clean_report (reported es)" using c(1) verdict_LGTM_iff by metis
  then show ?thesis by (cases raw) auto
qed

lemma member_frame [simp]:
  "wt_st (fst (run_member_review e b m w)) = wt_st w" "wt_forge (fst (run_member_review e b m w)) = wt_forge w"
  "wt_file (fst (run_member_review e b m w)) = wt_file w" "wt_board (fst (run_member_review e b m w)) = wt_board w"
  by (simp_all add: run_member_review_def Let_def split: member_exit.splits option.splits)

lemma member_LGTM:
  assumes "run_member_review e b m w = (w1, Verdict (Some v))" "member_outcome v = LGTM"
  shows "approves e (wt_tick w) b m"
proof -
  obtain raw where "raw_verdict e (en_member e (wt_tick w) b m) = Some raw" "verdict_of_document e raw = Some v"
    using assms(1) by (auto simp: run_member_review_def Let_def split: if_splits member_exit.splits option.splits)
  then show ?thesis using verdict_of_document_LGTM [OF _ assms(2)] by (auto simp: approves_def)
qed

lemma seats_frame [simp]:
  "wt_st (fst (run_seats e ms rs w)) = wt_st w" "wt_forge (fst (run_seats e ms rs w)) = wt_forge w"
  "wt_file (fst (run_seats e ms rs w)) = wt_file w" "wt_board (fst (run_seats e ms rs w)) = wt_board w"
  by (induction ms arbitrary: rs w) (simp_all add: case_prod_unfold Let_def split: review_end.splits option.splits)

lemma seats_results:
  "run_seats e ms rs w = (w', Seats results) \<Longrightarrow>
     \<exists>new. results = rs @ new \<and> map fst new = ms
       \<and> (\<forall>(m, v) \<in> set new. member_outcome v = LGTM \<longrightarrow> (\<exists>t. approves e t (se_backend m) (se_model m)))"
proof (induction ms arbitrary: rs w)
  case (Cons m ms)
  obtain w1 r where r: "run_member_review e (se_backend m) (se_model m) w = (w1, r)" by fastforce
  have go: ?case if g: "run_seats e ms (rs @ [(m, v)]) w1 = (w', Seats results)"
      "member_outcome v = LGTM \<longrightarrow> (\<exists>t. approves e t (se_backend m) (se_model m))" for v
  proof -
    obtain new where new: "results = (rs @ [(m, v)]) @ new" "map fst new = ms"
      "\<forall>(m, v) \<in> set new. member_outcome v = LGTM \<longrightarrow> (\<exists>t. approves e t (se_backend m) (se_model m))"
      using Cons.IH [OF g(1)] by blast
    show ?thesis by (rule exI [of _ "(m, v) # new"]) (use new g(2) in auto)
  qed
  have c: "py_upper CONCERNS = CONCERNS" by simp
  show ?case
  proof (cases r)
    case (Verdict v)
    show ?thesis
    proof (cases v)
      case None
      show ?thesis by (rule go) (use Cons.prems r Verdict None c in \<open>auto simp: member_outcome_def\<close>)
    next
      case (Some v)
      show ?thesis
        by (rule go [of v]) (use Cons.prems r Verdict Some member_LGTM [of e "se_backend m" "se_model m" w w1 v] in auto)
    qed
  qed (use Cons.prems r in auto)
qed simp

text \<open>Skipping, parking and a review without a verdict merge nothing.\<close>

lemma skipped_merges [simp]: "merges (wt_forge (fst (review_skipped e s sha r w))) = merges (wt_forge w)"
  by (simp add: review_skipped_def Let_def split: review_end.splits)

lemma parked_merges [simp]: "merges (wt_forge (park_council e s sha n now w)) = merges (wt_forge w)"
  by (simp add: park_council_def Let_def)

lemma no_verdict_merges [simp]: "merges (wt_forge (no_verdict e s sha w)) = merges (wt_forge w)"
  by (simp add: no_verdict_def Let_def)

lemma trusted_cong:
  assumes "rv_fix_attempts st = rv_fix_attempts st'" "rv_last_fix_pass_pushed st = rv_last_fix_pass_pushed st'"
    "rv_ci_green_retraction_count st = rv_ci_green_retraction_count st'" "rv_repo_key st = rv_repo_key st'"
  shows "trusted_ci s p st = trusted_ci s p st'"
  using assms merging_repo_cong [OF assms(4)] by (simp add: trusted_ci_def)

definition council_approves :: "surround \<Rightarrow> watch_settings \<Rightarrow> bool" where
  "council_approves e s \<longleftrightarrow>
     (\<exists>seats. seats \<noteq> [] \<and> set seats \<subseteq> set COUNCIL_PANEL \<and> cs_min_council_members (rw_council (wsg_reviewer s)) \<le> int (length seats)
        \<and> (\<forall>m \<in> set seats. \<exists>t. approves e t (se_backend m) (se_model m)))"

lemma council_merges:
  assumes "merges (wt_forge w) < merges (wt_forge (fst (run_council e s p sha w)))"
  shows "merged_by_rule e s p (council_approves e s) w (fst (run_council e s p sha w))"
proof -
  let ?av = "available_seats e w"
  have q: "\<not> int (length ?av) < cs_min_council_members (rw_council (wsg_reviewer s))"
    using assms by (auto simp: run_council_def Let_def)
  let ?w1 = "on_st (\<lambda>st. st\<lparr>rv_council_park := False, rv_council_park_started_at := NoStamp\<rparr>) (clock_tick w)"
  obtain w2 seats where r: "run_seats e ?av [] ?w1 = (w2, seats)" by fastforce
  have st2: "wt_st w2 = wt_st ?w1" "wt_forge w2 = wt_forge w"
    using seats_frame(1,2) [of e ?av "[]" ?w1] r by simp_all
  obtain results where res: "seats = Seats results"
    using assms q r st2 by (cases seats) (auto simp: run_council_def Let_def case_prod_unfold)
  let ?v = "aggregate_council results"
  let ?w3 = "on_st (\<lambda>st. st\<lparr>rv_env_unclean_passes := 0, rv_backend_error_passes := 0\<rparr>) w2"
  let ?w4 = "?w3\<lparr>wt_forge := fst (gh_post_comment (wt_forge ?w3) (rv_pr_number (wt_st ?w3))
                              (rw_bot_comment_marker (wsg_reviewer s) @ [CHR 0x0A] @ ''**Council review: '' @ mv_result ?v @ ''** ''
                               @ en_prose e ''council_review'' (wt_st ?w3) @ nl2 @ en_sanitize e (mv_summary ?v)))\<rparr>"
  have d: "run_council e s p sha w = dispatch_verdict_outcome e s p (mv_result ?v) (mv_summary ?v) sha ?w4"
    using q r res by (simp add: run_council_def Let_def)
  have m4: "merges (wt_forge ?w4) = merges (wt_forge w)" using st2 by simp
  have t4: "trusted_ci s p (wt_st ?w4) = trusted_ci s p (wt_st w)" by (rule trusted_cong) (simp_all add: st2)
  have ap: "council_approves e s" if "mv_result ?v = LGTM"
  proof -
    have c: "results \<noteq> []" "\<forall>(m, v) \<in> set results. member_outcome v = LGTM" using that council_LGTM_iff by auto
    have new: "map fst results = ?av"
      "\<forall>(m, v) \<in> set results. member_outcome v = LGTM \<longrightarrow> (\<exists>t. approves e t (se_backend m) (se_model m))"
      using seats_results [OF r [unfolded res]] by auto
    have "\<forall>m \<in> set ?av. \<exists>t. approves e t (se_backend m) (se_model m)"
      unfolding new(1) [symmetric] using c(2) new(2) by fastforce
    moreover have "set ?av \<subseteq> set COUNCIL_PANEL" by (auto simp: available_seats_def)
    moreover have "?av \<noteq> []" using c(1) new(1) by auto
    ultimately show ?thesis using q unfolding council_approves_def by (intro exI [of _ ?av]) auto
  qed
  have "merges (wt_forge ?w4) < merges (wt_forge (fst (dispatch_verdict_outcome e s p (mv_result ?v) (mv_summary ?v) sha ?w4)))"
    using assms d m4 by simp
  then show ?thesis unfolding d using ap m4 t4 by (intro merged_by_rule_mono [OF dispatch_merge_is_gated]) blast+
qed

lemma single_merges:
  assumes "merges (wt_forge w) < merges (wt_forge (fst (single_review e s p sha w)))"
  shows "merged_by_rule e s p (\<exists>t b m. approves e t b m) w (fst (single_review e s p sha w))"
proof -
  obtain b m where bm: "review_backend e s w = Some (b, m)"
    using assms by (cases "review_backend e s w") (auto simp: single_review_def)
  obtain w1 r where r: "run_member_review e b m (clock_tick w) = (w1, r)" by fastforce
  have f1: "wt_st w1 = wt_st w" "wt_forge w1 = wt_forge w" using member_frame(1,2) [of e b m "clock_tick w"] r by simp_all
  obtain v where v: "r = Verdict (Some v)"
  proof (cases r)
    case (Verdict x)
    then show ?thesis using that assms bm r f1 by (cases x) (auto simp: single_review_def Let_def)
  qed (use assms bm r f1 in \<open>auto simp: single_review_def Let_def\<close>)
  let ?w2 = "on_st (\<lambda>st. st\<lparr>rv_no_verdict_passes := 0, rv_no_verdict_backoff_level := 0\<rparr>)
    (on_st (\<lambda>st. st\<lparr>rv_self_review_loops := rv_self_review_loops st + 1, rv_env_unclean_passes := 0, rv_backend_error_passes := 0\<rparr>) w1)"
  have d: "single_review e s p sha w = dispatch_verdict_outcome e s p (verdict_result v) (verdict_summary v) sha ?w2"
    using bm r v by (simp add: single_review_def Let_def)
  have m2: "merges (wt_forge ?w2) = merges (wt_forge w)" using f1 by simp
  have t2: "trusted_ci s p (wt_st ?w2) = trusted_ci s p (wt_st w)" by (rule trusted_cong) (simp_all add: f1)
  have ap: "\<exists>t b m. approves e t b m" if "verdict_result v = LGTM"
    using member_LGTM [OF r [unfolded v]] that by (auto simp: verdict_result_def)
  have "merges (wt_forge ?w2) < merges (wt_forge (fst (dispatch_verdict_outcome e s p (verdict_result v) (verdict_summary v) sha ?w2)))"
    using assms d m2 by simp
  then show ?thesis unfolding d using ap m2 t2 by (intro merged_by_rule_mono [OF dispatch_merge_is_gated]) blast+
qed

text \<open>The holds and preconditions merge nothing, and can only make the pull request forget an unproductive fix pass.\<close>

lemma reset_frame [simp]:
  "merges (wt_forge (reset_on_external_push sha w)) = merges (wt_forge w)"
  "closes (wt_forge (reset_on_external_push sha w)) = closes (wt_forge w)"
  "wt_runs (reset_on_external_push sha w) = wt_runs w"
  "wt_board (reset_on_external_push sha w) = wt_board w"
  "rv_repo_key (wt_st (reset_on_external_push sha w)) = rv_repo_key (wt_st w)"
  "rv_pr_number (wt_st (reset_on_external_push sha w)) = rv_pr_number (wt_st w)"
  "rv_plane_task_id (wt_st (reset_on_external_push sha w)) = rv_plane_task_id (wt_st w)"
  by (simp_all add: reset_on_external_push_def Let_def)

lemma expire_frame [simp]:
  "merges (wt_forge (expire_backend_park e s sha w)) = merges (wt_forge w)"
  "closes (wt_forge (expire_backend_park e s sha w)) = closes (wt_forge w)"
  "wt_runs (expire_backend_park e s sha w) = wt_runs w"
  "wt_board (expire_backend_park e s sha w) = wt_board w"
  "rv_repo_key (wt_st (expire_backend_park e s sha w)) = rv_repo_key (wt_st w)"
  "rv_pr_number (wt_st (expire_backend_park e s sha w)) = rv_pr_number (wt_st w)"
  "rv_plane_task_id (wt_st (expire_backend_park e s sha w)) = rv_plane_task_id (wt_st w)"
  by (simp_all add: expire_backend_park_def Let_def)

lemma unchanged_frame [simp]:
  "merges (wt_forge (fst (hold_unchanged e s p sha w))) = merges (wt_forge w)"
  "closes (wt_forge (fst (hold_unchanged e s p sha w))) = closes (wt_forge w)"
  "wt_runs (fst (hold_unchanged e s p sha w)) = wt_runs w"
  "wt_board (fst (hold_unchanged e s p sha w)) = wt_board w"
  "rv_repo_key (wt_st (fst (hold_unchanged e s p sha w))) = rv_repo_key (wt_st w)"
  "rv_pr_number (wt_st (fst (hold_unchanged e s p sha w))) = rv_pr_number (wt_st w)"
  "rv_plane_task_id (wt_st (fst (hold_unchanged e s p sha w))) = rv_plane_task_id (wt_st w)"
  by (simp_all add: hold_unchanged_def case_prod_unfold Let_def split: option.splits)

lemma hold_frame [simp]:
  "merges (wt_forge (fst (hold_escalated e s p sha w))) = merges (wt_forge w)"
  "closes (wt_forge (fst (hold_escalated e s p sha w))) = closes (wt_forge w)"
  "wt_runs (fst (hold_escalated e s p sha w)) = wt_runs w"
  "wt_board (fst (hold_escalated e s p sha w)) = wt_board w"
  "rv_repo_key (wt_st (fst (hold_escalated e s p sha w))) = rv_repo_key (wt_st w)"
  "rv_pr_number (wt_st (fst (hold_escalated e s p sha w))) = rv_pr_number (wt_st w)"
  "rv_plane_task_id (wt_st (fst (hold_escalated e s p sha w))) = rv_plane_task_id (wt_st w)"
  by (simp_all add: hold_escalated_def Let_def)

lemma wait_frame [simp]:
  "merges (wt_forge (wait_or_escalate e s n r sha w)) = merges (wt_forge w)"
  "closes (wt_forge (wait_or_escalate e s n r sha w)) = closes (wt_forge w)"
  "wt_runs (wait_or_escalate e s n r sha w) = wt_runs w"
  "wt_board (wait_or_escalate e s n r sha w) = wt_board w"
  "rv_repo_key (wt_st (wait_or_escalate e s n r sha w)) = rv_repo_key (wt_st w)"
  "rv_pr_number (wt_st (wait_or_escalate e s n r sha w)) = rv_pr_number (wt_st w)"
  "rv_plane_task_id (wt_st (wait_or_escalate e s n r sha w)) = rv_plane_task_id (wt_st w)"
  by (simp_all add: wait_or_escalate_def)

lemma red_frame [simp]:
  "merges (wt_forge (ci_red e s r p sha failed w)) = merges (wt_forge w)"
  "closes (wt_forge (ci_red e s r p sha failed w)) = closes (wt_forge w)"
  "wt_runs (ci_red e s r p sha failed w) = wt_runs w"
  "wt_board (ci_red e s r p sha failed w) = wt_board w"
  "rv_repo_key (wt_st (ci_red e s r p sha failed w)) = rv_repo_key (wt_st w)"
  "rv_pr_number (wt_st (ci_red e s r p sha failed w)) = rv_pr_number (wt_st w)"
  "rv_plane_task_id (wt_st (ci_red e s r p sha failed w)) = rv_plane_task_id (wt_st w)"
  by (simp_all add: ci_red_def count_wait_def update_check_history_def case_prod_unfold Let_def split: option.splits)

lemma unsettled_frame [simp]:
  "merges (wt_forge (ci_unsettled e s r sha a b c w)) = merges (wt_forge w)"
  "closes (wt_forge (ci_unsettled e s r sha a b c w)) = closes (wt_forge w)"
  "wt_runs (ci_unsettled e s r sha a b c w) = wt_runs w"
  "wt_board (ci_unsettled e s r sha a b c w) = wt_board w"
  "rv_repo_key (wt_st (ci_unsettled e s r sha a b c w)) = rv_repo_key (wt_st w)"
  "rv_pr_number (wt_st (ci_unsettled e s r sha a b c w)) = rv_pr_number (wt_st w)"
  "rv_plane_task_id (wt_st (ci_unsettled e s r sha a b c w)) = rv_plane_task_id (wt_st w)"
  by (simp_all add: ci_unsettled_def count_wait_def update_check_history_def Let_def)

lemma precondition_frame [simp]:
  "merges (wt_forge (fst (ci_precondition e s p sha w))) = merges (wt_forge w)"
  "closes (wt_forge (fst (ci_precondition e s p sha w))) = closes (wt_forge w)"
  "wt_runs (fst (ci_precondition e s p sha w)) = wt_runs w"
  "wt_board (fst (ci_precondition e s p sha w)) = wt_board w"
  "rv_repo_key (wt_st (fst (ci_precondition e s p sha w))) = rv_repo_key (wt_st w)"
  "rv_pr_number (wt_st (fst (ci_precondition e s p sha w))) = rv_pr_number (wt_st w)"
  "rv_plane_task_id (wt_st (fst (ci_precondition e s p sha w))) = rv_plane_task_id (wt_st w)"
  by (simp_all add: ci_precondition_def case_prod_unfold Let_def split: option.splits)

lemma files_frame [simp]:
  "merges (wt_forge (fst (pr_files_of e w))) = merges (wt_forge w)"
  "closes (wt_forge (fst (pr_files_of e w))) = closes (wt_forge w)"
  "wt_runs (fst (pr_files_of e w)) = wt_runs w"
  "wt_board (fst (pr_files_of e w)) = wt_board w"
  "rv_repo_key (wt_st (fst (pr_files_of e w))) = rv_repo_key (wt_st w)"
  "rv_pr_number (wt_st (fst (pr_files_of e w))) = rv_pr_number (wt_st w)"
  "rv_plane_task_id (wt_st (fst (pr_files_of e w))) = rv_plane_task_id (wt_st w)"
  by (simp_all add: pr_files_of_def case_prod_unfold Let_def)

text \<open>What the holds do to the counters a trusted CI needs: a reset forgets the last fix pass.\<close>

lemma reset_trusted: "trusted_ci s p (wt_st (reset_on_external_push sha w)) \<Longrightarrow> trusted_ci s p (wt_st w)"
  by (auto simp: reset_on_external_push_def trusted_ci_def Let_def split: if_splits)

lemma expire_trusted: "trusted_ci s p (wt_st (expire_backend_park e s' sha w)) = trusted_ci s p (wt_st w)"
  by (rule trusted_cong)
    (simp_all add: expire_backend_park_def Let_def escalate_needs_human_def case_prod_unfold split: option.splits)

lemma hold_trusted: "snd (hold_escalated e s' q sha w) \<Longrightarrow> trusted_ci s p (wt_st (fst (hold_escalated e s' q sha w))) \<Longrightarrow> trusted_ci s p (wt_st w)"
proof -
  have u: "snd (hold_unchanged e s' q sha w) \<Longrightarrow> \<not> trusted_ci s p (wt_st (fst (hold_unchanged e s' q sha w)))"
    by (auto simp: hold_unchanged_def trusted_ci_def case_prod_unfold Let_def split: option.splits if_splits)
  have k: "trusted_ci s p (st\<lparr>rv_escalated_needs_human := a, rv_escalated_head_sha := b, rv_no_verdict_passes := c,
      rv_concerns_comment_id := d, rv_escalation_comment_id := f\<rparr>) = trusted_ci s p st" for st a b c d f
    by (rule trusted_cong) simp_all
  assume "snd (hold_escalated e s' q sha w)" "trusted_ci s p (wt_st (fst (hold_escalated e s' q sha w)))"
  then show "trusted_ci s p (wt_st w)" using u
    by (auto simp: hold_escalated_def trusted_ci_def merging_repo_def Let_def split: if_splits)
qed

lemma precondition_trusted: "trusted_ci s p (wt_st (fst (ci_precondition e s' q sha w))) \<Longrightarrow> snd (ci_precondition e s' q sha w) \<Longrightarrow> trusted_ci s p (wt_st w)"
  by (auto simp: ci_precondition_def trusted_ci_def merging_repo_def case_prod_unfold Let_def split: option.splits if_splits)

text \<open>The state in which a visit looks at the change itself.\<close>

definition before_review :: "surround \<Rightarrow> watch_settings \<Rightarrow> pull_request \<Rightarrow> watch \<Rightarrow> watch" where
  "before_review e s p w =
     (let sha = pr_head_sha_of p
      in fst (ci_precondition e s p sha
           (fst (hold_escalated e s p sha (expire_backend_park e s sha (reset_on_external_push sha w))))))"

end
