(* ===== verification/Review_Sample.thy ===== *)
theory Review_Sample
  imports Review_Safety
begin

text \<open>
  When the review watcher merges, and a sample pull request, host and reviewer on which the theorems about it are applied.
\<close>

section \<open>A sample\<close>

definition sample_pr :: pull_request where
  "sample_pr = \<lparr>pr_number = 7, pr_title = ''Tidy'', pr_draft = False, pr_head_sha = ''a1'', pr_head_ref = ''goal/x'', pr_base_ref = ''main'',
     pr_labels = [], pr_mergeable = Some True\<rparr>"

definition sample_host :: "check_run list option \<Rightarrow> string \<Rightarrow> nat \<Rightarrow> gh_query \<Rightarrow> gh_response option" where
  "sample_host runs diff n q =
     (case q of
        GetPr k \<Rightarrow> Some \<lparr>gr_status = 200, gr_body = G_pr sample_pr\<rparr>
      | GetProtection b \<Rightarrow> Some \<lparr>gr_status = 200, gr_body =
          G_protection \<lparr>bp_contexts = [''reviewer-verdict''], bp_checks = [], bp_enforce_admins = True\<rparr>\<rparr>
      | GetCheckRuns sha \<Rightarrow> map_option (\<lambda>cs. \<lparr>gr_status = 200, gr_body = G_checks cs\<rparr>) runs
      | GetDiff k \<Rightarrow> Some \<lparr>gr_status = 200, gr_body = G_text diff\<rparr>
      | _ \<Rightarrow> Some \<lparr>gr_status = 200, gr_body = G_other\<rparr>)"

definition sample_verdict :: json where
  "sample_verdict = JObj [(''checks'', JList [
     JObj [(''check_id'', JStr ''code_quality''), (''status'', JStr ''pass'')],
     JObj [(''check_id'', JStr ''no_tooling_artifacts''), (''status'', JStr ''pass'')]])]"

definition sample_surround :: "json \<Rightarrow> surround" where
  "sample_surround v =
     \<lparr>en_now = (\<lambda>n. 0), en_prose = (\<lambda>r st. []), en_hash = (\<lambda>t. t), en_sanitize = (\<lambda>t. t), en_show_time = (\<lambda>t. []),
      en_decode = (\<lambda>t. None), en_file_summary = (\<lambda>fs. []), en_plane_opens = (\<lambda>n. True), en_spec_file = (\<lambda>i. []),
      en_merge_override = None,
      en_rebase = (\<lambda>n. \<lparr>rg_has_clone = False, rg_raises = False, rg_merge_rc = 0, rg_up_to_date = False, rg_unmerged = False, rg_push_rc = 0\<rparr>),
      en_ruff = (\<lambda>n. \<lparr>ru_raises = False, ru_changed = False, ru_push_rc = 0\<rparr>), en_audit_findings = (\<lambda>n. []),
      en_member = (\<lambda>n b m. \<lparr>mr_tree_conflicted = False, mr_exit = MemberExit 0, mr_verdict_file = Some v, mr_stdout = []\<rparr>),
      en_fix = (\<lambda>n. FixResult False), en_usage = (\<lambda>n. None), en_allowed_backends = [], en_others_write = (\<lambda>n st. st)\<rparr>"

definition sample_watch_settings :: watch_settings where
  "sample_watch_settings =
     \<lparr>wsg_repos = [''core'' \<mapsto> \<lparr>wr_await_review = True, wr_auto_merge_on_ci_green = False, wr_ci_ignored_checks = [], wr_required_checks = [],
        wr_has_local_path = True\<rparr>],
      wsg_reviewer = default_reviewer, wsg_autofix_audit = False, wsg_dynamic_worker_backend = True\<rparr>"

definition sample_check_run :: check_run where
  "sample_check_run = \<lparr>cr_name = ''tests'', cr_id = 5, cr_status = ''completed'', cr_conclusion = ''success'', cr_title = []\<rparr>"

definition sample_watch :: "check_run list option \<Rightarrow> string \<Rightarrow> watch" where
  "sample_watch runs diff =
     \<lparr>wt_st = (new_state ''core'' 7)\<lparr>rv_phase := ''self_review''\<rparr>, wt_file = None,
      wt_forge = \<lparr>fg_calls = 0, fg_server = sample_host runs diff, fg_log = []\<rparr>,
      wt_board = \<lparr>bd_issues = [], bd_comments = [], bd_calls = 0, bd_fails = (\<lambda>_. False), bd_new_id = (\<lambda>n. [])\<rparr>, wt_tick = 0, wt_runs = []\<rparr>"

lemma sample_checked:
  assumes "fg_server f = sample_host runs diff" "sample_host runs diff (fg_calls f) q = Some r" "gr_status r = 200"
  shows "gh_checked f q = (f\<lparr>fg_calls := fg_calls f + 1, fg_log := (q, Some r) # fg_log f\<rparr>, Some (gr_body r))"
    "gh_request f q = (f\<lparr>fg_calls := fg_calls f + 1, fg_log := (q, Some r) # fg_log f\<rparr>, Some r)"
  using assms
  by (simp_all add: gh_checked_def gh_request_def GH_RATE_LIMIT_MAX_RETRIES_def gh_retry.simps [of 3] gh_exchange_def gh_ok_def Let_def)

lemma gh_merge_counts: "merges f < merges (fst (gh_merge_pr f n m))"
proof -
  have e: "merges (fst (gh_exchange g (PutMerge n m))) = merges g + 1" for g
    by (simp add: gh_exchange_def merges_def is_merge_def Let_def)
  have "merges g < merges (fst (gh_retry k g (PutMerge n m)))" for k g
  proof (induction k arbitrary: g)
    case 0
    then show ?case using e [of g] by (subst gh_retry.simps) (auto simp: case_prod_unfold Let_def split: option.splits)
  next
    case (Suc k)
    then show ?case using e [of g] Suc.IH [of "fst (gh_exchange g (PutMerge n m))"]
      by (subst gh_retry.simps) (auto simp: case_prod_unfold Let_def split: option.splits)
  qed
  then show ?thesis by (simp add: gh_merge_pr_def gh_checked_def gh_request_def case_prod_unfold Let_def)
qed

lemma merge_and_done_iff: "merges (wt_forge w) < merges (wt_forge (merge_and_done e s p reason w)) \<longleftrightarrow> merge_gates s p w"
proof
  assume "merge_gates s p w"
  then obtain f mergeable w1 w2 f3 f4 where g:
    "gh_get_mergeable (wt_forge w) (rv_pr_number (wt_st w)) = (f, mergeable)" "mergeable \<noteq> Some False"
    "branch_protection_ok s (base_branch_of p) (on_st (\<lambda>st. st\<lparr>rv_rebase_attempts := 0\<rparr>) (w\<lparr>wt_forge := f\<rparr>)) = (w1, True)"
    "sensitive_path_ack_ok s p w1 = (w2, True)"
    "gh_get_failed_checks (wt_forge w2) p (ignored_of s (wt_st w)) = (f3, [])"
    "gh_get_incomplete_checks f3 p (ignored_of s (wt_st w)) = (f4, [])"
    unfolding merge_gates_def by blast
  let ?w0 = "on_st (\<lambda>st. st\<lparr>rv_rebase_attempts := 0\<rparr>) (w\<lparr>wt_forge := f\<rparr>)"
  have st: "rv_repo_key (wt_st w2) = rv_repo_key (wt_st w)"
    using gate_frames(1) [of s "base_branch_of p" ?w0] gate_frames(7) [of s p w1] g(3,4) by simp
  have m: "merges f4 = merges (wt_forge w)"
    using quiet_reads(4) [of "wt_forge w" "rv_pr_number (wt_st w)"] gate_frames(5) [of s "base_branch_of p" ?w0] gate_frames(11) [of s p w1]
      quiet_reads(6) [of "wt_forge w2" p "ignored_of s (wt_st w)"] quiet_reads(7) [of f3 p "ignored_of s (wt_st w)"] g by simp
  let ?w6 = "publish_reviewer_verdict (pr_head_sha_of p) ''success'' (''reviewer approved ('' @ reason @ '')'') (w2\<lparr>wt_forge := f4\<rparr>)"
  have ig: "(case wsg_repos s (rv_repo_key (wt_st w2)) of None \<Rightarrow> [] | Some r \<Rightarrow> wr_ci_ignored_checks r) = ignored_of s (wt_st w)"
    by (simp add: ignored_of_def st)
  have "merges (wt_forge (merge_and_done e s p reason w)) = merges (fst (gh_merge_pr (wt_forge ?w6) (rv_pr_number (wt_st ?w6)) (merge_method_for e)))"
    using g ig by (simp add: merge_and_done_def case_prod_unfold Let_def)
  then show "merges (wt_forge w) < merges (wt_forge (merge_and_done e s p reason w))"
    using gh_merge_counts [of "wt_forge ?w6"] m by simp
qed (rule merge_and_done_merges)

lemma sample_ops:
  assumes "fg_server f = sample_host (Some [sample_check_run]) diff"
  shows "gh_get_mergeable f n = (f\<lparr>fg_calls := fg_calls f + 1, fg_log := (GetPr n, Some \<lparr>gr_status = 200, gr_body = G_pr sample_pr\<rparr>) # fg_log f\<rparr>, Some True)"
    "\<exists>g. gh_get_branch_protection f b = (g, Some (Some \<lparr>bp_contexts = [''reviewer-verdict''], bp_checks = [], bp_enforce_admins = True\<rparr>))
       \<and> fg_server g = fg_server f"
    "\<exists>g. gh_get_failed_checks f sample_pr [] = (g, []) \<and> fg_server g = fg_server f"
    "\<exists>g. gh_get_incomplete_checks f sample_pr [] = (g, []) \<and> fg_server g = fg_server f"
proof -
  have r: "fold note_run [sample_check_run] [] = [(''tests'', sample_check_run)]" by (simp add: note_run_def sample_check_run_def)
  show "gh_get_mergeable f n = (f\<lparr>fg_calls := fg_calls f + 1, fg_log := (GetPr n, Some \<lparr>gr_status = 200, gr_body = G_pr sample_pr\<rparr>) # fg_log f\<rparr>, Some True)"
    using sample_checked(1) [OF assms, of "GetPr n"] by (simp add: gh_get_mergeable_def gh_get_pr_def sample_host_def sample_pr_def)
  show "\<exists>g. gh_get_branch_protection f b = (g, Some (Some \<lparr>bp_contexts = [''reviewer-verdict''], bp_checks = [], bp_enforce_admins = True\<rparr>))
       \<and> fg_server g = fg_server f"
    using sample_checked(2) [OF assms, of "GetProtection b"] by (simp add: gh_get_branch_protection_def sample_host_def gh_ok_def)
  have h: "runs_of_head f sample_pr [] = (f\<lparr>fg_calls := fg_calls f + 1, fg_log := (GetCheckRuns ''a1'', Some \<lparr>gr_status = 200, gr_body = G_checks [sample_check_run]\<rparr>) # fg_log f\<rparr>,
      [sample_check_run])"
    using sample_checked(1) [OF assms, of "GetCheckRuns ''a1''"] r
    by (simp add: runs_of_head_def sample_host_def sample_pr_def latest_runs_def ignored_run_def)
  show "\<exists>g. gh_get_failed_checks f sample_pr [] = (g, []) \<and> fg_server g = fg_server f"
    using h by (simp add: gh_get_failed_checks_def failed_run_def sample_check_run_def)
  show "\<exists>g. gh_get_incomplete_checks f sample_pr [] = (g, []) \<and> fg_server g = fg_server f"
    using h by (simp add: gh_get_incomplete_checks_def sample_check_run_def)
qed

lemma sample_gates:
  assumes "fg_server (wt_forge w) = sample_host (Some [sample_check_run]) diff" "rv_repo_key (wt_st w) = ''core''"
  shows "merge_gates sample_watch_settings sample_pr w"
proof -
  let ?f = "fst (gh_get_mergeable (wt_forge w) (rv_pr_number (wt_st w)))"
  let ?w0 = "on_st (\<lambda>st. st\<lparr>rv_rebase_attempts := 0\<rparr>) (w\<lparr>wt_forge := ?f\<rparr>)"
  have f: "gh_get_mergeable (wt_forge w) (rv_pr_number (wt_st w)) = (?f, Some True)" "fg_server ?f = fg_server (wt_forge w)"
    using sample_ops(1) [OF assms(1)] by simp_all
  obtain g where g: "gh_get_branch_protection ?f (base_branch_of sample_pr)
      = (g, Some (Some \<lparr>bp_contexts = [''reviewer-verdict''], bp_checks = [], bp_enforce_admins = True\<rparr>))" "fg_server g = fg_server ?f"
    using sample_ops(2) [of ?f] f(2) assms(1) by metis
  let ?w1 = "?w0\<lparr>wt_forge := g\<rparr>"
  have b: "branch_protection_ok sample_watch_settings (base_branch_of sample_pr) ?w0 = (?w1, True)"
    using g by (simp add: branch_protection_ok_def sample_watch_settings_def default_reviewer_def verdict_protects_def REVIEWER_VERDICT_STATUS_CONTEXT_def)
  have a: "sensitive_path_ack_ok sample_watch_settings sample_pr ?w1 = (?w1, True)"
    by (simp add: sensitive_path_ack_ok_def sample_watch_settings_def default_reviewer_def)
  have ig: "ignored_of sample_watch_settings (wt_st w) = []" using assms(2) by (simp add: ignored_of_def sample_watch_settings_def)
  obtain g3 where g3: "gh_get_failed_checks g sample_pr [] = (g3, [])" "fg_server g3 = fg_server g"
    using sample_ops(3) [of g] g(2) f(2) assms(1) by metis
  obtain g4 where g4: "gh_get_incomplete_checks g3 sample_pr [] = (g4, [])"
    using sample_ops(4) [of g3] g3(2) g(2) f(2) assms(1) by metis
  show ?thesis unfolding merge_gates_def ig
    by (intro exI conjI) (rule f(1), simp, rule b, rule a, simp add: g3, rule g4)
qed

lemma sample_review:
  fixes diff :: string
  assumes "files_from_diff diff = []" "length diff < 100" "diff \<noteq> []"
  defines "w \<equiv> sample_watch (Some [sample_check_run]) diff" and "e \<equiv> sample_surround sample_verdict"
  shows "\<exists>w2. fst (phase1 e sample_watch_settings sample_pr w) = merge_and_done e sample_watch_settings sample_pr ''self_review_lgtm'' w2
    \<and> fg_server (wt_forge w2) = sample_host (Some [sample_check_run]) diff \<and> rv_repo_key (wt_st w2) = ''core'' \<and> merges (wt_forge w2) = 0"
proof -
  have sha: "pr_head_sha_of sample_pr = ''a1''" by (simp add: pr_head_sha_of_def sample_pr_def py_strip_def is_space_def)
  have st: "wt_st w = (new_state ''core'' 7)\<lparr>rv_phase := ''self_review''\<rparr>" by (simp add: w_def sample_watch_def)
  have h: "hold_escalated e sample_watch_settings sample_pr ''a1'' (expire_backend_park e sample_watch_settings ''a1''
      (reset_on_external_push ''a1'' w)) = (w, True)"
    by (simp add: reset_on_external_push_def expire_backend_park_def hold_escalated_def st new_state_def has_comment_id_def Let_def)
  have c: "ci_precondition e sample_watch_settings sample_pr ''a1'' w = (w, True)"
    by (simp add: ci_precondition_def merging_repo_def st new_state_def sample_watch_settings_def)
  obtain f where f: "gh_pr_diff (en_file_summary e) (wt_forge w) 7 = (f, diff)" "fg_server f = sample_host (Some [sample_check_run]) diff"
      "merges f = 0"
    by (simp add: gh_pr_diff_def gh_exchange_def w_def sample_watch_def sample_host_def gh_ok_def merges_def Let_def is_merge_def)
  have pf: "pr_files_of e w = (w\<lparr>wt_forge := f\<rparr>, [])"
    using f assms(1-3) by (simp add: pr_files_of_def st new_state_def DIFF_LIMIT_def Let_def)
  have v: "verdict_of_document e sample_verdict = Some \<lparr>mv_result = LGTM, mv_failing = [], mv_summary = []\<rparr>"
  proof -
    have "compute_verdict (map_of [(''checks'', JList [
     JObj [(''check_id'', JStr ''code_quality''), (''status'', JStr ''pass'')],
     JObj [(''check_id'', JStr ''no_tooling_artifacts''), (''status'', JStr ''pass'')]])] ''checks'') = Some (LGTM, [])"
      by (simp add: compute_verdict_def entry_status_def failing_ids_def VALID_STATUS_def)
    then show ?thesis by (simp add: verdict_of_document_def sample_verdict_def or_empty_def)
  qed
  let ?w1 = "w\<lparr>wt_forge := f\<rparr>"
  obtain w2 where r: "run_member_review e ''claude_code'' ''haiku'' (clock_tick ?w1) = (w2, Verdict (Some \<lparr>mv_result = LGTM, mv_failing = [], mv_summary = []\<rparr>))"
    using v by (simp add: run_member_review_def knows_member_def e_def sample_surround_def raw_verdict_def sample_verdict_def Let_def)
  have f2: "wt_st w2 = wt_st w" "wt_forge w2 = f" using member_frame(1,2) [of e "''claude_code''" "''haiku''" "clock_tick ?w1"] r by simp_all
  have lg: "verdict_result \<lparr>mv_result = LGTM, mv_failing = [], mv_summary = []\<rparr> = LGTM" by (simp add: verdict_result_def member_outcome_def)
  let ?w3 = "on_st (\<lambda>st. st\<lparr>rv_no_verdict_passes := 0, rv_no_verdict_backoff_level := 0\<rparr>)
    (on_st (\<lambda>st. st\<lparr>rv_self_review_loops := rv_self_review_loops st + 1, rv_env_unclean_passes := 0, rv_backend_error_passes := 0\<rparr>) w2)"
  let ?w4 = "publish_reviewer_verdict ''a1'' ''success'' ''reviewer LGTM'' ?w3"
  have "fst (phase1 e sample_watch_settings sample_pr w) = merge_and_done e sample_watch_settings sample_pr ''self_review_lgtm'' ?w4"
    using h c pf r lg
    by (simp add: phase1_def sha review_change_def needs_council_def sensitive_paths_in_diff_def single_review_def review_backend_def
        dispatch_verdict_outcome_def e_def sample_surround_def Let_def)
  moreover have "fg_server (wt_forge ?w4) = fg_server f"
    using sends_writes(6) [of "\<lambda>_. True" "''a1''" "''success''" "''reviewer LGTM''" f]
    by (simp add: publish_reviewer_verdict_def f2 sends_def adds_def)
  moreover have "rv_repo_key (wt_st ?w4) = ''core''" "merges (wt_forge ?w4) = 0" using f2 f(3) st by (simp_all add: new_state_def)
  ultimately show ?thesis by (intro exI [of _ ?w4] conjI) (simp_all only: f(2))
qed

section \<open>Merges\<close>



end
