(* ===== verification/Review_Bounds.thy ===== *)
theory Review_Bounds
  imports Review_Sample
begin

text \<open>
  Bounds of the review watcher: the number of fix passes, the polls a red CI is repaired in, what closing a pull request
  leaves behind, and that a pull request handed to a human is left alone.
\<close>

section \<open>The budget of fix passes\<close>

definition is_fix :: "watch_run \<Rightarrow> bool" where
  "is_fix r = (case r of RunFix h c l \<Rightarrow> True | _ \<Rightarrow> False)"

definition fix_passes :: "watch \<Rightarrow> int" where
  "fix_passes w = int (length (filter is_fix (wt_runs w)))"

text \<open>What is left: a full round per retraction still possible, the rest of the current round, and the rest of the repair of CI.\<close>

definition fix_budget :: "int \<Rightarrow> review_state \<Rightarrow> int" where
  "fix_budget m st = m * (3 - rv_ci_green_retraction_count st) + (m - rv_fix_attempts st) + (3 - rv_ci_fix_attempts st)"

definition fix_counts_ok :: "int \<Rightarrow> review_state \<Rightarrow> bool" where
  "fix_counts_ok m st \<longleftrightarrow> 0 \<le> rv_fix_attempts st \<and> rv_fix_attempts st \<le> m
     \<and> 0 \<le> rv_ci_green_retraction_count st \<and> rv_ci_green_retraction_count st \<le> 3
     \<and> 0 \<le> rv_ci_fix_attempts st \<and> rv_ci_fix_attempts st \<le> 3"

definition in_budget :: "int \<Rightarrow> int \<Rightarrow> watch \<Rightarrow> bool" where
  "in_budget m k w \<longleftrightarrow> fix_counts_ok m (wt_st w) \<and> fix_passes w + fix_budget m (wt_st w) \<le> k
     \<and> (\<forall>f. wt_file w = Some f \<longrightarrow> fix_counts_ok m f \<and> fix_passes w + fix_budget m f \<le> k)"

lemma budget_nonneg: "fix_counts_ok m st \<Longrightarrow> 0 \<le> fix_budget m st"
  by (simp add: fix_counts_ok_def fix_budget_def)

text \<open>A step that starts no fix pass and leaves the counters alone, in memory and in what it saves.\<close>

definition same_counts :: "review_state \<Rightarrow> review_state \<Rightarrow> bool" where
  "same_counts st st' \<longleftrightarrow> rv_fix_attempts st' = rv_fix_attempts st \<and> rv_ci_green_retraction_count st' = rv_ci_green_retraction_count st
     \<and> rv_ci_fix_attempts st' = rv_ci_fix_attempts st"

lemma ci_fix_frames [simp]:
  "rv_ci_fix_attempts (wt_st (escalate_needs_human e s r d sha w)) = rv_ci_fix_attempts (wt_st w)"
  "rv_ci_fix_attempts (wt_st (note_fix_push b w)) = rv_ci_fix_attempts (wt_st w)"
  "rv_ci_fix_attempts (wt_st (take_disk_escalation e w)) = rv_ci_fix_attempts (wt_st w)"
  "rv_ci_fix_attempts (track_concern_raised e n c sha st) = rv_ci_fix_attempts st"
  by (simp_all add: escalate_needs_human_def note_fix_push_def take_disk_escalation_def track_concern_raised_def case_prod_unfold Let_def
      split: option.splits)

definition calm :: "watch \<Rightarrow> watch \<Rightarrow> bool" where
  "calm w w' \<longleftrightarrow> fix_passes w' = fix_passes w \<and> same_counts (wt_st w) (wt_st w')
     \<and> (case wt_file w' of None \<Rightarrow> True | Some f \<Rightarrow> wt_file w = Some f \<or> same_counts (wt_st w) f)"

lemma calm_refl [simp]: "calm w w" by (simp add: calm_def same_counts_def split: option.splits)

lemma calm_trans [trans]: "calm u v \<Longrightarrow> calm v w \<Longrightarrow> calm u w"
  by (auto simp: calm_def same_counts_def split: option.splits)

lemma calm_in_budget: "calm w w' \<Longrightarrow> in_budget m k w \<Longrightarrow> in_budget m k w'"
  by (auto simp: calm_def in_budget_def same_counts_def fix_counts_ok_def fix_budget_def split: option.splits)

lemma fix_passes_basics [simp]:
  "fix_passes (on_st g w) = fix_passes w" "fix_passes (clock_tick w) = fix_passes w" "fix_passes (save_review w) = fix_passes w" "fix_passes (unlink_state w) = fix_passes w"
  "fix_passes (w\<lparr>wt_forge := f\<rparr>) = fix_passes w" "fix_passes (w\<lparr>wt_board := b\<rparr>) = fix_passes w"
  "fix_passes (note_runs (RunMember b' m) w) = fix_passes w" "fix_passes (note_runs (RunRebase h) w) = fix_passes w" "fix_passes (note_runs (RunRuff h) w) = fix_passes w"
  by (simp_all add: fix_passes_def is_fix_def)

lemma calm_steps [simp]:
  "calm w (clock_tick w)" "calm w (save_review w)" "calm w (unlink_state w)" "calm w (w\<lparr>wt_forge := f\<rparr>)" "calm w (w\<lparr>wt_board := b\<rparr>)"
  "calm w (note_runs (RunMember b' m) w)" "calm w (note_runs (RunRebase h) w)"
  by (simp_all add: calm_def same_counts_def split: option.splits)

lemma calm_on_st: "(\<And>st. same_counts st (g st)) \<Longrightarrow> calm w (on_st g w)"
  by (auto simp: calm_def split: option.splits)

lemma calm_retract [simp]: "calm w (retract_flag t w)"
  by (auto simp: calm_def same_counts_def fix_passes_def split: option.splits)

lemma calm_escalate [simp]: "calm w (escalate_needs_human e s r d sha w)"
  by (simp add: calm_def same_counts_def fix_passes_def)

lemma calm_forge_ops [simp]:
  "calm w (fst (ci_status_of r p w))" "calm w (fst (branch_protection_ok s b w))" "calm w (fst (sensitive_path_ack_ok s p w))"
  "calm w (publish_reviewer_verdict sha r' d w)" "calm w (plane_done e r' w)" "calm w (fst (ci_validates s p w))"
  "calm w (fst (requeue_plane_task e task r' c w))" "calm w (fst (record_close_receipt e task p r' w))"
  by (auto simp: calm_def same_counts_def fix_passes_def split: option.splits)

lemma calm_member [simp]: "calm w (fst (run_member_review e b m w))"
  by (auto simp: calm_def same_counts_def fix_passes_def run_member_review_def is_fix_def Let_def split: option.splits member_exit.splits)

lemma calm_rebase [simp]: "calm w (auto_rebase_or_escalate e s w)"
proof -
  let ?w1 = "clock_tick (note_runs (RunRebase (py_strip (rv_head_ref (wt_st w)))) w)"
  let ?w2 = "on_st (\<lambda>st. st\<lparr>rv_last_rebase_at := At (now_of e ?w1)\<rparr>) ?w1"
  have c2: "calm w ?w2" by (auto simp: calm_def same_counts_def fix_passes_def is_fix_def split: option.splits)
  moreover have "calm ?w2 (save_review (on_st (\<lambda>st. st\<lparr>rv_rebase_attempts := rv_rebase_attempts st + 1\<rparr>) ?w2))"
    by (simp add: calm_def same_counts_def fix_passes_def)
  ultimately show ?thesis
    by (auto simp: auto_rebase_or_escalate_def Let_def simp del: watch_basics intro: calm_trans)
qed

lemma calm_delete [simp]: "calm w (delete_head_branch p t w)"
  by (simp add: delete_head_branch_def)

lemma calm_merge_and_done [simp]: "calm w (merge_and_done e s p reason w)"
proof -
  have f: "calm w v \<Longrightarrow> calm w (v\<lparr>wt_forge := f\<rparr>)" for v f by (erule calm_trans) simp
  have o: "calm w v \<Longrightarrow> calm w (on_st (\<lambda>st. st\<lparr>rv_rebase_attempts := 0\<rparr>) v)" for v
    by (erule calm_trans, rule calm_on_st) (simp add: same_counts_def)
  have b: "calm w v \<Longrightarrow> calm w (fst (branch_protection_ok s x v))" for v x by (erule calm_trans) simp
  have a: "calm w v \<Longrightarrow> calm w (fst (sensitive_path_ack_ok s p v))" for v by (erule calm_trans) simp
  have c: "calm w v \<Longrightarrow> calm w (publish_reviewer_verdict x y z v)" for v x y z by (erule calm_trans) simp
  have r: "calm w v \<Longrightarrow> calm w (retract_flag t v)" for v t by (erule calm_trans) simp
  have d: "calm w v \<Longrightarrow> calm w (plane_done e x v)" for v x by (erule calm_trans) simp
  have u: "calm w v \<Longrightarrow> calm w (unlink_state v)" for v by (erule calm_trans) simp
  have g: "calm w v \<Longrightarrow> calm w (auto_rebase_or_escalate e s v)" for v by (erule calm_trans) simp
  show ?thesis unfolding merge_and_done_def case_prod_unfold Let_def
    by (auto simp only: split: if_split intro!: f o b a c r d u g calm_refl)
qed

lemma calm_close [simp]: "calm w (close_and_requeue e s p r d c w)"
proof -
  have f: "calm w v \<Longrightarrow> calm w (v\<lparr>wt_forge := f\<rparr>)" for v f by (erule calm_trans) simp
  have q: "calm w v \<Longrightarrow> calm w (fst (requeue_plane_task e x r c v))" for v x by (erule calm_trans) simp
  have k: "calm w v \<Longrightarrow> calm w (fst (record_close_receipt e x p r v))" for v x by (erule calm_trans) simp
  have b: "calm w v \<Longrightarrow> calm w (delete_head_branch p t v)" for v t by (erule calm_trans) simp
  have t: "calm w v \<Longrightarrow> calm w (retract_flag t v)" for v t by (erule calm_trans) simp
  have u: "calm w v \<Longrightarrow> calm w (unlink_state v)" for v by (erule calm_trans) simp
  have s: "calm w v \<Longrightarrow> calm w (save_review v)" for v by (erule calm_trans) simp
  show ?thesis unfolding close_and_requeue_def case_prod_unfold Let_def
    by (auto simp only: split: if_split option.split intro!: f q k b t u s calm_refl calm_escalate)
qed

text \<open>The other steps of a visit.\<close>

lemma calm_seats [simp]: "calm w (fst (run_seats e ms rs w))"
proof (induction ms arbitrary: rs w)
  case (Cons m ms)
  have "calm w (fst (run_seats e ms rs' (fst (run_member_review e (se_backend m) (se_model m) w))))" for rs'
    by (rule calm_trans [OF calm_member Cons.IH])
  then show ?case by (auto simp: case_prod_unfold Let_def split: review_end.splits option.splits)
qed simp

lemma calm_skipped [simp]: "calm w (fst (review_skipped e s sha r w))"
  by (auto simp: calm_def same_counts_def fix_passes_def review_skipped_def Let_def split: review_end.splits option.splits)

lemma calm_parked [simp]: "calm w (park_council e s sha n now w)"
  by (auto simp: calm_def same_counts_def fix_passes_def park_council_def Let_def)

lemma calm_no_verdict [simp]: "calm w (no_verdict e s sha w)"
  by (auto simp: calm_def same_counts_def fix_passes_def no_verdict_def Let_def split: option.splits)

lemma calm_expire [simp]: "calm w (expire_backend_park e s sha w)"
  by (auto simp: calm_def same_counts_def fix_passes_def expire_backend_park_def Let_def split: option.splits)

lemma calm_wait [simp]: "calm w (wait_or_escalate e s n r sha w)"
  by (auto simp: calm_def same_counts_def fix_passes_def wait_or_escalate_def split: option.splits)

lemma calm_red [simp]: "calm w (ci_red e s r p sha failed w)"
  by (auto simp: calm_def same_counts_def fix_passes_def ci_red_def count_wait_def update_check_history_def case_prod_unfold Let_def
      split: option.splits)

lemma calm_unsettled [simp]: "calm w (ci_unsettled e s r sha a b c w)"
proof -
  have o: "calm w (on_st (update_check_history [] b sha) (count_wait w))" for b
    by (auto simp: calm_def same_counts_def fix_passes_def count_wait_def update_check_history_def split: option.splits)
  have s: "calm (on_st (update_check_history [] b sha) (count_wait w)) v \<Longrightarrow> calm w v" for b v by (rule calm_trans [OF o])
  show ?thesis unfolding ci_unsettled_def Let_def by (auto simp only: split: if_split intro!: s calm_wait calm_escalate calm_steps)
qed

lemma calm_precondition [simp]: "calm w (fst (ci_precondition e s p sha w))"
proof -
  have f: "calm w (ci_red e s r p sha x (w\<lparr>wt_forge := g\<rparr>))" "calm w (ci_unsettled e s r sha x y z (w\<lparr>wt_forge := g\<rparr>))" for r x y z g
    using calm_trans [of w "w\<lparr>wt_forge := g\<rparr>"] by simp_all
  have o: "calm w (on_st (\<lambda>st. st\<lparr>rv_ci_wait_cycles := 0\<rparr>) (w\<lparr>wt_forge := g\<rparr>))" for g
    by (rule calm_trans [of w "w\<lparr>wt_forge := g\<rparr>"], simp, rule calm_on_st) (simp add: same_counts_def)
  show ?thesis unfolding ci_precondition_def case_prod_unfold Let_def
    by (auto simp only: fst_conv split: if_split option.split intro!: f o calm_refl)
qed

lemma calm_files [simp]: "calm w (fst (pr_files_of e w))"
  by (simp add: pr_files_of_def case_prod_unfold Let_def)

text \<open>A fix pass spends one.\<close>

lemma budget_after_dispatch:
  assumes "in_budget m k w" "rv_fix_attempts (wt_st w) < m"
  shows "in_budget m k (fst (dispatch_fix e p sha c w))"
proof -
  have n: "fix_passes (fst (dispatch_fix e p sha c w)) = fix_passes w + 1" by (simp add: fix_passes_def is_fix_def)
  have st: "rv_ci_fix_attempts (wt_st (fst (dispatch_fix e p sha c w))) = rv_ci_fix_attempts (wt_st w)"
    by (simp add: dispatch_fix_def case_prod_unfold Let_def split: sum.splits)
  have saved: "\<exists>f. wt_file (fst (dispatch_fix e p sha c w)) = Some f \<and> same_counts (wt_st (fst (dispatch_fix e p sha c w))) f"
    by (simp add: dispatch_fix_def same_counts_def case_prod_unfold Let_def split: sum.splits)
  show ?thesis using assms n st saved by (auto simp: in_budget_def fix_counts_ok_def fix_budget_def same_counts_def)
qed

lemma budget_after_resolve:
  assumes "in_budget (rw_max_fix_attempts (wsg_reviewer s)) k w"
  shows "in_budget (rw_max_fix_attempts (wsg_reviewer s)) k (fst (resolve_concerns e s p sha c w))"
proof (cases "rv_fix_attempts (wt_st w) \<ge> rw_max_fix_attempts (wsg_reviewer s)")
  case True
  then show ?thesis using calm_in_budget [OF calm_close assms] by (simp add: resolve_concerns_def)
next
  case False
  let ?q = "gh_post_comment (wt_forge w) (rv_pr_number (wt_st w)) (concern_body e s c)"
  let ?w1 = "if rv_fix_attempts (wt_st w) = 0
      then on_st (\<lambda>st. case snd ?q of None \<Rightarrow> st | Some cid \<Rightarrow> st\<lparr>rv_concerns_comment_id := cid\<rparr>) (w\<lparr>wt_forge := fst ?q\<rparr>) else w"
  have c1: "calm w ?w1" by (auto simp: calm_def same_counts_def fix_passes_def split: option.splits)
  have b1: "in_budget (rw_max_fix_attempts (wsg_reviewer s)) k ?w1" by (rule calm_in_budget [OF c1 assms])
  have a1: "rv_fix_attempts (wt_st ?w1) < rw_max_fix_attempts (wsg_reviewer s)" using False c1 by (simp add: calm_def same_counts_def)
  have "fst (resolve_concerns e s p sha c w)
      = (if pr_head_ref p = [] then close_and_requeue e s p ''no_head_ref'' no_head_ref_detail [] ?w1 else fst (dispatch_fix e p sha c ?w1))"
    using False by (simp add: resolve_concerns_def case_prod_unfold Let_def)
  then show ?thesis using budget_after_dispatch [OF b1 a1] calm_in_budget [OF calm_close b1] by simp
qed

lemma budget_after_outcome:
  assumes "in_budget (rw_max_fix_attempts (wsg_reviewer s)) k w"
  shows "in_budget (rw_max_fix_attempts (wsg_reviewer s)) k (fst (dispatch_verdict_outcome e s p r c sha w))"
proof -
  let ?b = "in_budget (rw_max_fix_attempts (wsg_reviewer s)) k"
  let ?w1 = "if r = CONCERNS \<and> sha \<noteq> [] then clock_tick (on_st (track_concern_raised e (now_of e w) c sha) w) else w"
  let ?w2 = "publish_reviewer_verdict sha (if r = LGTM then ''success'' else ''failure'')
    (if r = LGTM then ''reviewer LGTM'' else ''reviewer concerns '' @ em_dash @ '' auto-fixing'') ?w1"
  have c1: "calm w ?w1" by (auto simp: calm_def same_counts_def split: option.splits)
  have c2: "calm w ?w2" by (rule calm_trans [OF c1]) simp
  let ?w3 = "fst (ci_validates s p ?w2)"
  let ?w4 = "save_review (on_st (\<lambda>st. st\<lparr>rv_fix_strategy_level := rv_fix_strategy_level (wt_st ?w3) + 1\<rparr>) ?w3)"
  have c3: "calm w ?w3" by (rule calm_trans [OF c2]) simp
  have "calm ?w3 ?w4" by (simp add: calm_def same_counts_def)
  then have c4: "calm w ?w4" by (rule calm_trans [OF c3])
  note b = calm_in_budget [OF _ assms]
  have m: "?b (merge_and_done e s p x ?w2)" "?b (merge_and_done e s p x ?w3)" "?b (escalate_needs_human e s x y sha ?w3)" for x y
    by (rule b, rule calm_trans [OF c2], simp)
      (rule b, rule calm_trans [OF c3], simp, rule b, rule calm_trans [OF c3], simp)
  have rs: "?b (fst (resolve_concerns e s p sha c ?w2))" "?b (fst (resolve_concerns e s p sha c ?w4))"
    by (rule budget_after_resolve, rule b, rule c2) (rule budget_after_resolve, rule b, rule c4)
  have both: "?b x \<Longrightarrow> ?b y \<Longrightarrow> ?b (if q then x else y)" for x y q by simp
  show ?thesis unfolding dispatch_verdict_outcome_def case_prod_unfold Let_def if_distrib [of fst] fst_conv
    by (intro both m rs)
qed

lemma budget_after_council:
  assumes "in_budget (rw_max_fix_attempts (wsg_reviewer s)) k w"
  shows "in_budget (rw_max_fix_attempts (wsg_reviewer s)) k (fst (run_council e s p sha w))"
proof -
  let ?b = "in_budget (rw_max_fix_attempts (wsg_reviewer s)) k"
  let ?w1 = "on_st (\<lambda>st. st\<lparr>rv_council_park := False, rv_council_park_started_at := NoStamp\<rparr>) (clock_tick w)"
  let ?r = "run_seats e (available_seats e w) [] ?w1"
  have c1: "calm w ?w1" by (rule calm_trans [of _ "clock_tick w"], simp, rule calm_on_st) (simp add: same_counts_def)
  have c2: "calm w (fst ?r)" by (rule calm_trans [OF c1]) simp
  have o: "calm w (on_st (\<lambda>st. st\<lparr>rv_env_unclean_passes := 0, rv_backend_error_passes := 0\<rparr>) (fst ?r))"
    by (rule calm_trans [OF c2], rule calm_on_st) (simp add: same_counts_def)
  note b = calm_in_budget [OF _ assms]
  have d: "?b (fst (dispatch_verdict_outcome e s p x y sha
      ((on_st (\<lambda>st. st\<lparr>rv_env_unclean_passes := 0, rv_backend_error_passes := 0\<rparr>) (fst ?r))\<lparr>wt_forge := f\<rparr>)))" for x y f
    by (rule budget_after_outcome, rule b, rule calm_trans [OF o]) simp
  have k: "?b (park_council e s sha n now (clock_tick w))" for n now by (rule b, rule calm_trans [of _ "clock_tick w"]) simp_all
  have sk: "?b (fst (review_skipped e s sha x (fst ?r)))" for x by (rule b, rule calm_trans [OF c2]) simp
  show ?thesis
    by (cases "snd ?r") (simp_all add: run_council_def case_prod_unfold Let_def k sk d)
qed

lemma budget_after_single:
  assumes "in_budget (rw_max_fix_attempts (wsg_reviewer s)) k w"
  shows "in_budget (rw_max_fix_attempts (wsg_reviewer s)) k (fst (single_review e s p sha w))"
proof (cases "review_backend e s w")
  case None
  then show ?thesis using calm_in_budget [OF calm_steps(1) assms] by (simp add: single_review_def)
next
  case (Some bm)
  let ?b = "in_budget (rw_max_fix_attempts (wsg_reviewer s)) k"
  let ?w1 = "fst (run_member_review e (fst bm) (snd bm) (clock_tick w))"
  let ?w2 = "on_st (\<lambda>st. st\<lparr>rv_self_review_loops := rv_self_review_loops st + 1, rv_env_unclean_passes := 0, rv_backend_error_passes := 0\<rparr>) ?w1"
  let ?w3 = "on_st (\<lambda>st. st\<lparr>rv_no_verdict_passes := 0, rv_no_verdict_backoff_level := 0\<rparr>) ?w2"
  have c1: "calm w ?w1" by (rule calm_trans [of _ "clock_tick w"]) simp_all
  have c2: "calm w ?w2" by (rule calm_trans [OF c1], rule calm_on_st) (simp add: same_counts_def)
  have c3: "calm w ?w3" by (rule calm_trans [OF c2], rule calm_on_st) (simp add: same_counts_def)
  note b = calm_in_budget [OF _ assms]
  have sk: "?b (fst (review_skipped e s sha x ?w1))" for x by (rule b, rule calm_trans [OF c1]) simp
  have nv: "?b (no_verdict e s sha ?w2)" by (rule b, rule calm_trans [OF c2]) simp
  have d: "?b (fst (dispatch_verdict_outcome e s p x y sha ?w3))" for x y by (rule budget_after_outcome, rule b, rule c3)
  show ?thesis
    using Some by (cases "snd (run_member_review e (fst bm) (snd bm) (clock_tick w))")
      (simp_all add: single_review_def case_prod_unfold Let_def sk nv d split: option.split)
qed

text \<open>A CI-green retraction buys a new round of fix passes; only a push by somebody else renews the budget.\<close>

definition pushed_by_others :: "pull_request \<Rightarrow> review_state \<Rightarrow> bool" where
  "pushed_by_others p st \<longleftrightarrow>
     (let sha = pr_head_sha_of p; previous = py_strip (rv_last_concerns_head_sha st)
      in has_comment_id (rv_concerns_comment_id st) \<and> sha \<noteq> [] \<and> previous \<noteq> [] \<and> sha \<noteq> previous \<and> \<not> is_our_fix_push st sha)"

lemma budget_after_reset:
  assumes "in_budget m k w" "0 \<le> m"
  shows "in_budget m (k + (if pushed_by_others p (wt_st w) then m else 0)) (reset_on_external_push (pr_head_sha_of p) w)"
proof (cases "pushed_by_others p (wt_st w)")
  case True
  then have r: "\<exists>st. wt_st (reset_on_external_push (pr_head_sha_of p) w) = st \<and> wt_file (reset_on_external_push (pr_head_sha_of p) w) = Some st
      \<and> rv_fix_attempts st = 0 \<and> rv_ci_green_retraction_count st = rv_ci_green_retraction_count (wt_st w)
      \<and> rv_ci_fix_attempts st = rv_ci_fix_attempts (wt_st w)"
    by (simp add: reset_on_external_push_def pushed_by_others_def Let_def)
  have "fix_passes (reset_on_external_push (pr_head_sha_of p) w) = fix_passes w" by (simp add: fix_passes_def)
  then show ?thesis using assms True r by (auto simp: in_budget_def fix_counts_ok_def fix_budget_def)
next
  case False
  then have "reset_on_external_push (pr_head_sha_of p) w = w" by (auto simp: reset_on_external_push_def pushed_by_others_def Let_def)
  then show ?thesis using assms False by simp
qed

lemma budget_after_hold:
  assumes "in_budget m k w" "0 \<le> m"
  shows "in_budget m k (fst (hold_escalated e s p sha w))"
proof -
  note b = calm_in_budget [OF _ assms(1)]
  have u: "in_budget m k (fst (hold_unchanged e s p sha w))"
  proof (cases "snd (hold_unchanged e s p sha w)")
    case True
    then have "rv_ci_green_retraction_count (wt_st w) < 3"
      by (auto simp: hold_unchanged_def MAX_CI_GREEN_RETRACTIONS_def Let_def split: if_splits)
    moreover have "\<exists>st. wt_st (fst (hold_unchanged e s p sha w)) = st \<and> wt_file (fst (hold_unchanged e s p sha w)) = Some st
        \<and> rv_fix_attempts st = 0 \<and> rv_ci_green_retraction_count st = rv_ci_green_retraction_count (wt_st w) + 1
        \<and> rv_ci_fix_attempts st = rv_ci_fix_attempts (wt_st w)"
      using True by (auto simp: hold_unchanged_def case_prod_unfold Let_def split: if_splits option.splits)
    moreover have "fix_passes (fst (hold_unchanged e s p sha w)) = fix_passes w" by (simp add: fix_passes_def)
    moreover have "m * (3 - (r + 1)) + m = m * (3 - r)" for r :: int by (simp add: algebra_simps)
    ultimately show ?thesis using assms by (auto simp: in_budget_def fix_counts_ok_def fix_budget_def)
  next
    case False
    then have "calm w (fst (hold_unchanged e s p sha w))"
      by (auto simp: hold_unchanged_def case_prod_unfold Let_def intro: calm_trans [OF calm_steps(1) calm_forge_ops(1)] split: if_splits option.splits)
    then show ?thesis by (rule b)
  qed
  have s: "calm w (save_review (on_st g w))" "calm w (save_review (on_st g (retract_flag x w)))" if "\<And>st. same_counts st (g st)" for g x
    using that by (auto simp: calm_def same_counts_def fix_passes_def)
  show ?thesis unfolding hold_escalated_def Let_def
    using u assms(1) by (auto intro!: b s simp: same_counts_def simp del: watch_basics)
qed

lemma budget_after_phase1:
  assumes "in_budget (rw_max_fix_attempts (wsg_reviewer s)) k w" "0 \<le> rw_max_fix_attempts (wsg_reviewer s)"
  shows "in_budget (rw_max_fix_attempts (wsg_reviewer s))
    (k + (if pushed_by_others p (wt_st w) then rw_max_fix_attempts (wsg_reviewer s) else 0)) (fst (phase1 e s p w))"
proof -
  let ?m = "rw_max_fix_attempts (wsg_reviewer s)" and ?sha = "pr_head_sha_of p"
  let ?b = "in_budget ?m (k + (if pushed_by_others p (wt_st w) then ?m else 0))"
  let ?w1 = "expire_backend_park e s ?sha (reset_on_external_push ?sha w)"
  let ?w2 = "fst (hold_escalated e s p ?sha ?w1)"
  let ?w3 = "fst (ci_precondition e s p ?sha ?w2)"
  let ?w4 = "fst (pr_files_of e ?w3)"
  have b1: "?b ?w1" by (rule calm_in_budget [OF calm_expire budget_after_reset [OF assms]])
  have b2: "?b ?w2" by (rule budget_after_hold [OF b1 assms(2)])
  have b3: "?b ?w3" by (rule calm_in_budget [OF calm_precondition b2])
  have b4: "?b ?w4" by (rule calm_in_budget [OF calm_files b3])
  show ?thesis
    using b2 b3 budget_after_council [OF b4] budget_after_single [OF b4]
    by (simp add: phase1_def review_change_def case_prod_unfold Let_def)
qed

text \<open>The repair of CI has three passes of its own.\<close>

lemma calm_to_review [simp]: "calm w (to_self_review w)"
  by (simp add: to_self_review_def calm_def same_counts_def)

lemma budget_after_repair:
  assumes "in_budget m k w" "rv_ci_fix_attempts (wt_st w) < 3"
  shows "in_budget m k (clock_tick (save_review (on_st (\<lambda>st. st\<lparr>rv_ci_fix_attempts := rv_ci_fix_attempts (wt_st w) + 1, rv_ci_fix_last_push_at := x\<rparr>) w)))"
    "in_budget m k (fst (run_fix_pass e h c l
       (clock_tick (save_review (on_st (\<lambda>st. st\<lparr>rv_ci_fix_attempts := rv_ci_fix_attempts (wt_st w) + 1, rv_ci_fix_last_push_at := x\<rparr>) w)))))"
  using assms by (auto simp: in_budget_def fix_counts_ok_def fix_budget_def fix_passes_def is_fix_def)

lemma budget_after_audit:
  assumes "in_budget m k w"
  shows "in_budget m k (phase0_audit_autofix e s p (rv_ci_fix_attempts (wt_st w)) w)"
proof -
  have t: "in_budget m k (clock_tick w)" using calm_in_budget [OF calm_steps(1) assms] .
  have c: "in_budget m k v \<Longrightarrow> in_budget m k (to_self_review v)" "in_budget m k v \<Longrightarrow> in_budget m k (v\<lparr>wt_forge := f\<rparr>)" for v f
    by (erule calm_in_budget [rotated], simp)+
  note r = budget_after_repair [OF t]
  show ?thesis
    by (cases "rv_ci_fix_attempts (wt_st w) < 3")
      (auto simp: phase0_audit_autofix_def MAX_CI_FIX_ATTEMPTS_def case_prod_unfold Let_def split: sum.splits
        intro!: c t r [simplified])
qed

lemma budget_after_failed:
  assumes "in_budget m k w"
  shows "in_budget m k (phase0_failed e s r p failed w)"
proof -
  have c: "in_budget m k v \<Longrightarrow> in_budget m k (to_self_review v)" for v by (erule calm_in_budget [rotated], simp)
  have t: "in_budget m k (clock_tick (note_runs (RunRuff h) w))" for h
    using assms by (auto simp: in_budget_def fix_passes_def is_fix_def)
  have f: "in_budget m k (phase0_ruff e p (rv_ci_fix_attempts (wt_st w)) w)" if "rv_ci_fix_attempts (wt_st w) < 3"
    using budget_after_repair(1) [OF t] that by (auto simp: phase0_ruff_def Let_def intro!: c t)
  show ?thesis
    using budget_after_audit [OF assms] f
    by (auto simp: phase0_failed_def MAX_CI_FIX_ATTEMPTS_def Let_def intro!: c assms)
qed

lemma budget_after_phase0:
  assumes "in_budget m k w"
  shows "in_budget m k (fst (phase0_ci_fix e s p w))"
proof -
  have c: "in_budget m k v \<Longrightarrow> in_budget m k (to_self_review v)" "in_budget m k v \<Longrightarrow> in_budget m k (clock_tick v)"
      "in_budget m k v \<Longrightarrow> in_budget m k (save_review v)" "in_budget m k v \<Longrightarrow> in_budget m k (fst (ci_status_of r p v))" for v r
    by (erule calm_in_budget [rotated], simp)+
  have o: "in_budget m k v \<Longrightarrow> in_budget m k (on_st (\<lambda>st. st\<lparr>rv_ci_settle_cycles := n\<rparr>) v)" for v n
    by (erule calm_in_budget [rotated], rule calm_on_st) (simp add: same_counts_def)
  show ?thesis unfolding phase0_ci_fix_def case_prod_unfold Let_def
    by (auto simp only: fst_conv split: option.splits if_split time_stamp.splits intro!: c o assms budget_after_failed)
qed

section \<open>Visits of one pull request\<close>

text \<open>
  The visits of one pull request as its state file lives, one for each version of the pull request the host lists; the second
  result counts the pushes by others that renewed the budget.
\<close>

fun review_visits :: "surround \<Rightarrow> watch_settings \<Rightarrow> pull_request list \<Rightarrow> watch \<Rightarrow> watch \<times> nat" where
  "review_visits e s [] w = (w, 0)"
| "review_visits e s (p # ps) w =
     (case wt_file w of
        None \<Rightarrow> (w, 0)
      | Some st \<Rightarrow>
          let w0 = w\<lparr>wt_st := if pr_head_ref p = [] then st else st\<lparr>rv_head_ref := pr_head_ref p\<rparr>\<rparr>;
              (w', n) = review_visits e s ps (fst (work_on_pr e s p w0))
          in (w', n + (if pushed_by_others p st then 1 else 0)))"

lemma budget_after_visit:
  assumes "in_budget (rw_max_fix_attempts (wsg_reviewer s)) k w" "0 \<le> rw_max_fix_attempts (wsg_reviewer s)"
  shows "in_budget (rw_max_fix_attempts (wsg_reviewer s))
    (k + (if pushed_by_others p (wt_st w) then rw_max_fix_attempts (wsg_reviewer s) else 0)) (fst (work_on_pr e s p w))"
proof -
  let ?m = "rw_max_fix_attempts (wsg_reviewer s)"
  let ?w = "if rv_phase (wt_st w) = ''human_review'' then on_st (\<lambda>st. st\<lparr>rv_phase := ''self_review''\<rparr>) w else w"
  have "calm w ?w" by (auto intro: calm_on_st simp: same_counts_def)
  then have b: "in_budget ?m k ?w" by (rule calm_in_budget) (rule assms)
  have p: "pushed_by_others p (wt_st ?w) = pushed_by_others p (wt_st w)"
    by (simp add: pushed_by_others_def is_our_fix_push_def fix_dispatch_unrecorded_def Let_def)
  have up: "in_budget ?m k v \<Longrightarrow> in_budget ?m (k + (if q then ?m else 0)) v" for v q
    using assms(2) by (auto simp: in_budget_def)
  show ?thesis
    using budget_after_phase1 [OF b assms(2), of p e, unfolded p] up [OF b] up [OF budget_after_phase0 [OF b]]
    by (simp add: work_on_pr_def Let_def)
qed

lemma budget_after_visits:
  "in_budget (rw_max_fix_attempts (wsg_reviewer s)) k w \<Longrightarrow> 0 \<le> rw_max_fix_attempts (wsg_reviewer s) \<Longrightarrow>
     in_budget (rw_max_fix_attempts (wsg_reviewer s)) (k + rw_max_fix_attempts (wsg_reviewer s) * int (snd (review_visits e s ps w)))
       (fst (review_visits e s ps w))"
proof (induction ps arbitrary: w k)
  case (Cons p ps)
  show ?case
  proof (cases "wt_file w")
    case None
    then show ?thesis using Cons.prems by simp
  next
    case (Some st)
    let ?m = "rw_max_fix_attempts (wsg_reviewer s)"
    let ?st = "if pr_head_ref p = [] then st else st\<lparr>rv_head_ref := pr_head_ref p\<rparr>"
    let ?w0 = "w\<lparr>wt_st := ?st\<rparr>"
    have "in_budget ?m k ?w0" using Cons.prems(1) Some by (auto simp: in_budget_def fix_passes_def fix_counts_ok_def fix_budget_def)
    moreover have "pushed_by_others p (wt_st ?w0) = pushed_by_others p st"
      by (simp add: pushed_by_others_def is_our_fix_push_def fix_dispatch_unrecorded_def Let_def)
    ultimately have "in_budget ?m (k + (if pushed_by_others p st then ?m else 0)) (fst (work_on_pr e s p ?w0))"
      using budget_after_visit [of s k ?w0 p e] Cons.prems(2) by simp
    from Cons.IH [OF this Cons.prems(2)] show ?thesis
      using Some by (simp add: case_prod_unfold Let_def algebra_simps split: if_splits)
  qed
qed simp



section \<open>The repair of CI ends\<close>

definition repair_left :: "review_state \<Rightarrow> int" where
  "repair_left st = (3 - rv_ci_fix_attempts st) * 10 + (10 - rv_ci_settle_cycles st)"

definition repairing :: "review_state \<Rightarrow> bool" where
  "repairing st \<longleftrightarrow> rv_phase st = ''ci_fix'' \<and> 0 \<le> rv_ci_fix_attempts st \<and> rv_ci_fix_attempts st \<le> 3
     \<and> 0 \<le> rv_ci_settle_cycles st \<and> rv_ci_settle_cycles st < 10"

text \<open>Visits of the repair, as long as the pull request is in it, that wrote the state file.\<close>

fun repair_visits :: "surround \<Rightarrow> watch_settings \<Rightarrow> pull_request list \<Rightarrow> watch \<Rightarrow> nat" where
  "repair_visits e s [] w = 0"
| "repair_visits e s (p # ps) w =
     (case wt_file w of
        None \<Rightarrow> 0
      | Some st \<Rightarrow>
          if rv_phase st \<noteq> ''ci_fix'' then 0
          else let w' = fst (phase0_ci_fix e s p (w\<lparr>wt_st := if pr_head_ref p = [] then st else st\<lparr>rv_head_ref := pr_head_ref p\<rparr>\<rparr>))
               in (if wt_file w' = Some st then 0 else 1) + repair_visits e s ps w')"

definition repaired :: "review_state \<Rightarrow> watch \<Rightarrow> bool" where
  "repaired st w \<longleftrightarrow> (\<exists>f. wt_file w = Some f \<and> (rv_phase f = ''self_review'' \<or> repairing f \<and> repair_left f < repair_left st))"

lemma repaired_to_review [simp]: "repaired st (to_self_review w)"
  by (simp add: repaired_def to_self_review_def)

lemma repaired_pass:
  assumes "repairing st" "rv_ci_fix_attempts (wt_st w) = rv_ci_fix_attempts st" "rv_phase (wt_st w) = ''ci_fix''"
    "rv_ci_settle_cycles (wt_st w) = 0" "rv_ci_fix_attempts st < 3"
  shows "repaired st (clock_tick (save_review (on_st (\<lambda>st. st\<lparr>rv_ci_fix_attempts := rv_ci_fix_attempts (wt_st w) + 1, rv_ci_fix_last_push_at := x\<rparr>) w)))"
    "repaired st (fst (run_fix_pass e h c l
       (clock_tick (save_review (on_st (\<lambda>st. st\<lparr>rv_ci_fix_attempts := rv_ci_fix_attempts (wt_st w) + 1, rv_ci_fix_last_push_at := x\<rparr>) w)))))"
  using assms by (simp_all add: repaired_def repairing_def repair_left_def)

lemma repaired_failed:
  assumes "repairing st" "rv_ci_fix_attempts (wt_st w) = rv_ci_fix_attempts st" "rv_phase (wt_st w) = ''ci_fix''"
    "rv_ci_settle_cycles (wt_st w) = 0"
  shows "repaired st (phase0_failed e s r p failed w)"
proof -
  have a: "repaired st (phase0_audit_autofix e s p (rv_ci_fix_attempts (wt_st w)) w)"
    using repaired_pass [of st "clock_tick w"] assms
    by (auto simp: phase0_audit_autofix_def MAX_CI_FIX_ATTEMPTS_def case_prod_unfold Let_def split: sum.split)
  have r: "repaired st (phase0_ruff e p (rv_ci_fix_attempts (wt_st w)) w)" if "rv_ci_fix_attempts (wt_st w) < 3"
    using repaired_pass(1) [of st "clock_tick (note_runs (RunRuff (py_strip (pr_head_ref p))) w)"] assms that
    by (auto simp: phase0_ruff_def Let_def)
  show ?thesis using a r by (simp add: phase0_failed_def MAX_CI_FIX_ATTEMPTS_def Let_def)
qed

lemma repair_step:
  assumes "repairing st" "wt_file w = Some f" "wt_st w = st"
  shows "repaired st (fst (phase0_ci_fix e s p w))
    \<or> wt_file (fst (phase0_ci_fix e s p w)) = Some f
      \<and> (rv_ci_fix_last_push_at st = BadStamp \<or> (\<exists>t. rv_ci_fix_last_push_at st = At t \<and> now_of e w - t < td_seconds 120))"
proof (cases "wsg_repos s (rv_repo_key st)")
  case None
  then show ?thesis using assms by (simp add: phase0_ci_fix_def)
next
  case (Some r)
  let ?c = "ci_status_of r p w"
  let ?w2 = "on_st (\<lambda>st. st\<lparr>rv_ci_settle_cycles := 0\<rparr>) (fst ?c)"
  have fs: "repaired st (phase0_failed e s r p x ?w2)" "repaired st (phase0_failed e s r p x (clock_tick ?w2))" for x
    by (rule repaired_failed; use assms in \<open>simp add: repairing_def\<close>)+
  have settle: "repaired st (save_review (on_st (\<lambda>u. u\<lparr>rv_ci_settle_cycles := rv_ci_settle_cycles st + 1\<rparr>) (fst ?c)))"
    if "rv_ci_settle_cycles st + 1 < 10"
    using that assms by (simp add: repaired_def repairing_def repair_left_def)
  have now: "now_of e ?w2 = now_of e w" by (simp add: now_of_def ci_status_of_def case_prod_unfold Let_def on_st_def)
  show ?thesis
    using Some assms(2,3) fs settle now
    by (auto simp: phase0_ci_fix_def case_prod_unfold Let_def MAX_CI_SETTLE_CYCLES_def CI_FIX_WAIT_SECONDS_def split: time_stamp.split)
qed

lemma repair_count:
  "wt_file w = Some st \<Longrightarrow> repairing st \<Longrightarrow> int (repair_visits e s ps w) \<le> repair_left st"
proof (induction ps arbitrary: w st)
  case Nil
  then show ?case by (simp add: repairing_def repair_left_def)
next
  case (Cons p ps)
  let ?st = "if pr_head_ref p = [] then st else st\<lparr>rv_head_ref := pr_head_ref p\<rparr>"
  let ?w' = "fst (phase0_ci_fix e s p (w\<lparr>wt_st := ?st\<rparr>))"
  have n: "repair_visits e s (p # ps) w = (if wt_file ?w' = Some st then 0 else 1) + repair_visits e s ps ?w'"
    using Cons.prems by (simp add: repairing_def Let_def)
  have st: "repairing ?st" "repair_left ?st = repair_left st" using Cons.prems(2) by (simp_all add: repairing_def repair_left_def)
  have pos: "1 \<le> repair_left st" using Cons.prems(2) by (simp add: repairing_def repair_left_def)
  show ?case
  proof (cases "wt_file ?w' = Some st")
    case True
    then show ?thesis using n Cons.IH [OF True Cons.prems(2)] by simp
  next
    case False
    then have "repaired ?st ?w'" using repair_step [OF st(1), of "w\<lparr>wt_st := ?st\<rparr>" st e s p] Cons.prems(1) by auto
    then obtain f where f: "wt_file ?w' = Some f" "rv_phase f = ''self_review'' \<or> repairing f \<and> repair_left f < repair_left st"
      using st(2) by (auto simp: repaired_def)
    have "int (repair_visits e s ps ?w') \<le> repair_left st - 1"
    proof (cases "rv_phase f = ''self_review''")
      case True
      then have "repair_visits e s ps ?w' = 0" using f(1) by (cases ps) simp_all
      then show ?thesis using pos by simp
    next
      case no: False
      then show ?thesis using Cons.IH [OF f(1)] f(2) by simp
    qed
    then show ?thesis using n False by simp
  qed
qed

text \<open>
  C38: The repair of a red CI ends. From its discovery on, at most 40 visits of a pull request in the repair change its state
  file, whatever CI, the linter, the fix passes and the clock do; and a visit in the repair that changes nothing falls within
  the two minutes after a push of the repair itself, or meets a time that is none.
\<close>

theorem ci_repair_ends:
  "(wt_file w = Some (new_state repo_key n) \<longrightarrow> repair_visits e s ps w \<le> 40)
   \<and> (repairing st \<longrightarrow> wt_file w = Some f \<longrightarrow> wt_st w = st \<longrightarrow> \<not> repaired st (fst (phase0_ci_fix e s p w)) \<longrightarrow>
        wt_file (fst (phase0_ci_fix e s p w)) = Some f
        \<and> (rv_ci_fix_last_push_at st = BadStamp \<or> (\<exists>t. rv_ci_fix_last_push_at st = At t \<and> now_of e w - t < td_seconds 120)))"
proof (intro conjI impI)
  assume "wt_file w = Some (new_state repo_key n)"
  from repair_count [OF this, of e s ps] show "repair_visits e s ps w \<le> 40" by (simp add: repairing_def repair_left_def new_state_def)
qed (use repair_step in blast)+

theorem ci_repair_ends_witness:
  "repair_visits (sample_surround sample_verdict) sample_watch_settings [sample_pr, sample_pr]
     ((sample_watch (Some [sample_check_run]) ''+x'')\<lparr>wt_file := Some (new_state ''core'' 7)\<rparr>) \<le> 40"
  using ci_repair_ends [of "(sample_watch (Some [sample_check_run]) ''+x'')\<lparr>wt_file := Some (new_state ''core'' 7)\<rparr>" "''core''" 7
      "sample_surround sample_verdict" sample_watch_settings "[sample_pr, sample_pr]"] by simp

end
