(* ===== verification/Review_Close.thy ===== *)
theory Review_Close
  imports Review_Bounds
begin

text \<open>
  What closing a pull request leaves behind, and the pull requests handed to a human: the review watcher closes only after the task
  is back on the board with a counter of its attempts, and leaves alone what it escalated.
\<close>

section \<open>The counter of re-queues\<close>

lemma lower_is_colon [simp]: "to_lower c = CHR '':'' \<longleftrightarrow> c = CHR '':''"
proof -
  have n: "to_lower c = (if 65 \<le> (of_char c :: nat) \<and> of_char c \<le> (90 :: nat) then char_of (of_char c + 32 :: nat) else c)"
    by (auto simp: to_lower_def Let_def)
  show ?thesis
  proof (cases "65 \<le> (of_char c :: nat) \<and> of_char c \<le> (90 :: nat)")
    case True
    have "(of_char (to_lower c) :: nat) = of_char c + 32" using n True by (simp add: of_char_of)
    then show ?thesis using True by auto
  qed (auto simp: n)
qed

lemma lower_takeWhile: "py_lower (takeWhile (\<lambda>c. c \<noteq> CHR '':'') s) = takeWhile (\<lambda>c. c \<noteq> CHR '':'') (py_lower s)"
  by (simp add: py_lower_def takeWhile_map comp_def)

lemma lower_space [simp]: "is_space (to_lower c) \<longleftrightarrow> is_space c"
proof -
  have n: "to_lower c = (if 65 \<le> (of_char c :: nat) \<and> of_char c \<le> (90 :: nat) then char_of (of_char c + 32 :: nat) else c)"
    by (auto simp: to_lower_def Let_def)
  show ?thesis
  proof (cases "65 \<le> (of_char c :: nat) \<and> of_char c \<le> (90 :: nat)")
    case True
    have "(of_char (to_lower c) :: nat) = of_char c + 32" using n True by (simp add: of_char_of)
    then show ?thesis using True by (auto simp: is_space_def Let_def)
  qed (auto simp: n)
qed

definition rq_key :: string where "rq_key = py_lower REQUEUE_LABEL_PREFIX"

lemma rq_key: "rq_key = REQUEUE_LABEL_PREFIX" "CHR '':'' \<notin> set rq_key" "rq_key \<noteq> []" "\<not> is_space (hd rq_key)" "\<not> is_space (last rq_key)"
  by (simp_all add: rq_key_def REQUEUE_LABEL_PREFIX_def py_lower_def to_lower_def is_space_def)

lemma before_colon_of_count:
  assumes "prefix (rq_key @ '':'') (py_lower n)"
  shows "before_colon n = rq_key"
proof -
  let ?x = "takeWhile (\<lambda>c. c \<noteq> CHR '':'') n"
  obtain r where r: "py_lower n = rq_key @ CHR '':'' # r" using assms by (auto simp: prefix_def)
  have x: "py_lower ?x = rq_key" unfolding lower_takeWhile r
    using rq_key(2) by (subst takeWhile_append2) auto
  have ne: "?x \<noteq> []" using x rq_key(3) by (auto simp: py_lower_def)
  have ends: "\<not> is_space (hd ?x)" "\<not> is_space (last ?x)"
    using x ne rq_key(4,5) by (metis hd_map last_map lower_space py_lower_def)+
  have "py_strip ?x = ?x" using strip_word [OF ne ends] by blast
  then show ?thesis by (simp add: before_colon_def x)
qed

lemma label_value_skip:
  "\<forall>l \<in> set ls. \<not> prefix (py_lower p @ '':'') (py_lower (label_name l)) \<Longrightarrow> label_value (ls @ ks) p = label_value ks p"
  by (induction ls) simp_all

lemma requeue_count_written: "requeue_count (map LabelText (labels_with_requeue_count ls n extra)) = n"
proof -
  let ?old = "filter (\<lambda>n. before_colon n \<notin> insert (py_lower REQUEUE_LABEL_PREFIX) (py_lower ` set extra))
    (filter (\<lambda>n. n \<noteq> []) (map label_name ls))"
  have "\<forall>l \<in> set (map LabelText ?old). \<not> prefix (py_lower REQUEUE_LABEL_PREFIX @ '':'') (py_lower (label_name l))"
  proof
    fix l assume "l \<in> set (map LabelText ?old)"
    then obtain m where m: "l = LabelText m" "py_strip m = m" "before_colon m \<noteq> rq_key" by (auto simp: rq_key_def)
    then show "\<not> prefix (py_lower REQUEUE_LABEL_PREFIX @ '':'') (py_lower (label_name l))"
      using before_colon_of_count [of m] by (auto simp: rq_key_def)
  qed
  note skip = label_value_skip [OF this]
  have c: "counter_prefix (REQUEUE_LABEL_PREFIX @ '':'')"
    by (simp add: counter_prefix_def py_lower_def REQUEUE_LABEL_PREFIX_def to_lower_def is_space_def)
  have name: "label_name (LabelText (REQUEUE_LABEL_PREFIX @ '': '' @ show_int n)) = REQUEUE_LABEL_PREFIX @ '': '' @ show_int n"
    using label_name_counter [of "REQUEUE_LABEL_PREFIX @ '':''" n] rq_key(1,3,4) by simp
  have "prefix (py_lower REQUEUE_LABEL_PREFIX @ '':'') (py_lower (REQUEUE_LABEL_PREFIX @ '': '' @ show_int n))"
    by (simp add: py_lower_def to_lower_def)
  then have "label_value (map LabelText (labels_with_requeue_count ls n extra)) REQUEUE_LABEL_PREFIX = py_strip (CHR '' '' # show_int n)"
    using skip after_colon_counter [OF c, of "CHR '' '' # show_int n"] name
    by (simp add: labels_with_requeue_count_def del: label_name.simps)
  moreover have "label_int (py_strip x) = label_int x" for x by (simp add: label_int_def)
  ultimately show ?thesis using label_int_show by (simp add: requeue_count_def)
qed

section \<open>Closing\<close>

text \<open>A task that is ready again with its new counter, at most three, or blocked for a human.\<close>

definition back_on_board :: "issue \<Rightarrow> bool" where
  "back_on_board i \<longleftrightarrow>
     is_state i = StateObj (Some STATE_READY) \<and> requeue_count (is_labels i) \<le> MAX_REQUEUES
     \<or> is_state i = StateObj (Some STATE_BLOCKED) \<and> has_label (is_labels i) ''needs-human''"

definition task_returned :: "string \<Rightarrow> board \<Rightarrow> bool" where
  "task_returned task b \<longleftrightarrow> task \<in> set (map is_id (bd_issues b)) \<and> (\<forall>i \<in> set (bd_issues b). is_id i = task \<longrightarrow> back_on_board i)"

lemma needs_human_written: "has_label (map LabelText (labels_with_requeue_count ls n [''needs-human''])) ''needs-human''"
proof -
  have "py_strip ''needs-human'' = ''needs-human''" by (simp add: py_strip_def is_space_def)
  then show ?thesis by (simp add: has_label_def labels_with_requeue_count_def)
qed

lemma requeue_writes_ok:
  assumes "requeue_writes task names st tx b = (b', True)"
  shows "bd_issues b' = map (\<lambda>i. if is_id i = task then i\<lparr>is_labels := map LabelText names, is_state := StateObj (Some st)\<rparr> else i) (bd_issues b)
    \<and> (task, tx) \<in> set (bd_comments b')"
  using assms
  by (auto simp: requeue_writes_def update_issue_labels_def transition_issue_def comment_issue_def api_call_def on_issue_def store_label_names_def
      Let_def split: if_splits)

lemma requeue_returns_task:
  assumes "requeue_plane_task e task r c w = (w', True)"
  shows "task_returned task (wt_board w')"
proof -
  have "snd (fetch_issue (wt_board w) task) \<noteq> None"
  proof
    assume "snd (fetch_issue (wt_board w) task) = None"
    then show False using assms by (simp add: requeue_plane_task_def case_prod_unfold Let_def split: if_splits)
  qed
  then obtain b1 i where b1: "fetch_issue (wt_board w) task = (b1, Some i)" by (metis not_Some_eq prod.collapse)
  have i: "i \<in> set (bd_issues b1)" "is_id i = task"
    using b1 by (auto simp: fetch_issue_def api_call_def Let_def find_Some_iff split: if_splits)
  have ret: "task_returned task b'"
    if g: "requeue_writes task names st tx b1 = (b', True)"
      "back_on_board (x\<lparr>is_labels := map LabelText names, is_state := StateObj (Some st)\<rparr>)" for names st tx b' x
  proof -
    have "back_on_board (y\<lparr>is_labels := map LabelText names, is_state := StateObj (Some st)\<rparr>)" for y
      using g(2) by (simp add: back_on_board_def)
    then show ?thesis using requeue_writes_ok [OF g(1)] i by (auto simp: task_returned_def image_iff)
  qed
  let ?n = "requeue_count (is_labels i)" and ?note = "requeue_note e (rv_pr_number (wt_st w)) r c (requeue_count (is_labels i))"
  show ?thesis
  proof (cases "?n \<ge> MAX_REQUEUES")
    case True
    then have "requeue_writes task (labels_with_requeue_count (is_labels i) ?n [''needs-human'']) STATE_BLOCKED ?note b1 = (wt_board w', True)"
      using assms b1 by (auto simp: requeue_plane_task_def case_prod_unfold Let_def clock_tick_def prod_eq_iff split: if_splits)
    then show ?thesis using ret needs_human_written by (simp add: back_on_board_def)
  next
    case False
    then have "requeue_writes task (labels_with_requeue_count (is_labels i) (?n + 1) []) STATE_READY ?note b1 = (wt_board w', True)"
      using assms b1 by (auto simp: requeue_plane_task_def case_prod_unfold Let_def clock_tick_def prod_eq_iff split: if_splits)
    then show ?thesis using ret requeue_count_written False by (simp add: back_on_board_def)
  qed
qed

definition receipt_text :: "string \<Rightarrow> int \<Rightarrow> string \<Rightarrow> string \<Rightarrow> string" where
  "receipt_text reason n spec_file branch_ref =
     py_join [CHR 0x0A] ([''Close receipt for PR #'' @ show_int n @ '' (`'' @ reason @ ''`)'',
       ''durable_head_ref: `'' @ durable_pr_head_ref n @ ''`'', ''spec_file: `'' @ spec_file @ ''`'']
       @ (if branch_ref \<noteq> [] then [''closed_branch: `'' @ branch_ref @ ''`''] else []))"

lemma receipt_recorded:
  assumes "record_close_receipt e task p r w = (w', Some spec_file)" "spec_file \<noteq> []"
  shows "(task, receipt_text r (rv_pr_number (wt_st w)) spec_file (py_strip (pr_head_ref p))) \<in> set (bd_comments (wt_board w'))
    \<and> bd_issues (wt_board w') = bd_issues (wt_board w)"
  using assms
  by (auto simp: record_close_receipt_def receipt_text_def comment_issue_def fetch_issue_def api_call_def clock_tick_def Let_def
      simp del: append_Cons split: if_splits option.splits)

text \<open>What stands on the board, and how the closing began, when a close request goes out.\<close>

definition close_recorded :: "pull_request \<Rightarrow> watch \<Rightarrow> watch \<Rightarrow> bool" where
  "close_recorded p w w' \<longleftrightarrow>
     (\<exists>task reason spec_file. rv_plane_task_id (wt_st w) = Some task \<and> task \<noteq> [] \<and> task_returned task (wt_board w')
        \<and> spec_file \<noteq> [] \<and> reason \<in> {''fix_attempts_exhausted'', ''no_head_ref''} \<and> (reason = ''no_head_ref'' \<longrightarrow> pr_head_ref p = [])
        \<and> (task, receipt_text reason (rv_pr_number (wt_st w)) spec_file (py_strip (pr_head_ref p))) \<in> set (bd_comments (wt_board w')))"

lemma delete_board [simp]: "wt_board (delete_head_branch p t w) = wt_board w" by (simp add: delete_head_branch_def)

lemma close_is_recorded:
  assumes "closes (wt_forge w) < closes (wt_forge (close_and_requeue e s p r d c w))"
    "r \<in> {''fix_attempts_exhausted'', ''no_head_ref''}" "r = ''no_head_ref'' \<longrightarrow> pr_head_ref p = []"
  shows "close_recorded p w (close_and_requeue e s p r d c w)"
proof -
  let ?task = "or_empty (rv_plane_task_id (wt_st w))" and ?w' = "close_and_requeue e s p r d c w"
  let ?q = "requeue_plane_task e ?task r c w"
  let ?k = "record_close_receipt e ?task p r (fst ?q)"
  note body = close_and_requeue_def [of e s p r d c w] case_prod_unfold Let_def
  have task: "?task \<noteq> []"
  proof
    assume "?task = []"
    then show False using assms(1) by (simp add: body)
  qed
  have q: "snd ?q"
  proof (rule ccontr)
    assume "\<not> snd ?q"
    then show False using assms(1) task by (simp add: body)
  qed
  obtain spec where spec: "snd ?k = Some spec" "spec \<noteq> []"
  proof (cases "snd ?k")
    case None
    then show ?thesis using assms(1) task q by (simp add: body)
  next
    case (Some x)
    then show ?thesis using that assms(1) task q by (cases "x = []") (simp_all add: body)
  qed
  have b: "wt_board ?w' = wt_board (fst ?k)" using task q spec by (simp add: body)
  have ret: "task_returned ?task (wt_board (fst ?q))"
    by (rule requeue_returns_task [of e ?task r c w]) (use q in \<open>metis prod.collapse\<close>)
  have rec: "(?task, receipt_text r (rv_pr_number (wt_st w)) spec (py_strip (pr_head_ref p))) \<in> set (bd_comments (wt_board (fst ?k)))
      \<and> bd_issues (wt_board (fst ?k)) = bd_issues (wt_board (fst ?q))"
    using receipt_recorded [of e ?task p r "fst ?q" "fst ?k" spec] spec by (simp add: prod_eq_iff)
  have t: "rv_plane_task_id (wt_st w) = Some ?task" using task by (cases "rv_plane_task_id (wt_st w)") (simp_all add: or_empty_def)
  have "task_returned ?task (wt_board ?w')" using ret rec b by (simp add: task_returned_def)
  then show ?thesis unfolding close_recorded_def using t task spec(2) rec b assms(2,3) by auto
qed

lemma close_recorded_cong:
  "close_recorded p w w' \<Longrightarrow> rv_plane_task_id (wt_st w) = rv_plane_task_id (wt_st u) \<Longrightarrow> rv_pr_number (wt_st w) = rv_pr_number (wt_st u)
    \<Longrightarrow> close_recorded p u w'"
  by (simp add: close_recorded_def)

text \<open>The parts of a visit that send no close.\<close>

lemma no_closes [simp]:
  "closes (wt_forge (fst (review_skipped e s sha r w))) = closes (wt_forge w)"
  "closes (wt_forge (park_council e s sha n now w)) = closes (wt_forge w)"
  "closes (wt_forge (no_verdict e s sha w)) = closes (wt_forge w)"
  by (simp_all add: review_skipped_def park_council_def no_verdict_def Let_def split: review_end.splits)

lemma resolve_closes:
  assumes "closes (wt_forge w) < closes (wt_forge (fst (resolve_concerns e s p sha c w)))"
  shows "close_recorded p w (fst (resolve_concerns e s p sha c w))"
proof (cases "rv_fix_attempts (wt_st w) \<ge> rw_max_fix_attempts (wsg_reviewer s)")
  case True
  then show ?thesis using assms close_is_recorded [of w e s p "''fix_attempts_exhausted''" "exhausted_detail (wt_st w) c" c]
    by (simp add: resolve_concerns_def)
next
  case False
  let ?q = "gh_post_comment (wt_forge w) (rv_pr_number (wt_st w)) (concern_body e s c)"
  let ?w1 = "if rv_fix_attempts (wt_st w) = 0
      then on_st (\<lambda>st. case snd ?q of None \<Rightarrow> st | Some cid \<Rightarrow> st\<lparr>rv_concerns_comment_id := cid\<rparr>) (w\<lparr>wt_forge := fst ?q\<rparr>) else w"
  have same: "closes (wt_forge ?w1) = closes (wt_forge w)" "rv_plane_task_id (wt_st ?w1) = rv_plane_task_id (wt_st w)"
    "rv_pr_number (wt_st ?w1) = rv_pr_number (wt_st w)" by (simp_all split: option.split)
  have r: "fst (resolve_concerns e s p sha c w)
      = (if pr_head_ref p = [] then close_and_requeue e s p ''no_head_ref'' no_head_ref_detail [] ?w1 else fst (dispatch_fix e p sha c ?w1))"
    using False by (simp add: resolve_concerns_def case_prod_unfold Let_def)
  show ?thesis
  proof (cases "pr_head_ref p = []")
    case True
    then have "close_recorded p ?w1 (close_and_requeue e s p ''no_head_ref'' no_head_ref_detail [] ?w1)"
      using assms r same(1) by (intro close_is_recorded) simp_all
    then show ?thesis unfolding r using True same(2,3) by (simp add: close_recorded_cong)
  next
    case no: False
    then show ?thesis using assms r same(1) by simp
  qed
qed

lemma outcome_closes:
  assumes "closes (wt_forge w) < closes (wt_forge (fst (dispatch_verdict_outcome e s p r c sha w)))"
  shows "close_recorded p w (fst (dispatch_verdict_outcome e s p r c sha w))"
proof -
  let ?w1 = "if r = CONCERNS \<and> sha \<noteq> [] then clock_tick (on_st (track_concern_raised e (now_of e w) c sha) w) else w"
  let ?w2 = "publish_reviewer_verdict sha (if r = LGTM then ''success'' else ''failure'')
    (if r = LGTM then ''reviewer LGTM'' else ''reviewer concerns '' @ em_dash @ '' auto-fixing'') ?w1"
  let ?w3 = "fst (ci_validates s p ?w2)"
  let ?w4 = "save_review (on_st (\<lambda>st. st\<lparr>rv_fix_strategy_level := rv_fix_strategy_level (wt_st ?w3) + 1\<rparr>) ?w3)"
  have same: "closes (wt_forge ?w2) = closes (wt_forge w)" "rv_plane_task_id (wt_st ?w2) = rv_plane_task_id (wt_st w)"
    "rv_pr_number (wt_st ?w2) = rv_pr_number (wt_st w)" "closes (wt_forge ?w4) = closes (wt_forge w)"
    "rv_plane_task_id (wt_st ?w4) = rv_plane_task_id (wt_st w)" "rv_pr_number (wt_st ?w4) = rv_pr_number (wt_st w)" by simp_all
  let ?P = "\<lambda>w'. closes (wt_forge w) < closes (wt_forge w') \<longrightarrow> close_recorded p w w'"
  have rs: "?P (fst (resolve_concerns e s p sha c ?w2))" "?P (fst (resolve_concerns e s p sha c ?w4))"
    using resolve_closes [of ?w2 e s p sha c, THEN close_recorded_cong] resolve_closes [of ?w4 e s p sha c, THEN close_recorded_cong]
    unfolding same by blast+
  have m: "?P (merge_and_done e s p x ?w2)" "?P (merge_and_done e s p x ?w3)" "?P (escalate_needs_human e s x y sha ?w3)" for x y by simp_all
  have both: "?P x \<Longrightarrow> ?P y \<Longrightarrow> ?P (if q then x else y)" for x y q by simp
  have "?P (fst (dispatch_verdict_outcome e s p r c sha w))"
    unfolding dispatch_verdict_outcome_def case_prod_unfold Let_def if_distrib [of fst] fst_conv by (intro both m rs)
  then show ?thesis using assms by blast
qed

lemma council_closes:
  assumes "closes (wt_forge w) < closes (wt_forge (fst (run_council e s p sha w)))"
  shows "close_recorded p w (fst (run_council e s p sha w))"
proof -
  let ?w1 = "on_st (\<lambda>st. st\<lparr>rv_council_park := False, rv_council_park_started_at := NoStamp\<rparr>) (clock_tick w)"
  let ?r = "run_seats e (available_seats e w) [] ?w1"
  let ?o = "on_st (\<lambda>st. st\<lparr>rv_env_unclean_passes := 0, rv_backend_error_passes := 0\<rparr>) (fst ?r)"
  have d: "close_recorded p w (fst (dispatch_verdict_outcome e s p x y sha (?o\<lparr>wt_forge := f\<rparr>)))"
    if "closes (wt_forge w) < closes (wt_forge (fst (dispatch_verdict_outcome e s p x y sha (?o\<lparr>wt_forge := f\<rparr>))))"
      "closes f = closes (wt_forge w)" for x y f
    by (rule close_recorded_cong, rule outcome_closes) (use that in simp_all)
  show ?thesis
    using assms by (cases "snd ?r") (auto simp: run_council_def case_prod_unfold Let_def intro!: d split: if_splits)
qed

lemma single_closes:
  assumes "closes (wt_forge w) < closes (wt_forge (fst (single_review e s p sha w)))"
  shows "close_recorded p w (fst (single_review e s p sha w))"
proof (cases "review_backend e s w")
  case None
  then show ?thesis using assms by (simp add: single_review_def)
next
  case (Some bm)
  let ?r = "run_member_review e (fst bm) (snd bm) (clock_tick w)"
  let ?w3 = "on_st (\<lambda>st. st\<lparr>rv_no_verdict_passes := 0, rv_no_verdict_backoff_level := 0\<rparr>)
    (on_st (\<lambda>st. st\<lparr>rv_self_review_loops := rv_self_review_loops st + 1, rv_env_unclean_passes := 0, rv_backend_error_passes := 0\<rparr>) (fst ?r))"
  have d: "close_recorded p w (fst (dispatch_verdict_outcome e s p x y sha ?w3))"
    if "closes (wt_forge w) < closes (wt_forge (fst (dispatch_verdict_outcome e s p x y sha ?w3)))" for x y
    by (rule close_recorded_cong, rule outcome_closes) (use that in simp_all)
  show ?thesis
    using assms Some by (cases "snd ?r") (auto simp: single_review_def case_prod_unfold Let_def intro!: d split: option.splits)
qed


text \<open>A sample in which the attempts are used up.\<close>

definition review_task :: issue where
  "review_task = (new_issue ''t1'' ''Tidy'' [] ''In Review'' [''task-kind: goal''])"

definition spent_watch :: watch where
  "spent_watch = (sample_watch (Some [sample_check_run]) ''+x'')
     \<lparr>wt_st := (new_state ''core'' 7)\<lparr>rv_phase := ''self_review'', rv_fix_attempts := 6, rv_plane_task_id := Some ''t1''\<rparr>,
      wt_board := \<lparr>bd_issues = [review_task], bd_comments = [], bd_calls = 0, bd_fails = (\<lambda>_. False), bd_new_id = (\<lambda>n. [])\<rparr>\<rparr>"

definition spent_surround :: surround where
  "spent_surround = (sample_surround (JObj []))\<lparr>en_spec_file := (\<lambda>i. ''c.md'')\<rparr>"

lemma gh_close_counts: "closes f < closes (fst (gh_close_pr f n))"
proof -
  have e: "closes (fst (gh_exchange g (PatchClosed n))) = closes g + 1" for g
    by (simp add: gh_exchange_def closes_def is_close_def Let_def)
  have "closes g < closes (fst (gh_retry k g (PatchClosed n)))" for k g
  proof (induction k arbitrary: g)
    case 0
    then show ?case using e [of g] by (subst gh_retry.simps) (auto simp: case_prod_unfold Let_def split: option.splits)
  next
    case (Suc k)
    then show ?case using e [of g] Suc.IH [of "fst (gh_exchange g (PatchClosed n))"]
      by (subst gh_retry.simps) (auto simp: case_prod_unfold Let_def split: option.splits)
  qed
  then show ?thesis by (simp add: gh_close_pr_def gh_checked_def gh_request_def case_prod_unfold Let_def)
qed

lemma close_sent:
  assumes "snd (requeue_plane_task e task r c w)" "rv_plane_task_id (wt_st w) = Some task" "task \<noteq> []"
    "snd (record_close_receipt e task p r (fst (requeue_plane_task e task r c w))) = Some (x # xs)"
  shows "closes (wt_forge w) < closes (wt_forge (close_and_requeue e s p r d c w))"
proof -
  let ?k = "record_close_receipt e task p r (fst (requeue_plane_task e task r c w))"
  let ?f = "fst (gh_post_comment (wt_forge (fst ?k)) (rv_pr_number (wt_st w)) (close_text e s r d task (x # xs) (rv_pr_number (wt_st w))))"
  have "closes (wt_forge (close_and_requeue e s p r d c w)) = closes (fst (gh_close_pr ?f (rv_pr_number (wt_st w))))"
    using assms by (simp add: close_and_requeue_def or_empty_def case_prod_unfold Let_def)
  then show ?thesis using gh_close_counts [of ?f "rv_pr_number (wt_st w)"] by simp
qed

lemma spent_close:
  assumes "wt_board w = wt_board spent_watch" "rv_plane_task_id (wt_st w) = Some ''t1''"
  shows "closes (wt_forge w) < closes (wt_forge (close_and_requeue spent_surround s p r d c w))"
proof (rule close_sent)
  note board = transition_issue_def comment_issue_def update_issue_labels_def fetch_issue_def api_call_def on_issue_def store_label_names_def
  have q: "requeue_plane_task spent_surround ''t1'' r c w
      = (clock_tick (w\<lparr>wt_board := fst (requeue_writes ''t1'' (labels_with_requeue_count (is_labels review_task) 1 []) STATE_READY
            (requeue_note spent_surround (rv_pr_number (wt_st w)) r c 0) ((wt_board w)\<lparr>bd_calls := 1\<rparr>))\<rparr>), True)"
    using assms(1)
    by (simp add: requeue_plane_task_def spent_surround_def sample_surround_def spent_watch_def review_task_def new_issue_def board
        requeue_count_def label_int_def py_strip_def is_space_def REQUEUE_LABEL_PREFIX_def py_lower_def to_lower_def MAX_REQUEUES_def
        requeue_writes_def Let_def case_prod_unfold)
  show "snd (requeue_plane_task spent_surround ''t1'' r c w)" by (simp add: q)
  show "snd (record_close_receipt spent_surround ''t1'' p r (fst (requeue_plane_task spent_surround ''t1'' r c w))) = Some (CHR ''c'' # ''.md'')"
    unfolding q fst_conv using assms(1)
    by (simp add: record_close_receipt_def spent_surround_def sample_surround_def spent_watch_def review_task_def new_issue_def board
        requeue_writes_def Let_def case_prod_unfold clock_tick_def)
qed (use assms(2) in simp_all)

lemma spent_visit: "closes (wt_forge spent_watch) < closes (wt_forge (fst (phase1 spent_surround sample_watch_settings sample_pr spent_watch)))"
proof -
  let ?e = spent_surround and ?s = sample_watch_settings and ?w = spent_watch
  have sha: "pr_head_sha_of sample_pr = ''a1''" by (simp add: pr_head_sha_of_def sample_pr_def py_strip_def is_space_def)
  have st: "wt_st ?w = (new_state ''core'' 7)\<lparr>rv_phase := ''self_review'', rv_fix_attempts := 6, rv_plane_task_id := Some ''t1''\<rparr>"
    by (simp add: spent_watch_def)
  have h: "hold_escalated ?e ?s sample_pr ''a1'' (expire_backend_park ?e ?s ''a1'' (reset_on_external_push ''a1'' ?w)) = (?w, True)"
    by (simp add: reset_on_external_push_def expire_backend_park_def hold_escalated_def st new_state_def has_comment_id_def Let_def)
  have c: "ci_precondition ?e ?s sample_pr ''a1'' ?w = (?w, True)"
    by (simp add: ci_precondition_def merging_repo_def st new_state_def sample_watch_settings_def)
  obtain f where f: "gh_pr_diff (en_file_summary ?e) (wt_forge ?w) 7 = (f, ''+x'')" "closes f = 0"
    by (simp add: gh_pr_diff_def gh_exchange_def spent_watch_def sample_watch_def sample_host_def gh_ok_def closes_def Let_def is_close_def)
  have d: "files_from_diff ''+x'' = []" by (simp add: files_from_diff_def splitlines_def line_end_def header_path_def List.map_filter_simps)
  have pf: "pr_files_of ?e ?w = (?w\<lparr>wt_forge := f\<rparr>, [])" using f d by (simp add: pr_files_of_def st new_state_def DIFF_LIMIT_def Let_def)
  let ?w1 = "?w\<lparr>wt_forge := f\<rparr>"
  obtain v where v: "verdict_of_document ?e (JObj []) = Some v" "mv_result v = CONCERNS"
    by (simp add: verdict_of_document_def compute_verdict_def)
  obtain w2 where r: "run_member_review ?e ''claude_code'' ''haiku'' (clock_tick ?w1) = (w2, Verdict (Some v))"
    using v(1) by (simp add: run_member_review_def knows_member_def spent_surround_def sample_surround_def raw_verdict_def
        verdict_of_document_def Let_def)
  have f2: "wt_st w2 = wt_st ?w" "wt_forge w2 = f" "wt_board w2 = wt_board ?w"
    using member_frame(1,2,4) [of ?e "''claude_code''" "''haiku''" "clock_tick ?w1"] r by simp_all
  have cc: "verdict_result v = CONCERNS" using v(2) by (simp add: verdict_result_def member_outcome_def)
  let ?w3 = "on_st (\<lambda>st. st\<lparr>rv_no_verdict_passes := 0, rv_no_verdict_backoff_level := 0\<rparr>)
    (on_st (\<lambda>st. st\<lparr>rv_self_review_loops := rv_self_review_loops st + 1, rv_env_unclean_passes := 0, rv_backend_error_passes := 0\<rparr>) w2)"
  let ?w4 = "publish_reviewer_verdict ''a1'' ''failure'' (''reviewer concerns '' @ em_dash @ '' auto-fixing'')
    (clock_tick (on_st (track_concern_raised ?e (now_of ?e ?w3) (verdict_summary v) ''a1'') ?w3))"
  have a4: "rv_fix_attempts (wt_st ?w4) = 6" "rv_plane_task_id (wt_st ?w4) = Some ''t1''" "wt_board ?w4 = wt_board ?w"
    "closes (wt_forge ?w4) = 0" "rv_last_fix_pass_pushed (wt_st ?w4) = None"
    using f2 f(2) st by (simp_all add: new_state_def)
  have "fst (phase1 ?e ?s sample_pr ?w)
      = close_and_requeue ?e ?s sample_pr ''fix_attempts_exhausted'' (exhausted_detail (wt_st ?w4) (verdict_summary v)) (verdict_summary v) ?w4"
    using h c pf r cc a4
    by (simp add: phase1_def sha review_change_def needs_council_def sensitive_paths_in_diff_def single_review_def review_backend_def
        dispatch_verdict_outcome_def repeated_no_progress_def resolve_concerns_def sample_watch_settings_def default_reviewer_def
        spent_surround_def sample_surround_def Let_def)
  then show ?thesis using spent_close [OF a4(3,2)] a4(4) by (simp add: spent_watch_def sample_watch_def closes_def)
qed


section \<open>Handed to a human\<close>

text \<open>Escalated at its present head, with concerns raised there, and not for want of a backend.\<close>

definition handed_over :: "string \<Rightarrow> review_state \<Rightarrow> bool" where
  "handed_over sha st \<longleftrightarrow>
     rv_phase st = ''self_review'' \<and> rv_escalated_needs_human st \<and> rv_escalated_reason st \<noteq> reviewer_backend_unavailable
     \<and> sha \<noteq> [] \<and> py_strip (rv_escalated_head_sha st) = sha \<and> py_strip (rv_last_concerns_head_sha st) = sha"

lemma handed_over_visit:
  assumes "handed_over (pr_head_sha_of p) (wt_st w)"
  shows "work_on_pr e s p w = (clock_tick w, Finished)"
  using assms
  by (simp add: handed_over_def work_on_pr_def phase1_def reset_on_external_push_def expire_backend_park_def hold_escalated_def
      hold_unchanged_def unfixed_concerns_def Let_def)

text \<open>
  A pull request handed to a human is left alone: while its head is the one it was escalated at, with concerns raised at it, any
  number of visits send no request, start no run, write nothing to the board and leave the state file as it is.
\<close>

theorem handed_over_is_left_alone:
  assumes "wt_file w = Some st" "handed_over sha st" "\<forall>p \<in> set ps. pr_head_sha_of p = sha"
  shows "wt_forge (fst (review_visits e s ps w)) = wt_forge w \<and> wt_board (fst (review_visits e s ps w)) = wt_board w
    \<and> wt_runs (fst (review_visits e s ps w)) = wt_runs w \<and> wt_file (fst (review_visits e s ps w)) = Some st"
  using assms
proof (induction ps arbitrary: w)
  case (Cons p ps)
  let ?w0 = "w\<lparr>wt_st := if pr_head_ref p = [] then st else st\<lparr>rv_head_ref := pr_head_ref p\<rparr>\<rparr>"
  have "handed_over (pr_head_sha_of p) (wt_st ?w0)" using Cons.prems(2,3) by (simp add: handed_over_def)
  from handed_over_visit [OF this, of e s] Cons.IH [of "clock_tick ?w0"] Cons.prems show ?case
    by (simp add: case_prod_unfold Let_def)
qed simp

theorem handed_over_is_left_alone_witness:
  "\<exists>w. wt_file w \<noteq> None
    \<and> wt_file (fst (review_visits (sample_surround sample_verdict) sample_watch_settings [sample_pr, sample_pr] w)) = wt_file w
    \<and> wt_forge (fst (review_visits (sample_surround sample_verdict) sample_watch_settings [sample_pr, sample_pr] w)) = wt_forge w"
proof -
  let ?st = "(new_state ''core'' 7)\<lparr>rv_phase := ''self_review'', rv_escalated_needs_human := True, rv_escalated_reason := ''rebase_conflict'',
    rv_escalated_head_sha := ''a1'', rv_last_concerns_head_sha := ''a1''\<rparr>"
  let ?w = "(sample_watch None ''+x'')\<lparr>wt_file := Some ?st\<rparr>"
  have sha: "py_strip ''a1'' = ''a1''" by (simp add: py_strip_def is_space_def)
  have h: "handed_over ''a1'' ?st" using sha by (simp add: handed_over_def new_state_def reviewer_backend_unavailable_def)
  have "\<forall>p \<in> set [sample_pr, sample_pr]. pr_head_sha_of p = ''a1''" using sha by (simp add: pr_head_sha_of_def sample_pr_def)
  from handed_over_is_left_alone [OF _ h this, of ?w "sample_surround sample_verdict" sample_watch_settings]
  show ?thesis by (intro exI [of _ ?w]) simp
qed

section \<open>Checks that cannot be read\<close>

lemma gates_keep_server:
  "fg_server (fst (gh_get_mergeable f n)) = fg_server f"
  "fg_server (wt_forge (fst (branch_protection_ok s b w))) = fg_server (wt_forge w)"
  "fg_server (wt_forge (fst (sensitive_path_ack_ok s p w))) = fg_server (wt_forge w)"
  "fg_server (fst (gh_get_failed_checks f p ig)) = fg_server f"
proof -
  have s: "sends (\<lambda>_. True) f g \<Longrightarrow> fg_server g = fg_server f" for f g by (simp add: sends_def adds_def)
  show "fg_server (fst (gh_get_mergeable f n)) = fg_server f" "fg_server (fst (gh_get_failed_checks f p ig)) = fg_server f"
    "fg_server (wt_forge (fst (branch_protection_ok s b w))) = fg_server (wt_forge w)"
    "fg_server (wt_forge (fst (sensitive_path_ack_ok s p w))) = fg_server (wt_forge w)"
    by (simp_all add: s branch_protection_ok_def sensitive_path_ack_ok_def case_prod_unfold Let_def)
qed

text \<open>
  C40: A host that never answers the query of a head's checks does not stop a merge: when the other gates pass, the client's
  empty listings count as a clean head and the merge is sent.
\<close>

theorem unread_checks_are_merged:
  assumes "\<And>n. fg_server (wt_forge w) n (GetCheckRuns (pr_head_sha p)) = None"
    "gh_get_mergeable (wt_forge w) (rv_pr_number (wt_st w)) = (f, mergeable)" "mergeable \<noteq> Some False"
    "branch_protection_ok s (base_branch_of p) (on_st (\<lambda>st. st\<lparr>rv_rebase_attempts := 0\<rparr>) (w\<lparr>wt_forge := f\<rparr>)) = (w1, True)"
    "sensitive_path_ack_ok s p w1 = (w2, True)"
  shows "merges (wt_forge w) < merges (wt_forge (merge_and_done e s p reason w))"
proof -
  let ?ig = "ignored_of s (wt_st w)"
  have srv: "fg_server (wt_forge w2) = fg_server (wt_forge w)"
    using gates_keep_server(1) [of "wt_forge w" "rv_pr_number (wt_st w)"] gates_keep_server(3) [of s p w1]
      gates_keep_server(2) [of s "base_branch_of p" "on_st (\<lambda>st. st\<lparr>rv_rebase_attempts := 0\<rparr>) (w\<lparr>wt_forge := f\<rparr>)"] assms(2,4,5) by simp
  let ?f3 = "fst (gh_get_failed_checks (wt_forge w2) p ?ig)"
  have "fg_server ?f3 = fg_server (wt_forge w)" using gates_keep_server(4) srv by simp
  then have "snd (gh_get_failed_checks (wt_forge w2) p ?ig) = []" "snd (gh_get_incomplete_checks ?f3 p ?ig) = []"
    using unread_checks_are_clean assms(1) srv by metis+
  then have "gh_get_failed_checks (wt_forge w2) p ?ig = (?f3, [])"
    "gh_get_incomplete_checks ?f3 p ?ig = (fst (gh_get_incomplete_checks ?f3 p ?ig), [])" by (metis prod.collapse)+
  then show ?thesis unfolding merge_and_done_iff merge_gates_def using assms(2-5) by blast
qed

theorem unread_checks_are_merged_witness:
  "0 < merges (wt_forge (merge_and_done (sample_surround sample_verdict) sample_watch_settings sample_pr ''self_review_lgtm'' (sample_watch None ''+x'')))"
proof -
  let ?w = "sample_watch None ''+x''"
  have srv: "fg_server (wt_forge ?w) = sample_host None ''+x''" by (simp add: sample_watch_def)
  have m: "gh_get_mergeable (wt_forge ?w) (rv_pr_number (wt_st ?w)) = (fst (gh_get_mergeable (wt_forge ?w) (rv_pr_number (wt_st ?w))), Some True)"
    using sample_checked(1) [OF srv, of "GetPr 7"]
    by (simp add: gh_get_mergeable_def gh_get_pr_def sample_host_def sample_pr_def sample_watch_def new_state_def)
  let ?f = "fst (gh_get_mergeable (wt_forge ?w) (rv_pr_number (wt_st ?w)))"
  have srv1: "fg_server ?f = sample_host None ''+x''" using gates_keep_server(1) srv by simp
  let ?v = "on_st (\<lambda>st. st\<lparr>rv_rebase_attempts := 0\<rparr>) (?w\<lparr>wt_forge := ?f\<rparr>)"
  have b: "branch_protection_ok sample_watch_settings (base_branch_of sample_pr) ?v
      = (fst (branch_protection_ok sample_watch_settings (base_branch_of sample_pr) ?v), True)"
    using sample_checked(2) [OF srv1, of "GetProtection (base_branch_of sample_pr)"]
    by (simp add: branch_protection_ok_def sample_watch_settings_def default_reviewer_def verdict_protects_def REVIEWER_VERDICT_STATUS_CONTEXT_def
        gh_get_branch_protection_def sample_host_def gh_ok_def)
  have a: "sensitive_path_ack_ok sample_watch_settings sample_pr v = (v, True)" for v
    by (simp add: sensitive_path_ack_ok_def sample_watch_settings_def default_reviewer_def)
  have "merges (wt_forge ?w) < merges (wt_forge (merge_and_done (sample_surround sample_verdict) sample_watch_settings sample_pr ''self_review_lgtm'' ?w))"
    by (rule unread_checks_are_merged [where w = ?w, OF _ m _ b a]) (simp_all add: sample_watch_def sample_host_def)
  then show ?thesis by simp
qed

end
