(* ===== verification/Spec2Isabelle.thy ===== *)
theory Spec2Isabelle
  imports OC_Prelude Contracts Fnmatch
    Policy_Models Policy_Engine Policy_Spec Policy_Validate Runtime_Binding
    Backend_Health Recovery
    Usage_Store Usage_Cooldown Usage_Decisions Usage_Safety Usage_Reports Usage_Budget
    Limit_Classifier Worker_Backend
    Coordinator Coordinator_Safety Coordinator_Gates
    Json_Values Audit_Locks Audit_Lock_Safety Audit_Dispatch Audit_Governance Audit_Runner Audit_Runner_Safety
    Propagation Decision_Rules Decision Ci_Loop
    Inflight_Reconcile Schedules Board Board_Claim Board_Outcomes Forgejo_Board Board_Trust
    Board_Dispatch Board_Unblock Queue_Healing Maintenance
    Github_Pr Review_Verdict Review_Watch Review_Phases Review_Poll Review_Safety Review_Sample Review_Bounds Review_Close
begin

text \<open>
  \<^bold>\<open>OperationsCenter: dispatch, audits, decisions and refinement.\<close>

  OperationsCenter plans work on repositories, routes it to an execution backend and runs it under guardrails. The core of
  this development is the path every autonomous change takes: a proposal and a routing decision become an execution
  request (handoff), the policy engine judges it, capacity gates and budgets admit it, an adapter runs it inside a bounded
  recovery loop, and the usage store records what happened, which the next decisions read. Around it stand the subsystems
  that start work or follow it up: full audits of managed repositories under governance, with one audit per repository;
  the decision engine that turns insights into proposal candidates; the refinement loop of continuous improvement; the
  propagation of contract changes to the repositories they affect. All source paths below are under
  \<open>src/src/operations_center/\<close>.

  \<^bold>\<open>Theories and the code they model.\<close>

  \<^item> \<open>OC_Prelude\<close>: the Python operations the code uses (string search, split, join, replace, repr, truthiness, rounding),
    datetimes and durations as integers of microseconds, first-match rule tables as a locale, shared list lemmas.
  \<^item> \<open>Contracts\<close>: the enumerations and frozen models of \<open>contracts/\<close>, with the codec between members and values.
  \<^item> \<open>Fnmatch\<close>: the pattern language of Python's \<open>fnmatch\<close> as the policy code uses it, as an executable matcher.
  \<^item> \<open>Policy_Models\<close>, \<open>Policy_Engine\<close>: \<open>policy/models.py\<close>, \<open>policy/defaults.py\<close>, \<open>policy/engine.py\<close>. A check takes the pair
    of violations and warnings found so far and returns it extended; \<open>evaluate\<close> composes the eight checks in order.
  \<^item> \<open>Policy_Spec\<close>: what the engine promises, each guardrail on its own with its verdict; the refinement says that the
    status is the worst verdict. \<open>Policy_Validate\<close>: \<open>policy/validate.py\<close> and the validated constructor.
  \<^item> \<open>Runtime_Binding\<close>: \<open>policy/runtime_binding_policy.py\<close>. The constructor of CxRP's \<open>RuntimeBinding\<close>, which is not part of
    the repository, is the parameter \<open>mk_binding\<close>.
  \<^item> \<open>Backend_Health\<close>: \<open>backend_health/\<close>, the registry as a map, its four operations and the state machine they form.
  \<^item> \<open>Recovery\<close>: \<open>execution/recovery_loop/\<close>. A request is a pair of an object identity and its value, because the code
    compares requests with \<open>is\<close>; classifier, handlers and budget checker are functions the engine is built from.
  \<^item> \<open>Usage_Store\<close>, \<open>Usage_Cooldown\<close>, \<open>Usage_Decisions\<close>, \<open>Usage_Reports\<close>: \<open>execution/usage_store.py\<close>, by groups of methods.
    The file is optional JSON data; every writer loads it, updates it and saves it, and a save prunes events, recomputes
    the counters and fails when the disk is almost full. \<open>Usage_Safety\<close>: the sequences of these operations.
  \<^item> \<open>Usage_Budget\<close>: \<open>execution/usage_budget.py\<close>, the trailing-window budget over the token rows of the transcripts.
  \<^item> \<open>Limit_Classifier\<close>: \<open>backends/limit_classifier.py\<close> and \<open>backends/_capacity_classifier.py\<close>, their regular expressions as
    data with a matcher for the constructs that occur. \<open>Worker_Backend\<close>: \<open>backends/worker_backend_selector.py\<close>, with
    \<open>parse_worker_backend_reset\<close> as a parameter.
  \<^item> \<open>Coordinator\<close>: \<open>execution/handoff.py\<close> and \<open>execution/coordinator.py\<close>: the builder, the gates, the recovery loop, the
    writes after a dispatch. \<open>Coordinator_Safety\<close> and \<open>Coordinator_Gates\<close>: what they guarantee.
  \<^item> \<open>Json_Values\<close>: JSON documents as the stores and the evidence of insights use them.
  \<^item> \<open>Audit_Locks\<close>: \<open>audit_dispatch/lock_store.py\<close> and \<open>locks.py\<close>. The lock directory is a map from repositories to files,
    the registry of a process the set of repositories it holds; \<open>Audit_Lock_Safety\<close> puts any number of processes that start,
    crash, acquire, spawn and release into one step relation.
  \<^item> \<open>Audit_Dispatch\<close>: \<open>run_identity/\<close>, \<open>audit_toolset/\<close>, \<open>audit_dispatch/executor.py\<close>, \<open>lifecycle.py\<close> and \<open>api.py\<close>.
  \<^item> \<open>Audit_Governance\<close>: the checks, the decision and the state files of \<open>audit_governance/\<close>; \<open>Audit_Runner\<close>: coverage,
    reports and \<open>run_governed_audit\<close>, over an arbitrary dispatcher and over the modelled one; \<open>Audit_Runner_Safety\<close>:
    sequences of governed runs.
  \<^item> \<open>Propagation\<close>: \<open>propagation/\<close> and \<open>impact_analysis.py\<close>, with the platform graph and the board client as parameters.
  \<^item> \<open>Decision_Rules\<close>, \<open>Decision\<close>: \<open>decision/\<close>. A rule maps insights to candidate specs or raises; the engine passes the
    specs through its gates, each of which keeps or suppresses them.
  \<^item> \<open>Ci_Loop\<close>: \<open>contracts/ci.py\<close>, \<open>execution/ci_evaluator.py\<close>, \<open>ci_coordinator.py\<close> and \<open>ci_store.py\<close>.

  \<^item> \<open>Inflight_Reconcile\<close>: \<open>in_flight_reconcile.py\<close>, on the usage file. \<open>Schedules\<close>: \<open>scheduled_tasks/runner.py\<close> and
    \<open>maintenance_windows.py\<close> over a calendar of days, hours and weekdays.
  \<^item> \<open>Board\<close>: the task board as a service whose calls may fail in any pattern, the labels of
    \<open>entrypoints/board_worker/labels.py\<close> and the ceilings of \<open>work_ceiling.py\<close>; \<open>Board_Claim\<close>: \<open>claim.py\<close>; \<open>Board_Outcomes\<close>:
    \<open>outcomes.py\<close>. \<open>Forgejo_Board\<close>: the board's adapter \<open>adapters/forgejo/client.py\<close>, over a server that is a parameter.
    \<open>Board_Trust\<close>: the forwarded labels and the fence of \<open>injection.py\<close>. \<open>Board_Dispatch\<close>: \<open>dispatch.py\<close>, the scope
    check of the pushed branch and one cycle of \<open>main.py\<close>, over what the subprocesses and git answer.
  \<^item> \<open>Board_Unblock\<close>: the sweep of the board in \<open>entrypoints/maintenance/board_unblock.py\<close>, a rule per definition, and its
    periodic task \<open>board_unblock_task.py\<close>. \<open>Queue_Healing\<close>: \<open>queue_healing/\<close>, the scans of triage, priorities and running
    tasks, recovery budgets and the parked state. \<open>Maintenance\<close>: \<open>maintenance/registry.py\<close>, over restarts of the process.
  \<^item> \<open>Github_Pr\<close>: \<open>adapters/github_pr.py\<close> over a host that is a parameter and a log of the exchanges. \<open>Review_Verdict\<close>:
    \<open>entrypoints/pr_review_watcher/verdict.py\<close>. The review watcher \<open>entrypoints/pr_review_watcher/main.py\<close>: \<open>Review_Watch\<close> its
    state, flags, gates, merging and closing, \<open>Review_Phases\<close> the repair of CI, holds, preconditions and the outcome of a
    verdict, \<open>Review_Poll\<close> the council, the single review and a poll; clock, git, review members and fix passes are answers of
    a record of surroundings. \<open>Review_Safety\<close>, \<open>Review_Sample\<close>, \<open>Review_Bounds\<close> and \<open>Review_Close\<close> hold what it guarantees.

  \<^bold>\<open>State and errors.\<close> A Python object with state is a record that operations take and return; the usage file, the health
  registry and the recovery engine's state are threaded through \<open>execute\<close>. Exceptions are the left values of a sum: the
  operating-system error of a writer, the text of an exception an adapter, a policy engine, a recovery engine or a
  workspace raises, the unsupported backend. Readings of the clock, of free disk space and of \<open>/proc/meminfo\<close> and fresh run
  ids are arguments (the record \<open>world\<close>); nothing is assumed of them unless a theorem says so. JSON numbers and Python
  floats are rationals: rounding of floating-point arithmetic is not modelled. Timestamps are compared as instants.

  \<^bold>\<open>Loops.\<close> No fuel is chosen. Most recursion is structural; the recovery loop recurses on the number of passes left, which
  is \<open>max(1, max_attempts) - 1\<close> as in the \<open>range\<close> of the code. The refinement loop terminates by the attempts it has left
  and the template formatter by the text left to read. The wait for a file lock may run for ever under an arbitrary clock and is
  a partial function; that it ends under a clock that advances is a theorem.

  \<^bold>\<open>Interfaces.\<close> Locales state the contracts between the parts: enumerations as string codecs, first-match rule tables
  (path rules, validation requirements, repository policies, binding rules, the scan for an available worker), guardrail
  checks that only add findings, writers of the usage file and the writers that append one event, caps that compare a
  usage with a limit, recovery handlers, the gating stages of the decision engine that lose no spec. Each is interpreted on the definitions of the model that provide it, and the
  properties rest on the interpreted facts.

  \<^bold>\<open>What is shown.\<close>

  \<^item> Policy: refinement to the guardrail specification; local-only work stays local; review labels are not bypassed; a
    validated configuration enforces its path rules; which paths the default policy blocks.
  \<^item> Dispatch: an adapter is only called on a request the policy engine cleared and within every configured capacity
    limit, no restricted path is ever in the scope of a dispatched request, a refused call leaves no trace, a call ends
    with an outcome whatever the adapter does.
  \<^item> Recovery: exactly when the engine retries, that the loop is bounded, that its audit trail has an action per call, that
    requests with side effects are only repeated after failures before sending.
  \<^item> Usage store: the invariant of every reachable file, the rolling caps, the circuit breaker's isolation from quota
    events and its recovery, cooldown semantics, retry and no-op decisions, concurrency accounting, the reports. Events
    beyond the last 1000 are dropped by the code, so the theorems on caps and accounts state that bound.
  \<^item> Backends: limit attribution, selection, round robin; runtime binding; health registry.
  \<^item> Audits: no two recorded audits of a repository run at once, whatever crashes; a dispatch gives its lock back; COMPLETED
    means that the process and its contract files say so; governance permits what it should, its budget and cooldown hold
    over any sequence of runs without approvals, the wait for a state file ends.
  \<^item> Decisions: the limits of a decision, and that every spec is emitted or suppressed exactly once. Refinement: bounded
    attempts, and what an accepted run rests on. Propagation: one task per window and consumer, an outcome per consumer.
  \<^item> Board: what a claimed task satisfies, that splitting a task partitions its files, that chains of follow-ups end and keep
    the ceilings, how a failure is labelled; that a cycle
    of the worker settles its task and what a success rests on; transitions of the adapter are atomic; the sweep of leaked slots closes exactly the
    orphans; scheduled tasks keep their interval.
  \<^item> Board automation: where a sweep moves every issue, that promotions are gated, that sweeps come to rest and that their gate
    on open pull requests is the worker's; which tasks the queue healer moves; when a parked root cause is taken up again;
    maintenance tasks keep their interval across restarts.
  \<^item> Review: a merge needs every gate and the approval of a review member or of the whole council; fix passes are bounded; the
    repair of a red CI ends; a close leaves the task on the board and a receipt; what is handed to a human is left alone.
  \<^item> Some theorems record that the code departs from its intention: the root-level \<open>.ssh\<close> directory that the default rules
    miss, binding rules for a task type that does not exist, the unlocked reset that can lose an execution, a model name
    that is taken for a limit, a recovery option without effect; a crash that leaves an unprotected audit, two runners that
    together exceed a budget, state files two pairs share, an unreadable budget that switches the budget off; a rule
    whose family no gate lets through; a worse metric that counts as neutral, an accepted lineage that runs again; a
    deduplication window that lets the same version through, a template that ends a run without a record, a verification
    that is skipped silently, an adapter that knows no running state and that brings old states back, checks that cannot be
    read and do not stop a merge.

  \<^bold>\<open>Not modelled.\<close> The lock of the usage store (its operations are atomic steps, except the path that does not take it),
  \<open>issue_signature\<close>, reading of transcript files, environment variables (their parsed values are arguments), observability
  records, run memory and the context-lifecycle wrap, which do not change an outcome; adapters and
  executors, which are the adapter parameter; the prose of proposals (title hints, rationales, evidence bundles), which
  nothing reads back; the prompts of reviews and fix passes and the pipeline a fix pass runs; planning through models, observing and the operator tools, which are glue around processes and
  services.
\<close>

end
